(* ===== verification/Prelude.thy ===== *)
theory Prelude
  imports Complex_Main "HOL-Library.Log_Nat" "HOL-Library.AList"
begin

text \<open>
  Shared vocabulary of the development: the numeric conventions of the Python sources
  (\<^verbatim>\<open>Decimal\<close>, \<^verbatim>\<open>int()\<close>, \<^verbatim>\<open>quantize\<close>, binary floats), clock values, insertion ordered
  dictionaries, \<^verbatim>\<open>statistics.median\<close> and \<^verbatim>\<open>max(..., key=...)\<close>, with the lemmas that every
  component uses.

  \<^item> A \<^verbatim>\<open>Decimal\<close> is the rational number it denotes.  The context of
    \<^verbatim>\<open>domain/money.py\<close> keeps 50 significant digits; every operation below is exact, so a
    value is the one the code has whenever it fits in 50 digits, and differs from it in the
    50th digit of a non-terminating quotient otherwise.
  \<^item> \<^verbatim>\<open>Decimal.quantize\<close> and \<^verbatim>\<open>to_integral_value\<close> round half to even;
    \<^verbatim>\<open>int(Decimal)\<close> truncates towards zero.  Both are written out.
  \<^item> A \<^verbatim>\<open>datetime\<close> is its number of microseconds since the epoch.  The millisecond
    ages of the code go through a binary float, which is modelled (\<open>fl64\<close>).
\<close>

section \<open>Types\<close>

type_synonym usd = rat          \<comment> \<open>a Decimal amount of dollars\<close>
type_synonym pct = rat          \<comment> \<open>a Decimal percentage\<close>
type_synonym datetime = int     \<comment> \<open>microseconds since the epoch\<close>
type_synonym 'a pydict = "(string \<times> 'a) list" \<comment> \<open>insertion ordered dict\<close>

datatype py_error =
    ZeroDivisionError
  | ValueError string
  | KeyError string
  | RuntimeError string
  | AssertionError
  | ProviderError string

named_theorems money_simps "unfolding of the money and rounding helpers"

section \<open>Rounding\<close>

definition trunc_int :: "rat \<Rightarrow> int" where
  "trunc_int x = (if 0 \<le> x then \<lfloor>x\<rfloor> else \<lceil>x\<rceil>)"

definition round_half_even :: "rat \<Rightarrow> int" where
  "round_half_even x =
     (let f = \<lfloor>x\<rfloor>; d = x - of_int f
      in if d < 1/2 then f
         else if 1/2 < d then f + 1
         else if even f then f else f + 1)"

definition quantize :: "nat \<Rightarrow> rat \<Rightarrow> rat" where
  "quantize n x = of_int (round_half_even (x * 10 ^ n)) / 10 ^ n"

lemma trunc_int_of_int [simp]: "trunc_int (of_int k) = k"
  by (simp add: trunc_int_def)

lemma trunc_int_nonneg: "0 \<le> x \<Longrightarrow> 0 \<le> trunc_int x"
  by (simp add: trunc_int_def)

lemma trunc_int_le: "0 \<le> x \<Longrightarrow> of_int (trunc_int x) \<le> x"
  by (simp add: trunc_int_def)

lemma trunc_int_mono: "0 \<le> x \<Longrightarrow> x \<le> y \<Longrightarrow> trunc_int x \<le> trunc_int y"
  by (simp add: trunc_int_def floor_mono)

lemma trunc_int_0 [simp]: "trunc_int 0 = 0"
  by (simp add: trunc_int_def)

lemma round_half_even_of_int [simp]: "round_half_even (of_int k) = k"
  by (simp add: round_half_even_def)

lemma round_half_even_0 [simp]: "round_half_even 0 = 0"
  by (simp add: round_half_even_def)

lemma round_half_even_near: "\<bar>of_int (round_half_even x) - x\<bar> \<le> 1/2"
proof -
  have "of_int \<lfloor>x\<rfloor> \<le> x" "x < of_int \<lfloor>x\<rfloor> + 1"
    by linarith+
  then show ?thesis
    by (auto simp: round_half_even_def Let_def abs_le_iff)
qed

lemma round_half_even_mono:
  assumes "x \<le> y"
  shows "round_half_even x \<le> round_half_even y"
proof -
  have fl: "\<lfloor>x\<rfloor> \<le> \<lfloor>y\<rfloor>" using assms by (rule floor_mono)
  have range: "\<lfloor>z\<rfloor> \<le> round_half_even z \<and> round_half_even z \<le> \<lfloor>z\<rfloor> + 1" for z
    by (simp add: round_half_even_def Let_def)
  show ?thesis
  proof (cases "\<lfloor>x\<rfloor> = \<lfloor>y\<rfloor>")
    case True
    then show ?thesis using assms by (auto simp: round_half_even_def Let_def)
  next
    case False
    then have "\<lfloor>x\<rfloor> + 1 \<le> \<lfloor>y\<rfloor>" using fl by simp
    then show ?thesis using range [of x] range [of y] by linarith
  qed
qed

lemma round_half_even_nonneg: "0 \<le> x \<Longrightarrow> 0 \<le> round_half_even x"
  using round_half_even_mono [of 0 x] by simp

lemma quantize_mono: "x \<le> y \<Longrightarrow> quantize n x \<le> quantize n y"
  by (simp add: quantize_def divide_right_mono round_half_even_mono)

lemma quantize_nonneg: "0 \<le> x \<Longrightarrow> 0 \<le> quantize n x"
  by (simp add: quantize_def round_half_even_nonneg)

lemma quantize_0 [simp]: "quantize n 0 = 0"
  by (simp add: quantize_def)

lemma quantize_near: "\<bar>quantize n x - x\<bar> \<le> 1 / (2 * 10 ^ n)"
proof -
  have "\<bar>of_int (round_half_even (x * 10 ^ n)) - x * 10 ^ n\<bar> \<le> 1/2"
    by (rule round_half_even_near)
  moreover have "quantize n x - x =
      (of_int (round_half_even (x * 10 ^ n)) - x * 10 ^ n) / 10 ^ n"
    by (simp add: quantize_def field_simps)
  ultimately have "\<bar>quantize n x - x\<bar> =
      \<bar>of_int (round_half_even (x * 10 ^ n)) - x * 10 ^ n\<bar> / 10 ^ n"
    by (simp only: abs_divide) simp
  also have "\<dots> \<le> (1/2) / 10 ^ n"
    by (intro divide_right_mono round_half_even_near) simp
  finally show ?thesis by simp
qed

lemma quantize_fixed: "x * 10 ^ n = of_int k \<Longrightarrow> quantize n x = x"
  by (simp add: quantize_def field_simps)

lemma quantize_idem [simp]: "quantize n (quantize n x) = quantize n x"
  by (rule quantize_fixed) (simp add: quantize_def)

lemma quantize_of_int [simp]: "quantize n (of_int k) = of_int k"
  by (rule quantize_fixed [where k = "k * 10 ^ n"]) simp

lemma quantize_numeral [simp]: "quantize n (numeral k) = numeral k"
  using quantize_of_int [of n "numeral k"] by simp

lemma quantize_one [simp]: "quantize n 1 = 1"
  using quantize_of_int [of n 1] by simp

section \<open>Binary floats\<close>

text \<open>
  Rounding to 53 significant bits, half to even: the value of a Python \<^verbatim>\<open>float\<close>
  operation away from overflow and the subnormal range.
\<close>

definition bin_exponent :: "rat \<Rightarrow> int" where
  "bin_exponent x =
     (let (p, q) = quotient_of \<bar>x\<bar>; e = bitlen p - bitlen q
      in if (2::rat) powi e \<le> \<bar>x\<bar> then e else e - 1)"

definition fl64 :: "rat \<Rightarrow> rat" where
  "fl64 x =
     (if x = 0 then 0
      else let u = (2::rat) powi (bin_exponent x - 52)
           in of_int (round_half_even (x / u)) * u)"

text \<open>\<^verbatim>\<open>int((b - a).total_seconds() * 1000)\<close> and \<^verbatim>\<open>int((b - a).total_seconds())\<close>.\<close>

definition elapsed_ms :: "datetime \<Rightarrow> datetime \<Rightarrow> int" where
  "elapsed_ms a b = trunc_int (fl64 (fl64 (of_int (b - a) / 10 ^ 6) * 1000))"

definition elapsed_seconds :: "datetime \<Rightarrow> datetime \<Rightarrow> int" where
  "elapsed_seconds a b = trunc_int (fl64 (of_int (b - a) / 10 ^ 6))"

lemma fl64_0 [simp]: "fl64 0 = 0"
  by (simp add: fl64_def)

lemma fl64_nonneg: "0 \<le> x \<Longrightarrow> 0 \<le> fl64 x"
  by (auto simp: fl64_def Let_def intro!: mult_nonneg_nonneg round_half_even_nonneg)

text \<open>The leading bit is found, so one rounding moves a value by at most \<open>2\<^sup>-\<^sup>5\<^sup>3\<close> of it.\<close>

lemma bitlen_pow_le: "0 < p \<Longrightarrow> (2::rat) powi (bitlen p - 1) \<le> of_int p"
proof -
  assume p: "0 < p"
  then have nn: "0 \<le> bitlen p - 1"
    using bitlen_ge_iff_power [of "bitlen p" p] bitlen_le_iff_power [of p 0] by force
  have "(2::int) ^ nat (bitlen p - 1) \<le> p"
    using bitlen_bounds [OF p] by simp
  then have "(of_int (2 ^ nat (bitlen p - 1)) :: rat) \<le> of_int p"
    by (simp only: of_int_le_iff)
  then show ?thesis using nn by (simp add: power_int_def)
qed

lemma bitlen_lt_pow: "0 < p \<Longrightarrow> of_int p < (2::rat) powi (bitlen p)"
proof -
  assume p: "0 < p"
  have nn: "0 \<le> bitlen p" by (rule bitlen_nonneg)
  have "p < (2::int) ^ nat (bitlen p)"
    using bitlen_bounds [OF p] by simp
  then have "(of_int p :: rat) < of_int (2 ^ nat (bitlen p))"
    by (simp only: of_int_less_iff)
  then show ?thesis using nn by (simp add: power_int_def)
qed

lemma bin_exponent_le:
  assumes "x \<noteq> 0"
  shows "2 powi bin_exponent x \<le> \<bar>x\<bar>"
proof -
  obtain p q where pq: "quotient_of \<bar>x\<bar> = (p, q)" by force
  have q: "0 < q" using quotient_of_denom_pos [OF pq] .
  have x: "\<bar>x\<bar> = of_int p / of_int q" using quotient_of_div [OF pq] .
  have p: "0 < p"
    using assms q x by (metis abs_ge_zero abs_of_pos divide_le_0_iff not_le of_int_0_le_iff
        of_int_le_0_iff order_antisym zero_less_abs_iff zero_less_divide_iff of_int_0_less_iff)
  let ?e = "bitlen p - bitlen q"
  have "(2::rat) powi (?e - 1) = 2 powi (bitlen p - 1) / 2 powi (bitlen q)"
    by (simp flip: power_int_diff add: algebra_simps)
  also have "\<dots> \<le> of_int p / of_int q"
    using bitlen_pow_le [OF p] bitlen_lt_pow [OF q] q p
    by (intro frac_le) auto
  finally have "(2::rat) powi (?e - 1) \<le> \<bar>x\<bar>" using x by simp
  then show ?thesis by (simp add: bin_exponent_def pq Let_def)
qed

lemma fl64_near: "\<bar>fl64 x - x\<bar> \<le> \<bar>x\<bar> / 2 ^ 53"
proof (cases "x = 0")
  case False
  define u where "u = (2::rat) powi (bin_exponent x - 52)"
  have u: "0 < u" by (simp add: u_def)
  have "\<bar>of_int (round_half_even (x / u)) - x / u\<bar> * u \<le> 1/2 * u"
    using u by (intro mult_right_mono round_half_even_near) simp
  moreover have "fl64 x - x = (of_int (round_half_even (x / u)) - x / u) * u"
    using False u by (simp add: fl64_def u_def Let_def left_diff_distrib)
  ultimately have "\<bar>fl64 x - x\<bar> \<le> 1/2 * u" using u by (simp add: abs_mult)
  also have "1/2 * u = 2 powi bin_exponent x / 2 ^ 53"
    by (simp add: u_def power_int_diff)
  also have "\<dots> \<le> \<bar>x\<bar> / 2 ^ 53"
    using bin_exponent_le [OF False] by (intro divide_right_mono) auto
  finally show ?thesis .
qed simp

lemma elapsed_ms_nonneg: "a \<le> b \<Longrightarrow> 0 \<le> elapsed_ms a b"
  by (simp add: elapsed_ms_def trunc_int_nonneg fl64_nonneg)

text \<open>
  Within thirty years the float path loses at most the last millisecond: the age is the
  exact one or one less, never more.
\<close>

lemma elapsed_ms_near:
  assumes "a \<le> b" "b - a \<le> 10 ^ 15"
  shows "elapsed_ms a b = (b - a) div 1000 \<or> elapsed_ms a b = (b - a) div 1000 - 1"
proof -
  define d where "d = b - a"
  define y where "y = fl64 (of_int d / 10 ^ 6)"
  define z where "z = fl64 (y * 1000)"
  have d: "0 \<le> d" "(of_int d :: rat) \<le> 10 ^ 15"
  proof -
    have "d \<le> 10 ^ 15" using assms(2) by (simp add: d_def)
    then have "(of_int d :: rat) \<le> of_int (10 ^ 15)" by (simp only: of_int_le_iff)
    then show "(of_int d :: rat) \<le> 10 ^ 15" by simp
  qed (use assms(1) in \<open>simp add: d_def\<close>)
  have y: "\<bar>y - of_int d / 10 ^ 6\<bar> \<le> of_int d / 10 ^ 6 / 2 ^ 53"
    using fl64_near [of "of_int d / 10 ^ 6"] d by (simp add: y_def)
  have y0: "0 \<le> y" using d by (simp add: y_def fl64_nonneg)
  have z: "\<bar>z - y * 1000\<bar> \<le> y * 1000 / 2 ^ 53"
    using fl64_near [of "y * 1000"] y0 by (simp add: z_def)
  have near: "\<bar>z - of_int d / 1000\<bar> < 1 / 1000"
  proof -
    have y': "y \<le> of_int d / 10 ^ 6 + of_int d / 10 ^ 6 / 2 ^ 53"
      "of_int d / 10 ^ 6 - of_int d / 10 ^ 6 / 2 ^ 53 \<le> y"
      using y by (simp_all only: abs_le_iff) linarith+
    have z': "z \<le> y * 1000 + y * 1000 / 2 ^ 53" "y * 1000 - y * 1000 / 2 ^ 53 \<le> z"
      using z by (simp_all only: abs_le_iff) linarith+
    have "z - of_int d / 1000 < 1 / 1000" "- (1 / 1000) < z - of_int d / 1000"
      using y' z' d(2) y0 d(1) by simp_all
    then show ?thesis unfolding abs_less_iff by linarith
  qed
  have z0: "0 \<le> z" using y0 by (simp add: z_def fl64_nonneg)
  have e: "elapsed_ms a b = \<lfloor>z\<rfloor>"
    using z0 by (simp add: elapsed_ms_def z_def y_def d_def trunc_int_def)
  have split: "d = 1000 * (d div 1000) + d mod 1000" by simp
  define q where "q = d div 1000"
  define r where "r = d mod 1000"
  have r: "0 \<le> r" "r \<le> 999" unfolding r_def by simp_all
  have "(of_int d :: rat) = of_int (1000 * q + r)"
    unfolding q_def r_def by (rule arg_cong [OF split])
  then have dq: "of_int d / 1000 = (of_int q :: rat) + of_int r / 1000"
    by (simp add: field_simps)
  have r': "0 \<le> (of_int r :: rat)" "(of_int r :: rat) \<le> 999" using r by simp_all
  have "of_int q - 1 < z" "z < of_int q + 1"
    using near r' unfolding dq abs_less_iff by linarith+
  then have "\<lfloor>z\<rfloor> = q \<or> \<lfloor>z\<rfloor> = q - 1" by linarith
  then show ?thesis by (simp add: e q_def d_def)
qed

section \<open>Dictionaries and lists\<close>

text \<open>
  A Python dict keeps insertion order and an update in place keeps the position of the
  key: \<^const>\<open>AList.update\<close> on an association list.
\<close>

definition dict_get :: "'k \<Rightarrow> 'v \<Rightarrow> ('k \<times> 'v) list \<Rightarrow> 'v" where
  "dict_get k d xs = (case map_of xs k of None \<Rightarrow> d | Some v \<Rightarrow> v)"

definition dict_setdefault :: "'k \<Rightarrow> 'v \<Rightarrow> ('k \<times> 'v) list \<Rightarrow> ('k \<times> 'v) list" where
  "dict_setdefault k d xs = (if map_of xs k = None then xs @ [(k, d)] else xs)"

text \<open>\<^verbatim>\<open>v or 0\<close> for an optional number.\<close>

definition or_zero :: "('a :: zero) option \<Rightarrow> 'a" where
  "or_zero v = (case v of None \<Rightarrow> 0 | Some x \<Rightarrow> x)"

text \<open>\<^verbatim>\<open>max(xs, key=f)\<close> returns the first element of maximal key.\<close>

fun max_by :: "('a \<Rightarrow> 'b::linorder) \<Rightarrow> 'a \<Rightarrow> 'a list \<Rightarrow> 'a" where
  "max_by f b [] = b"
| "max_by f b (x # xs) = max_by f (if f b < f x then x else b) xs"

definition max_key :: "('a \<Rightarrow> 'b::linorder) \<Rightarrow> 'a list \<Rightarrow> 'a option" where
  "max_key f xs = (case xs of [] \<Rightarrow> None | x # xs' \<Rightarrow> Some (max_by f x xs'))"

lemma max_by_mem: "max_by f b xs \<in> insert b (set xs)"
  by (induction f b xs rule: max_by.induct) (auto split: if_splits)

lemma max_by_ge: "x \<in> insert b (set xs) \<Longrightarrow> f x \<le> f (max_by f b xs)"
proof (induction f b xs arbitrary: x rule: max_by.induct)
  case (2 f b y ys)
  let ?c = "if f b < f y then y else b"
  have "f ?c \<le> f (max_by f ?c ys)" by (rule "2.IH") simp
  moreover have "f b \<le> f ?c" "f y \<le> f ?c" by auto
  moreover have "z \<in> set ys \<Longrightarrow> f z \<le> f (max_by f ?c ys)" for z by (rule "2.IH") simp
  ultimately show ?case using "2.prems" by (auto simp del: max_by.simps simp: max_by.simps(2))
qed simp

lemma max_key_Some:
  "max_key f xs = Some m \<Longrightarrow> m \<in> set xs \<and> (\<forall>x \<in> set xs. f x \<le> f m)"
  using max_by_mem [of f "hd xs" "tl xs"] max_by_ge [of _ "hd xs" "tl xs" f]
  by (cases xs) (auto simp: max_key_def)

text \<open>\<^verbatim>\<open>statistics.median\<close>: it raises on an empty list, so the code guards each call.\<close>

definition median :: "rat list \<Rightarrow> rat option" where
  "median xs =
     (let s = sort xs; n = length s
      in if n = 0 then None
         else if odd n then Some (s ! (n div 2))
         else Some ((s ! (n div 2 - 1) + s ! (n div 2)) / 2))"

lemma median_cases:
  assumes "median xs = Some m"
  obtains i where "i < length xs" "m = sort xs ! i"
    | i j where "i < length xs" "j < length xs" "m = (sort xs ! i + sort xs ! j) / 2"
proof (cases "odd (length xs)")
  case True
  then have "m = sort xs ! (length xs div 2)" "length xs div 2 < length xs"
    using assms by (auto simp: median_def Let_def elim: oddE split: if_splits)
  then show ?thesis by (rule that(1) [rotated])
next
  case False
  then have "m = (sort xs ! (length xs div 2 - 1) + sort xs ! (length xs div 2)) / 2"
    "0 < length xs"
    using assms by (auto simp: median_def Let_def split: if_splits)
  then show ?thesis
    by (intro that(2) [of "length xs div 2 - 1" "length xs div 2"] less_imp_diff_less) auto
qed

lemma median_between:
  assumes "median xs = Some m" "\<forall>x \<in> set xs. lo \<le> x \<and> x \<le> hi"
  shows "lo \<le> m \<and> m \<le> hi"
proof -
  have el: "lo \<le> sort xs ! i \<and> sort xs ! i \<le> hi" if "i < length xs" for i
  proof -
    have "sort xs ! i \<in> set (sort xs)" using that by (intro nth_mem) simp
    then show ?thesis using assms(2) by simp
  qed
  from assms(1) show ?thesis
  proof (cases rule: median_cases)
    case (1 i)
    then show ?thesis using el by simp
  next
    case (2 i j)
    then show ?thesis using el [of i] el [of j] by simp
  qed
qed

lemma sum_list_nonneg_rat: "\<forall>x \<in> set xs. (0::rat) \<le> x \<Longrightarrow> 0 \<le> sum_list xs"
  by (rule sum_list_nonneg) auto

end
