(* ===== verification/Domain_Enums.thy ===== *)
theory Domain_Enums
  imports Prelude
begin

text \<open>
  \<^verbatim>\<open>domain/enums.py\<close>: the string enums of the system with their stored values, and
  the predicates the code derives from them.  Constructors carry a prefix per enum, since
  the Python members are qualified by their class.
\<close>

section \<open>Trades and traders\<close>

text \<open>\<^verbatim>\<open>Action\<close>, the classification of a parsed transaction (PRD 16).\<close>

datatype action =
    ACT_BUY
  | ACT_SELL
  | ACT_PARTIAL_SELL
  | ACT_TRANSFER
  | ACT_LP_INTERACTION
  | ACT_TOKEN_RECEIPT
  | ACT_UNKNOWN

fun action_value :: "action \<Rightarrow> string" where
  "action_value ACT_BUY = ''buy''"
| "action_value ACT_SELL = ''sell''"
| "action_value ACT_PARTIAL_SELL = ''partial_sell''"
| "action_value ACT_TRANSFER = ''transfer''"
| "action_value ACT_LP_INTERACTION = ''lp_interaction''"
| "action_value ACT_TOKEN_RECEIPT = ''token_receipt''"
| "action_value ACT_UNKNOWN = ''unknown''"

definition is_copyable :: "action \<Rightarrow> bool" where
  "is_copyable a \<longleftrightarrow> a \<in> {ACT_BUY, ACT_SELL, ACT_PARTIAL_SELL}"

text \<open>\<^verbatim>\<open>Decision\<close>\<close>

datatype decision =
    DEC_COPY
  | DEC_REJECT
  | DEC_DEFER

fun decision_value :: "decision \<Rightarrow> string" where
  "decision_value DEC_COPY = ''copy''"
| "decision_value DEC_REJECT = ''reject''"
| "decision_value DEC_DEFER = ''defer''"

text \<open>\<^verbatim>\<open>TraderStatus\<close>, the trader lifecycle (PRD 15).\<close>

datatype trader_status =
    TS_DISCOVERED
  | TS_ANALYZING
  | TS_CANDIDATE
  | TS_PROBATION
  | TS_ACTIVE
  | TS_DEGRADED
  | TS_SUSPENDED
  | TS_BLACKLISTED

fun trader_status_value :: "trader_status \<Rightarrow> string" where
  "trader_status_value TS_DISCOVERED = ''discovered''"
| "trader_status_value TS_ANALYZING = ''analyzing''"
| "trader_status_value TS_CANDIDATE = ''candidate''"
| "trader_status_value TS_PROBATION = ''probation''"
| "trader_status_value TS_ACTIVE = ''active''"
| "trader_status_value TS_DEGRADED = ''degraded''"
| "trader_status_value TS_SUSPENDED = ''suspended''"
| "trader_status_value TS_BLACKLISTED = ''blacklisted''"

definition is_followed :: "trader_status \<Rightarrow> bool" where
  "is_followed s \<longleftrightarrow> s \<in> {TS_PROBATION, TS_ACTIVE}"

text \<open>\<^verbatim>\<open>PositionStatus\<close>\<close>

datatype position_status =
    POS_PENDING
  | POS_OPEN
  | POS_REDUCING
  | POS_CLOSED
  | POS_FAILED

fun position_status_value :: "position_status \<Rightarrow> string" where
  "position_status_value POS_PENDING = ''pending''"
| "position_status_value POS_OPEN = ''open''"
| "position_status_value POS_REDUCING = ''reducing''"
| "position_status_value POS_CLOSED = ''closed''"
| "position_status_value POS_FAILED = ''failed''"

text \<open>\<^verbatim>\<open>PositionEventType\<close>\<close>

datatype position_event_type =
    PEV_OPENED
  | PEV_INCREASED
  | PEV_REDUCED
  | PEV_CLOSED
  | PEV_MARKED

fun position_event_type_value :: "position_event_type \<Rightarrow> string" where
  "position_event_type_value PEV_OPENED = ''opened''"
| "position_event_type_value PEV_INCREASED = ''increased''"
| "position_event_type_value PEV_REDUCED = ''reduced''"
| "position_event_type_value PEV_CLOSED = ''closed''"
| "position_event_type_value PEV_MARKED = ''marked''"

text \<open>\<^verbatim>\<open>ExitReason\<close> (PRD 28)\<close>

datatype exit_reason =
    EXIT_MIRROR
  | EXIT_STOP_LOSS
  | EXIT_TAKE_PROFIT
  | EXIT_TRAILING_STOP
  | EXIT_TIME_EXIT
  | EXIT_TRADER_DEGRADED
  | EXIT_LIQUIDITY_DETERIORATION
  | EXIT_EMERGENCY
  | EXIT_MANUAL

fun exit_reason_value :: "exit_reason \<Rightarrow> string" where
  "exit_reason_value EXIT_MIRROR = ''mirror_exit''"
| "exit_reason_value EXIT_STOP_LOSS = ''stop_loss''"
| "exit_reason_value EXIT_TAKE_PROFIT = ''take_profit''"
| "exit_reason_value EXIT_TRAILING_STOP = ''trailing_stop''"
| "exit_reason_value EXIT_TIME_EXIT = ''time_exit''"
| "exit_reason_value EXIT_TRADER_DEGRADED = ''trader_degraded''"
| "exit_reason_value EXIT_LIQUIDITY_DETERIORATION = ''liquidity_deterioration''"
| "exit_reason_value EXIT_EMERGENCY = ''emergency''"
| "exit_reason_value EXIT_MANUAL = ''manual''"

text \<open>\<^verbatim>\<open>OrderStatus\<close>\<close>

datatype order_status =
    ORD_CREATED
  | ORD_BUILT
  | ORD_SIMULATED
  | ORD_SUBMITTED
  | ORD_CONFIRMED
  | ORD_FAILED
  | ORD_EXPIRED

fun order_status_value :: "order_status \<Rightarrow> string" where
  "order_status_value ORD_CREATED = ''created''"
| "order_status_value ORD_BUILT = ''built''"
| "order_status_value ORD_SIMULATED = ''simulated''"
| "order_status_value ORD_SUBMITTED = ''submitted''"
| "order_status_value ORD_CONFIRMED = ''confirmed''"
| "order_status_value ORD_FAILED = ''failed''"
| "order_status_value ORD_EXPIRED = ''expired''"

text \<open>\<^verbatim>\<open>SystemState\<close>, the emergency controls (PRD 55).\<close>

datatype system_state =
    SYS_STOPPED
  | SYS_RUNNING
  | SYS_SOFT_PAUSED
  | SYS_HARD_PAUSED
  | SYS_KILLED

fun system_state_value :: "system_state \<Rightarrow> string" where
  "system_state_value SYS_STOPPED = ''stopped''"
| "system_state_value SYS_RUNNING = ''running''"
| "system_state_value SYS_SOFT_PAUSED = ''soft_paused''"
| "system_state_value SYS_HARD_PAUSED = ''hard_paused''"
| "system_state_value SYS_KILLED = ''killed''"

definition system_state_members :: "system_state list" where
  "system_state_members =
     [SYS_STOPPED,
      SYS_RUNNING,
      SYS_SOFT_PAUSED,
      SYS_HARD_PAUSED,
      SYS_KILLED]"

text \<open>Calling the enum class on a string: \<^const>\<open>None\<close> is the ValueError.\<close>

definition system_state_of_value :: "string \<Rightarrow> system_state option" where
  "system_state_of_value s = find (\<lambda>r. system_state_value r = s) system_state_members"

definition allows_entries :: "system_state \<Rightarrow> bool" where
  "allows_entries s \<longleftrightarrow> s = SYS_RUNNING"

definition allows_exits :: "system_state \<Rightarrow> bool" where
  "allows_exits s \<longleftrightarrow> s \<noteq> SYS_KILLED"

definition is_started :: "system_state \<Rightarrow> bool" where
  "is_started s \<longleftrightarrow> s \<noteq> SYS_STOPPED"

text \<open>\<^verbatim>\<open>Reason\<close>, the reason codes every decision carries (PRD 41).\<close>

datatype reason =
    R_HIGH_TRADER_SCORE
  | R_HIGH_COPYABILITY
  | R_ACCEPTABLE_PRICE_MOVE
  | R_SUFFICIENT_LIQUIDITY
  | R_ACCEPTABLE_SLIPPAGE
  | R_TOKEN_SAFETY_PASS
  | R_MULTI_TRADER_CONFIRMATION
  | R_TRADER_NOT_FOLLOWED
  | R_TRADER_SCORE_TOO_LOW
  | R_TRADER_CONFIDENCE_TOO_LOW
  | R_COPYABILITY_TOO_LOW
  | R_TRADER_DEGRADED
  | R_TRADER_BUDGET_EXHAUSTED
  | R_PRICE_MOVED_TOO_FAR
  | R_PRICE_MOVE_REDUCED_SIZE
  | R_SIGNAL_TOO_OLD
  | R_LATENCY_EXCEEDS_TRADER_TOLERANCE
  | R_LOW_LIQUIDITY
  | R_POSITION_TOO_LARGE_FOR_LIQUIDITY
  | R_EXPECTED_SLIPPAGE_TOO_HIGH
  | R_ALPHA_BELOW_COST
  | R_NO_ROUTE
  | R_MARKET_CAP_TOO_LOW
  | R_MARKET_CAP_TOO_HIGH
  | R_TOKEN_TOO_NEW
  | R_TOKEN_EXPOSURE_LIMIT
  | R_TRADER_EXPOSURE_LIMIT
  | R_MAX_OPEN_POSITIONS
  | R_PORTFOLIO_DEPLOYED_LIMIT
  | R_DAILY_LOSS_LIMIT
  | R_DRAWDOWN_LIMIT
  | R_INSUFFICIENT_CAPITAL
  | R_POSITION_BELOW_MINIMUM
  | R_TOO_MANY_PENDING
  | R_TOKEN_RISK_TOO_HIGH
  | R_MINT_AUTHORITY_ACTIVE
  | R_FREEZE_AUTHORITY_ACTIVE
  | R_HOLDER_CONCENTRATION
  | R_LP_NOT_BURNED
  | R_INSIDER_PATTERN
  | R_DEPLOYER_LINKED
  | R_SYSTEM_NOT_STARTED
  | R_SYSTEM_PAUSED
  | R_KILL_SWITCH_ACTIVE
  | R_DUPLICATE_SIGNAL
  | R_NON_COPYABLE_ACTION
  | R_STALE_MARKET_DATA
  | R_CRITICAL_DATA_UNAVAILABLE
  | R_NO_MATCHING_POSITION

fun reason_value :: "reason \<Rightarrow> string" where
  "reason_value R_HIGH_TRADER_SCORE = ''HIGH_TRADER_SCORE''"
| "reason_value R_HIGH_COPYABILITY = ''HIGH_COPYABILITY''"
| "reason_value R_ACCEPTABLE_PRICE_MOVE = ''ACCEPTABLE_PRICE_MOVE''"
| "reason_value R_SUFFICIENT_LIQUIDITY = ''SUFFICIENT_LIQUIDITY''"
| "reason_value R_ACCEPTABLE_SLIPPAGE = ''ACCEPTABLE_SLIPPAGE''"
| "reason_value R_TOKEN_SAFETY_PASS = ''TOKEN_SAFETY_PASS''"
| "reason_value R_MULTI_TRADER_CONFIRMATION = ''MULTI_TRADER_CONFIRMATION''"
| "reason_value R_TRADER_NOT_FOLLOWED = ''TRADER_NOT_FOLLOWED''"
| "reason_value R_TRADER_SCORE_TOO_LOW = ''TRADER_SCORE_TOO_LOW''"
| "reason_value R_TRADER_CONFIDENCE_TOO_LOW = ''TRADER_CONFIDENCE_TOO_LOW''"
| "reason_value R_COPYABILITY_TOO_LOW = ''COPYABILITY_TOO_LOW''"
| "reason_value R_TRADER_DEGRADED = ''TRADER_DEGRADED''"
| "reason_value R_TRADER_BUDGET_EXHAUSTED = ''TRADER_BUDGET_EXHAUSTED''"
| "reason_value R_PRICE_MOVED_TOO_FAR = ''PRICE_MOVED_TOO_FAR''"
| "reason_value R_PRICE_MOVE_REDUCED_SIZE = ''PRICE_MOVE_REDUCED_SIZE''"
| "reason_value R_SIGNAL_TOO_OLD = ''SIGNAL_TOO_OLD''"
| "reason_value R_LATENCY_EXCEEDS_TRADER_TOLERANCE = ''LATENCY_EXCEEDS_TRADER_TOLERANCE''"
| "reason_value R_LOW_LIQUIDITY = ''LOW_LIQUIDITY''"
| "reason_value R_POSITION_TOO_LARGE_FOR_LIQUIDITY = ''POSITION_TOO_LARGE_FOR_LIQUIDITY''"
| "reason_value R_EXPECTED_SLIPPAGE_TOO_HIGH = ''EXPECTED_SLIPPAGE_TOO_HIGH''"
| "reason_value R_ALPHA_BELOW_COST = ''ALPHA_BELOW_COST''"
| "reason_value R_NO_ROUTE = ''NO_ROUTE''"
| "reason_value R_MARKET_CAP_TOO_LOW = ''MARKET_CAP_TOO_LOW''"
| "reason_value R_MARKET_CAP_TOO_HIGH = ''MARKET_CAP_TOO_HIGH''"
| "reason_value R_TOKEN_TOO_NEW = ''TOKEN_TOO_NEW''"
| "reason_value R_TOKEN_EXPOSURE_LIMIT = ''TOKEN_EXPOSURE_LIMIT''"
| "reason_value R_TRADER_EXPOSURE_LIMIT = ''TRADER_EXPOSURE_LIMIT''"
| "reason_value R_MAX_OPEN_POSITIONS = ''MAX_OPEN_POSITIONS''"
| "reason_value R_PORTFOLIO_DEPLOYED_LIMIT = ''PORTFOLIO_DEPLOYED_LIMIT''"
| "reason_value R_DAILY_LOSS_LIMIT = ''DAILY_LOSS_LIMIT''"
| "reason_value R_DRAWDOWN_LIMIT = ''DRAWDOWN_LIMIT''"
| "reason_value R_INSUFFICIENT_CAPITAL = ''INSUFFICIENT_CAPITAL''"
| "reason_value R_POSITION_BELOW_MINIMUM = ''POSITION_BELOW_MINIMUM''"
| "reason_value R_TOO_MANY_PENDING = ''TOO_MANY_PENDING''"
| "reason_value R_TOKEN_RISK_TOO_HIGH = ''TOKEN_RISK_TOO_HIGH''"
| "reason_value R_MINT_AUTHORITY_ACTIVE = ''MINT_AUTHORITY_ACTIVE''"
| "reason_value R_FREEZE_AUTHORITY_ACTIVE = ''FREEZE_AUTHORITY_ACTIVE''"
| "reason_value R_HOLDER_CONCENTRATION = ''HOLDER_CONCENTRATION''"
| "reason_value R_LP_NOT_BURNED = ''LP_NOT_BURNED''"
| "reason_value R_INSIDER_PATTERN = ''INSIDER_PATTERN''"
| "reason_value R_DEPLOYER_LINKED = ''DEPLOYER_LINKED''"
| "reason_value R_SYSTEM_NOT_STARTED = ''SYSTEM_NOT_STARTED''"
| "reason_value R_SYSTEM_PAUSED = ''SYSTEM_PAUSED''"
| "reason_value R_KILL_SWITCH_ACTIVE = ''KILL_SWITCH_ACTIVE''"
| "reason_value R_DUPLICATE_SIGNAL = ''DUPLICATE_SIGNAL''"
| "reason_value R_NON_COPYABLE_ACTION = ''NON_COPYABLE_ACTION''"
| "reason_value R_STALE_MARKET_DATA = ''STALE_MARKET_DATA''"
| "reason_value R_CRITICAL_DATA_UNAVAILABLE = ''CRITICAL_DATA_UNAVAILABLE''"
| "reason_value R_NO_MATCHING_POSITION = ''NO_MATCHING_POSITION''"

definition reason_members :: "reason list" where
  "reason_members =
     [R_HIGH_TRADER_SCORE,
      R_HIGH_COPYABILITY,
      R_ACCEPTABLE_PRICE_MOVE,
      R_SUFFICIENT_LIQUIDITY,
      R_ACCEPTABLE_SLIPPAGE,
      R_TOKEN_SAFETY_PASS,
      R_MULTI_TRADER_CONFIRMATION,
      R_TRADER_NOT_FOLLOWED,
      R_TRADER_SCORE_TOO_LOW,
      R_TRADER_CONFIDENCE_TOO_LOW,
      R_COPYABILITY_TOO_LOW,
      R_TRADER_DEGRADED,
      R_TRADER_BUDGET_EXHAUSTED,
      R_PRICE_MOVED_TOO_FAR,
      R_PRICE_MOVE_REDUCED_SIZE,
      R_SIGNAL_TOO_OLD,
      R_LATENCY_EXCEEDS_TRADER_TOLERANCE,
      R_LOW_LIQUIDITY,
      R_POSITION_TOO_LARGE_FOR_LIQUIDITY,
      R_EXPECTED_SLIPPAGE_TOO_HIGH,
      R_ALPHA_BELOW_COST,
      R_NO_ROUTE,
      R_MARKET_CAP_TOO_LOW,
      R_MARKET_CAP_TOO_HIGH,
      R_TOKEN_TOO_NEW,
      R_TOKEN_EXPOSURE_LIMIT,
      R_TRADER_EXPOSURE_LIMIT,
      R_MAX_OPEN_POSITIONS,
      R_PORTFOLIO_DEPLOYED_LIMIT,
      R_DAILY_LOSS_LIMIT,
      R_DRAWDOWN_LIMIT,
      R_INSUFFICIENT_CAPITAL,
      R_POSITION_BELOW_MINIMUM,
      R_TOO_MANY_PENDING,
      R_TOKEN_RISK_TOO_HIGH,
      R_MINT_AUTHORITY_ACTIVE,
      R_FREEZE_AUTHORITY_ACTIVE,
      R_HOLDER_CONCENTRATION,
      R_LP_NOT_BURNED,
      R_INSIDER_PATTERN,
      R_DEPLOYER_LINKED,
      R_SYSTEM_NOT_STARTED,
      R_SYSTEM_PAUSED,
      R_KILL_SWITCH_ACTIVE,
      R_DUPLICATE_SIGNAL,
      R_NON_COPYABLE_ACTION,
      R_STALE_MARKET_DATA,
      R_CRITICAL_DATA_UNAVAILABLE,
      R_NO_MATCHING_POSITION]"

text \<open>Calling the enum class on a string: \<^const>\<open>None\<close> is the ValueError.\<close>

definition reason_of_value :: "string \<Rightarrow> reason option" where
  "reason_of_value s = find (\<lambda>r. reason_value r = s) reason_members"

text \<open>\<^verbatim>\<open>EventType\<close>, the events of the bus (PRD 50).\<close>

datatype event_type =
    EV_TRADER_DISCOVERED
  | EV_TRADER_SCORE_UPDATED
  | EV_TRADER_PROMOTED
  | EV_TRADER_DEGRADED
  | EV_SOURCE_TRADE_DETECTED
  | EV_TRADE_CANDIDATE_CREATED
  | EV_TRADE_APPROVED
  | EV_TRADE_REJECTED
  | EV_ORDER_SUBMITTED
  | EV_ORDER_CONFIRMED
  | EV_ORDER_FAILED
  | EV_POSITION_OPENED
  | EV_POSITION_REDUCED
  | EV_POSITION_CLOSED
  | EV_RISK_THRESHOLD_REACHED
  | EV_TRADING_HALTED
  | EV_HARVEST_THRESHOLD_REACHED
  | EV_PROFIT_HARVESTED
  | EV_DATA_PROVIDER_DEGRADED

fun event_type_value :: "event_type \<Rightarrow> string" where
  "event_type_value EV_TRADER_DISCOVERED = ''TRADER_DISCOVERED''"
| "event_type_value EV_TRADER_SCORE_UPDATED = ''TRADER_SCORE_UPDATED''"
| "event_type_value EV_TRADER_PROMOTED = ''TRADER_PROMOTED''"
| "event_type_value EV_TRADER_DEGRADED = ''TRADER_DEGRADED''"
| "event_type_value EV_SOURCE_TRADE_DETECTED = ''SOURCE_TRADE_DETECTED''"
| "event_type_value EV_TRADE_CANDIDATE_CREATED = ''TRADE_CANDIDATE_CREATED''"
| "event_type_value EV_TRADE_APPROVED = ''TRADE_APPROVED''"
| "event_type_value EV_TRADE_REJECTED = ''TRADE_REJECTED''"
| "event_type_value EV_ORDER_SUBMITTED = ''ORDER_SUBMITTED''"
| "event_type_value EV_ORDER_CONFIRMED = ''ORDER_CONFIRMED''"
| "event_type_value EV_ORDER_FAILED = ''ORDER_FAILED''"
| "event_type_value EV_POSITION_OPENED = ''POSITION_OPENED''"
| "event_type_value EV_POSITION_REDUCED = ''POSITION_REDUCED''"
| "event_type_value EV_POSITION_CLOSED = ''POSITION_CLOSED''"
| "event_type_value EV_RISK_THRESHOLD_REACHED = ''RISK_THRESHOLD_REACHED''"
| "event_type_value EV_TRADING_HALTED = ''TRADING_HALTED''"
| "event_type_value EV_HARVEST_THRESHOLD_REACHED = ''HARVEST_THRESHOLD_REACHED''"
| "event_type_value EV_PROFIT_HARVESTED = ''PROFIT_HARVESTED''"
| "event_type_value EV_DATA_PROVIDER_DEGRADED = ''DATA_PROVIDER_DEGRADED''"

section \<open>Values identify members\<close>

lemma system_state_of_value_value [simp]: "system_state_of_value (system_state_value s) = Some s"
  by (cases s) (simp_all add: system_state_of_value_def system_state_members_def)

lemma system_state_of_value_Some: "system_state_of_value v = Some s \<Longrightarrow> system_state_value s = v"
  by (auto simp: system_state_of_value_def find_Some_iff)

lemma reason_of_value_value [simp]: "reason_of_value (reason_value r) = Some r"
proof -
  have "r \<in> set reason_members" by (cases r) (simp_all add: reason_members_def)
  moreover have "list_all (\<lambda>q. reason_of_value (reason_value q) = Some q) reason_members"
    by code_simp
  ultimately show ?thesis by (simp add: list_all_iff)
qed

lemma reason_value_inj: "reason_value r = reason_value q \<Longrightarrow> r = q"
  by (metis reason_of_value_value option.inject)

lemma allows_entries_exits: "allows_entries s \<Longrightarrow> allows_exits s \<and> is_started s"
  by (simp add: allows_entries_def allows_exits_def is_started_def)

end
