(* ===== verification/Money.thy ===== *)
theory Money
  imports Domain_Enums
begin

text \<open>
  \<^verbatim>\<open>domain/money.py\<close>: unit conversions between raw integer token amounts and
  their decimal value, guarded percentages and quotients, and clamping.
\<close>

definition SOL_MINT :: string where
  "SOL_MINT = ''So11111111111111111111111111111111111111112''"

definition USDC_MINT :: string where
  "USDC_MINT = ''EPjFWdd5AufqSSqeM2qN1xzybapC8G4wEGGkZwyTDt1v''"

definition LAMPORTS_PER_SOL :: int where
  "LAMPORTS_PER_SOL = 1000000000"

definition raw_to_ui :: "int \<Rightarrow> nat \<Rightarrow> rat" where
  "raw_to_ui raw decimals = of_int raw / 10 ^ decimals"

definition ui_to_raw :: "rat \<Rightarrow> nat \<Rightarrow> int" where
  "ui_to_raw ui decimals = round_half_even (ui * 10 ^ decimals)"

definition lamports_to_sol :: "int \<Rightarrow> rat" where
  "lamports_to_sol lamports = of_int lamports / of_int LAMPORTS_PER_SOL"

definition sol_to_lamports :: "rat \<Rightarrow> int" where
  "sol_to_lamports sol = round_half_even (sol * of_int LAMPORTS_PER_SOL)"

definition pct_change :: "rat \<Rightarrow> rat \<Rightarrow> pct" where
  "pct_change old new = (if old = 0 then 0 else (new - old) / old * 100)"

definition bps :: "rat \<Rightarrow> rat" where
  "bps value = value * 100"

definition safe_div :: "rat \<Rightarrow> rat \<Rightarrow> rat \<Rightarrow> rat" where
  "safe_div a b dflt = (if b = 0 then dflt else a / b)"

definition clamp :: "rat \<Rightarrow> rat \<Rightarrow> rat \<Rightarrow> rat" where
  "clamp v lo hi = max lo (min hi v)"

declare raw_to_ui_def [money_simps] ui_to_raw_def [money_simps] lamports_to_sol_def [money_simps]
  sol_to_lamports_def [money_simps] pct_change_def [money_simps] safe_div_def [money_simps]

section \<open>Facts\<close>

lemma clamp_lower: "lo \<le> clamp v lo hi"
  by (simp add: clamp_def)

lemma clamp_upper: "lo \<le> hi \<Longrightarrow> clamp v lo hi \<le> hi"
  by (simp add: clamp_def)

lemma clamp_mono: "v \<le> w \<Longrightarrow> clamp v lo hi \<le> clamp w lo hi"
  by (auto simp: clamp_def)

lemma clamp_id: "lo \<le> v \<Longrightarrow> v \<le> hi \<Longrightarrow> clamp v lo hi = v"
  by (simp add: clamp_def)

lemma raw_to_ui_nonneg: "0 \<le> raw \<Longrightarrow> 0 \<le> raw_to_ui raw d"
  by (simp add: raw_to_ui_def)

lemma raw_to_ui_pos: "0 < raw \<Longrightarrow> 0 < raw_to_ui raw d"
  by (simp add: raw_to_ui_def)

lemma raw_to_ui_0 [simp]: "raw_to_ui 0 d = 0"
  by (simp add: raw_to_ui_def)

lemma raw_to_ui_mono: "a \<le> b \<Longrightarrow> raw_to_ui a d \<le> raw_to_ui b d"
  by (simp add: raw_to_ui_def divide_right_mono)

lemma raw_to_ui_diff: "raw_to_ui (a - b) d = raw_to_ui a d - raw_to_ui b d"
  by (simp add: raw_to_ui_def diff_divide_distrib)

lemma ui_to_raw_raw_to_ui [simp]: "ui_to_raw (raw_to_ui r d) d = r"
  by (simp add: ui_to_raw_def raw_to_ui_def)

lemma sol_to_lamports_lamports_to_sol [simp]: "sol_to_lamports (lamports_to_sol l) = l"
  by (simp add: sol_to_lamports_def lamports_to_sol_def LAMPORTS_PER_SOL_def)

lemma ui_to_raw_mono: "a \<le> b \<Longrightarrow> ui_to_raw a d \<le> ui_to_raw b d"
  by (simp add: ui_to_raw_def round_half_even_mono mult_right_mono)

text \<open>Going through raw units costs at most half a raw unit.\<close>

lemma raw_to_ui_ui_to_raw_near: "\<bar>raw_to_ui (ui_to_raw x d) d - x\<bar> \<le> 1 / (2 * 10 ^ d)"
  using quantize_near [of d x] by (simp add: raw_to_ui_def ui_to_raw_def quantize_def)

lemma pct_change_apply: "old \<noteq> 0 \<Longrightarrow> old * (1 + pct_change old new / 100) = new"
  by (simp add: pct_change_def field_simps)

lemma pct_change_le_iff:
  "0 < old \<Longrightarrow> pct_change old new \<le> p \<longleftrightarrow> new \<le> old * (1 + p / 100)"
  by (simp add: pct_change_def field_simps)

end
