(* ===== verification/Domain_Models.thy ===== *)
theory Domain_Models
  imports Money
begin

text \<open>
  \<^verbatim>\<open>domain/models.py\<close>: the internal domain objects as records, one per pydantic
  class, with their derived properties.  Identifiers (UUIDs) are natural numbers.  The free
  form \<^verbatim>\<open>detail\<close>, \<^verbatim>\<open>inputs\<close> and \<^verbatim>\<open>raw\<close> dictionaries only feed logs
  and the audit trail; the entries that a computation reads back are kept (the numeric trader
  notes, \<^verbatim>\<open>sold_fraction\<close> of a source trade).
\<close>

section \<open>Trader intelligence\<close>

record trader_scores =
  sc_performance :: rat
  sc_consistency :: rat
  sc_longevity :: rat
  sc_risk_adjusted :: rat
  sc_copyability :: rat
  sc_live_replication :: "rat option"
  sc_composite :: rat
  sc_confidence :: rat
  sc_sample_size :: int

definition default_scores :: trader_scores where
  "default_scores = \<lparr>sc_performance = 0, sc_consistency = 0, sc_longevity = 0,
     sc_risk_adjusted = 0, sc_copyability = 0, sc_live_replication = None, sc_composite = 0,
     sc_confidence = 0, sc_sample_size = 0\<rparr>"

record trader_profile =
  tr_wallet :: string
  tr_status :: trader_status
  tr_source :: string
  tr_scores :: trader_scores
  tr_median_hold_seconds :: "int option"
  tr_latency_tolerance_ms :: "int option"
  tr_avg_trade_size_usd :: "usd option"
  tr_win_rate :: "pct option"
  tr_trade_count :: int
  tr_risk_budget_pct :: pct
  tr_size_multiplier :: rat
  tr_notes :: "rat pydict"

definition default_trader :: "string \<Rightarrow> trader_profile" where
  "default_trader wallet = \<lparr>tr_wallet = wallet, tr_status = TS_DISCOVERED,
     tr_source = ''unknown'', tr_scores = default_scores, tr_median_hold_seconds = None,
     tr_latency_tolerance_ms = None, tr_avg_trade_size_usd = None, tr_win_rate = None,
     tr_trade_count = 0, tr_risk_budget_pct = 0, tr_size_multiplier = 1, tr_notes = []\<rparr>"

section \<open>Detection\<close>

record source_trade =
  st_id :: nat
  st_wallet :: string
  st_signature :: string
  st_slot :: int
  st_action :: action
  st_token_mint :: string
  st_quote_mint :: string
  st_token_amount_raw :: int
  st_quote_amount_raw :: int
  st_token_decimals :: nat
  st_quote_decimals :: nat
  st_source_price :: rat
  st_source_value_usd :: usd
  st_source_confirmed_at :: datetime
  st_detected_at :: datetime
  st_sold_fraction :: "rat option"

text \<open>
  The identity of a source transaction is a truncated SHA-256 of this string; the digest
  itself is a parameter of what uses it.
\<close>

definition dedupe_blob :: "source_trade \<Rightarrow> string" where
  "dedupe_blob t = ''solana'' @ ''|'' @ st_wallet t @ ''|'' @ st_signature t @ ''|''
     @ st_token_mint t @ ''|'' @ action_value (st_action t)"

definition dedupe_key :: "(string \<Rightarrow> string) \<Rightarrow> source_trade \<Rightarrow> string" where
  "dedupe_key sha256_hex t = take 40 (sha256_hex (dedupe_blob t))"

definition observation_latency_ms :: "source_trade \<Rightarrow> int" where
  "observation_latency_ms t = elapsed_ms (st_source_confirmed_at t) (st_detected_at t)"

record market_state =
  ms_mint :: string
  ms_price :: rat
  ms_price_usd :: usd
  ms_liquidity_usd :: usd
  ms_market_cap_usd :: usd
  ms_token_age_seconds :: "int option"
  ms_decimals :: nat
  ms_fetched_at :: datetime
  ms_stale :: bool

definition default_market :: "string \<Rightarrow> market_state" where
  "default_market mint = \<lparr>ms_mint = mint, ms_price = 0, ms_price_usd = 0, ms_liquidity_usd = 0,
     ms_market_cap_usd = 0, ms_token_age_seconds = None, ms_decimals = 9, ms_fetched_at = 0,
     ms_stale = False\<rparr>"

record token_risk =
  rk_mint :: string
  rk_score :: int
  rk_mint_authority_active :: "bool option"
  rk_freeze_authority_active :: "bool option"
  rk_top10_holder_pct :: "pct option"
  rk_is_honeypot :: "bool option"
  rk_insider_flags :: "string list"
  rk_reasons :: "reason list"
  rk_unknown :: bool

definition default_token_risk :: "string \<Rightarrow> token_risk" where
  "default_token_risk mint = \<lparr>rk_mint = mint, rk_score = 100, rk_mint_authority_active = None,
     rk_freeze_authority_active = None, rk_top10_holder_pct = None, rk_is_honeypot = None,
     rk_insider_flags = [], rk_reasons = [], rk_unknown = False\<rparr>"

record quote =
  q_input_mint :: string
  q_output_mint :: string
  q_in_amount_raw :: int
  q_out_amount_raw :: int
  q_price_impact_pct :: pct
  q_slippage_bps :: int
  q_route_label :: string

definition effective_price :: "quote \<Rightarrow> rat" where
  "effective_price q =
     (if q_out_amount_raw q = 0 then 0
      else of_int (q_in_amount_raw q) / of_int (q_out_amount_raw q))"

record trade_candidate =
  c_id :: nat
  c_source_trade :: source_trade
  c_trader :: trader_profile
  c_market :: market_state
  c_token_risk :: "token_risk option"
  c_quote :: "quote option"
  c_confirmations :: "string list"
  c_created_at :: datetime

section \<open>Latency\<close>

record latency_breakdown =
  lat_source_confirmed_at :: "datetime option"
  lat_detected_at :: "datetime option"
  lat_decision_completed_at :: "datetime option"
  lat_transaction_built_at :: "datetime option"
  lat_signed_at :: "datetime option"
  lat_submitted_at :: "datetime option"
  lat_confirmed_at :: "datetime option"

definition no_latency :: latency_breakdown where
  "no_latency = \<lparr>lat_source_confirmed_at = None, lat_detected_at = None,
     lat_decision_completed_at = None, lat_transaction_built_at = None, lat_signed_at = None,
     lat_submitted_at = None, lat_confirmed_at = None\<rparr>"

definition latency_ms :: "datetime option \<Rightarrow> datetime option \<Rightarrow> int option" where
  "latency_ms a b =
     (case (a, b) of (Some x, Some y) \<Rightarrow> Some (elapsed_ms x y) | _ \<Rightarrow> None)"

definition observation_ms :: "latency_breakdown \<Rightarrow> int option" where
  "observation_ms l = latency_ms (lat_source_confirmed_at l) (lat_detected_at l)"

definition analysis_ms :: "latency_breakdown \<Rightarrow> int option" where
  "analysis_ms l = latency_ms (lat_detected_at l) (lat_decision_completed_at l)"

definition execution_ms :: "latency_breakdown \<Rightarrow> int option" where
  "execution_ms l = latency_ms (lat_decision_completed_at l) (lat_submitted_at l)"

definition total_copy_ms :: "latency_breakdown \<Rightarrow> int option" where
  "total_copy_ms l = latency_ms (lat_source_confirmed_at l)
     (case lat_confirmed_at l of None \<Rightarrow> lat_submitted_at l | Some t \<Rightarrow> Some t)"

section \<open>Gates, decisions, orders\<close>

record gate_result =
  g_name :: string
  g_passed :: bool
  g_size_mult :: rat
  g_reasons :: "reason list"

definition gate_ok :: "string \<Rightarrow> reason list \<Rightarrow> rat \<Rightarrow> gate_result" where
  "gate_ok name reasons mult =
     \<lparr>g_name = name, g_passed = True, g_size_mult = mult, g_reasons = reasons\<rparr>"

definition gate_fail :: "string \<Rightarrow> reason list \<Rightarrow> gate_result" where
  "gate_fail name reasons =
     \<lparr>g_name = name, g_passed = False, g_size_mult = 0, g_reasons = reasons\<rparr>"

lemma gate_ok_simps [simp]:
  "g_passed (gate_ok n rs m)" "g_size_mult (gate_ok n rs m) = m"
  "g_reasons (gate_ok n rs m) = rs" "g_name (gate_ok n rs m) = n"
  by (simp_all add: gate_ok_def)

lemma gate_fail_simps [simp]:
  "\<not> g_passed (gate_fail n rs)" "g_size_mult (gate_fail n rs) = 0"
  "g_reasons (gate_fail n rs) = rs" "g_name (gate_fail n rs) = n"
  by (simp_all add: gate_fail_def)

record decision_result =
  d_candidate_id :: nat
  d_decision :: decision
  d_reasons :: "reason list"
  d_gates :: "gate_result list"
  d_size_usd :: usd
  d_size_pct :: pct
  d_size_multiplier :: rat
  d_reservation_id :: "string option"
  d_latency :: latency_breakdown
  d_strategy_version :: string

definition approved :: "decision_result \<Rightarrow> bool" where
  "approved d \<longleftrightarrow> d_decision d = DEC_COPY"

record approved_order =
  o_id :: nat
  o_idempotency_key :: string
  o_candidate :: trade_candidate
  o_action :: action
  o_input_mint :: string
  o_output_mint :: string
  o_in_amount_raw :: int
  o_size_usd :: usd
  o_slippage_bps :: int
  o_position_id :: "nat option"
  o_exit_reason :: "exit_reason option"
  o_reservation_id :: "string option"
  o_latency :: latency_breakdown

section \<open>Executions\<close>

record execution =
  ex_order_id :: nat
  ex_status :: order_status
  ex_mode :: string
  ex_signature :: "string option"
  ex_expected_price :: rat
  ex_actual_price :: rat
  ex_source_price :: rat
  ex_expected_slippage_pct :: pct
  ex_actual_slippage_pct :: pct
  ex_in_amount_raw :: int
  ex_out_amount_raw :: int
  ex_value_usd :: usd
  ex_network_fee_lamports :: int
  ex_priority_fee_lamports :: int
  ex_route :: string
  ex_failure_reason :: "string option"
  ex_latency :: latency_breakdown

definition succeeded :: "execution \<Rightarrow> bool" where
  "succeeded ex \<longleftrightarrow> ex_status ex = ORD_CONFIRMED"

definition total_fee_lamports :: "execution \<Rightarrow> int" where
  "total_fee_lamports ex = ex_network_fee_lamports ex + ex_priority_fee_lamports ex"

section \<open>Positions\<close>

record position =
  p_id :: nat
  p_token_mint :: string
  p_trader_wallet :: string
  p_status :: position_status
  p_decimals :: nat
  p_amount_raw :: int
  p_cost_basis_usd :: usd
  p_realized_pnl_usd :: usd
  p_fees_usd :: usd
  p_entry_price :: rat
  p_current_price :: rat
  p_peak_price :: rat
  p_trailing_armed :: bool
  p_tp_levels_hit :: "nat list"
  p_opened_at :: datetime
  p_closed_at :: "datetime option"
  p_source_trade_id :: "nat option"
  p_mode :: string

definition market_value_usd :: "position \<Rightarrow> usd" where
  "market_value_usd p =
     (if p_amount_raw p = 0 then 0
      else of_int (p_amount_raw p) / 10 ^ p_decimals p * p_current_price p)"

definition unrealized_pnl_usd :: "position \<Rightarrow> usd" where
  "unrealized_pnl_usd p =
     (if p_status p = POS_CLOSED \<or> p_amount_raw p = 0 then 0
      else market_value_usd p - p_cost_basis_usd p)"

definition total_pnl_usd :: "position \<Rightarrow> usd" where
  "total_pnl_usd p = p_realized_pnl_usd p + unrealized_pnl_usd p - p_fees_usd p"

definition pnl_pct :: "position \<Rightarrow> pct" where
  "pnl_pct p =
     (if p_entry_price p = 0 then 0
      else (p_current_price p - p_entry_price p) / p_entry_price p * 100)"

text \<open>The wall clock is the argument \<open>utcnow\<close>.\<close>

definition age_seconds :: "datetime \<Rightarrow> position \<Rightarrow> int" where
  "age_seconds utcnow p =
     elapsed_seconds (p_opened_at p) (case p_closed_at p of None \<Rightarrow> utcnow | Some e \<Rightarrow> e)"

section \<open>Portfolio\<close>

record portfolio_state =
  pf_active_capital_usd :: usd
  pf_cash_usd :: usd
  pf_deployed_usd :: usd
  pf_unrealized_pnl_usd :: usd
  pf_realized_pnl_today_usd :: usd
  pf_harvested_total_usd :: usd
  pf_high_water_mark_usd :: usd
  pf_open_positions :: int
  pf_sol_balance :: rat

definition total_equity_usd :: "portfolio_state \<Rightarrow> usd" where
  "total_equity_usd p = pf_cash_usd p + pf_deployed_usd p + pf_unrealized_pnl_usd p"

definition drawdown_pct :: "portfolio_state \<Rightarrow> pct" where
  "drawdown_pct p =
     (if pf_high_water_mark_usd p \<le> 0 then 0
      else (pf_high_water_mark_usd p - total_equity_usd p) / pf_high_water_mark_usd p * 100)"

definition deployed_pct :: "portfolio_state \<Rightarrow> pct" where
  "deployed_pct p =
     (let eq = total_equity_usd p in if eq \<le> 0 then 0 else pf_deployed_usd p / eq * 100)"

end
