(* ===== verification/Config.thy ===== *)
theory Config
  imports Domain_Models
begin

text \<open>
  \<^verbatim>\<open>config.py\<close>: the operating modes and every tunable, with the shipped defaults.
  The settings objects are passed to the operations that read them; credentials and endpoint
  strings that only reach HTTP clients are kept where a property of the class computes with
  them (\<open>rpc_url\<close>, \<open>ws_url\<close>) and left out elsewhere.
\<close>

datatype mode =
    MODE_BACKTEST
  | MODE_PAPER
  | MODE_SHADOW
  | MODE_LIVE

fun mode_value :: "mode \<Rightarrow> string" where
  "mode_value MODE_BACKTEST = ''backtest''"
| "mode_value MODE_PAPER = ''paper''"
| "mode_value MODE_SHADOW = ''shadow''"
| "mode_value MODE_LIVE = ''live''"

definition mode_of_value :: "string \<Rightarrow> mode option" where
  "mode_of_value s =
     find (\<lambda>m. mode_value m = s) [MODE_BACKTEST, MODE_PAPER, MODE_SHADOW, MODE_LIVE]"

lemma mode_of_value_value [simp]: "mode_of_value (mode_value m) = Some m"
  by (cases m) (simp_all add: mode_of_value_def)

datatype risk_preset = PRESET_CONSERVATIVE | PRESET_BALANCED | PRESET_AGGRESSIVE

record copyability_config =
  price_move_normal_pct :: pct
  price_move_acceptable_pct :: pct
  price_move_reduced_pct :: pct
  price_move_caution_pct :: pct
  price_move_reduced_mult :: rat
  price_move_caution_mult :: rat
  max_total_copy_latency_ms :: int
  max_detection_age_ms :: int
  min_liquidity_usd :: usd
  max_position_pct_of_liquidity :: pct
  max_expected_slippage_pct :: pct
  slippage_safety_margin_pct :: pct
  execution_slippage_bps :: int
  min_market_cap_usd :: usd
  max_market_cap_usd :: usd
  min_token_age_seconds :: int
  new_token_age_seconds :: int
  new_token_size_mult :: rat
  max_token_exposure_pct :: pct
  max_trader_exposure_pct :: pct
  max_open_positions :: int
  max_token_risk_score :: int
  min_trader_score :: rat
  min_copyability_score :: rat
  min_trader_confidence :: rat

definition default_copyability :: copyability_config where
  "default_copyability = \<lparr>
     price_move_normal_pct = 1, price_move_acceptable_pct = 3, price_move_reduced_pct = 5,
     price_move_caution_pct = 8, price_move_reduced_mult = 1/2, price_move_caution_mult = 1/4,
     max_total_copy_latency_ms = 30000, max_detection_age_ms = 15000,
     min_liquidity_usd = 25000, max_position_pct_of_liquidity = 1,
     max_expected_slippage_pct = 3, slippage_safety_margin_pct = 1,
     execution_slippage_bps = 300,
     min_market_cap_usd = 50000, max_market_cap_usd = 500000000,
     min_token_age_seconds = 300, new_token_age_seconds = 3600, new_token_size_mult = 1/2,
     max_token_exposure_pct = 5, max_trader_exposure_pct = 15, max_open_positions = 20,
     max_token_risk_score = 40, min_trader_score = 60, min_copyability_score = 55,
     min_trader_confidence = 50\<rparr>"

record risk_config =
  preset :: risk_preset
  base_position_pct :: pct
  min_position_usd :: usd
  max_position_pct :: pct
  max_daily_loss_pct :: pct
  max_drawdown_pct :: pct
  max_portfolio_deployed_pct :: pct
  max_trader_risk_budget_pct :: pct
  max_concurrent_pending :: int
  harvest_threshold_pct :: pct
  harvest_take_pct :: pct
  min_active_capital_usd :: usd
  sol_gas_reserve :: rat
  stop_loss_pct :: pct
  take_profit_ladder :: "(pct \<times> pct) list"
  trailing_stop_pct :: pct
  trailing_arm_pct :: pct
  max_hold_seconds :: int

definition default_risk :: risk_config where
  "default_risk = \<lparr>
     preset = PRESET_BALANCED, base_position_pct = 3/4, min_position_usd = 10,
     max_position_pct = 2, max_daily_loss_pct = 5, max_drawdown_pct = 20,
     max_portfolio_deployed_pct = 60, max_trader_risk_budget_pct = 15,
     max_concurrent_pending = 5, harvest_threshold_pct = 25, harvest_take_pct = 40,
     min_active_capital_usd = 500, sol_gas_reserve = 1/4, stop_loss_pct = -25,
     take_profit_ladder = [(50, 25), (100, 25), (300, 25)], trailing_stop_pct = 20,
     trailing_arm_pct = 40, max_hold_seconds = 86400\<rparr>"

record settings =
  mode_setting :: mode
  helius_api_key :: string
  helius_rpc_url :: string
  helius_ws_url :: string
  helius_max_rps :: int
  backfill_pages :: nat
  rpc_fallback_url :: string
  monthly_credit_budget :: int
  gmgn_api_key :: string
  gmgn_enabled :: bool
  gmgn_plan_weight :: int
  gmgn_discovery_limit :: int
  gmgn_auto_add :: bool
  target_roster_size :: int
  scoring_budget_bootstrap :: int
  scoring_budget_steady :: int
  candidate_cooldown_days :: int
  gmgn_min_realized_usd :: usd
  gmgn_min_trades :: int
  gmgn_min_winrate_pct :: pct
  gmgn_max_trades_per_day :: int
  gmgn_min_balance_sol :: rat
  gmgn_max_balance_sol :: rat
  gmgn_excluded_tags :: "string list"
  trading_wallet_pubkey :: string
  treasury_wallet_pubkey :: string
  signer_max_lamports :: int
  priority_fee_lamports :: int
  max_priority_fee_lamports :: int
  mev_protection_enabled :: bool
  mev_tip_bps :: rat
  max_tip_lamports :: int
  assumed_sol_price_usd :: usd
  starting_capital_usd :: usd
  telegram_bot_token :: string
  telegram_chat_id :: string
  discord_webhook_url :: string
  alert_webhook_url :: string
  alert_min_level :: string
  session_ttl_seconds :: int
  session_cookie_secure :: bool
  api_token :: string
  copyability :: copyability_config
  risk :: risk_config

definition default_settings :: settings where
  "default_settings = \<lparr>
     mode_setting = MODE_PAPER, helius_api_key = [], helius_rpc_url = [], helius_ws_url = [],
     helius_max_rps = 8, backfill_pages = 3,
     rpc_fallback_url = ''https://api.mainnet-beta.solana.com'',
     monthly_credit_budget = 1000000, gmgn_api_key = [], gmgn_enabled = True,
     gmgn_plan_weight = 5, gmgn_discovery_limit = 100, gmgn_auto_add = True,
     target_roster_size = 15, scoring_budget_bootstrap = 25, scoring_budget_steady = 5,
     candidate_cooldown_days = 30, gmgn_min_realized_usd = 1000, gmgn_min_trades = 20,
     gmgn_min_winrate_pct = 40, gmgn_max_trades_per_day = 100, gmgn_min_balance_sol = 0,
     gmgn_max_balance_sol = 0, gmgn_excluded_tags = [''wash_trader''], trading_wallet_pubkey = [], treasury_wallet_pubkey = [],
     signer_max_lamports = 2000000000, priority_fee_lamports = 100000,
     max_priority_fee_lamports = 2000000, mev_protection_enabled = True, mev_tip_bps = 15,
     max_tip_lamports = 10000000, assumed_sol_price_usd = 150, starting_capital_usd = 1000,
     telegram_bot_token = [], telegram_chat_id = [], discord_webhook_url = [],
     alert_webhook_url = [], alert_min_level = ''warning'',
     session_ttl_seconds = 43200, session_cookie_secure = False,
     api_token = ''dev-token-change-me'',
     copyability = default_copyability, risk = default_risk\<rparr>"

definition rpc_url :: "settings \<Rightarrow> string" where
  "rpc_url s =
     (if helius_rpc_url s \<noteq> [] then helius_rpc_url s
      else if helius_api_key s \<noteq> []
        then ''https://mainnet.helius-rpc.com/?api-key='' @ helius_api_key s
      else rpc_fallback_url s)"

definition ws_url :: "settings \<Rightarrow> string" where
  "ws_url s =
     (if helius_ws_url s \<noteq> [] then helius_ws_url s
      else if helius_api_key s \<noteq> []
        then ''wss://mainnet.helius-rpc.com/?api-key='' @ helius_api_key s
      else ''wss://api.mainnet-beta.solana.com'')"

definition is_live :: "settings \<Rightarrow> bool" where
  "is_live s \<longleftrightarrow> mode_setting s = MODE_LIVE"

section \<open>Well-formed configurations\<close>

text \<open>
  The ordering of the price bands and the sign and size of the multipliers.  Nothing in the
  code enforces it; the defaults satisfy it.
\<close>

definition copy_cfg_ok :: "copyability_config \<Rightarrow> bool" where
  "copy_cfg_ok c \<longleftrightarrow>
     price_move_normal_pct c \<le> price_move_acceptable_pct c \<and>
     price_move_acceptable_pct c \<le> price_move_reduced_pct c \<and>
     price_move_reduced_pct c \<le> price_move_caution_pct c \<and>
     0 \<le> price_move_caution_mult c \<and>
     price_move_caution_mult c \<le> price_move_reduced_mult c \<and>
     price_move_reduced_mult c \<le> 1 \<and>
     0 \<le> new_token_size_mult c \<and> new_token_size_mult c \<le> 1 \<and>
     0 \<le> max_position_pct_of_liquidity c"

lemma default_copy_cfg_ok: "copy_cfg_ok default_copyability"
  by (simp add: copy_cfg_ok_def default_copyability_def)

end
