(* ===== verification/Gates.thy ===== *)
theory Gates
  imports Config
begin

text \<open>
  \<^verbatim>\<open>engine/gates.py\<close>: the copyability gates (PRD 17-20).  Each gate is a function of
  the candidate and the configuration; \<open>run_entry_gates\<close> runs all of them and multiplies the
  size multipliers of those that pass.
\<close>

section \<open>The gates\<close>

definition trader_gate :: "trade_candidate \<Rightarrow> copyability_config \<Rightarrow> gate_result" where
  "trader_gate c cfg =
     (let t = c_trader c; s = tr_scores t in
      if \<not> is_followed (tr_status t) then gate_fail ''trader'' [R_TRADER_NOT_FOLLOWED]
      else if sc_composite s < min_trader_score cfg
        then gate_fail ''trader'' [R_TRADER_SCORE_TOO_LOW]
      else if sc_confidence s < min_trader_confidence cfg
        then gate_fail ''trader'' [R_TRADER_CONFIDENCE_TOO_LOW]
      else if sc_copyability s < min_copyability_score cfg
        then gate_fail ''trader'' [R_COPYABILITY_TOO_LOW]
      else gate_ok ''trader'' [R_HIGH_TRADER_SCORE, R_HIGH_COPYABILITY] (tr_size_multiplier t))"

definition candidate_price :: "trade_candidate \<Rightarrow> rat" where
  "candidate_price c =
     (if st_quote_mint (c_source_trade c) = SOL_MINT then ms_price (c_market c)
      else ms_price_usd (c_market c))"

definition price_chase_gate :: "trade_candidate \<Rightarrow> copyability_config \<Rightarrow> gate_result" where
  "price_chase_gate c cfg =
     (let src = st_source_price (c_source_trade c); now = candidate_price c in
      if src \<le> 0 \<or> now \<le> 0 then gate_fail ''price_chase'' [R_CRITICAL_DATA_UNAVAILABLE]
      else
        let move = pct_change src now;
            adverse = (if st_action (c_source_trade c) = ACT_BUY then move else - move)
        in if adverse \<le> price_move_normal_pct cfg
             then gate_ok ''price_chase'' [R_ACCEPTABLE_PRICE_MOVE] 1
           else if adverse \<le> price_move_acceptable_pct cfg
             then gate_ok ''price_chase'' [R_ACCEPTABLE_PRICE_MOVE] 1
           else if adverse \<le> price_move_reduced_pct cfg
             then gate_ok ''price_chase'' [R_PRICE_MOVE_REDUCED_SIZE]
                    (price_move_reduced_mult cfg)
           else if adverse \<le> price_move_caution_pct cfg
             then gate_ok ''price_chase'' [R_PRICE_MOVE_REDUCED_SIZE]
                    (price_move_caution_mult cfg)
           else gate_fail ''price_chase'' [R_PRICE_MOVED_TOO_FAR])"

text \<open>
  \<^verbatim>\<open>if tol and ...\<close> is false for an absent and for a zero tolerance.  The float
  comparison \<^verbatim>\<open>age_ms > tol * 0.6\<close> goes through \<open>fl64\<close>; 0.6 is the float literal.
\<close>

definition latency_gate :: "trade_candidate \<Rightarrow> copyability_config \<Rightarrow> gate_result" where
  "latency_gate c cfg =
     (let age_ms = elapsed_ms (st_source_confirmed_at (c_source_trade c)) (c_created_at c) in
      if max_detection_age_ms cfg < age_ms then gate_fail ''latency'' [R_SIGNAL_TOO_OLD]
      else case tr_latency_tolerance_ms (c_trader c) of
             None \<Rightarrow> gate_ok ''latency'' [] 1
           | Some tol \<Rightarrow>
               if tol = 0 then gate_ok ''latency'' [] 1
               else if tol < age_ms
                 then gate_fail ''latency'' [R_LATENCY_EXCEEDS_TRADER_TOLERANCE]
               else if fl64 (of_int tol * fl64 (6/10)) < of_int age_ms
                 then gate_ok ''latency'' [] (6/10)
               else gate_ok ''latency'' [] 1)"

text \<open>
  \<^verbatim>\<open>share\<close> and \<^verbatim>\<open>allowed / intended_usd\<close> divide by positive numbers on
  the paths that reach them: the liquidity is checked first, and a share above a nonnegative
  limit has a positive intended size.
\<close>

definition liquidity_gate ::
    "trade_candidate \<Rightarrow> copyability_config \<Rightarrow> risk_config \<Rightarrow> usd \<Rightarrow> gate_result" where
  "liquidity_gate c cfg rc intended_usd =
     (let liq = ms_liquidity_usd (c_market c) in
      if liq \<le> 0 then gate_fail ''liquidity'' [R_LOW_LIQUIDITY]
      else if liq < min_liquidity_usd cfg then gate_fail ''liquidity'' [R_LOW_LIQUIDITY]
      else
        let share = intended_usd / liq * 100 in
        if max_position_pct_of_liquidity cfg < share then
          let allowed = liq * max_position_pct_of_liquidity cfg / 100 in
          if allowed < min_position_usd rc
            then gate_fail ''liquidity'' [R_POSITION_TOO_LARGE_FOR_LIQUIDITY]
          else gate_ok ''liquidity'' [R_POSITION_TOO_LARGE_FOR_LIQUIDITY]
                 (allowed / intended_usd)
        else gate_ok ''liquidity'' [R_SUFFICIENT_LIQUIDITY] 1)"

definition expected_alpha_pct :: "trader_profile \<Rightarrow> pct" where
  "expected_alpha_pct t =
     (case map_of (tr_notes t) ''expected_edge_pct'' of
        None \<Rightarrow> 15 | Some edge \<Rightarrow> if edge = 0 then 15 else edge)"

definition slippage_gate :: "trade_candidate \<Rightarrow> copyability_config \<Rightarrow> gate_result" where
  "slippage_gate c cfg =
     (case c_quote c of
        None \<Rightarrow> gate_fail ''slippage'' [R_NO_ROUTE]
      | Some q \<Rightarrow>
          let impact = q_price_impact_pct q in
          if max_expected_slippage_pct cfg < impact
            then gate_fail ''slippage'' [R_EXPECTED_SLIPPAGE_TOO_HIGH]
          else
            let expected_alpha = expected_alpha_pct (c_trader c);
                already_moved =
                  max 0 (pct_change (st_source_price (c_source_trade c)) (candidate_price c));
                net_alpha = expected_alpha - already_moved;
                cost = impact + 35/100 + slippage_safety_margin_pct cfg
            in if net_alpha \<le> cost then gate_fail ''slippage'' [R_ALPHA_BELOW_COST]
               else gate_ok ''slippage'' [R_ACCEPTABLE_SLIPPAGE] 1)"

definition market_cap_gate :: "trade_candidate \<Rightarrow> copyability_config \<Rightarrow> gate_result" where
  "market_cap_gate c cfg =
     (let mc = ms_market_cap_usd (c_market c) in
      if mc \<le> 0 then gate_ok ''market_cap'' [] 1
      else if mc < min_market_cap_usd cfg
        then gate_fail ''market_cap'' [R_MARKET_CAP_TOO_LOW]
      else if max_market_cap_usd cfg < mc
        then gate_fail ''market_cap'' [R_MARKET_CAP_TOO_HIGH]
      else gate_ok ''market_cap'' [] 1)"

definition token_age_gate :: "trade_candidate \<Rightarrow> copyability_config \<Rightarrow> gate_result" where
  "token_age_gate c cfg =
     (case ms_token_age_seconds (c_market c) of
        None \<Rightarrow> gate_ok ''token_age'' [] 1
      | Some age \<Rightarrow>
          if age < min_token_age_seconds cfg then gate_fail ''token_age'' [R_TOKEN_TOO_NEW]
          else if age < new_token_age_seconds cfg
            then gate_ok ''token_age'' [] (new_token_size_mult cfg)
          else gate_ok ''token_age'' [] 1)"

definition token_safety_gate :: "trade_candidate \<Rightarrow> copyability_config \<Rightarrow> gate_result" where
  "token_safety_gate c cfg =
     (case c_token_risk c of
        None \<Rightarrow> gate_fail ''token_safety'' [R_CRITICAL_DATA_UNAVAILABLE]
      | Some tr \<Rightarrow>
          if rk_unknown tr then gate_fail ''token_safety'' [R_CRITICAL_DATA_UNAVAILABLE]
          else if rk_is_honeypot tr = Some True
            then gate_fail ''token_safety'' [R_TOKEN_RISK_TOO_HIGH]
          else if max_token_risk_score cfg < rk_score tr
            then gate_fail ''token_safety'' (R_TOKEN_RISK_TOO_HIGH # rk_reasons tr)
          else if rk_insider_flags tr \<noteq> []
            then gate_fail ''token_safety'' [R_INSIDER_PATTERN]
          else gate_ok ''token_safety'' [R_TOKEN_SAFETY_PASS] 1)"

definition confirmation_gate :: "trade_candidate \<Rightarrow> copyability_config \<Rightarrow> gate_result" where
  "confirmation_gate c cfg =
     (if 2 \<le> length (c_confirmations c)
        then gate_ok ''confirmation'' [R_MULTI_TRADER_CONFIRMATION] (125/100)
      else gate_ok ''confirmation'' [] 1)"

section \<open>The pipeline\<close>

definition ENTRY_GATES :: "(trade_candidate \<Rightarrow> copyability_config \<Rightarrow> gate_result) list" where
  "ENTRY_GATES = [trader_gate, price_chase_gate, latency_gate, market_cap_gate, token_age_gate,
     token_safety_gate, slippage_gate, confirmation_gate]"

definition combined_mult :: "gate_result list \<Rightarrow> rat" where
  "combined_mult results =
     foldl (\<lambda>mult r. if g_passed r then mult * g_size_mult r else mult) 1 results"

definition run_entry_gates ::
    "trade_candidate \<Rightarrow> usd \<Rightarrow> copyability_config \<Rightarrow> risk_config \<Rightarrow>
     gate_result list \<times> bool \<times> rat" where
  "run_entry_gates c intended_usd cfg rc =
     (let results = map (\<lambda>gate. gate c cfg) ENTRY_GATES @ [liquidity_gate c cfg rc intended_usd]
      in (results, list_all g_passed results, combined_mult results))"

definition collect_reasons :: "gate_result list \<Rightarrow> reason list" where
  "collect_reasons results =
     map fst (foldl (\<lambda>seen reason. dict_setdefault reason () seen) []
                (concat (map g_reasons results)))"

section \<open>What each gate lets through\<close>

named_theorems gate_defs "the gates, unfolded"

declare trader_gate_def [gate_defs] price_chase_gate_def [gate_defs] latency_gate_def [gate_defs]
  market_cap_gate_def [gate_defs] token_age_gate_def [gate_defs] token_safety_gate_def [gate_defs]
  slippage_gate_def [gate_defs] confirmation_gate_def [gate_defs] liquidity_gate_def [gate_defs]
  Let_def [gate_defs]

definition adverse_move :: "trade_candidate \<Rightarrow> pct" where
  "adverse_move c =
     (let move = pct_change (st_source_price (c_source_trade c)) (candidate_price c)
      in if st_action (c_source_trade c) = ACT_BUY then move else - move)"

definition prices_known :: "trade_candidate \<Rightarrow> bool" where
  "prices_known c \<longleftrightarrow> 0 < st_source_price (c_source_trade c) \<and> 0 < candidate_price c"

definition signal_age_ms :: "trade_candidate \<Rightarrow> int" where
  "signal_age_ms c = elapsed_ms (st_source_confirmed_at (c_source_trade c)) (c_created_at c)"

lemma trader_gate_passed:
  "g_passed (trader_gate c cfg) \<longleftrightarrow>
     is_followed (tr_status (c_trader c)) \<and>
     min_trader_score cfg \<le> sc_composite (tr_scores (c_trader c)) \<and>
     min_trader_confidence cfg \<le> sc_confidence (tr_scores (c_trader c)) \<and>
     min_copyability_score cfg \<le> sc_copyability (tr_scores (c_trader c))"
  by (auto simp: gate_defs)

lemma price_chase_gate_passed:
  assumes "copy_cfg_ok cfg"
  shows "g_passed (price_chase_gate c cfg) \<longleftrightarrow>
     prices_known c \<and> adverse_move c \<le> price_move_caution_pct cfg"
  using assms by (auto simp: gate_defs adverse_move_def prices_known_def copy_cfg_ok_def)

lemma latency_gate_passed:
  "g_passed (latency_gate c cfg) \<longleftrightarrow>
     signal_age_ms c \<le> max_detection_age_ms cfg \<and>
     (\<forall>tol. tr_latency_tolerance_ms (c_trader c) = Some tol \<longrightarrow> tol \<noteq> 0 \<longrightarrow>
        signal_age_ms c \<le> tol)"
  by (auto simp: gate_defs signal_age_ms_def split: option.splits)

lemma market_cap_gate_passed:
  "g_passed (market_cap_gate c cfg) \<longleftrightarrow>
     ms_market_cap_usd (c_market c) \<le> 0 \<or>
     (min_market_cap_usd cfg \<le> ms_market_cap_usd (c_market c) \<and>
      ms_market_cap_usd (c_market c) \<le> max_market_cap_usd cfg)"
  by (auto simp: gate_defs)

lemma token_age_gate_passed:
  "g_passed (token_age_gate c cfg) \<longleftrightarrow>
     (\<forall>age. ms_token_age_seconds (c_market c) = Some age \<longrightarrow> min_token_age_seconds cfg \<le> age)"
  by (auto simp: gate_defs split: option.splits)

lemma token_safety_gate_passed:
  "g_passed (token_safety_gate c cfg) \<longleftrightarrow>
     (\<exists>tr. c_token_risk c = Some tr \<and> \<not> rk_unknown tr \<and> rk_is_honeypot tr \<noteq> Some True \<and>
        rk_score tr \<le> max_token_risk_score cfg \<and> rk_insider_flags tr = [])"
  by (auto simp: gate_defs split: option.splits)

definition net_alpha_pct :: "trade_candidate \<Rightarrow> pct" where
  "net_alpha_pct c = expected_alpha_pct (c_trader c) -
     max 0 (pct_change (st_source_price (c_source_trade c)) (candidate_price c))"

lemma slippage_gate_passed:
  "g_passed (slippage_gate c cfg) \<longleftrightarrow>
     (\<exists>q. c_quote c = Some q \<and> q_price_impact_pct q \<le> max_expected_slippage_pct cfg \<and>
        q_price_impact_pct q + 35/100 + slippage_safety_margin_pct cfg < net_alpha_pct c)"
  by (auto simp: gate_defs net_alpha_pct_def split: option.splits)

lemma confirmation_gate_passed [simp]: "g_passed (confirmation_gate c cfg)"
  by (simp add: gate_defs)

definition liquidity_allowed :: "trade_candidate \<Rightarrow> copyability_config \<Rightarrow> usd" where
  "liquidity_allowed c cfg =
     ms_liquidity_usd (c_market c) * max_position_pct_of_liquidity cfg / 100"

lemma liquidity_gate_passed:
  "g_passed (liquidity_gate c cfg rc u) \<longleftrightarrow>
     0 < ms_liquidity_usd (c_market c) \<and> min_liquidity_usd cfg \<le> ms_liquidity_usd (c_market c) \<and>
     (u \<le> liquidity_allowed c cfg \<or> min_position_usd rc \<le> liquidity_allowed c cfg)"
proof (cases "0 < ms_liquidity_usd (c_market c)")
  case True
  then have "max_position_pct_of_liquidity cfg < u / ms_liquidity_usd (c_market c) * 100 \<longleftrightarrow>
      \<not> u \<le> liquidity_allowed c cfg"
    by (auto simp: liquidity_allowed_def field_simps not_le)
  then show ?thesis using True by (auto simp: gate_defs liquidity_allowed_def)
qed (auto simp: gate_defs)

lemmas gates_passed =
  trader_gate_passed price_chase_gate_passed latency_gate_passed market_cap_gate_passed
  token_age_gate_passed token_safety_gate_passed slippage_gate_passed liquidity_gate_passed

section \<open>Size multipliers\<close>

lemma price_chase_gate_mult:
  "copy_cfg_ok cfg \<Longrightarrow> 0 \<le> g_size_mult (price_chase_gate c cfg) \<and>
     g_size_mult (price_chase_gate c cfg) \<le> 1"
  by (auto simp: gate_defs copy_cfg_ok_def)

lemma latency_gate_mult:
  "0 \<le> g_size_mult (latency_gate c cfg) \<and> g_size_mult (latency_gate c cfg) \<le> 1"
  by (auto simp: gate_defs split: option.splits)

lemma market_cap_gate_mult:
  "0 \<le> g_size_mult (market_cap_gate c cfg) \<and> g_size_mult (market_cap_gate c cfg) \<le> 1"
  by (auto simp: gate_defs)

lemma token_age_gate_mult:
  "copy_cfg_ok cfg \<Longrightarrow> 0 \<le> g_size_mult (token_age_gate c cfg) \<and>
     g_size_mult (token_age_gate c cfg) \<le> 1"
  by (auto simp: gate_defs copy_cfg_ok_def split: option.splits)

lemma token_safety_gate_mult:
  "0 \<le> g_size_mult (token_safety_gate c cfg) \<and> g_size_mult (token_safety_gate c cfg) \<le> 1"
  by (auto simp: gate_defs split: option.splits)

lemma slippage_gate_mult:
  "0 \<le> g_size_mult (slippage_gate c cfg) \<and> g_size_mult (slippage_gate c cfg) \<le> 1"
  by (auto simp: gate_defs split: option.splits)

lemma confirmation_gate_mult:
  "1 \<le> g_size_mult (confirmation_gate c cfg) \<and> g_size_mult (confirmation_gate c cfg) \<le> 5/4"
  by (auto simp: gate_defs)

lemma liquidity_gate_fits:
  assumes "g_passed (liquidity_gate c cfg rc u)" "copy_cfg_ok cfg"
  shows "u * g_size_mult (liquidity_gate c cfg rc u) \<le> liquidity_allowed c cfg"
    and "0 \<le> g_size_mult (liquidity_gate c cfg rc u)"
    and "g_size_mult (liquidity_gate c cfg rc u) \<le> 1"
proof -
  let ?liq = "ms_liquidity_usd (c_market c)"
  have liq: "0 < ?liq" using assms(1) by (simp add: liquidity_gate_passed)
  have p: "0 \<le> max_position_pct_of_liquidity cfg" using assms(2) by (simp add: copy_cfg_ok_def)
  have a: "0 \<le> liquidity_allowed c cfg" using liq p by (simp add: liquidity_allowed_def)
  have share: "max_position_pct_of_liquidity cfg < u / ?liq * 100 \<longleftrightarrow>
      liquidity_allowed c cfg < u"
    using liq by (auto simp: liquidity_allowed_def field_simps)
  have m: "g_size_mult (liquidity_gate c cfg rc u) =
      (if liquidity_allowed c cfg < u then liquidity_allowed c cfg / u else 1)"
    using assms(1) share by (auto simp: gate_defs liquidity_allowed_def)
  show "u * g_size_mult (liquidity_gate c cfg rc u) \<le> liquidity_allowed c cfg"
    and "0 \<le> g_size_mult (liquidity_gate c cfg rc u)"
    and "g_size_mult (liquidity_gate c cfg rc u) \<le> 1"
    using a by (auto simp: m)
qed

lemma trader_gate_mult:
  "g_passed (trader_gate c cfg) \<Longrightarrow>
     g_size_mult (trader_gate c cfg) = tr_size_multiplier (c_trader c)"
  by (auto simp: gate_defs split: if_splits)

lemma unscaled_gates:
  "g_passed (market_cap_gate c cfg) \<Longrightarrow> g_size_mult (market_cap_gate c cfg) = 1"
  "g_passed (token_safety_gate c cfg) \<Longrightarrow> g_size_mult (token_safety_gate c cfg) = 1"
  "g_passed (slippage_gate c cfg) \<Longrightarrow> g_size_mult (slippage_gate c cfg) = 1"
  by (auto simp: gate_defs split: option.splits if_splits)

lemma confirmation_gate_bonus:
  "2 \<le> length (c_confirmations c) \<Longrightarrow> g_size_mult (confirmation_gate c cfg) = 5/4"
  by (simp add: gate_defs)

lemma liquidity_gate_shrinks:
  assumes "g_passed (liquidity_gate c cfg rc u)" "liquidity_allowed c cfg < u"
  shows "g_size_mult (liquidity_gate c cfg rc u) = liquidity_allowed c cfg / u"
proof -
  have "0 < ms_liquidity_usd (c_market c)" using assms(1) by (simp add: liquidity_gate_passed)
  then have "max_position_pct_of_liquidity cfg < u / ms_liquidity_usd (c_market c) * 100"
    using assms(2) by (simp add: liquidity_allowed_def field_simps)
  then show ?thesis
    using assms(1) by (auto simp: gate_defs liquidity_allowed_def split: if_splits)
qed

lemmas gate_mults =
  price_chase_gate_mult latency_gate_mult market_cap_gate_mult token_age_gate_mult
  token_safety_gate_mult slippage_gate_mult

section \<open>The sweep\<close>

lemma combined_mult_passed:
  "list_all g_passed rs \<Longrightarrow> combined_mult rs = prod_list (map g_size_mult rs)"
proof -
  have "list_all g_passed rs \<Longrightarrow>
      foldl (\<lambda>m r. if g_passed r then m * g_size_mult r else m) a rs =
      a * prod_list (map g_size_mult rs)" for a
    by (induction rs arbitrary: a) (auto simp: mult.assoc)
  then show "list_all g_passed rs \<Longrightarrow> ?thesis" by (simp add: combined_mult_def)
qed

definition all_gates ::
    "trade_candidate \<Rightarrow> usd \<Rightarrow> copyability_config \<Rightarrow> risk_config \<Rightarrow> gate_result list" where
  "all_gates c u cfg rc =
     [trader_gate c cfg, price_chase_gate c cfg, latency_gate c cfg, market_cap_gate c cfg,
      token_age_gate c cfg, token_safety_gate c cfg, slippage_gate c cfg, confirmation_gate c cfg,
      liquidity_gate c cfg rc u]"

lemma run_entry_gates_eq:
  "run_entry_gates c u cfg rc =
     (all_gates c u cfg rc, list_all g_passed (all_gates c u cfg rc),
      combined_mult (all_gates c u cfg rc))"
  by (simp add: run_entry_gates_def ENTRY_GATES_def all_gates_def Let_def)

lemma collect_reasons_foldl:
  "set (map fst (foldl (\<lambda>seen r. dict_setdefault r () seen) xs rs)) = set (map fst xs) \<union> set rs \<and>
   (distinct (map fst xs) \<longrightarrow>
      distinct (map fst (foldl (\<lambda>seen r. dict_setdefault r () seen) xs rs)))"
proof (induction rs arbitrary: xs)
  case (Cons r rs)
  have "set (map fst (dict_setdefault r () xs)) = insert r (set (map fst xs))"
    by (auto simp: dict_setdefault_def map_of_eq_None_iff)
  moreover have "distinct (map fst xs) \<longrightarrow> distinct (map fst (dict_setdefault r () xs))"
    by (auto simp: dict_setdefault_def map_of_eq_None_iff)
  ultimately show ?case using Cons.IH [of "dict_setdefault r () xs"] by auto
qed simp

lemma set_collect_reasons: "set (collect_reasons rs) = (\<Union>r \<in> set rs. set (g_reasons r))"
  using collect_reasons_foldl [of "[]" "concat (map g_reasons rs)"]
  by (simp add: collect_reasons_def)

lemma distinct_collect_reasons: "distinct (collect_reasons rs)"
  using collect_reasons_foldl [of "[]" "concat (map g_reasons rs)"]
  by (simp add: collect_reasons_def)

end
