(* ===== verification/Samples.thy ===== *)
theory Samples
  imports Config
begin

text \<open>
  Concrete values that the witnesses of the properties are evaluated on: a followed trader, a
  source trade of his, a liquid market, a clean token and a route for it.
\<close>

definition sample_scores :: trader_scores where
  "sample_scores = default_scores\<lparr>sc_copyability := 70, sc_composite := 80, sc_confidence := 75,
     sc_sample_size := 60\<rparr>"

definition sample_trader :: trader_profile where
  "sample_trader = (default_trader ''alice'')\<lparr>tr_status := TS_ACTIVE, tr_scores := sample_scores,
     tr_latency_tolerance_ms := Some 10000\<rparr>"

definition sample_trade :: source_trade where
  "sample_trade = \<lparr>st_id = 1, st_wallet = ''alice'', st_signature = ''sig1'', st_slot = 7,
     st_action = ACT_BUY, st_token_mint = ''MINT'', st_quote_mint = SOL_MINT,
     st_token_amount_raw = 1000000, st_quote_amount_raw = 1000000000, st_token_decimals = 6,
     st_quote_decimals = 9, st_source_price = 1, st_source_value_usd = 150,
     st_source_confirmed_at = 0, st_detected_at = 2000000, st_sold_fraction = None\<rparr>"

definition sample_market :: market_state where
  "sample_market = (default_market ''MINT'')\<lparr>ms_price := 1, ms_price_usd := 150,
     ms_liquidity_usd := 100000, ms_market_cap_usd := 1000000,
     ms_token_age_seconds := Some 86400, ms_decimals := 6\<rparr>"

definition sample_risk :: token_risk where
  "sample_risk = (default_token_risk ''MINT'')\<lparr>rk_score := 15\<rparr>"

definition sample_quote :: quote where
  "sample_quote = \<lparr>q_input_mint = SOL_MINT, q_output_mint = ''MINT'', q_in_amount_raw = 1000000000,
     q_out_amount_raw = 990000, q_price_impact_pct = 1, q_slippage_bps = 0,
     q_route_label = ''route''\<rparr>"

definition sample_candidate :: trade_candidate where
  "sample_candidate = \<lparr>c_id = 1, c_source_trade = sample_trade, c_trader = sample_trader,
     c_market = sample_market, c_token_risk = Some sample_risk, c_quote = Some sample_quote,
     c_confirmations = [], c_created_at = 2000000\<rparr>"

lemmas sample_defs = sample_candidate_def sample_quote_def sample_risk_def sample_market_def
  sample_trade_def sample_trader_def sample_scores_def default_trader_def default_scores_def
  default_market_def default_token_risk_def

end
