(* ===== verification/Gate_Properties.thy ===== *)
theory Gate_Properties
  imports Gates Samples
begin

text \<open>
  The properties of the entry gates: what the whole sweep admits, the bounds of the combined
  size multiplier, monotonicity of the price chase, and the place where the liquidity cap and
  the confirmation bonus meet.
\<close>

section \<open>What the sweep admits\<close>

text \<open>
  The rules of PRD 17-20 as one condition on a buy, in terms of prices and amounts and without
  reference to gates, multipliers or their order.
\<close>

definition admissible_buy ::
    "trade_candidate \<Rightarrow> usd \<Rightarrow> copyability_config \<Rightarrow> risk_config \<Rightarrow> bool" where
  "admissible_buy c u cfg rc \<longleftrightarrow>
     (let t = c_trader c; s = tr_scores t; m = c_market c; src = st_source_price (c_source_trade c);
          age = signal_age_ms c; liq = ms_liquidity_usd m
      in is_followed (tr_status t) \<and> min_trader_score cfg \<le> sc_composite s \<and>
         min_trader_confidence cfg \<le> sc_confidence s \<and> min_copyability_score cfg \<le> sc_copyability s \<and>
         0 < src \<and> 0 < candidate_price c \<and>
         candidate_price c \<le> src * (1 + price_move_caution_pct cfg / 100) \<and>
         age \<le> max_detection_age_ms cfg \<and>
         (case tr_latency_tolerance_ms t of None \<Rightarrow> True | Some tol \<Rightarrow> tol = 0 \<or> age \<le> tol) \<and>
         (0 < ms_market_cap_usd m \<longrightarrow>
            min_market_cap_usd cfg \<le> ms_market_cap_usd m \<and>
            ms_market_cap_usd m \<le> max_market_cap_usd cfg) \<and>
         (case ms_token_age_seconds m of None \<Rightarrow> True
          | Some old \<Rightarrow> min_token_age_seconds cfg \<le> old) \<and>
         (case c_token_risk c of None \<Rightarrow> False
          | Some r \<Rightarrow> \<not> rk_unknown r \<and> rk_is_honeypot r \<noteq> Some True \<and>
              rk_score r \<le> max_token_risk_score cfg \<and> rk_insider_flags r = []) \<and>
         (case c_quote c of None \<Rightarrow> False
          | Some q \<Rightarrow> q_price_impact_pct q \<le> max_expected_slippage_pct cfg \<and>
              q_price_impact_pct q + 35/100 + slippage_safety_margin_pct cfg < net_alpha_pct c) \<and>
         0 < liq \<and> min_liquidity_usd cfg \<le> liq \<and>
         min u (min_position_usd rc) \<le> liq * max_position_pct_of_liquidity cfg / 100)"

lemma adverse_buy_le:
  "st_action (c_source_trade c) = ACT_BUY \<Longrightarrow> 0 < st_source_price (c_source_trade c) \<Longrightarrow>
   adverse_move c \<le> p \<longleftrightarrow> candidate_price c \<le> st_source_price (c_source_trade c) * (1 + p / 100)"
  by (simp add: adverse_move_def pct_change_le_iff)

lemma run_entry_gates_iff_admissible_aux:
  assumes "copy_cfg_ok cfg" "st_action (c_source_trade c) = ACT_BUY"
  shows "fst (snd (run_entry_gates c u cfg rc)) \<longleftrightarrow> admissible_buy c u cfg rc"
proof -
  have liq: "u \<le> liquidity_allowed c cfg \<or> min_position_usd rc \<le> liquidity_allowed c cfg \<longleftrightarrow>
      min u (min_position_usd rc) \<le>
        ms_liquidity_usd (c_market c) * max_position_pct_of_liquidity cfg / 100"
    by (auto simp: liquidity_allowed_def min_def)
  have price: "prices_known c \<and> adverse_move c \<le> price_move_caution_pct cfg \<longleftrightarrow>
      0 < st_source_price (c_source_trade c) \<and> 0 < candidate_price c \<and>
      candidate_price c \<le> st_source_price (c_source_trade c) * (1 + price_move_caution_pct cfg / 100)"
    using assms(2) by (auto simp: prices_known_def adverse_buy_le)
  have "fst (snd (run_entry_gates c u cfg rc)) \<longleftrightarrow> list_all g_passed (all_gates c u cfg rc)"
    by (simp add: run_entry_gates_eq)
  also have "\<dots> \<longleftrightarrow> admissible_buy c u cfg rc"
    unfolding all_gates_def admissible_buy_def Let_def
    using price liq
    by (simp add: gates_passed(1,3-8) price_chase_gate_passed [OF assms(1)]
        split: option.splits) (auto simp: min_def)
  finally show ?thesis .
qed



section \<open>The size multiplier\<close>

text \<open>
  The combined multiplier of a passing sweep is never negative and never more than a
  quarter above the trader's own size multiplier: the only gate that can enlarge a trade is the
  confirmation bonus.
\<close>

theorem run_entry_gates_mult_bounds:
  assumes "run_entry_gates c u cfg rc = (rs, True, mult)" "copy_cfg_ok cfg"
    and "0 \<le> tr_size_multiplier (c_trader c)"
  shows "0 \<le> mult \<and> mult \<le> tr_size_multiplier (c_trader c) * (5/4)"
proof -
  have pass: "list_all g_passed (all_gates c u cfg rc)"
    and m: "mult = combined_mult (all_gates c u cfg rc)"
    using assms(1) by (auto simp: run_entry_gates_eq)
  have t: "g_size_mult (trader_gate c cfg) = tr_size_multiplier (c_trader c)"
    using pass by (simp add: all_gates_def trader_gate_mult)
  have l: "0 \<le> g_size_mult (liquidity_gate c cfg rc u)" "g_size_mult (liquidity_gate c cfg rc u) \<le> 1"
    using pass liquidity_gate_fits(2,3) [OF _ assms(2)] by (simp_all add: all_gates_def)
  have shrink: "0 \<le> a * b \<and> a * b \<le> x" if "0 \<le> a \<and> a \<le> x" "0 \<le> b \<and> b \<le> 1" for a b x :: rat
    using that mult_left_le [of b a] by auto
  have grow: "0 \<le> a * b \<and> a * b \<le> x * (5/4)" if "0 \<le> a \<and> a \<le> x" "1 \<le> b \<and> b \<le> 5/4" for a b x :: rat
    using that mult_mono [of a x b "5/4"] by auto
  have "mult = tr_size_multiplier (c_trader c) * g_size_mult (price_chase_gate c cfg) *
      g_size_mult (latency_gate c cfg) * g_size_mult (market_cap_gate c cfg) *
      g_size_mult (token_age_gate c cfg) * g_size_mult (token_safety_gate c cfg) *
      g_size_mult (slippage_gate c cfg) * g_size_mult (confirmation_gate c cfg) *
      g_size_mult (liquidity_gate c cfg rc u)"
    using m t combined_mult_passed [OF pass] by (simp add: all_gates_def mult.assoc)
  moreover have "0 \<le> \<dots> \<and> \<dots> \<le> tr_size_multiplier (c_trader c) * (5/4)"
    by (intro shrink grow gate_mults assms(2) confirmation_gate_mult conjI l assms(3) order_refl)
  ultimately show ?thesis by simp
qed

lemma run_entry_gates_mult_bounds_witness:
  "\<exists>rs mult. run_entry_gates sample_candidate 100 default_copyability default_risk = (rs, True, mult)
     \<and> 0 \<le> mult \<and> mult \<le> 5/4"
proof -
  obtain rs p mult where
    e: "run_entry_gates sample_candidate 100 default_copyability default_risk = (rs, p, mult)"
    by (cases "run_entry_gates sample_candidate 100 default_copyability default_risk") auto
  have "fst (snd (run_entry_gates sample_candidate 100 default_copyability default_risk))"
    by code_simp
  then have p: "p = True" using e by simp
  have "0 \<le> tr_size_multiplier (c_trader sample_candidate)"
    and one: "tr_size_multiplier (c_trader sample_candidate) = 1"
    by (simp_all add: sample_defs)
  from run_entry_gates_mult_bounds [OF e [unfolded p] default_copy_cfg_ok this(1)] one e p
  show ?thesis by auto
qed

text \<open>
  Chasing a worse price never buys more: of two candidates with known prices, the one whose
  price has moved further against us gets at most the other's size from the price gate (zero
  when it is rejected).
\<close>

theorem price_chase_gate_antimono:
  assumes "copy_cfg_ok cfg" "prices_known c" "prices_known c'"
    and "adverse_move c \<le> adverse_move c'"
  shows "g_size_mult (price_chase_gate c' cfg) \<le> g_size_mult (price_chase_gate c cfg)"
  using assms
  unfolding price_chase_gate_def prices_known_def copy_cfg_ok_def adverse_move_def Let_def
  by (auto simp: not_le split: if_splits)

definition chased_candidate :: trade_candidate where
  "chased_candidate = sample_candidate\<lparr>c_market := sample_market\<lparr>ms_price := 104/100\<rparr>\<rparr>"

lemma price_chase_gate_antimono_witness:
  "g_size_mult (price_chase_gate chased_candidate default_copyability) = 1/2 \<and>
   g_size_mult (price_chase_gate chased_candidate default_copyability)
     \<le> g_size_mult (price_chase_gate sample_candidate default_copyability)"
proof -
  have "prices_known sample_candidate" "prices_known chased_candidate"
    "adverse_move sample_candidate \<le> adverse_move chased_candidate"
    by code_simp+
  from price_chase_gate_antimono [OF default_copy_cfg_ok this]
  show ?thesis by (simp, code_simp)
qed

section \<open>The liquidity cap and the confirmation bonus\<close>

text \<open>
  A liquidity gate that passes scales the intended size to at most the configured share of
  the book, and rejects when not even the smallest position fits.
\<close>

theorem liquidity_gate_caps_share:
  assumes "g_passed (liquidity_gate c cfg rc u)" "copy_cfg_ok cfg"
  shows "u * g_size_mult (liquidity_gate c cfg rc u)
           \<le> ms_liquidity_usd (c_market c) * max_position_pct_of_liquidity cfg / 100"
  using liquidity_gate_fits(1) [OF assms] by (simp add: liquidity_allowed_def)

lemma liquidity_gate_caps_share_witness:
  "g_passed (liquidity_gate sample_candidate default_copyability default_risk 4000) \<and>
   4000 * g_size_mult (liquidity_gate sample_candidate default_copyability default_risk 4000) \<le> 1000"
proof -
  have p: "g_passed (liquidity_gate sample_candidate default_copyability default_risk 4000)"
    by code_simp
  have "ms_liquidity_usd (c_market sample_candidate) *
      max_position_pct_of_liquidity default_copyability / 100 = 1000"
    by code_simp
  with liquidity_gate_caps_share [OF p default_copy_cfg_ok] p show ?thesis by simp
qed

text \<open>
  The sweep as a whole does not keep that cap: the confirmation bonus multiplies the
  already fitted size.  Whenever two other wallets confirm, no other gate shrinks the trade and
  the liquidity gate has to fit it to the book, the resulting size is five quarters of the
  share of the book that the configuration allows.
\<close>

theorem confirmation_bonus_exceeds_liquidity_cap:
  assumes "run_entry_gates c u cfg rc = (rs, True, mult)"
    and "2 \<le> length (c_confirmations c)" "tr_size_multiplier (c_trader c) = 1"
    and "\<forall>g \<in> {price_chase_gate, latency_gate, token_age_gate}. g_size_mult (g c cfg) = 1"
    and "liquidity_allowed c cfg < u" "0 < u"
  shows "u * mult = 5/4 * (ms_liquidity_usd (c_market c) * max_position_pct_of_liquidity cfg / 100)"
proof -
  have pass: "list_all g_passed (all_gates c u cfg rc)"
    and m: "mult = combined_mult (all_gates c u cfg rc)"
    using assms(1) by (auto simp: run_entry_gates_eq)
  have "g_size_mult (liquidity_gate c cfg rc u) = liquidity_allowed c cfg / u"
    using pass assms(5) by (simp add: all_gates_def liquidity_gate_shrinks)
  moreover have "g_size_mult (trader_gate c cfg) = 1" "g_size_mult (market_cap_gate c cfg) = 1"
    "g_size_mult (token_safety_gate c cfg) = 1" "g_size_mult (slippage_gate c cfg) = 1"
    using pass assms(3) by (simp_all add: all_gates_def trader_gate_mult unscaled_gates)
  ultimately have "mult = g_size_mult (confirmation_gate c cfg) * (liquidity_allowed c cfg / u)"
    using m assms(4) combined_mult_passed [OF pass] by (simp add: all_gates_def)
  then have "mult = 5/4 * (liquidity_allowed c cfg / u)"
    by (simp only: confirmation_gate_bonus [OF assms(2)])
  then show ?thesis using assms(6) by (simp add: liquidity_allowed_def)
qed

definition confirmed_candidate :: trade_candidate where
  "confirmed_candidate = sample_candidate\<lparr>c_confirmations := [''bob'', ''carol'']\<rparr>"

lemma confirmation_bonus_exceeds_liquidity_cap_witness:
  "\<exists>rs mult. run_entry_gates confirmed_candidate 4000 default_copyability default_risk = (rs, True, mult)
     \<and> 4000 * mult = 1250 \<and> liquidity_allowed confirmed_candidate default_copyability = 1000"
proof -
  obtain rs p mult where
    e: "run_entry_gates confirmed_candidate 4000 default_copyability default_risk = (rs, p, mult)"
    by (cases "run_entry_gates confirmed_candidate 4000 default_copyability default_risk") auto
  have "fst (snd (run_entry_gates confirmed_candidate 4000 default_copyability default_risk))"
    by code_simp
  then have p: "p = True" using e by simp
  have h: "2 \<le> length (c_confirmations confirmed_candidate)"
    "tr_size_multiplier (c_trader confirmed_candidate) = 1"
    "g_size_mult (price_chase_gate confirmed_candidate default_copyability) = 1"
    "g_size_mult (latency_gate confirmed_candidate default_copyability) = 1"
    "g_size_mult (token_age_gate confirmed_candidate default_copyability) = 1"
    "liquidity_allowed confirmed_candidate default_copyability < 4000"
    "ms_liquidity_usd (c_market confirmed_candidate) = 100000"
    "liquidity_allowed confirmed_candidate default_copyability = 1000"
    "max_position_pct_of_liquidity default_copyability = 1"
    by code_simp+
  have "4000 * mult = 5/4 * (100000 * 1 / 100)"
    using confirmation_bonus_exceeds_liquidity_cap [OF e [unfolded p] h(1,2)] h by simp
  then show ?thesis using e p h(8) by auto
qed

end
