(* ===== verification/Ledger.thy ===== *)
theory Ledger
  imports Config
begin

text \<open>
  The risk ledger: the Redis hashes it lives in, the Lua scripts of
  \<^verbatim>\<open>state/scripts.py\<close> that are its only writers, and the
  \<^verbatim>\<open>RiskLedger\<close> and \<^verbatim>\<open>SystemControl\<close> classes of
  \<^verbatim>\<open>state/ledger.py\<close> on top of them.

  Redis runs each script as one atomic step, so a script is a function on the store and any
  concurrent execution is a sequence of such steps.  A hash field that is missing reads as 0
  everywhere in the scripts, so the risk hash is a record of numbers.  Script numbers are exact
  rationals (Lua and Redis use binary floats; amounts arrive in whole cents).
\<close>

section \<open>The store\<close>

record risk_hash =
  h_equity :: usd
  h_cash :: usd
  h_deployed :: usd
  h_unrealized :: usd
  h_realized_today :: usd
  h_hwm :: usd
  h_open_positions :: int
  h_pending :: int
  h_harvested_total :: usd
  h_sol_balance :: rat

record reservation_hash =
  rh_mint :: string
  rh_wallet :: string
  rh_usd :: usd
  rh_state :: string

record ledger_store =
  rd_exists :: bool                                   \<comment> \<open>EXISTS of the risk hash\<close>
  rd_state :: risk_hash                               \<comment> \<open>KEYS[1]\<close>
  rd_token :: "string \<rightharpoonup> usd"                        \<comment> \<open>KEYS[2]\<close>
  rd_trader :: "string \<rightharpoonup> usd"                       \<comment> \<open>KEYS[3]\<close>
  rd_reservations :: "string \<rightharpoonup> reservation_hash"     \<comment> \<open>KEYS[4], one hash per id\<close>
  rd_system :: "string option"                        \<comment> \<open>KEYS[5]\<close>
  rd_kill :: "string option"                          \<comment> \<open>KEYS[6]\<close>

definition num :: "'a option \<Rightarrow> 'a \<Rightarrow> 'a" where
  "num v d = (case v of None \<Rightarrow> d | Some x \<Rightarrow> x)"

text \<open>HINCRBYFLOAT on a field of an exposure hash.\<close>

definition hincr :: "(string \<rightharpoonup> usd) \<Rightarrow> string \<Rightarrow> usd \<Rightarrow> (string \<rightharpoonup> usd)" where
  "hincr m k x = m(k \<mapsto> num (m k) 0 + x)"

lemma num_hincr [simp]: "num (hincr m k x j) 0 = num (m j) 0 + (if j = k then x else 0)"
  by (simp add: hincr_def num_def)

lemma num_Some [simp]: "num (Some x) d = x" and num_None [simp]: "num None d = d"
  by (simp_all add: num_def)

section \<open>The scripts\<close>

record reserve_args =
  a_mint :: string
  a_wallet :: string
  a_size_usd :: usd
  a_max_daily_loss_pct :: pct
  a_max_drawdown_pct :: pct
  a_max_deployed_pct :: pct
  a_max_open_positions :: int
  a_max_pending :: int
  a_max_token_pct :: pct
  a_max_trader_pct :: pct
  a_min_position_usd :: usd
  a_reservation_id :: string

text \<open>The guards before the accounting: system state and minimal size.\<close>

definition reserve_system_guard :: "ledger_store \<Rightarrow> string option" where
  "reserve_system_guard s =
     (if rd_kill s \<noteq> None then Some ''KILL_SWITCH_ACTIVE''
      else case rd_system s of
             None \<Rightarrow> Some ''SYSTEM_NOT_STARTED''
           | Some sys \<Rightarrow>
               if sys = '''' \<or> sys = ''stopped'' then Some ''SYSTEM_NOT_STARTED''
               else if sys \<noteq> ''running'' \<and> sys \<noteq> ''soft_paused'' \<and> sys \<noteq> ''hard_paused'' \<and>
                       sys \<noteq> ''killed'' then Some ''SYSTEM_PAUSED''
               else if sys = ''killed'' \<or> sys = ''hard_paused'' then Some ''KILL_SWITCH_ACTIVE''
               else if sys = ''soft_paused'' then Some ''SYSTEM_PAUSED''
               else None)"

definition reserve_risk_guard :: "reserve_args \<Rightarrow> ledger_store \<Rightarrow> string option" where
  "reserve_risk_guard a s =
     (let h = rd_state s; size = a_size_usd a; equity = h_equity h;
          cash = h_cash h; deployed = h_deployed h; realized = h_realized_today h;
          hwm = h_hwm h; open_n = h_open_positions h; pending = h_pending h;
          daily_loss_pct = (- realized) / equity * 100;
          dd = (hwm - equity) / hwm * 100;
          max_deployed = a_max_deployed_pct a / 100 * equity;
          tok_now = num (rd_token s (a_mint a)) 0;
          max_tok = a_max_token_pct a / 100 * equity;
          tr_now = num (rd_trader s (a_wallet a)) 0;
          max_tr = a_max_trader_pct a / 100 * equity
      in if size < a_min_position_usd a then Some ''POSITION_BELOW_MINIMUM''
         else if equity \<le> 0 then Some ''INSUFFICIENT_CAPITAL''
         else if a_max_daily_loss_pct a \<le> daily_loss_pct then Some ''DAILY_LOSS_LIMIT''
         else if 0 < hwm \<and> a_max_drawdown_pct a \<le> dd then Some ''DRAWDOWN_LIMIT''
         else if max_deployed < deployed + size then Some ''PORTFOLIO_DEPLOYED_LIMIT''
         else if cash < size then Some ''INSUFFICIENT_CAPITAL''
         else if a_max_open_positions a \<le> open_n + pending then Some ''MAX_OPEN_POSITIONS''
         else if a_max_pending a \<le> pending then Some ''TOO_MANY_PENDING''
         else if max_tok < tok_now + size then Some ''TOKEN_EXPOSURE_LIMIT''
         else if max_tr < tr_now + size then Some ''TRADER_EXPOSURE_LIMIT''
         else None)"

definition reserve_commit :: "reserve_args \<Rightarrow> ledger_store \<Rightarrow> ledger_store" where
  "reserve_commit a s =
     (let h = rd_state s; size = a_size_usd a
      in s\<lparr>rd_exists := True,
           rd_state := h\<lparr>h_deployed := h_deployed h + size, h_cash := h_cash h - size,
                         h_pending := h_pending h + 1\<rparr>,
           rd_token := hincr (rd_token s) (a_mint a) size,
           rd_trader := hincr (rd_trader s) (a_wallet a) size,
           rd_reservations := (rd_reservations s)(a_reservation_id a \<mapsto>
             \<lparr>rh_mint = a_mint a, rh_wallet = a_wallet a, rh_usd = size, rh_state = ''held''\<rparr>)\<rparr>)"

text \<open>RESERVE: \<open>Inl code\<close> is \<^verbatim>\<open>{0, code, detail}\<close>, \<open>Inr (id, usd)\<close> a grant.\<close>

definition script_reserve ::
    "reserve_args \<Rightarrow> ledger_store \<Rightarrow> (string + string \<times> usd) \<times> ledger_store" where
  "script_reserve a s =
     (case reserve_system_guard s of
        Some code \<Rightarrow> (Inl code, s)
      | None \<Rightarrow>
          case reserve_risk_guard a s of
            Some code \<Rightarrow> (Inl code, s)
          | None \<Rightarrow> (Inr (a_reservation_id a, a_size_usd a), reserve_commit a s))"

definition script_release :: "string \<Rightarrow> ledger_store \<Rightarrow> (string + usd) \<times> ledger_store" where
  "script_release res_id s =
     (case rd_reservations s res_id of
        None \<Rightarrow> (Inl ''NOT_FOUND'', s)
      | Some r \<Rightarrow>
          if rh_state r \<noteq> ''held'' then (Inl ''NOT_HELD'', s)
          else
            let h = rd_state s; usd = rh_usd r
            in (Inr usd,
                s\<lparr>rd_exists := True,
                  rd_state := h\<lparr>h_deployed := h_deployed h - usd, h_cash := h_cash h + usd,
                                h_pending := h_pending h - 1\<rparr>,
                  rd_token := hincr (rd_token s) (rh_mint r) (- usd),
                  rd_trader := hincr (rd_trader s) (rh_wallet r) (- usd),
                  rd_reservations := (rd_reservations s)(res_id := None)\<rparr>))"

definition script_commit :: "string \<Rightarrow> usd \<Rightarrow> ledger_store \<Rightarrow> (string + usd) \<times> ledger_store" where
  "script_commit res_id actual s =
     (case rd_reservations s res_id of
        None \<Rightarrow> (Inl ''NOT_FOUND'', s)
      | Some r \<Rightarrow>
          if rh_state r \<noteq> ''held'' then (Inl ''NOT_HELD'', s)
          else
            let h = rd_state s; delta = actual - rh_usd r
            in (Inr actual,
                s\<lparr>rd_exists := True,
                  rd_state := h\<lparr>h_deployed := h_deployed h + delta, h_cash := h_cash h - delta,
                                h_pending := h_pending h - 1,
                                h_open_positions := h_open_positions h + 1\<rparr>,
                  rd_token := hincr (rd_token s) (rh_mint r) delta,
                  rd_trader := hincr (rd_trader s) (rh_wallet r) delta,
                  rd_reservations := (rd_reservations s)(res_id \<mapsto>
                    r\<lparr>rh_state := ''committed'', rh_usd := actual\<rparr>)\<rparr>))"

text \<open>HDEL of an exposure that is below the dust threshold.\<close>

definition drop_dust :: "(string \<rightharpoonup> usd) \<Rightarrow> string \<Rightarrow> (string \<rightharpoonup> usd)" where
  "drop_dust m k = (if num (m k) 0 < 1 / 10 ^ 6 then m(k := None) else m)"

definition script_release_position ::
    "string \<Rightarrow> string \<Rightarrow> usd \<Rightarrow> usd \<Rightarrow> usd \<Rightarrow> bool \<Rightarrow> ledger_store \<Rightarrow> ledger_store" where
  "script_release_position mint wallet cost pnl proceeds fully_closed s =
     (let h = rd_state s;
          v = h_deployed h - cost;
          v' = (if v < 1 / 10 ^ 6 \<and> -1 < v then 0 else v)
      in s\<lparr>rd_exists := True,
           rd_state := h\<lparr>h_deployed := v', h_cash := h_cash h + proceeds,
                         h_realized_today := h_realized_today h + pnl,
                         h_open_positions :=
                           h_open_positions h - (if fully_closed then 1 else 0)\<rparr>,
           rd_token := drop_dust (hincr (rd_token s) mint (- cost)) mint,
           rd_trader := drop_dust (hincr (rd_trader s) wallet (- cost)) wallet\<rparr>)"

definition script_mark :: "usd \<Rightarrow> rat option \<Rightarrow> ledger_store \<Rightarrow> (usd \<times> usd) \<times> ledger_store" where
  "script_mark unreal sol_balance s =
     (let h = rd_state s;
          equity = h_cash h + h_deployed h + unreal;
          h1 = h\<lparr>h_equity := equity, h_unrealized := unreal\<rparr>;
          h2 = (case sol_balance of None \<Rightarrow> h1 | Some b \<Rightarrow> h1\<lparr>h_sol_balance := b\<rparr>);
          hwm = (if h_hwm h < equity then equity else h_hwm h)
      in ((equity, hwm), s\<lparr>rd_exists := True, rd_state := h2\<lparr>h_hwm := hwm\<rparr>\<rparr>))"

section \<open>RiskLedger\<close>

record reservation =
  rv_granted :: bool
  rv_id :: "string option"
  rv_usd :: usd
  rv_reason :: "reason option"

definition bootstrap :: "usd \<Rightarrow> bool \<Rightarrow> ledger_store \<Rightarrow> ledger_store" where
  "bootstrap capital_usd force s =
     (if \<not> force \<and> rd_exists s then s
      else s\<lparr>rd_exists := True,
             rd_state := \<lparr>h_equity = capital_usd, h_cash = capital_usd, h_deployed = 0,
               h_unrealized = 0, h_realized_today = 0, h_hwm = capital_usd,
               h_open_positions = 0, h_pending = 0, h_harvested_total = 0,
               h_sol_balance = 0\<rparr>\<rparr>)"

definition reserve_request ::
    "settings \<Rightarrow> string \<Rightarrow> string \<Rightarrow> usd \<Rightarrow> string \<Rightarrow> reserve_args" where
  "reserve_request st mint wallet size_usd res_id =
     (let rc = risk st; cc = copyability st
      in \<lparr>a_mint = mint, a_wallet = wallet, a_size_usd = size_usd,
          a_max_daily_loss_pct = max_daily_loss_pct rc,
          a_max_drawdown_pct = max_drawdown_pct rc,
          a_max_deployed_pct = max_portfolio_deployed_pct rc,
          a_max_open_positions = max_open_positions cc,
          a_max_pending = max_concurrent_pending rc,
          a_max_token_pct = max_token_exposure_pct cc,
          a_max_trader_pct = max_trader_risk_budget_pct rc,
          a_min_position_usd = min_position_usd rc,
          a_reservation_id = res_id\<rparr>)"

text \<open>
  An unknown code falls back to \<^verbatim>\<open>INSUFFICIENT_CAPITAL\<close>.  The fresh identifier
  \<^verbatim>\<open>uuid4().hex[:24]\<close> is the argument \<open>res_id\<close>.
\<close>

definition ledger_reserve ::
    "settings \<Rightarrow> string \<Rightarrow> string \<Rightarrow> string \<Rightarrow> usd \<Rightarrow> ledger_store \<Rightarrow> reservation \<times> ledger_store" where
  "ledger_reserve st res_id mint wallet size_usd s =
     (case script_reserve (reserve_request st mint wallet size_usd res_id) s of
        (Inr (a, b), s') \<Rightarrow>
          (\<lparr>rv_granted = True, rv_id = Some a, rv_usd = b, rv_reason = None\<rparr>, s')
      | (Inl code, s') \<Rightarrow>
          (\<lparr>rv_granted = False, rv_id = None, rv_usd = 0,
            rv_reason = Some (case reason_of_value code of
                                None \<Rightarrow> R_INSUFFICIENT_CAPITAL | Some r \<Rightarrow> r)\<rparr>, s'))"

definition ledger_release :: "string \<Rightarrow> ledger_store \<Rightarrow> usd \<times> ledger_store" where
  "ledger_release res_id s =
     (case script_release res_id s of (Inl _, s') \<Rightarrow> (0, s') | (Inr usd, s') \<Rightarrow> (usd, s'))"

definition ledger_commit :: "string \<Rightarrow> usd \<Rightarrow> ledger_store \<Rightarrow> usd \<times> ledger_store" where
  "ledger_commit res_id actual s =
     (case script_commit res_id actual s of (Inl _, s') \<Rightarrow> (0, s') | (Inr usd, s') \<Rightarrow> (usd, s'))"

definition release_position ::
    "string \<Rightarrow> string \<Rightarrow> usd \<Rightarrow> usd \<Rightarrow> usd \<Rightarrow> bool \<Rightarrow> ledger_store \<Rightarrow> ledger_store" where
  "release_position mint wallet cost_released_usd realized_pnl_usd proceeds_usd fully_closed s =
     script_release_position mint wallet cost_released_usd realized_pnl_usd proceeds_usd
       fully_closed s"

definition mark :: "usd \<Rightarrow> rat option \<Rightarrow> ledger_store \<Rightarrow> (usd \<times> usd) \<times> ledger_store" where
  "mark unrealized_usd sol_balance s = script_mark unrealized_usd sol_balance s"

definition snapshot :: "ledger_store \<Rightarrow> portfolio_state" where
  "snapshot s =
     (let h = rd_state s
      in \<lparr>pf_active_capital_usd = h_equity h, pf_cash_usd = h_cash h,
          pf_deployed_usd = h_deployed h, pf_unrealized_pnl_usd = h_unrealized h,
          pf_realized_pnl_today_usd = h_realized_today h,
          pf_harvested_total_usd = h_harvested_total h, pf_high_water_mark_usd = h_hwm h,
          pf_open_positions = h_open_positions h, pf_sol_balance = h_sol_balance h\<rparr>)"

definition exposures :: "ledger_store \<Rightarrow> (string \<rightharpoonup> usd) \<times> (string \<rightharpoonup> usd)" where
  "exposures s = (rd_token s, rd_trader s)"

definition reset_daily :: "ledger_store \<Rightarrow> ledger_store" where
  "reset_daily s = s\<lparr>rd_exists := True, rd_state := (rd_state s)\<lparr>h_realized_today := 0\<rparr>\<rparr>"

definition add_harvest :: "usd \<Rightarrow> ledger_store \<Rightarrow> ledger_store" where
  "add_harvest amount_usd s =
     (let h = rd_state s
      in s\<lparr>rd_exists := True,
           rd_state := h\<lparr>h_cash := h_cash h - amount_usd,
                         h_harvested_total := h_harvested_total h + amount_usd\<rparr>\<rparr>)"

section \<open>SystemControl\<close>

text \<open>An empty string is falsy in Python, in the kill key as well as in the state.\<close>

definition control_get :: "ledger_store \<Rightarrow> system_state" where
  "control_get s =
     (if num (rd_kill s) '''' \<noteq> '''' then SYS_KILLED
      else case rd_system s of
             None \<Rightarrow> SYS_STOPPED
           | Some v \<Rightarrow>
               if v = '''' then SYS_STOPPED
               else case system_state_of_value v of
                      None \<Rightarrow> SYS_HARD_PAUSED | Some st \<Rightarrow> st)"

definition control_set :: "system_state \<Rightarrow> ledger_store \<Rightarrow> ledger_store" where
  "control_set st s = s\<lparr>rd_system := Some (system_state_value st)\<rparr>"

definition control_start :: "ledger_store \<Rightarrow> py_error + system_state \<times> ledger_store" where
  "control_start s =
     (if control_get s = SYS_KILLED
        then Inl (RuntimeError ''kill switch is active; clear it deliberately first'')
      else Inr (SYS_RUNNING, control_set SYS_RUNNING s))"

definition control_stop :: "ledger_store \<Rightarrow> system_state \<times> ledger_store" where
  "control_stop s = (SYS_STOPPED, control_set SYS_STOPPED s)"

definition control_clear_kill :: "ledger_store \<Rightarrow> ledger_store" where
  "control_clear_kill s =
     s\<lparr>rd_system := Some (system_state_value SYS_HARD_PAUSED), rd_kill := None\<rparr>"

definition control_kill :: "ledger_store \<Rightarrow> ledger_store" where
  "control_kill s = control_set SYS_KILLED (s\<lparr>rd_kill := Some ''1''\<rparr>)"

end
