(* ===== verification/Ledger_Contract.thy ===== *)
theory Ledger_Contract
  imports Ledger
begin

text \<open>
  What the risk ledger promises its clients.  The interface is admission control over a room
  (free cash, deployable capital, position slots, pending slots, the budget of a token or of a
  trader): a denied request changes nothing, a granted one fits the room and takes exactly its
  cost out of it.  The client lemma is about any sequence of requests, which is what concurrent
  callers amount to, each script being atomic.
\<close>

section \<open>Admission control\<close>

fun attempts :: "('r \<Rightarrow> 's \<Rightarrow> bool \<times> 's) \<Rightarrow> 'r list \<Rightarrow> 's \<Rightarrow> 'r list \<times> 's" where
  "attempts attempt [] s = ([], s)"
| "attempts attempt (r # rs) s =
     (case attempt r s of (ok, s1) \<Rightarrow>
        case attempts attempt rs s1 of (granted, s2) \<Rightarrow>
          (if ok then r # granted else granted, s2))"

locale admission =
  fixes attempt :: "'r \<Rightarrow> 's \<Rightarrow> bool \<times> 's"
    and room :: "'s \<Rightarrow> rat"
    and cost :: "'r \<Rightarrow> rat"
  assumes denied_frame: "attempt r s = (False, s') \<Longrightarrow> s' = s"
    and granted_cost: "attempt r s = (True, s') \<Longrightarrow> room s' = room s - cost r"
    and granted_fits: "attempt r s = (True, s') \<Longrightarrow> cost r = 0 \<or> cost r \<le> room s"
begin

lemma attempt_room: "attempt r s = (ok, s') \<Longrightarrow> room s' = room s - (if ok then cost r else 0)"
  by (cases ok) (auto dest: denied_frame granted_cost)

lemma attempt_room_nonneg: "attempt r s = (ok, s') \<Longrightarrow> 0 \<le> room s \<Longrightarrow> 0 \<le> room s'"
  using attempt_room [of r s ok s'] granted_fits [of r s s'] by (cases ok) auto

lemma granted_total:
  "attempts attempt rs s = (granted, s') \<Longrightarrow> room s' = room s - sum_list (map cost granted)"
proof (induction rs arbitrary: s granted s')
  case (Cons r rs)
  obtain ok s1 where a: "attempt r s = (ok, s1)" by force
  obtain g s2 where b: "attempts attempt rs s1 = (g, s2)" by force
  show ?case using Cons.prems Cons.IH [OF b] attempt_room [OF a] a b by (auto split: if_splits)
qed simp

lemma room_stays_nonneg:
  "attempts attempt rs s = (granted, s') \<Longrightarrow> 0 \<le> room s \<Longrightarrow> 0 \<le> room s'"
proof (induction rs arbitrary: s granted s')
  case (Cons r rs)
  obtain ok s1 where a: "attempt r s = (ok, s1)" by force
  obtain g s2 where b: "attempts attempt rs s1 = (g, s2)" by force
  show ?case
    using Cons.prems Cons.IH [OF b] attempt_room_nonneg [OF a] a b by auto
qed simp

lemma granted_total_le:
  "attempts attempt rs s = (granted, s') \<Longrightarrow> 0 \<le> room s \<Longrightarrow>
     sum_list (map cost granted) \<le> room s"
  using granted_total room_stays_nonneg by fastforce

end

section \<open>The guards, characterised\<close>

definition deployed_room :: "settings \<Rightarrow> ledger_store \<Rightarrow> rat" where
  "deployed_room st s =
     max_portfolio_deployed_pct (risk st) / 100 * h_equity (rd_state s) - h_deployed (rd_state s)"

definition slot_room :: "settings \<Rightarrow> ledger_store \<Rightarrow> rat" where
  "slot_room st s = of_int (max_open_positions (copyability st)
     - h_open_positions (rd_state s) - h_pending (rd_state s))"

definition pending_room :: "settings \<Rightarrow> ledger_store \<Rightarrow> rat" where
  "pending_room st s = of_int (max_concurrent_pending (risk st) - h_pending (rd_state s))"

definition token_room :: "settings \<Rightarrow> string \<Rightarrow> ledger_store \<Rightarrow> rat" where
  "token_room st m s =
     max_token_exposure_pct (copyability st) / 100 * h_equity (rd_state s) - num (rd_token s m) 0"

definition trader_room :: "settings \<Rightarrow> string \<Rightarrow> ledger_store \<Rightarrow> rat" where
  "trader_room st w s =
     max_trader_risk_budget_pct (risk st) / 100 * h_equity (rd_state s) - num (rd_trader s w) 0"

definition cash_room :: "ledger_store \<Rightarrow> rat" where
  "cash_room s = h_cash (rd_state s)"

lemmas room_defs = deployed_room_def slot_room_def pending_room_def token_room_def
  trader_room_def cash_room_def

definition breakers_closed :: "settings \<Rightarrow> ledger_store \<Rightarrow> bool" where
  "breakers_closed st s \<longleftrightarrow>
     (let h = rd_state s
      in 0 < h_equity h \<and>
         - h_realized_today h / h_equity h * 100 < max_daily_loss_pct (risk st) \<and>
         (0 < h_hwm h \<longrightarrow>
            (h_hwm h - h_equity h) / h_hwm h * 100 < max_drawdown_pct (risk st)))"

lemma reserve_risk_guard_None:
  "reserve_risk_guard (reserve_request st m w u i) s = None \<longleftrightarrow>
     breakers_closed st s \<and> min_position_usd (risk st) \<le> u \<and> u \<le> cash_room s \<and>
     u \<le> deployed_room st s \<and> 1 \<le> slot_room st s \<and> 1 \<le> pending_room st s \<and>
     u \<le> token_room st m s \<and> u \<le> trader_room st w s"
proof -
  have int: "(1 :: rat) \<le> of_int k \<longleftrightarrow> 1 \<le> k" for k by simp
  show ?thesis
    unfolding reserve_risk_guard_def reserve_request_def room_defs breakers_closed_def Let_def int
    by (auto simp: algebra_simps)
qed

lemma reserve_system_guard_None:
  "reserve_system_guard s = None \<longleftrightarrow> rd_kill s = None \<and> rd_system s = Some ''running''"
  by (auto simp: reserve_system_guard_def split: option.splits)

lemma reserve_request_simps [simp]:
  "a_mint (reserve_request st m w u i) = m" "a_wallet (reserve_request st m w u i) = w"
  "a_size_usd (reserve_request st m w u i) = u"
  "a_reservation_id (reserve_request st m w u i) = i"
  by (simp_all add: reserve_request_def Let_def)

lemma ledger_reserve_granted:
  "ledger_reserve st i m w u s = (r, s') \<Longrightarrow> rv_granted r \<Longrightarrow>
     reserve_system_guard s = None \<and>
     reserve_risk_guard (reserve_request st m w u i) s = None \<and>
     r = \<lparr>rv_granted = True, rv_id = Some i, rv_usd = u, rv_reason = None\<rparr> \<and>
     s' = reserve_commit (reserve_request st m w u i) s"
  by (auto simp: ledger_reserve_def script_reserve_def
      split: option.splits sum.splits prod.splits if_splits)

lemma ledger_reserve_denied:
  "ledger_reserve st i m w u s = (r, s') \<Longrightarrow> \<not> rv_granted r \<Longrightarrow> s' = s \<and> rv_id r = None"
  by (auto simp: ledger_reserve_def script_reserve_def
      split: option.splits sum.splits prod.splits if_splits)

lemma ledger_reserve_grants:
  "reserve_system_guard s = None \<Longrightarrow> reserve_risk_guard (reserve_request st m w u i) s = None \<Longrightarrow>
   ledger_reserve st i m w u s =
     (\<lparr>rv_granted = True, rv_id = Some i, rv_usd = u, rv_reason = None\<rparr>,
      reserve_commit (reserve_request st m w u i) s)"
  by (simp add: ledger_reserve_def script_reserve_def)

lemma reserve_commit_rooms:
  "cash_room (reserve_commit (reserve_request st m w u i) s) = cash_room s - u"
  "deployed_room st (reserve_commit (reserve_request st m w u i) s) = deployed_room st s - u"
  "slot_room st (reserve_commit (reserve_request st m w u i) s) = slot_room st s - 1"
  "pending_room st (reserve_commit (reserve_request st m w u i) s) = pending_room st s - 1"
  "token_room st m' (reserve_commit (reserve_request st m w u i) s) =
     token_room st m' s - (if m = m' then u else 0)"
  "trader_room st w' (reserve_commit (reserve_request st m w u i) s) =
     trader_room st w' s - (if w = w' then u else 0)"
  by (simp_all add: reserve_commit_def room_defs Let_def)

section \<open>The ledger meets the contract, for every one of its rooms\<close>

type_synonym entry_request = "string \<times> string \<times> string \<times> usd"   \<comment> \<open>id, mint, wallet, size\<close>

definition ledger_attempt :: "settings \<Rightarrow> entry_request \<Rightarrow> ledger_store \<Rightarrow> bool \<times> ledger_store" where
  "ledger_attempt st req s =
     (case req of (i, m, w, u) \<Rightarrow>
        (case ledger_reserve st i m w u s of (r, s') \<Rightarrow> (rv_granted r, s')))"

fun req_usd :: "entry_request \<Rightarrow> usd" where
  "req_usd (i, m, w, u) = u"

fun req_token_usd :: "string \<Rightarrow> entry_request \<Rightarrow> usd" where
  "req_token_usd m' (i, m, w, u) = (if m = m' then u else 0)"

fun req_trader_usd :: "string \<Rightarrow> entry_request \<Rightarrow> usd" where
  "req_trader_usd w' (i, m, w, u) = (if w = w' then u else 0)"

lemma ledger_attempt_denied: "ledger_attempt st req s = (False, s') \<Longrightarrow> s' = s"
  by (cases req) (auto simp: ledger_attempt_def split: prod.splits dest: ledger_reserve_denied)

lemma ledger_attempt_granted:
  assumes "ledger_attempt st (i, m, w, u) s = (True, s')"
  shows "reserve_risk_guard (reserve_request st m w u i) s = None"
    and "s' = reserve_commit (reserve_request st m w u i) s"
  using assms ledger_reserve_granted [of st i m w u s]
  by (auto simp: ledger_attempt_def split: prod.splits)

lemma ledger_attempt_room:
  assumes "\<And>i m w u s. room (reserve_commit (reserve_request st m w u i) s) =
      room s - cost (i, m, w, u)"
    and "\<And>i m w u s. reserve_risk_guard (reserve_request st m w u i) s = None \<Longrightarrow>
      cost (i, m, w, u) = 0 \<or> cost (i, m, w, u) \<le> room s"
  shows "admission (ledger_attempt st) room cost"
proof
  fix r s s'
  show "ledger_attempt st r s = (False, s') \<Longrightarrow> s' = s" by (rule ledger_attempt_denied)
  obtain i m w u where r: "r = (i, m, w, u)" by (cases r)
  show "ledger_attempt st r s = (True, s') \<Longrightarrow> room s' = room s - cost r"
    using ledger_attempt_granted(2) [of st i m w u s s'] assms(1) by (simp add: r)
  show "ledger_attempt st r s = (True, s') \<Longrightarrow> cost r = 0 \<or> cost r \<le> room s"
    using ledger_attempt_granted(1) [of st i m w u s s'] assms(2) by (simp add: r)
qed

interpretation cash_adm: admission "ledger_attempt st" cash_room req_usd for st
  by (rule ledger_attempt_room) (simp_all add: reserve_commit_rooms reserve_risk_guard_None)

interpretation deployed_adm: admission "ledger_attempt st" "deployed_room st" req_usd for st
  by (rule ledger_attempt_room) (simp_all add: reserve_commit_rooms reserve_risk_guard_None)

interpretation slot_adm: admission "ledger_attempt st" "slot_room st" "\<lambda>_. 1" for st
  by (rule ledger_attempt_room) (simp_all add: reserve_commit_rooms reserve_risk_guard_None)

interpretation pending_adm: admission "ledger_attempt st" "pending_room st" "\<lambda>_. 1" for st
  by (rule ledger_attempt_room) (simp_all add: reserve_commit_rooms reserve_risk_guard_None)

interpretation token_adm: admission "ledger_attempt st" "token_room st m" "req_token_usd m" for st m
  by (rule ledger_attempt_room) (auto simp: reserve_commit_rooms reserve_risk_guard_None)

interpretation trader_adm: admission "ledger_attempt st" "trader_room st w" "req_trader_usd w" for st w
  by (rule ledger_attempt_room) (auto simp: reserve_commit_rooms reserve_risk_guard_None)

end
