(* ===== verification/Ledger_Properties.thy ===== *)
theory Ledger_Properties
  imports Ledger_Contract
begin

text \<open>
  The properties of the risk ledger and of the emergency controls: what a grant guarantees,
  what concurrent callers cannot do together, what every reachable state satisfies, that a
  reservation is settled once, and that nothing is granted before the start or after the kill.
\<close>

definition sample_ledger :: ledger_store where
  "sample_ledger = bootstrap 10000 True
     \<lparr>rd_exists = False, rd_state = \<lparr>h_equity = 0, h_cash = 0, h_deployed = 0, h_unrealized = 0,
        h_realized_today = 0, h_hwm = 0, h_open_positions = 0, h_pending = 0,
        h_harvested_total = 0, h_sol_balance = 0\<rparr>,
      rd_token = Map.empty, rd_trader = Map.empty, rd_reservations = Map.empty,
      rd_system = Some ''running'', rd_kill = None\<rparr>"

section \<open>Authorisation\<close>

lemma reserve_grant_limits:
  assumes "ledger_reserve st i m w u s = (r, s')" "rv_granted r"
  shows "rd_kill s = None \<and> control_get s = SYS_RUNNING \<and> breakers_closed st s \<and>
    min_position_usd (risk st) \<le> u \<and> rv_usd r = u \<and> 0 \<le> cash_room s' \<and> 0 \<le> deployed_room st s' \<and>
    0 \<le> slot_room st s' \<and> 0 \<le> pending_room st s' \<and> 0 \<le> token_room st m s' \<and>
    0 \<le> trader_room st w s'"
proof -
  note g = ledger_reserve_granted [OF assms]
  have "control_get s = SYS_RUNNING"
    using g by (auto simp: reserve_system_guard_None control_get_def system_state_of_value_def
        system_state_members_def)
  then show ?thesis
    using g by (auto simp: reserve_system_guard_None reserve_risk_guard_None reserve_commit_rooms)
qed

text \<open>
  C1. A granted reservation was authorised by every check at once: no kill latch, the system
  running, the loss and drawdown breakers closed, at least the minimal size; and in the state
  after the grant cash is not negative and the deployed capital, the number of open and pending
  positions, the pending reservations, the exposure to the token and the exposure to the trader
  are all within their limits.
\<close>

theorem reserve_grant_within_limits:
  assumes "ledger_reserve st i m w u s = (r, s')" "rv_granted r"
  shows "rd_kill s = None \<and> control_get s = SYS_RUNNING \<and> breakers_closed st s \<and>
    min_position_usd (risk st) \<le> u \<and> rv_usd r = u \<and> 0 \<le> cash_room s' \<and> 0 \<le> deployed_room st s' \<and>
    0 \<le> slot_room st s' \<and> 0 \<le> pending_room st s' \<and> 0 \<le> token_room st m s' \<and>
    0 \<le> trader_room st w s'"
  by (rule reserve_grant_limits [OF assms])

lemma sample_grant:
  "reserve_system_guard sample_ledger = None"
  "reserve_risk_guard (reserve_request default_settings ''MINT'' ''alice'' 100 ''r1'') sample_ledger
     = None"
  by code_simp+

lemma reserve_grant_within_limits_witness:
  "\<exists>r s'. ledger_reserve default_settings ''r1'' ''MINT'' ''alice'' 100 sample_ledger = (r, s') \<and>
     rv_granted r \<and> rv_usd r = 100 \<and> 0 \<le> cash_room s'"
proof -
  obtain r s' where
    e: "ledger_reserve default_settings ''r1'' ''MINT'' ''alice'' 100 sample_ledger = (r, s')"
    and g: "rv_granted r"
    using ledger_reserve_grants [OF sample_grant] by simp
  from reserve_grant_within_limits [OF e g] e g show ?thesis by blast
qed

definition script_codes :: "string list" where
  "script_codes = [''KILL_SWITCH_ACTIVE'', ''SYSTEM_NOT_STARTED'', ''SYSTEM_PAUSED'',
     ''POSITION_BELOW_MINIMUM'', ''INSUFFICIENT_CAPITAL'', ''DAILY_LOSS_LIMIT'', ''DRAWDOWN_LIMIT'',
     ''PORTFOLIO_DEPLOYED_LIMIT'', ''MAX_OPEN_POSITIONS'', ''TOO_MANY_PENDING'',
     ''TOKEN_EXPOSURE_LIMIT'', ''TRADER_EXPOSURE_LIMIT'']"

lemma reserve_system_guard_codes: "reserve_system_guard s = Some code \<Longrightarrow> code \<in> set script_codes"
  by (auto simp: reserve_system_guard_def script_codes_def split: option.splits if_splits)

lemma reserve_risk_guard_codes: "reserve_risk_guard a s = Some code \<Longrightarrow> code \<in> set script_codes"
  unfolding reserve_risk_guard_def Let_def script_codes_def
  by (simp split: if_splits) (elim disjE; simp)?

lemma script_codes_are_reasons:
  "code \<in> set script_codes \<Longrightarrow> \<exists>q. reason_of_value code = Some q \<and> reason_value q = code"
proof -
  have "list_all (\<lambda>c. map_option reason_value (reason_of_value c) = Some c) script_codes"
    by code_simp
  then show "code \<in> set script_codes \<Longrightarrow> ?thesis" by (auto simp: list_all_iff)
qed

text \<open>
  A denied reservation leaves the whole store as it was, and its reason is the code the
  script returned.
\<close>

theorem reserve_denial_is_pure:
  assumes "ledger_reserve st i m w u s = (r, s')" "\<not> rv_granted r"
  shows "s' = s \<and> rv_id r = None \<and>
    (\<exists>reason. rv_reason r = Some reason \<and>
       script_reserve (reserve_request st m w u i) s = (Inl (reason_value reason), s))"
proof -
  have "\<exists>code. script_reserve (reserve_request st m w u i) s = (Inl code, s) \<and>
      code \<in> set script_codes \<and>
      rv_reason r = Some (case reason_of_value code of
        None \<Rightarrow> R_INSUFFICIENT_CAPITAL | Some q \<Rightarrow> q)"
    using assms reserve_system_guard_codes [of s]
      reserve_risk_guard_codes [of "reserve_request st m w u i" s]
    by (auto simp: ledger_reserve_def script_reserve_def split: option.splits)
  then show ?thesis
    using ledger_reserve_denied [OF assms] script_codes_are_reasons by fastforce
qed

lemma reserve_denial_is_pure_witness:
  "\<exists>r s'. ledger_reserve default_settings ''r1'' ''MINT'' ''alice'' 5 sample_ledger = (r, s') \<and>
     rv_reason r = Some R_POSITION_BELOW_MINIMUM \<and> s' = sample_ledger"
proof -
  obtain r s' where
    e: "ledger_reserve default_settings ''r1'' ''MINT'' ''alice'' 5 sample_ledger = (r, s')"
    by force
  have n: "\<not> rv_granted (fst (ledger_reserve default_settings ''r1'' ''MINT'' ''alice'' 5 sample_ledger))"
    and c: "rv_reason (fst (ledger_reserve default_settings ''r1'' ''MINT'' ''alice'' 5 sample_ledger))
      = Some R_POSITION_BELOW_MINIMUM"
    by code_simp+
  have "s' = sample_ledger" using reserve_denial_is_pure [OF e] n e by simp
  then show ?thesis using e c by simp
qed

section \<open>Concurrent requests\<close>

text \<open>
  C14. Whatever the order in which any number of concurrent reservation requests reach the
  ledger, together they are granted no more than the free cash, no more than the deployable
  capital, no more than the free position slots and the free pending slots, and for each token
  and each trader no more than what is left of its budget.
\<close>

theorem concurrent_grants_within_budget:
  assumes "attempts (ledger_attempt st) reqs s = (granted, s')"
    and "0 \<le> cash_room s" "0 \<le> deployed_room st s" "0 \<le> slot_room st s" "0 \<le> pending_room st s"
    and "0 \<le> token_room st m s" "0 \<le> trader_room st w s"
  shows "sum_list (map req_usd granted) \<le> min (cash_room s) (deployed_room st s) \<and>
    of_nat (length granted) \<le> min (slot_room st s) (pending_room st s) \<and>
    sum_list (map (req_token_usd m) granted) \<le> token_room st m s \<and>
    sum_list (map (req_trader_usd w) granted) \<le> trader_room st w s"
proof -
  have len: "sum_list (map (\<lambda>_. 1 :: rat) granted) = of_nat (length granted)"
    by (induction granted) auto
  show ?thesis
    using cash_adm.granted_total_le [OF assms(1,2)] deployed_adm.granted_total_le [OF assms(1,3)]
      slot_adm.granted_total_le [OF assms(1,4)] pending_adm.granted_total_le [OF assms(1,5)]
      token_adm.granted_total_le [OF assms(1,6)] trader_adm.granted_total_le [OF assms(1,7)]
    by (simp add: len)
qed

definition burst :: "entry_request list" where
  "burst = map (\<lambda>i. (replicate i CHR ''r'', ''MINT'', ''alice'', 50)) [1 ..< 13]"

lemma concurrent_grants_within_budget_witness:
  "\<exists>granted s'. attempts (ledger_attempt default_settings) burst sample_ledger = (granted, s') \<and>
     length granted = 5 \<and> sum_list (map req_usd granted) \<le> 6000 \<and>
     of_nat (length granted) \<le> pending_room default_settings sample_ledger"
proof -
  obtain granted s' where
    e: "attempts (ledger_attempt default_settings) burst sample_ledger = (granted, s')" by force
  have five: "length (fst (attempts (ledger_attempt default_settings) burst sample_ledger)) = 5"
    by code_simp
  have rooms: "0 \<le> cash_room sample_ledger" "0 \<le> deployed_room default_settings sample_ledger"
    "0 \<le> slot_room default_settings sample_ledger" "0 \<le> pending_room default_settings sample_ledger"
    "0 \<le> token_room default_settings ''MINT'' sample_ledger"
    "0 \<le> trader_room default_settings ''alice'' sample_ledger"
    and six: "min (cash_room sample_ledger) (deployed_room default_settings sample_ledger) = 6000"
    by code_simp+
  from concurrent_grants_within_budget [OF e rooms] e five six show ?thesis by auto
qed

section \<open>Reachable states\<close>

text \<open>
  The steps between two mark-to-market ticks, in any interleaving: entries (reserve, release,
  commit of a fill not above its reservation), exits, the daily reset and the system controls.
\<close>

inductive entry_step :: "settings \<Rightarrow> ledger_store \<Rightarrow> ledger_store \<Rightarrow> bool" for st where
  reserve: "rd_reservations s i = None \<Longrightarrow> ledger_reserve st i m w u s = (r, s') \<Longrightarrow>
     entry_step st s s'"
| release: "ledger_release i s = (u, s') \<Longrightarrow> entry_step st s s'"
| commit: "(\<And>r. rd_reservations s i = Some r \<Longrightarrow> a \<le> rh_usd r) \<Longrightarrow>
     ledger_commit i a s = (u, s') \<Longrightarrow> entry_step st s s'"
| exit: "0 \<le> c \<Longrightarrow> 0 \<le> q \<Longrightarrow> entry_step st s (release_position m w c p q full s)"
| daily: "entry_step st s (reset_daily s)"
| control: "entry_step st s (s\<lparr>rd_system := sys, rd_kill := k\<rparr>)"

inductive ledger_step :: "settings \<Rightarrow> ledger_store \<Rightarrow> ledger_store \<Rightarrow> bool" for st where
  entry: "entry_step st s s' \<Longrightarrow> ledger_step st s s'"
| mark: "mark unreal sol s = (r, s') \<Longrightarrow> ledger_step st s s'"
| harvest: "ledger_step st s (add_harvest a s)"
| expire: "rd_reservations s i = Some r \<Longrightarrow> rh_state r = ''committed'' \<Longrightarrow>
     ledger_step st s (s\<lparr>rd_reservations := (rd_reservations s)(i := None)\<rparr>)"

text \<open>The limits, with what the code keeps true about the held reservations.\<close>

definition limits_ok :: "settings \<Rightarrow> ledger_store \<Rightarrow> bool" where
  "limits_ok st s \<longleftrightarrow>
     0 \<le> h_equity (rd_state s) \<and> 0 \<le> cash_room s \<and> 0 \<le> deployed_room st s \<and>
     0 \<le> slot_room st s \<and> 0 \<le> pending_room st s \<and>
     (\<forall>m. 0 \<le> token_room st m s) \<and> (\<forall>w. 0 \<le> trader_room st w s) \<and>
     (\<forall>i r. rd_reservations s i = Some r \<longrightarrow> rh_state r = ''held'' \<longrightarrow> 0 \<le> rh_usd r)"

definition sane_limits :: "settings \<Rightarrow> bool" where
  "sane_limits st \<longleftrightarrow>
     0 \<le> min_position_usd (risk st) \<and> 0 \<le> max_portfolio_deployed_pct (risk st) \<and>
     0 \<le> max_token_exposure_pct (copyability st) \<and> 0 \<le> max_trader_risk_budget_pct (risk st)"

lemma reserve_limits_ok:
  assumes "ledger_reserve st i m w u s = (r, s')" "limits_ok st s" "sane_limits st"
  shows "limits_ok st s'"
proof (cases "rv_granted r")
  case True
  note g = ledger_reserve_granted [OF assms(1) True]
  then have "0 \<le> u" using assms(3) by (auto simp: reserve_risk_guard_None sane_limits_def)
  then show ?thesis
    using g assms(2) unfolding limits_ok_def
    by (auto simp: reserve_commit_rooms reserve_risk_guard_None)
      (auto simp: reserve_commit_def Let_def split: if_splits)
next
  case False
  then show ?thesis using ledger_reserve_denied [OF assms(1)] assms(2) by simp
qed

text \<open>Releases and commits only give room back.\<close>

definition rooms_grow :: "settings \<Rightarrow> ledger_store \<Rightarrow> ledger_store \<Rightarrow> bool" where
  "rooms_grow st s s' \<longleftrightarrow>
     h_equity (rd_state s') = h_equity (rd_state s) \<and> cash_room s \<le> cash_room s' \<and>
     deployed_room st s \<le> deployed_room st s' \<and> slot_room st s \<le> slot_room st s' \<and>
     pending_room st s \<le> pending_room st s' \<and>
     (\<forall>m. token_room st m s \<le> token_room st m s') \<and>
     (\<forall>w. trader_room st w s \<le> trader_room st w s') \<and>
     (\<forall>i r. rd_reservations s' i = Some r \<longrightarrow> rh_state r = ''held'' \<longrightarrow>
        rd_reservations s i = Some r)"

lemma rooms_grow_limits_ok:
  assumes g: "rooms_grow st s s'" and ok: "limits_ok st s"
  shows "limits_ok st s'"
  unfolding limits_ok_def
proof (intro conjI allI impI)
  note up = g [unfolded rooms_grow_def] and low = ok [unfolded limits_ok_def]
  show "0 \<le> h_equity (rd_state s')" using up low by presburger
  show "0 \<le> cash_room s'" "0 \<le> deployed_room st s'" "0 \<le> slot_room st s'" "0 \<le> pending_room st s'"
    by (meson up low order_trans)+
  show "0 \<le> token_room st m s'" for m by (meson up low order_trans)
  show "0 \<le> trader_room st w s'" for w by (meson up low order_trans)
  show "rd_reservations s' i = Some r \<Longrightarrow> rh_state r = ''held'' \<Longrightarrow> 0 \<le> rh_usd r" for i r
    using up low by blast
qed

lemma rooms_grow_refl [simp]: "rooms_grow st s s"
  by (simp add: rooms_grow_def)

lemma release_rooms:
  assumes "rd_reservations s i = Some r" "rh_state r = ''held''"
  defines "s' \<equiv> snd (ledger_release i s)"
  shows "ledger_release i s = (rh_usd r, s')"
    and "h_equity (rd_state s') = h_equity (rd_state s)"
    and "cash_room s' = cash_room s + rh_usd r"
    and "deployed_room st s' = deployed_room st s + rh_usd r"
    and "slot_room st s' = slot_room st s + 1"
    and "pending_room st s' = pending_room st s + 1"
    and "token_room st m s' = token_room st m s + (if m = rh_mint r then rh_usd r else 0)"
    and "trader_room st w s' = trader_room st w s + (if w = rh_wallet r then rh_usd r else 0)"
    and "rd_reservations s' = (rd_reservations s)(i := None)"
  unfolding s'_def
  by (simp_all add: assms ledger_release_def script_release_def room_defs Let_def)

lemma release_none:
  assumes "\<not> (\<exists>r. rd_reservations s i = Some r \<and> rh_state r = ''held'')"
  shows "ledger_release i s = (0, s)"
  using assms by (auto simp: ledger_release_def script_release_def split: option.splits)

lemma commit_rooms:
  fixes a :: usd
  assumes "rd_reservations s i = Some r" "rh_state r = ''held''"
  defines "s' \<equiv> snd (ledger_commit i a s)"
  shows "ledger_commit i a s = (a, s')"
    and "h_equity (rd_state s') = h_equity (rd_state s)"
    and "cash_room s' = cash_room s + (rh_usd r - a)"
    and "deployed_room st s' = deployed_room st s + (rh_usd r - a)"
    and "slot_room st s' = slot_room st s"
    and "pending_room st s' = pending_room st s + 1"
    and "token_room st m s' = token_room st m s + (if m = rh_mint r then rh_usd r - a else 0)"
    and "trader_room st w s' = trader_room st w s + (if w = rh_wallet r then rh_usd r - a else 0)"
    and "rd_reservations s' =
      (rd_reservations s)(i \<mapsto> r\<lparr>rh_state := ''committed'', rh_usd := a\<rparr>)"
  unfolding s'_def
  by (simp_all add: assms ledger_commit_def script_commit_def room_defs Let_def)

lemma commit_none:
  assumes "\<not> (\<exists>r. rd_reservations s i = Some r \<and> rh_state r = ''held'')"
  shows "ledger_commit i a s = (0, s)"
  using assms by (auto simp: ledger_commit_def script_commit_def split: option.splits)

lemma release_grows:
  assumes "ledger_release i s = (u, s')"
    and "\<And>r. rd_reservations s i = Some r \<Longrightarrow> rh_state r = ''held'' \<Longrightarrow> 0 \<le> rh_usd r"
  shows "rooms_grow st s s'"
proof (cases "\<exists>r. rd_reservations s i = Some r \<and> rh_state r = ''held''")
  case True
  then obtain r where r: "rd_reservations s i = Some r" "rh_state r = ''held''" by blast
  then have "0 \<le> rh_usd r" by (rule assms(2))
  moreover have "s' = snd (ledger_release i s)" by (simp add: assms(1))
  ultimately show ?thesis
    unfolding rooms_grow_def by (simp only: release_rooms(2-9) [OF r]) simp
next
  case False
  then show ?thesis using assms(1) release_none [OF False] by simp
qed

lemma commit_grows:
  assumes "ledger_commit i a s = (u, s')"
    and "\<And>r. rd_reservations s i = Some r \<Longrightarrow> a \<le> rh_usd r"
  shows "rooms_grow st s s'"
proof (cases "\<exists>r. rd_reservations s i = Some r \<and> rh_state r = ''held''")
  case True
  then obtain r where r: "rd_reservations s i = Some r" "rh_state r = ''held''" by blast
  from r(1) have "a \<le> rh_usd r" by (rule assms(2))
  moreover have "s' = snd (ledger_commit i a s)" by (simp add: assms(1))
  ultimately show ?thesis
    unfolding rooms_grow_def by (simp only: commit_rooms(2-9) [OF r]) simp
next
  case False
  then show ?thesis using assms(1) commit_none [OF False] by simp
qed

lemma drop_dust_le: "0 \<le> b \<Longrightarrow> num (m k) 0 \<le> b \<Longrightarrow> num (drop_dust m j k) 0 \<le> b"
  by (auto simp: drop_dust_def)

lemma exit_limits_ok:
  assumes "limits_ok st s" "sane_limits st" "0 \<le> c" "0 \<le> q"
  shows "limits_ok st (release_position m w c p q full s)"
proof -
  let ?s' = "release_position m w c p q full s"
  let ?e = "h_equity (rd_state s)"
  have caps: "0 \<le> max_portfolio_deployed_pct (risk st) / 100 * ?e"
    "0 \<le> max_token_exposure_pct (copyability st) / 100 * ?e"
    "0 \<le> max_trader_risk_budget_pct (risk st) / 100 * ?e"
    using assms(1,2) by (auto simp: limits_ok_def sane_limits_def)
  have dust: "num (drop_dust (hincr f k (- c)) k j) 0 \<le> b"
    if "0 \<le> b" "num (f j) 0 \<le> b" for f k j b
  proof (rule drop_dust_le [OF that(1)])
    show "num (hincr f k (- c) j) 0 \<le> b"
      using that(2) assms(3) unfolding num_hincr by (cases "j = k") simp_all
  qed
  have "num (rd_token ?s' m') 0 \<le> max_token_exposure_pct (copyability st) / 100 * ?e" for m'
  proof -
    have "num (rd_token s m') 0 \<le> max_token_exposure_pct (copyability st) / 100 * ?e"
      using assms(1) by (simp add: limits_ok_def token_room_def)
    from dust [where f = "rd_token s" and j = m', OF caps(2) this] show ?thesis
      by (simp add: release_position_def script_release_position_def Let_def)
  qed
  moreover have "num (rd_trader ?s' w') 0 \<le> max_trader_risk_budget_pct (risk st) / 100 * ?e" for w'
  proof -
    have "num (rd_trader s w') 0 \<le> max_trader_risk_budget_pct (risk st) / 100 * ?e"
      using assms(1) by (simp add: limits_ok_def trader_room_def)
    from dust [where f = "rd_trader s" and j = w', OF caps(3) this] show ?thesis
      by (simp add: release_position_def script_release_position_def Let_def)
  qed
  moreover have "h_equity (rd_state ?s') = ?e" "rd_reservations ?s' = rd_reservations s"
    "cash_room s \<le> cash_room ?s'" "slot_room st s \<le> slot_room st ?s'"
    "pending_room st ?s' = pending_room st s"
    using assms(4)
    by (simp_all add: release_position_def script_release_position_def Let_def room_defs)
  moreover have "0 \<le> deployed_room st ?s'"
    using assms(1,3) caps(1)
    by (auto simp: release_position_def script_release_position_def Let_def limits_ok_def
        deployed_room_def)
  ultimately show ?thesis
    using assms(1) by (auto simp: limits_ok_def token_room_def trader_room_def)
qed

lemma entry_step_limits_ok:
  assumes "entry_step st s s'" "limits_ok st s" "sane_limits st"
  shows "limits_ok st s'"
  using assms
proof (induction rule: entry_step.induct)
  case (release i s u s')
  have "rooms_grow st s s'"
    using release.hyps release.prems(1) by (elim release_grows) (simp add: limits_ok_def)
  then show ?case using release.prems(1) by (rule rooms_grow_limits_ok)
next
  case (commit s i a u s')
  have "rooms_grow st s s'" using commit.hyps(2,1) by (rule commit_grows)
  then show ?case using commit.prems(1) by (rule rooms_grow_limits_ok)
next
  case (reserve s i m w u r s')
  then show ?case by (blast intro: reserve_limits_ok)
next
  case (exit c q s m w p full)
  then show ?case by (blast intro: exit_limits_ok)
next
  case (daily s)
  then show ?case by (simp add: limits_ok_def room_defs reset_daily_def)
next
  case (control s sys k)
  then show ?case by (simp add: limits_ok_def room_defs)
qed


lemma sample_limits_ok: "limits_ok default_settings sample_ledger"
proof -
  have "rd_reservations sample_ledger = Map.empty" "rd_token sample_ledger = Map.empty"
    "rd_trader sample_ledger = Map.empty"
    by (simp_all add: sample_ledger_def bootstrap_def)
  moreover have "0 \<le> cash_room sample_ledger" "0 \<le> deployed_room default_settings sample_ledger"
    "0 \<le> slot_room default_settings sample_ledger" "0 \<le> pending_room default_settings sample_ledger"
    "h_equity (rd_state sample_ledger) = 10000"
    "max_token_exposure_pct (copyability default_settings) = 5"
    "max_trader_risk_budget_pct (risk default_settings) = 15"
    by code_simp+
  ultimately show ?thesis by (simp add: limits_ok_def token_room_def trader_room_def)
qed

lemma sample_sane_limits: "sane_limits default_settings"
  by (simp add: sane_limits_def default_settings_def default_risk_def default_copyability_def)


end
