(* ===== verification/Sizing.thy ===== *)
theory Sizing
  imports Samples
begin

text \<open>
  \<^verbatim>\<open>engine/sizing.py\<close>: the intended size of an entry in each sizing mode, and the
  hard caps.  Fractional Kelly divides by the win/loss ratio of the trader, which raises when
  the recorded average win is 0, so the sizes are results.
\<close>

datatype sizing_mode =
    FIXED
  | PORTFOLIO_PCT
  | SOURCE_PROPORTIONAL
  | CONFIDENCE_WEIGHTED
  | KELLY

definition kelly :: "trade_candidate \<Rightarrow> usd \<Rightarrow> risk_config \<Rightarrow> py_error + usd" where
  "kelly c equity cfg =
     (let t = c_trader c;
          win_rate = (case tr_win_rate t of None \<Rightarrow> 0 | Some w \<Rightarrow> w) / 100
      in if win_rate \<le> 0 \<or> tr_trade_count t < 30
           then Inr (equity * base_position_pct cfg / 100 * (1/2))
         else
           let avg_win = dict_get ''avg_win_pct'' 60 (tr_notes t) / 100;
               avg_loss = dict_get ''avg_loss_pct'' 35 (tr_notes t) / 100
           in if avg_loss \<le> 0 then Inr (equity * base_position_pct cfg / 100)
              else let b = avg_win / avg_loss
                   in if b = 0 then Inl ZeroDivisionError
                      else let edge = (b * win_rate - (1 - win_rate)) / b;
                               fraction = clamp (edge * (1/4)) 0 (max_position_pct cfg / 100)
                           in Inr (equity * fraction))"

definition score_weight :: "rat \<Rightarrow> rat" where
  "score_weight v = clamp (v / 100) (2/10) 1"

definition base_size ::
    "trade_candidate \<Rightarrow> portfolio_state \<Rightarrow> sizing_mode \<Rightarrow> risk_config \<Rightarrow> py_error + usd" where
  "base_size c portfolio m cfg =
     (let equity = total_equity_usd portfolio
      in if equity \<le> 0 then Inr 0
         else case m of
           FIXED \<Rightarrow> Inr (min_position_usd cfg * 5)
         | PORTFOLIO_PCT \<Rightarrow> Inr (equity * base_position_pct cfg / 100)
         | SOURCE_PROPORTIONAL \<Rightarrow>
             (let src_usd = st_source_value_usd (c_source_trade c);
                  avg = (case tr_avg_trade_size_usd (c_trader c) of
                           None \<Rightarrow> src_usd | Some a \<Rightarrow> if a = 0 then src_usd else a);
                  conviction = clamp (if 0 < avg then src_usd / avg else 1) (25/100) 3
              in Inr (equity * base_position_pct cfg / 100 * conviction))
         | CONFIDENCE_WEIGHTED \<Rightarrow>
             (let s = tr_scores (c_trader c)
              in Inr (equity * base_position_pct cfg / 100 * score_weight (sc_composite s)
                   * score_weight (sc_confidence s) * score_weight (sc_copyability s)))
         | KELLY \<Rightarrow> kelly c equity cfg)"

definition final_size ::
    "trade_candidate \<Rightarrow> portfolio_state \<Rightarrow> rat \<Rightarrow> sizing_mode \<Rightarrow> risk_config \<Rightarrow>
       py_error + usd \<times> pct" where
  "final_size c portfolio gate_multiplier m cfg =
     (case base_size c portfolio m cfg of
        Inl e \<Rightarrow> Inl e
      | Inr b \<Rightarrow>
          let equity = total_equity_usd portfolio;
              cap = equity * max_position_pct cfg / 100;
              size = min (min (b * gate_multiplier) cap) (pf_cash_usd portfolio)
          in if size < min_position_usd cfg then Inr (0, 0)
             else let pct = (if 0 < equity then size / equity * 100 else 0)
                  in Inr (quantize 2 size, quantize 4 pct))"

section \<open>Facts\<close>

lemma score_weight_range: "2/10 \<le> score_weight v \<and> score_weight v \<le> 1"
  by (simp add: score_weight_def clamp_lower clamp_upper)

lemma score_weight_mono: "v \<le> w \<Longrightarrow> score_weight v \<le> score_weight w"
  by (simp add: score_weight_def clamp_mono divide_right_mono)

lemma weights_product:
  fixes a b c :: rat
  assumes "0 \<le> u" "2/10 \<le> a" "a \<le> 1" "2/10 \<le> b" "b \<le> 1" "2/10 \<le> c" "c \<le> 1"
  shows "u * (8/1000) \<le> u * a * b * c \<and> u * a * b * c \<le> u"
proof -
  have ab: "(2/10) * (2/10) \<le> a * b" "a * b \<le> 1 * 1"
    using assms by (intro mult_mono; simp)+
  have "(2/10) * (2/10) * (2/10) \<le> a * b * c" "a * b * c \<le> 1 * 1 * 1"
    using ab assms by (intro mult_mono; simp)+
  from mult_left_mono [OF this(1) assms(1)] mult_left_mono [OF this(2) assms(1)] show ?thesis
    by (simp add: mult.assoc)
qed

text \<open>Only Kelly sizing can raise, and it does so exactly on a zero average win.\<close>

lemma base_size_total: "m \<noteq> KELLY \<Longrightarrow> base_size c pf m cfg \<noteq> Inl e"
  by (cases m) (simp_all add: base_size_def Let_def)

lemma kelly_capped:
  assumes "kelly c equity cfg = Inr k" "0 \<le> equity" "0 \<le> base_position_pct cfg"
    "0 \<le> max_position_pct cfg"
  shows "0 \<le> k \<and> k \<le> equity * max (base_position_pct cfg) (max_position_pct cfg) / 100"
proof -
  let ?m = "max (base_position_pct cfg) (max_position_pct cfg)"
  have base: "0 \<le> equity * base_position_pct cfg / 100"
    "equity * base_position_pct cfg / 100 \<le> equity * ?m / 100"
    using assms(2,3) by (auto intro!: divide_right_mono mult_left_mono)
  have frac: "0 \<le> equity * clamp x 0 (max_position_pct cfg / 100)"
    "equity * clamp x 0 (max_position_pct cfg / 100) \<le> equity * ?m / 100" for x
  proof -
    have c: "0 \<le> clamp x 0 (max_position_pct cfg / 100)"
      "clamp x 0 (max_position_pct cfg / 100) \<le> ?m / 100"
      using clamp_lower [of 0 x] clamp_upper [of 0 "max_position_pct cfg / 100" x] assms(4)
      by (simp_all add: le_max_iff_disj order_trans [OF _ divide_right_mono])
    show "0 \<le> equity * clamp x 0 (max_position_pct cfg / 100)"
      using c assms(2) by simp
    show "equity * clamp x 0 (max_position_pct cfg / 100) \<le> equity * ?m / 100"
      using mult_left_mono [OF c(2) assms(2)] by simp
  qed
  show ?thesis
    using assms(1) base frac
    by (auto simp: kelly_def Let_def split: if_splits)
qed

text \<open>
  Whatever the sizing mode and the gate multiplier, a size that is not refused is at least
  the minimal position and never more than the position cap and the free cash, up to the half
  cent of the final rounding; its reported percentage stays within the cap up to the rounding
  of its fourth decimal.
\<close>

theorem final_size_within_caps:
  assumes "final_size c pf mult m cfg = Inr (sz, pct)" "sz \<noteq> 0"
    and "0 < total_equity_usd pf"
  shows "min_position_usd cfg - 5/1000 \<le> sz \<and>
    sz \<le> total_equity_usd pf * max_position_pct cfg / 100 + 5/1000 \<and>
    sz \<le> pf_cash_usd pf + 5/1000 \<and> pct \<le> max_position_pct cfg + 5/100000"
proof -
  obtain b where b: "base_size c pf m cfg = Inr b"
    using assms(1) by (auto simp: final_size_def split: sum.splits)
  define eq where "eq = total_equity_usd pf"
  define raw where "raw = min (min (b * mult) (eq * max_position_pct cfg / 100)) (pf_cash_usd pf)"
  have q: "sz = quantize 2 raw" "pct = quantize 4 (raw / eq * 100)" "min_position_usd cfg \<le> raw"
    using assms b by (auto simp: final_size_def raw_def eq_def Let_def split: if_splits)
  have le: "raw \<le> eq * max_position_pct cfg / 100" "raw \<le> pf_cash_usd pf"
    by (simp_all add: raw_def)
  have "raw / eq * 100 \<le> max_position_pct cfg"
    using le(1) assms(3) by (simp add: eq_def field_simps)
  moreover have "\<bar>sz - raw\<bar> \<le> 5/1000" using quantize_near [of 2 raw] by (simp add: q(1))
  moreover have "\<bar>pct - raw / eq * 100\<bar> \<le> 5/100000"
    using quantize_near [of 4 "raw / eq * 100"] by (simp add: q(2))
  ultimately show ?thesis using le q(3) unfolding eq_def [symmetric] abs_le_iff by linarith
qed

definition sample_portfolio :: portfolio_state where
  "sample_portfolio = \<lparr>pf_active_capital_usd = 10000, pf_cash_usd = 10000, pf_deployed_usd = 0,
     pf_unrealized_pnl_usd = 0, pf_realized_pnl_today_usd = 0, pf_harvested_total_usd = 0,
     pf_high_water_mark_usd = 10000, pf_open_positions = 0, pf_sol_balance = 0\<rparr>"

lemma final_size_within_caps_witness:
  "final_size sample_candidate sample_portfolio 1 CONFIDENCE_WEIGHTED default_risk
     = Inr (63/2, 63/200) \<and> (63/2 :: rat) \<le> 10000 * 2 / 100 + 5/1000"
proof -
  have e: "final_size sample_candidate sample_portfolio 1 CONFIDENCE_WEIGHTED default_risk
     = Inr (63/2, 63/200)" by code_simp
  have "0 < total_equity_usd sample_portfolio" "total_equity_usd sample_portfolio = 10000"
    "max_position_pct default_risk = 2"
    by code_simp+
  with final_size_within_caps [OF e] e show ?thesis by simp
qed

text \<open>
  The confidence weighted size grows with each of the three scores and always lies between
  0.8 per cent and all of the base position.
\<close>

lemma confidence_weighted_range:
  assumes "base_size c pf CONFIDENCE_WEIGHTED cfg = Inr b" "0 < total_equity_usd pf"
    "0 \<le> base_position_pct cfg"
  shows "total_equity_usd pf * base_position_pct cfg / 100 * (8/1000) \<le> b \<and>
    b \<le> total_equity_usd pf * base_position_pct cfg / 100"
proof -
  let ?u = "total_equity_usd pf * base_position_pct cfg / 100"
  let ?s = "tr_scores (c_trader c)"
  have "b = ?u * score_weight (sc_composite ?s) * score_weight (sc_confidence ?s)
      * score_weight (sc_copyability ?s)"
    using assms(1,2) unfolding base_size_def Let_def by (simp del: times_divide_eq_left)
  moreover have "0 \<le> ?u" using assms(2,3) by simp
  ultimately show ?thesis using weights_product [OF _ ] score_weight_range by metis
qed

end
