(* ===== verification/Decision_Engine.thy ===== *)
theory Decision_Engine
  imports Gate_Properties Ledger_Properties Sizing
begin

text \<open>
  \<^verbatim>\<open>engine/decision.py\<close> and the provider seam of \<^verbatim>\<open>engine/providers.py\<close>: from
  a source trade to a rejection or to a reserved, sized order.

  The data provider is a record of functions, an argument of the engine as in the source; its
  clock is read several times in one evaluation, so \<open>dp_now k\<close> is the \<open>k\<close>-th reading.  An
  evaluation awaits other tasks between the portfolio snapshot and the reservation: what they
  do to the ledger in that time is the argument \<open>interfere\<close>.
\<close>

section \<open>Providers\<close>

record data_provider =
  dp_market_state :: "string \<Rightarrow> nat \<Rightarrow> market_state"
  dp_token_risk :: "string \<Rightarrow> token_risk"
  dp_sol_price_usd :: usd
  dp_quote :: "string \<Rightarrow> string \<Rightarrow> int \<Rightarrow> quote option"
  dp_insider_flags :: "string \<Rightarrow> string \<Rightarrow> usd \<Rightarrow> int option \<Rightarrow> string list"
  dp_now :: "nat \<Rightarrow> datetime"

section \<open>The engine\<close>

definition STRATEGY_VERSION :: string where
  "STRATEGY_VERSION = ''v1''"

definition reject_decision ::
    "nat \<Rightarrow> reason list \<Rightarrow> gate_result list \<Rightarrow> latency_breakdown \<Rightarrow> decision_result" where
  "reject_decision candidate_id reasons gates latency =
     \<lparr>d_candidate_id = candidate_id, d_decision = DEC_REJECT, d_reasons = reasons, d_gates = gates,
      d_size_usd = 0, d_size_pct = 0, d_size_multiplier = 1, d_reservation_id = None,
      d_latency = latency, d_strategy_version = STRATEGY_VERSION\<rparr>"

definition done_decision :: "datetime \<Rightarrow> decision_result \<Rightarrow> decision_result" where
  "done_decision now d =
     (if lat_decision_completed_at (d_latency d) = None
        then d\<lparr>d_latency := (d_latency d)\<lparr>lat_decision_completed_at := Some now\<rparr>\<rparr>
      else d)"

text \<open>What is known about a candidate that only the ledger can still refuse.\<close>

record prepared_entry =
  pe_candidate :: trade_candidate
  pe_gates :: "gate_result list"
  pe_mult :: rat
  pe_size_usd :: usd
  pe_size_pct :: pct
  pe_sol_usd :: usd
  pe_latency :: latency_breakdown

type_synonym 'a screened = "(py_error + decision_result) + 'a"   \<comment> \<open>raise, reject or go on\<close>

definition reject_now ::
    "data_provider \<Rightarrow> nat \<Rightarrow> latency_breakdown \<Rightarrow> reason list \<Rightarrow> gate_result list \<Rightarrow> 'a screened" where
  "reject_now data cid latency reasons gates =
     Inl (Inr (done_decision (dp_now data 1) (reject_decision cid reasons gates latency)))"

text \<open>Stages 1 and 2: the free rejects and the enrichment.\<close>

definition enrich_entry ::
    "settings \<Rightarrow> data_provider \<Rightarrow> nat \<Rightarrow> latency_breakdown \<Rightarrow> source_trade \<Rightarrow> trader_profile \<Rightarrow>
       string list \<Rightarrow> trade_candidate screened" where
  "enrich_entry st data cid latency trade trader confirmations =
     (let mint = st_token_mint trade;
          c = \<lparr>c_id = cid, c_source_trade = trade, c_trader = trader,
               c_market = default_market mint, c_token_risk = None, c_quote = None,
               c_confirmations = confirmations, c_created_at = dp_now data 0\<rparr>;
          pre_gate = trader_gate c (copyability st);
          market = dp_market_state data mint (st_token_decimals trade);
          token_risk = dp_token_risk data mint;
          flags = dp_insider_flags data (st_wallet trade) mint (st_source_value_usd trade)
                    (ms_token_age_seconds market)
      in if st_action trade \<noteq> ACT_BUY
           then reject_now data cid latency [R_NON_COPYABLE_ACTION] []
         else if \<not> g_passed pre_gate
           then reject_now data cid latency (g_reasons pre_gate) [pre_gate]
         else if ms_stale market \<or> ms_price_usd market \<le> 0
           then reject_now data cid latency [R_STALE_MARKET_DATA] []
         else Inr (c\<lparr>c_market := market,
                     c_token_risk := Some (if flags \<noteq> [] then token_risk\<lparr>rk_insider_flags := flags\<rparr>
                                           else token_risk)\<rparr>))"

text \<open>Stage 3: a provisional size, and a quote at that size.\<close>

definition quote_entry ::
    "settings \<Rightarrow> data_provider \<Rightarrow> sizing_mode \<Rightarrow> latency_breakdown \<Rightarrow> portfolio_state \<Rightarrow>
       trade_candidate \<Rightarrow> (trade_candidate \<times> usd \<times> usd) screened" where
  "quote_entry st data sizing latency portfolio c =
     (case final_size c portfolio 1 sizing (risk st) of
        Inl e \<Rightarrow> Inl (Inl e)
      | Inr (provisional, _) \<Rightarrow>
          let sol_usd = dp_sol_price_usd data
          in if provisional \<le> 0
               then reject_now data (c_id c) latency [R_POSITION_BELOW_MINIMUM] []
             else if sol_usd \<le> 0
               then reject_now data (c_id c) latency [R_CRITICAL_DATA_UNAVAILABLE] []
             else case dp_quote data SOL_MINT (st_token_mint (c_source_trade c))
                         (ui_to_raw (provisional / sol_usd) 9) of
               None \<Rightarrow> reject_now data (c_id c) latency [R_NO_ROUTE] []
             | Some q \<Rightarrow> Inr (c\<lparr>c_quote := Some q\<rparr>, provisional, sol_usd))"

text \<open>Stage 4: the full gate sweep and the final size.\<close>

definition sweep_entry ::
    "settings \<Rightarrow> data_provider \<Rightarrow> sizing_mode \<Rightarrow> latency_breakdown \<Rightarrow> portfolio_state \<Rightarrow>
       trade_candidate \<times> usd \<times> usd \<Rightarrow> prepared_entry screened" where
  "sweep_entry st data sizing latency portfolio quoted =
     (let (c0, provisional, sol_usd) = quoted;
          c = c0\<lparr>c_created_at := dp_now data 1\<rparr>;
          (results, passed, mult) = run_entry_gates c provisional (copyability st) (risk st);
          latency2 = latency\<lparr>lat_decision_completed_at := Some (dp_now data 2)\<rparr>
      in if \<not> passed
           then reject_now data (c_id c) latency2
                  (collect_reasons (filter (\<lambda>r. \<not> g_passed r) results)) results
         else case final_size c portfolio mult sizing (risk st) of
                Inl e \<Rightarrow> Inl (Inl e)
              | Inr (size_usd, size_pct) \<Rightarrow>
                  if size_usd \<le> 0
                    then reject_now data (c_id c) latency2 [R_POSITION_BELOW_MINIMUM] results
                  else Inr \<lparr>pe_candidate = c, pe_gates = results, pe_mult = mult,
                            pe_size_usd = size_usd, pe_size_pct = size_pct,
                            pe_sol_usd = sol_usd, pe_latency = latency2\<rparr>)"

definition and_then :: "'a screened \<Rightarrow> ('a \<Rightarrow> 'b screened) \<Rightarrow> 'b screened" where
  "and_then r f = (case r of Inl x \<Rightarrow> Inl x | Inr a \<Rightarrow> f a)"

definition screen_entry ::
    "settings \<Rightarrow> data_provider \<Rightarrow> sizing_mode \<Rightarrow> nat \<Rightarrow> source_trade \<Rightarrow> trader_profile \<Rightarrow>
       string list \<Rightarrow> ledger_store \<Rightarrow> prepared_entry screened" where
  "screen_entry st data sizing cid trade trader confirmations ledger =
     (let latency = no_latency\<lparr>lat_source_confirmed_at := Some (st_source_confirmed_at trade),
                               lat_detected_at := Some (st_detected_at trade)\<rparr>;
          portfolio = snapshot ledger
      in and_then (and_then (enrich_entry st data cid latency trade trader confirmations)
           (quote_entry st data sizing latency portfolio))
           (sweep_entry st data sizing latency portfolio))"

definition reserve_entry ::
    "settings \<Rightarrow> (string \<Rightarrow> string) \<Rightarrow> datetime \<Rightarrow> nat \<Rightarrow> string \<Rightarrow> prepared_entry \<Rightarrow> ledger_store \<Rightarrow>
       (decision_result \<times> approved_order option) \<times> ledger_store" where
  "reserve_entry st sha now oid res_id pe ledger =
     (let c = pe_candidate pe; trade = c_source_trade c in
      case ledger_reserve st res_id (st_token_mint trade) (st_wallet trade) (pe_size_usd pe) ledger of
        (res, ledger') \<Rightarrow>
          if \<not> rv_granted res
            then ((done_decision now (reject_decision (c_id c)
                     (case rv_reason res of None \<Rightarrow> [R_INSUFFICIENT_CAPITAL] | Some r \<Rightarrow> [r])
                     (pe_gates pe) (pe_latency pe)), None), ledger')
          else
            let decision = \<lparr>d_candidate_id = c_id c, d_decision = DEC_COPY,
                  d_reasons = collect_reasons (pe_gates pe), d_gates = pe_gates pe,
                  d_size_usd = rv_usd res, d_size_pct = pe_size_pct pe,
                  d_size_multiplier = pe_mult pe, d_reservation_id = rv_id res,
                  d_latency = pe_latency pe, d_strategy_version = STRATEGY_VERSION\<rparr>;
                order = \<lparr>o_id = oid, o_idempotency_key = ''entry:'' @ dedupe_key sha trade,
                  o_candidate = c, o_action = ACT_BUY, o_input_mint = SOL_MINT,
                  o_output_mint = st_token_mint trade,
                  o_in_amount_raw = ui_to_raw (rv_usd res / pe_sol_usd pe) 9,
                  o_size_usd = rv_usd res,
                  o_slippage_bps = execution_slippage_bps (copyability st),
                  o_position_id = None, o_exit_reason = None,
                  o_reservation_id = rv_id res, o_latency = pe_latency pe\<rparr>
            in ((decision, Some order), ledger'))"

record engine =
  en_settings :: settings
  en_data :: data_provider
  en_sizing :: sizing_mode
  en_sha256 :: "string \<Rightarrow> string"

definition evaluate_entry ::
    "engine \<Rightarrow> nat \<Rightarrow> nat \<Rightarrow> string \<Rightarrow> (ledger_store \<Rightarrow> ledger_store) \<Rightarrow> source_trade \<Rightarrow>
       trader_profile \<Rightarrow> string list \<Rightarrow> ledger_store \<Rightarrow>
       (py_error + decision_result \<times> approved_order option) \<times> ledger_store" where
  "evaluate_entry en cid oid res_id interfere trade trader confirmations ledger =
     (case screen_entry (en_settings en) (en_data en) (en_sizing en) cid trade trader confirmations
             ledger of
        Inl (Inl e) \<Rightarrow> (Inl e, interfere ledger)
      | Inl (Inr d) \<Rightarrow> (Inr (d, None), interfere ledger)
      | Inr pe \<Rightarrow>
          (case reserve_entry (en_settings en) (en_sha256 en) (dp_now (en_data en) 3) oid res_id pe
                  (interfere ledger) of
             (r, ledger') \<Rightarrow> (Inr r, ledger')))"

section \<open>What the screen lets through\<close>

lemma done_decision_simps [simp]:
  "d_decision (done_decision now d) = d_decision d" "d_reasons (done_decision now d) = d_reasons d"
  "d_gates (done_decision now d) = d_gates d"
  "d_reservation_id (done_decision now d) = d_reservation_id d"
  "d_size_usd (done_decision now d) = d_size_usd d"
  by (simp_all add: done_decision_def)

lemma reject_decision_simps [simp]:
  "d_decision (reject_decision cid rs gs l) = DEC_REJECT"
  "d_reasons (reject_decision cid rs gs l) = rs" "d_gates (reject_decision cid rs gs l) = gs"
  "d_reservation_id (reject_decision cid rs gs l) = None"
  "d_size_usd (reject_decision cid rs gs l) = 0"
  by (simp_all add: reject_decision_def)

lemma gate_reasons_given:
  "\<not> g_passed (trader_gate c cfg) \<Longrightarrow> g_reasons (trader_gate c cfg) \<noteq> []"
  "\<not> g_passed (price_chase_gate c cfg) \<Longrightarrow> g_reasons (price_chase_gate c cfg) \<noteq> []"
  "\<not> g_passed (latency_gate c cfg) \<Longrightarrow> g_reasons (latency_gate c cfg) \<noteq> []"
  "\<not> g_passed (market_cap_gate c cfg) \<Longrightarrow> g_reasons (market_cap_gate c cfg) \<noteq> []"
  "\<not> g_passed (token_age_gate c cfg) \<Longrightarrow> g_reasons (token_age_gate c cfg) \<noteq> []"
  "\<not> g_passed (token_safety_gate c cfg) \<Longrightarrow> g_reasons (token_safety_gate c cfg) \<noteq> []"
  "\<not> g_passed (slippage_gate c cfg) \<Longrightarrow> g_reasons (slippage_gate c cfg) \<noteq> []"
  "\<not> g_passed (liquidity_gate c cfg rc u) \<Longrightarrow> g_reasons (liquidity_gate c cfg rc u) \<noteq> []"
  by (auto simp: gate_defs split: if_splits option.splits)

lemma failed_gate_reasons:
  "\<not> g_passed g \<Longrightarrow> g \<in> set (all_gates c u cfg rc) \<Longrightarrow> g_reasons g \<noteq> []"
  unfolding all_gates_def
  by (simp only: set_simps insert_iff empty_iff, elim disjE)
    (simp_all add: gate_reasons_given)

lemma collect_failed_nonempty:
  assumes "\<not> list_all g_passed (all_gates c u cfg rc)"
  shows "collect_reasons (filter (\<lambda>r. \<not> g_passed r) (all_gates c u cfg rc)) \<noteq> []"
proof -
  obtain g where g: "g \<in> set (all_gates c u cfg rc)" "\<not> g_passed g"
    using assms by (auto simp: list_all_iff)
  then obtain r where "r \<in> set (g_reasons g)" using failed_gate_reasons by fastforce
  then have "r \<in> set (collect_reasons (filter (\<lambda>r. \<not> g_passed r) (all_gates c u cfg rc)))"
    using g by (auto simp: set_collect_reasons)
  then show ?thesis by auto
qed

definition rejection :: "decision_result \<Rightarrow> bool" where
  "rejection d \<longleftrightarrow> d_decision d = DEC_REJECT \<and> d_reasons d \<noteq> [] \<and> d_reservation_id d = None \<and>
     d_size_usd d = 0"

lemma reject_now_iff:
  "reject_now data cid l rs gs = Inl (Inr d) \<longleftrightarrow>
     d = done_decision (dp_now data 1) (reject_decision cid rs gs l)"
  "reject_now data cid l rs gs \<noteq> Inr x" "reject_now data cid l rs gs \<noteq> Inl (Inl e)"
  by (auto simp: reject_now_def)

lemma reject_now_rejection: "reject_now data cid l rs gs = Inl (Inr d) \<Longrightarrow> rs \<noteq> [] \<Longrightarrow> rejection d"
  by (auto simp: reject_now_iff rejection_def)

lemma enrich_entry_rejects: "enrich_entry st data cid l trade trader confs = Inl (Inr d) \<Longrightarrow> rejection d"
  unfolding enrich_entry_def Let_def
  by (auto dest: reject_now_rejection reject_now_rejection [OF _ gate_reasons_given(1)]
      split: if_splits)

lemma enrich_entry_passes:
  assumes "enrich_entry st data cid l trade trader confs = Inr c"
  shows "st_action trade = ACT_BUY \<and> c_source_trade c = trade \<and> c_trader c = trader \<and> c_id c = cid \<and>
    c_market c = dp_market_state data (st_token_mint trade) (st_token_decimals trade) \<and>
    \<not> ms_stale (c_market c) \<and> 0 < ms_price_usd (c_market c) \<and> c_confirmations c = confs"
  using assms unfolding enrich_entry_def Let_def by (auto simp: reject_now_iff split: if_splits)

lemma quote_entry_rejects: "quote_entry st data sz l pf c = Inl (Inr d) \<Longrightarrow> rejection d"
  unfolding quote_entry_def Let_def
  by (auto dest: reject_now_rejection split: if_splits option.splits sum.splits prod.splits)

lemma quote_entry_passes:
  "quote_entry st data sz l pf c = Inr (c', provisional, sol) \<Longrightarrow>
     0 < sol \<and> 0 < provisional \<and> (\<exists>q. c' = c\<lparr>c_quote := Some q\<rparr>)"
  unfolding quote_entry_def Let_def
  by (auto simp: reject_now_iff split: if_splits option.splits sum.splits prod.splits)

lemma sweep_entry_rejects: "sweep_entry st data sz l pf x = Inl (Inr d) \<Longrightarrow> rejection d"
  unfolding sweep_entry_def Let_def
  by (cases x) (auto simp: run_entry_gates_eq dest: reject_now_rejection
      reject_now_rejection [OF _ collect_failed_nonempty] split: if_splits sum.splits prod.splits)

lemma sweep_entry_passes:
  "sweep_entry st data sz l pf (c, u, sol) = Inr pe \<Longrightarrow>
     pe_candidate pe = c\<lparr>c_created_at := dp_now data 1\<rparr> \<and> pe_sol_usd pe = sol \<and> 0 < pe_size_usd pe \<and>
     run_entry_gates (pe_candidate pe) u (copyability st) (risk st) = (pe_gates pe, True, pe_mult pe) \<and>
     final_size (pe_candidate pe) pf (pe_mult pe) sz (risk st) = Inr (pe_size_usd pe, pe_size_pct pe)"
  unfolding sweep_entry_def Let_def
  by (auto simp: reject_now_iff split: if_splits sum.splits prod.splits)

lemma and_then_cases:
  "and_then r f = Inl (Inr d) \<Longrightarrow> r = Inl (Inr d) \<or> (\<exists>a. r = Inr a \<and> f a = Inl (Inr d))"
  "and_then r f = Inr b \<Longrightarrow> \<exists>a. r = Inr a \<and> f a = Inr b"
  by (auto simp: and_then_def split: sum.splits)

lemma screen_entry_rejects: "screen_entry st data sz cid trade trader confs l = Inl (Inr d) \<Longrightarrow> rejection d"
  unfolding screen_entry_def Let_def
  by (auto dest!: and_then_cases(1) and_then_cases(2)
      dest: enrich_entry_rejects quote_entry_rejects sweep_entry_rejects)

definition screened_ok ::
    "settings \<Rightarrow> data_provider \<Rightarrow> sizing_mode \<Rightarrow> source_trade \<Rightarrow> trader_profile \<Rightarrow> string list \<Rightarrow>
       portfolio_state \<Rightarrow> prepared_entry \<Rightarrow> bool" where
  "screened_ok st data sz trade trader confs pf pe \<longleftrightarrow>
     (let c = pe_candidate pe
      in st_action trade = ACT_BUY \<and> c_source_trade c = trade \<and> c_trader c = trader \<and>
         c_market c = dp_market_state data (st_token_mint trade) (st_token_decimals trade) \<and>
         \<not> ms_stale (c_market c) \<and> 0 < ms_price_usd (c_market c) \<and>
         c_confirmations c = confs \<and> 0 < pe_sol_usd pe \<and> 0 < pe_size_usd pe \<and>
         (\<exists>u > 0. run_entry_gates c u (copyability st) (risk st) = (pe_gates pe, True, pe_mult pe)) \<and>
         final_size c pf (pe_mult pe) sz (risk st) = Inr (pe_size_usd pe, pe_size_pct pe))"

lemma screen_entry_passes:
  assumes "screen_entry st data sz cid trade trader confs l = Inr pe"
  shows "screened_ok st data sz trade trader confs (snapshot l) pe"
proof -
  let ?lat = "no_latency\<lparr>lat_source_confirmed_at := Some (st_source_confirmed_at trade),
      lat_detected_at := Some (st_detected_at trade)\<rparr>"
  obtain c x where c: "enrich_entry st data cid ?lat trade trader confs = Inr c"
    and x: "quote_entry st data sz ?lat (snapshot l) c = Inr x"
    and pe: "sweep_entry st data sz ?lat (snapshot l) x = Inr pe"
    using assms unfolding screen_entry_def Let_def by (auto dest!: and_then_cases(2))
  obtain c' u sol where x': "x = (c', u, sol)" by (cases x)
  note e = enrich_entry_passes [OF c] and q = quote_entry_passes [OF x [unfolded x']]
    and s = sweep_entry_passes [OF pe [unfolded x']]
  from q obtain quo where "c' = c\<lparr>c_quote := Some quo\<rparr>" by blast
  then show ?thesis using e q s by (auto simp: screened_ok_def Let_def)
qed

section \<open>What an evaluation promises\<close>

lemma reserve_entry_denied:
  assumes "reserve_entry st sha now oid rid pe l = ((d, None), l')"
  shows "l' = l \<and> rejection d"
  using assms ledger_reserve_denied [of st rid]
  by (auto simp: reserve_entry_def rejection_def Let_def split: prod.splits if_splits option.splits)

lemma reserve_entry_granted:
  assumes "reserve_entry st sha now oid rid pe l = ((d, Some order), l')"
  shows "\<exists>res. ledger_reserve st rid (st_token_mint (c_source_trade (pe_candidate pe)))
      (st_wallet (c_source_trade (pe_candidate pe))) (pe_size_usd pe) l = (res, l') \<and>
    rv_granted res \<and> d_decision d = DEC_COPY \<and> d_gates d = pe_gates pe \<and>
    d_size_usd d = rv_usd res \<and> d_size_multiplier d = pe_mult pe \<and> d_size_pct d = pe_size_pct pe \<and>
    d_reservation_id d = rv_id res \<and>
    o_size_usd order = rv_usd res \<and> o_reservation_id order = rv_id res \<and>
    o_idempotency_key order = ''entry:'' @ dedupe_key sha (c_source_trade (pe_candidate pe)) \<and>
    o_action order = ACT_BUY \<and> o_input_mint order = SOL_MINT \<and>
    o_output_mint order = st_token_mint (c_source_trade (pe_candidate pe)) \<and>
    o_candidate order = pe_candidate pe \<and>
    o_in_amount_raw order = ui_to_raw (rv_usd res / pe_sol_usd pe) 9"
  using assms by (auto simp: reserve_entry_def Let_def split: prod.splits if_splits)

end
