(* ===== verification/Decision_Properties.thy ===== *)
theory Decision_Properties
  imports Decision_Engine
begin

text \<open>
  The properties of the decision engine: what an approved order guarantees about the trade, the
  gates and the ledger; that everything else leaves the ledger alone; and that an evaluation
  always decides.
\<close>

lemma evaluate_entry_approved:
  assumes "evaluate_entry en cid oid rid interfere trade trader confs l = (Inr (d, Some order), l')"
  obtains pe where "screened_ok (en_settings en) (en_data en) (en_sizing en) trade trader confs
      (snapshot l) pe"
    and "reserve_entry (en_settings en) (en_sha256 en) (dp_now (en_data en) 3) oid rid pe
      (interfere l) = ((d, Some order), l')"
proof -
  obtain pe where "screen_entry (en_settings en) (en_data en) (en_sizing en) cid trade trader confs l = Inr pe"
    and "reserve_entry (en_settings en) (en_sha256 en) (dp_now (en_data en) 3) oid rid pe
      (interfere l) = ((d, Some order), l')"
    using assms by (auto simp: evaluate_entry_def split: sum.splits prod.splits)
  with screen_entry_passes show thesis by (blast intro: that)
qed

lemma evaluate_entry_other:
  assumes "evaluate_entry en cid oid rid interfere trade trader confs l = (r, l')"
    "\<And>d order. r \<noteq> Inr (d, Some order)"
  shows "l' = interfere l \<and> (\<forall>d o'. r = Inr (d, o') \<longrightarrow> o' = None \<and> rejection d)"
proof (cases "screen_entry (en_settings en) (en_data en) (en_sizing en) cid trade trader confs l")
  case (Inl x)
  then show ?thesis
    using assms by (cases x) (auto simp: evaluate_entry_def dest: screen_entry_rejects)
next
  case (Inr pe)
  obtain d o' l2 where
    e: "reserve_entry (en_settings en) (en_sha256 en) (dp_now (en_data en) 3) oid rid pe
      (interfere l) = ((d, o'), l2)" by (metis surj_pair)
  then have r: "r = Inr (d, o')" "l' = l2" using assms(1) Inr by (simp_all add: evaluate_entry_def)
  then have "o' = None" using assms(2) by (cases o') auto
  then show ?thesis using r reserve_entry_denied e by blast
qed

lemma reserve_commit_held:
  "rd_reservations (reserve_commit (reserve_request st m w u i) s) i =
     Some \<lparr>rh_mint = m, rh_wallet = w, rh_usd = u, rh_state = ''held''\<rparr>"
  by (simp add: reserve_commit_def Let_def)


text \<open>A run of the engine on the sample data.\<close>

definition sample_data :: data_provider where
  "sample_data = \<lparr>dp_market_state = (\<lambda>m d. sample_market), dp_token_risk = (\<lambda>m. sample_risk),
     dp_sol_price_usd = 150, dp_quote = (\<lambda>i out a. Some sample_quote),
     dp_insider_flags = (\<lambda>w m v a. []), dp_now = (\<lambda>k. 2000000 + int k)\<rparr>"

definition sample_engine :: engine where
  "sample_engine = \<lparr>en_settings = default_settings, en_data = sample_data,
     en_sizing = CONFIDENCE_WEIGHTED, en_sha256 = (\<lambda>s. s)\<rparr>"

definition sample_run :: "(py_error + decision_result \<times> approved_order option) \<times> ledger_store" where
  "sample_run = evaluate_entry sample_engine 1 2 ''r9'' (\<lambda>l. l) sample_trade sample_trader [] sample_ledger"


text \<open>
  C3. The reservation comes last: whatever rejects a trade or fails before it, the ledger is
  left as the other tasks left it, nothing is reserved, and a rejection always carries a reason.
\<close>

theorem unapproved_leaves_ledger:
  assumes "evaluate_entry en cid oid rid interfere trade trader confs l = (r, l')"
    and "\<forall>d order. r \<noteq> Inr (d, Some order)"
  shows "l' = interfere l \<and>
    (\<forall>d o'. r = Inr (d, o') \<longrightarrow> o' = None \<and> d_decision d = DEC_REJECT \<and> d_reasons d \<noteq> [] \<and>
       d_reservation_id d = None \<and> d_size_usd d = 0)"
  using evaluate_entry_other [OF assms(1)] assms(2) unfolding rejection_def by blast

lemma unapproved_leaves_ledger_witness:
  "\<exists>d. evaluate_entry sample_engine 1 2 ''r9'' (\<lambda>l. l) (sample_trade\<lparr>st_action := ACT_SELL\<rparr>)
     sample_trader [] sample_ledger = (Inr (d, None), sample_ledger) \<and>
     d_reasons d = [R_NON_COPYABLE_ACTION]"
proof -
  obtain r l' where e: "evaluate_entry sample_engine 1 2 ''r9'' (\<lambda>l. l)
      (sample_trade\<lparr>st_action := ACT_SELL\<rparr>) sample_trader [] sample_ledger = (r, l')" by force
  have v: "\<exists>d. fst (evaluate_entry sample_engine 1 2 ''r9'' (\<lambda>l. l)
      (sample_trade\<lparr>st_action := ACT_SELL\<rparr>) sample_trader [] sample_ledger) = Inr (d, None) \<and>
      d_reasons d = [R_NON_COPYABLE_ACTION]"
    by (simp add: evaluate_entry_def screen_entry_def enrich_entry_def reject_now_def and_then_def
        Let_def)
  then have "\<forall>d order. r \<noteq> Inr (d, Some order)" using e by auto
  from unapproved_leaves_ledger [OF e this] v e show ?thesis by auto
qed

lemma enrich_entry_no_raise: "enrich_entry st data cid l trade trader confs \<noteq> Inl (Inl e)"
  by (simp add: enrich_entry_def Let_def reject_now_iff)

lemma quote_entry_no_raise:
  assumes "\<And>c pf m rc x. final_size c pf m sz rc \<noteq> Inl x"
  shows "quote_entry st data sz l pf c \<noteq> Inl (Inl e)"
  using assms by (auto simp: quote_entry_def Let_def reject_now_iff
      split: sum.splits option.splits prod.splits)

lemma sweep_entry_no_raise:
  assumes "\<And>c pf m rc x. final_size c pf m sz rc \<noteq> Inl x"
  shows "sweep_entry st data sz l pf q \<noteq> Inl (Inl e)"
  using assms by (auto simp: sweep_entry_def Let_def reject_now_iff
      split: sum.splits prod.splits)

text \<open>
  With every sizing mode but fractional Kelly an evaluation always ends in a decision,
  which is a copy exactly when there is an order.
\<close>

theorem evaluation_decides:
  assumes "en_sizing en \<noteq> KELLY"
  shows "\<exists>d order. fst (evaluate_entry en cid oid rid interfere trade trader confs l) = Inr (d, order) \<and>
    (approved d \<longleftrightarrow> order \<noteq> None)"
proof -
  obtain r l' where e: "evaluate_entry en cid oid rid interfere trade trader confs l = (r, l')" by force
  have fs: "final_size c pf m (en_sizing en) rc \<noteq> Inl x" for c pf m rc x
    using base_size_total [OF assms, of c pf rc]
    by (auto simp: final_size_def Let_def split: sum.splits)
  have "screen_entry (en_settings en) (en_data en) (en_sizing en) cid trade trader confs l \<noteq> Inl (Inl x)" for x
    unfolding screen_entry_def and_then_def Let_def
    by (auto simp: enrich_entry_no_raise quote_entry_no_raise [OF fs] sweep_entry_no_raise [OF fs]
        split: sum.splits)
  then obtain d order where r: "r = Inr (d, order)"
    using e by (cases r) (auto simp: evaluate_entry_def split: sum.splits prod.splits)
  have "approved d \<longleftrightarrow> order \<noteq> None"
  proof (cases order)
    case None
    then have "rejection d" using evaluate_entry_other [OF e] r by blast
    then show ?thesis using None by (simp add: approved_def rejection_def)
  next
    case (Some o')
    then have "d_decision d = DEC_COPY"
      using evaluate_entry_approved [OF e [unfolded r Some]] reserve_entry_granted by metis
    then show ?thesis using Some by (simp add: approved_def)
  qed
  then show ?thesis using e r by auto
qed

lemma evaluation_decides_witness:
  "\<exists>d order. fst sample_run = Inr (d, order) \<and> (approved d \<longleftrightarrow> order \<noteq> None)"
  unfolding sample_run_def by (rule evaluation_decides) (simp add: sample_engine_def)

end
