(* ===== verification/Ledger_Lifecycle.thy ===== *)
theory Ledger_Lifecycle
  imports Ledger_Properties
begin

text \<open>
  The life of a reservation and of the emergency state: the counters agree with the reservations
  in every reachable store, a reservation is settled at most once, a cancelled one leaves no
  trace, the kill latch survives everything but its explicit reset, and the two readers of the
  system state (the script and the Python class) agree.
\<close>

section \<open>Reservations are counted\<close>

definition held_ids :: "ledger_store \<Rightarrow> string set" where
  "held_ids s = {i. \<exists>r. rd_reservations s i = Some r \<and> rh_state r = ''held''}"

definition pending_ok :: "ledger_store \<Rightarrow> bool" where
  "pending_ok s \<longleftrightarrow> finite (dom (rd_reservations s)) \<and>
     h_pending (rd_state s) = int (card (held_ids s))"

lemma held_ids_finite: "pending_ok s \<Longrightarrow> finite (held_ids s)"
  by (rule finite_subset [of _ "dom (rd_reservations s)"]) (auto simp: held_ids_def pending_ok_def)

lemma held_ids_cong:
  "rd_reservations s' = rd_reservations s \<Longrightarrow> held_ids s' = held_ids s"
  by (simp add: held_ids_def)

lemma pending_ok_cong:
  "rd_reservations s' = rd_reservations s \<Longrightarrow> h_pending (rd_state s') = h_pending (rd_state s) \<Longrightarrow>
     pending_ok s \<Longrightarrow> pending_ok s'"
  using held_ids_cong [of s' s] by (simp add: pending_ok_def)

lemma pending_ok_add:
  assumes "pending_ok s" "rd_reservations s i = None" "rh_state r = ''held''"
    "rd_reservations s' = (rd_reservations s)(i \<mapsto> r)"
    "h_pending (rd_state s') = h_pending (rd_state s) + 1"
  shows "pending_ok s'"
proof -
  have "held_ids s' = insert i (held_ids s)" using assms(3,4) by (auto simp: held_ids_def)
  moreover have "i \<notin> held_ids s" using assms(2) by (simp add: held_ids_def)
  ultimately show ?thesis
    using assms held_ids_finite [OF assms(1)] by (simp add: pending_ok_def)
qed

lemma pending_ok_settle:
  assumes "pending_ok s" "rd_reservations s i = Some r" "rh_state r = ''held''"
    "rd_reservations s' = (rd_reservations s)(i := v)"
    "\<not> (\<exists>r. v = Some r \<and> rh_state r = ''held'')"
    "h_pending (rd_state s') = h_pending (rd_state s) - 1"
  shows "pending_ok s'"
proof -
  have "held_ids s' = held_ids s - {i}" using assms(4,5) by (auto simp: held_ids_def)
  moreover have i: "i \<in> held_ids s" using assms(2,3) by (simp add: held_ids_def)
  moreover have "0 < card (held_ids s)"
    using i held_ids_finite [OF assms(1)] card_gt_0_iff by blast
  moreover have "finite (dom (rd_reservations s'))"
    using assms(1,4) finite_subset [of "dom (rd_reservations s')" "insert i (dom (rd_reservations s))"]
    by (auto simp: pending_ok_def split: if_splits)
  ultimately show ?thesis
    using assms(1,6) held_ids_finite [OF assms(1)] by (simp add: pending_ok_def of_nat_diff)
qed

lemma reserve_pending_ok:
  assumes "ledger_reserve st i m w u s = (r, s')" "rd_reservations s i = None" "pending_ok s"
  shows "pending_ok s'"
proof (cases "rv_granted r")
  case True
  note g = ledger_reserve_granted [OF assms(1) True]
  show ?thesis
    by (rule pending_ok_add [OF assms(3,2), where r =
          "\<lparr>rh_mint = m, rh_wallet = w, rh_usd = u, rh_state = ''held''\<rparr>"])
      (simp_all add: g reserve_commit_def Let_def)
next
  case False
  then show ?thesis using ledger_reserve_denied [OF assms(1)] assms(3) by simp
qed

lemma release_pending_ok:
  assumes "ledger_release i s = (u, s')" "pending_ok s"
  shows "pending_ok s'"
proof (cases "\<exists>r. rd_reservations s i = Some r \<and> rh_state r = ''held''")
  case True
  then obtain r where r: "rd_reservations s i = Some r" "rh_state r = ''held''" by blast
  have s': "s' = snd (ledger_release i s)" by (simp add: assms(1))
  show ?thesis
    by (rule pending_ok_settle [OF assms(2) r, where v = None])
      (simp_all add: s' r ledger_release_def script_release_def Let_def)
next
  case False
  then show ?thesis using release_none [OF False] assms by simp
qed

lemma commit_pending_ok:
  assumes "ledger_commit i a s = (u, s')" "pending_ok s"
  shows "pending_ok s'"
proof (cases "\<exists>r. rd_reservations s i = Some r \<and> rh_state r = ''held''")
  case True
  then obtain r where r: "rd_reservations s i = Some r" "rh_state r = ''held''" by blast
  have s': "s' = snd (ledger_commit i a s)" by (simp add: assms(1))
  show ?thesis
    by (rule pending_ok_settle [OF assms(2) r,
          where v = "Some (r\<lparr>rh_state := ''committed'', rh_usd := a\<rparr>)"])
      (simp_all add: s' r ledger_commit_def script_commit_def Let_def)
next
  case False
  then show ?thesis using commit_none [OF False] assms by simp
qed

lemma entry_step_pending_ok: "entry_step st s s' \<Longrightarrow> pending_ok s \<Longrightarrow> pending_ok s'"
proof (induction rule: entry_step.induct)
  case (exit c q s m w p full)
  then show ?case
    by (elim pending_ok_cong [rotated 2])
      (simp_all add: release_position_def script_release_position_def Let_def)
next
  case (daily s)
  then show ?case by (elim pending_ok_cong [rotated 2]) (simp_all add: reset_daily_def)
next
  case (control s sys k)
  then show ?case by (elim pending_ok_cong [rotated 2]) simp_all
qed (auto intro: reserve_pending_ok release_pending_ok commit_pending_ok)

lemma ledger_step_pending_ok: "ledger_step st s s' \<Longrightarrow> pending_ok s \<Longrightarrow> pending_ok s'"
proof (induction rule: ledger_step.induct)
  case (mark unreal sol s r s')
  have s': "s' = snd (mark unreal sol s)" by (simp add: mark.hyps)
  show ?case
    by (rule pending_ok_cong [OF _ _ mark.prems])
      (simp_all add: s' mark_def script_mark_def Let_def split: option.split)
next
  case (harvest s a)
  then show ?case by (elim pending_ok_cong [rotated 2]) (simp_all add: add_harvest_def Let_def)
next
  case (expire s i r)
  let ?s' = "s\<lparr>rd_reservations := (rd_reservations s)(i := None)\<rparr>"
  have "held_ids ?s' = held_ids s" using expire.hyps by (auto simp: held_ids_def)
  then show ?case using expire.prems by (simp add: pending_ok_def)
qed (rule entry_step_pending_ok)


definition sample_reserved :: ledger_store where
  "sample_reserved =
     reserve_commit (reserve_request default_settings ''MINT'' ''alice'' 100 ''r1'') sample_ledger"

lemma sample_reserved_step: "entry_step default_settings sample_ledger sample_reserved"
proof (rule entry_step.reserve)
  show "rd_reservations sample_ledger ''r1'' = None" by (simp add: sample_ledger_def bootstrap_def)
  show "ledger_reserve default_settings ''r1'' ''MINT'' ''alice'' 100 sample_ledger =
      (\<lparr>rv_granted = True, rv_id = Some ''r1'', rv_usd = 100, rv_reason = None\<rparr>, sample_reserved)"
    unfolding sample_reserved_def by (rule ledger_reserve_grants [OF sample_grant])
qed

lemma sample_ledger_bootstrap: "bootstrap 10000 True sample_ledger = sample_ledger"
  by (simp add: sample_ledger_def bootstrap_def)


section \<open>Cancelling and settling\<close>

text \<open>
  A reservation that is granted and then released leaves no trace: the scalars, the
  reservations and the system state are what they were, and the exposure to every token and
  trader reads the same.
\<close>

theorem reserve_release_round_trip:
  assumes "ledger_reserve st i m w u s = (r, s1)" "rv_granted r" "rd_reservations s i = None"
    and "ledger_release i s1 = (freed, s2)"
  shows "freed = u \<and> rd_state s2 = rd_state s \<and> rd_reservations s2 = rd_reservations s \<and>
    (\<forall>k. num (rd_token s2 k) 0 = num (rd_token s k) 0) \<and>
    (\<forall>k. num (rd_trader s2 k) 0 = num (rd_trader s k) 0) \<and>
    rd_system s2 = rd_system s \<and> rd_kill s2 = rd_kill s"
proof -
  note g = ledger_reserve_granted [OF assms(1,2)]
  have upd: "(rd_reservations s)(i := None) = rd_reservations s"
    using assms(3) by (simp add: fun_upd_idem_iff)
  show ?thesis
    using assms(4) g upd
    by (auto simp: reserve_commit_def ledger_release_def script_release_def Let_def)
qed

lemma reserve_release_round_trip_witness:
  "\<exists>s2. ledger_release ''r1'' sample_reserved = (100, s2) \<and> rd_state s2 = rd_state sample_ledger \<and>
     num (rd_token s2 ''MINT'') 0 = 0"
proof -
  obtain f s2 where e: "ledger_release ''r1'' sample_reserved = (f, s2)" by force
  have fresh: "rd_reservations sample_ledger ''r1'' = None"
    and none: "rd_token sample_ledger ''MINT'' = None"
    by (simp_all add: sample_ledger_def bootstrap_def)
  show ?thesis
    using reserve_release_round_trip [OF ledger_reserve_grants [OF sample_grant] _ fresh
        e [unfolded sample_reserved_def]] e none by simp
qed

lemmas settle_defs = ledger_release_def script_release_def ledger_commit_def script_commit_def

definition settled :: "string \<Rightarrow> ledger_store \<Rightarrow> bool" where
  "settled i s \<longleftrightarrow> i \<notin> held_ids s"

lemma settled_release: "settled i s \<Longrightarrow> ledger_release i s = (0, s)"
  by (rule release_none) (simp add: settled_def held_ids_def)

lemma settled_commit: "settled i s \<Longrightarrow> ledger_commit i a s = (0, s)"
  by (rule commit_none) (simp add: settled_def held_ids_def)

lemma fold_snd_fixed: "(\<And>f. f \<in> set fs \<Longrightarrow> snd (f t) = t) \<Longrightarrow> fold (\<lambda>f t. snd (f t)) fs t = t"
  by (induction fs) auto

text \<open>
  C18. A reservation is settled at most once: after the first release or commit of it, every
  later release or commit of the same id, however many tasks race on it, frees nothing and
  leaves the ledger as it is, as long as the id is not reserved again.
\<close>

theorem reservation_settled_once:
  assumes "settle \<in> {ledger_release i, ledger_commit i a}"
    and "\<forall>f \<in> set later. f = ledger_release i \<or> (\<exists>b. f = ledger_commit i b)"
  shows "let s1 = snd (settle s)
    in settled i s1 \<and> fold (\<lambda>f t. snd (f t)) later s1 = s1 \<and> (\<forall>f \<in> set later. fst (f s1) = 0)"
proof -
  have one: "settled i (snd (ledger_release i s))"
    by (auto simp: settled_def held_ids_def settle_defs Let_def split: option.splits)
  have two: "settled i (snd (ledger_commit i a s))"
    by (auto simp: settled_def held_ids_def settle_defs Let_def split: option.splits)
  have settled: "settled i (snd (settle s))" using assms(1) one two by auto
  have stay: "f (snd (settle s)) = (0, snd (settle s))" if "f \<in> set later" for f
    using assms(2) that settled_release [OF settled] settled_commit [OF settled] by auto
  then have "fold (\<lambda>f t. snd (f t)) later (snd (settle s)) = snd (settle s)"
    by (intro fold_snd_fixed) (metis snd_conv)
  moreover have "\<forall>f \<in> set later. fst (f (snd (settle s))) = 0" by (metis stay fst_conv)
  ultimately show ?thesis using settled by (simp add: Let_def)
qed

lemma reservation_settled_once_witness:
  "let s1 = snd (ledger_commit ''r1'' 90 sample_reserved)
   in settled ''r1'' s1 \<and> snd (ledger_release ''r1'' s1) = s1 \<and> h_deployed (rd_state s1) = 90"
proof -
  have "h_deployed (rd_state (snd (ledger_commit ''r1'' 90 sample_reserved))) = 90" by code_simp
  then show ?thesis
    using reservation_settled_once [of "ledger_commit ''r1'' 90" "''r1''" 90
        "[ledger_release ''r1'']" sample_reserved] by (simp add: Let_def)
qed

section \<open>The emergency state\<close>

text \<open>
  The atomic script and the Python class read the emergency state the same way: the script
  lets an entry through exactly when \<^verbatim>\<open>SystemControl.get\<close> says running (and the kill key is not
  the empty string, which only Python takes for absent).  A store nobody started, an unknown
  state and every pause are refused by both.
\<close>

theorem system_guard_agrees_with_control:
  "reserve_system_guard s = None \<longleftrightarrow> control_get s = SYS_RUNNING \<and> rd_kill s \<noteq> Some ''''"
proof -
  have run: "system_state_of_value v = Some SYS_RUNNING \<longleftrightarrow> v = ''running''" for v
    by (auto simp: system_state_of_value_def system_state_members_def)
  have "system_state_of_value ''running'' = Some SYS_RUNNING"
    using system_state_of_value_value [of SYS_RUNNING] by simp
  then have "rd_kill s = None \<and> rd_system s = Some ''running'' \<Longrightarrow> control_get s = SYS_RUNNING"
    by (simp add: control_get_def)
  moreover have "control_get s = SYS_RUNNING \<Longrightarrow>
      num (rd_kill s) '''' = ''''\<and> rd_system s = Some ''running''"
    by (auto simp: control_get_def run split: option.splits if_splits)
  ultimately show ?thesis
    unfolding reserve_system_guard_None by (auto simp: num_def split: option.splits)
qed

datatype control_op =
    Op_start | Op_stop | Op_set system_state | Op_kill
  | Op_reserve settings entry_request
  | Op_release string
  | Op_commit string usd
  | Op_exit string string usd usd usd bool
  | Op_mark usd "rat option"
  | Op_reset_daily
  | Op_bootstrap usd bool

fun run_op :: "control_op \<Rightarrow> ledger_store \<Rightarrow> ledger_store" where
  "run_op Op_start s = (case control_start s of Inl _ \<Rightarrow> s | Inr (_, s') \<Rightarrow> s')"
| "run_op Op_stop s = snd (control_stop s)"
| "run_op (Op_set x) s = control_set x s"
| "run_op Op_kill s = control_kill s"
| "run_op (Op_reserve st req) s = snd (ledger_attempt st req s)"
| "run_op (Op_release i) s = snd (ledger_release i s)"
| "run_op (Op_commit i a) s = snd (ledger_commit i a s)"
| "run_op (Op_exit m w c p q full) s = release_position m w c p q full s"
| "run_op (Op_mark u b) s = snd (mark u b s)"
| "run_op Op_reset_daily s = reset_daily s"
| "run_op (Op_bootstrap c force) s = bootstrap c force s"

lemma ledger_reserve_killed:
  "rd_kill s \<noteq> None \<Longrightarrow>
     ledger_reserve st i m w u s = (\<lparr>rv_granted = False, rv_id = None, rv_usd = 0,
       rv_reason = Some R_KILL_SWITCH_ACTIVE\<rparr>, s)"
  using script_codes_are_reasons [of "''KILL_SWITCH_ACTIVE''"]
  by (simp add: ledger_reserve_def script_reserve_def reserve_system_guard_def)
    (simp add: reason_of_value_def reason_members_def)

lemma run_op_kill: "rd_kill s = Some ''1'' \<Longrightarrow> rd_kill (run_op op s) = Some ''1''"
  by (cases op)
    (auto simp: control_start_def control_stop_def control_set_def control_kill_def
      ledger_attempt_def ledger_reserve_killed settle_defs release_position_def
      script_release_position_def mark_def script_mark_def reset_daily_def bootstrap_def Let_def
      split: sum.splits prod.splits option.splits)

definition after_kill :: "control_op list \<Rightarrow> ledger_store \<Rightarrow> ledger_store" where
  "after_kill ops s = fold run_op ops (control_kill s)"

text \<open>
  C19. The kill switch latches: after a kill no sequence of starts, stops, state changes, marks,
  exits, daily resets and reservation attempts (everything but the explicit
  \<^verbatim>\<open>clear_kill\<close>) leaves the killed state; the system cannot be started, and every
  reservation is refused with \<^verbatim>\<open>KILL_SWITCH_ACTIVE\<close> and changes nothing.  Clearing
  it leads to the hard pause, never straight to running.
\<close>

theorem kill_latches:
  "control_get (after_kill ops s) = SYS_KILLED \<and>
   (\<exists>e. control_start (after_kill ops s) = Inl e) \<and>
   ledger_reserve st i m w u (after_kill ops s) =
      (\<lparr>rv_granted = False, rv_id = None, rv_usd = 0, rv_reason = Some R_KILL_SWITCH_ACTIVE\<rparr>,
       after_kill ops s) \<and>
   control_get (control_clear_kill (after_kill ops s)) = SYS_HARD_PAUSED"
proof -
  have "rd_kill (fold run_op ops t) = Some ''1''" if "rd_kill t = Some ''1''" for t
    using that by (induction ops arbitrary: t) (auto intro: run_op_kill)
  then have k: "rd_kill (after_kill ops s) = Some ''1''"
    by (simp add: after_kill_def control_kill_def control_set_def)
  then have g: "control_get (after_kill ops s) = SYS_KILLED" by (simp add: control_get_def)
  moreover have "\<exists>e. control_start (after_kill ops s) = Inl e" by (simp add: control_start_def g)
  moreover have "control_get (control_clear_kill (after_kill ops s)) = SYS_HARD_PAUSED"
    by (simp add: control_get_def control_clear_kill_def system_state_of_value_def
        system_state_members_def)
  ultimately show ?thesis using k ledger_reserve_killed by simp
qed

section \<open>Mark to market\<close>

text \<open>
  A mark sets equity to cash plus deployed capital plus the unrealised result, never lowers
  the high-water mark, raises it just to a new equity high, so that the drawdown the breaker
  reads is never negative, and touches neither cash nor exposures.
\<close>

theorem mark_ratchets_high_water:
  "(case mark unreal sol s of ((equity, hwm), s') \<Rightarrow>
      equity = h_cash (rd_state s) + h_deployed (rd_state s) + unreal \<and>
      hwm = max (h_hwm (rd_state s)) equity \<and>
      h_equity (rd_state s') = equity \<and> h_hwm (rd_state s') = hwm \<and>
      0 \<le> hwm - equity \<and> h_cash (rd_state s') = h_cash (rd_state s) \<and>
      rd_token s' = rd_token s \<and> rd_trader s' = rd_trader s)"
  by (simp add: mark_def script_mark_def Let_def split: option.split)

end
