(* ===== verification/Exits.thy ===== *)
theory Exits
  imports Samples
begin

text \<open>
  \<^verbatim>\<open>engine/exits.py\<close>: the exit rules in their order of priority, the marks that
  arm the trailing stop, and the realised result of a sale.  The clock is the argument
  \<open>now\<close>, as in the source; the log details of an intent are omitted except the index of the
  ladder level, which the caller reads back.
\<close>

record exit_intent =
  ei_reason :: exit_reason
  ei_fraction :: rat
  ei_ladder_index :: "nat option"
  ei_urgent :: bool

definition is_full :: "exit_intent \<Rightarrow> bool" where
  "is_full i \<longleftrightarrow> 999/1000 \<le> ei_fraction i"

definition intent :: "exit_reason \<Rightarrow> rat \<Rightarrow> bool \<Rightarrow> exit_intent" where
  "intent reason fraction urgent =
     \<lparr>ei_reason = reason, ei_fraction = fraction, ei_ladder_index = None, ei_urgent = urgent\<rparr>"

definition exit_pnl_pct :: "position \<Rightarrow> market_state \<Rightarrow> pct" where
  "exit_pnl_pct p market =
     (if 0 < p_entry_price p
        then (ms_price_usd market - p_entry_price p) / p_entry_price p * 100 else 0)"

text \<open>The first ladder level, from index \<open>idx\<close> on, that is not hit yet and is reached.\<close>

fun ladder_level :: "nat list \<Rightarrow> pct \<Rightarrow> nat \<Rightarrow> (pct \<times> pct) list \<Rightarrow> (nat \<times> pct) option" where
  "ladder_level hit pnl idx [] = None"
| "ladder_level hit pnl idx ((threshold, take_pct) # rest) =
     (if idx \<in> set hit then ladder_level hit pnl (Suc idx) rest
      else if threshold \<le> pnl then Some (idx, take_pct)
      else ladder_level hit pnl (Suc idx) rest)"

definition trailing_hit :: "position \<Rightarrow> market_state \<Rightarrow> risk_config \<Rightarrow> bool" where
  "trailing_hit p market cfg \<longleftrightarrow>
     0 < p_peak_price p \<and> 0 < p_entry_price p \<and>
     (p_trailing_armed p \<or>
      trailing_arm_pct cfg \<le> (p_peak_price p - p_entry_price p) / p_entry_price p * 100) \<and>
     trailing_stop_pct cfg \<le> (p_peak_price p - ms_price_usd market) / p_peak_price p * 100"

definition trader_lost :: "trader_profile option \<Rightarrow> bool" where
  "trader_lost trader \<longleftrightarrow>
     (case trader of None \<Rightarrow> False
      | Some t \<Rightarrow> tr_status t = TS_DEGRADED \<or> tr_status t = TS_SUSPENDED \<or>
                  tr_status t = TS_BLACKLISTED)"

definition evaluate_exits ::
    "position \<Rightarrow> market_state \<Rightarrow> trader_profile option \<Rightarrow> bool \<Rightarrow> rat \<Rightarrow> usd option \<Rightarrow>
       risk_config \<Rightarrow> datetime \<Rightarrow> exit_intent option" where
  "evaluate_exits p market trader source_sold source_sold_fraction exit_liquidity_usd cfg now =
     (if p_amount_raw p \<le> 0 \<or> ms_price_usd market \<le> 0 then None
      else let pnl = exit_pnl_pct p market in
      if pnl \<le> stop_loss_pct cfg then Some (intent EXIT_STOP_LOSS 1 True)
      else if (case exit_liquidity_usd of None \<Rightarrow> False
               | Some l \<Rightarrow> l < market_value_usd p * 2)
        then Some (intent EXIT_LIQUIDITY_DETERIORATION 1 True)
      else if trader_lost trader then Some (intent EXIT_TRADER_DEGRADED 1 False)
      else if trailing_hit p market cfg then Some (intent EXIT_TRAILING_STOP 1 False)
      else case ladder_level (p_tp_levels_hit p) pnl 0 (take_profit_ladder cfg) of
        Some (idx, take_pct) \<Rightarrow>
          Some ((intent EXIT_TAKE_PROFIT (take_pct / 100) False)\<lparr>ei_ladder_index := Some idx\<rparr>)
      | None \<Rightarrow>
          if source_sold then Some (intent EXIT_MIRROR (min source_sold_fraction 1) False)
          else if max_hold_seconds cfg < elapsed_seconds (p_opened_at p) now
            then Some (intent EXIT_TIME_EXIT 1 False)
          else None)"

definition update_marks :: "position \<Rightarrow> market_state \<Rightarrow> risk_config \<Rightarrow> bool \<times> position" where
  "update_marks p market cfg =
     (let changed = (p_current_price p \<noteq> ms_price_usd market);
          (changed1, p1) =
            (if p_peak_price p < ms_price_usd market
               then (True, p\<lparr>p_peak_price := ms_price_usd market\<rparr>) else (changed, p));
          p2 = p1\<lparr>p_current_price := ms_price_usd market\<rparr>
      in if \<not> p_trailing_armed p2 \<and> 0 < p_entry_price p2 \<and>
            trailing_arm_pct cfg \<le> (p_peak_price p2 - p_entry_price p2) / p_entry_price p2 * 100
           then (True, p2\<lparr>p_trailing_armed := True\<rparr>) else (changed1, p2))"

definition realized_pnl :: "position \<Rightarrow> int \<Rightarrow> rat \<Rightarrow> usd \<times> usd" where
  "realized_pnl p amount_raw exit_price =
     (if p_amount_raw p \<le> 0 then (0, 0)
      else let fraction = of_int amount_raw / of_int (p_amount_raw p);
               units = of_int amount_raw / 10 ^ p_decimals p;
               proceeds = units * exit_price;
               cost = p_cost_basis_usd p * fraction
           in (proceeds, proceeds - cost))"

section \<open>The ladder\<close>

lemma ladder_level_Some:
  assumes "ladder_level hit pnl idx ladder = Some (i, tk)"
  shows "idx \<le> i \<and> i - idx < length ladder \<and> i \<notin> set hit \<and>
    snd (ladder ! (i - idx)) = tk \<and> fst (ladder ! (i - idx)) \<le> pnl"
  using assms
proof (induction hit pnl idx ladder rule: ladder_level.induct)
  case (2 hit pnl idx threshold take_pct rest)
  then show ?case by (auto simp: nth_Cons' Suc_le_eq split: if_splits)
qed simp

lemma ladder_level_None:
  "ladder_level hit pnl idx ladder = None \<longleftrightarrow>
     (\<forall>j < length ladder. idx + j \<in> set hit \<or> pnl < fst (ladder ! j))"
proof (induction hit pnl idx ladder rule: ladder_level.induct)
  case (2 hit pnl idx threshold take_pct rest)
  have "(\<forall>j < Suc (length rest). idx + j \<in> set hit \<or>
          pnl < fst (((threshold, take_pct) # rest) ! j)) \<longleftrightarrow>
        (idx \<in> set hit \<or> pnl < threshold) \<and>
        (\<forall>j < length rest. Suc idx + j \<in> set hit \<or> pnl < fst (rest ! j))"
    by (simp add: All_less_Suc2)
  with 2 show ?case by auto
qed simp

section \<open>Priority\<close>

definition exitable :: "position \<Rightarrow> market_state \<Rightarrow> bool" where
  "exitable p market \<longleftrightarrow> 0 < p_amount_raw p \<and> 0 < ms_price_usd market"

definition ladder_ok :: "risk_config \<Rightarrow> bool" where
  "ladder_ok cfg \<longleftrightarrow> list_all (\<lambda>(threshold, take_pct). 0 < take_pct \<and> take_pct \<le> 100)
     (take_profit_ladder cfg)"

lemma default_ladder_ok: "ladder_ok default_risk"
  by (simp add: ladder_ok_def default_risk_def)

lemma intent_simps [simp]:
  "ei_reason (intent r f u) = r" "ei_fraction (intent r f u) = f"
  "ei_urgent (intent r f u) = u" "ei_ladder_index (intent r f u) = None"
  by (simp_all add: intent_def)

lemmas exit_cases = evaluate_exits_def exitable_def Let_def

text \<open>
  The stop loss is the loss cap: an open position whose result at the market price is at
  or below the stop is sold in full and urgently, whatever the trader, the source, the pool and
  the clock say; and the stop loss is reported in no other case.
\<close>

theorem stop_loss_first:
  "evaluate_exits p market trader sold fraction liq cfg now = Some i \<and> ei_reason i = EXIT_STOP_LOSS
     \<longleftrightarrow> exitable p market \<and> exit_pnl_pct p market \<le> stop_loss_pct cfg \<and>
       i = intent EXIT_STOP_LOSS 1 True"
  by (auto simp: exit_cases split: if_splits option.splits)

text \<open>
  Every exit intent sells a positive part of what is left and never more than all of it,
  when the ladder takes between 0 and 100 per cent at each level and the source sold something.
  Anything but profit taking and mirroring closes the position; a ladder level that was taken
  before is not taken again, and the level taken was reached.
\<close>

theorem exit_fraction_valid:
  assumes "evaluate_exits p market trader sold fraction liq cfg now = Some i"
    and "ladder_ok cfg" "sold \<longrightarrow> 0 < fraction"
  shows "0 < ei_fraction i \<and> ei_fraction i \<le> 1 \<and>
    (ei_reason i \<notin> {EXIT_TAKE_PROFIT, EXIT_MIRROR} \<longrightarrow> ei_fraction i = 1) \<and>
    (\<forall>idx. ei_ladder_index i = Some idx \<longrightarrow>
       ei_reason i = EXIT_TAKE_PROFIT \<and> idx \<notin> set (p_tp_levels_hit p) \<and>
       idx < length (take_profit_ladder cfg) \<and>
       fst (take_profit_ladder cfg ! idx) \<le> exit_pnl_pct p market \<and>
       ei_fraction i = snd (take_profit_ladder cfg ! idx) / 100)"
proof (cases "ladder_level (p_tp_levels_hit p) (exit_pnl_pct p market) 0 (take_profit_ladder cfg)")
  case None
  then show ?thesis
    using assms(1,3) by (auto simp: exit_cases split: if_splits option.splits)
next
  case (Some lv)
  obtain idx tk where lv: "lv = (idx, tk)" by force
  note level = ladder_level_Some [OF Some [unfolded lv]]
  have "take_profit_ladder cfg ! idx \<in> set (take_profit_ladder cfg)" using level by simp
  then have "0 < tk \<and> tk \<le> 100"
    using assms(2) level by (auto simp: ladder_ok_def list_all_iff case_prod_beta)
  then show ?thesis
    using assms(1) level Some lv by (auto simp: exit_cases split: if_splits)
qed

definition sample_position :: position where
  "sample_position = \<lparr>p_id = 1, p_token_mint = ''MINT'', p_trader_wallet = ''alice'',
     p_status = POS_OPEN, p_decimals = 6, p_amount_raw = 1000000, p_cost_basis_usd = 100,
     p_realized_pnl_usd = 0, p_fees_usd = 0, p_entry_price = 100, p_current_price = 100,
     p_peak_price = 100, p_trailing_armed = False, p_tp_levels_hit = [], p_opened_at = 0,
     p_closed_at = None, p_source_trade_id = None, p_mode = ''paper''\<rparr>"

definition priced :: "usd \<Rightarrow> market_state" where
  "priced x = sample_market\<lparr>ms_price_usd := x\<rparr>"

lemma exit_fraction_valid_witness:
  "\<exists>i. evaluate_exits sample_position (priced 160) None False 1 None default_risk 0 = Some i \<and>
     0 < ei_fraction i \<and> ei_fraction i \<le> 1 \<and> ei_ladder_index i = Some 0"
proof -
  have e: "evaluate_exits sample_position (priced 160) None False 1 None default_risk 0 =
      Some ((intent EXIT_TAKE_PROFIT (25/100) False)\<lparr>ei_ladder_index := Some 0\<rparr>)"
    by code_simp
  from exit_fraction_valid [OF e default_ladder_ok] e show ?thesis by simp
qed

text \<open>
  C13. A position is held exactly when it cannot be priced or no rule applies: it is above the
  stop, the pool could absorb it twice, its trader is still one to copy, the trailing stop is
  not hit, every reached ladder level was taken before, the source has not sold, and the
  maximal holding time has not passed.
\<close>

theorem held_iff_no_rule:
  "evaluate_exits p market trader sold fraction liq cfg now = None \<longleftrightarrow>
     \<not> exitable p market \<or>
     (stop_loss_pct cfg < exit_pnl_pct p market \<and>
      (\<forall>l. liq = Some l \<longrightarrow> market_value_usd p * 2 \<le> l) \<and> \<not> trader_lost trader \<and>
      \<not> trailing_hit p market cfg \<and>
      (\<forall>j < length (take_profit_ladder cfg).
         j \<in> set (p_tp_levels_hit p) \<or>
         exit_pnl_pct p market < fst (take_profit_ladder cfg ! j)) \<and>
      \<not> sold \<and> elapsed_seconds (p_opened_at p) now \<le> max_hold_seconds cfg)"
proof -
  have ladder: "ladder_level (p_tp_levels_hit p) pnl 0 (take_profit_ladder cfg) = None \<longleftrightarrow>
      (\<forall>j < length (take_profit_ladder cfg).
         j \<in> set (p_tp_levels_hit p) \<or> pnl < fst (take_profit_ladder cfg ! j))" for pnl
    using ladder_level_None [of "p_tp_levels_hit p" pnl 0] by simp
  show ?thesis
    unfolding exit_cases ladder [symmetric]
    by (cases "ladder_level (p_tp_levels_hit p) (exit_pnl_pct p market) 0 (take_profit_ladder cfg)";
        cases liq) (auto simp: not_le not_less)
qed

lemma held_iff_no_rule_witness:
  "evaluate_exits sample_position (priced 90) None False 1 (Some 1000) default_risk 3600000000
     = None"
proof -
  have h: "stop_loss_pct default_risk < exit_pnl_pct sample_position (priced 90)"
    "market_value_usd sample_position * 2 \<le> 1000"
    "\<not> trailing_hit sample_position (priced 90) default_risk"
    "list_all (\<lambda>l. exit_pnl_pct sample_position (priced 90) < fst l)
       (take_profit_ladder default_risk)"
    "elapsed_seconds (p_opened_at sample_position) 3600000000 \<le> max_hold_seconds default_risk"
    by code_simp+
  show ?thesis
    by (rule held_iff_no_rule [THEN iffD2])
      (use h in \<open>simp add: trader_lost_def list_all_length\<close>)
qed

section \<open>Marks\<close>

lemma update_marks_snd:
  "snd (update_marks p market cfg) =
     p\<lparr>p_current_price := ms_price_usd market,
       p_peak_price := max (p_peak_price p) (ms_price_usd market),
       p_trailing_armed := p_trailing_armed p \<or>
         0 < p_entry_price p \<and> trailing_arm_pct cfg \<le>
           (max (p_peak_price p) (ms_price_usd market) - p_entry_price p) / p_entry_price p * 100\<rparr>"
  by (auto simp: update_marks_def Let_def max_def not_less)

lemma update_marks_changed:
  "fst (update_marks p market cfg) \<longleftrightarrow> snd (update_marks p market cfg) \<noteq> p"
proof (cases p)
  case (fields i m w st dec amt cost rp fe en cur peak armed hit op cl src md)
  then show ?thesis by (auto simp: update_marks_def Let_def)
qed

definition marks :: "risk_config \<Rightarrow> market_state list \<Rightarrow> position \<Rightarrow> position" where
  "marks cfg ms p = fold (\<lambda>m q. snd (update_marks q m cfg)) ms p"

lemma marks_facts:
  "p_peak_price (marks cfg ms p) = fold max (map ms_price_usd ms) (p_peak_price p)"
  "p_entry_price (marks cfg ms p) = p_entry_price p"
  "p_amount_raw (marks cfg ms p) = p_amount_raw p"
  "p_trailing_armed p \<Longrightarrow> p_trailing_armed (marks cfg ms p)"
  by (induction ms arbitrary: p) (simp_all add: marks_def update_marks_snd max.commute)

lemma fold_max_ge0: "(b::rat) \<le> fold max xs b"
proof (induction xs arbitrary: b)
  case (Cons y ys)
  from Cons.IH [of "max y b"] show ?case by simp
qed simp

lemma fold_max_ge: "x \<in> set xs \<Longrightarrow> (x::rat) \<le> fold max xs b"
proof (induction xs arbitrary: b)
  case (Cons y ys)
  then show ?case using fold_max_ge0 [of "max y b" ys] by auto
qed simp

lemma fold_max_mem: "fold max xs (b::rat) \<in> insert b (set xs)"
proof (induction xs arbitrary: b)
  case (Cons y ys)
  from Cons [of "max y b"] show ?case by (auto simp: max_def split: if_splits)
qed simp

text \<open>
  The trailing stop latches.  Whatever prices a position is marked at, its peak is the
  highest of them and its previous peak, an armed stop is never disarmed, and it is armed from
  the first mark at which the gain over the entry reaches the arming threshold; from then on a
  market price that is the trailing percentage below the peak is never held.
\<close>

theorem trailing_stop_latches:
  assumes "0 < p_entry_price p" "m \<in> set ms"
    and "trailing_arm_pct cfg \<le> (ms_price_usd m - p_entry_price p) / p_entry_price p * 100"
  defines "q \<equiv> marks cfg ms p"
  shows "p_trailing_armed q \<and> p_peak_price p \<le> p_peak_price q \<and>
    p_peak_price q \<in> insert (p_peak_price p) (ms_price_usd ` set ms) \<and>
    (\<forall>x \<in> set ms. ms_price_usd x \<le> p_peak_price q) \<and>
    (exitable q market \<and> 0 < p_peak_price q \<and>
       ms_price_usd market \<le> p_peak_price q * (1 - trailing_stop_pct cfg / 100) \<longrightarrow>
       evaluate_exits q market trader sold fraction liq cfg now \<noteq> None)"
proof -
  have peak: "p_peak_price q = fold max (map ms_price_usd ms) (p_peak_price p)"
    by (simp add: q_def marks_facts)
  have armed: "p_trailing_armed q"
  proof -
    obtain xs ys where ms: "ms = xs @ m # ys" using assms(2) by (meson split_list)
    let ?p = "marks cfg xs p"
    let ?x = "max (p_peak_price ?p) (ms_price_usd m)"
    have "(ms_price_usd m - p_entry_price p) / p_entry_price p * 100
        \<le> (?x - p_entry_price p) / p_entry_price p * 100"
      using assms(1) by (intro mult_right_mono divide_right_mono) auto
    then have "p_trailing_armed (snd (update_marks ?p m cfg))"
      using assms(1,3) by (simp add: update_marks_snd marks_facts(2))
    moreover have "q = marks cfg ys (snd (update_marks ?p m cfg))"
      by (simp add: q_def ms marks_def)
    ultimately show ?thesis by (simp add: marks_facts(4))
  qed
  have "trailing_hit q market cfg"
    if "0 < p_peak_price q" "ms_price_usd market \<le> p_peak_price q * (1 - trailing_stop_pct cfg / 100)"
  proof -
    have "trailing_stop_pct cfg \<le> (p_peak_price q - ms_price_usd market) / p_peak_price q * 100"
      using that by (simp add: field_simps)
    then show ?thesis using armed that assms(1) by (simp add: trailing_hit_def q_def marks_facts(2))
  qed
  then show ?thesis
    using armed fold_max_ge0 [of "p_peak_price p" "map ms_price_usd ms"]
      fold_max_ge [of _ "map ms_price_usd ms" "p_peak_price p"]
      fold_max_mem [of "map ms_price_usd ms" "p_peak_price p"]
    by (auto simp: peak held_iff_no_rule)
qed

lemma trailing_stop_latches_witness:
  "p_trailing_armed (marks default_risk [priced 150, priced 120] sample_position) \<and>
   evaluate_exits (marks default_risk [priced 150, priced 120] sample_position) (priced 115) None
     False 1 None default_risk 0 \<noteq> None"
proof -
  have m: "priced 150 \<in> set [priced 150, priced 120]" by simp
  have h: "0 < p_entry_price sample_position"
    "trailing_arm_pct default_risk \<le>
       (ms_price_usd (priced 150) - p_entry_price sample_position) / p_entry_price sample_position * 100"
    "exitable (marks default_risk [priced 150, priced 120] sample_position) (priced 115)"
    "0 < p_peak_price (marks default_risk [priced 150, priced 120] sample_position)"
    "ms_price_usd (priced 115) \<le> p_peak_price (marks default_risk [priced 150, priced 120]
       sample_position) * (1 - trailing_stop_pct default_risk / 100)"
    by code_simp+
  from trailing_stop_latches [OF h(1) m h(2)] h(3-5) show ?thesis by blast
qed

section \<open>Realised results\<close>

lemma realized_pnl_split:
  "realized_pnl p a x =
     (if p_amount_raw p \<le> 0 then (0, 0)
      else (of_int a / 10 ^ p_decimals p * x,
            of_int a / 10 ^ p_decimals p * x
              - p_cost_basis_usd p * (of_int a / of_int (p_amount_raw p))))"
  by (simp add: realized_pnl_def Let_def)

lemma realized_pnl_all:
  "0 < p_amount_raw p \<Longrightarrow> snd (realized_pnl p (p_amount_raw p) x) =
     fst (realized_pnl p (p_amount_raw p) x) - p_cost_basis_usd p"
  by (simp add: realized_pnl_split)

end
