(* ===== verification/Token_Safety.thy ===== *)
theory Token_Safety
  imports Gates
begin

text \<open>
  \<^verbatim>\<open>engine/token_safety.py\<close>: the risk score of a mint from its authorities and its
  holders, the cache in front of it, and the inline manipulation heuristics.  What the Helius
  adapter answers is an argument: a failed call is \<open>Inl\<close>, a missing key \<open>None\<close>, a null value
  \<open>Some None\<close>.
\<close>

record mint_account =
  mi_mint_authority :: "string option option"
  mi_freeze_authority :: "string option option"
  mi_supply :: "int option option"

type_synonym mint_answer = "py_error + mint_account option"
type_synonym holders_answer = "py_error + int option list option"

definition BURN_ADDRESSES :: "string list" where
  "BURN_ADDRESSES = [''11111111111111111111111111111111'',
     ''1nc1nerator11111111111111111111111111111111'']"

definition authority_set :: "string option option \<Rightarrow> bool" where
  "authority_set a \<longleftrightarrow> (case a of Some (Some s) \<Rightarrow> s \<noteq> [] | _ \<Rightarrow> False)"

text \<open>The share of the ten largest accounts: \<open>Inr None\<close> when the holders are unknown.\<close>

definition top10_share :: "int \<Rightarrow> holders_answer \<Rightarrow> py_error + pct option" where
  "top10_share supply holders =
     (case holders of
        Inl e \<Rightarrow> Inl e
      | Inr None \<Rightarrow> Inr None
      | Inr (Some largest) \<Rightarrow>
          if largest \<noteq> [] \<and> supply \<noteq> 0
            then Inr (Some (of_int (sum_list (map or_zero (take 10 largest))) / of_int supply * 100))
          else Inr None)"

definition concentration_score :: "pct \<Rightarrow> int \<times> reason list" where
  "concentration_score p =
     (if 70 < p then (30, [R_HOLDER_CONCENTRATION])
      else if 50 < p then (15, [R_HOLDER_CONCENTRATION])
      else if 35 < p then (5, [])
      else (0, []))"

definition unknown_risk :: "string \<Rightarrow> token_risk" where
  "unknown_risk mint = (default_token_risk mint)\<lparr>rk_score := 100, rk_unknown := True\<rparr>"

definition evaluate_mint ::
    "string \<Rightarrow> string option \<Rightarrow> mint_answer \<Rightarrow> holders_answer \<Rightarrow> token_risk" where
  "evaluate_mint mint deployer answer holders =
     (case answer of
        Inl e \<Rightarrow> unknown_risk mint
      | Inr None \<Rightarrow> unknown_risk mint
      | Inr (Some info) \<Rightarrow>
          if mi_mint_authority info = None \<or> mi_freeze_authority info = None \<or>
             mi_supply info = None then unknown_risk mint
          else
            let mint_auth = authority_set (mi_mint_authority info);
                freeze_auth = authority_set (mi_freeze_authority info);
                supply = (case mi_supply info of Some s \<Rightarrow> or_zero s | None \<Rightarrow> 0);
                score0 = (if mint_auth then 35 else 0) + (if freeze_auth then 30 else 0);
                reasons0 = (if mint_auth then [R_MINT_AUTHORITY_ACTIVE] else []) @
                           (if freeze_auth then [R_FREEZE_AUTHORITY_ACTIVE] else []);
                (top10, score1, reasons1, flags1) =
                  (case top10_share supply holders of
                     Inl e \<Rightarrow> (None, 10, [], [''holders_unknown''])
                   | Inr None \<Rightarrow> (None, 0, [], [])
                   | Inr (Some p) \<Rightarrow>
                       (case concentration_score p of (s, rs) \<Rightarrow> (Some p, s, rs, [])));
                flags = flags1 @ (case deployer of None \<Rightarrow> []
                                  | Some d \<Rightarrow> if d = [] then [] else [''deployer:'' @ d])
            in \<lparr>rk_mint = mint, rk_score = min (score0 + score1) 100,
                 rk_mint_authority_active = Some mint_auth,
                 rk_freeze_authority_active = Some freeze_auth,
                 rk_top10_holder_pct = top10, rk_is_honeypot = None,
                 rk_insider_flags = flags, rk_reasons = reasons0 @ reasons1,
                 rk_unknown = (top10 = None)\<rparr>)"

text \<open>The cache holds a verdict until its expiry.\<close>

type_synonym risk_cache = "string \<rightharpoonup> token_risk \<times> datetime"

definition CACHE_TTL :: int where
  "CACHE_TTL = 900"

definition cached_risk :: "risk_cache \<Rightarrow> string \<Rightarrow> datetime \<Rightarrow> token_risk option" where
  "cached_risk cache mint now =
     (case cache mint of None \<Rightarrow> None
      | Some (verdict, expiry) \<Rightarrow> if now < expiry then Some verdict else None)"

definition evaluate_token ::
    "string \<Rightarrow> string option \<Rightarrow> bool \<Rightarrow> mint_answer \<Rightarrow> holders_answer \<Rightarrow> datetime \<Rightarrow> risk_cache \<Rightarrow>
       token_risk \<times> risk_cache" where
  "evaluate_token mint deployer use_cache answer holders now cache =
     (case (if use_cache then cached_risk cache mint now else None) of
        Some verdict \<Rightarrow> (verdict, cache)
      | None \<Rightarrow>
          let verdict = evaluate_mint mint deployer answer holders
          in (verdict, if rk_unknown verdict then cache
                    else cache(mint \<mapsto> (verdict, now + CACHE_TTL * 1000000))))"

definition detect_insider_pattern :: "usd \<Rightarrow> int option \<Rightarrow> string list" where
  "detect_insider_pattern source_value_usd token_age_seconds =
     (case token_age_seconds of None \<Rightarrow> []
      | Some age \<Rightarrow> if age < 120 then [''bought_within_2min_of_launch''] else []) @
     (if 0 < source_value_usd \<and> source_value_usd < 5 then [''dust_trade_possible_bait''] else [])"

section \<open>Facts\<close>

definition holders_known :: "mint_account \<Rightarrow> holders_answer \<Rightarrow> bool" where
  "holders_known info holders \<longleftrightarrow>
     (case mi_supply info of Some (Some s) \<Rightarrow> s \<noteq> 0 | _ \<Rightarrow> False) \<and>
     (case holders of Inr (Some (_ # _)) \<Rightarrow> True | _ \<Rightarrow> False)"

lemma top10_share_known:
  "mi_supply info = Some s \<Longrightarrow>
     (\<exists>p. top10_share (or_zero s) holders = Inr (Some p)) \<longleftrightarrow> holders_known info holders"
  by (auto simp: top10_share_def holders_known_def or_zero_def split: sum.splits option.splits
      list.splits)

lemma concentration_score_range: "concentration_score p = (n, rs) \<Longrightarrow> 0 \<le> n \<and> n \<le> 30"
  by (auto simp: concentration_score_def split: if_splits)

lemma evaluate_mint_score: "0 \<le> rk_score (evaluate_mint m d a h) \<and> rk_score (evaluate_mint m d a h) \<le> 100"
  by (auto simp: evaluate_mint_def unknown_risk_def Let_def split: sum.splits option.splits
      prod.splits dest!: concentration_score_range)

text \<open>Verdicts that were read from both endpoints, and the rest.\<close>

definition assessed :: "mint_answer \<Rightarrow> holders_answer \<Rightarrow> mint_account option" where
  "assessed answer holders =
     (case answer of
        Inr (Some info) \<Rightarrow>
          if mi_mint_authority info \<noteq> None \<and> mi_freeze_authority info \<noteq> None \<and>
             mi_supply info \<noteq> None \<and> holders_known info holders then Some info else None
      | _ \<Rightarrow> None)"

lemma evaluate_mint_unknown:
  "rk_unknown (evaluate_mint m d answer holders) \<longleftrightarrow> assessed answer holders = None"
proof (cases answer)
  case (Inr o')
  show ?thesis
  proof (cases o')
    case (Some info)
    show ?thesis
    proof (cases "mi_mint_authority info = None \<or> mi_freeze_authority info = None \<or> mi_supply info = None")
      case False
      then obtain s where s: "mi_supply info = Some s" by auto
      show ?thesis
        using False top10_share_known [OF s, of holders]
        by (auto simp: evaluate_mint_def assessed_def Inr Some s Let_def
            split: sum.splits option.splits prod.splits)
    qed (auto simp: evaluate_mint_def assessed_def Inr Some unknown_risk_def)
  qed (simp add: evaluate_mint_def assessed_def Inr unknown_risk_def)
qed (simp add: evaluate_mint_def assessed_def unknown_risk_def)

definition cache_known :: "risk_cache \<Rightarrow> bool" where
  "cache_known cache \<longleftrightarrow> (\<forall>mint v. cache mint = Some v \<longrightarrow> \<not> rk_unknown (fst v))"

lemma evaluate_token_cache_known:
  "evaluate_token m d uc a h now cache = (verdict, cache') \<Longrightarrow> cache_known cache \<Longrightarrow> cache_known cache'"
  by (auto simp: evaluate_token_def cache_known_def Let_def split: option.splits if_splits) metis+

text \<open>
  The safety check fails closed.  When the mint account or the holders cannot be read (a
  failed call, an empty answer, a missing key, no supply) and no earlier verdict is cached, the
  token does not pass the safety gate, whatever its threshold; and the failure is not cached: a
  cache that holds only known verdicts still does afterwards.
\<close>

theorem token_safety_fails_closed:
  assumes "evaluate_token m deployer use_cache answer holders now cache = (verdict, cache')"
    and "cache_known cache" "assessed answer holders = None"
    and "use_cache \<longrightarrow> cached_risk cache m now = None"
  shows "\<not> g_passed (token_safety_gate (c\<lparr>c_token_risk := Some verdict\<rparr>) cfg) \<and>
    cache' = cache \<and> cache_known cache'"
proof -
  have "rk_unknown verdict \<and> cache' = cache"
    using assms(1,3,4) evaluate_mint_unknown [of m deployer answer holders]
    by (auto simp: evaluate_token_def Let_def split: if_splits option.splits)
  then show ?thesis using assms(2) by (simp add: token_safety_gate_def)
qed

lemma token_safety_fails_closed_witness:
  "\<exists>verdict. evaluate_token ''M'' None True (Inl (ProviderError ''timeout'')) (Inr None) 0 Map.empty
       = (verdict, Map.empty) \<and> rk_unknown verdict"
proof -
  obtain verdict c' where
    e: "evaluate_token ''M'' None True (Inl (ProviderError ''timeout'')) (Inr None) 0 Map.empty
      = (verdict, c')" by force
  have "cache_known Map.empty" "assessed (Inl (ProviderError ''timeout'')) (Inr None) = None"
    "True \<longrightarrow> cached_risk Map.empty ''M'' 0 = None"
    by (simp_all add: cache_known_def assessed_def cached_risk_def)
  from token_safety_fails_closed [OF e this] e show ?thesis
    by (auto simp: evaluate_token_def cached_risk_def evaluate_mint_def unknown_risk_def)
qed

end
