(* ===== verification/Dedupe.thy ===== *)
theory Dedupe
  imports Config
begin

text \<open>
  \<^verbatim>\<open>state/keys.py\<close> and \<^verbatim>\<open>state/dedupe.py\<close>: the Redis key names, namespaced by
  mode, and the claims that make a source transaction and an order happen once.  A string key
  holds a value and an optional expiry; every command is atomic and reads the clock \<open>now\<close>.
\<close>

section \<open>Keys\<close>

definition mode_segment :: "settings \<Rightarrow> string option \<Rightarrow> string" where
  "mode_segment st m =
     (case m of None \<Rightarrow> mode_value (mode_setting st)
      | Some s \<Rightarrow> if s = [] then mode_value (mode_setting st) else s)"

definition risk_state_key :: "settings \<Rightarrow> string option \<Rightarrow> string" where
  "risk_state_key st m = ''asm:'' @ mode_segment st m @ '':risk:state''"

definition exposure_token_key :: "settings \<Rightarrow> string option \<Rightarrow> string" where
  "exposure_token_key st m = ''asm:'' @ mode_segment st m @ '':risk:exposure:token''"

definition exposure_trader_key :: "settings \<Rightarrow> string option \<Rightarrow> string" where
  "exposure_trader_key st m = ''asm:'' @ mode_segment st m @ '':risk:exposure:trader''"

definition reservation_key :: "settings \<Rightarrow> string \<Rightarrow> string option \<Rightarrow> string" where
  "reservation_key st res_id m = ''asm:'' @ mode_segment st m @ '':risk:res:'' @ res_id"

definition SYSTEM_STATE_KEY :: string where
  "SYSTEM_STATE_KEY = ''asm:system:state''"

definition KILL_SWITCH_KEY :: string where
  "KILL_SWITCH_KEY = ''asm:system:kill''"

definition dedupe_redis_key :: "string \<Rightarrow> string" where
  "dedupe_redis_key k = ''asm:dedupe:'' @ k"

definition idem_key :: "string \<Rightarrow> string" where
  "idem_key k = ''asm:idem:'' @ k"

definition market_key :: "string \<Rightarrow> string" where
  "market_key mint = ''asm:cache:market:'' @ mint"

definition token_risk_key :: "string \<Rightarrow> string" where
  "token_risk_key mint = ''asm:cache:tokenrisk:'' @ mint"

definition trader_key :: "string \<Rightarrow> string" where
  "trader_key wallet = ''asm:cache:trader:'' @ wallet"

definition latency_samples_key :: "string \<Rightarrow> string" where
  "latency_samples_key wallet = ''asm:latency:'' @ wallet"

definition recent_buys_key :: "string \<Rightarrow> string" where
  "recent_buys_key mint = ''asm:confirm:'' @ mint"

definition breaker_key :: "string \<Rightarrow> string" where
  "breaker_key provider = ''asm:breaker:'' @ provider"

section \<open>String keys with expiry\<close>

type_synonym kv = "string \<rightharpoonup> string \<times> datetime option"

definition kv_get :: "datetime \<Rightarrow> string \<Rightarrow> kv \<Rightarrow> string option" where
  "kv_get now k s =
     (case s k of None \<Rightarrow> None
      | Some (v, None) \<Rightarrow> Some v
      | Some (v, Some expiry) \<Rightarrow> if now < expiry then Some v else None)"

definition kv_set :: "string \<Rightarrow> string \<Rightarrow> kv \<Rightarrow> kv" where
  "kv_set k v s = s(k \<mapsto> (v, None))"

definition kv_set_ex :: "datetime \<Rightarrow> string \<Rightarrow> string \<Rightarrow> int \<Rightarrow> kv \<Rightarrow> kv" where
  "kv_set_ex now k v ttl s = s(k \<mapsto> (v, Some (now + ttl * 1000000)))"

definition kv_set_nx_ex :: "datetime \<Rightarrow> string \<Rightarrow> string \<Rightarrow> int \<Rightarrow> kv \<Rightarrow> bool \<times> kv" where
  "kv_set_nx_ex now k v ttl s =
     (if kv_get now k s = None then (True, kv_set_ex now k v ttl s) else (False, s))"

section \<open>Dedupe\<close>

definition SIGNAL_TTL :: int where
  "SIGNAL_TTL = 3600"

definition ORDER_TTL :: int where
  "ORDER_TTL = 86400"

definition claim_signal :: "string \<Rightarrow> datetime \<Rightarrow> kv \<Rightarrow> bool \<times> kv" where
  "claim_signal key now s = kv_set_nx_ex now (dedupe_redis_key key) ''1'' SIGNAL_TTL s"

definition claim_order :: "string \<Rightarrow> datetime \<Rightarrow> kv \<Rightarrow> bool \<times> kv" where
  "claim_order key now s = kv_set_nx_ex now (idem_key key) ''pending'' ORDER_TTL s"

definition finish_order :: "string \<Rightarrow> string \<Rightarrow> kv \<Rightarrow> kv" where
  "finish_order key signature s = kv_set (idem_key key) signature s"

definition lookup_order :: "string \<Rightarrow> datetime \<Rightarrow> kv \<Rightarrow> string option" where
  "lookup_order key now s = kv_get now (idem_key key) s"

definition abandon_order :: "string \<Rightarrow> kv \<Rightarrow> kv" where
  "abandon_order key s = s(idem_key key := None)"

section \<open>The contract of a claim\<close>

fun claims :: "('k \<Rightarrow> datetime \<Rightarrow> 's \<Rightarrow> bool \<times> 's) \<Rightarrow> ('k \<times> datetime) list \<Rightarrow> 's \<Rightarrow> bool list \<times> 's" where
  "claims claim [] s = ([], s)"
| "claims claim ((k, t) # cs) s =
     (case claim k t s of (won, s1) \<Rightarrow>
        case claims claim cs s1 of (rest, s2) \<Rightarrow> (won # rest, s2))"

definition wins :: "'k \<Rightarrow> ('k \<times> datetime) list \<Rightarrow> bool list \<Rightarrow> nat" where
  "wins k cs results = length (filter (\<lambda>((j, t), won). j = k \<and> won) (zip cs results))"

locale claim_once =
  fixes claim :: "'k \<Rightarrow> datetime \<Rightarrow> 's \<Rightarrow> bool \<times> 's"
    and taken :: "'k \<Rightarrow> datetime \<Rightarrow> 's \<Rightarrow> bool"
    and window :: int
  assumes claim_won: "claim k t s = (won, s') \<Longrightarrow> won \<longleftrightarrow> \<not> taken k t s"
    and claim_takes: "claim k t s = (True, s') \<Longrightarrow> t \<le> t' \<Longrightarrow> t' < t + window \<Longrightarrow> taken k t' s'"
    and claim_lost: "claim k t s = (False, s') \<Longrightarrow> s' = s"
    and claim_other: "claim k t s = (won, s') \<Longrightarrow> j \<noteq> k \<Longrightarrow> taken j t' s' = taken j t' s"
begin

lemma taken_no_wins:
  assumes "claims claim cs s = (results, s')" "\<And>j t. (j, t) \<in> set cs \<Longrightarrow> taken k t s"
  shows "wins k cs results = 0"
  using assms
proof (induction cs arbitrary: s results s')
  case (Cons c cs)
  obtain j t where c: "c = (j, t)" by force
  obtain won s1 where a: "claim j t s = (won, s1)" by force
  obtain rs s2 where b: "claims claim cs s1 = (rs, s2)" by force
  have k: "taken k u s1" if "(i, u) \<in> set cs" for i u
  proof (cases "j = k")
    case True
    then have "\<not> won" using claim_won [OF a] Cons.prems(2) [of j t] c by simp
    then have "s1 = s" using a claim_lost by simp
    then show ?thesis using Cons.prems(2) [of i u] that by simp
  next
    case False
    then show ?thesis using claim_other [OF a, of k u] Cons.prems(2) [of i u] that by simp
  qed
  have "j = k \<Longrightarrow> \<not> won" using claim_won [OF a] Cons.prems(2) [of j t] c by simp
  then show ?case
    using Cons.IH [OF b k] Cons.prems(1) c a b by (auto simp: wins_def)
qed (simp add: wins_def)

lemma at_most_one_win:
  assumes "claims claim cs s = (results, s')" "sorted (map snd cs)"
    and "\<And>j t. (j, t) \<in> set cs \<Longrightarrow> t < t0 + window \<and> t0 \<le> t"
  shows "wins k cs results \<le> 1"
  using assms
proof (induction cs arbitrary: s results s')
  case (Cons c cs)
  obtain j t where c: "c = (j, t)" by force
  obtain won s1 where a: "claim j t s = (won, s1)" by force
  obtain rs s2 where b: "claims claim cs s1 = (rs, s2)" by force
  have rest: "wins k cs rs \<le> 1" using Cons.prems by (intro Cons.IH [OF b]) auto
  have one: "wins k (c # cs) (won # rs) = (if j = k \<and> won then 1 else 0) + wins k cs rs"
    by (simp add: wins_def c)
  have res: "results = won # rs" using Cons.prems(1) a b by (simp add: c)
  show ?case
  proof (cases "j = k \<and> won")
    case True
    have "taken k u s1" if "(i, u) \<in> set cs" for i u
    proof (rule claim_takes)
      show "claim k t s = (True, s1)" using a True by simp
      show "t \<le> u" using Cons.prems(2) that by (force simp: c)
      have "u < t0 + window" "t0 \<le> t" using Cons.prems(3) [of i u] Cons.prems(3) [of j t] that c
        by auto
      then show "u < t + window" by simp
    qed
    then have "wins k cs rs = 0" by (rule taken_no_wins [OF b])
    then show ?thesis by (simp add: one res)
  next
    case False
    with rest show ?thesis by (auto simp: one res)
  qed
qed (simp add: wins_def)

lemma first_claim_wins:
  assumes "claims claim ((k, t) # cs) s = (results, s')" "\<not> taken k t s"
  shows "hd results"
  using assms claim_won [of k t s] by (auto split: prod.splits)

end

section \<open>The interpretations\<close>

lemma kv_get_set_nx_ex:
  "kv_set_nx_ex t k v ttl s = (won, s') \<Longrightarrow> j \<noteq> k \<Longrightarrow> kv_get t' j s' = kv_get t' j s"
  by (auto simp: kv_set_nx_ex_def kv_set_ex_def kv_get_def split: if_splits)

lemma claim_once_kv:
  assumes "inj key"
  shows "claim_once (\<lambda>k now s. kv_set_nx_ex now (key k) v ttl s)
    (\<lambda>k now s. kv_get now (key k) s \<noteq> None) (ttl * 1000000)"
proof
  fix k t s won s'
  assume c: "kv_set_nx_ex t (key k) v ttl s = (won, s')"
  show "won \<longleftrightarrow> \<not> kv_get t (key k) s \<noteq> None" using c by (auto simp: kv_set_nx_ex_def split: if_splits)
  show "kv_get t' (key j) s' \<noteq> None \<longleftrightarrow> kv_get t' (key j) s \<noteq> None" if "j \<noteq> k" for j t'
    using kv_get_set_nx_ex [OF c, of "key j"] that assms by (simp add: inj_eq)
next
  fix k t s s' t'
  assume "kv_set_nx_ex t (key k) v ttl s = (True, s')" "t \<le> t'" "t' < t + ttl * 1000000"
  then show "kv_get t' (key k) s' \<noteq> None"
    by (auto simp: kv_set_nx_ex_def kv_set_ex_def kv_get_def split: if_splits)
next
  fix k t s s'
  assume "kv_set_nx_ex t (key k) v ttl s = (False, s')"
  then show "s' = s" by (auto simp: kv_set_nx_ex_def split: if_splits)
qed

interpretation signals: claim_once claim_signal "\<lambda>k now s. kv_get now (dedupe_redis_key k) s \<noteq> None"
  "SIGNAL_TTL * 1000000"
  unfolding claim_signal_def [abs_def]
  by (rule claim_once_kv) (simp add: inj_def dedupe_redis_key_def)

interpretation orders: claim_once claim_order "\<lambda>k now s. lookup_order k now s \<noteq> None"
  "ORDER_TTL * 1000000"
  unfolding claim_order_def [abs_def] lookup_order_def
  by (rule claim_once_kv) (simp add: inj_def idem_key_def)

text \<open>
  A source transaction becomes a signal once: of any number of deliveries of it within the
  hour, replayed in any pattern and mixed with other transactions, at most one wins the claim,
  and the first does when the key is free.
\<close>

theorem signal_claimed_once:
  assumes "claims claim_signal ((k, t0) # cs) s = (results, s')"
    and "sorted (map snd ((k, t0) # cs))"
    and "\<forall>(j, t) \<in> set cs. t < t0 + SIGNAL_TTL * 1000000"
    and "kv_get t0 (dedupe_redis_key k) s = None"
  shows "hd results \<and> wins k ((k, t0) # cs) results = 1"
proof -
  have first: "hd results" using signals.first_claim_wins [OF assms(1)] assms(4) by simp
  have le: "wins k ((k, t0) # cs) results \<le> 1"
  proof (rule signals.at_most_one_win [OF assms(1,2)])
    fix j t
    assume "(j, t) \<in> set ((k, t0) # cs)"
    then show "t < t0 + SIGNAL_TTL * 1000000 \<and> t0 \<le> t"
      using assms(2,3) by (force simp: SIGNAL_TTL_def)
  qed
  obtain r rs where "results = r # rs" using assms(1) by (auto split: prod.splits)
  with first le show ?thesis by (simp add: wins_def)
qed

lemma signal_claimed_once_witness:
  "wins ''sig'' [(''sig'', 0), (''other'', 5), (''sig'', 1000000)] [True, True, False] = 1"
proof -
  have e: "claims claim_signal [(''sig'', 0), (''other'', 5), (''sig'', 1000000)] Map.empty =
      ([True, True, False], snd (claims claim_signal
        [(''sig'', 0), (''other'', 5), (''sig'', 1000000)] Map.empty))"
    by (simp add: claim_signal_def kv_set_nx_ex_def kv_get_def kv_set_ex_def dedupe_redis_key_def
        SIGNAL_TTL_def)
  show ?thesis
    using signal_claimed_once [OF e]
    by (simp add: SIGNAL_TTL_def kv_get_def)
qed

end
