(* ===== verification/Parser.thy ===== *)
theory Parser
  imports Config "HOL-Library.Sublist"
begin

text \<open>
  \<^verbatim>\<open>ingest/parser.py\<close> and \<^verbatim>\<open>ingest/verify.py\<close>: from the balance
  deltas of a Solana transaction to a source trade, and the check that an address is a wallet.

  A transaction is a record of the fields the parser reads, an absent field being the default
  the code falls back to.  The code iterates over a Python set of keys, whose order is not
  specified; it is the argument \<open>ord\<close>, a reordering of the keys.
\<close>

section \<open>Transactions\<close>

record token_balance =
  tb_account_index :: nat
  tb_mint :: string
  tb_owner :: "string option"
  tb_amount :: int
  tb_decimals :: nat

record transaction =
  tx_err :: bool
  tx_signatures :: "string list"
  tx_block_time :: int                  \<comment> \<open>seconds; 0 when absent\<close>
  tx_slot :: int
  tx_fee :: int
  tx_account_keys :: "string list"
  tx_pre_balances :: "int list"
  tx_post_balances :: "int list"
  tx_pre_token_balances :: "token_balance list"
  tx_post_token_balances :: "token_balance list"
  tx_log_messages :: "string list"

definition QUOTE_MINTS :: "string list" where
  "QUOTE_MINTS = [SOL_MINT, USDC_MINT, ''Es9vMFrzaCERmJfrF4H2FYD4KCoNkY11McCe8BenwNYB'']"

definition LP_PROGRAM_HINTS :: "string list" where
  "LP_PROGRAM_HINTS = [''addLiquidity'', ''removeLiquidity'', ''deposit'', ''withdraw'']"

definition DUST_USD :: usd where
  "DUST_USD = 1"

type_synonym balance_key = "nat \<times> string"

definition owned :: "string \<Rightarrow> token_balance list \<Rightarrow> token_balance list" where
  "owned wallet bs = filter (\<lambda>b. tb_owner b = Some wallet) bs"

definition amounts_of :: "token_balance list \<Rightarrow> (balance_key \<times> int) list" where
  "amounts_of bs = foldl (\<lambda>d b. AList.update (tb_account_index b, tb_mint b) (tb_amount b) d) [] bs"

definition decimals_of :: "token_balance list \<Rightarrow> (string \<times> nat) list" where
  "decimals_of bs = foldl (\<lambda>d b. AList.update (tb_mint b) (tb_decimals b) d) [] bs"

text \<open>
  Every key of \<open>pre\<close> has its decimals recorded, so the \<^verbatim>\<open>setdefault(mint, 9)\<close>
  of the source never applies and is subsumed by the lookup with default 9.
\<close>

definition owner_token_deltas ::
    "(balance_key list \<Rightarrow> balance_key list) \<Rightarrow> transaction \<Rightarrow> string \<Rightarrow> (string \<times> int \<times> nat) list" where
  "owner_token_deltas ord tx wallet =
     (let pre_b = owned wallet (tx_pre_token_balances tx);
          post_b = owned wallet (tx_post_token_balances tx);
          pre = amounts_of pre_b;
          post = amounts_of post_b;
          decimals = decimals_of (pre_b @ post_b);
          deltas = foldl (\<lambda>d key. AList.update (snd key)
                     (dict_get (snd key) 0 d + dict_get key 0 post - dict_get key 0 pre) d) []
                     (ord (remdups (map fst pre @ map fst post)))
      in map (\<lambda>(m, d). (m, d, dict_get m 9 decimals)) (filter (\<lambda>(m, d). d \<noteq> 0) deltas))"

text \<open>\<^verbatim>\<open>enumerate\<close> with a break at the first match.\<close>

fun index_of :: "string \<Rightarrow> string list \<Rightarrow> nat option" where
  "index_of a [] = None"
| "index_of a (k # ks) = (if k = a then Some 0 else map_option Suc (index_of a ks))"

definition native_sol_delta :: "transaction \<Rightarrow> string \<Rightarrow> int" where
  "native_sol_delta tx wallet =
     (case index_of wallet (tx_account_keys tx) of
        None \<Rightarrow> 0
      | Some idx \<Rightarrow>
          let pre = tx_pre_balances tx; post = tx_post_balances tx
          in if length pre \<le> idx \<or> length post \<le> idx then 0
             else let delta = post ! idx - pre ! idx
                  in if idx = 0 then delta + tx_fee tx else delta)"

fun join_space :: "string list \<Rightarrow> string" where
  "join_space [] = []"
| "join_space [s] = s"
| "join_space (s # ss) = s @ '' '' @ join_space ss"

definition is_lp_interaction :: "transaction \<Rightarrow> bool" where
  "is_lp_interaction tx =
     (let logs = join_space (tx_log_messages tx)
      in list_ex (\<lambda>hint. sublist hint logs) LP_PROGRAM_HINTS)"

definition post_balance :: "transaction \<Rightarrow> string \<Rightarrow> string \<Rightarrow> int" where
  "post_balance tx wallet mint =
     sum_list (map tb_amount
       (filter (\<lambda>b. tb_owner b = Some wallet \<and> tb_mint b = mint) (tx_post_token_balances tx)))"

definition classify :: "bool \<Rightarrow> int \<Rightarrow> int \<Rightarrow> action" where
  "classify lp raw_delta quote_delta =
     (if lp then ACT_LP_INTERACTION
      else if 0 < raw_delta \<and> quote_delta < 0 then ACT_BUY
      else if raw_delta < 0 \<and> 0 < quote_delta then ACT_SELL
      else if 0 < raw_delta \<and> quote_delta = 0 then ACT_TOKEN_RECEIPT
      else if raw_delta < 0 \<and> quote_delta = 0 then ACT_TRANSFER
      else ACT_UNKNOWN)"

record quote_leg =
  ql_mint :: string
  ql_delta :: int
  ql_decimals :: nat
  ql_ui :: rat
  ql_usd :: usd

definition quote_side :: "(string \<times> int \<times> nat) list \<Rightarrow> int \<Rightarrow> usd \<Rightarrow> quote_leg" where
  "quote_side stables sol_delta sol_price_usd =
     (case max_key (\<lambda>(m, d, dec). \<bar>d\<bar>) stables of
        Some (m, d, dec) \<Rightarrow>
          \<lparr>ql_mint = m, ql_delta = d, ql_decimals = dec, ql_ui = raw_to_ui \<bar>d\<bar> dec,
           ql_usd = raw_to_ui \<bar>d\<bar> dec\<rparr>
      | None \<Rightarrow>
          if sol_delta \<noteq> 0
            then \<lparr>ql_mint = SOL_MINT, ql_delta = sol_delta, ql_decimals = 9,
                  ql_ui = lamports_to_sol \<bar>sol_delta\<bar>,
                  ql_usd = lamports_to_sol \<bar>sol_delta\<bar> * sol_price_usd\<rparr>
          else \<lparr>ql_mint = SOL_MINT, ql_delta = 0, ql_decimals = 9, ql_ui = 0, ql_usd = 0\<rparr>)"

text \<open>The classification and the result, once the legs are known.\<close>

definition finish_trade :: "source_trade \<Rightarrow> bool \<Rightarrow> int \<Rightarrow> string \<times> int \<times> nat \<Rightarrow> quote_leg \<Rightarrow> source_trade option" where
  "finish_trade base lp remaining token q =
     (let (mint, raw_delta, decimals) = token;
          action0 = classify lp raw_delta (ql_delta q);
          token_ui = raw_to_ui \<bar>raw_delta\<bar> decimals;
          source_price = (if token_ui \<noteq> 0 then ql_ui q / token_ui else 0);
          action = (if action0 = ACT_SELL \<and> 0 < remaining then ACT_PARTIAL_SELL else action0)
      in if is_copyable action \<and> ql_usd q < DUST_USD then None
         else Some (base\<lparr>st_action := action, st_token_mint := mint, st_quote_mint := ql_mint q,
           st_token_amount_raw := \<bar>raw_delta\<bar>, st_quote_amount_raw := \<bar>ql_delta q\<bar>,
           st_token_decimals := decimals, st_quote_decimals := ql_decimals q,
           st_source_price := source_price, st_source_value_usd := ql_usd q,
           st_sold_fraction :=
             (if action = ACT_SELL \<or> action = ACT_PARTIAL_SELL
                then Some (of_int \<bar>raw_delta\<bar> / of_int (\<bar>raw_delta\<bar> + remaining)) else None)\<rparr>))"

definition blank_trade :: "nat \<Rightarrow> string \<Rightarrow> string \<Rightarrow> int \<Rightarrow> datetime \<Rightarrow> datetime \<Rightarrow> source_trade" where
  "blank_trade tid wallet signature slot confirmed_at detected_at =
     \<lparr>st_id = tid, st_wallet = wallet, st_signature = signature, st_slot = slot,
      st_action = ACT_UNKNOWN, st_token_mint = [], st_quote_mint = [], st_token_amount_raw = 0,
      st_quote_amount_raw = 0, st_token_decimals = 0, st_quote_decimals = 0, st_source_price = 0,
      st_source_value_usd = 0, st_source_confirmed_at = confirmed_at,
      st_detected_at = detected_at, st_sold_fraction = None\<rparr>"

text \<open>The wall clock and the fresh identifier are the arguments \<open>now\<close> and \<open>tid\<close>.\<close>

definition parse_transaction ::
    "(balance_key list \<Rightarrow> balance_key list) \<Rightarrow> nat \<Rightarrow> datetime \<Rightarrow> transaction \<Rightarrow> string \<Rightarrow>
       string option \<Rightarrow> usd \<Rightarrow> datetime option \<Rightarrow> source_trade option" where
  "parse_transaction ord tid now tx wallet signature sol_price_usd detected_at =
     (let sig = (case signature of
                   Some s \<Rightarrow> if s = [] then concat (take 1 (tx_signatures tx)) else s
                 | None \<Rightarrow> concat (take 1 (tx_signatures tx)));
          confirmed_at = (if tx_block_time tx \<noteq> 0 then tx_block_time tx * 1000000 else now);
          detected = (case detected_at of None \<Rightarrow> now | Some t \<Rightarrow> t);
          token_deltas = owner_token_deltas ord tx wallet;
          sol_delta = native_sol_delta tx wallet +
            (case map_of token_deltas SOL_MINT of None \<Rightarrow> 0 | Some (d, _) \<Rightarrow> d);
          deltas = filter (\<lambda>(m, v). m \<noteq> SOL_MINT) token_deltas;
          non_quote = filter (\<lambda>(m, v). m \<notin> set QUOTE_MINTS) deltas;
          stables = filter (\<lambda>(m, v). m \<in> set QUOTE_MINTS) deltas
      in if tx_err tx \<or> sig = [] then None
         else case max_key (\<lambda>(m, d, dec). \<bar>d\<bar>) non_quote of
                None \<Rightarrow> None
              | Some token \<Rightarrow>
                  finish_trade (blank_trade tid wallet sig (tx_slot tx) confirmed_at detected)
                    (is_lp_interaction tx) (post_balance tx wallet (fst token)) token
                    (quote_side stables sol_delta sol_price_usd))"

section \<open>Enhanced transactions\<close>

record token_leg =
  tl_mint :: string
  tl_token_amount :: int
  tl_decimals :: nat

record enhanced_row =
  he_error :: bool
  he_has_swap :: bool
  he_signature :: string
  he_timestamp :: int
  he_slot :: int
  he_native_in :: int
  he_native_out :: int
  he_token_inputs :: "token_leg list"
  he_token_outputs :: "token_leg list"

definition parse_helius_enhanced ::
    "nat \<Rightarrow> datetime \<Rightarrow> enhanced_row \<Rightarrow> string \<Rightarrow> source_trade option" where
  "parse_helius_enhanced tid now row wallet =
     (if he_error row \<or> \<not> he_has_swap row then None
      else
        let confirmed_at = (if he_timestamp row \<noteq> 0 then he_timestamp row * 1000000 else now);
            leg = (if he_native_in row \<noteq> 0 \<and> he_token_outputs row \<noteq> []
                     then Some (hd (he_token_outputs row), ACT_BUY, he_native_in row)
                   else if he_native_out row \<noteq> 0 \<and> he_token_inputs row \<noteq> []
                     then Some (hd (he_token_inputs row), ACT_SELL, he_native_out row)
                   else None)
        in case leg of
             None \<Rightarrow> None
           | Some (l, act, quote_raw) \<Rightarrow>
               if tl_token_amount l = 0 then None
               else
                 let token_ui = raw_to_ui \<bar>tl_token_amount l\<bar> (tl_decimals l);
                     quote_ui = lamports_to_sol \<bar>quote_raw\<bar>
                 in Some \<lparr>st_id = tid, st_wallet = wallet, st_signature = he_signature row,
                      st_slot = he_slot row, st_action = act, st_token_mint = tl_mint l,
                      st_quote_mint = SOL_MINT, st_token_amount_raw = \<bar>tl_token_amount l\<bar>,
                      st_quote_amount_raw = \<bar>quote_raw\<bar>, st_token_decimals = tl_decimals l,
                      st_quote_decimals = 9,
                      st_source_price = (if token_ui \<noteq> 0 then quote_ui / token_ui else 0),
                      st_source_value_usd = 0, st_source_confirmed_at = confirmed_at,
                      st_detected_at = confirmed_at, st_sold_fraction = None\<rparr>)"

section \<open>Is this address a wallet?\<close>

datatype address_kind = KIND_WALLET | KIND_TOKEN | KIND_PROGRAM | KIND_UNCHECKED

record verdict =
  vd_wallet :: string
  vd_ok :: bool
  vd_kind :: address_kind

record account_info =
  ai_owner :: string
  ai_executable :: bool

definition SYSTEM_PROGRAM :: string where
  "SYSTEM_PROGRAM = ''11111111111111111111111111111111''"

definition TOKEN_PROGRAMS :: "string list" where
  "TOKEN_PROGRAMS = [''TokenkegQfeZyiNwAJbNbGKPFXCWuBvf9Ss623VQ5DA'',
     ''TokenzQdBNbLqP5VEhdkAS6EPFLC1PHnBqCXEpPxuEb'']"

definition LAUNCHPAD_SUFFIXES :: "string list" where
  "LAUNCHPAD_SUFFIXES = [''pump'', ''bonk'', ''moon'', ''fun'', ''boop'', ''daos'']"

definition looks_like_launchpad_token :: "string \<Rightarrow> string option" where
  "looks_like_launchpad_token address = find (\<lambda>s. suffix s address) LAUNCHPAD_SUFFIXES"

text \<open>What the RPC answered: a failure, an account that does not exist, or an account.\<close>

definition verify :: "(string \<Rightarrow> py_error + account_info option) \<Rightarrow> string \<Rightarrow> verdict" where
  "verify rpc address =
     (if looks_like_launchpad_token address \<noteq> None
        then \<lparr>vd_wallet = address, vd_ok = False, vd_kind = KIND_TOKEN\<rparr>
      else case rpc address of
        Inl e \<Rightarrow> \<lparr>vd_wallet = address, vd_ok = True, vd_kind = KIND_UNCHECKED\<rparr>
      | Inr None \<Rightarrow> \<lparr>vd_wallet = address, vd_ok = True, vd_kind = KIND_WALLET\<rparr>
      | Inr (Some a) \<Rightarrow>
          if ai_executable a
            then \<lparr>vd_wallet = address, vd_ok = False, vd_kind = KIND_PROGRAM\<rparr>
          else if ai_owner a \<in> set TOKEN_PROGRAMS
            then \<lparr>vd_wallet = address, vd_ok = False, vd_kind = KIND_TOKEN\<rparr>
          else if ai_owner a \<noteq> SYSTEM_PROGRAM
            then \<lparr>vd_wallet = address, vd_ok = False, vd_kind = KIND_PROGRAM\<rparr>
          else \<lparr>vd_wallet = address, vd_ok = True, vd_kind = KIND_WALLET\<rparr>)"

definition verify_many ::
    "(string \<Rightarrow> py_error + account_info option) \<Rightarrow> string list \<Rightarrow> verdict pydict" where
  "verify_many rpc addresses =
     foldl (\<lambda>d a. AList.update a (verify rpc a) d) [] addresses"

section \<open>Facts\<close>

lemma verify_ok_iff:
  "vd_ok (verify rpc a) \<longleftrightarrow> looks_like_launchpad_token a = None \<and>
     (case rpc a of Inl e \<Rightarrow> True | Inr None \<Rightarrow> True
      | Inr (Some i) \<Rightarrow> \<not> ai_executable i \<and> ai_owner i = SYSTEM_PROGRAM)"
  by (auto simp: verify_def TOKEN_PROGRAMS_def SYSTEM_PROGRAM_def split: sum.splits option.splits)

lemma verify_many_get: "a \<in> set xs \<Longrightarrow> map_of (verify_many rpc xs) a = Some (verify rpc a)"
proof -
  have "map_of (foldl (\<lambda>d a. AList.update a (verify rpc a) d) d xs) a =
      (if a \<in> set xs then Some (verify rpc a) else map_of d a)" for d
    by (induction xs arbitrary: d) (auto simp: update_conv')
  then show "a \<in> set xs \<Longrightarrow> ?thesis" by (simp add: verify_many_def)
qed

lemma owner_token_deltas_nonzero: "(m, d, dec) \<in> set (owner_token_deltas ord tx w) \<Longrightarrow> d \<noteq> 0"
  by (auto simp: owner_token_deltas_def Let_def)

lemma lamports_to_sol_pos: "0 < d \<Longrightarrow> 0 < lamports_to_sol d"
  by (simp add: lamports_to_sol_def LAMPORTS_PER_SOL_def)

lemma quote_side_ui:
  "\<forall>(m, d, dec) \<in> set stables. d \<noteq> 0 \<Longrightarrow>
     (ql_delta (quote_side stables sol price) = 0 \<longrightarrow> ql_ui (quote_side stables sol price) = 0) \<and>
     (ql_delta (quote_side stables sol price) \<noteq> 0 \<longrightarrow> 0 < ql_ui (quote_side stables sol price))"
  by (auto simp: quote_side_def raw_to_ui_pos lamports_to_sol_pos split: option.splits
      dest!: max_key_Some)

lemma post_balance_nonneg:
  "\<forall>b \<in> set (tx_post_token_balances tx). 0 \<le> tb_amount b \<Longrightarrow> 0 \<le> post_balance tx w m"
  by (auto simp: post_balance_def intro!: sum_list_nonneg)

lemma classify_cases:
  "classify lp d q = ACT_BUY \<longleftrightarrow> \<not> lp \<and> 0 < d \<and> q < 0"
  "classify lp d q = ACT_SELL \<longleftrightarrow> \<not> lp \<and> d < 0 \<and> 0 < q"
  "classify lp d q \<noteq> ACT_PARTIAL_SELL"
  by (auto simp: classify_def)

text \<open>The legs a parsed trade was read from.\<close>

record parsed_legs =
  pl_delta :: int
  pl_decimals :: nat
  pl_quote :: quote_leg

definition legs_ok :: "transaction \<Rightarrow> string \<Rightarrow> source_trade \<Rightarrow> parsed_legs \<Rightarrow> bool" where
  "legs_ok tx wallet t l \<longleftrightarrow>
     (let d = pl_delta l; q = pl_quote l; rest = post_balance tx wallet (st_token_mint t)
      in \<not> tx_err tx \<and> st_signature t \<noteq> [] \<and> d \<noteq> 0 \<and>
         (ql_delta q = 0 \<longrightarrow> ql_ui q = 0) \<and> (ql_delta q \<noteq> 0 \<longrightarrow> 0 < ql_ui q) \<and>
         st_token_mint t \<notin> set QUOTE_MINTS \<and>
         st_token_amount_raw t = \<bar>d\<bar> \<and> st_quote_amount_raw t = \<bar>ql_delta q\<bar> \<and>
         st_source_price t = ql_ui q / raw_to_ui \<bar>d\<bar> (pl_decimals l) \<and>
         st_source_value_usd t = ql_usd q \<and>
         st_action t = (let a = classify (is_lp_interaction tx) d (ql_delta q)
           in if a = ACT_SELL \<and> 0 < rest then ACT_PARTIAL_SELL else a) \<and>
         (is_copyable (st_action t) \<longrightarrow> DUST_USD \<le> ql_usd q) \<and>
         st_sold_fraction t = (if st_action t = ACT_SELL \<or> st_action t = ACT_PARTIAL_SELL
           then Some (of_int \<bar>d\<bar> / of_int (\<bar>d\<bar> + rest)) else None))"

lemma finish_trade_legs:
  assumes "finish_trade (blank_trade tid w sig slot ct det) (is_lp_interaction tx)
      (post_balance tx w m) (m, d, dec) q = Some t"
    and "\<not> tx_err tx" "sig \<noteq> []" "d \<noteq> 0" "m \<notin> set QUOTE_MINTS"
    and "ql_delta q = 0 \<longrightarrow> ql_ui q = 0" "ql_delta q \<noteq> 0 \<longrightarrow> 0 < ql_ui q"
  shows "legs_ok tx w t \<lparr>pl_delta = d, pl_decimals = dec, pl_quote = q\<rparr> \<and> st_token_mint t = m"
proof -
  have pos: "raw_to_ui \<bar>d\<bar> dec \<noteq> 0" using raw_to_ui_pos [of "\<bar>d\<bar>" dec] assms(4) by simp
  define rest where "rest = post_balance tx w m"
  define act where "act = (let a = classify (is_lp_interaction tx) d (ql_delta q)
    in if a = ACT_SELL \<and> 0 < rest then ACT_PARTIAL_SELL else a)"
  note defs = rest_def [symmetric] act_def [unfolded Let_def, symmetric]
  have g: "is_copyable act \<longrightarrow> DUST_USD \<le> ql_usd q"
    and t: "t = (blank_trade tid w sig slot ct det)\<lparr>st_action := act, st_token_mint := m,
      st_quote_mint := ql_mint q, st_token_amount_raw := \<bar>d\<bar>, st_quote_amount_raw := \<bar>ql_delta q\<bar>,
      st_token_decimals := dec, st_quote_decimals := ql_decimals q,
      st_source_price := ql_ui q / raw_to_ui \<bar>d\<bar> dec, st_source_value_usd := ql_usd q,
      st_sold_fraction := (if act = ACT_SELL \<or> act = ACT_PARTIAL_SELL
        then Some (of_int \<bar>d\<bar> / of_int (\<bar>d\<bar> + rest)) else None)\<rparr>"
    using assms(1) pos unfolding finish_trade_def Let_def prod.case defs
    by (auto simp: not_less split: if_split_asm)
  have fields: "st_token_mint t = m" "st_action t = act" "st_signature t = sig"
    "st_token_amount_raw t = \<bar>d\<bar>" "st_quote_amount_raw t = \<bar>ql_delta q\<bar>"
    "st_source_price t = ql_ui q / raw_to_ui \<bar>d\<bar> dec" "st_source_value_usd t = ql_usd q"
    "st_sold_fraction t = (if act = ACT_SELL \<or> act = ACT_PARTIAL_SELL
        then Some (of_int \<bar>d\<bar> / of_int (\<bar>d\<bar> + rest)) else None)"
    by (simp_all only: t) (simp_all add: blank_trade_def)
  show ?thesis
    unfolding legs_ok_def Let_def fields parsed_legs.simps rest_def [symmetric]
    by (intro conjI assms(2-7) g refl) (simp add: act_def Let_def)
qed

lemma parse_transaction_legs:
  assumes "parse_transaction ord tid now tx wallet signature price det = Some t"
  shows "\<exists>l. legs_ok tx wallet t l \<and>
    (st_token_mint t, pl_delta l, pl_decimals l) \<in> set (owner_token_deltas ord tx wallet)"
proof -
  define tds where "tds = owner_token_deltas ord tx wallet"
  define deltas where "deltas = filter (\<lambda>(m, v). m \<noteq> SOL_MINT) tds"
  define others where "others = filter (\<lambda>(m, v). m \<notin> set QUOTE_MINTS) deltas"
  define sol where "sol = native_sol_delta tx wallet +
    (case map_of tds SOL_MINT of None \<Rightarrow> 0 | Some (d, _) \<Rightarrow> d)"
  define q where "q = quote_side (filter (\<lambda>(m, v). m \<in> set QUOTE_MINTS) deltas) sol price"
  note defs = tds_def [symmetric] deltas_def [symmetric] others_def [symmetric] sol_def [symmetric]
    q_def [symmetric]
  have nz: "d \<noteq> 0" if "(m, d, dec) \<in> set tds" for m d dec
    using that owner_token_deltas_nonzero by (simp add: tds_def)
  have ui: "ql_delta q = 0 \<longrightarrow> ql_ui q = 0" "ql_delta q \<noteq> 0 \<longrightarrow> 0 < ql_ui q"
    using quote_side_ui [of "filter (\<lambda>(m, v). m \<in> set QUOTE_MINTS) deltas" sol price] nz
    by (auto simp: q_def deltas_def)
  define sig where "sig = (case signature of
      Some s \<Rightarrow> if s = [] then concat (take 1 (tx_signatures tx)) else s
    | None \<Rightarrow> concat (take 1 (tx_signatures tx)))"
  define ct where "ct = (if tx_block_time tx \<noteq> 0 then tx_block_time tx * 1000000 else now)"
  define det' where "det' = (case det of None \<Rightarrow> now | Some t \<Rightarrow> t)"
  note defs = defs sig_def [symmetric] ct_def [symmetric] det'_def [symmetric]
  obtain token where mk: "max_key (\<lambda>(m, d, dec). \<bar>d\<bar>) others = Some token"
    and sig: "sig \<noteq> []" "\<not> tx_err tx"
    and fin: "finish_trade (blank_trade tid wallet sig (tx_slot tx) ct det') (is_lp_interaction tx)
      (post_balance tx wallet (fst token)) token q = Some t"
    using assms unfolding parse_transaction_def Let_def defs
    by (cases "max_key (\<lambda>(m, d, dec). \<bar>d\<bar>) others") (simp_all split: if_split_asm)
  obtain mint d dec where token: "token = (mint, d, dec)" by (cases token)
  have "token \<in> set others" using max_key_Some [OF mk] by blast
  then have d: "d \<noteq> 0" "(mint, d, dec) \<in> set tds" "mint \<notin> set QUOTE_MINTS"
    by (auto simp: others_def deltas_def token dest: nz)
  from finish_trade_legs [OF fin [unfolded token fst_conv] sig(2,1) d(1,3) ui] d(2) show ?thesis
    by (intro exI) (auto simp: tds_def)
qed

text \<open>
  What the parser reports as a trade is one.  The transaction succeeded, the token is not
  a quote currency and moved; a copyable action (buy, sell, partial sell) moved token and quote
  in opposite directions, is worth at least the dust threshold and has a positive price.
  Tokens that were received, transferred or put into a pool are never copyable.
\<close>

theorem parsed_trade_sound:
  assumes "parse_transaction ord tid now tx wallet signature price det = Some t"
  shows "\<not> tx_err tx \<and> st_signature t \<noteq> [] \<and> st_token_mint t \<notin> set QUOTE_MINTS \<and>
    0 < st_token_amount_raw t \<and> 0 \<le> st_source_price t \<and>
    (is_copyable (st_action t) \<longrightarrow>
       \<not> is_lp_interaction tx \<and> DUST_USD \<le> st_source_value_usd t \<and> 0 < st_quote_amount_raw t \<and>
       0 < st_source_price t \<and>
       (\<exists>d q dec. (st_token_mint t, d, dec) \<in> set (owner_token_deltas ord tx wallet) \<and>
          st_token_amount_raw t = \<bar>d\<bar> \<and> st_quote_amount_raw t = \<bar>q\<bar> \<and>
          (if st_action t = ACT_BUY then 0 < d \<and> q < 0 else d < 0 \<and> 0 < q)))"
proof -
  obtain l where l: "legs_ok tx wallet t l"
    and m: "(st_token_mint t, pl_delta l, pl_decimals l) \<in> set (owner_token_deltas ord tx wallet)"
    using parse_transaction_legs [OF assms] by blast
  note ok = l [unfolded legs_ok_def Let_def]
  have ui: "0 < raw_to_ui \<bar>pl_delta l\<bar> (pl_decimals l)" using ok by (simp add: raw_to_ui_pos)
  define p where "p = pl_quote l"
  have price: "0 \<le> st_source_price t" "ql_delta p \<noteq> 0 \<Longrightarrow> 0 < st_source_price t"
    using ok ui by (cases "ql_delta p = 0"; simp add: p_def zero_less_divide_iff)+
  have copy: "\<not> is_lp_interaction tx \<and> ql_delta p \<noteq> 0 \<and>
      (if st_action t = ACT_BUY then 0 < pl_delta l \<and> ql_delta p < 0
       else pl_delta l < 0 \<and> 0 < ql_delta p) \<and> DUST_USD \<le> st_source_value_usd t"
    if "is_copyable (st_action t)"
  proof -
    have "st_action t = (let a = classify (is_lp_interaction tx) (pl_delta l) (ql_delta p)
        in if a = ACT_SELL \<and> 0 < post_balance tx wallet (st_token_mint t) then ACT_PARTIAL_SELL else a)"
      using ok unfolding p_def Let_def by blast
    moreover have "DUST_USD \<le> st_source_value_usd t" using ok that by simp
    ultimately show ?thesis
      using that by (auto simp: is_copyable_def classify_def Let_def split: if_splits)
  qed
  have amounts: "st_token_amount_raw t = \<bar>pl_delta l\<bar>" "st_quote_amount_raw t = \<bar>ql_delta p\<bar>"
    "0 < st_token_amount_raw t" "\<not> tx_err tx" "st_signature t \<noteq> []"
    "st_token_mint t \<notin> set QUOTE_MINTS"
    using ok by (simp_all add: p_def)
  show ?thesis
  proof (intro conjI impI)
    assume c: "is_copyable (st_action t)"
    note cc = copy [OF c]
    show "\<not> is_lp_interaction tx" "DUST_USD \<le> st_source_value_usd t" using cc by blast+
    show "0 < st_quote_amount_raw t" "0 < st_source_price t" using cc price(2) amounts(2) by simp_all
    show "\<exists>d q dec. (st_token_mint t, d, dec) \<in> set (owner_token_deltas ord tx wallet) \<and>
        st_token_amount_raw t = \<bar>d\<bar> \<and> st_quote_amount_raw t = \<bar>q\<bar> \<and>
        (if st_action t = ACT_BUY then 0 < d \<and> q < 0 else d < 0 \<and> 0 < q)"
      using m amounts(1,2) cc by blast
  qed (use amounts price in blast)+
qed

definition sample_tx :: transaction where
  "sample_tx = \<lparr>tx_err = False, tx_signatures = [''sig''], tx_block_time = 100, tx_slot = 7,
     tx_fee = 5000, tx_account_keys = [''alice'', ''pool''],
     tx_pre_balances = [2000005000, 0], tx_post_balances = [1000000000, 0],
     tx_pre_token_balances = [],
     tx_post_token_balances = [\<lparr>tb_account_index = 2, tb_mint = ''MINT'', tb_owner = Some ''alice'',
       tb_amount = 1000000, tb_decimals = 6\<rparr>],
     tx_log_messages = [''Program log: swap'']\<rparr>"

lemma parsed_trade_sound_witness:
  "\<exists>t. parse_transaction id 1 0 sample_tx ''alice'' None 150 None = Some t \<and> st_action t = ACT_BUY \<and>
     0 < st_source_price t"
proof -
  have a: "map_option st_action (parse_transaction id 1 0 sample_tx ''alice'' None 150 None) = Some ACT_BUY"
    by code_simp
  then obtain t where e: "parse_transaction id 1 0 sample_tx ''alice'' None 150 None = Some t" by auto
  then have "is_copyable (st_action t)" using a by (simp add: is_copyable_def)
  with parsed_trade_sound [OF e] e a show ?thesis by auto
qed

text \<open>
  The fraction of his holding a source sold is in the unit interval, and it is all of it
  exactly when the parser calls the sale a full exit: what mirrors the sale never sells more
  than everything.
\<close>

theorem sold_fraction_range:
  assumes "parse_transaction ord tid now tx wallet signature price det = Some t"
    and "\<forall>b \<in> set (tx_post_token_balances tx). 0 \<le> tb_amount b"
  shows "(st_sold_fraction t \<noteq> None) = (st_action t \<in> {ACT_SELL, ACT_PARTIAL_SELL}) \<and>
    (\<forall>f. st_sold_fraction t = Some f \<longrightarrow>
       0 < f \<and> f \<le> 1 \<and> (f = 1 \<longleftrightarrow> st_action t = ACT_SELL))"
proof -
  obtain l where l: "legs_ok tx wallet t l" using parse_transaction_legs [OF assms(1)] by blast
  define a where "a = classify (is_lp_interaction tx) (pl_delta l) (ql_delta (pl_quote l))"
  define rest where "rest = post_balance tx wallet (st_token_mint t)"
  have r: "0 \<le> rest" using post_balance_nonneg [OF assms(2)] by (simp add: rest_def)
  have d: "pl_delta l \<noteq> 0"
    and act: "st_action t = (if a = ACT_SELL \<and> 0 < rest then ACT_PARTIAL_SELL else a)"
    and fr: "st_sold_fraction t = (if st_action t = ACT_SELL \<or> st_action t = ACT_PARTIAL_SELL
       then Some (of_int \<bar>pl_delta l\<bar> / of_int (\<bar>pl_delta l\<bar> + rest)) else None)"
    using l by (simp_all add: legs_ok_def Let_def a_def rest_def)
  have part: "a \<noteq> ACT_PARTIAL_SELL" by (simp add: a_def classify_cases)
  define x y :: rat where "x = of_int \<bar>pl_delta l\<bar>" and "y = of_int (\<bar>pl_delta l\<bar> + rest)"
  have "0 < \<bar>pl_delta l\<bar>" "\<bar>pl_delta l\<bar> \<le> \<bar>pl_delta l\<bar> + rest" "\<bar>pl_delta l\<bar> = \<bar>pl_delta l\<bar> + rest \<longleftrightarrow> rest = 0"
    using d r by simp_all
  then have "0 < x" "x \<le> y" "x = y \<longleftrightarrow> rest = 0"
    unfolding x_def y_def of_int_0_less_iff of_int_le_iff of_int_eq_iff by blast+
  then have "0 < x / y" "x / y \<le> 1" "x / y = 1 \<longleftrightarrow> rest = 0" by (auto simp: divide_le_eq_1)
  moreover note fr [folded x_def y_def]
  ultimately show ?thesis using act part r by auto
qed

definition sample_sale :: transaction where
  "sample_sale = sample_tx\<lparr>tx_pre_balances := [1000005000, 0], tx_post_balances := [2000000000, 0],
     tx_pre_token_balances := [\<lparr>tb_account_index = 2, tb_mint = ''MINT'', tb_owner = Some ''alice'',
       tb_amount = 4000000, tb_decimals = 6\<rparr>]\<rparr>"

lemma sold_fraction_range_witness:
  "\<exists>t. parse_transaction id 1 0 sample_sale ''alice'' None 150 None = Some t \<and>
     st_sold_fraction t = Some (3/4) \<and> (3/4 :: rat) \<noteq> 1 \<and> st_action t \<noteq> ACT_SELL"
proof -
  have f: "map_option st_sold_fraction (parse_transaction id 1 0 sample_sale ''alice'' None 150 None)
      = Some (Some (3/4))" by code_simp
  then obtain t where e: "parse_transaction id 1 0 sample_sale ''alice'' None 150 None = Some t"
    by auto
  have n: "\<forall>b \<in> set (tx_post_token_balances sample_sale). 0 \<le> tb_amount b"
    by (simp add: sample_sale_def sample_tx_def)
  have s: "st_sold_fraction t = Some (3/4)" using f unfolding e option.map(2) option.inject .
  from sold_fraction_range [OF e n] s have "(3/4 :: rat) = 1 \<longleftrightarrow> st_action t = ACT_SELL" by blast
  then have "st_action t \<noteq> ACT_SELL" by simp
  with e s show ?thesis by simp
qed

end
