(* ===== verification/Scoring.thy ===== *)
theory Scoring
  imports Config
begin

text \<open>
  \<^verbatim>\<open>engine/scoring.py\<close>: the component scores of a trader, their composite and
  confidence, the learned latency tolerance, and the automatic promotion and degradation.

  The statistics functions run on floats that come from Decimals and are turned back through
  \<^verbatim>\<open>str\<close>; they are taken as exact, except the square root of the population deviation,
  which is the correctly rounded binary64 root (\<open>fl_sqrt\<close>).  \<open>now\<close> is the wall clock.
\<close>

section \<open>The square root of \<^verbatim>\<open>statistics.pstdev\<close>\<close>

fun isqrt :: "nat \<Rightarrow> nat" where
  "isqrt n =
     (if n = 0 then 0
      else let r = 2 * isqrt (n div 4) in if (r + 1)\<^sup>2 \<le> n then r + 1 else r)"

declare isqrt.simps [simp del]

lemma isqrt_bounds: "(isqrt n)\<^sup>2 \<le> n \<and> n < (isqrt n + 1)\<^sup>2"
proof (induction n rule: isqrt.induct)
  case (1 n)
  show ?case
  proof (cases "n = 0")
    case False
    let ?q = "isqrt (n div 4)"
    have ih: "?q\<^sup>2 \<le> n div 4" "n div 4 < (?q + 1)\<^sup>2" using "1.IH" False by auto
    have "(2 * ?q)\<^sup>2 \<le> n" using ih(1) by (simp add: power_mult_distrib)
    moreover have "n < (2 * ?q + 2)\<^sup>2"
    proof -
      have "n < 4 * (?q + 1)\<^sup>2" using ih(2) by linarith
      then show ?thesis by (simp add: power2_eq_square algebra_simps)
    qed
    ultimately show ?thesis using False by (subst (1 2) isqrt.simps) (auto simp: Let_def)
  qed (simp add: isqrt.simps)
qed

definition fl_sqrt :: "rat \<Rightarrow> rat" where
  "fl_sqrt x =
     (if x \<le> 0 then 0
      else let u = (2::rat) powi (bin_exponent x div 2 - 52);
               y = x / u\<^sup>2;
               s = isqrt (nat \<lfloor>y\<rfloor>)
           in (if (of_nat s + 1/2)\<^sup>2 < y then of_nat s + 1 else of_nat s) * u)"

definition mean :: "rat list \<Rightarrow> rat" where
  "mean xs = sum_list xs / of_nat (length xs)"

definition pstdev :: "rat list \<Rightarrow> rat" where
  "pstdev xs = fl_sqrt (mean (map (\<lambda>x. (x - mean xs)\<^sup>2) xs))"

section \<open>Outcomes\<close>

record trade_outcome =
  to_opened_at :: datetime
  to_closed_at :: "datetime option"
  to_source_return_pct :: pct
  to_copyable_return_pct :: "pct option"
  to_realized_return_pct :: "pct option"
  to_size_usd :: usd
  to_liquidity_usd :: usd
  to_detection_latency_ms :: "int option"

definition hold_seconds :: "trade_outcome \<Rightarrow> int" where
  "hold_seconds o' =
     (case to_closed_at o' of None \<Rightarrow> 0 | Some c \<Rightarrow> elapsed_seconds (to_opened_at o') c)"

record trader_stats =
  ts_wallet :: string
  ts_outcomes :: "trade_outcome list"
  ts_first_trade_at :: "datetime option"
  ts_last_trade_at :: "datetime option"

definition pctl :: "rat list \<Rightarrow> rat \<Rightarrow> rat" where
  "pctl values p =
     (if values = [] then 0
      else let s = sort values;
               idx = min (int (length s) - 1) (max 0 (trunc_int (of_nat (length s) * p)))
           in s ! nat idx)"

definition is_closed :: "trade_outcome \<Rightarrow> bool" where
  "is_closed o' \<longleftrightarrow> to_closed_at o' \<noteq> None"

definition closed_returns :: "trader_stats \<Rightarrow> pct list" where
  "closed_returns stats = map to_source_return_pct (filter is_closed (ts_outcomes stats))"

definition share_of :: "('a \<Rightarrow> bool) \<Rightarrow> 'a list \<Rightarrow> rat" where
  "share_of P xs = of_nat (length (filter P xs)) / of_nat (length xs)"

definition performance_score :: "trader_stats \<Rightarrow> rat" where
  "performance_score stats =
     (case median (closed_returns stats) of
        None \<Rightarrow> 0 | Some m \<Rightarrow> clamp (40 + m * 1) 0 100)"

definition consistency_score :: "trader_stats \<Rightarrow> rat" where
  "consistency_score stats =
     (let rets = closed_returns stats; wins = filter (\<lambda>r. 0 < r) rets
      in if length rets < 5 then 30
         else let total_win = sum_list wins;
                  top_share = safe_div (if wins = [] then 0 else Max (set wins)) total_win 0;
                  win_rate = share_of (\<lambda>r. 0 < r) rets;
                  concentration_penalty = clamp (top_share * 120) 0 60
              in clamp (win_rate * 100 - concentration_penalty + 20) 0 100)"

definition days_between :: "datetime \<Rightarrow> datetime \<Rightarrow> int" where
  "days_between a b = (b - a) div 86400000000"

definition longevity_score :: "datetime \<Rightarrow> trader_stats \<Rightarrow> rat" where
  "longevity_score now stats =
     (case ts_first_trade_at stats of
        None \<Rightarrow> 0
      | Some first \<Rightarrow>
          let day_score = clamp (of_int (days_between first now) / 90 * 100) 0 100;
              count_score = clamp (of_nat (length (ts_outcomes stats)) / 100 * 100) 0 100
          in (day_score + count_score) / 2)"

definition risk_adjusted_score :: "trader_stats \<Rightarrow> rat" where
  "risk_adjusted_score stats =
     (let rets = closed_returns stats; downside = filter (\<lambda>r. r < 0) rets
      in if length rets < 5 then 30
         else if downside = [] then 85
         else let dev0 = pstdev downside; dev = (if dev0 = 0 then 1 else dev0);
                  ratio = mean rets / dev
              in clamp (50 + ratio * 25) 0 100)"

definition copy_pairs :: "trader_stats \<Rightarrow> (pct \<times> pct) list" where
  "copy_pairs stats =
     concat (map (\<lambda>o'. case to_copyable_return_pct o' of
                    None \<Rightarrow> [] | Some c \<Rightarrow> [(to_source_return_pct o', c)])
       (filter is_closed (ts_outcomes stats)))"

definition copyability_score :: "trader_stats \<Rightarrow> rat" where
  "copyability_score stats =
     (let pairs = copy_pairs stats;
          ratios = map (\<lambda>(src, copy). safe_div copy src 0) (filter (\<lambda>(src, copy). 0 < src) pairs)
      in if length pairs < 5 then 35
         else case median ratios of
           None \<Rightarrow> 20
         | Some retention \<Rightarrow>
             let profitable = share_of (\<lambda>(src, copy). 0 < copy) pairs;
                 retention_score = clamp (retention * 90) 0 100
             in clamp (retention_score * (7/10) + profitable * 100 * (3/10)) 0 100)"

definition live_replication_score :: "trader_stats \<Rightarrow> rat option" where
  "live_replication_score stats =
     (let realized = concat (map (\<lambda>o'. case to_realized_return_pct o' of
                                    None \<Rightarrow> [] | Some r \<Rightarrow> [r]) (ts_outcomes stats))
      in if length realized < 5 then None
         else case median realized of
           None \<Rightarrow> None
         | Some m \<Rightarrow> Some (clamp (45 + m + share_of (\<lambda>r. 0 < r) realized * 20) 0 100))"

definition confidence_score :: "datetime \<Rightarrow> trader_stats \<Rightarrow> rat" where
  "confidence_score now stats =
     (let n = length (ts_outcomes stats)
      in if n = 0 then 0
         else let evidence = clamp (of_nat n / 50) 0 1;
                  recency = (case ts_last_trade_at stats of
                               None \<Rightarrow> 100
                             | Some l \<Rightarrow> clamp (100 - of_int (days_between l now) * 7) 0 100);
                  closed = length (filter is_closed (ts_outcomes stats));
                  completeness = clamp (of_nat closed / of_nat (max n 1) * 100) 0 100;
                  quality = recency * (6/10) + completeness * (4/10)
              in quantize 2 (evidence * quality))"

definition raw_composite :: "rat option \<Rightarrow> rat \<Rightarrow> rat \<Rightarrow> rat \<Rightarrow> rat \<Rightarrow> rat \<Rightarrow> rat" where
  "raw_composite live copy rsk cons perf longev =
     (case live of
        Some l \<Rightarrow> l * (45/100) + copy * (25/100) + rsk * (12/100) + cons * (10/100)
                  + perf * (5/100) + longev * (3/100)
      | None \<Rightarrow> copy * (35/100) + rsk * (20/100) + cons * (20/100) + perf * (15/100)
                  + longev * (10/100))"

definition compute_scores :: "datetime \<Rightarrow> trader_stats \<Rightarrow> trader_scores" where
  "compute_scores now stats =
     (let perf = performance_score stats; cons = consistency_score stats;
          longev = longevity_score now stats; rsk = risk_adjusted_score stats;
          copy = copyability_score stats; live = live_replication_score stats;
          conf = confidence_score now stats;
          composite = raw_composite live copy rsk cons perf longev * (1/2 + conf / 100 * (1/2))
      in \<lparr>sc_performance = quantize 2 perf, sc_consistency = quantize 2 cons,
          sc_longevity = quantize 2 longev, sc_risk_adjusted = quantize 2 rsk,
          sc_copyability = quantize 2 copy, sc_live_replication = map_option (quantize 2) live,
          sc_composite = quantize 2 composite, sc_confidence = conf,
          sc_sample_size = int (length (ts_outcomes stats))\<rparr>)"

text \<open>\<^verbatim>\<open>range(0, stop, step)\<close> with a positive step.\<close>

definition range_step :: "nat \<Rightarrow> nat \<Rightarrow> nat list" where
  "range_step stop step = filter (\<lambda>i. i mod step = 0) [0 ..< stop]"

definition latency_samples :: "trader_stats \<Rightarrow> (int \<times> pct) list" where
  "latency_samples stats =
     concat (map (\<lambda>o'. case (to_detection_latency_ms o', to_copyable_return_pct o') of
                    (Some l, Some c) \<Rightarrow> [(l, c)] | _ \<Rightarrow> []) (ts_outcomes stats))"

definition latency_tolerance_ms :: "trader_stats \<Rightarrow> int option" where
  "latency_tolerance_ms stats =
     (let samples0 = latency_samples stats
      in if length samples0 < 20 then None
         else let samples = sort_key fst samples0;
                  window = max 5 (length samples div 5);
                  chunks = map (\<lambda>i. take window (drop i samples))
                    (range_step (length samples - window) (max 1 (window div 2)))
              in case find (\<lambda>c. case median (map snd c) of None \<Rightarrow> False | Some m \<Rightarrow> m \<le> 0) chunks of
                   Some chunk \<Rightarrow> Some (fst (hd chunk))
                 | None \<Rightarrow> Some (fst (last samples)))"

definition median_hold_seconds :: "trader_stats \<Rightarrow> int option" where
  "median_hold_seconds stats =
     map_option trunc_int (median (map (\<lambda>o'. of_int (hold_seconds o'))
       (filter (\<lambda>o'. is_closed o' \<and> 0 < hold_seconds o') (ts_outcomes stats))))"

section \<open>The lifecycle\<close>

definition next_status :: "trader_status \<Rightarrow> trader_scores \<Rightarrow> int \<Rightarrow> trader_status" where
  "next_status current s live_trades =
     (if current = TS_BLACKLISTED \<or> current = TS_SUSPENDED then current
      else if 70 \<le> sc_composite s \<and> 60 \<le> sc_confidence s then
        (if current = TS_DISCOVERED \<or> current = TS_ANALYZING \<or> current = TS_CANDIDATE
           then TS_PROBATION
         else if current = TS_PROBATION \<and> 20 \<le> live_trades then TS_ACTIVE
         else if current = TS_DEGRADED \<and> 75 \<le> sc_composite s then TS_PROBATION
         else if current = TS_ACTIVE then current else TS_PROBATION)
      else if sc_composite s < 45 \<and> is_followed current then TS_DEGRADED
      else if sc_composite s < 30 then TS_SUSPENDED
      else if current = TS_DISCOVERED \<and> 0 < sc_sample_size s then TS_CANDIDATE
      else current)"

section \<open>Bounds\<close>

definition pct_ok :: "rat \<Rightarrow> bool" where
  "pct_ok x \<longleftrightarrow> 0 \<le> x \<and> x \<le> 100"

named_theorems pct_intros "scores in the unit range"

lemma clamp_pct_ok [pct_intros]: "pct_ok (clamp v 0 100)"
  by (simp add: pct_ok_def clamp_lower clamp_upper)

lemma numeral_pct_ok: "pct_ok 0" "pct_ok 20" "pct_ok 30" "pct_ok 35" "pct_ok 85" "pct_ok 100"
  by (simp_all add: pct_ok_def)

lemma performance_pct_ok [pct_intros]: "pct_ok (performance_score s)"
  by (auto simp: performance_score_def numeral_pct_ok intro: pct_intros split: option.split)

lemma consistency_pct_ok [pct_intros]: "pct_ok (consistency_score s)"
  by (auto simp: consistency_score_def Let_def numeral_pct_ok intro: pct_intros)

lemma longevity_pct_ok [pct_intros]: "pct_ok (longevity_score now s)"
proof -
  have "pct_ok ((a + b) / 2)" if "pct_ok a" "pct_ok b" for a b
    using that by (simp add: pct_ok_def)
  then show ?thesis
    unfolding longevity_score_def Let_def
    by (auto simp: numeral_pct_ok intro: pct_intros split: option.split)
qed

lemma risk_adjusted_pct_ok [pct_intros]: "pct_ok (risk_adjusted_score s)"
  by (auto simp: risk_adjusted_score_def Let_def numeral_pct_ok intro: pct_intros)

lemma copyability_pct_ok [pct_intros]: "pct_ok (copyability_score s)"
  by (auto simp: copyability_score_def Let_def numeral_pct_ok intro: pct_intros split: option.split)

lemma live_replication_pct_ok: "live_replication_score s = Some l \<Longrightarrow> pct_ok l"
  by (auto simp: live_replication_score_def Let_def intro: pct_intros
      split: option.splits if_splits)

lemma quantize_pct_ok [pct_intros]: "pct_ok x \<Longrightarrow> pct_ok (quantize n x)"
  using quantize_mono [of 0 x n] quantize_mono [of x 100 n] by (simp add: pct_ok_def)

lemma mult_unit_le: "0 \<le> e \<Longrightarrow> e \<le> 1 \<Longrightarrow> pct_ok q \<Longrightarrow> 0 \<le> e * q \<and> e * q \<le> e * 100"
  by (auto simp: pct_ok_def intro: mult_nonneg_nonneg mult_left_mono)

lemma confidence_bounds:
  "pct_ok (confidence_score now s) \<and>
   confidence_score now s \<le> 2 * of_nat (length (ts_outcomes s)) + 5/1000"
proof (cases "ts_outcomes s = []")
  case False
  define n where "n = length (ts_outcomes s)"
  define e :: rat where "e = clamp (of_nat n / 50) 0 1"
  define r where "r = (case ts_last_trade_at s of None \<Rightarrow> 100
    | Some l \<Rightarrow> clamp (100 - of_int (days_between l now) * 7) 0 100)"
  define c :: rat where "c = clamp (of_nat (length (filter is_closed (ts_outcomes s))) / of_nat (max n 1) * 100) 0 100"
  define q where "q = r * (6/10) + c * (4/10)"
  have conf: "confidence_score now s = quantize 2 (e * q)"
    using False by (simp add: confidence_score_def Let_def e_def r_def c_def q_def n_def)
  have "pct_ok r" "pct_ok c"
    by (auto simp: r_def c_def numeral_pct_ok intro: pct_intros split: option.split)
  then have q: "pct_ok q" by (simp add: q_def pct_ok_def)
  have e: "0 \<le> e" "e \<le> 1" "e \<le> of_nat n / 50"
    by (simp_all add: e_def clamp_def)
  note eq = mult_unit_le [OF e(1,2) q]
  have "pct_ok (e * q)" using eq e(2) by (simp add: pct_ok_def)
  moreover have "e * q \<le> 2 * of_nat n" using eq e(3) by linarith
  moreover have "\<bar>quantize 2 (e * q) - e * q\<bar> \<le> 5/1000" using quantize_near [of 2 "e * q"] by simp
  ultimately show ?thesis
    unfolding conf n_def [symmetric] abs_le_iff by (auto intro: pct_intros)
qed (simp add: confidence_score_def pct_ok_def)

lemma raw_composite_pct_ok:
  assumes "\<And>l. live = Some l \<Longrightarrow> pct_ok l"
    "pct_ok a" "pct_ok b" "pct_ok c" "pct_ok d" "pct_ok e"
  shows "pct_ok (raw_composite live a b c d e)"
  using assms by (cases live) (auto simp: raw_composite_def pct_ok_def)

text \<open>
  Every score of every history is between 0 and 100, the composite included, and the
  confidence is capped by the evidence: each recorded trade buys at most two points, so no
  recency makes up for a small sample.
\<close>

theorem scores_bounded:
  "let s = compute_scores now stats
   in sc_performance s \<in> {0..100} \<and> sc_consistency s \<in> {0..100} \<and> sc_longevity s \<in> {0..100} \<and>
      sc_risk_adjusted s \<in> {0..100} \<and> sc_copyability s \<in> {0..100} \<and>
      sc_composite s \<in> {0..100} \<and> sc_confidence s \<in> {0..100} \<and>
      sc_confidence s \<le> 2 * of_int (sc_sample_size s) + 5/1000"
proof -
  let ?conf = "confidence_score now stats"
  let ?raw = "raw_composite (live_replication_score stats) (copyability_score stats)
    (risk_adjusted_score stats) (consistency_score stats) (performance_score stats)
    (longevity_score now stats)"
  have raw: "pct_ok ?raw"
    by (rule raw_composite_pct_ok) (auto intro: pct_intros live_replication_pct_ok)
  have w: "0 \<le> 1/2 + ?conf / 100 * (1/2)" "1/2 + ?conf / 100 * (1/2) \<le> 1"
    using confidence_bounds [of now stats] by (simp_all add: pct_ok_def)
  have "pct_ok (?raw * (1/2 + ?conf / 100 * (1/2)))"
    using mult_unit_le [OF w raw] w by (simp add: pct_ok_def mult.commute)
  then have comp: "pct_ok (sc_composite (compute_scores now stats))"
    by (simp add: compute_scores_def Let_def quantize_pct_ok)
  have rest: "pct_ok (sc_performance (compute_scores now stats))"
    "pct_ok (sc_consistency (compute_scores now stats))"
    "pct_ok (sc_longevity (compute_scores now stats))"
    "pct_ok (sc_risk_adjusted (compute_scores now stats))"
    "pct_ok (sc_copyability (compute_scores now stats))"
    by (simp_all add: compute_scores_def Let_def pct_intros)
  have conf: "sc_confidence (compute_scores now stats) = ?conf"
    "sc_sample_size (compute_scores now stats) = int (length (ts_outcomes stats))"
    by (simp_all add: compute_scores_def Let_def)
  show ?thesis
    using comp rest confidence_bounds [of now stats]
    unfolding Let_def conf pct_ok_def by simp
qed

text \<open>
  Capital is earned: a trader becomes active only out of probation, with twenty live
  trades, a composite of 70 and a confidence of 60, which takes at least thirty recorded trades;
  nobody enters probation from below on less evidence; blacklisted and suspended traders stay
  so; and a degraded trader is back on probation from a composite of 70 on, the
  stricter 75 of the source never deciding anything.
\<close>

theorem promotion_is_earned:
  "let s = compute_scores now stats
   in (next_status current s live = TS_ACTIVE \<longrightarrow> current = TS_ACTIVE \<or>
       current = TS_PROBATION \<and> 20 \<le> live \<and> 70 \<le> sc_composite s \<and> 60 \<le> sc_confidence s \<and>
       30 \<le> length (ts_outcomes stats)) \<and>
    (next_status current s live = TS_PROBATION \<longrightarrow> current = TS_PROBATION \<or>
       30 \<le> length (ts_outcomes stats)) \<and>
    (current \<in> {TS_BLACKLISTED, TS_SUSPENDED} \<longrightarrow> next_status current s live = current) \<and>
    (next_status TS_DEGRADED s live = TS_PROBATION \<longleftrightarrow> 70 \<le> sc_composite s \<and> 60 \<le> sc_confidence s)"
proof -
  define s where "s = compute_scores now stats"
  have conf: "60 \<le> sc_confidence s \<Longrightarrow> 30 \<le> length (ts_outcomes stats)"
  proof -
    assume "60 \<le> sc_confidence s"
    then have "60 \<le> (2 * of_nat (length (ts_outcomes stats)) + 5/1000 :: rat)"
      using confidence_bounds [of now stats] by (simp add: s_def compute_scores_def Let_def)
    then have "(of_nat 29 :: rat) < of_nat (length (ts_outcomes stats))" by simp
    then have "29 < length (ts_outcomes stats)" unfolding of_nat_less_iff .
    then show ?thesis by simp
  qed
  show ?thesis
    unfolding Let_def s_def [symmetric]
    using conf by (cases current) (auto simp: next_status_def is_followed_def)
qed

definition good_outcome :: trade_outcome where
  "good_outcome = \<lparr>to_opened_at = 0, to_closed_at = Some 60000000, to_source_return_pct = 60,
     to_copyable_return_pct = Some 60, to_realized_return_pct = Some 60, to_size_usd = 100,
     to_liquidity_usd = 100000, to_detection_latency_ms = Some 800\<rparr>"

definition good_stats :: trader_stats where
  "good_stats = \<lparr>ts_wallet = ''alice'', ts_outcomes = replicate 50 good_outcome,
     ts_first_trade_at = Some 0, ts_last_trade_at = Some 7776000000000\<rparr>"

lemma promotion_is_earned_witness:
  "next_status TS_PROBATION (compute_scores 7776000000000 good_stats) 20 = TS_ACTIVE \<and>
   30 \<le> length (ts_outcomes good_stats)"
proof -
  have a: "next_status TS_PROBATION (compute_scores 7776000000000 good_stats) 20 = TS_ACTIVE"
    by code_simp
  have "TS_PROBATION \<noteq> TS_ACTIVE" by simp
  with promotion_is_earned [of 7776000000000 good_stats TS_PROBATION 20] a show ?thesis
    unfolding Let_def by blast
qed

end
