(* ===== verification/Treasury.thy ===== *)
theory Treasury
  imports Ledger
begin

text \<open>
  \<^verbatim>\<open>engine/treasury.py\<close> and \<^verbatim>\<open>engine/harvest.py\<close>: capital buckets,
  compounding, the profit lock, the transfer to the treasury wallet and the harvest that uses
  all of them.  The store is the ledger together with the two Redis keys of this component and
  the rows and alerts it writes; network answers (SOL price, balance, signer, submission,
  confirmation) are an environment record.
\<close>

section \<open>Buckets and compounding\<close>

datatype compounding_mode = CONSERVATIVE | BALANCED | GROWTH

fun reinvest_fraction :: "compounding_mode \<Rightarrow> rat" where
  "reinvest_fraction CONSERVATIVE = 25/100"
| "reinvest_fraction BALANCED = 50/100"
| "reinvest_fraction GROWTH = 85/100"

datatype bucket = B_ACTIVE | B_RESERVE | B_LOCKED | B_GAS

record bucket_allocation =
  ba_active_usd :: usd
  ba_reserve_usd :: usd
  ba_locked_usd :: usd
  ba_gas_usd :: usd

definition total_usd :: "bucket_allocation \<Rightarrow> usd" where
  "total_usd a = ba_active_usd a + ba_reserve_usd a + ba_locked_usd a + ba_gas_usd a"

definition as_dict :: "bucket_allocation \<Rightarrow> usd pydict" where
  "as_dict a =
     [(''active_usd'', quantize 2 (ba_active_usd a)), (''reserve_usd'', quantize 2 (ba_reserve_usd a)),
      (''locked_usd'', quantize 2 (ba_locked_usd a)), (''gas_usd'', quantize 2 (ba_gas_usd a)),
      (''total_usd'', quantize 2 (total_usd a))]"

definition allocate_buckets :: "usd \<Rightarrow> usd \<Rightarrow> usd \<Rightarrow> pct \<Rightarrow> bucket_allocation" where
  "allocate_buckets equity_usd locked_usd gas_usd reserve_pct =
     (let available = max 0 (equity_usd - locked_usd - gas_usd);
          reserve = available * reserve_pct / 100
      in \<lparr>ba_active_usd = available - reserve, ba_reserve_usd = reserve,
          ba_locked_usd = locked_usd, ba_gas_usd = gas_usd\<rparr>)"

definition compound_split :: "usd \<Rightarrow> compounding_mode \<Rightarrow> usd \<times> usd" where
  "compound_split realized_profit_usd m =
     (if realized_profit_usd \<le> 0 then (0, 0)
      else let reinvest = realized_profit_usd * reinvest_fraction m
           in (reinvest, realized_profit_usd - reinvest))"

section \<open>The store\<close>

record treasury_row =
  tt_harvest_event_id :: "nat option"
  tt_amount_usd :: usd
  tt_amount_raw :: int
  tt_destination :: string
  tt_status :: string
  tt_signature :: "string option"

record harvest_row =
  hv_id :: nat
  hv_equity_before :: usd
  hv_equity_after :: usd
  hv_profit :: usd
  hv_harvested :: usd
  hv_retained :: usd
  hv_new_hwm :: usd
  hv_destination :: string
  hv_transfer_error :: "string option"

record capital_store =
  cs_ledger :: ledger_store
  cs_profit_lock :: "usd option"
  cs_baseline :: "usd option"
  cs_transfers :: "treasury_row list"
  cs_harvests :: "harvest_row list"
  cs_alerts :: "string list"
  cs_events :: "event_type list"
  cs_audit :: "(string \<times> usd) list"

section \<open>ProfitLock\<close>

definition lock_get :: "capital_store \<Rightarrow> usd" where
  "lock_get s = num (cs_profit_lock s) 0"

definition lock_set :: "usd \<Rightarrow> capital_store \<Rightarrow> usd \<times> capital_store" where
  "lock_set value s =
     (if value \<le> lock_get s then (lock_get s, s)
      else (value, s\<lparr>cs_profit_lock := Some value\<rparr>))"

definition lock_unlock :: "usd \<Rightarrow> string \<Rightarrow> capital_store \<Rightarrow> usd \<times> capital_store" where
  "lock_unlock value actor s =
     (value, s\<lparr>cs_profit_lock := Some (max 0 value), cs_audit := (actor, value) # cs_audit s\<rparr>)"

definition lock_ratchet :: "pct \<Rightarrow> capital_store \<Rightarrow> usd \<times> capital_store" where
  "lock_ratchet lock_pct s =
     (let current = lock_get s;
          gain_above_lock = total_equity_usd (snapshot (cs_ledger s)) - current
      in if gain_above_lock \<le> 0 then (current, s)
         else lock_set (current + gain_above_lock * lock_pct / 100) s)"

definition tradeable_equity :: "capital_store \<Rightarrow> usd" where
  "tradeable_equity s = max 0 (total_equity_usd (snapshot (cs_ledger s)) - lock_get s)"

section \<open>Treasury\<close>

text \<open>What the chain and the signer answer during one transfer.\<close>

record treasury_env =
  te_sol_price_usd :: usd
  te_balance_sol :: rat
  te_sign :: "int \<Rightarrow> string + string"            \<comment> \<open>error or signed, given the lamport limit\<close>
  te_submit :: "string \<Rightarrow> string + string"       \<comment> \<open>error or signature\<close>
  te_confirm :: "string \<Rightarrow> bool option"          \<comment> \<open>timeout, or whether there is an error\<close>

definition assert_gas_reserve :: "settings \<Rightarrow> treasury_env \<Rightarrow> int \<Rightarrow> string option" where
  "assert_gas_reserve st env lamports =
     (if te_balance_sol env - lamports_to_sol lamports < sol_gas_reserve (risk st)
        then Some ''gas reserve'' else None)"

definition send_sol :: "settings \<Rightarrow> treasury_env \<Rightarrow> int \<Rightarrow> string + string" where
  "send_sol st env lamports =
     (case assert_gas_reserve st env lamports of
        Some e \<Rightarrow> Inl e
      | None \<Rightarrow>
          case te_sign env (lamports + 10000) of
            Inl e \<Rightarrow> Inl e
          | Inr signed \<Rightarrow>
              case te_submit env signed of
                Inl e \<Rightarrow> Inl e
              | Inr signature \<Rightarrow>
                  case te_confirm env signature of
                    None \<Rightarrow> Inl ''confirmation timeout''
                  | Some err \<Rightarrow> if err then Inl ''on-chain error'' else Inr signature)"

definition treasury_transfer ::
    "settings \<Rightarrow> treasury_env \<Rightarrow> usd \<Rightarrow> nat option \<Rightarrow> string option \<Rightarrow> capital_store \<Rightarrow>
       (string + treasury_row) \<times> capital_store" where
  "treasury_transfer st env amount_usd event_id destination s =
     (if amount_usd \<le> 0 then (Inl ''transfer amount must be finite and positive'', s)
      else
        let dest = num destination [] in
        if dest \<noteq> [] \<and> dest \<noteq> treasury_wallet_pubkey st
          then (Inl ''destination is not the configured treasury allowlist entry'', s)
        else if treasury_wallet_pubkey st = []
          then (Inl ''TREASURY_WALLET_PUBKEY is not configured'', s)
        else if te_sol_price_usd env \<le> 0 then (Inl ''no SOL price available'', s)
        else
          let lamports = sol_to_lamports (amount_usd / te_sol_price_usd env);
              row = \<lparr>tt_harvest_event_id = event_id, tt_amount_usd = amount_usd,
                     tt_amount_raw = lamports, tt_destination = treasury_wallet_pubkey st,
                     tt_status = ''pending'', tt_signature = None\<rparr>
          in if \<not> is_live st
               then let row' = row\<lparr>tt_status := ''simulated'', tt_signature := Some ''paper-treasury''\<rparr>
                    in (Inr row', s\<lparr>cs_transfers := row' # cs_transfers s\<rparr>)
             else case send_sol st env lamports of
               Inl e \<Rightarrow>
                 (Inl e, s\<lparr>cs_transfers := row\<lparr>tt_status := ''failed''\<rparr> # cs_transfers s,
                           cs_alerts := ''Treasury transfer failed'' # cs_alerts s\<rparr>)
             | Inr signature \<Rightarrow>
                 let row' = row\<lparr>tt_status := ''confirmed'', tt_signature := Some signature\<rparr>
                 in (Inr row', s\<lparr>cs_transfers := row' # cs_transfers s\<rparr>))"

section \<open>Harvest\<close>

record harvest_decision =
  hd_should_harvest :: bool
  hd_amount_usd :: usd
  hd_retained_usd :: usd
  hd_profit_usd :: usd
  hd_new_hwm :: usd
  hd_reason :: string

definition no_harvest :: "usd \<Rightarrow> string \<Rightarrow> harvest_decision" where
  "no_harvest profit reason =
     \<lparr>hd_should_harvest = False, hd_amount_usd = 0, hd_retained_usd = 0, hd_profit_usd = profit,
      hd_new_hwm = 0, hd_reason = reason\<rparr>"

text \<open>The amount before it is rounded to cents.\<close>

definition harvest_amount :: "risk_config \<Rightarrow> usd \<Rightarrow> usd \<Rightarrow> usd \<Rightarrow> usd" where
  "harvest_amount cfg equity cash baseline =
     (let amount = (equity - baseline) * harvest_take_pct cfg / 100;
          floored = (if equity - amount < min_active_capital_usd cfg
                       then max 0 (equity - min_active_capital_usd cfg) else amount)
      in min floored cash)"

definition evaluate_harvest :: "risk_config \<Rightarrow> usd \<Rightarrow> usd \<Rightarrow> usd \<Rightarrow> harvest_decision" where
  "evaluate_harvest cfg equity cash harvest_baseline =
     (if harvest_baseline \<le> 0 then no_harvest 0 ''no_baseline''
      else
        let gain_pct = (equity - harvest_baseline) / harvest_baseline * 100;
            profit = equity - harvest_baseline
        in if gain_pct < harvest_threshold_pct cfg then no_harvest profit ''gain_below_threshold''
           else
             let amount = harvest_amount cfg equity cash harvest_baseline
             in if amount \<le> 0 then no_harvest profit ''insufficient_free_cash''
                else \<lparr>hd_should_harvest = True, hd_amount_usd = quantize 2 amount,
                      hd_retained_usd = quantize 2 (profit - amount), hd_profit_usd = profit,
                      hd_new_hwm = equity - amount, hd_reason = ''threshold_crossed''\<rparr>)"

definition baseline :: "settings \<Rightarrow> capital_store \<Rightarrow> usd \<times> capital_store" where
  "baseline st s =
     (case cs_baseline s of
        Some v \<Rightarrow> (v, s)
      | None \<Rightarrow> (starting_capital_usd st, s\<lparr>cs_baseline := Some (starting_capital_usd st)\<rparr>))"

definition set_baseline :: "usd \<Rightarrow> capital_store \<Rightarrow> capital_store" where
  "set_baseline v s = s\<lparr>cs_baseline := Some v\<rparr>"

definition publish_event :: "event_type \<Rightarrow> capital_store \<Rightarrow> capital_store" where
  "publish_event e s = s\<lparr>cs_events := e # cs_events s\<rparr>"

definition maybe_harvest ::
    "settings \<Rightarrow> treasury_env \<Rightarrow> nat \<Rightarrow> capital_store \<Rightarrow> harvest_decision \<times> capital_store" where
  "maybe_harvest st env eid s =
     (let snap = snapshot (cs_ledger s);
          (base, s0) = baseline st s;
          d = evaluate_harvest (risk st) (total_equity_usd snap - pf_unrealized_pnl_usd snap)
                (pf_cash_usd snap) base
      in if \<not> hd_should_harvest d then (d, s0)
         else
           let s1 = publish_event EV_HARVEST_THRESHOLD_REACHED s0;
               row = \<lparr>hv_id = eid, hv_equity_before = total_equity_usd snap,
                      hv_equity_after = total_equity_usd snap - hd_amount_usd d,
                      hv_profit = hd_profit_usd d, hv_harvested = hd_amount_usd d,
                      hv_retained = hd_retained_usd d, hv_new_hwm = hd_new_hwm d,
                      hv_destination = (if treasury_wallet_pubkey st \<noteq> []
                        then treasury_wallet_pubkey st else ''paper-treasury''),
                      hv_transfer_error = None\<rparr>;
               s2 = s1\<lparr>cs_harvests := row # cs_harvests s1\<rparr>
           in case treasury_transfer st env (hd_amount_usd d) (Some eid) None s2 of
                (Inl e, s3) \<Rightarrow>
                  (d\<lparr>hd_should_harvest := False, hd_reason := ''transfer_failed: '' @ e\<rparr>,
                   s3\<lparr>cs_harvests := row\<lparr>hv_transfer_error := Some e\<rparr> # cs_harvests s1\<rparr>)
              | (Inr _, s3) \<Rightarrow>
                  let s4 = s3\<lparr>cs_ledger := add_harvest (hd_amount_usd d) (cs_ledger s3)\<rparr>;
                      s5 = set_baseline (total_equity_usd snap - hd_amount_usd d) s4;
                      s6 = snd (lock_ratchet 50 s5)
                  in (d, publish_event EV_PROFIT_HARVESTED s6))"

section \<open>Facts\<close>

lemma allocate_buckets_total:
  "locked + gas \<le> equity \<Longrightarrow> total_usd (allocate_buckets equity locked gas r) = equity"
  by (simp add: allocate_buckets_def total_usd_def Let_def)

lemma compound_split_sum:
  "compound_split p m = (a, b) \<Longrightarrow> a + b = max 0 p \<and> 0 \<le> a \<and> 0 \<le> b"
  by (cases m) (auto simp: compound_split_def Let_def max_def split: if_splits)

lemma lock_set_ge: "lock_set v s = (r, s') \<Longrightarrow> lock_get s \<le> lock_get s' \<and> r = lock_get s' \<and> v \<le> r"
  by (auto simp: lock_set_def lock_get_def num_def split: if_splits option.splits)

lemma lock_set_frame: "lock_set v s = (r, s') \<Longrightarrow> s' = s\<lparr>cs_profit_lock := cs_profit_lock s'\<rparr>"
  by (auto simp: lock_set_def split: if_splits)

lemma lock_ratchet_ge:
  assumes "lock_ratchet p s = (r, s')"
  shows "lock_get s \<le> lock_get s' \<and> r = lock_get s' \<and> s' = s\<lparr>cs_profit_lock := cs_profit_lock s'\<rparr>"
  using assms lock_set_ge lock_set_frame
  by (auto simp: lock_ratchet_def Let_def split: if_splits)

lemma lock_ratchet_le_equity:
  assumes "lock_ratchet p s = (r, s')" "0 \<le> p" "p \<le> 100"
    and "lock_get s \<le> total_equity_usd (snapshot (cs_ledger s))"
  shows "r \<le> total_equity_usd (snapshot (cs_ledger s))"
proof -
  let ?g = "total_equity_usd (snapshot (cs_ledger s)) - lock_get s"
  have "?g * p \<le> ?g * 100" using assms by (intro mult_left_mono) simp_all
  then show ?thesis
    using assms by (auto simp: lock_ratchet_def lock_set_def Let_def split: if_splits)
qed

datatype lock_op = Lock_set usd | Lock_ratchet pct

fun run_lock :: "lock_op \<Rightarrow> capital_store \<Rightarrow> capital_store" where
  "run_lock (Lock_set v) s = snd (lock_set v s)"
| "run_lock (Lock_ratchet p) s = snd (lock_ratchet p s)"

lemma run_lock_ge: "lock_get s \<le> lock_get (run_lock op s)"
  by (cases op) (metis run_lock.simps lock_set_ge lock_ratchet_ge prod.collapse)+

lemma run_locks_ge: "lock_get s \<le> lock_get (fold run_lock ops s)"
proof (induction ops arbitrary: s)
  case (Cons op ops)
  then show ?case using run_lock_ge [of s op] by (metis fold_simps(2) order_trans)
qed simp

lemma total_equity_snapshot:
  "total_equity_usd (snapshot l) = h_cash (rd_state l) + h_deployed (rd_state l) + h_unrealized (rd_state l)"
  "pf_unrealized_pnl_usd (snapshot l) = h_unrealized (rd_state l)"
  "pf_cash_usd (snapshot l) = h_cash (rd_state l)"
  by (simp_all add: total_equity_usd_def snapshot_def Let_def)

text \<open>
  The profit lock is a ratchet: no sequence of sets and ratchets ever lowers it, and a
  ratchet by at most all of the gain never lifts it above the equity that is there.
\<close>

theorem profit_lock_ratchets:
  assumes "0 \<le> p" "p \<le> 100"
    and "lock_get (fold run_lock ops s) \<le> total_equity_usd (snapshot (cs_ledger (fold run_lock ops s)))"
  shows "lock_get s \<le> lock_get (fold run_lock ops s) \<and>
    lock_get (fold run_lock ops s) \<le> lock_get (run_lock (Lock_ratchet p) (fold run_lock ops s)) \<and>
    lock_get (run_lock (Lock_ratchet p) (fold run_lock ops s))
      \<le> total_equity_usd (snapshot (cs_ledger (fold run_lock ops s)))"
proof -
  obtain r s' where e: "lock_ratchet p (fold run_lock ops s) = (r, s')" by force
  then show ?thesis
    using run_locks_ge [of s ops] lock_ratchet_ge [OF e] lock_ratchet_le_equity [OF e assms] by simp
qed

definition sample_capital :: "usd \<Rightarrow> usd \<Rightarrow> capital_store" where
  "sample_capital cash unreal = \<lparr>cs_ledger = \<lparr>rd_exists = True, rd_state = \<lparr>h_equity = cash + unreal,
       h_cash = cash, h_deployed = 0, h_unrealized = unreal, h_realized_today = 0, h_hwm = cash,
       h_open_positions = 0, h_pending = 0, h_harvested_total = 0, h_sol_balance = 0\<rparr>,
       rd_token = Map.empty, rd_trader = Map.empty, rd_reservations = Map.empty,
       rd_system = Some ''running'', rd_kill = None\<rparr>,
     cs_profit_lock = None, cs_baseline = Some 1000, cs_transfers = [], cs_harvests = [],
     cs_alerts = [], cs_events = [], cs_audit = []\<rparr>"

lemma profit_lock_ratchets_witness:
  "lock_get (run_lock (Lock_ratchet 50) (fold run_lock [Lock_set 400, Lock_set 300] (sample_capital 1000 0)))
     \<le> 1000"
proof -
  have h: "lock_get (fold run_lock [Lock_set 400, Lock_set 300] (sample_capital 1000 0)) \<le>
      total_equity_usd (snapshot (cs_ledger (fold run_lock [Lock_set 400, Lock_set 300] (sample_capital 1000 0))))"
    "total_equity_usd (snapshot (cs_ledger (fold run_lock [Lock_set 400, Lock_set 300] (sample_capital 1000 0))))
      = 1000"
    by code_simp+
  from profit_lock_ratchets [of 50, OF _ _ h(1)] h(2) show ?thesis by simp
qed

text \<open>
  A harvest takes money that can leave: before the rounding to cents, the amount is
  positive, at most the free cash and at most the configured share of the gain since the
  baseline, and what stays is at least the minimal active capital; the reported amounts are that
  amount and the rest of the profit to half a cent.
\<close>

theorem harvest_amount_safe:
  assumes "evaluate_harvest cfg equity cash base = d" "hd_should_harvest d"
    and "0 \<le> harvest_threshold_pct cfg" "0 \<le> harvest_take_pct cfg"
  shows "\<exists>a. 0 < a \<and> a \<le> cash \<and> a \<le> (equity - base) * harvest_take_pct cfg / 100 \<and>
    min_active_capital_usd cfg \<le> equity - a \<and> hd_new_hwm d = equity - a \<and>
    \<bar>hd_amount_usd d - a\<bar> \<le> 5/1000 \<and> \<bar>hd_retained_usd d - (equity - base - a)\<bar> \<le> 5/1000"
proof -
  define a where "a = harvest_amount cfg equity cash base"
  define g where "g = (equity - base) * harvest_take_pct cfg / 100"
  have base: "0 < base"
    and gain: "harvest_threshold_pct cfg \<le> (equity - base) / base * 100"
    and a: "0 < a"
    and d: "hd_amount_usd d = quantize 2 a" "hd_retained_usd d = quantize 2 (equity - base - a)"
      "hd_new_hwm d = equity - a"
    using assms(1,2) by (auto simp: evaluate_harvest_def no_harvest_def Let_def a_def split: if_splits)
  have "0 \<le> (equity - base) / base * 100" using gain assms(3) by linarith
  then have "0 \<le> equity - base" using base by (simp add: zero_le_divide_iff)
  then have g: "0 \<le> g" using assms(4) by (simp add: g_def)
  have "a \<le> cash" "a \<le> g" "min_active_capital_usd cfg \<le> equity - a"
    using a g unfolding a_def harvest_amount_def Let_def g_def [symmetric]
    by (auto simp: min_def max_def split: if_splits)
  then show ?thesis
    using a d quantize_near [of 2 a] quantize_near [of 2 "equity - base - a"]
    by (intro exI [of _ a]) (simp add: g_def)
qed

lemma harvest_amount_safe_witness:
  "hd_amount_usd (evaluate_harvest default_risk 2000 2000 1000) = 400 \<and>
   (\<exists>a. \<bar>(400 :: rat) - a\<bar> \<le> 5/1000 \<and> a \<le> 2000)"
proof -
  have h: "hd_should_harvest (evaluate_harvest default_risk 2000 2000 1000)"
    "hd_amount_usd (evaluate_harvest default_risk 2000 2000 1000) = 400"
    "0 \<le> harvest_threshold_pct default_risk" "0 \<le> harvest_take_pct default_risk"
    by code_simp+
  from harvest_amount_safe [OF refl h(1,3,4)] h(2) show ?thesis by auto
qed

lemma baseline_frame:
  "baseline st s = (b, s0) \<Longrightarrow> cs_baseline s0 = Some b \<and> s0 = s\<lparr>cs_baseline := Some b\<rparr>"
  by (cases s) (auto simp: baseline_def split: option.splits)

lemma treasury_transfer_frame:
  "treasury_transfer st env a e dst s = (r, s') \<Longrightarrow>
     cs_ledger s' = cs_ledger s \<and> cs_profit_lock s' = cs_profit_lock s \<and>
     cs_baseline s' = cs_baseline s \<and>
     (\<forall>row. r = Inr row \<longrightarrow> tt_amount_usd row = a \<and> row \<in> set (cs_transfers s') \<and>
        tt_status row \<in> {''simulated'', ''confirmed''} \<and>
        tt_destination row = treasury_wallet_pubkey st \<and> treasury_wallet_pubkey st \<noteq> [])"
  unfolding treasury_transfer_def Let_def
  by (auto split: if_splits sum.splits)

lemma maybe_harvest_cases:
  assumes "maybe_harvest st env eid s = (d, s')"
  shows "(\<not> hd_should_harvest d \<and> cs_ledger s' = cs_ledger s \<and> cs_profit_lock s' = cs_profit_lock s \<and>
      cs_baseline s' = Some (fst (baseline st s))) \<or>
    (hd_should_harvest d \<and>
      d = evaluate_harvest (risk st) (h_cash (rd_state (cs_ledger s)) + h_deployed (rd_state (cs_ledger s)))
        (h_cash (rd_state (cs_ledger s))) (fst (baseline st s)) \<and>
      cs_ledger s' = add_harvest (hd_amount_usd d) (cs_ledger s) \<and>
      cs_baseline s' = Some (total_equity_usd (snapshot (cs_ledger s)) - hd_amount_usd d) \<and>
      lock_get s \<le> lock_get s' \<and>
      (\<exists>row \<in> set (cs_transfers s'). tt_amount_usd row = hd_amount_usd d \<and>
         tt_status row \<in> {''simulated'', ''confirmed''}))"
proof -
  obtain b s0 where b: "baseline st s = (b, s0)" by force
  note fr = baseline_frame [OF b]
  define e where "e = evaluate_harvest (risk st)
    (h_cash (rd_state (cs_ledger s)) + h_deployed (rd_state (cs_ledger s)))
    (h_cash (rd_state (cs_ledger s))) b"
  have e': "evaluate_harvest (risk st) (total_equity_usd (snapshot (cs_ledger s)) -
      pf_unrealized_pnl_usd (snapshot (cs_ledger s))) (pf_cash_usd (snapshot (cs_ledger s))) b = e"
    by (simp add: e_def total_equity_snapshot)
  show ?thesis
  proof (cases "hd_should_harvest e")
    case False
    then have "d = e" "s' = s0"
      using assms unfolding maybe_harvest_def Let_def b prod.case e' by simp_all
    then show ?thesis using False fr b by simp
  next
    case True
    define s2 where "s2 = (publish_event EV_HARVEST_THRESHOLD_REACHED s0)\<lparr>cs_harvests :=
      \<lparr>hv_id = eid, hv_equity_before = total_equity_usd (snapshot (cs_ledger s)),
       hv_equity_after = total_equity_usd (snapshot (cs_ledger s)) - hd_amount_usd e,
       hv_profit = hd_profit_usd e, hv_harvested = hd_amount_usd e, hv_retained = hd_retained_usd e,
       hv_new_hwm = hd_new_hwm e, hv_destination = (if treasury_wallet_pubkey st \<noteq> []
         then treasury_wallet_pubkey st else ''paper-treasury''), hv_transfer_error = None\<rparr>
      # cs_harvests (publish_event EV_HARVEST_THRESHOLD_REACHED s0)\<rparr>"
    have s2: "cs_ledger s2 = cs_ledger s" "cs_profit_lock s2 = cs_profit_lock s"
      "cs_baseline s2 = Some b"
      using fr by (simp_all add: s2_def publish_event_def)
    obtain r s3 where t: "treasury_transfer st env (hd_amount_usd e) (Some eid) None s2 = (r, s3)"
      by force
    note tf = treasury_transfer_frame [OF t]
    show ?thesis
    proof (cases r)
      case (Inl err)
      then have "\<not> hd_should_harvest d" "cs_ledger s' = cs_ledger s3"
        "cs_profit_lock s' = cs_profit_lock s3" "cs_baseline s' = cs_baseline s3"
        using assms True t unfolding maybe_harvest_def Let_def b prod.case e'
        by (auto simp: s2_def)
      then show ?thesis using tf s2 b by simp
    next
      case (Inr row)
      define s5 where "s5 = set_baseline (total_equity_usd (snapshot (cs_ledger s)) - hd_amount_usd e)
        (s3\<lparr>cs_ledger := add_harvest (hd_amount_usd e) (cs_ledger s3)\<rparr>)"
      obtain lk s6 where lk: "lock_ratchet 50 s5 = (lk, s6)" by force
      note lr = lock_ratchet_ge [OF lk]
      have d: "d = e" "s' = publish_event EV_PROFIT_HARVESTED s6"
        using assms True t Inr lk unfolding maybe_harvest_def Let_def b prod.case e'
        by (auto simp: s2_def s5_def)
      have "lock_get s5 = lock_get s" using tf s2 by (simp add: s5_def set_baseline_def lock_get_def)
      moreover have "lock_get s' = lock_get s6" by (simp add: d publish_event_def lock_get_def)
      moreover have "cs_ledger s' = cs_ledger s5" "cs_baseline s' = cs_baseline s5"
        "cs_transfers s' = cs_transfers s5"
      proof -
        have s6: "cs_ledger s6 = cs_ledger s5" "cs_baseline s6 = cs_baseline s5"
          "cs_transfers s6 = cs_transfers s5"
          using lk by (auto simp: lock_ratchet_def lock_set_def Let_def split: if_splits)
        show "cs_ledger s' = cs_ledger s5" "cs_baseline s' = cs_baseline s5"
          "cs_transfers s' = cs_transfers s5"
          by (simp_all add: d(2) publish_event_def s6)
      qed
      moreover have "cs_ledger s5 = add_harvest (hd_amount_usd e) (cs_ledger s)"
        "cs_baseline s5 = Some (total_equity_usd (snapshot (cs_ledger s)) - hd_amount_usd e)"
        "cs_transfers s5 = cs_transfers s3"
        using tf s2 by (simp_all add: s5_def set_baseline_def)
      moreover have "\<exists>row \<in> set (cs_transfers s3). tt_amount_usd row = hd_amount_usd e \<and>
          tt_status row \<in> {''simulated'', ''confirmed''}"
        using tf Inr by blast
      moreover have "fst (baseline st s) = b" by (simp add: b)
      ultimately show ?thesis
        unfolding d(1) using True lr by (intro disjI2 conjI) (simp_all add: e_def)
    qed
  qed
qed


definition harvest_settings :: settings where
  "harvest_settings = default_settings\<lparr>treasury_wallet_pubkey := ''TREASURY''\<rparr>"

definition paper_env :: treasury_env where
  "paper_env = \<lparr>te_sol_price_usd = 150, te_balance_sol = 10, te_sign = (\<lambda>n. Inl ''unused''),
     te_submit = (\<lambda>s. Inl ''unused''), te_confirm = (\<lambda>s. None)\<rparr>"


text \<open>
  The same profit is harvested once when the open positions are not under water: after a
  harvest, a second one at unchanged prices takes nothing.
\<close>

theorem harvest_not_repeated:
  assumes "maybe_harvest st env eid s = (d, s')" "hd_should_harvest d"
    and "0 \<le> h_unrealized (rd_state (cs_ledger s))" "0 < harvest_threshold_pct (risk st)"
  shows "\<not> hd_should_harvest (fst (maybe_harvest st env' eid' s'))"
proof -
  obtain d2 s2 where e2: "maybe_harvest st env' eid' s' = (d2, s2)" by force
  define base where "base = total_equity_usd (snapshot (cs_ledger s)) - hd_amount_usd d"
  define realized where "realized = h_cash (rd_state (cs_ledger s)) +
    h_deployed (rd_state (cs_ledger s)) - hd_amount_usd d"
  have h: "cs_ledger s' = add_harvest (hd_amount_usd d) (cs_ledger s)" "cs_baseline s' = Some base"
    using maybe_harvest_cases [OF assms(1)] assms(2) by (auto simp: base_def)
  have le: "realized \<le> base"
    using assms(3) by (simp add: realized_def base_def total_equity_snapshot)
  have no: "\<not> hd_should_harvest (evaluate_harvest (risk st) realized c base)" for c
  proof (cases "0 < base")
    case True
    then have "(realized - base) / base * 100 \<le> 0" using le by (simp add: divide_le_0_iff)
    then have "(realized - base) / base * 100 < harvest_threshold_pct (risk st)"
      using assms(4) by linarith
    then show ?thesis by (simp add: evaluate_harvest_def no_harvest_def)
  qed (simp add: evaluate_harvest_def no_harvest_def)
  have arg: "h_cash (rd_state (cs_ledger s')) + h_deployed (rd_state (cs_ledger s')) = realized"
    by (simp add: h(1) add_harvest_def realized_def Let_def)
  have "fst (baseline st s') = base" by (simp add: baseline_def h(2))
  then have "\<not> hd_should_harvest d2"
    using maybe_harvest_cases [OF e2] no unfolding arg by (metis fst_conv)
  then show ?thesis by (simp add: e2)
qed

lemma harvest_not_repeated_witness:
  "\<not> hd_should_harvest (fst (maybe_harvest harvest_settings paper_env 8
      (snd (maybe_harvest harvest_settings paper_env 7 (sample_capital 2000 0)))))"
proof -
  let ?r = "maybe_harvest harvest_settings paper_env 7 (sample_capital 2000 0)"
  have h: "hd_should_harvest (fst ?r)" "0 \<le> h_unrealized (rd_state (cs_ledger (sample_capital 2000 0)))"
    "0 < harvest_threshold_pct (risk harvest_settings)"
    by code_simp+
  have e: "?r = (fst ?r, snd ?r)" by simp
  show ?thesis by (rule harvest_not_repeated [OF e h])
qed

text \<open>
  Under water they are not: the decision reads realised equity, but the stored baseline counts
  the open loss, so the second call harvests from the same gain again.
\<close>

lemma harvest_repeats_under_water:
  "let s1 = maybe_harvest harvest_settings paper_env 7 (sample_capital 2000 (- 400));
       s2 = maybe_harvest harvest_settings paper_env 8 (snd s1)
   in hd_should_harvest (fst s1) \<and> hd_amount_usd (fst s1) = 400 \<and>
      hd_should_harvest (fst s2) \<and> hd_amount_usd (fst s2) = 160 \<and>
      cs_baseline (snd s1) = Some 1200 \<and> hd_new_hwm (fst s1) = 1600"
  by code_simp

end
