(* ===== verification/Resilience.thy ===== *)
theory Resilience
  imports Config
begin

text \<open>
  \<^verbatim>\<open>adapters/base.py\<close>: the circuit breaker and the bounded retries every provider
  call goes through; and \<^verbatim>\<open>credits.py\<close>: the guard that suspends the most expensive
  wallet when the measured credit burn would exceed the monthly budget.  Clocks are arguments,
  in seconds; the monotonic clock is never 0.
\<close>

section \<open>CircuitBreaker\<close>

record breaker =
  br_threshold :: int
  br_cooldown :: rat
  br_failures :: int
  br_opened_at :: rat
  br_half_open :: bool

definition new_breaker :: "int \<Rightarrow> rat \<Rightarrow> breaker" where
  "new_breaker threshold cooldown =
     \<lparr>br_threshold = threshold, br_cooldown = cooldown, br_failures = 0, br_opened_at = 0,
      br_half_open = False\<rparr>"

definition is_open :: "rat \<Rightarrow> breaker \<Rightarrow> bool \<times> breaker" where
  "is_open now b =
     (if br_opened_at b = 0 then (False, b)
      else if br_cooldown b \<le> now - br_opened_at b then (False, b\<lparr>br_half_open := True\<rparr>)
      else (True, b))"

definition record_success :: "breaker \<Rightarrow> breaker" where
  "record_success b = b\<lparr>br_failures := 0, br_opened_at := 0, br_half_open := False\<rparr>"

definition record_failure :: "rat \<Rightarrow> breaker \<Rightarrow> breaker" where
  "record_failure now b =
     (let b1 = b\<lparr>br_failures := br_failures b + 1\<rparr>
      in if br_half_open b1 \<or> br_threshold b1 \<le> br_failures b1
           then b1\<lparr>br_opened_at := now, br_half_open := False\<rparr> else b1)"

section \<open>HttpAdapter.request\<close>

datatype http_outcome =
    Response int                    \<comment> \<open>a status code\<close>
  | Transport_failure               \<comment> \<open>TimeoutError or httpx.HTTPError\<close>

datatype request_error =
    Degraded                        \<comment> \<open>ProviderDegraded: the breaker is open\<close>
  | Provider "int option"           \<comment> \<open>ProviderError with its status\<close>

type_synonym request_result = "request_error + int"

text \<open>
  One round of the retry loop per remaining attempt; \<open>replies\<close> are the answers of the
  provider, consumed in order (no answer is a transport failure).  The result tells how many
  attempts were made.
\<close>

fun request_loop ::
    "nat \<Rightarrow> http_outcome list \<Rightarrow> rat \<Rightarrow> nat \<Rightarrow> request_error option \<Rightarrow> breaker \<Rightarrow>
       request_result \<times> nat \<times> breaker" where
  "request_loop 0 replies now made last_error b =
     (Inl (case last_error of None \<Rightarrow> Provider None | Some e \<Rightarrow> e), made, record_failure now b)"
| "request_loop (Suc n) replies now made last_error b =
     (case (case replies of [] \<Rightarrow> Transport_failure | r # _ \<Rightarrow> r) of
        Response code \<Rightarrow>
          if code = 429 then request_loop n (tl replies) now (made + 1) (Some (Provider (Some 429))) b
          else if 500 \<le> code
            then request_loop n (tl replies) now (made + 1) (Some (Provider (Some code))) b
          else if 400 \<le> code then (Inl (Provider (Some code)), made + 1, record_success b)
          else (Inr code, made + 1, record_success b)
      | Transport_failure \<Rightarrow>
          request_loop n (tl replies) now (made + 1) (Some (Provider None)) b)"

definition request ::
    "nat \<Rightarrow> bool \<Rightarrow> http_outcome list \<Rightarrow> rat \<Rightarrow> rat \<Rightarrow> breaker \<Rightarrow> request_result \<times> nat \<times> breaker" where
  "request retries allow_degraded replies now later b =
     (case is_open now b of
        (blocked, b1) \<Rightarrow>
          if blocked \<and> \<not> allow_degraded then (Inl Degraded, 0, b1)
          else request_loop (retries + 1) replies later 0 None b1)"

section \<open>The breaker as a state machine\<close>

datatype breaker_state = Closed int | Open rat | Half_open rat

definition abs_breaker :: "breaker \<Rightarrow> breaker_state" where
  "abs_breaker b =
     (if br_opened_at b = 0 then Closed (br_failures b)
      else if br_half_open b then Half_open (br_opened_at b) else Open (br_opened_at b))"

definition breaker_inv :: "breaker \<Rightarrow> bool" where
  "breaker_inv b \<longleftrightarrow>
     (if br_opened_at b = 0 then \<not> br_half_open b \<and> 0 \<le> br_failures b
      else br_threshold b \<le> br_failures b)"

fun spec_check :: "rat \<Rightarrow> rat \<Rightarrow> breaker_state \<Rightarrow> bool \<times> breaker_state" where
  "spec_check cooldown now (Closed n) = (False, Closed n)"
| "spec_check cooldown now (Open t) =
     (if cooldown \<le> now - t then (False, Half_open t) else (True, Open t))"
| "spec_check cooldown now (Half_open t) = (\<not> cooldown \<le> now - t, Half_open t)"

fun spec_failure :: "int \<Rightarrow> rat \<Rightarrow> breaker_state \<Rightarrow> breaker_state" where
  "spec_failure threshold now (Closed n) =
     (if threshold \<le> n + 1 then Open now else Closed (n + 1))"
| "spec_failure threshold now _ = Open now"

text \<open>
  C35. The three fields of the breaker implement the three-state machine of its description:
  closed with a count of consecutive failures, open since a moment, half open after the
  cooldown; every operation keeps the representation invariant and commutes with the
  abstraction, a half-open failure opens it again at once and any success closes it.
\<close>

theorem breaker_refines_state_machine:
  assumes "breaker_inv b" "now \<noteq> 0"
  shows "breaker_inv (snd (is_open now b)) \<and> breaker_inv (record_success b) \<and>
    breaker_inv (record_failure now b) \<and>
    (fst (is_open now b), abs_breaker (snd (is_open now b))) =
      spec_check (br_cooldown b) now (abs_breaker b) \<and>
    abs_breaker (record_success b) = Closed 0 \<and>
    abs_breaker (record_failure now b) = spec_failure (br_threshold b) now (abs_breaker b)"
  using assms
  by (auto simp: breaker_inv_def is_open_def record_success_def record_failure_def abs_breaker_def
      Let_def)

lemma breaker_refines_state_machine_witness:
  "abs_breaker (record_failure 7 ((new_breaker 5 30)\<lparr>br_failures := 4\<rparr>)) = Open 7"
proof -
  have "breaker_inv ((new_breaker 5 30)\<lparr>br_failures := 4\<rparr>)" "(7 :: rat) \<noteq> 0"
    by (simp_all add: breaker_inv_def new_breaker_def)
  from breaker_refines_state_machine [OF this] show ?thesis
    by (simp add: abs_breaker_def new_breaker_def)
qed

lemma request_loop_made:
  "request_loop n rs now made e b = (r, k, b') \<Longrightarrow> k \<le> made + n"
proof (induction n rs now made e b arbitrary: r k b' rule: request_loop.induct)
  case (2 n replies now made e b)
  then show ?case by (cases replies) (auto split: http_outcome.splits if_splits)
qed simp

lemma request_bounded: "request retries ok rs now later b = (r, k, b') \<Longrightarrow> k \<le> retries + 1"
  by (auto simp: request_def simp del: request_loop.simps dest!: request_loop_made
      split: prod.splits if_splits)

lemma request_blocked:
  "fst (is_open now b) \<Longrightarrow> request retries False rs now later b = (Inl Degraded, 0, b)"
  by (auto simp: request_def is_open_def split: if_splits)

section \<open>Credits\<close>

definition SECONDS_PER_MONTH :: rat where
  "SECONDS_PER_MONTH = 60 * 60 * 24 * 30"

definition MIN_SAMPLE_SECONDS :: rat where
  "MIN_SAMPLE_SECONDS = 120"

record burn =
  bu_credits :: int
  bu_seconds :: rat
  bu_budget :: int

definition per_minute :: "burn \<Rightarrow> rat" where
  "per_minute b = (if bu_seconds b \<noteq> 0 then of_int (bu_credits b) / (bu_seconds b / 60) else 0)"

definition projected_month :: "burn \<Rightarrow> rat" where
  "projected_month b = per_minute b * SECONDS_PER_MONTH / 60"

definition pct_of_budget :: "burn \<Rightarrow> rat" where
  "pct_of_budget b = (if bu_budget b \<noteq> 0 then projected_month b / of_int (bu_budget b) * 100 else 0)"

text \<open>\<open>None\<close> is the infinite float.\<close>

definition days_until_exhausted :: "burn \<Rightarrow> rat option" where
  "days_until_exhausted b =
     (let per_day = per_minute b * 60 * 24
      in if per_day \<noteq> 0 then Some (of_int (bu_budget b) / per_day) else None)"

record budget_guard =
  bg_warn_pct :: rat
  bg_hard_pct :: rat
  bg_started :: rat
  bg_baseline :: "int option"
  bg_warned :: bool

text \<open>The daily counters, by day.\<close>

type_synonym credit_counters = "int \<rightharpoonup> int"

definition credit_total :: "int \<Rightarrow> credit_counters \<Rightarrow> int" where
  "credit_total day c = (case c day of None \<Rightarrow> 0 | Some n \<Rightarrow> n)"

definition budget_sample ::
    "settings \<Rightarrow> int \<Rightarrow> rat \<Rightarrow> credit_counters \<Rightarrow> budget_guard \<Rightarrow> burn option \<times> budget_guard" where
  "budget_sample st day now c g =
     (case bg_baseline g of
        None \<Rightarrow> (None, g\<lparr>bg_baseline := Some (credit_total day c)\<rparr>)
      | Some base \<Rightarrow>
          let elapsed = now - bg_started g
          in if elapsed < MIN_SAMPLE_SECONDS then (None, g)
             else (Some \<lparr>bu_credits = max 0 (credit_total day c - base), bu_seconds = elapsed,
                         bu_budget = monthly_credit_budget st\<rparr>, g))"

definition budget_check ::
    "settings \<Rightarrow> int \<Rightarrow> rat \<Rightarrow> credit_counters \<Rightarrow> int pydict \<Rightarrow> budget_guard \<Rightarrow>
       string option \<times> budget_guard" where
  "budget_check st day now c wallet_costs g =
     (case budget_sample st day now c g of
        (None, g1) \<Rightarrow> (None, g1)
      | (Some b, g1) \<Rightarrow>
          if bu_credits b = 0 then (None, g1)
          else if bg_hard_pct g1 \<le> pct_of_budget b
            then (map_option fst (max_key snd wallet_costs), g1)
          else if bg_warn_pct g1 \<le> pct_of_budget b \<and> \<not> bg_warned g1
            then (None, g1\<lparr>bg_warned := True\<rparr>)
          else (None, g1))"

record burn_marker =
  bm_at :: rat
  bm_total :: int

definition current_burn ::
    "settings \<Rightarrow> rat \<Rightarrow> int \<Rightarrow> rat \<Rightarrow> credit_counters \<Rightarrow> burn_marker option \<Rightarrow> burn \<times> burn_marker option" where
  "current_burn st window day now c prev =
     (let total = credit_total day c;
          (elapsed, used) =
            (case prev of
               None \<Rightarrow> (1, 0)
             | Some m \<Rightarrow> if now - window * 3 < bm_at m
                 then (max 1 (now - bm_at m), max 0 (total - bm_total m)) else (1, 0))
      in (\<lparr>bu_credits = used, bu_seconds = elapsed, bu_budget = monthly_credit_budget st\<rparr>,
          Some \<lparr>bm_at = now, bm_total = total\<rparr>))"

text \<open>
  The guard acts on the measured rate alone and on the right wallet: within one day it
  suspends exactly when the sample is long enough and the credits burnt since it started,
  extrapolated to a month, reach the hard share of the budget, and then the wallet with the
  highest count.
\<close>

theorem budget_guard_suspends_worst:
  assumes "bg_baseline g = Some base" "0 < monthly_credit_budget st"
    and "MIN_SAMPLE_SECONDS \<le> now - bg_started g" "base < credit_total day c"
    and "budget_check st day now c costs g = (r, g')"
  shows "(case r of
      None \<Rightarrow> costs = [] \<or>
        of_int (credit_total day c - base) / (now - bg_started g) * SECONDS_PER_MONTH * 100
          < bg_hard_pct g * of_int (monthly_credit_budget st)
    | Some w \<Rightarrow> (\<exists>n. (w, n) \<in> set costs \<and> (\<forall>(v, k) \<in> set costs. k \<le> n)) \<and>
        bg_hard_pct g * of_int (monthly_credit_budget st) \<le>
          of_int (credit_total day c - base) / (now - bg_started g) * SECONDS_PER_MONTH * 100)"
proof -
  define el where "el = now - bg_started g"
  define b where "b = \<lparr>bu_credits = credit_total day c - base, bu_seconds = el,
    bu_budget = monthly_credit_budget st\<rparr>"
  have el: "0 < el" using assms(3) by (simp add: el_def MIN_SAMPLE_SECONDS_def)
  have s: "budget_sample st day now c g = (Some b, g)"
    using assms(1,3,4) by (simp add: budget_sample_def b_def el_def Let_def)
  have pct: "pct_of_budget b =
      of_int (credit_total day c - base) / el * SECONDS_PER_MONTH * 100 / of_int (monthly_credit_budget st)"
    using el assms(2)
    by (simp add: b_def pct_of_budget_def projected_month_def per_minute_def field_simps)
  have hard: "bg_hard_pct g \<le> pct_of_budget b \<longleftrightarrow>
      bg_hard_pct g * of_int (monthly_credit_budget st) \<le>
        of_int (credit_total day c - base) / el * SECONDS_PER_MONTH * 100"
    unfolding pct by (rule pos_le_divide_eq) (use assms(2) in simp)
  have nz: "bu_credits b \<noteq> 0" using assms(4) by (simp add: b_def)
  show ?thesis
  proof (cases "bg_hard_pct g \<le> pct_of_budget b")
    case True
    then have r: "r = map_option fst (max_key snd costs)"
      using assms(5) s nz by (simp add: budget_check_def)
    show ?thesis
    proof (cases "max_key snd costs")
      case None
      then have "costs = []" by (simp add: max_key_def split: list.splits)
      then show ?thesis using r None by simp
    next
      case (Some x)
      then show ?thesis
        using r max_key_Some [OF Some] True unfolding hard el_def [symmetric]
        by (cases x) (fastforce)
    qed
  next
    case False
    then have "r = None" using assms(5) s nz by (auto simp: budget_check_def split: if_splits)
    then show ?thesis using False unfolding hard el_def [symmetric] by simp
  qed
qed

definition sample_guard :: budget_guard where
  "sample_guard = \<lparr>bg_warn_pct = 60, bg_hard_pct = 100, bg_started = 0, bg_baseline = Some 100,
     bg_warned = False\<rparr>"

lemma budget_guard_suspends_worst_witness:
  "fst (budget_check default_settings 0 600 [0 \<mapsto> 5100] [(''a'', 3), (''b'', 9)] sample_guard)
     = Some ''b''"
proof -
  obtain r g' where e: "budget_check default_settings 0 600 [0 \<mapsto> 5100] [(''a'', 3), (''b'', 9)]
      sample_guard = (r, g')" by force
  have "\<not> of_int (credit_total 0 [0 \<mapsto> 5100] - 100) / (600 - bg_started sample_guard) * SECONDS_PER_MONTH * 100
      < bg_hard_pct sample_guard * of_int (monthly_credit_budget default_settings)"
    by code_simp
  moreover have "bg_baseline sample_guard = Some 100" "0 < monthly_credit_budget default_settings"
    "MIN_SAMPLE_SECONDS \<le> 600 - bg_started sample_guard" "100 < credit_total 0 [0 \<mapsto> 5100]"
    by (simp_all add: sample_guard_def default_settings_def MIN_SAMPLE_SECONDS_def credit_total_def)
  ultimately have "\<exists>w. r = Some w \<and> (\<exists>n. (w, n) \<in> set [(''a'', 3), (''b'', 9)] \<and>
      (\<forall>(v, k) \<in> set [(''a'', 3), (''b'', 9::int)]. k \<le> n))"
    using budget_guard_suspends_worst [OF _ _ _ _ e, of 100] by (cases r) auto
  then show ?thesis by (auto simp: e)
qed

text \<open>
  The counter the guard reads starts again at midnight, the baseline does not: until the new
  day has burnt as much as the old one had when the guard started, the guard measures nothing.
\<close>

lemma budget_guard_blind_after_midnight:
  assumes "bg_baseline g = Some base" "credit_total (day + 1) c \<le> base"
  shows "fst (budget_check st (day + 1) now c costs g) = None"
  using assms by (auto simp: budget_check_def budget_sample_def Let_def)

end
