(* ===== verification/Market.thy ===== *)
theory Market
  imports Decision_Engine
begin

text \<open>
  \<^verbatim>\<open>engine/market.py\<close>: the market snapshot behind the live data provider, assembled
  from the price service, a probe quote and the token supply, with the caches in front of each.
  What Jupiter and Helius answer is a record of functions; a call that raises is \<open>Inl\<close>.
\<close>

definition MARKET_TTL :: int where "MARKET_TTL = 5"

definition META_TTL :: int where "META_TTL = 3600"

definition SOL_PRICE_TTL :: int where "SOL_PRICE_TTL = 30"

definition PROBE_USD :: usd where "PROBE_USD = 100"

definition SUPPLY_TTL_FIXED :: int where "SUPPLY_TTL_FIXED = 86400"

definition SUPPLY_TTL_MUTABLE :: int where "SUPPLY_TTL_MUTABLE = 300"

record token_supply =
  su_amount :: int
  su_decimals :: "nat option"

record jupiter =
  jx_sol_price_usd :: usd
  jx_quote :: "string \<Rightarrow> string \<Rightarrow> int \<Rightarrow> py_error + quote option"
  jx_price_usd :: "string \<Rightarrow> py_error + usd option"

record helius =
  hx_token_supply :: "string \<Rightarrow> py_error + token_supply option"
  hx_mint_authority :: "string \<Rightarrow> py_error + string option option"
  hx_block_times :: "string \<Rightarrow> py_error + int list"    \<comment> \<open>0 for a missing block time\<close>

record market_cache =
  mc_sol :: "(usd \<times> datetime) option"
  mc_markets :: "string \<rightharpoonup> market_state \<times> datetime"
  mc_supply :: "string \<rightharpoonup> token_supply \<times> datetime"
  mc_age :: "string \<rightharpoonup> int \<times> datetime"

text \<open>The value of a key that has not expired.\<close>

definition live_entry :: "datetime \<Rightarrow> ('a \<times> datetime) option \<Rightarrow> 'a option" where
  "live_entry now e =
     (case e of None \<Rightarrow> None | Some (v, expiry) \<Rightarrow> if now < expiry then Some v else None)"

definition expires :: "datetime \<Rightarrow> int \<Rightarrow> datetime" where
  "expires now ttl = now + ttl * 1000000"

definition sol_price_usd :: "jupiter \<Rightarrow> datetime \<Rightarrow> market_cache \<Rightarrow> usd \<times> market_cache" where
  "sol_price_usd jup now c =
     (case live_entry now (mc_sol c) of
        Some p \<Rightarrow> (p, c)
      | None \<Rightarrow>
          let p = jx_sol_price_usd jup
          in (p, if 0 < p then c\<lparr>mc_sol := Some (p, expires now SOL_PRICE_TTL)\<rparr> else c))"

definition token_supply_cached ::
    "helius \<Rightarrow> string \<Rightarrow> datetime \<Rightarrow> market_cache \<Rightarrow> token_supply option \<times> market_cache" where
  "token_supply_cached h mint now c =
     (case live_entry now (mc_supply c mint) of
        Some s \<Rightarrow> (Some s, c)
      | None \<Rightarrow>
          case hx_token_supply h mint of
            Inl e \<Rightarrow> (None, c)
          | Inr None \<Rightarrow> (None, c)
          | Inr (Some s) \<Rightarrow>
              let ttl = (case hx_mint_authority h mint of
                           Inr (Some a) \<Rightarrow> if num a [] = [] then SUPPLY_TTL_FIXED else SUPPLY_TTL_MUTABLE
                         | _ \<Rightarrow> SUPPLY_TTL_MUTABLE)
              in (Some s, c\<lparr>mc_supply := (mc_supply c)(mint \<mapsto> (s, expires now ttl))\<rparr>))"

definition token_age_cached ::
    "helius \<Rightarrow> string \<Rightarrow> datetime \<Rightarrow> market_cache \<Rightarrow> int option \<times> market_cache" where
  "token_age_cached h mint now c =
     (case live_entry now (mc_age c mint) of
        Some created \<Rightarrow> (Some (elapsed_seconds (created * 1000000) now), c)
      | None \<Rightarrow>
          case hx_block_times h mint of
            Inl e \<Rightarrow> (None, c)
          | Inr sigs \<Rightarrow>
              if sigs = [] \<or> last sigs = 0 then (None, c)
              else (Some (elapsed_seconds (last sigs * 1000000) now),
                    c\<lparr>mc_age := (mc_age c)(mint \<mapsto> (last sigs, expires now (META_TTL * 24)))\<rparr>))"

definition or_none :: "py_error + 'a option \<Rightarrow> 'a option" where
  "or_none r = (case r of Inl e \<Rightarrow> None | Inr x \<Rightarrow> x)"

text \<open>The computation on the gathered answers.\<close>

definition assemble_market ::
    "string \<Rightarrow> nat \<Rightarrow> usd \<Rightarrow> quote option \<Rightarrow> token_supply option \<Rightarrow> usd option \<Rightarrow> int option \<Rightarrow>
       datetime \<Rightarrow> market_state" where
  "assemble_market mint decimals sol_usd quo supply listed age now =
     (let listed_usd = num listed 0;
          tok_decimals = (case supply of None \<Rightarrow> decimals | Some s \<Rightarrow> num (su_decimals s) decimals);
          price_usd = (case quo of
              None \<Rightarrow> listed_usd
            | Some q \<Rightarrow>
                if listed_usd \<le> 0 \<and> q_out_amount_raw q \<noteq> 0 \<and> 0 < raw_to_ui (q_out_amount_raw q) tok_decimals
                  then PROBE_USD / raw_to_ui (q_out_amount_raw q) tok_decimals
                else listed_usd);
          price_sol = (if 0 < sol_usd then price_usd / sol_usd else 0);
          market_cap = (case supply of
              None \<Rightarrow> 0
            | Some s \<Rightarrow> if 0 < price_usd then raw_to_ui (su_amount s) tok_decimals * price_usd else 0);
          liquidity = (case quo of
              None \<Rightarrow> 0
            | Some q \<Rightarrow> if 0 < q_price_impact_pct q then PROBE_USD / (q_price_impact_pct q / 100)
                        else 1000000)
      in \<lparr>ms_mint = mint, ms_price = price_sol, ms_price_usd = price_usd,
          ms_liquidity_usd = liquidity, ms_market_cap_usd = market_cap,
          ms_token_age_seconds = age, ms_decimals = tok_decimals, ms_fetched_at = now,
          ms_stale = (price_usd \<le> 0)\<rparr>)"

definition build_market ::
    "jupiter \<Rightarrow> helius \<Rightarrow> string \<Rightarrow> nat \<Rightarrow> datetime \<Rightarrow> market_cache \<Rightarrow> market_state \<times> market_cache" where
  "build_market jup h mint decimals now c =
     (let (sol_usd, c1) = sol_price_usd jup now c;
          probe_lamports = (if 0 < sol_usd then ui_to_raw (PROBE_USD / sol_usd) 9 else 0);
          quo = (if probe_lamports \<noteq> 0 then or_none (jx_quote jup SOL_MINT mint probe_lamports)
                 else None);
          (supply, c2) = token_supply_cached h mint now c1;
          listed = or_none (jx_price_usd jup mint);
          (age, c3) = token_age_cached h mint now c2
      in (assemble_market mint decimals sol_usd quo supply listed age now, c3))"

definition get_market_state ::
    "jupiter \<Rightarrow> helius \<Rightarrow> string \<Rightarrow> nat \<Rightarrow> datetime \<Rightarrow> market_cache \<Rightarrow> market_state \<times> market_cache" where
  "get_market_state jup h mint decimals now c =
     (case live_entry now (mc_markets c mint) of
        Some st \<Rightarrow>
          if of_int (now - ms_fetched_at st) / 10 ^ 6 < (of_int MARKET_TTL :: rat) then (st, c)
          else (case build_market jup h mint decimals now c of
            (st', c') \<Rightarrow> (st', if 0 < ms_price st'
               then c'\<lparr>mc_markets := (mc_markets c')(mint \<mapsto> (st', expires now (MARKET_TTL * 3)))\<rparr> else c'))
      | None \<Rightarrow> (case build_market jup h mint decimals now c of
            (st', c') \<Rightarrow> (st', if 0 < ms_price st'
               then c'\<lparr>mc_markets := (mc_markets c')(mint \<mapsto> (st', expires now (MARKET_TTL * 3)))\<rparr> else c')))"

section \<open>Facts\<close>

lemma assemble_market_stale:
  "ms_stale (assemble_market m d sol q su l a now) \<longleftrightarrow>
     ms_price_usd (assemble_market m d sol q su l a now) \<le> 0"
  by (simp add: assemble_market_def Let_def)

lemma assemble_market_price_sol:
  "0 < sol \<Longrightarrow> ms_price (assemble_market m d sol q su l a now) * sol =
     ms_price_usd (assemble_market m d sol q su l a now)"
  by (simp add: assemble_market_def Let_def)

lemma assemble_market_no_quote:
  "num l 0 \<le> 0 \<Longrightarrow> ms_stale (assemble_market m d sol None su l a now) \<and>
     ms_liquidity_usd (assemble_market m d sol None su l a now) = 0"
  by (simp add: assemble_market_def Let_def)

lemma assemble_market_listed:
  "(\<And>r. q = Some r \<Longrightarrow> q_out_amount_raw r = 0) \<Longrightarrow>
     ms_price_usd (assemble_market m d sol q su l a now) = num l 0"
  by (auto simp: assemble_market_def Let_def split: option.split)

lemma assemble_market_unquoted:
  "ms_price_usd (assemble_market m d sol None su l a now) = num l 0"
  by (simp add: assemble_market_def Let_def)

text \<open>A cached snapshot that is served is younger than five seconds.\<close>

lemma get_market_state_fresh:
  assumes "get_market_state jup h mint dec now c = (ms, c')"
  shows "ms_fetched_at ms = now \<or> now - ms_fetched_at ms < 5000000"
proof -
  have b: "ms_fetched_at (fst (build_market jup h mint dec now c)) = now"
    by (simp add: build_market_def assemble_market_def Let_def split: prod.split)
  have conv: "of_int x / 10 ^ 6 < (5 :: rat) \<longleftrightarrow> x < 5000000" for x
  proof -
    have "of_int x / 10 ^ 6 < (5 :: rat) \<longleftrightarrow> (of_int x :: rat) < of_int 5000000" by simp
    then show ?thesis unfolding of_int_less_iff .
  qed
  show ?thesis
    using assms b
    by (auto simp: get_market_state_def MARKET_TTL_def conv split: option.splits if_splits prod.splits)
qed

text \<open>
  A token nobody can price is not traded: when the price service has no positive price and
  the router gives no usable probe quote, the fresh snapshot is marked stale, is not cached, and
  the decision engine that reads it rejects the trade before it asks for anything else.
\<close>

theorem unpriced_token_rejected:
  assumes "get_market_state jup h mint dec now c = (ms, c')" "live_entry now (mc_markets c mint) = None"
    and "num (or_none (jx_price_usd jup mint)) 0 \<le> 0"
    and "\<And>n q. or_none (jx_quote jup SOL_MINT mint n) = Some q \<Longrightarrow> q_out_amount_raw q = 0"
    and "dp_market_state data mint (st_token_decimals trade) = ms" "st_token_mint trade = mint"
    and "st_action trade = ACT_BUY" "g_passed (trader_gate
      \<lparr>c_id = cid, c_source_trade = trade, c_trader = trader, c_market = default_market mint,
       c_token_risk = None, c_quote = None, c_confirmations = confs, c_created_at = dp_now data 0\<rparr>
      (copyability st))"
  shows "ms_stale ms \<and> mc_markets c' = mc_markets c \<and>
    enrich_entry st data cid l trade trader confs = reject_now data cid l [R_STALE_MARKET_DATA] []"
proof -
  obtain b c1 where b: "build_market jup h mint dec now c = (b, c1)" by force
  have price: "ms_price_usd b = num (or_none (jx_price_usd jup mint)) 0"
    using b assms(4) unfolding build_market_def Let_def
    by (auto simp: assemble_market_listed assemble_market_unquoted split: prod.splits if_splits)
  have m: "mc_markets c1 = mc_markets c"
    using b unfolding build_market_def Let_def
    by (auto simp: sol_price_usd_def token_supply_cached_def token_age_cached_def Let_def
        split: prod.splits option.splits sum.splits if_splits)
  have stale: "ms_stale b" "ms_price b \<le> 0"
    using b price assms(3) unfolding build_market_def Let_def
    by (auto simp: assemble_market_def Let_def divide_le_0_iff split: prod.splits)
  have "ms = b" "c' = c1"
    using assms(1,2) b stale by (auto simp: get_market_state_def)
  then have "ms_stale ms" "mc_markets c' = mc_markets c" using stale m by simp_all
  moreover have "enrich_entry st data cid l trade trader confs =
      reject_now data cid l [R_STALE_MARKET_DATA] []"
    using assms(5-8) \<open>ms_stale ms\<close> by (simp add: enrich_entry_def Let_def)
  ultimately show ?thesis by blast
qed

definition silent_jupiter :: jupiter where
  "silent_jupiter = \<lparr>jx_sol_price_usd = 150, jx_quote = (\<lambda>a b n. Inl (ProviderError ''down'')),
     jx_price_usd = (\<lambda>m. Inl (ProviderError ''down''))\<rparr>"

definition silent_helius :: helius where
  "silent_helius = \<lparr>hx_token_supply = (\<lambda>m. Inr None), hx_mint_authority = (\<lambda>m. Inr None),
     hx_block_times = (\<lambda>m. Inr [])\<rparr>"

definition empty_cache :: market_cache where
  "empty_cache = \<lparr>mc_sol = None, mc_markets = Map.empty, mc_supply = Map.empty, mc_age = Map.empty\<rparr>"

definition live_data :: "market_state \<Rightarrow> data_provider" where
  "live_data ms = \<lparr>dp_market_state = (\<lambda>m d. ms), dp_token_risk = (\<lambda>m. sample_risk),
     dp_sol_price_usd = 150, dp_quote = (\<lambda>i out a. Some sample_quote),
     dp_insider_flags = (\<lambda>w m v a. []), dp_now = (\<lambda>k. 2000000)\<rparr>"

lemma unpriced_token_rejected_witness:
  "enrich_entry default_settings
     (live_data (fst (get_market_state silent_jupiter silent_helius ''MINT'' 6 0 empty_cache)))
     1 no_latency sample_trade sample_trader [] =
   reject_now (live_data (fst (get_market_state silent_jupiter silent_helius ''MINT'' 6 0 empty_cache)))
     1 no_latency [R_STALE_MARKET_DATA] []"
proof -
  obtain ms c' where e: "get_market_state silent_jupiter silent_helius ''MINT'' 6 0 empty_cache = (ms, c')"
    by force
  have g: "g_passed (trader_gate \<lparr>c_id = 1, c_source_trade = sample_trade, c_trader = sample_trader,
      c_market = default_market ''MINT'', c_token_risk = None, c_quote = None, c_confirmations = [],
      c_created_at = dp_now (live_data ms) 0\<rparr> (copyability default_settings))"
    by (simp add: trader_gate_passed sample_defs is_followed_def default_settings_def
        default_copyability_def)
  show ?thesis
    unfolding e fst_conv
    by (rule unpriced_token_rejected [OF e, THEN conjunct2, THEN conjunct2])
      (use g in \<open>simp_all add: empty_cache_def live_entry_def silent_jupiter_def or_none_def
        live_data_def sample_trade_def\<close>)
qed

end
