(* ===== verification/Py_Text.thy ===== *)
theory Py_Text
  imports Prelude
begin

text \<open>
  The text functions of Python's standard library that several components call:
  \<^verbatim>\<open>str.strip\<close>, \<^verbatim>\<open>str.rstrip(chars)\<close>, \<^verbatim>\<open>str.lower\<close>, \<^verbatim>\<open>str.split\<close> and the
  \<^verbatim>\<open>Decimal\<close> constructor on a string.  A character is one of the first 256 code points.
\<close>

section \<open>Stripping, case and splitting\<close>

definition is_space :: "char \<Rightarrow> bool" where
  "is_space c \<longleftrightarrow>
     c \<in> {CHR 0x09, CHR 0x0A, CHR 0x0B, CHR 0x0C, CHR 0x0D, CHR 0x1C, CHR 0x1D, CHR 0x1E,
          CHR 0x1F, CHR '' '', CHR 0x85, CHR 0xA0}"

definition lstrip :: "string \<Rightarrow> string" where
  "lstrip s = dropWhile is_space s"

definition rstrip_chars :: "string \<Rightarrow> string \<Rightarrow> string" where
  "rstrip_chars cs s = rev (dropWhile (\<lambda>c. c \<in> set cs) (rev s))"

definition strip :: "string \<Rightarrow> string" where
  "strip s = rev (dropWhile is_space (rev (dropWhile is_space s)))"

definition ascii_lower :: "char \<Rightarrow> char" where
  "ascii_lower c =
     (if 65 \<le> (of_char c :: nat) \<and> (of_char c :: nat) \<le> 90
        then char_of ((of_char c :: nat) + 32) else c)"

text \<open>\<^verbatim>\<open>s.split(c)\<close> on one separator: at least one piece, empty pieces kept.\<close>

fun split_on :: "char \<Rightarrow> string \<Rightarrow> string list" where
  "split_on c [] = [[]]"
| "split_on c (x # xs) =
     (if x = c then [] # split_on c xs
      else case split_on c xs of [] \<Rightarrow> [[x]] | w # ws \<Rightarrow> (x # w) # ws)"

lemma split_on_not_Nil [simp]: "split_on c s \<noteq> []"
  by (induction c s rule: split_on.induct) (auto split: list.splits)

lemma dropWhile_none: "\<forall>c \<in> set s. \<not> P c \<Longrightarrow> dropWhile P s = s"
  by (cases s) auto

lemma strip_no_space: "\<forall>c \<in> set s. \<not> is_space c \<Longrightarrow> strip s = s"
  by (simp add: strip_def dropWhile_none)

section \<open>Decimal from text\<close>

text \<open>
  \<^verbatim>\<open>Decimal(text)\<close> trims white space, drops underscores and then accepts an optional
  sign with digits, an optional point and exponent, or one of the special values.  Anything
  else raises \<^verbatim>\<open>InvalidOperation\<close>, here \<^const>\<open>None\<close>.
\<close>

datatype decimal_value = Dec_num rat | Dec_inf bool | Dec_nan

definition digit_of :: "char \<Rightarrow> nat option" where
  "digit_of c =
     (let n = of_char c in if 48 \<le> n \<and> n \<le> 57 then Some (n - 48) else None)"

fun digits_value :: "nat \<Rightarrow> string \<Rightarrow> nat option" where
  "digits_value acc [] = Some acc"
| "digits_value acc (c # cs) =
     (case digit_of c of None \<Rightarrow> None | Some d \<Rightarrow> digits_value (10 * acc + d) cs)"

definition take_sign :: "string \<Rightarrow> bool \<times> string" where
  "take_sign s =
     (case s of [] \<Rightarrow> (False, [])
      | c # cs \<Rightarrow> if c = CHR ''-'' then (True, cs)
                   else if c = CHR ''+'' then (False, cs) else (False, s))"

definition is_digit :: "char \<Rightarrow> bool" where
  "is_digit c \<longleftrightarrow> digit_of c \<noteq> None"

text \<open>The exponent part: nothing, or \<open>e\<close>, a sign and at least one digit.\<close>

definition exponent_of :: "string \<Rightarrow> int option" where
  "exponent_of s =
     (case s of [] \<Rightarrow> Some 0
      | c # cs \<Rightarrow>
          if ascii_lower c \<noteq> CHR ''e'' then None
          else let (neg, ds) = take_sign cs
               in if ds = [] then None
                  else case digits_value 0 ds of None \<Rightarrow> None
                       | Some n \<Rightarrow> Some (if neg then - int n else int n))"

definition unsigned_decimal :: "string \<Rightarrow> rat option" where
  "unsigned_decimal s =
     (let ip = takeWhile is_digit s; rest = dropWhile is_digit s;
          (fp, ex) = (case rest of [] \<Rightarrow> ([], [])
             | c # cs \<Rightarrow> if c = CHR ''.'' then (takeWhile is_digit cs, dropWhile is_digit cs)
                          else ([], rest))
      in if ip @ fp = [] then None
         else case (digits_value 0 (ip @ fp), exponent_of ex) of
                (Some m, Some e) \<Rightarrow>
                  Some (of_nat m * (10::rat) powi (e - int (length fp)))
              | _ \<Rightarrow> None)"

definition decimal_of_text :: "string \<Rightarrow> decimal_value option" where
  "decimal_of_text text =
     (let (neg, s) = take_sign (filter (\<lambda>c. c \<noteq> CHR ''_'') (strip text));
          low = map ascii_lower s
      in if low = ''inf'' \<or> low = ''infinity'' then Some (Dec_inf neg)
         else if (take 3 low = ''nan'' \<and> list_all is_digit (drop 3 low))
                 \<or> (take 4 low = ''snan'' \<and> list_all is_digit (drop 4 low)) then Some Dec_nan
         else map_option (\<lambda>q. Dec_num (if neg then - q else q)) (unsigned_decimal s))"

lemma decimal_examples:
  "decimal_of_text ''12.50'' = Some (Dec_num (25/2))"
  "decimal_of_text '' -1_000 '' = Some (Dec_num (-1000))"
  "decimal_of_text ''1e3'' = Some (Dec_num 1000)"
  "decimal_of_text ''NaN'' = Some Dec_nan"
  "decimal_of_text ''1.2.3'' = None"
  "decimal_of_text '''' = None"
  by code_simp+

end
