(* ===== verification/Promotion.thy ===== *)
theory Promotion
  imports Config Py_Text
begin

text \<open>
  \<^verbatim>\<open>promotion.py\<close>, the mode routes of the API and the hourly task: the evidence
  gates between backtest, paper, shadow and live trading.  The rows the queries read are lists
  of the store; the texts of the gates are omitted, their names and verdicts kept.  Days are
  whole days of the wall clock \<open>now\<close>.
\<close>

definition MIN_PAPER_TRADES :: int where "MIN_PAPER_TRADES = 30"

definition MIN_PAPER_DAYS :: int where "MIN_PAPER_DAYS = 3"

definition MIN_SHADOW_TRADES :: int where "MIN_SHADOW_TRADES = 20"

definition MIN_SHADOW_DAYS :: int where "MIN_SHADOW_DAYS = 5"

record gate =
  gt_name :: string
  gt_passed :: bool

record readiness =
  rd_current :: mode
  rd_target :: "mode option"
  rd_gates :: "gate list"
  rd_automatic :: bool

definition ready :: "readiness \<Rightarrow> bool" where
  "ready r \<longleftrightarrow> rd_gates r \<noteq> [] \<and> list_all gt_passed (rd_gates r)"

definition blockers :: "readiness \<Rightarrow> string list" where
  "blockers r = map gt_name (filter (\<lambda>g. \<not> gt_passed g) (rd_gates r))"

section \<open>The store\<close>

record position_row =
  pr_mode :: string
  pr_status :: position_status
  pr_realized_pnl_usd :: usd
  pr_opened_at :: datetime

record backtest_row =
  bt_status :: string
  bt_finished_at :: datetime
  bt_verdict :: string

record promo_store =
  ps_settings :: settings
  ps_positions :: "position_row list"
  ps_backtests :: "backtest_row list"
  ps_redis_mode :: "string option"
  ps_db_mode :: "string option"
  ps_audit :: "(string \<times> string \<times> string \<times> string) list"   \<comment> \<open>actor, action, before, after\<close>

definition current_mode :: "promo_store \<Rightarrow> mode" where
  "current_mode s = mode_setting (ps_settings s)"

definition closed_trades :: "string \<Rightarrow> promo_store \<Rightarrow> int \<times> usd \<times> datetime option" where
  "closed_trades m s =
     (let rows = filter (\<lambda>p. pr_mode p = m \<and> pr_status p = POS_CLOSED) (ps_positions s)
      in (int (length rows), sum_list (map pr_realized_pnl_usd rows),
          if rows = [] then None else Some (Min (set (map pr_opened_at rows)))))"

definition latest_backtest :: "promo_store \<Rightarrow> backtest_row option" where
  "latest_backtest s =
     max_key bt_finished_at (filter (\<lambda>b. bt_status b = ''complete'') (ps_backtests s))"

definition open_positions :: "string \<Rightarrow> promo_store \<Rightarrow> int" where
  "open_positions m s =
     int (length (filter (\<lambda>p. pr_mode p = m \<and>
       pr_status p \<in> {POS_OPEN, POS_REDUCING, POS_PENDING}) (ps_positions s)))"

definition stage_gates :: "datetime \<Rightarrow> string \<Rightarrow> int \<Rightarrow> int \<Rightarrow> promo_store \<Rightarrow> gate list" where
  "stage_gates now m min_trades min_days s =
     (let (count, pnl, first) = closed_trades m s;
          days = (case first of None \<Rightarrow> 0 | Some f \<Rightarrow> (now - f) div 86400000000)
      in [\<lparr>gt_name = ''sample'', gt_passed = (min_trades \<le> count)\<rparr>,
          \<lparr>gt_name = ''duration'', gt_passed = (min_days \<le> days)\<rparr>,
          \<lparr>gt_name = ''profitable'', gt_passed = (0 < pnl)\<rparr>])"

section \<open>Wallets\<close>

definition B58 :: string where
  "B58 = ''123456789ABCDEFGHJKLMNPQRSTUVWXYZabcdefghijkmnopqrstuvwxyz''"

definition bad_address :: "string \<Rightarrow> bool" where
  "bad_address v \<longleftrightarrow> \<not> list_all (\<lambda>c. c \<in> set B58) v \<or> length v < 32 \<or> 44 < length v"

definition wallets_verdict :: "settings \<Rightarrow> bool" where
  "wallets_verdict st =
     (let trading = strip (trading_wallet_pubkey st); treasury = strip (treasury_wallet_pubkey st)
      in if trading = [] \<or> treasury = [] then False
         else if bad_address trading \<or> bad_address treasury then False
         else if trading = treasury then False
         else True)"

section \<open>Readiness and advance\<close>

definition starts_with :: "string \<Rightarrow> string \<Rightarrow> bool" where
  "starts_with p s \<longleftrightarrow> take (length p) s = p"

definition check_readiness :: "datetime \<Rightarrow> promo_store \<Rightarrow> readiness" where
  "check_readiness now s =
     (case current_mode s of
        MODE_BACKTEST \<Rightarrow>
          \<lparr>rd_current = MODE_BACKTEST, rd_target = Some MODE_PAPER,
           rd_gates = [\<lparr>gt_name = ''ready'', gt_passed = True\<rparr>], rd_automatic = True\<rparr>
      | MODE_PAPER \<Rightarrow>
          \<lparr>rd_current = MODE_PAPER, rd_target = Some MODE_SHADOW,
           rd_gates = stage_gates now ''paper'' MIN_PAPER_TRADES MIN_PAPER_DAYS s @
             [\<lparr>gt_name = ''backtest'', gt_passed = (case latest_backtest s of
                  None \<Rightarrow> False | Some b \<Rightarrow> starts_with ''VIABLE'' (bt_verdict b))\<rparr>],
           rd_automatic = True\<rparr>
      | MODE_SHADOW \<Rightarrow>
          \<lparr>rd_current = MODE_SHADOW, rd_target = Some MODE_LIVE,
           rd_gates = stage_gates now ''shadow'' MIN_SHADOW_TRADES MIN_SHADOW_DAYS s @
             [\<lparr>gt_name = ''wallets'', gt_passed = wallets_verdict (ps_settings s)\<rparr>],
           rd_automatic = False\<rparr>
      | MODE_LIVE \<Rightarrow>
          \<lparr>rd_current = MODE_LIVE, rd_target = None,
           rd_gates = [\<lparr>gt_name = ''live'', gt_passed = True\<rparr>], rd_automatic = False\<rparr>)"

definition persist_mode :: "mode \<Rightarrow> promo_store \<Rightarrow> promo_store" where
  "persist_mode m s = s\<lparr>ps_redis_mode := Some (mode_value m), ps_db_mode := Some (mode_value m)\<rparr>"

definition set_settings_mode :: "mode \<Rightarrow> promo_store \<Rightarrow> promo_store" where
  "set_settings_mode m s = s\<lparr>ps_settings := (ps_settings s)\<lparr>mode_setting := m\<rparr>\<rparr>"

definition log_audit :: "string \<Rightarrow> string \<Rightarrow> mode \<Rightarrow> mode \<Rightarrow> promo_store \<Rightarrow> promo_store" where
  "log_audit actor act before after s =
     s\<lparr>ps_audit := (actor, act, mode_value before, mode_value after) # ps_audit s\<rparr>"

datatype refusal = No_further_stage | Live_never_automatic | Blocked "string list" | Positions_open

text \<open>\<^verbatim>\<open>changed\<close> is \<open>Inr (previous, current)\<close>.\<close>

definition advance ::
    "datetime \<Rightarrow> mode option \<Rightarrow> string \<Rightarrow> promo_store \<Rightarrow> (refusal + mode \<times> mode) \<times> promo_store" where
  "advance now force_target actor s =
     (let r = check_readiness now s
      in case (case force_target of Some t \<Rightarrow> Some t | None \<Rightarrow> rd_target r) of
           None \<Rightarrow> (Inl No_further_stage, s)
         | Some target \<Rightarrow>
             if target = MODE_LIVE \<and> force_target = None then (Inl Live_never_automatic, s)
             else if \<not> ready r then (Inl (Blocked (blockers r)), s)
             else if open_positions (mode_value (current_mode s)) s \<noteq> 0
               then (Inl Positions_open, s)
             else let previous = current_mode s
                  in (Inr (previous, target),
                      log_audit actor ''mode_changed'' previous target
                        (persist_mode target (set_settings_mode target s))))"

definition load_mode :: "promo_store \<Rightarrow> promo_store" where
  "load_mode s =
     (let stored = (case ps_redis_mode s of
                      Some v \<Rightarrow> if v = [] then ps_db_mode s else Some v
                    | None \<Rightarrow> ps_db_mode s)
      in case stored of
           None \<Rightarrow> s
         | Some v \<Rightarrow>
             if v = [] then s
             else case mode_of_value v of None \<Rightarrow> s | Some m \<Rightarrow> set_settings_mode m s)"

section \<open>The routes and the hourly task\<close>

definition CONFIRM_PHRASE :: string where
  "CONFIRM_PHRASE = ''trade real money''"

definition lower_char :: "char \<Rightarrow> char" where
  "lower_char c =
     (let n = of_char c :: nat in if 65 \<le> n \<and> n \<le> 90 then char_of (n + 32) else c)"

datatype http = Ok "mode \<times> mode" | Http_error int

definition route_advance :: "datetime \<Rightarrow> promo_store \<Rightarrow> http \<times> promo_store" where
  "route_advance now s =
     (case advance now None ''api'' s of
        (Inl _, s') \<Rightarrow> (Http_error 409, s') | (Inr c, s') \<Rightarrow> (Ok c, s'))"

definition route_go_live :: "datetime \<Rightarrow> string \<Rightarrow> promo_store \<Rightarrow> http \<times> promo_store" where
  "route_go_live now confirm s =
     (if map lower_char (strip confirm) \<noteq> CONFIRM_PHRASE then (Http_error 400, s)
      else case advance now (Some MODE_LIVE) ''api'' s of
        (Inl _, s') \<Rightarrow> (Http_error 409, s') | (Inr c, s') \<Rightarrow> (Ok c, s'))"

fun mode_rank :: "mode \<Rightarrow> nat" where
  "mode_rank MODE_BACKTEST = 0"
| "mode_rank MODE_PAPER = 1"
| "mode_rank MODE_SHADOW = 2"
| "mode_rank MODE_LIVE = 3"

definition route_set_mode :: "string \<Rightarrow> promo_store \<Rightarrow> http \<times> promo_store" where
  "route_set_mode m s =
     (case mode_of_value m of
        None \<Rightarrow> (Http_error 400, s)
      | Some target \<Rightarrow>
          if mode_rank (current_mode s) < mode_rank target then (Http_error 409, s)
          else if open_positions (mode_value (current_mode s)) s \<noteq> 0 then (Http_error 409, s)
          else let previous = current_mode s
               in (Ok (previous, target),
                   log_audit ''api'' ''mode_lowered'' previous target
                     (persist_mode target (set_settings_mode target s))))"

definition auto_advance :: "datetime \<Rightarrow> promo_store \<Rightarrow> (refusal + mode \<times> mode) \<times> promo_store" where
  "auto_advance now s =
     (if rd_target (check_readiness now s) = Some MODE_LIVE then (Inl Live_never_automatic, s)
      else advance now None ''auto'' s)"

section \<open>Steps\<close>

text \<open>
  Everything but the live route that touches the mode, with the trading that goes on between:
  positions and backtests change in any way.  The mode is reloaded at the start of a service.
\<close>

inductive mode_step :: "promo_store \<Rightarrow> promo_store \<Rightarrow> bool" where
  advance_route: "mode_step s (snd (route_advance now s))"
| set_route: "mode_step s (snd (route_set_mode m s))"
| hourly: "mode_step s (snd (auto_advance now s))"
| trading: "mode_step s (s\<lparr>ps_positions := ps, ps_backtests := bs\<rparr>)"
| reload: "mode_step s (load_mode s)"

inductive_cases mode_stepE: "mode_step s s'"

definition stored_mode_ok :: "promo_store \<Rightarrow> bool" where
  "stored_mode_ok s \<longleftrightarrow> current_mode s \<noteq> MODE_LIVE \<and>
     ps_redis_mode s \<noteq> Some ''live'' \<and> ps_db_mode s \<noteq> Some ''live''"

lemma mode_value_live [simp]: "mode_value m = ''live'' \<longleftrightarrow> m = MODE_LIVE"
  by (cases m) simp_all

lemma mode_of_value_live: "mode_of_value v = Some MODE_LIVE \<longleftrightarrow> v = ''live''"
  by (auto simp: mode_of_value_def)

lemmas mode_updates = log_audit_def persist_mode_def set_settings_mode_def current_mode_def

lemma advance_cases:
  assumes "advance now force actor s = (r, s')"
  shows "(\<exists>e. r = Inl e \<and> s' = s) \<or>
    (\<exists>t. r = Inr (current_mode s, t) \<and> ready (check_readiness now s) \<and>
       open_positions (mode_value (current_mode s)) s = 0 \<and>
       (force = Some t \<or> force = None \<and> rd_target (check_readiness now s) = Some t \<and> t \<noteq> MODE_LIVE) \<and>
       s' = log_audit actor ''mode_changed'' (current_mode s) t (persist_mode t (set_settings_mode t s)))"
  using assms by (auto simp: advance_def Let_def split: option.splits if_splits)

lemma set_stored_mode_ok:
  "stored_mode_ok s \<Longrightarrow> t \<noteq> MODE_LIVE \<Longrightarrow>
     stored_mode_ok (log_audit a x b t (persist_mode t (set_settings_mode t s)))"
  by (auto simp: stored_mode_ok_def mode_updates)

lemma advance_stored_mode_ok:
  "stored_mode_ok s \<Longrightarrow> stored_mode_ok (snd (advance now None actor s))"
  using advance_cases [of now None actor s] set_stored_mode_ok
  by (cases "advance now None actor s") fastforce

lemma mode_step_stored_mode_ok: "mode_step s s' \<Longrightarrow> stored_mode_ok s \<Longrightarrow> stored_mode_ok s'"
proof (induction rule: mode_step.induct)
  case (advance_route s now)
  then show ?case
    using advance_stored_mode_ok [of s now "''api''"]
    by (auto simp: route_advance_def split: prod.splits sum.splits)
next
  case (set_route s m)
  have "t \<noteq> MODE_LIVE" if "\<not> mode_rank (current_mode s) < mode_rank t" for t
    using set_route that by (cases t; cases "current_mode s") (auto simp: stored_mode_ok_def)
  then show ?case
    using set_route by (auto simp: route_set_mode_def Let_def intro: set_stored_mode_ok split: option.splits)
next
  case (hourly s now)
  then show ?case by (auto simp: auto_advance_def intro: advance_stored_mode_ok)
next
  case (trading s ps bs)
  then show ?case by (simp add: stored_mode_ok_def current_mode_def)
next
  case (reload s)
  then show ?case
    by (auto simp: load_mode_def Let_def stored_mode_ok_def mode_updates mode_of_value_live
        split: option.splits if_splits)
qed


definition sample_promo :: "mode \<Rightarrow> promo_store" where
  "sample_promo m = \<lparr>ps_settings = default_settings\<lparr>mode_setting := m\<rparr>, ps_positions = [],
     ps_backtests = [], ps_redis_mode = None, ps_db_mode = None, ps_audit = []\<rparr>"


text \<open>
  Out of shadow mode the live route succeeds exactly when the phrase was typed, twenty
  shadow trades were closed over at least five days with a positive result, both wallets are
  well-formed and different, and no shadow position is open; it then sets and persists the mode
  and writes an audit record, and otherwise changes nothing.
\<close>

theorem go_live_from_shadow_iff:
  assumes "current_mode s = MODE_SHADOW" "closed_trades ''shadow'' s = (count, pnl, first)"
  shows "(if map lower_char (strip confirm) = CONFIRM_PHRASE \<and> 20 \<le> count \<and> 0 < pnl \<and>
       (\<exists>f. first = Some f \<and> 5 \<le> (now - f) div 86400000000) \<and>
       wallets_verdict (ps_settings s) \<and> open_positions ''shadow'' s = 0
     then fst (route_go_live now confirm s) = Ok (MODE_SHADOW, MODE_LIVE) \<and>
       current_mode (snd (route_go_live now confirm s)) = MODE_LIVE \<and>
       ps_redis_mode (snd (route_go_live now confirm s)) = Some ''live'' \<and>
       (''api'', ''mode_changed'', ''shadow'', ''live'') \<in> set (ps_audit (snd (route_go_live now confirm s)))
     else snd (route_go_live now confirm s) = s)"
proof -
  have r: "ready (check_readiness now s) \<longleftrightarrow> 20 \<le> count \<and> 0 < pnl \<and>
      (\<exists>f. first = Some f \<and> 5 \<le> (now - f) div 86400000000) \<and> wallets_verdict (ps_settings s)"
    by (auto simp: ready_def check_readiness_def assms stage_gates_def Let_def
        MIN_SHADOW_TRADES_def MIN_SHADOW_DAYS_def split: option.splits)
  have o: "mode_value (current_mode s) = ''shadow''" by (simp add: assms(1))
  show ?thesis
    unfolding route_go_live_def advance_def Let_def o
    using r assms(1) by (auto simp: mode_updates)
qed

definition shadow_position :: position_row where
  "shadow_position = \<lparr>pr_mode = ''shadow'', pr_status = POS_CLOSED, pr_realized_pnl_usd = 5,
     pr_opened_at = 0\<rparr>"

definition ready_promo :: promo_store where
  "ready_promo = (sample_promo MODE_SHADOW)\<lparr>
     ps_settings := (ps_settings (sample_promo MODE_SHADOW))\<lparr>
       trading_wallet_pubkey := replicate 40 CHR ''A'', treasury_wallet_pubkey := replicate 40 CHR ''B''\<rparr>,
     ps_positions := replicate 20 shadow_position\<rparr>"

lemma go_live_from_shadow_iff_witness:
  "fst (route_go_live 864000000000 '' Trade Real Money '' ready_promo) = Ok (MODE_SHADOW, MODE_LIVE)"
proof -
  have m: "current_mode ready_promo = MODE_SHADOW"
    by (simp add: ready_promo_def sample_promo_def current_mode_def)
  have c: "closed_trades ''shadow'' ready_promo = (20, 100, Some 0)"
    "map lower_char (strip '' Trade Real Money '') = CONFIRM_PHRASE"
    "wallets_verdict (ps_settings ready_promo)" "open_positions ''shadow'' ready_promo = 0"
    by code_simp+
  show ?thesis using go_live_from_shadow_iff [OF m c(1), of "'' Trade Real Money ''" 864000000000] c by simp
qed

text \<open>
  Out of the earlier stages the live route checks the gates of that stage and not those of
  shadow: a fresh system in backtest mode, with no trade, no backtest and no wallet, goes live.
\<close>

lemma go_live_skips_the_stages:
  "fst (route_go_live 0 ''trade real money'' (sample_promo MODE_BACKTEST)) = Ok (MODE_BACKTEST, MODE_LIVE)"
  by code_simp

end
