(* ===== verification/Execution_Base.thy ===== *)
theory Execution_Base
  imports Samples
begin

text \<open>
  \<^verbatim>\<open>execution/base.py\<close>, \<^verbatim>\<open>execution/mev.py\<close>,
  \<^verbatim>\<open>execution/paper.py\<close>, \<^verbatim>\<open>backtest/executor.py\<close>,
  \<^verbatim>\<open>execution/factory.py\<close> and the two signers: the execution record, the sandwich
  protection, simulated fills and the rules a signature has to pass.  A random draw is an
  argument \<open>u\<close> in the unit interval, the clock an argument \<open>now\<close>.
\<close>

section \<open>Executions\<close>

text \<open>The first sixteen hexadecimal digits of an order's id, a 128-bit UUID.\<close>

definition hex_digit :: "nat \<Rightarrow> char" where
  "hex_digit n = ''0123456789abcdef'' ! (n mod 16)"

definition id_hex16 :: "nat \<Rightarrow> string" where
  "id_hex16 uuid = map (\<lambda>i. hex_digit (uuid div 16 ^ (31 - i))) [0..<16]"

definition new_execution :: "approved_order \<Rightarrow> string \<Rightarrow> execution" where
  "new_execution order m =
     \<lparr>ex_order_id = o_id order, ex_status = ORD_CREATED, ex_mode = m, ex_signature = None,
      ex_expected_price = ms_price (c_market (o_candidate order)), ex_actual_price = 0,
      ex_source_price = st_source_price (c_source_trade (o_candidate order)),
      ex_expected_slippage_pct = (case c_quote (o_candidate order) of
        None \<Rightarrow> 0 | Some q \<Rightarrow> q_price_impact_pct q),
      ex_actual_slippage_pct = 0, ex_in_amount_raw = o_in_amount_raw order,
      ex_out_amount_raw = 0, ex_value_usd = 0, ex_network_fee_lamports = 0,
      ex_priority_fee_lamports = 0, ex_route = [], ex_failure_reason = None,
      ex_latency = o_latency order\<rparr>"

definition fail_execution :: "string \<Rightarrow> execution \<Rightarrow> execution" where
  "fail_execution reason ex = ex\<lparr>ex_status := ORD_FAILED, ex_failure_reason := Some reason\<rparr>"

record quality =
  qu_vs_expected_pct :: pct
  qu_vs_source_pct :: pct
  qu_slippage_error_pct :: pct
  qu_total_fee_lamports :: int

definition execution_quality :: "execution \<Rightarrow> quality" where
  "execution_quality ex =
     \<lparr>qu_vs_expected_pct = pct_change (ex_expected_price ex) (ex_actual_price ex),
      qu_vs_source_pct = pct_change (ex_source_price ex) (ex_actual_price ex),
      qu_slippage_error_pct = ex_actual_slippage_pct ex - ex_expected_slippage_pct ex,
      qu_total_fee_lamports = total_fee_lamports ex\<rparr>"

definition stamp_built :: "datetime \<Rightarrow> execution \<Rightarrow> execution" where
  "stamp_built now ex = ex\<lparr>ex_latency := (ex_latency ex)\<lparr>lat_transaction_built_at := Some now\<rparr>\<rparr>"

definition stamp_signed :: "datetime \<Rightarrow> execution \<Rightarrow> execution" where
  "stamp_signed now ex = ex\<lparr>ex_latency := (ex_latency ex)\<lparr>lat_signed_at := Some now\<rparr>\<rparr>"

definition stamp_submitted :: "datetime \<Rightarrow> execution \<Rightarrow> execution" where
  "stamp_submitted now ex = ex\<lparr>ex_latency := (ex_latency ex)\<lparr>lat_submitted_at := Some now\<rparr>\<rparr>"

definition stamp_confirmed :: "datetime \<Rightarrow> execution \<Rightarrow> execution" where
  "stamp_confirmed now ex = ex\<lparr>ex_latency := (ex_latency ex)\<lparr>lat_confirmed_at := Some now\<rparr>\<rparr>"

lemmas stamp_defs = stamp_built_def stamp_signed_def stamp_submitted_def stamp_confirmed_def

lemma stamp_simps [simp]:
  "ex_status (stamp_built t ex) = ex_status ex" "ex_status (stamp_signed t ex) = ex_status ex"
  "ex_status (stamp_submitted t ex) = ex_status ex" "ex_status (stamp_confirmed t ex) = ex_status ex"
  "ex_value_usd (stamp_built t ex) = ex_value_usd ex"
  "ex_value_usd (stamp_signed t ex) = ex_value_usd ex"
  "ex_value_usd (stamp_submitted t ex) = ex_value_usd ex"
  "ex_value_usd (stamp_confirmed t ex) = ex_value_usd ex"
  "ex_out_amount_raw (stamp_confirmed t ex) = ex_out_amount_raw ex"
  "ex_actual_price (stamp_confirmed t ex) = ex_actual_price ex"
  "ex_expected_price (stamp_confirmed t ex) = ex_expected_price ex"
  "ex_signature (stamp_confirmed t ex) = ex_signature ex"
  by (simp_all add: stamp_defs)

lemma fail_execution_simps [simp]:
  "ex_status (fail_execution r ex) = ORD_FAILED" "ex_failure_reason (fail_execution r ex) = Some r"
  by (simp_all add: fail_execution_def)

section \<open>Sandwich protection\<close>

definition JITO_TIP_ACCOUNTS :: "string list" where
  "JITO_TIP_ACCOUNTS = [
     ''96gYZGLnJYVFmbjzopPSU6QiEV5fGqZNyN9nmNhvrZU5'',
     ''HFqU5x63VTqvQss8hp11i4wVV8bD44PvwucfZ2bU7gRe'',
     ''Cw8CFyM9FkoMi7K7Crf6HNQqf4uEMzpKw6QNghXLvLkY'',
     ''ADaUMid9yfUytqMBgopwjb2DTLSokTSzL1zt6iGPaS49'',
     ''DfXygSm4jCyNCybVYYK6DwvWqjKee8pbDmJGcLWNDXjh'',
     ''ADuUkR4vqLUMWXxW9gh6D6L8pMSawimctcNZ5pGwDcEt'',
     ''DttWaMuVvTiduZRnguLF7jNxTgiMBZ1hyAumKUiL2KRL'',
     ''3AVi9Tg9Uo68tJfuvoKvqKNWKkC5wPdSSdeBnizKZ6jT'']"

definition MIN_TIP_LAMPORTS :: int where "MIN_TIP_LAMPORTS = 1000"

definition SANDWICH_RISK_THRESHOLD :: rat where "SANDWICH_RISK_THRESHOLD = 25"

record protection_plan =
  pp_use_private_route :: bool
  pp_tip_lamports :: int
  pp_tip_account :: "string option"
  pp_max_price_impact_pct :: pct

definition tip_sol :: "protection_plan \<Rightarrow> rat" where
  "tip_sol p = lamports_to_sol (pp_tip_lamports p)"

definition sandwich_risk_score :: "usd \<Rightarrow> pct \<Rightarrow> usd \<Rightarrow> rat" where
  "sandwich_risk_score size_usd price_impact_pct liquidity_usd =
     (if size_usd \<le> 0 then 0
      else let impact_term = min (price_impact_pct * 20) 60;
               size_term = min (size_usd / 50) 40;
               depth_discount = (if 0 < liquidity_usd then min 1 (500000 / liquidity_usd + 3/10) else 1)
           in min ((impact_term + size_term) * depth_discount) 100)"

text \<open>\<open>pick\<close> is what \<^verbatim>\<open>rng.choice\<close> returns.\<close>

definition plan_protection ::
    "settings \<Rightarrow> string \<Rightarrow> usd \<Rightarrow> pct \<Rightarrow> usd \<Rightarrow> bool \<Rightarrow> protection_plan" where
  "plan_protection st pick size_usd price_impact_pct liquidity_usd urgent =
     (let rsk = sandwich_risk_score size_usd price_impact_pct liquidity_usd
      in if \<not> mev_protection_enabled st \<or> rsk < SANDWICH_RISK_THRESHOLD
           then \<lparr>pp_use_private_route = False, pp_tip_lamports = 0, pp_tip_account = None,
                 pp_max_price_impact_pct = max_expected_slippage_pct (copyability st)\<rparr>
         else let tip_fraction = mev_tip_bps st * (rsk / 100) / 10000;
                  tip_usd = size_usd * tip_fraction;
                  raw_tip = (if 0 < assumed_sol_price_usd st
                     then trunc_int (tip_usd / assumed_sol_price_usd st * 1000000000) else 0);
                  tip = max MIN_TIP_LAMPORTS (min raw_tip (max_tip_lamports st));
                  max_impact = max_expected_slippage_pct (copyability st) * (if urgent then 2 else 1)
              in \<lparr>pp_use_private_route = True, pp_tip_lamports = tip, pp_tip_account = Some pick,
                  pp_max_price_impact_pct = max_impact\<rparr>)"

definition tip_is_worth_it :: "int \<Rightarrow> usd \<Rightarrow> usd \<Rightarrow> pct \<Rightarrow> bool" where
  "tip_is_worth_it tip_lamports size_usd sol_usd expected_saving_pct \<longleftrightarrow>
     (if size_usd \<le> 0 \<or> sol_usd \<le> 0 then False
      else lamports_to_sol tip_lamports * sol_usd < size_usd * expected_saving_pct / 100)"

lemma sandwich_risk_bounds:
  assumes "0 \<le> impact"
  shows "0 \<le> sandwich_risk_score size_usd impact liq \<and> sandwich_risk_score size_usd impact liq \<le> 100"
  using assms by (auto simp: sandwich_risk_score_def Let_def min_def)

section \<open>Paper fills\<close>

definition BASE_FAIL_RATE :: rat where "BASE_FAIL_RATE = 4/100"

definition NETWORK_FEE_LAMPORTS :: int where "NETWORK_FEE_LAMPORTS = 5000"

definition DRIFT_PCT_PER_SECOND :: rat where "DRIFT_PCT_PER_SECOND = 35/100"

definition paper_failed :: "rat \<Rightarrow> pct \<Rightarrow> bool" where
  "paper_failed u impact_pct \<longleftrightarrow> u < min (BASE_FAIL_RATE + impact_pct / 100 * (1/2)) (1/2)"

definition analysis_seconds :: "approved_order \<Rightarrow> rat" where
  "analysis_seconds order =
     of_int (case analysis_ms (o_latency order) of None \<Rightarrow> 0 | Some ms \<Rightarrow> ms) / 1000"

definition is_buy :: "approved_order \<Rightarrow> bool" where
  "is_buy order \<longleftrightarrow> o_action order = ACT_BUY"

text \<open>A sale without a quote asks the router for one: \<open>requote\<close>.\<close>

definition paper_execute ::
    "settings \<Rightarrow> rat \<Rightarrow> datetime \<Rightarrow> quote option \<Rightarrow> approved_order \<Rightarrow> execution" where
  "paper_execute st u now requote order =
     (let ex = stamp_submitted now (stamp_built now (new_execution order ''paper''));
          quo = (case c_quote (o_candidate order) of
                   Some q \<Rightarrow> Some q
                 | None \<Rightarrow> if o_action order = ACT_SELL \<or> o_action order = ACT_PARTIAL_SELL
                           then requote else None)
      in case quo of
           None \<Rightarrow> fail_execution ''no_route'' ex
         | Some q \<Rightarrow>
             if q_out_amount_raw q = 0 then fail_execution ''no_route'' ex
             else
               let impact_pct = q_price_impact_pct q;
                   drift_pct = DRIFT_PCT_PER_SECOND * analysis_seconds order
               in if paper_failed u impact_pct
                    then stamp_confirmed now ((fail_execution ''simulated_tx_failure'' ex)
                      \<lparr>ex_priority_fee_lamports := priority_fee_lamports st,
                       ex_network_fee_lamports := NETWORK_FEE_LAMPORTS\<rparr>)
                  else
                    let expected = ms_price_usd (c_market (o_candidate order));
                        total_adverse = (impact_pct + drift_pct) / 100;
                        actual = max 0 (expected * (if is_buy order then 1 + total_adverse
                                                    else 1 - total_adverse));
                        decimals = ms_decimals (c_market (o_candidate order));
                        filled_ui = (if 0 < actual then o_size_usd order / actual else 0);
                        (out, val) = (if is_buy order
                          then (trunc_int (filled_ui * 10 ^ decimals), o_size_usd order)
                          else (trunc_int (of_int (q_out_amount_raw q) * max 0 (1 - drift_pct / 100)),
                                raw_to_ui (o_in_amount_raw order) decimals * actual))
                    in stamp_confirmed now (ex\<lparr>ex_status := ORD_CONFIRMED, ex_actual_price := actual,
                         ex_expected_price := expected, ex_actual_slippage_pct := impact_pct + drift_pct,
                         ex_out_amount_raw := out, ex_value_usd := val,
                         ex_network_fee_lamports := NETWORK_FEE_LAMPORTS,
                         ex_priority_fee_lamports := priority_fee_lamports st,
                         ex_route := (if q_route_label q = [] then ''simulated'' else q_route_label q),
                         ex_signature := Some (''paper-'' @ id_hex16 (o_id order))\<rparr>))"

section \<open>Backtest fills\<close>

record backtest_executor =
  be_fail_rate :: rat
  be_priority_fee :: int
  be_drift :: rat
  be_sol_price :: usd
  be_fills :: int
  be_failures :: int

definition default_backtest_executor :: "usd \<Rightarrow> backtest_executor" where
  "default_backtest_executor sol_price = \<lparr>be_fail_rate = 4/100, be_priority_fee = 100000,
     be_drift = 35/100, be_sol_price = sol_price, be_fills = 0, be_failures = 0\<rparr>"

definition backtest_failed :: "rat \<Rightarrow> pct \<Rightarrow> backtest_executor \<Rightarrow> bool" where
  "backtest_failed u impact_pct be \<longleftrightarrow> u < min (be_fail_rate be + impact_pct / 100 * (1/2)) (1/2)"


definition backtest_is_buy :: "approved_order \<Rightarrow> bool" where
  "backtest_is_buy order \<longleftrightarrow> o_output_mint order = st_token_mint (c_source_trade (o_candidate order))"

definition backtest_execute ::
    "rat \<Rightarrow> approved_order \<Rightarrow> backtest_executor \<Rightarrow> execution \<times> backtest_executor" where
  "backtest_execute u order be =
     (let ex = new_execution order ''backtest''
      in case c_quote (o_candidate order) of
           None \<Rightarrow> (fail_execution ''no_route'' ex, be\<lparr>be_failures := be_failures be + 1\<rparr>)
         | Some q \<Rightarrow>
             if q_out_amount_raw q = 0
               then (fail_execution ''no_route'' ex, be\<lparr>be_failures := be_failures be + 1\<rparr>)
             else if backtest_failed u (q_price_impact_pct q) be
               then ((fail_execution ''simulated_tx_failure'' ex)
                       \<lparr>ex_network_fee_lamports := NETWORK_FEE_LAMPORTS,
                        ex_priority_fee_lamports := be_priority_fee be\<rparr>,
                     be\<lparr>be_failures := be_failures be + 1\<rparr>)
             else
               let impact_pct = q_price_impact_pct q;
                   drift_pct = be_drift be * analysis_seconds order;
                   buying = backtest_is_buy order;
                   mark = ms_price_usd (c_market (o_candidate order));
                   decimals = ms_decimals (c_market (o_candidate order));
                   actual = max (if buying then mark * (1 + (impact_pct + drift_pct) / 100)
                                 else mark * (1 - (impact_pct + drift_pct) / 100)) 0;
                   proceeds = raw_to_ui (o_in_amount_raw order) decimals * actual;
                   (out, val) = (if buying
                     then (trunc_int ((if 0 < actual then o_size_usd order / actual else 0)
                             * 10 ^ decimals), o_size_usd order)
                     else (if be_sol_price be \<noteq> 0
                             then trunc_int (proceeds / be_sol_price be * 10 ^ 9) else 0,
                           proceeds))
               in (ex\<lparr>ex_out_amount_raw := out, ex_value_usd := val, ex_status := ORD_CONFIRMED,
                     ex_expected_price := mark, ex_actual_price := actual,
                     ex_actual_slippage_pct := impact_pct + drift_pct,
                     ex_expected_slippage_pct := impact_pct,
                     ex_network_fee_lamports := NETWORK_FEE_LAMPORTS,
                     ex_priority_fee_lamports := be_priority_fee be,
                     ex_route := (if q_route_label q = [] then ''historical'' else q_route_label q),
                     ex_signature := Some (''bt-'' @ id_hex16 (o_id order))\<rparr>,
                   be\<lparr>be_fills := be_fills be + 1\<rparr>))"

definition backtest_fee_usd :: "backtest_executor \<Rightarrow> usd" where
  "backtest_fee_usd be =
     of_int (NETWORK_FEE_LAMPORTS + be_priority_fee be) / 1000000000 * be_sol_price be"

section \<open>What a simulated fill may be\<close>

text \<open>The price a simulated fill reports is never better than the mark.\<close>

definition fill_not_better :: "bool \<Rightarrow> rat \<Rightarrow> execution \<Rightarrow> bool" where
  "fill_not_better buying mark ex \<longleftrightarrow>
     (if buying then mark \<le> ex_actual_price ex else ex_actual_price ex \<le> mark)"

lemma adverse_price:
  fixes mark adverse :: rat
  assumes "0 \<le> mark" "0 \<le> adverse"
  shows "mark \<le> max 0 (mark * (1 + adverse))" "max 0 (mark * (1 - adverse)) \<le> mark"
proof -
  have "0 \<le> mark * adverse" using assms by simp
  then show "mark \<le> max 0 (mark * (1 + adverse))" "max 0 (mark * (1 - adverse)) \<le> mark"
    using assms(1) by (simp_all add: distrib_left right_diff_distrib)
qed

definition adverse_inputs :: "approved_order \<Rightarrow> quote \<Rightarrow> bool" where
  "adverse_inputs order q \<longleftrightarrow> 0 \<le> ms_price_usd (c_market (o_candidate order)) \<and>
     0 \<le> q_price_impact_pct q \<and> 0 \<le> analysis_seconds order \<and> 0 \<le> o_in_amount_raw order \<and>
     0 \<le> o_size_usd order"

lemma paper_confirmed:
  assumes "paper_execute st u now requote order = ex" "ex_status ex = ORD_CONFIRMED"
  obtains q where "q_out_amount_raw q \<noteq> 0" "\<not> paper_failed u (q_price_impact_pct q)"
    "c_quote (o_candidate order) = Some q \<or> (c_quote (o_candidate order) = None \<and> requote = Some q)"
    "ex_actual_price ex = max 0 (ms_price_usd (c_market (o_candidate order)) *
       (if is_buy order then 1 + (q_price_impact_pct q + DRIFT_PCT_PER_SECOND * analysis_seconds order) / 100
        else 1 - (q_price_impact_pct q + DRIFT_PCT_PER_SECOND * analysis_seconds order) / 100))"
    "ex_value_usd ex = (if is_buy order then o_size_usd order
       else raw_to_ui (o_in_amount_raw order) (ms_decimals (c_market (o_candidate order))) *
         ex_actual_price ex)"
proof -
  have "\<exists>q. q_out_amount_raw q \<noteq> 0 \<and> \<not> paper_failed u (q_price_impact_pct q) \<and>
      (c_quote (o_candidate order) = Some q \<or>
        (c_quote (o_candidate order) = None \<and> requote = Some q)) \<and>
      ex_actual_price ex = max 0 (ms_price_usd (c_market (o_candidate order)) *
       (if is_buy order then 1 + (q_price_impact_pct q + DRIFT_PCT_PER_SECOND * analysis_seconds order) / 100
        else 1 - (q_price_impact_pct q + DRIFT_PCT_PER_SECOND * analysis_seconds order) / 100)) \<and>
      ex_value_usd ex = (if is_buy order then o_size_usd order
       else raw_to_ui (o_in_amount_raw order) (ms_decimals (c_market (o_candidate order))) *
         ex_actual_price ex)"
    using assms unfolding paper_execute_def Let_def
    by (auto simp: stamp_defs split: option.splits if_splits)
  with that show thesis by blast
qed

lemma paper_status:
  "ex_status (paper_execute st u now requote order) \<in> {ORD_CONFIRMED, ORD_FAILED}"
  unfolding paper_execute_def Let_def by (auto split: option.split prod.split)

lemma backtest_confirmed:
  assumes "backtest_execute u order be = (ex, be')" "ex_status ex = ORD_CONFIRMED"
  obtains q where "q_out_amount_raw q \<noteq> 0" "\<not> backtest_failed u (q_price_impact_pct q) be"
    "c_quote (o_candidate order) = Some q"
    "ex_actual_price ex = max 0 (ms_price_usd (c_market (o_candidate order)) *
       (if backtest_is_buy order then 1 + (q_price_impact_pct q + be_drift be * analysis_seconds order) / 100
        else 1 - (q_price_impact_pct q + be_drift be * analysis_seconds order) / 100))"
    "ex_value_usd ex = (if backtest_is_buy order then o_size_usd order
       else raw_to_ui (o_in_amount_raw order) (ms_decimals (c_market (o_candidate order))) *
         ex_actual_price ex)"
proof -
  have "\<exists>q. q_out_amount_raw q \<noteq> 0 \<and> \<not> backtest_failed u (q_price_impact_pct q) be \<and>
      c_quote (o_candidate order) = Some q \<and>
      ex_actual_price ex = max 0 (ms_price_usd (c_market (o_candidate order)) *
       (if backtest_is_buy order then 1 + (q_price_impact_pct q + be_drift be * analysis_seconds order) / 100
        else 1 - (q_price_impact_pct q + be_drift be * analysis_seconds order) / 100)) \<and>
      ex_value_usd ex = (if backtest_is_buy order then o_size_usd order
       else raw_to_ui (o_in_amount_raw order) (ms_decimals (c_market (o_candidate order))) *
         ex_actual_price ex)"
    using assms unfolding backtest_execute_def Let_def
    by (auto simp: max.commute split: option.splits if_splits)
  with that show thesis by blast
qed

lemma backtest_counts:
  "backtest_execute u order be = (ex, be') \<Longrightarrow>
   (ex_status ex = ORD_CONFIRMED \<and> be' = be\<lparr>be_fills := be_fills be + 1\<rparr>) \<or>
   (ex_status ex = ORD_FAILED \<and> be' = be\<lparr>be_failures := be_failures be + 1\<rparr> \<and> ex_value_usd ex = 0 \<and>
      ex_out_amount_raw ex = 0)"
  unfolding backtest_execute_def Let_def
  by (auto simp: fail_execution_def new_execution_def split: option.splits if_splits)

lemma paper_failure_empty:
  "ex_status (paper_execute st u now requote order) = ORD_FAILED \<Longrightarrow>
   ex_value_usd (paper_execute st u now requote order) = 0 \<and>
   ex_out_amount_raw (paper_execute st u now requote order) = 0"
  unfolding paper_execute_def Let_def
  by (auto simp: fail_execution_def new_execution_def stamp_defs split: option.splits if_splits prod.splits)

text \<open>
  A paper fill is pessimistic.  An execution is confirmed or failed; a failed one has
  no value.  A confirmed one needed a route, its price is not better than the mark, a buy spends
  exactly the order's size and a sale is worth at most the mark value of what is sold.  The
  backtest executor, with the rates of the paper engine, fills or fails the same orders at
  the same price and value, and it counts every execution as one fill or one failure.
\<close>

theorem simulated_fill_pessimistic:
  assumes "paper_execute st u now None order = ex" "backtest_execute u order be = (bx, be')"
    and "be_fail_rate be = BASE_FAIL_RATE" "be_drift be = DRIFT_PCT_PER_SECOND"
    and "backtest_is_buy order = is_buy order"
    and "\<forall>q. c_quote (o_candidate order) = Some q \<longrightarrow> adverse_inputs order q"
  shows "ex_status ex \<in> {ORD_CONFIRMED, ORD_FAILED} \<and>
    (ex_status ex = ORD_FAILED \<longrightarrow> ex_value_usd ex = 0 \<and> ex_out_amount_raw ex = 0) \<and>
    (ex_status ex = ORD_CONFIRMED \<longrightarrow>
       c_quote (o_candidate order) \<noteq> None \<and>
       fill_not_better (is_buy order) (ms_price_usd (c_market (o_candidate order))) ex \<and>
       (if is_buy order then ex_value_usd ex = o_size_usd order
        else ex_value_usd ex \<le> raw_to_ui (o_in_amount_raw order)
          (ms_decimals (c_market (o_candidate order))) * ms_price_usd (c_market (o_candidate order)))) \<and>
    ex_status bx = ex_status ex \<and> ex_actual_price bx = ex_actual_price ex \<and>
    ex_value_usd bx = ex_value_usd ex \<and>
    be_fills be' + be_failures be' = be_fills be + be_failures be + 1"
proof -
  have failed: "backtest_failed u i be = paper_failed u i" for i
    by (simp add: backtest_failed_def paper_failed_def assms(3))
  have same: "ex_status bx = ex_status ex \<and> ex_actual_price bx = ex_actual_price ex \<and>
      ex_value_usd bx = ex_value_usd ex"
    using assms(1,2) unfolding paper_execute_def backtest_execute_def Let_def
    by (auto simp: failed assms(4,5) max.commute fail_execution_def new_execution_def stamp_defs
        split: option.splits if_splits)
  have count: "be_fills be' + be_failures be' = be_fills be + be_failures be + 1"
    using backtest_counts [OF assms(2)] by auto
  have fill: "c_quote (o_candidate order) \<noteq> None \<and>
       fill_not_better (is_buy order) (ms_price_usd (c_market (o_candidate order))) ex \<and>
       (if is_buy order then ex_value_usd ex = o_size_usd order
        else ex_value_usd ex \<le> raw_to_ui (o_in_amount_raw order)
          (ms_decimals (c_market (o_candidate order))) * ms_price_usd (c_market (o_candidate order)))"
    if ok: "ex_status ex = ORD_CONFIRMED"
  proof (rule paper_confirmed [OF assms(1) ok])
    fix q :: quote
    let ?mark = "ms_price_usd (c_market (o_candidate order))"
    let ?adv = "(q_price_impact_pct q + DRIFT_PCT_PER_SECOND * analysis_seconds order) / 100"
    assume q: "c_quote (o_candidate order) = Some q \<or>
        (c_quote (o_candidate order) = None \<and> None = Some q)"
      and price: "ex_actual_price ex = max 0 (?mark * (if is_buy order then 1 + ?adv else 1 - ?adv))"
      and val: "ex_value_usd ex = (if is_buy order then o_size_usd order
        else raw_to_ui (o_in_amount_raw order) (ms_decimals (c_market (o_candidate order))) *
          ex_actual_price ex)"
    then have inp: "adverse_inputs order q" using assms(6) by auto
    then have adv: "0 \<le> ?adv" and mark: "0 \<le> ?mark"
      by (simp_all add: adverse_inputs_def DRIFT_PCT_PER_SECOND_def)
    have nb: "fill_not_better (is_buy order) ?mark ex"
      using adverse_price [OF mark adv] by (simp add: fill_not_better_def price)
    then show ?thesis
      using q inp by (auto simp: val fill_not_better_def adverse_inputs_def raw_to_ui_nonneg
          intro: mult_left_mono)
  qed
  show ?thesis
    using paper_status [of st u now None order] paper_failure_empty [of st u now None order]
      same count fill assms(1) by simp
qed

definition sample_order :: approved_order where
  "sample_order = \<lparr>o_id = 9, o_idempotency_key = ''key'', o_candidate = sample_candidate,
     o_action = ACT_BUY, o_input_mint = SOL_MINT, o_output_mint = ''MINT'',
     o_in_amount_raw = 1000000000, o_size_usd = 150, o_slippage_bps = 300, o_position_id = None,
     o_exit_reason = None, o_reservation_id = Some ''r'', o_latency = no_latency\<rparr>"

lemma simulated_fill_pessimistic_witness:
  "ex_status (paper_execute default_settings (1/2) 5 None sample_order) = ORD_CONFIRMED \<and>
   150 \<le> ex_actual_price (paper_execute default_settings (1/2) 5 None sample_order)"
proof -
  have ok: "ex_status (paper_execute default_settings (1/2) 5 None sample_order) = ORD_CONFIRMED"
    by (simp add: paper_execute_def new_execution_def sample_order_def sample_defs is_buy_def
        paper_failed_def BASE_FAIL_RATE_def stamp_defs Let_def)
  obtain bx be' where bt: "backtest_execute (1/2) sample_order (default_backtest_executor 150) = (bx, be')"
    by force
  have "is_buy sample_order" "ms_price_usd (c_market (o_candidate sample_order)) = 150"
    "backtest_is_buy sample_order = is_buy sample_order"
    "\<forall>q. c_quote (o_candidate sample_order) = Some q \<longrightarrow> adverse_inputs sample_order q"
    by (simp_all add: sample_order_def sample_defs is_buy_def backtest_is_buy_def adverse_inputs_def
        analysis_seconds_def no_latency_def analysis_ms_def latency_ms_def)
  with simulated_fill_pessimistic [OF refl bt, of default_settings 5] ok show ?thesis
    by (simp add: default_backtest_executor_def BASE_FAIL_RATE_def DRIFT_PCT_PER_SECOND_def
        fill_not_better_def)
qed

end
