(* ===== verification/Signers.thy ===== *)
theory Signers
  imports Dedupe Execution_Base
begin

text \<open>
  \<^verbatim>\<open>execution/signer.py\<close> and \<^verbatim>\<open>execution/signer_service.py\<close>: the rules a transaction has to
  pass before either signer puts the key to it.  What a base64 text decodes to (the library
  parses the transaction) is the parameter \<open>decode\<close>, the signature itself \<open>key_sign\<close>; the
  texts of the refusals are omitted, so the order in which \<^verbatim>\<open>_enforce\<close> visits its set of
  program indices does not matter.
\<close>

definition ALLOWED_PROGRAMS :: "string set" where
  "ALLOWED_PROGRAMS = {
     ''JUP6LkbZbjS1jKKwapdHNy74zcZ3tLUZoi5QNyVTaV4'',
     ''TokenkegQfeZyiNwAJbNbGKPFXCWuBvf9Ss623VQ5DA'',
     ''TokenzQdBNbLqP5VEhdkAS6EPFLC1PHnBqCXEpPxuEb'',
     ''ATokenGPvbdGVxr1b2hvZbsiqW5xWH25efTNsLJA8knL'',
     ''11111111111111111111111111111111'',
     ''ComputeBudget111111111111111111111111111111''}"

record message =
  msg_account_keys :: "string list"
  msg_program_indices :: "nat list"

text \<open>A text with its decoded length in bytes and the message of its transaction.\<close>

type_synonym decoder = "string \<Rightarrow> (int \<times> message option) option"

section \<open>The local signer\<close>

definition truthy :: "string option \<Rightarrow> bool" where
  "truthy v \<longleftrightarrow> (case v of None \<Rightarrow> False | Some s \<Rightarrow> s \<noteq> [])"

definition programs_allowed :: "message \<Rightarrow> bool" where
  "programs_allowed msg \<longleftrightarrow> (\<forall>idx \<in> set (msg_program_indices msg).
     idx < length (msg_account_keys msg) \<and> msg_account_keys msg ! idx \<in> ALLOWED_PROGRAMS)"

definition signer_enforce :: "datetime \<Rightarrow> kv \<Rightarrow> message \<Rightarrow> int \<Rightarrow> bool" where
  "signer_enforce now r msg max_lamports \<longleftrightarrow>
     \<not> (truthy (kv_get now KILL_SWITCH_KEY r) \<or>
        kv_get now SYSTEM_STATE_KEY r \<notin> {None, Some ''running'', Some ''soft_paused''}) \<and>
     programs_allowed msg"

datatype sign_answer =
    Signed string
  | Signer_Error
  | Sign_Raised

definition local_sign ::
    "decoder \<Rightarrow> (string \<Rightarrow> string) \<Rightarrow> datetime \<Rightarrow> kv \<Rightarrow> string \<Rightarrow> int \<Rightarrow> sign_answer" where
  "local_sign decode key_sign now r tx_b64 max_lamports =
     (case decode tx_b64 of
        Some (_, Some msg) \<Rightarrow>
          if signer_enforce now r msg max_lamports then Signed (key_sign tx_b64) else Signer_Error
      | _ \<Rightarrow> Sign_Raised)"

section \<open>The signer daemon\<close>

definition MAX_REQUEST_BYTES :: int where
  "MAX_REQUEST_BYTES = 64 * 1024"

fun check_programs :: "string list \<Rightarrow> nat list \<Rightarrow> bool" where
  "check_programs account_keys [] = True"
| "check_programs account_keys (idx # rest) =
     (if length account_keys \<le> idx then False
      else if account_keys ! idx \<notin> ALLOWED_PROGRAMS then False
      else check_programs account_keys rest)"

datatype check_answer =
    Check_Ok
  | Check_Refused
  | Check_Raised

definition service_check ::
    "settings \<Rightarrow> decoder \<Rightarrow> datetime \<Rightarrow> kv \<Rightarrow> string \<Rightarrow> int \<Rightarrow> check_answer" where
  "service_check st decode now r tx_b64 max_lamports =
     (if kv_get now SYSTEM_STATE_KEY r \<in> {Some ''killed'', Some ''hard_paused''} then Check_Refused
      else if truthy (kv_get now KILL_SWITCH_KEY r) then Check_Refused
      else case decode tx_b64 of
        None \<Rightarrow> Check_Raised
      | Some (bytes, parsed) \<Rightarrow>
          if MAX_REQUEST_BYTES < bytes then Check_Refused
          else case parsed of
            None \<Rightarrow> Check_Raised
          | Some msg \<Rightarrow>
              if \<not> check_programs (msg_account_keys msg) (msg_program_indices msg) then Check_Refused
              else if signer_max_lamports st < max_lamports then Check_Refused
              else Check_Ok)"

record signer_service =
  svc_signed :: nat
  svc_refused :: nat

text \<open>
  A line of the socket: nothing at all, something that is no request, or a transaction with a
  ceiling.  The answer is none, an error, or the signed transaction.
\<close>

datatype signer_line =
    Empty_Line
  | Bad_Line
  | Request string int

datatype signer_response =
    No_Response
  | Error_Response
  | Signed_Response string

definition refuse_request :: "signer_service \<Rightarrow> signer_response \<times> signer_service" where
  "refuse_request svc = (Error_Response, svc\<lparr>svc_refused := svc_refused svc + 1\<rparr>)"

fun handle_request ::
    "settings \<Rightarrow> decoder \<Rightarrow> (string \<Rightarrow> string) \<Rightarrow> datetime \<Rightarrow> kv \<Rightarrow> signer_line \<Rightarrow> signer_service \<Rightarrow>
       signer_response \<times> signer_service" where
  "handle_request st decode key_sign now r Empty_Line svc = (No_Response, svc)"
| "handle_request st decode key_sign now r Bad_Line svc = refuse_request svc"
| "handle_request st decode key_sign now r (Request tx_b64 max_lamports) svc =
     (if service_check st decode now r tx_b64 max_lamports \<noteq> Check_Ok then refuse_request svc
      else case local_sign decode key_sign now r tx_b64 max_lamports of
        Signed s \<Rightarrow> (Signed_Response s, svc\<lparr>svc_signed := svc_signed svc + 1\<rparr>)
      | _ \<Rightarrow> refuse_request svc)"

section \<open>The remote signer\<close>

text \<open>
  \<^verbatim>\<open>RemoteSigner.sign\<close> sends one line and reads one: a closed or silent socket raises
  something that is not a \<^verbatim>\<open>SignerError\<close>.
\<close>

definition remote_sign ::
    "settings \<Rightarrow> decoder \<Rightarrow> (string \<Rightarrow> string) \<Rightarrow> datetime \<Rightarrow> kv \<Rightarrow> string \<Rightarrow> int \<Rightarrow> signer_service \<Rightarrow>
       sign_answer \<times> signer_service" where
  "remote_sign st decode key_sign now r tx_b64 max_lamports svc =
     (case handle_request st decode key_sign now r (Request tx_b64 max_lamports) svc of
        (Signed_Response s, svc') \<Rightarrow> (Signed s, svc')
      | (Error_Response, svc') \<Rightarrow> (Signer_Error, svc')
      | (No_Response, svc') \<Rightarrow> (Sign_Raised, svc'))"

section \<open>What is signed\<close>

lemma check_programs_iff:
  "check_programs keys idxs \<longleftrightarrow> (\<forall>i \<in> set idxs. i < length keys \<and> keys ! i \<in> ALLOWED_PROGRAMS)"
  by (induction idxs) auto

lemma check_programs_allowed:
  "check_programs (msg_account_keys msg) (msg_program_indices msg) = programs_allowed msg"
  by (simp add: check_programs_iff programs_allowed_def)

definition may_trade_state :: "datetime \<Rightarrow> kv \<Rightarrow> bool" where
  "may_trade_state now r \<longleftrightarrow> \<not> truthy (kv_get now KILL_SWITCH_KEY r) \<and>
     kv_get now SYSTEM_STATE_KEY r \<in> {None, Some ''running'', Some ''soft_paused''}"

lemma local_sign_Signed:
  "local_sign decode key_sign now r tx m = Signed s \<longleftrightarrow>
   s = key_sign tx \<and> may_trade_state now r \<and>
   (\<exists>n msg. decode tx = Some (n, Some msg) \<and> programs_allowed msg)"
  by (auto simp: local_sign_def signer_enforce_def may_trade_state_def split: option.split prod.split)

lemma service_check_Ok:
  "service_check st decode now r tx m = Check_Ok \<longleftrightarrow>
   kv_get now SYSTEM_STATE_KEY r \<notin> {Some ''killed'', Some ''hard_paused''} \<and>
   \<not> truthy (kv_get now KILL_SWITCH_KEY r) \<and> m \<le> signer_max_lamports st \<and>
   (\<exists>n msg. decode tx = Some (n, Some msg) \<and> n \<le> MAX_REQUEST_BYTES \<and> programs_allowed msg)"
  by (auto simp: service_check_def check_programs_allowed split: option.split prod.split)


text \<open>
  The ceiling the daemon promises is on the number it is sent: a transaction that spends more
  than it says is signed all the same, because neither signer reads the amounts it moves.
\<close>

lemma ceiling_is_only_declared:
  assumes "local_sign decode key_sign now r tx m = Signed s"
  shows "local_sign decode key_sign now r tx m' = Signed s"
  using assms by (simp add: local_sign_Signed)

text \<open>A stopped system is refused by the key holder although the daemon's own check passes.\<close>

lemma stopped_system_not_signed:
  assumes "kv_get now SYSTEM_STATE_KEY r = Some ''stopped''"
  shows "local_sign decode key_sign now r tx m \<noteq> Signed s"
  using assms by (simp add: local_sign_Signed may_trade_state_def)

end
