(* ===== verification/Live_Execution.thy ===== *)
theory Live_Execution
  imports Signers Parser Market
begin

text \<open>
  \<^verbatim>\<open>execution/live.py\<close> and \<^verbatim>\<open>execution/factory.py\<close>: the preparation that shadow and live
  execution share, the shadow fill, and the live execution with its idempotency key.  Each answer
  of a provider, of the signer and of the clock during one execution is a field of \<open>live_env\<close>;
  a left value is an exception.  Every transaction handed to the network is appended to the list
  of broadcasts, with the key of its order.
\<close>

record live_env =
  le_claim_at :: datetime
  le_quote :: "py_error + quote option"
  le_pubkey :: "py_error + string"
  le_priority :: "py_error + int"
  le_tip_account :: string
  le_swap :: "py_error + string option"
  le_built_at :: datetime
  le_simulation :: "py_error + bool option"  \<comment> \<open>whether there is an error; none when malformed\<close>
  le_sol_usd :: "py_error + usd"
  le_sign :: "string \<Rightarrow> int \<Rightarrow> sign_answer"
  le_signed_at :: datetime
  le_signature_of :: "string \<Rightarrow> py_error + string"
  le_send :: "string \<Rightarrow> py_error + string"
  le_submitted_at :: datetime
  le_confirm :: "string \<Rightarrow> py_error + bool option" \<comment> \<open>whether there is an error; none on timeout\<close>
  le_transaction :: "string \<Rightarrow> py_error + transaction option"
  le_fill_sol_usd :: "py_error + usd"
  le_key_order :: "balance_key list \<Rightarrow> balance_key list"
  le_trade_id :: nat
  le_confirmed_at :: datetime

record live_state =
  lx_redis :: kv
  lx_broadcasts :: "(string \<times> string) list"

section \<open>The shared preparation\<close>

definition exit_valuation ::
    "live_env \<Rightarrow> approved_order \<Rightarrow> quote \<Rightarrow> string \<Rightarrow> execution \<Rightarrow>
       py_error + execution \<times> string option" where
  "exit_valuation env order q tx ex =
     (case le_sol_usd env of
        Inl e \<Rightarrow> Inl e
      | Inr sol_usd \<Rightarrow>
          let units = raw_to_ui (o_in_amount_raw order) (ms_decimals (c_market (o_candidate order)))
          in if sol_usd \<le> 0 \<or> units \<le> 0
               then Inr (fail_execution ''exit_valuation_unavailable'' ex, None)
             else let val = raw_to_ui (q_out_amount_raw q) 9 * sol_usd
                  in Inr (ex\<lparr>ex_value_usd := val, ex_expected_price := val / units\<rparr>, Some tx))"

definition finish_prepare ::
    "live_env \<Rightarrow> approved_order \<Rightarrow> quote \<Rightarrow> string \<Rightarrow> execution \<Rightarrow>
       py_error + execution \<times> string option" where
  "finish_prepare env order q tx ex =
     (let ex1 = (stamp_built (le_built_at env) ex)\<lparr>ex_route := q_route_label q\<rparr>
      in case le_simulation env of
           Inl e \<Rightarrow> Inl e
         | Inr None \<Rightarrow> Inr (fail_execution ''simulation_result_unavailable'' ex1, None)
         | Inr (Some True) \<Rightarrow> Inr (fail_execution ''simulation_failed'' ex1, None)
         | Inr (Some False) \<Rightarrow>
             let ex2 = ex1\<lparr>ex_status := ORD_SIMULATED, ex_out_amount_raw := q_out_amount_raw q\<rparr>
             in if is_buy order
                  then Inr (ex2\<lparr>ex_expected_price :=
                    (if q_out_amount_raw q = 0 then 0 else o_size_usd order /
                      raw_to_ui (q_out_amount_raw q) (ms_decimals (c_market (o_candidate order))))\<rparr>, Some tx)
                else exit_valuation env order q tx ex2)"

definition prepare ::
    "settings \<Rightarrow> live_env \<Rightarrow> approved_order \<Rightarrow> execution \<Rightarrow> py_error + execution \<times> string option" where
  "prepare st env order ex =
     (case le_quote env of
        Inl e \<Rightarrow> Inl e
      | Inr None \<Rightarrow> Inr (fail_execution ''no_route_at_execution'' ex, None)
      | Inr (Some q) \<Rightarrow>
          let ex1 = ex\<lparr>ex_expected_slippage_pct := q_price_impact_pct q\<rparr>
          in if max_expected_slippage_pct (copyability st) < q_price_impact_pct q
               then Inr (fail_execution ''slippage_regressed'' ex1, None)
             else case le_pubkey env of
               Inl e \<Rightarrow> Inl e
             | Inr pubkey \<Rightarrow>
             case le_priority env of
               Inl e \<Rightarrow> Inl e
             | Inr priority \<Rightarrow>
                 let ex2 = ex1\<lparr>ex_priority_fee_lamports := priority\<rparr>;
                     plan = plan_protection st (le_tip_account env) (o_size_usd order)
                       (q_price_impact_pct q) (ms_liquidity_usd (c_market (o_candidate order)))
                       (o_exit_reason order \<noteq> None)
                 in if pp_max_price_impact_pct plan < q_price_impact_pct q
                      then Inr (fail_execution ''impact_above_protection_ceiling'' ex2, None)
                    else if pp_use_private_route plan
                      then Inr (fail_execution ''protected_route_requires_tip_instruction'' ex2, None)
                    else case le_swap env of
                      Inl e \<Rightarrow> Inr (fail_execution ''build_failed'' ex2, None)
                    | Inr tx \<Rightarrow>
                        if \<not> truthy tx
                          then Inr (fail_execution ''no_transaction_returned'' ex2, None)
                        else finish_prepare env order q (the tx) ex2)"

section \<open>Shadow execution\<close>

definition shadow_execute :: "settings \<Rightarrow> live_env \<Rightarrow> approved_order \<Rightarrow> py_error + execution" where
  "shadow_execute st env order =
     (case prepare st env order (new_execution order ''shadow'') of
        Inl e \<Rightarrow> Inl e
      | Inr (ex, None) \<Rightarrow> Inr ex
      | Inr (ex, Some tx) \<Rightarrow>
          let ex1 = ex\<lparr>ex_status := ORD_CONFIRMED, ex_actual_price := ex_expected_price ex,
                       ex_actual_slippage_pct := ex_expected_slippage_pct ex,
                       ex_value_usd := (if is_buy order then o_size_usd order else ex_value_usd ex),
                       ex_network_fee_lamports := 5000,
                       ex_signature := Some (''shadow-'' @ id_hex16 (o_id order))\<rparr>
          in Inr (stamp_confirmed (le_confirmed_at env) (stamp_submitted (le_submitted_at env) ex1)))"

section \<open>Live execution\<close>

definition matches_order :: "approved_order \<Rightarrow> source_trade \<Rightarrow> bool" where
  "matches_order order parsed \<longleftrightarrow>
     \<not> (st_token_amount_raw parsed \<le> 0 \<or> st_source_value_usd parsed \<le> 0 \<or>
        st_token_mint parsed \<noteq> st_token_mint (c_source_trade (o_candidate order))) \<and>
     (st_action parsed = ACT_BUY) = is_buy order"

definition record_fill :: "approved_order \<Rightarrow> transaction \<Rightarrow> source_trade \<Rightarrow> execution \<Rightarrow> execution" where
  "record_fill order tx parsed ex =
     (let units = raw_to_ui (st_token_amount_raw parsed) (st_token_decimals parsed);
          actual = st_source_value_usd parsed / units;
          ex1 = ex\<lparr>ex_network_fee_lamports := tx_fee tx, ex_priority_fee_lamports := 0,
                   ex_value_usd := st_source_value_usd parsed, ex_actual_price := actual,
                   ex_out_amount_raw := (if is_buy order then st_token_amount_raw parsed
                     else st_quote_amount_raw parsed)\<rparr>
      in if 0 < ex_expected_price ex
           then ex1\<lparr>ex_actual_slippage_pct := (if is_buy order then 1 else -1) *
             ((actual - ex_expected_price ex) / ex_expected_price ex * 100)\<rparr>
         else ex1)"

definition reconcile_fill ::
    "live_env \<Rightarrow> approved_order \<Rightarrow> string \<Rightarrow> execution \<Rightarrow> py_error + execution" where
  "reconcile_fill env order signature ex =
     (case le_transaction env signature of
        Inl e \<Rightarrow> Inl e
      | Inr tx_opt \<Rightarrow> case le_fill_sol_usd env of
        Inl e \<Rightarrow> Inl e
      | Inr sol_usd \<Rightarrow>
          case tx_opt of
            None \<Rightarrow> Inl (ValueError ''transaction or SOL price unavailable'')
          | Some tx \<Rightarrow>
              if sol_usd \<le> 0 then Inl (ValueError ''transaction or SOL price unavailable'')
              else case le_pubkey env of
                Inl e \<Rightarrow> Inl e
              | Inr pubkey \<Rightarrow>
                case parse_transaction (le_key_order env) (le_trade_id env) (le_confirmed_at env) tx
                       pubkey (Some signature) sol_usd None of
                  None \<Rightarrow> Inl (ValueError ''fill cannot be matched to order'')
                | Some parsed \<Rightarrow>
                    if \<not> matches_order order parsed
                      then Inl (ValueError ''fill cannot be matched to order'')
                    else Inr (record_fill order tx parsed ex))"

definition unconfirmed :: "string \<Rightarrow> execution \<Rightarrow> execution" where
  "unconfirmed reason ex = ex\<lparr>ex_status := ORD_SUBMITTED, ex_failure_reason := Some reason\<rparr>"

definition confirm_fill :: "live_env \<Rightarrow> approved_order \<Rightarrow> string \<Rightarrow> execution \<Rightarrow> execution" where
  "confirm_fill env order signature ex =
     (case le_confirm env signature of
        Inl e \<Rightarrow> unconfirmed ''confirmation_unavailable'' ex
      | Inr None \<Rightarrow> unconfirmed ''confirmation_timeout'' ex
      | Inr (Some True) \<Rightarrow> fail_execution ''onchain_error'' ex
      | Inr (Some False) \<Rightarrow>
          case reconcile_fill env order signature ex of
            Inl e \<Rightarrow> unconfirmed ''fill_reconciliation_required'' ex
          | Inr ex1 \<Rightarrow> (stamp_confirmed (le_confirmed_at env) ex1)\<lparr>ex_status := ORD_CONFIRMED\<rparr>)"

text \<open>
  Once signed: the signature is read off the transaction and recorded under the key before
  anything is sent; whatever goes wrong in sending leaves the key claimed.
\<close>

definition broadcast ::
    "live_env \<Rightarrow> approved_order \<Rightarrow> string \<Rightarrow> execution \<Rightarrow> live_state \<Rightarrow> execution \<times> live_state" where
  "broadcast env order signed ex s =
     (case le_signature_of env signed of
        Inl e \<Rightarrow> (unconfirmed ''submit_error_unconfirmed'' ex, s)
      | Inr signature \<Rightarrow>
          let ex1 = ex\<lparr>ex_signature := Some signature, ex_status := ORD_SUBMITTED\<rparr>;
              s1 = s\<lparr>lx_redis := finish_order (o_idempotency_key order) signature (lx_redis s),
                     lx_broadcasts := lx_broadcasts s @ [(o_idempotency_key order, signed)]\<rparr>
          in case le_send env signed of
               Inl e \<Rightarrow> (unconfirmed ''submit_error_unconfirmed'' ex1, s1)
             | Inr returned \<Rightarrow>
                 if returned \<noteq> signature then (unconfirmed ''submit_error_unconfirmed'' ex1, s1)
                 else (confirm_fill env order signature (stamp_submitted (le_submitted_at env) ex1),
                       s1\<lparr>lx_redis := finish_order (o_idempotency_key order) signature (lx_redis s1)\<rparr>))"

definition live_execute ::
    "settings \<Rightarrow> live_env \<Rightarrow> approved_order \<Rightarrow> live_state \<Rightarrow> (py_error + execution) \<times> live_state" where
  "live_execute st env order s =
     (let ex = new_execution order ''live''; key = o_idempotency_key order
      in case claim_order key (le_claim_at env) (lx_redis s) of
           (False, r) \<Rightarrow>
             (Inr (fail_execution (''duplicate_order:'' @
                (case lookup_order key (le_claim_at env) r of None \<Rightarrow> ''None'' | Some v \<Rightarrow> v)) ex),
              s\<lparr>lx_redis := r\<rparr>)
         | (True, r) \<Rightarrow>
             let s1 = s\<lparr>lx_redis := r\<rparr>; abandoned = s\<lparr>lx_redis := abandon_order key r\<rparr>
             in case prepare st env order ex of
                  Inl e \<Rightarrow> (Inl e, s1)
                | Inr (ex1, None) \<Rightarrow> (Inr ex1, abandoned)
                | Inr (ex1, Some tx) \<Rightarrow>
                    case le_sign env tx (o_in_amount_raw order + ex_priority_fee_lamports ex1 + 10000) of
                      Sign_Raised \<Rightarrow> (Inl (RuntimeError ''signer''), s1)
                    | Signer_Error \<Rightarrow> (Inr (fail_execution ''signer_refused'' ex1), abandoned)
                    | Signed signed \<Rightarrow>
                        (case broadcast env order signed (stamp_signed (le_signed_at env) ex1) s1 of
                           (ex2, s2) \<Rightarrow> (Inr ex2, s2)))"

section \<open>The factory\<close>

datatype executor_kind =
    Live_Executor
  | Shadow_Executor
  | Paper_Executor

definition get_executor :: "settings \<Rightarrow> mode option \<Rightarrow> executor_kind" where
  "get_executor st m =
     (case (case m of None \<Rightarrow> mode_setting st | Some m \<Rightarrow> m) of
        MODE_LIVE \<Rightarrow> Live_Executor
      | MODE_SHADOW \<Rightarrow> Shadow_Executor
      | _ \<Rightarrow> Paper_Executor)"

section \<open>The preparation\<close>

lemma prepare_mode:
  "prepare st env order (ex\<lparr>ex_mode := m\<rparr>) =
   map_sum id (map_prod (\<lambda>e. e\<lparr>ex_mode := m\<rparr>) id) (prepare st env order ex)"
  unfolding prepare_def finish_prepare_def exit_valuation_def Let_def
  by (auto simp: fail_execution_def stamp_defs split: sum.split option.split bool.split)

lemma new_execution_mode: "new_execution order m = (new_execution order m')\<lparr>ex_mode := m\<rparr>"
  by (simp add: new_execution_def)

lemma prepare_status:
  assumes "prepare st env order ex = Inr (ex', tx)"
  shows "ex_status ex' = (if tx = None then ORD_FAILED else ORD_SIMULATED)"
  using assms unfolding prepare_def finish_prepare_def exit_valuation_def Let_def
  by (auto split: sum.splits option.splits bool.splits if_splits)

lemma prepared_transaction:
  assumes "prepare st env order ex = Inr (ex', Some tx)"
  obtains q where "le_quote env = Inr (Some q)" "le_swap env = Inr (Some tx)" "tx \<noteq> []"
    "q_price_impact_pct q \<le> max_expected_slippage_pct (copyability st)"
    "le_simulation env = Inr (Some False)"
    "\<not> pp_use_private_route (plan_protection st (le_tip_account env) (o_size_usd order)
       (q_price_impact_pct q) (ms_liquidity_usd (c_market (o_candidate order)))
       (o_exit_reason order \<noteq> None))"
  using assms unfolding prepare_def finish_prepare_def exit_valuation_def Let_def
  by (auto simp: truthy_def not_less split: sum.splits option.splits bool.splits if_splits)

text \<open>
  The wider ceiling for urgent trades never decides: an impact above the ordinary ceiling was
  refused before the plan is made.
\<close>

lemma protection_ceiling_never_decides:
  assumes "0 \<le> max_expected_slippage_pct (copyability st)"
    and "prepare st env order ex = Inr (ex', None)"
  shows "ex_failure_reason ex' \<noteq> Some ''impact_above_protection_ceiling''"
  using assms unfolding prepare_def finish_prepare_def exit_valuation_def plan_protection_def Let_def
  by (auto simp: fail_execution_def split: sum.splits option.splits bool.splits if_splits)

section \<open>One broadcast per key\<close>

definition broadcasts_of :: "string \<Rightarrow> live_state \<Rightarrow> (string \<times> string) list" where
  "broadcasts_of k s = filter (\<lambda>b. fst b = k) (lx_broadcasts s)"

definition key_settled :: "string \<Rightarrow> live_state \<Rightarrow> bool" where
  "key_settled k s \<longleftrightarrow> (\<exists>v. lx_redis s (idem_key k) = Some (v, None))"

lemma idem_key_eq [simp]: "idem_key j = idem_key k \<longleftrightarrow> j = k"
  by (simp add: idem_key_def)

lemma claim_order_frame:
  "claim_order k t r = (won, r') \<Longrightarrow> j \<noteq> k \<Longrightarrow> r' (idem_key j) = r (idem_key j)"
  by (auto simp: claim_order_def kv_set_nx_ex_def kv_set_ex_def split: if_splits)

lemma claim_order_settled:
  "lx_redis s (idem_key k) = Some (v, None) \<Longrightarrow>
   claim_order k t (lx_redis s) = (won, r') \<Longrightarrow> \<not> won \<and> r' = lx_redis s"
  by (auto simp: claim_order_def kv_set_nx_ex_def kv_get_def split: if_splits)

lemma broadcast_effect:
  assumes "broadcast env order signed ex s = (ex', s')"
  shows "s' = s \<or>
    (\<exists>sig. lx_broadcasts s' = lx_broadcasts s @ [(o_idempotency_key order, signed)] \<and>
       lx_redis s' = (lx_redis s)(idem_key (o_idempotency_key order) \<mapsto> (sig, None)) \<and>
       le_signature_of env signed = Inr sig)"
  using assms unfolding broadcast_def Let_def
  by (auto simp: finish_order_def kv_set_def split: sum.splits if_splits)

text \<open>The three ways an execution changes the state.\<close>

lemma live_execute_effect:
  assumes "live_execute st env order s = (res, s')"
  defines "k \<equiv> o_idempotency_key order"
  shows "s' = s \<or>
    (\<exists>r. claim_order k (le_claim_at env) (lx_redis s) = (True, r) \<and>
      (lx_broadcasts s' = lx_broadcasts s \<and> (lx_redis s' = r \<or> lx_redis s' = r(idem_key k := None)) \<or>
       (\<exists>signed sig. lx_broadcasts s' = lx_broadcasts s @ [(k, signed)] \<and>
          lx_redis s' = r(idem_key k \<mapsto> (sig, None)))))"
proof -
  obtain won r where c: "claim_order k (le_claim_at env) (lx_redis s) = (won, r)" by force
  show ?thesis
  proof (cases won)
    case False
    then have "r = lx_redis s" using orders.claim_lost c by auto
    then show ?thesis using assms c False by (auto simp: live_execute_def Let_def)
  next
    case True
    have "lx_broadcasts s' = lx_broadcasts s \<and>
        (lx_redis s' = r \<or> lx_redis s' = r(idem_key k := None)) \<or>
       (\<exists>signed sig. lx_broadcasts s' = lx_broadcasts s @ [(k, signed)] \<and>
          lx_redis s' = r(idem_key k \<mapsto> (sig, None)))"
      using assms(1) c [unfolded k_def] True unfolding live_execute_def Let_def k_def [symmetric]
      by (auto simp: abandon_order_def k_def dest!: broadcast_effect
          split: sum.splits option.splits sign_answer.splits prod.splits)
    moreover have "claim_order k (le_claim_at env) (lx_redis s) = (True, r)" using c True by simp
    ultimately show ?thesis by blast
  qed
qed

lemma live_execute_signed:
  assumes "claim_order (o_idempotency_key order) (le_claim_at env) (lx_redis s) = (True, r)"
    and "prepare st env order (new_execution order ''live'') = Inr (ex, Some tx)"
    and "le_sign env tx (o_in_amount_raw order + ex_priority_fee_lamports ex + 10000) = Signed signed"
  shows "snd (live_execute st env order s) =
    snd (broadcast env order signed (stamp_signed (le_signed_at env) ex) (s\<lparr>lx_redis := r\<rparr>))"
  using assms by (simp add: live_execute_def Let_def split: prod.split)

definition settled_inv :: "live_state \<Rightarrow> bool" where
  "settled_inv s \<longleftrightarrow> (\<forall>k. length (broadcasts_of k s) \<le> 1 \<and>
     (broadcasts_of k s \<noteq> [] \<longrightarrow> key_settled k s))"

lemma live_execute_settled:
  assumes "live_execute st env order s = (res, s')" "settled_inv s"
  shows "settled_inv s'"
proof -
  let ?k = "o_idempotency_key order"
  show ?thesis
  proof (cases "s' = s")
    case False
    then obtain r where c: "claim_order ?k (le_claim_at env) (lx_redis s) = (True, r)"
      and eff: "lx_broadcasts s' = lx_broadcasts s \<and>
          (lx_redis s' = r \<or> lx_redis s' = r(idem_key ?k := None)) \<or>
        (\<exists>signed sig. lx_broadcasts s' = lx_broadcasts s @ [(?k, signed)] \<and>
          lx_redis s' = r(idem_key ?k \<mapsto> (sig, None)))"
      using live_execute_effect [OF assms(1)] by blast
    have free: "broadcasts_of ?k s = []"
    proof (rule ccontr)
      assume "broadcasts_of ?k s \<noteq> []"
      then obtain v where "lx_redis s (idem_key ?k) = Some (v, None)"
        using assms(2) by (auto simp: settled_inv_def key_settled_def)
      with claim_order_settled [OF this c] show False by simp
    qed
    have "length (broadcasts_of j s') \<le> 1 \<and> (broadcasts_of j s' \<noteq> [] \<longrightarrow> key_settled j s')" for j
    proof (cases "j = ?k")
      case True
      with eff free show ?thesis by (auto simp: broadcasts_of_def key_settled_def)
    next
      case False
      have "lx_redis s' (idem_key j) = lx_redis s (idem_key j)"
        using eff claim_order_frame [OF c False] False by auto
      moreover have "broadcasts_of j s' = broadcasts_of j s"
        using eff False by (auto simp: broadcasts_of_def)
      ultimately show ?thesis using assms(2) by (auto simp: settled_inv_def key_settled_def)
    qed
    then show ?thesis by (simp add: settled_inv_def)
  qed (use assms(2) in simp)
qed

fun live_run :: "settings \<Rightarrow> (live_env \<times> approved_order) list \<Rightarrow> live_state \<Rightarrow> live_state" where
  "live_run st [] s = s"
| "live_run st ((env, order) # rest) s = live_run st rest (snd (live_execute st env order s))"

lemma live_run_settled: "settled_inv s \<Longrightarrow> settled_inv (live_run st runs s)"
  by (induction st runs s rule: live_run.induct)
    (auto intro: live_execute_settled [OF prod.collapse [symmetric]])

text \<open>
  C5. A live order is broadcast at most once.  Over any sequence of executions, of the same
  order or of others, retried after any failure, exception or timeout and at any times, the
  number of transactions broadcast under one idempotency key is at most one; and once there is
  one, the key is never free again, so that every later execution of it is refused.
\<close>

theorem live_broadcast_once:
  assumes "lx_broadcasts s = []"
  shows "length (broadcasts_of k (live_run st runs s)) \<le> 1 \<and>
    (broadcasts_of k (live_run st runs s) \<noteq> [] \<longrightarrow>
      (\<forall>now. lookup_order k now (lx_redis (live_run st runs s)) \<noteq> None))"
proof -
  have "settled_inv s" using assms by (simp add: settled_inv_def broadcasts_of_def)
  then have "settled_inv (live_run st runs s)" by (rule live_run_settled)
  then show ?thesis
    by (auto simp: settled_inv_def key_settled_def lookup_order_def kv_get_def)
qed

section \<open>What an outcome says\<close>

definition sent :: "approved_order \<Rightarrow> string \<Rightarrow> live_state \<Rightarrow> live_state \<Rightarrow> bool" where
  "sent order signed s s' \<longleftrightarrow>
     lx_broadcasts s' = lx_broadcasts s @ [(o_idempotency_key order, signed)]"

definition fill_observed :: "live_env \<Rightarrow> approved_order \<Rightarrow> string \<Rightarrow> execution \<Rightarrow> bool" where
  "fill_observed env order signature ex \<longleftrightarrow>
     (\<exists>tx sol_usd pubkey parsed. le_transaction env signature = Inr (Some tx) \<and>
        le_fill_sol_usd env = Inr sol_usd \<and> 0 < sol_usd \<and> le_pubkey env = Inr pubkey \<and>
        parse_transaction (le_key_order env) (le_trade_id env) (le_confirmed_at env) tx pubkey
          (Some signature) sol_usd None = Some parsed \<and>
        matches_order order parsed \<and> ex_value_usd ex = st_source_value_usd parsed \<and>
        ex_actual_price ex * raw_to_ui (st_token_amount_raw parsed) (st_token_decimals parsed) =
          ex_value_usd ex \<and>
        ex_out_amount_raw ex =
          (if is_buy order then st_token_amount_raw parsed else st_quote_amount_raw parsed) \<and>
        total_fee_lamports ex = tx_fee tx \<and> ex_signature ex = Some signature)"

lemma reconcile_observed:
  assumes "reconcile_fill env order signature ex = Inr ex'" "ex_signature ex = Some signature"
  shows "fill_observed env order signature ex'"
proof -
  obtain tx sol_usd pubkey parsed where ok: "le_transaction env signature = Inr (Some tx)"
      "le_fill_sol_usd env = Inr sol_usd" "0 < sol_usd" "le_pubkey env = Inr pubkey"
      "parse_transaction (le_key_order env) (le_trade_id env) (le_confirmed_at env) tx pubkey
         (Some signature) sol_usd None = Some parsed"
      "matches_order order parsed" and ex': "ex' = record_fill order tx parsed ex"
    using assms(1) unfolding reconcile_fill_def
    by (auto split: sum.splits option.splits if_splits)
  have "0 < st_token_amount_raw parsed" using ok(6) by (simp add: matches_order_def)
  then have "raw_to_ui (st_token_amount_raw parsed) (st_token_decimals parsed) \<noteq> 0"
    using raw_to_ui_pos by (metis less_irrefl)
  then show ?thesis
    using ok assms(2) unfolding fill_observed_def ex'
    by (auto simp: record_fill_def Let_def total_fee_lamports_def)
qed

lemma fill_observed_cong [simp]:
  "fill_observed env order signature (ex\<lparr>ex_status := x\<rparr>) = fill_observed env order signature ex"
  "fill_observed env order signature (stamp_confirmed t ex) = fill_observed env order signature ex"
  by (simp_all add: fill_observed_def total_fee_lamports_def stamp_defs)

lemma confirm_fill_cases:
  assumes "ex_signature ex = Some signature" and ex': "ex' = confirm_fill env order signature ex"
  shows "ex_status ex' = ORD_SUBMITTED \<or>
    (ex_status ex' = ORD_FAILED \<and> ex_failure_reason ex' = Some ''onchain_error'' \<and>
      le_confirm env signature = Inr (Some True)) \<or>
    (ex_status ex' = ORD_CONFIRMED \<and> le_confirm env signature = Inr (Some False) \<and>
      fill_observed env order signature ex')"
  using reconcile_observed [OF _ assms(1)] unfolding ex' confirm_fill_def
  by (auto simp: unconfirmed_def split: sum.splits option.splits bool.splits)

lemma broadcast_outcome:
  assumes "broadcast env order signed ex s = (ex', s')"
  shows "(ex_status ex' = ORD_SUBMITTED \<and> (s' = s \<or> sent order signed s s')) \<or>
    (\<exists>signature. le_signature_of env signed = Inr signature \<and> sent order signed s s' \<and>
      ((ex_status ex' = ORD_FAILED \<and> ex_failure_reason ex' = Some ''onchain_error'' \<and>
          le_confirm env signature = Inr (Some True)) \<or>
       (ex_status ex' = ORD_CONFIRMED \<and> le_confirm env signature = Inr (Some False) \<and>
          fill_observed env order signature ex')))"
proof (cases "le_signature_of env signed")
  case (Inl e)
  with assms show ?thesis by (auto simp: broadcast_def unconfirmed_def)
next
  case (Inr signature)
  define ex1 where "ex1 = ex\<lparr>ex_signature := Some signature, ex_status := ORD_SUBMITTED\<rparr>"
  have "sent order signed s s'"
    using assms Inr by (auto simp: broadcast_def Let_def sent_def split: sum.splits if_splits)
  moreover have "ex_status ex' = ORD_SUBMITTED \<or>
      ex' = confirm_fill env order signature (stamp_submitted (le_submitted_at env) ex1)"
    using assms Inr by (auto simp: broadcast_def Let_def ex1_def unconfirmed_def
        split: sum.splits if_splits)
  moreover have "ex_signature (stamp_submitted (le_submitted_at env) ex1) = Some signature"
    by (simp add: ex1_def stamp_defs)
  ultimately show ?thesis using confirm_fill_cases Inr by blast
qed

text \<open>
  C6. What a live execution reports is what happened.  An exception or a failure before the
  network saw anything means nothing was broadcast; after such a failure the key is free again
  (or belonged to an earlier execution), after an exception it stays taken.  The only failure
  with a broadcast is an error the chain reported.  \<open>CONFIRMED\<close> means that the signed
  transaction was confirmed without error and that its parsed balances match the order in token
  and direction; the value, price, amount and fee recorded are those of the chain, not those
  of the quote.  Everything in between is \<open>SUBMITTED\<close>, with the key still taken.
\<close>

theorem live_outcome_honest:
  "case live_execute st env order s of
     (Inl e, s') \<Rightarrow> lx_broadcasts s' = lx_broadcasts s \<and>
       lookup_order (o_idempotency_key order) (le_claim_at env) (lx_redis s') = Some ''pending''
   | (Inr ex, s') \<Rightarrow>
       (ex_status ex = ORD_FAILED \<and> lx_broadcasts s' = lx_broadcasts s \<and>
          (s' = s \<or> lx_redis s' (idem_key (o_idempotency_key order)) = None)) \<or>
       (ex_status ex = ORD_SUBMITTED \<and>
          lookup_order (o_idempotency_key order) (le_claim_at env) (lx_redis s') \<noteq> None) \<or>
       (\<exists>signed signature. le_signature_of env signed = Inr signature \<and> sent order signed s s' \<and>
          lookup_order (o_idempotency_key order) (le_claim_at env) (lx_redis s') \<noteq> None \<and>
          ((ex_status ex = ORD_FAILED \<and> ex_failure_reason ex = Some ''onchain_error'' \<and>
              le_confirm env signature = Inr (Some True)) \<or>
           (ex_status ex = ORD_CONFIRMED \<and> le_confirm env signature = Inr (Some False) \<and>
              fill_observed env order signature ex)))"
proof -
  let ?k = "o_idempotency_key order" and ?t = "le_claim_at env"
  obtain won r where c: "claim_order ?k ?t (lx_redis s) = (won, r)" by force
  have pending: "lookup_order ?k ?t r = Some ''pending''" if won
    using c that by (auto simp: claim_order_def kv_set_nx_ex_def kv_set_ex_def lookup_order_def
        kv_get_def ORDER_TTL_def split: if_splits)
  show ?thesis
  proof (cases won)
    case False
    then have "r = lx_redis s" using orders.claim_lost c by auto
    then show ?thesis using c False by (simp add: live_execute_def Let_def)
  next
    case True
    then have won: "claim_order ?k ?t (lx_redis s) = (True, r)" using c by simp
    consider (raised) e where "prepare st env order (new_execution order ''live'') = Inl e"
      | (failed) ex1 where "prepare st env order (new_execution order ''live'') = Inr (ex1, None)"
      | (built) ex1 tx where "prepare st env order (new_execution order ''live'') = Inr (ex1, Some tx)"
      by (metis old.prod.exhaust option.exhaust sum.exhaust)
    from this show ?thesis
    proof cases
      case raised
      then show ?thesis using won pending True by (simp add: live_execute_def Let_def)
    next
      case failed
      then show ?thesis using won prepare_status [OF failed]
        by (simp add: live_execute_def Let_def abandon_order_def)
    next
      case built
      define answer where
        "answer = le_sign env tx (o_in_amount_raw order + ex_priority_fee_lamports ex1 + 10000)"
      show ?thesis
      proof (cases answer)
        case (Signed signed)
        define s1 where "s1 = s\<lparr>lx_redis := r\<rparr>"
        obtain ex2 s2 where b:
          "broadcast env order signed (stamp_signed (le_signed_at env) ex1) s1 = (ex2, s2)" by force
        have taken: "lookup_order ?k ?t (lx_redis s2) \<noteq> None"
          using broadcast_effect [OF b] pending True
          by (auto simp: s1_def lookup_order_def kv_get_def)
        have "live_execute st env order s = (Inr ex2, s2)"
          using won built Signed b by (simp add: live_execute_def Let_def answer_def s1_def)
        then show ?thesis
          using broadcast_outcome [OF b] taken by (auto simp: s1_def sent_def)
      qed (use won built pending True in
          \<open>simp_all add: live_execute_def Let_def answer_def abandon_order_def\<close>)
    qed
  qed
qed

text \<open>
  Shadow is live without the signature: on the same answers both fail for the same
  reason or raise the same exception before anything is signed, and when live gets as far as
  signing, the shadow execution is confirmed with the price, slippage, route and priority fee
  that live expects, and nothing is claimed or broadcast.
\<close>

theorem shadow_is_live_unsigned:
  assumes "fst (claim_order (o_idempotency_key order) (le_claim_at env) (lx_redis s))"
  shows "case shadow_execute st env order of
      Inl e \<Rightarrow> fst (live_execute st env order s) = Inl e
    | Inr sh \<Rightarrow>
        (if succeeded sh
         then \<exists>ex tx. prepare st env order (new_execution order ''live'') = Inr (ex, Some tx) \<and>
           le_swap env = Inr (Some tx) \<and>
           ex_actual_price sh = ex_expected_price ex \<and>
           ex_actual_slippage_pct sh = ex_expected_slippage_pct ex \<and>
           ex_route sh = ex_route ex \<and> ex_priority_fee_lamports sh = ex_priority_fee_lamports ex \<and>
           ex_out_amount_raw sh = ex_out_amount_raw ex
         else \<exists>ex. fst (live_execute st env order s) = Inr ex \<and> ex = sh\<lparr>ex_mode := ''live''\<rparr> \<and>
           ex_status ex = ORD_FAILED \<and>
           lx_broadcasts (snd (live_execute st env order s)) = lx_broadcasts s)"
proof -
  obtain r where c: "claim_order (o_idempotency_key order) (le_claim_at env) (lx_redis s) = (True, r)"
    using assms by (metis prod.collapse)
  have live: "prepare st env order (new_execution order ''live'') =
      map_sum id (map_prod (\<lambda>e. e\<lparr>ex_mode := ''live''\<rparr>) id)
        (prepare st env order (new_execution order ''shadow''))"
    using prepare_mode [where m = "''live''" and ex = "new_execution order ''shadow''"]
    by (simp add: new_execution_mode [of order "''live''" "''shadow''"])
  show ?thesis
  proof (cases "prepare st env order (new_execution order ''shadow'')")
    case (Inl e)
    then show ?thesis using c live by (simp add: shadow_execute_def live_execute_def Let_def)
  next
    case (Inr p)
    obtain ex tx where p: "p = (ex, tx)" by force
    show ?thesis
    proof (cases tx)
      case None
      then show ?thesis using c live Inr p prepare_status [OF Inr [unfolded p]]
        by (simp add: shadow_execute_def live_execute_def Let_def succeeded_def)
    next
      case (Some t)
      note pre = Inr [unfolded p Some]
      have "le_swap env = Inr (Some t)" using prepared_transaction [OF pre] by metis
      then show ?thesis using live pre
        by (simp add: shadow_execute_def Let_def succeeded_def stamp_defs)
    qed
  qed
qed

section \<open>A concrete execution\<close>

definition sample_env :: live_env where
  "sample_env = \<lparr>le_claim_at = 0, le_quote = Inr (Some sample_quote), le_pubkey = Inr ''us'',
     le_priority = Inr 5000, le_tip_account = ''tip'', le_swap = Inr (Some ''tx''), le_built_at = 1,
     le_simulation = Inr (Some False), le_sol_usd = Inr 150,
     le_sign = (\<lambda>tx m. Signed (tx @ ''-signed'')), le_signed_at = 2,
     le_signature_of = (\<lambda>tx. Inr ''sig''), le_send = (\<lambda>tx. Inl (ProviderError ''timeout'')),
     le_submitted_at = 3, le_confirm = (\<lambda>sig. Inr None), le_transaction = (\<lambda>sig. Inr None),
     le_fill_sol_usd = Inr 150, le_key_order = id, le_trade_id = 1, le_confirmed_at = 4\<rparr>"

definition empty_live :: live_state where
  "empty_live = \<lparr>lx_redis = Map.empty, lx_broadcasts = []\<rparr>"

lemma sample_prepare:
  "prepare default_settings sample_env sample_order (new_execution sample_order m) =
   Inr ((stamp_built 1 (new_execution sample_order m))\<lparr>ex_route := ''route'',
      ex_priority_fee_lamports := 5000, ex_status := ORD_SIMULATED, ex_out_amount_raw := 990000,
      ex_expected_price := 150 / (99/100), ex_expected_slippage_pct := 1\<rparr>, Some ''tx'')"
  by (simp add: prepare_def sample_env_def sample_order_def sample_defs finish_prepare_def Let_def
      plan_protection_def sandwich_risk_score_def SANDWICH_RISK_THRESHOLD_def default_settings_def
      default_copyability_def truthy_def is_buy_def raw_to_ui_def stamp_defs new_execution_def)

lemma sample_env_simps:
  "le_claim_at sample_env = 0" "le_sign sample_env = (\<lambda>tx m. Signed (tx @ ''-signed''))"
  "le_signature_of sample_env = (\<lambda>tx. Inr ''sig'')"
  "le_send sample_env = (\<lambda>tx. Inl (ProviderError ''timeout''))"
  "o_idempotency_key sample_order = ''key''"
  by (simp_all add: sample_env_def sample_order_def)

text \<open>The send times out, the order is retried, and there is still one broadcast.\<close>

lemma live_broadcast_once_witness:
  "length (broadcasts_of ''key'' (live_run default_settings
     [(sample_env, sample_order), (sample_env, sample_order)] empty_live)) = 1"
proof -
  define s1 where "s1 = snd (live_execute default_settings sample_env sample_order empty_live)"
  have c0: "claim_order (o_idempotency_key sample_order) (le_claim_at sample_env) (lx_redis empty_live) =
      (True, [idem_key ''key'' \<mapsto> (''pending'', Some 86400000000)])"
    by (simp add: claim_order_def kv_set_nx_ex_def kv_get_def kv_set_ex_def ORDER_TTL_def
        empty_live_def sample_env_simps)
  have signed: "le_sign sample_env ''tx'' n = Signed ''tx-signed''" for n
    by (simp add: sample_env_simps)
  have sent: "lx_broadcasts (snd (broadcast sample_env sample_order ''tx-signed'' ex s)) =
        lx_broadcasts s @ [(''key'', ''tx-signed'')]"
      "lx_redis (snd (broadcast sample_env sample_order ''tx-signed'' ex s)) (idem_key ''key'') =
        Some (''sig'', None)" for ex s
    by (simp_all add: broadcast_def Let_def sample_env_simps finish_order_def kv_set_def)
  have b: "lx_broadcasts s1 = [(''key'', ''tx-signed'')]"
    and r: "lx_redis s1 (idem_key ''key'') = Some (''sig'', None)"
    unfolding s1_def live_execute_signed [OF c0 sample_prepare signed]
    by (simp_all only: sent) (simp add: empty_live_def)
  obtain won rr where cl: "claim_order ''key'' 0 (lx_redis s1) = (won, rr)" by force
  then have c: "claim_order ''key'' 0 (lx_redis s1) = (False, lx_redis s1)"
    using claim_order_settled [OF r cl] by simp
  have "snd (live_execute default_settings sample_env sample_order s1) = s1"
    using c by (simp add: live_execute_def Let_def sample_env_simps)
  then have run: "live_run default_settings [(sample_env, sample_order), (sample_env, sample_order)]
      empty_live = s1" by (simp add: s1_def)
  have "length (broadcasts_of ''key'' s1) \<le> 1"
    using live_broadcast_once [of empty_live "''key''" default_settings
        "[(sample_env, sample_order), (sample_env, sample_order)]"] run
    by (simp del: live_run.simps) (simp add: empty_live_def)
  then show ?thesis unfolding run by (simp add: broadcasts_of_def b)
qed

lemma shadow_is_live_unsigned_witness:
  "\<exists>sh. shadow_execute default_settings sample_env sample_order = Inr sh \<and> succeeded sh \<and>
     ex_route sh = ''route'' \<and> ex_priority_fee_lamports sh = 5000"
proof -
  have claimed: "fst (claim_order (o_idempotency_key sample_order) (le_claim_at sample_env)
      (lx_redis empty_live))"
    by (simp add: claim_order_def kv_set_nx_ex_def kv_get_def empty_live_def)
  have "\<exists>sh. shadow_execute default_settings sample_env sample_order = Inr sh \<and> succeeded sh"
    by (simp add: shadow_execute_def sample_prepare Let_def succeeded_def)
  then obtain sh where sh: "shadow_execute default_settings sample_env sample_order = Inr sh"
      "succeeded sh" by blast
  then show ?thesis
    using shadow_is_live_unsigned [OF claimed, of default_settings] by (auto simp: sample_prepare)
qed

end
