(* ===== verification/Store.thy ===== *)
theory Store
  imports Samples
begin

text \<open>
  \<^verbatim>\<open>db/repo.py\<close> with the tables of \<^verbatim>\<open>db/models.py\<close> it writes: one list of rows per
  table, appended to in the order of insertion.  \<^verbatim>\<open>session_scope\<close> commits what a block
  did or nothing of it, so an operation either returns the new database or an exception.  A
  fresh primary key and the clock are arguments.  Money columns are exact, as on the default
  SQLite backend; free texts and JSON payloads are omitted.
\<close>

section \<open>Tables\<close>

record trader_row =
  tw_id :: nat
  tw_wallet :: string
  tw_source :: string
  tw_status :: trader_status
  tw_label :: "string option"
  tw_composite :: "rat option"
  tw_confidence :: "rat option"
  tw_copyability :: "rat option"
  tw_live_replication :: "rat option"
  tw_risk_budget :: "rat option"
  tw_size_multiplier :: "rat option"
  tw_median_hold :: "int option"
  tw_latency_tolerance :: "int option"
  tw_avg_trade_size :: "usd option"
  tw_win_rate :: "pct option"
  tw_trade_count :: "int option"
  tw_first_seen_at :: "datetime option"
  tw_last_trade_at :: "datetime option"
  tw_promoted_at :: "datetime option"
  tw_degraded_at :: "datetime option"
  tw_updated_at :: datetime
  tw_meta :: "rat pydict"

record score_row =
  sr_trader_id :: nat
  sr_scores :: trader_scores
  sr_computed_at :: datetime

record source_trade_row =
  sw_id :: nat
  sw_dedupe_key :: string
  sw_trade :: source_trade

record decision_row =
  dr_decision :: decision_result
  dr_source_trade_id :: "nat option"
  dr_wallet :: string
  dr_mint :: string
  dr_action :: action
  dr_mode :: string

record order_row =
  or_id :: nat
  or_key :: string
  or_status :: order_status
  or_position_id :: "nat option"
  or_mode :: string
  or_action :: action
  or_wallet :: string
  or_mint :: string
  or_in_amount_raw :: int
  or_size_usd :: usd
  or_exit_reason :: "exit_reason option"
  or_reservation_id :: "string option"

record position_event =
  pe_position_id :: nat
  pe_seq :: nat
  pe_type :: position_event_type
  pe_amount_raw_delta :: int
  pe_usd_delta :: usd
  pe_price :: rat
  pe_realized_pnl_usd :: usd
  pe_exit_reason :: "string option"
  pe_occurred_at :: datetime

record database =
  db_traders :: "trader_row list"
  db_scores :: "score_row list"
  db_source_trades :: "source_trade_row list"
  db_decisions :: "decision_row list"
  db_orders :: "order_row list"
  db_executions :: "execution list"
  db_positions :: "position list"
  db_position_events :: "position_event list"
  db_system_events :: "(string \<times> string option) list"  \<comment> \<open>type and aggregate\<close>
  db_risk_events :: "(string \<times> string) list"  \<comment> \<open>kind and severity\<close>
  db_audit :: "(string \<times> string) list"  \<comment> \<open>actor and action\<close>
  db_alerts :: "(string \<times> string) list"  \<comment> \<open>level and category\<close>

definition empty_database :: database where
  "empty_database = \<lparr>db_traders = [], db_scores = [], db_source_trades = [], db_decisions = [],
     db_orders = [], db_executions = [], db_positions = [], db_position_events = [],
     db_system_events = [], db_risk_events = [], db_audit = [], db_alerts = []\<rparr>"

text \<open>UPDATE of the rows that satisfy a condition.\<close>

definition update_where :: "('a \<Rightarrow> bool) \<Rightarrow> ('a \<Rightarrow> 'a) \<Rightarrow> 'a list \<Rightarrow> 'a list" where
  "update_where c f = map (\<lambda>r. if c r then f r else r)"

section \<open>Traders\<close>

definition new_trader_row :: "nat \<Rightarrow> datetime \<Rightarrow> string \<Rightarrow> trader_row" where
  "new_trader_row tid now wallet = \<lparr>tw_id = tid, tw_wallet = wallet, tw_source = ''unknown'',
     tw_status = TS_DISCOVERED, tw_label = None, tw_composite = Some 0, tw_confidence = Some 0,
     tw_copyability = Some 0, tw_live_replication = None, tw_risk_budget = Some 0,
     tw_size_multiplier = Some 1, tw_median_hold = None, tw_latency_tolerance = None,
     tw_avg_trade_size = None, tw_win_rate = None, tw_trade_count = Some 0,
     tw_first_seen_at = None, tw_last_trade_at = None, tw_promoted_at = None,
     tw_degraded_at = None, tw_updated_at = now, tw_meta = []\<rparr>"

definition get_trader :: "string \<Rightarrow> database \<Rightarrow> trader_row option" where
  "get_trader wallet d = find (\<lambda>r. tw_wallet r = wallet) (db_traders d)"

text \<open>
  \<^verbatim>\<open>analytics.upsert\<close> on the wallet sets every value, on a new row and on an old one;
  \<^verbatim>\<open>upsert_trader\<close> passes the status or else the initial one.
\<close>

definition upsert_trader ::
    "nat \<Rightarrow> datetime \<Rightarrow> string \<Rightarrow> string \<Rightarrow> string option \<Rightarrow> trader_status option \<Rightarrow> rat pydict \<Rightarrow>
       database \<Rightarrow> database" where
  "upsert_trader tid now wallet src label status meta d =
     (let set_values = (\<lambda>r. r\<lparr>tw_source := src, tw_label := label,
            tw_status := (case status of None \<Rightarrow> TS_DISCOVERED | Some s \<Rightarrow> s),
            tw_first_seen_at := Some now, tw_meta := meta\<rparr>)
      in case get_trader wallet d of
           None \<Rightarrow> d\<lparr>db_traders := db_traders d @ [set_values (new_trader_row tid now wallet)]\<rparr>
         | Some _ \<Rightarrow> d\<lparr>db_traders := update_where (\<lambda>r. tw_wallet r = wallet)
             (\<lambda>r. (set_values r)\<lparr>tw_source := src, tw_label := label, tw_updated_at := now\<rparr>)
             (db_traders d)\<rparr>)"

definition followed_wallets :: "database \<Rightarrow> string list" where
  "followed_wallets d = map tw_wallet
     (filter (\<lambda>r. tw_status r = TS_ACTIVE \<or> tw_status r = TS_PROBATION) (db_traders d))"

definition watchlist_wallets :: "database \<Rightarrow> string list" where
  "watchlist_wallets d = map tw_wallet
     (filter (\<lambda>r. tw_status r \<noteq> TS_BLACKLISTED \<and> tw_status r \<noteq> TS_SUSPENDED) (db_traders d))"

definition trader_to_domain :: "trader_row \<Rightarrow> trader_profile" where
  "trader_to_domain r =
     \<lparr>tr_wallet = tw_wallet r, tr_status = tw_status r, tr_source = tw_source r,
      tr_scores = default_scores\<lparr>sc_copyability := or_zero (tw_copyability r),
        sc_live_replication := tw_live_replication r, sc_composite := or_zero (tw_composite r),
        sc_confidence := or_zero (tw_confidence r), sc_sample_size := or_zero (tw_trade_count r)\<rparr>,
      tr_median_hold_seconds = tw_median_hold r, tr_latency_tolerance_ms = tw_latency_tolerance r,
      tr_avg_trade_size_usd = tw_avg_trade_size r, tr_win_rate = tw_win_rate r,
      tr_trade_count = or_zero (tw_trade_count r), tr_risk_budget_pct = or_zero (tw_risk_budget r),
      tr_size_multiplier = (case tw_size_multiplier r of None \<Rightarrow> 1 | Some m \<Rightarrow> m),
      tr_notes = tw_meta r\<rparr>"

definition save_scores :: "nat \<Rightarrow> trader_scores \<Rightarrow> datetime \<Rightarrow> database \<Rightarrow> database" where
  "save_scores tid scores now d =
     d\<lparr>db_scores := db_scores d @ [\<lparr>sr_trader_id = tid, sr_scores = scores, sr_computed_at = now\<rparr>],
       db_traders := update_where (\<lambda>r. tw_id r = tid)
         (\<lambda>r. r\<lparr>tw_composite := Some (sc_composite scores),
                tw_confidence := Some (sc_confidence scores),
                tw_copyability := Some (sc_copyability scores),
                tw_live_replication := sc_live_replication scores\<rparr>) (db_traders d)\<rparr>"

definition set_trader_status ::
    "string \<Rightarrow> trader_status \<Rightarrow> datetime \<Rightarrow> database \<Rightarrow> database" where
  "set_trader_status wallet status now d =
     d\<lparr>db_traders := update_where (\<lambda>r. tw_wallet r = wallet)
       (\<lambda>r. r\<lparr>tw_status := status,
              tw_promoted_at := (if status = TS_ACTIVE then Some now else tw_promoted_at r),
              tw_degraded_at := (if status = TS_DEGRADED \<or> status = TS_SUSPENDED then Some now
                else tw_degraded_at r)\<rparr>) (db_traders d)\<rparr>"

section \<open>Source trades, decisions, orders and executions\<close>

definition save_source_trade ::
    "(string \<Rightarrow> string) \<Rightarrow> source_trade \<Rightarrow> database \<Rightarrow> nat \<times> database" where
  "save_source_trade sha t d =
     (case find (\<lambda>r. sw_dedupe_key r = dedupe_key sha t) (db_source_trades d) of
        Some r \<Rightarrow> (sw_id r, d)
      | None \<Rightarrow>
          (st_id t, d\<lparr>db_source_trades := db_source_trades d @
              [\<lparr>sw_id = st_id t, sw_dedupe_key = dedupe_key sha t, sw_trade = t\<rparr>],
            db_traders := update_where (\<lambda>r. tw_wallet r = st_wallet t)
              (\<lambda>r. r\<lparr>tw_last_trade_at := Some (st_source_confirmed_at t),
                     tw_trade_count := map_option (\<lambda>n. n + 1) (tw_trade_count r)\<rparr>)
              (db_traders d)\<rparr>))"

definition save_decision ::
    "settings \<Rightarrow> decision_result \<Rightarrow> source_trade \<Rightarrow> nat option \<Rightarrow> database \<Rightarrow> database" where
  "save_decision st dec trade source_trade_id d =
     d\<lparr>db_decisions := db_decisions d @ [\<lparr>dr_decision = dec, dr_source_trade_id = source_trade_id,
        dr_wallet = st_wallet trade, dr_mint = st_token_mint trade, dr_action = st_action trade,
        dr_mode = mode_value (mode_setting st)\<rparr>]\<rparr>"

definition save_order ::
    "settings \<Rightarrow> approved_order \<Rightarrow> database \<Rightarrow> approved_order \<times> database" where
  "save_order st order d =
     (case find (\<lambda>r. or_key r = o_idempotency_key order) (db_orders d) of
        Some r \<Rightarrow> (order\<lparr>o_id := or_id r\<rparr>, d)
      | None \<Rightarrow>
          (order, d\<lparr>db_orders := db_orders d @
            [\<lparr>or_id = o_id order, or_key = o_idempotency_key order, or_status = ORD_CREATED,
              or_position_id = o_position_id order, or_mode = mode_value (mode_setting st),
              or_action = o_action order, or_wallet = tr_wallet (c_trader (o_candidate order)),
              or_mint = st_token_mint (c_source_trade (o_candidate order)),
              or_in_amount_raw = o_in_amount_raw order, or_size_usd = o_size_usd order,
              or_exit_reason = o_exit_reason order,
              or_reservation_id = o_reservation_id order\<rparr>]\<rparr>))"

definition save_execution :: "execution \<Rightarrow> database \<Rightarrow> database" where
  "save_execution ex d =
     d\<lparr>db_executions := db_executions d @ [ex\<lparr>ex_route := take 256 (ex_route ex)\<rparr>],
       db_orders := update_where (\<lambda>r. or_id r = ex_order_id ex)
         (\<lambda>r. r\<lparr>or_status := ex_status ex\<rparr>) (db_orders d)\<rparr>"

section \<open>Positions\<close>

definition open_position ::
    "settings \<Rightarrow> nat \<Rightarrow> datetime \<Rightarrow> string \<Rightarrow> string \<Rightarrow> execution \<Rightarrow> nat \<Rightarrow> nat option \<Rightarrow>
       database \<Rightarrow> database" where
  "open_position st pid now token_mint trader_wallet ex decimals source_trade_id d =
     d\<lparr>db_positions := db_positions d @
         [\<lparr>p_id = pid, p_token_mint = token_mint, p_trader_wallet = trader_wallet,
           p_status = POS_OPEN, p_decimals = decimals, p_amount_raw = ex_out_amount_raw ex,
           p_cost_basis_usd = ex_value_usd ex, p_realized_pnl_usd = 0, p_fees_usd = 0,
           p_entry_price = ex_actual_price ex, p_current_price = ex_actual_price ex,
           p_peak_price = ex_actual_price ex, p_trailing_armed = False, p_tp_levels_hit = [],
           p_opened_at = now, p_closed_at = None, p_source_trade_id = source_trade_id,
           p_mode = mode_value (mode_setting st)\<rparr>],
       db_position_events := db_position_events d @
         [\<lparr>pe_position_id = pid, pe_seq = 0, pe_type = PEV_OPENED,
           pe_amount_raw_delta = ex_out_amount_raw ex, pe_usd_delta = ex_value_usd ex,
           pe_price = ex_actual_price ex, pe_realized_pnl_usd = 0, pe_exit_reason = None,
           pe_occurred_at = now\<rparr>]\<rparr>"

definition events_of :: "nat \<Rightarrow> database \<Rightarrow> position_event list" where
  "events_of pid d = filter (\<lambda>e. pe_position_id e = pid) (db_position_events d)"

definition next_seq :: "nat \<Rightarrow> database \<Rightarrow> nat" where
  "next_seq pid d = fold max (map pe_seq (events_of pid d)) 0 + 1"

definition reduce_row ::
    "execution \<Rightarrow> datetime \<Rightarrow> int \<Rightarrow> usd \<Rightarrow> usd \<Rightarrow> bool \<Rightarrow> nat option \<Rightarrow> position \<Rightarrow> position" where
  "reduce_row ex now amount_raw proceeds_usd realized fully_closed ladder_index r =
     (let r1 = r\<lparr>p_realized_pnl_usd := p_realized_pnl_usd r + realized,
                 p_current_price := ex_actual_price ex,
                 p_status := (if fully_closed then POS_CLOSED else POS_OPEN)\<rparr>;
          r2 = (case ladder_index of
                  None \<Rightarrow> r1
                | Some i \<Rightarrow> r1\<lparr>p_tp_levels_hit := (if i \<in> set (p_tp_levels_hit r1)
                    then p_tp_levels_hit r1 else p_tp_levels_hit r1 @ [i])\<rparr>)
      in if fully_closed then r2\<lparr>p_amount_raw := 0, p_closed_at := Some now\<rparr>
         else r2\<lparr>p_amount_raw := p_amount_raw r2 - amount_raw,
                 p_cost_basis_usd := p_cost_basis_usd r2 - (proceeds_usd - realized)\<rparr>)"

definition reduce_position ::
    "nat \<Rightarrow> execution \<Rightarrow> datetime \<Rightarrow> int \<Rightarrow> usd \<Rightarrow> usd \<Rightarrow> string \<Rightarrow> bool \<Rightarrow> nat option \<Rightarrow> database \<Rightarrow>
       py_error + database" where
  "reduce_position pid ex now amount_raw proceeds_usd realized exit_reason fully_closed ladder_index d =
     (if pid \<notin> set (map p_id (db_positions d)) then Inl (ValueError ''NoResultFound'')
      else Inr (d\<lparr>
        db_position_events := db_position_events d @
          [\<lparr>pe_position_id = pid, pe_seq = next_seq pid d,
            pe_type = (if fully_closed then PEV_CLOSED else PEV_REDUCED),
            pe_amount_raw_delta = - amount_raw, pe_usd_delta = proceeds_usd,
            pe_price = ex_actual_price ex, pe_realized_pnl_usd = realized,
            pe_exit_reason = Some exit_reason, pe_occurred_at = now\<rparr>],
        db_positions := update_where (\<lambda>r. p_id r = pid)
          (reduce_row ex now amount_raw proceeds_usd realized fully_closed ladder_index)
          (db_positions d)\<rparr>))"

definition persist_marks :: "position \<Rightarrow> database \<Rightarrow> database" where
  "persist_marks p d = d\<lparr>db_positions := update_where (\<lambda>r. p_id r = p_id p)
     (\<lambda>r. r\<lparr>p_current_price := p_current_price p, p_peak_price := p_peak_price p,
            p_trailing_armed := p_trailing_armed p\<rparr>) (db_positions d)\<rparr>"

definition is_open_row :: "string \<Rightarrow> position \<Rightarrow> bool" where
  "is_open_row m r \<longleftrightarrow> p_mode r = m \<and> (p_status r = POS_OPEN \<or> p_status r = POS_REDUCING)"

definition open_position_rows :: "string \<Rightarrow> database \<Rightarrow> position list" where
  "open_position_rows m d = filter (is_open_row m) (db_positions d)"

definition position_for :: "settings \<Rightarrow> string \<Rightarrow> string option \<Rightarrow> database \<Rightarrow> position option" where
  "position_for st token_mint trader_wallet d =
     find (\<lambda>r. p_mode r = mode_value (mode_setting st) \<and> p_token_mint r = token_mint \<and>
       p_status r = POS_OPEN \<and>
       (case trader_wallet of None \<Rightarrow> True | Some w \<Rightarrow> w = [] \<or> p_trader_wallet r = w))
       (db_positions d)"

section \<open>Logs\<close>

definition log_event :: "string \<Rightarrow> string option \<Rightarrow> database \<Rightarrow> database" where
  "log_event event_type aggregate_id d =
     d\<lparr>db_system_events := db_system_events d @ [(event_type, aggregate_id)]\<rparr>"

definition log_risk_event :: "string \<Rightarrow> string \<Rightarrow> database \<Rightarrow> database" where
  "log_risk_event kind severity d = d\<lparr>db_risk_events := db_risk_events d @ [(kind, severity)]\<rparr>"

definition repo_log_audit :: "string \<Rightarrow> string \<Rightarrow> database \<Rightarrow> database" where
  "repo_log_audit actor act d = d\<lparr>db_audit := db_audit d @ [(actor, act)]\<rparr>"

definition add_alert :: "string \<Rightarrow> string \<Rightarrow> database \<Rightarrow> database" where
  "add_alert level category d = d\<lparr>db_alerts := db_alerts d @ [(level, category)]\<rparr>"

end
