(* ===== verification/Positions.thy ===== *)
theory Positions
  imports Store Exits Ledger_Lifecycle Live_Execution
begin

text \<open>
  \<^verbatim>\<open>services/position_service.py\<close> and the order execution of
  \<^verbatim>\<open>services/decision_service.py\<close>: how an approved order becomes a position and how
  positions are marked and sold.  The executor is an argument that runs on its own state, so that
  each of the executors fits; provider answers are functions of what is asked.  The evaluations
  of one tick, which the service starts together, run one after the other in the model: each
  works on its own position, and the ledger scripts are atomic.
\<close>

section \<open>Names\<close>

fun nat_text :: "nat \<Rightarrow> string" where
  "nat_text n = (if n < 10 then [hex_digit n] else nat_text (n div 10) @ [hex_digit (n mod 10)])"

declare nat_text.simps [simp del]

definition int_text :: "int \<Rightarrow> string" where
  "int_text i = (if i < 0 then CHR ''-'' # nat_text (nat (- i)) else nat_text (nat i))"

text \<open>The text of a UUID: 32 hexadecimal digits in groups of 8, 4, 4, 4 and 12.\<close>

definition uuid_digits :: "nat \<Rightarrow> nat \<Rightarrow> nat \<Rightarrow> string" where
  "uuid_digits u i j = map (\<lambda>k. hex_digit (u div 16 ^ (31 - k))) [i..<j]"

definition uuid_text :: "nat \<Rightarrow> string" where
  "uuid_text u = uuid_digits u 0 8 @ ''-'' @ uuid_digits u 8 12 @ ''-'' @ uuid_digits u 12 16 @
     ''-'' @ uuid_digits u 16 20 @ ''-'' @ uuid_digits u 20 32"

section \<open>The state of the services\<close>

type_synonym 'x executor = "approved_order \<Rightarrow> 'x \<Rightarrow> (py_error + execution) \<times> 'x"

record 'x world =
  w_db :: database
  w_ledger :: ledger_store
  w_bus :: "(event_type \<times> string) list"
  w_source_exit :: "nat \<rightharpoonup> rat \<times> datetime"
  w_exit_liq :: "string \<times> int \<rightharpoonup> usd option \<times> datetime"
  w_exec :: 'x

definition publish_on :: "event_type \<Rightarrow> string \<Rightarrow> 'x world \<Rightarrow> 'x world" where
  "publish_on ev agg w = w\<lparr>w_bus := w_bus w @ [(ev, agg)]\<rparr>"

section \<open>From an order to a position\<close>

text \<open>
  What follows an execution.  Its database block commits as a whole; the ledger call in it is
  atomic by itself.
\<close>

definition settle_entry ::
    "settings \<Rightarrow> nat \<Rightarrow> datetime \<Rightarrow> approved_order \<Rightarrow> string \<Rightarrow> source_trade \<Rightarrow> nat option \<Rightarrow>
       execution \<Rightarrow> 'x world \<Rightarrow> 'x world" where
  "settle_entry st pid now order res_id trade source_trade_id ex w =
     (let d = save_execution ex (w_db w); wallet = st_wallet trade
      in if succeeded ex \<and> 0 < ex_out_amount_raw ex
           then w\<lparr>w_ledger := snd (ledger_commit res_id (ex_value_usd ex) (w_ledger w)),
                  w_db := log_event (event_type_value EV_POSITION_OPENED) (Some wallet)
                    (open_position st pid now (o_output_mint order) wallet ex
                       (ms_decimals (c_market (o_candidate order))) source_trade_id d)\<rparr>
         else if ex_status ex = ORD_SUBMITTED
           then w\<lparr>w_db := log_risk_event ''EXECUTION_RECONCILIATION_REQUIRED'' ''critical'' d\<rparr>
         else w\<lparr>w_ledger := snd (ledger_release res_id (w_ledger w)),
                w_db := log_event (event_type_value EV_ORDER_FAILED) None d\<rparr>)"

definition entry_event :: "execution \<Rightarrow> event_type" where
  "entry_event ex = (if succeeded ex then EV_POSITION_OPENED
     else if ex_status ex = ORD_SUBMITTED then EV_ORDER_SUBMITTED else EV_ORDER_FAILED)"

definition execute_entry ::
    "settings \<Rightarrow> 'x executor \<Rightarrow> nat \<Rightarrow> datetime \<Rightarrow> approved_order \<Rightarrow> source_trade \<Rightarrow> nat option \<Rightarrow>
       'x world \<Rightarrow> (py_error + execution) \<times> 'x world" where
  "execute_entry st run pid now order trade source_trade_id w =
     (case o_reservation_id order of
        None \<Rightarrow> (Inl (ValueError ''entry order has no risk reservation''), w)
      | Some res_id \<Rightarrow>
          (case save_order st order (w_db w) of
             (order1, d) \<Rightarrow>
               (case run order1 (w_exec w) of
                  (Inl e, x) \<Rightarrow> (Inl e, w\<lparr>w_db := d, w_exec := x\<rparr>)
                | (Inr ex, x) \<Rightarrow>
                    (Inr ex, publish_on (entry_event ex) (st_wallet trade)
                       (settle_entry st pid now order1 res_id trade source_trade_id ex
                          (w\<lparr>w_db := d, w_exec := x\<rparr>))))))"

section \<open>Selling\<close>

definition synthetic_source :: "datetime \<Rightarrow> position \<Rightarrow> market_state \<Rightarrow> source_trade" where
  "synthetic_source now p market =
     \<lparr>st_id = p_id p, st_wallet = p_trader_wallet p,
      st_signature = ''exit-'' @ take 12 (id_hex16 (p_id p)), st_slot = 0, st_action = ACT_SELL,
      st_token_mint = p_token_mint p, st_quote_mint = SOL_MINT, st_token_amount_raw = p_amount_raw p,
      st_quote_amount_raw = 0, st_token_decimals = p_decimals p, st_quote_decimals = 9,
      st_source_price = ms_price_usd market, st_source_value_usd = 0, st_source_confirmed_at = now,
      st_detected_at = now, st_sold_fraction = None\<rparr>"

definition synthetic_trader :: "position \<Rightarrow> trader_profile" where
  "synthetic_trader p = (default_trader (p_trader_wallet p))\<lparr>tr_status := TS_ACTIVE\<rparr>"

definition exit_key :: "nat \<Rightarrow> exit_reason \<Rightarrow> int \<Rightarrow> string" where
  "exit_key pid reason amount_raw =
     ''exit:'' @ uuid_text pid @ '':'' @ exit_reason_value reason @ '':'' @ int_text amount_raw"

definition exit_slippage_bps :: "settings \<Rightarrow> exit_intent \<Rightarrow> int" where
  "exit_slippage_bps st i = execution_slippage_bps (copyability st) * (if ei_urgent i then 2 else 1)"

definition exit_order ::
    "settings \<Rightarrow> nat \<Rightarrow> datetime \<Rightarrow> position \<Rightarrow> market_state \<Rightarrow> exit_intent \<Rightarrow> int \<Rightarrow> quote option \<Rightarrow>
       approved_order" where
  "exit_order st oid now p market i amount_raw q =
     \<lparr>o_id = oid, o_idempotency_key = exit_key (p_id p) (ei_reason i) amount_raw,
      o_candidate = \<lparr>c_id = oid, c_source_trade = synthetic_source now p market,
        c_trader = synthetic_trader p, c_market = market, c_token_risk = None, c_quote = q,
        c_confirmations = [], c_created_at = now\<rparr>,
      o_action = ACT_SELL, o_input_mint = p_token_mint p, o_output_mint = SOL_MINT,
      o_in_amount_raw = amount_raw,
      o_size_usd = raw_to_ui amount_raw (p_decimals p) * ms_price_usd market,
      o_slippage_bps = exit_slippage_bps st i, o_position_id = Some (p_id p),
      o_exit_reason = Some (ei_reason i), o_reservation_id = None, o_latency = no_latency\<rparr>"

text \<open>How much of a position an intent sells, and whether that is all of it.\<close>

definition exit_amount :: "position \<Rightarrow> exit_intent \<Rightarrow> int \<times> bool" where
  "exit_amount p i =
     (let amount = trunc_int (of_int (p_amount_raw p) * ei_fraction i);
          fully = (is_full i \<or> p_amount_raw p \<le> amount)
      in (if 0 < amount \<and> fully then p_amount_raw p else amount, fully))"

text \<open>The books after a confirmed sale: the rows, the ledger and the position object.\<close>

definition settle_exit ::
    "datetime \<Rightarrow> position \<Rightarrow> market_state \<Rightarrow> exit_intent \<Rightarrow> int \<Rightarrow> bool \<Rightarrow> execution \<Rightarrow> 'x world \<Rightarrow>
       (py_error + bool) \<times> position \<times> 'x world" where
  "settle_exit now p market i amount_raw fully ex w =
     (let exit_price = (if ex_actual_price ex = 0 then ms_price_usd market else ex_actual_price ex);
          (proceeds, pnl) = realized_pnl p amount_raw exit_price;
          cost_released = proceeds - pnl;
          ev = (if fully then EV_POSITION_CLOSED else EV_POSITION_REDUCED)
      in case reduce_position (p_id p) ex now amount_raw proceeds pnl
                (exit_reason_value (ei_reason i)) fully (ei_ladder_index i)
                (save_execution ex (w_db w)) of
           Inl e \<Rightarrow> (Inl e, p, w)
         | Inr d \<Rightarrow>
             (Inr True,
              p\<lparr>p_amount_raw := p_amount_raw p - amount_raw,
                p_cost_basis_usd := p_cost_basis_usd p - cost_released,
                p_realized_pnl_usd := p_realized_pnl_usd p + pnl,
                p_tp_levels_hit := (case ei_ladder_index i of None \<Rightarrow> p_tp_levels_hit p
                  | Some idx \<Rightarrow> p_tp_levels_hit p @ [idx]),
                p_status := (if fully then POS_CLOSED else p_status p)\<rparr>,
              publish_on ev (p_trader_wallet p)
                (w\<lparr>w_db := log_event (event_type_value ev) (Some (p_trader_wallet p)) d,
                   w_ledger := release_position (p_token_mint p) (p_trader_wallet p) cost_released
                     pnl proceeds fully (w_ledger w)\<rparr>)))"

definition execute_exit ::
    "settings \<Rightarrow> 'x executor \<Rightarrow> nat \<Rightarrow> datetime \<Rightarrow> (int \<Rightarrow> py_error + quote option) \<Rightarrow> position \<Rightarrow>
       market_state \<Rightarrow> exit_intent \<Rightarrow> 'x world \<Rightarrow> (py_error + bool) \<times> position \<times> 'x world" where
  "execute_exit st run oid now quote_for p market i w =
     (case exit_amount p i of
        (amount_raw, fully) \<Rightarrow>
          if amount_raw \<le> 0 then (Inr False, p, w)
          else case quote_for amount_raw of
            Inl e \<Rightarrow> (Inl e, p, w)
          | Inr q \<Rightarrow>
              (case save_order st (exit_order st oid now p market i amount_raw q) (w_db w) of
                 (order, d) \<Rightarrow>
                   (case run order (w_exec w) of
                      (Inl e, x) \<Rightarrow> (Inl e, p, w\<lparr>w_db := d, w_exec := x\<rparr>)
                    | (Inr ex, x) \<Rightarrow>
                        let w1 = w\<lparr>w_db := d, w_exec := x\<rparr>
                        in if \<not> succeeded ex
                             then (Inr False, p, w1\<lparr>w_db := save_execution ex d\<rparr>)
                           else settle_exit now p market i amount_raw fully ex w1)))"

section \<open>One tick\<close>

definition EXIT_LIQUIDITY_TTL :: int where "EXIT_LIQUIDITY_TTL = 30"

definition HARVEST_EVERY :: nat where "HARVEST_EVERY = 60"

record exit_env =
  xe_now :: datetime
  xe_market :: "position \<Rightarrow> py_error + market_state"
  xe_quote :: "string \<Rightarrow> int \<Rightarrow> py_error + quote option"
  xe_order_id :: "nat \<Rightarrow> nat"  \<comment> \<open>the fresh id of an exit order, by position\<close>

definition exit_liquidity ::
    "exit_env \<Rightarrow> position \<Rightarrow> 'x world \<Rightarrow> (py_error + usd option) \<times> 'x world" where
  "exit_liquidity env p w =
     (if p_amount_raw p \<le> 0 then (Inr None, w)
      else let key = (p_token_mint p, p_amount_raw p);
               remember = (\<lambda>v. w\<lparr>w_exit_liq :=
                 (w_exit_liq w)(key \<mapsto> (v, expires (xe_now env) EXIT_LIQUIDITY_TTL))\<rparr>)
           in case live_entry (xe_now env) (w_exit_liq w key) of
                Some v \<Rightarrow> (Inr v, w)
              | None \<Rightarrow>
                  (case xe_quote env (p_token_mint p) (p_amount_raw p) of
                     Inl e \<Rightarrow> (Inl e, w)
                   | Inr None \<Rightarrow> (Inr (Some 0), w)
                   | Inr (Some q) \<Rightarrow>
                       if q_price_impact_pct q \<le> 0 then (Inr None, remember None)
                       else let l = market_value_usd p / (q_price_impact_pct q / 100)
                            in (Inr (Some l), remember (Some l))))"

definition exit_decision ::
    "settings \<Rightarrow> exit_env \<Rightarrow> position \<Rightarrow> market_state \<Rightarrow> usd option \<Rightarrow> 'x world \<Rightarrow> exit_intent option"
  where
  "exit_decision st env p market liq w =
     (let source_exit = live_entry (xe_now env) (w_source_exit w (p_id p));
          trader = map_option trader_to_domain (get_trader (p_trader_wallet p) (w_db w))
      in evaluate_exits p market trader (source_exit \<noteq> None)
           (case source_exit of None \<Rightarrow> 1 | Some f \<Rightarrow> f) liq (risk st) (xe_now env))"

definition evaluate_position ::
    "settings \<Rightarrow> 'x executor \<Rightarrow> exit_env \<Rightarrow> position \<Rightarrow> 'x world \<Rightarrow>
       (py_error + unit) \<times> position \<times> 'x world" where
  "evaluate_position st run env p w =
     (case xe_market env p of
        Inl e \<Rightarrow> (Inl e, p, w)
      | Inr market \<Rightarrow>
          if ms_price_usd market \<le> 0 then (Inr (), p, w)
          else
            (case update_marks p market (risk st) of
               (changed, p1) \<Rightarrow>
                 let w1 = (if changed then w\<lparr>w_db := persist_marks p1 (w_db w)\<rparr> else w)
                 in if \<not> allows_exits (control_get (w_ledger w1)) then (Inr (), p1, w1)
                    else
                      (case exit_liquidity env p1 w1 of
                         (Inl e, w2) \<Rightarrow> (Inl e, p1, w2)
                       | (Inr liq, w2) \<Rightarrow>
                           (case exit_decision st env p1 market liq w2 of
                              None \<Rightarrow> (Inr (), p1, w2)
                            | Some i \<Rightarrow>
                                (case execute_exit st run (xe_order_id env (p_id p)) (xe_now env)
                                        (xe_quote env (p_token_mint p)) p1 market i w2 of
                                   (Inl e, p2, w3) \<Rightarrow> (Inl e, p2, w3)
                                 | (Inr ok, p2, w3) \<Rightarrow>
                                     (Inr (), p2,
                                      if live_entry (xe_now env) (w_source_exit w2 (p_id p)) \<noteq> None \<and>
                                         ok \<and> ei_reason i = EXIT_MIRROR
                                      then w3\<lparr>w_source_exit := (w_source_exit w3)(p_id p := None)\<rparr>
                                      else w3))))))"

fun evaluate_all ::
    "settings \<Rightarrow> 'x executor \<Rightarrow> exit_env \<Rightarrow> position list \<Rightarrow> 'x world \<Rightarrow> position list \<times> 'x world" where
  "evaluate_all st run env [] w = ([], w)"
| "evaluate_all st run env (p # ps) w =
     (case evaluate_position st run env p w of
        (_, p1, w1) \<Rightarrow>
          case evaluate_all st run env ps w1 of (ps1, w2) \<Rightarrow> (p1 # ps1, w2))"

definition unrealized_total :: "position list \<Rightarrow> usd" where
  "unrealized_total ps = sum_list (map unrealized_pnl_usd (filter (\<lambda>p. p_status p = POS_OPEN) ps))"

text \<open>\<open>harvest\<close> stands for the harvest of the ledger every sixty ticks (theory Treasury).\<close>

definition tick ::
    "settings \<Rightarrow> 'x executor \<Rightarrow> (ledger_store \<Rightarrow> ledger_store) \<Rightarrow> exit_env \<Rightarrow> nat \<Rightarrow> 'x world \<Rightarrow>
       nat \<times> 'x world" where
  "tick st run harvest env ticks w =
     (let ticks1 = ticks + 1;
          positions = open_position_rows (mode_value (mode_setting st)) (w_db w);
          (positions1, w1) = evaluate_all st run env positions w;
          w2 = w1\<lparr>w_ledger := snd (mark (unrealized_total positions1) None (w_ledger w1))\<rparr>
      in (ticks1, if ticks1 mod HARVEST_EVERY = 0 then w2\<lparr>w_ledger := harvest (w_ledger w2)\<rparr> else w2))"

section \<open>The mirror signal\<close>

definition handle_source_exit ::
    "settings \<Rightarrow> datetime \<Rightarrow> source_trade \<Rightarrow> 'x world \<Rightarrow> 'x world" where
  "handle_source_exit st now trade w =
     (case position_for st (st_token_mint trade) (Some (st_wallet trade)) (w_db w) of
        None \<Rightarrow> w
      | Some p \<Rightarrow>
          let fraction = (if st_action trade = ACT_SELL then 1
            else case st_sold_fraction trade of None \<Rightarrow> 1/2 | Some f \<Rightarrow> f)
          in w\<lparr>w_source_exit := (w_source_exit w)(p_id p \<mapsto> (fraction, expires now 300))\<rparr>)"

end
