(* ===== verification/Position_Books.thy ===== *)
theory Position_Books
  imports Positions
begin

text \<open>
  What the position tables and the risk ledger promise together: a position row is the
  projection of its events, the events of a position are numbered without a gap, and no fill,
  sale or mark creates or loses value between the free cash, the cost of what is held and the
  realised result.
\<close>

section \<open>The projection\<close>

definition row_ok :: "database \<Rightarrow> position \<Rightarrow> bool" where
  "row_ok d r \<longleftrightarrow>
     p_amount_raw r = sum_list (map pe_amount_raw_delta (events_of (p_id r) d)) \<and>
     p_realized_pnl_usd r = sum_list (map pe_realized_pnl_usd (events_of (p_id r) d)) \<and>
     map pe_seq (events_of (p_id r) d) = [0..<length (events_of (p_id r) d)] \<and>
     events_of (p_id r) d \<noteq> [] \<and>
     (p_status r = POS_CLOSED \<longrightarrow> p_amount_raw r = 0)"

definition projection_ok :: "database \<Rightarrow> bool" where
  "projection_ok d \<longleftrightarrow> distinct (map p_id (db_positions d)) \<and>
     (\<forall>r \<in> set (db_positions d). row_ok d r) \<and>
     (\<forall>e \<in> set (db_position_events d). pe_position_id e \<in> p_id ` set (db_positions d))"

lemma projection_rowD: "projection_ok d \<Longrightarrow> r \<in> set (db_positions d) \<Longrightarrow> row_ok d r"
  by (simp add: projection_ok_def)

lemma row_ok_cong:
  "events_of (p_id r) d' = events_of (p_id r) d \<Longrightarrow> row_ok d' r = row_ok d r"
  by (simp add: row_ok_def)

definition same_books :: "database \<Rightarrow> database \<Rightarrow> bool" where
  "same_books d d' \<longleftrightarrow> db_positions d' = db_positions d \<and> db_position_events d' = db_position_events d"

lemma same_books_refl [simp]: "same_books d d"
  by (simp add: same_books_def)

lemma same_books_log [simp]:
  "same_books d (log_event ev agg d)" "same_books d (log_risk_event k s d)"
  "same_books d (save_execution ex d)" "same_books d (snd (save_order st order d))"
  by (auto simp: same_books_def log_event_def log_risk_event_def save_execution_def save_order_def
      split: option.split)

lemma projection_ok_cong: "same_books d d' \<Longrightarrow> projection_ok d' = projection_ok d"
  by (simp add: same_books_def projection_ok_def row_ok_def events_of_def)

lemma map_update_where: "(\<And>r. g (f r) = g r) \<Longrightarrow> map g (update_where c f xs) = map g xs"
  by (simp add: update_where_def)

lemma set_update_where:
  "r' \<in> set (update_where c f xs) \<longleftrightarrow> (\<exists>r \<in> set xs. r' = (if c r then f r else r))"
  by (auto simp: update_where_def)

lemma update_where_other: "r \<in> set xs \<Longrightarrow> \<not> c r \<Longrightarrow> r \<in> set (update_where c f xs)"
  by (force simp: set_update_where)

lemma reduce_row_id [simp]:
  "p_id (reduce_row ex now a pr re fully lad r) = p_id r"
  "p_mode (reduce_row ex now a pr re fully lad r) = p_mode r"
  by (simp_all add: reduce_row_def Let_def split: option.split)

lemma reduce_row_fields:
  "p_amount_raw (reduce_row ex now a pr re fully lad r) = (if fully then 0 else p_amount_raw r - a)"
  "p_realized_pnl_usd (reduce_row ex now a pr re fully lad r) = p_realized_pnl_usd r + re"
  "p_cost_basis_usd (reduce_row ex now a pr re fully lad r) =
     (if fully then p_cost_basis_usd r else p_cost_basis_usd r - (pr - re))"
  "p_status (reduce_row ex now a pr re fully lad r) = (if fully then POS_CLOSED else POS_OPEN)"
  by (simp_all add: reduce_row_def Let_def split: option.split)

lemma open_position_ok:
  assumes "projection_ok d" "pid \<notin> p_id ` set (db_positions d)"
  shows "projection_ok (open_position st pid now mint wallet ex dec src d)"
proof -
  have old: "events_of (p_id r) (open_position st pid now mint wallet ex dec src d) =
      events_of (p_id r) d" if "r \<in> set (db_positions d)" for r
    using that assms(2) by (auto simp: events_of_def open_position_def)
  have "events_of pid d = []"
    using assms by (auto simp: events_of_def projection_ok_def filter_empty_conv)
  then have new: "events_of pid (open_position st pid now mint wallet ex dec src d) =
      [\<lparr>pe_position_id = pid, pe_seq = 0, pe_type = PEV_OPENED,
        pe_amount_raw_delta = ex_out_amount_raw ex, pe_usd_delta = ex_value_usd ex,
        pe_price = ex_actual_price ex, pe_realized_pnl_usd = 0, pe_exit_reason = None,
        pe_occurred_at = now\<rparr>]"
    by (simp add: events_of_def open_position_def)
  have "row_ok (open_position st pid now mint wallet ex dec src d) r"
    if "r \<in> set (db_positions d)" for r
    using projection_rowD [OF assms(1) that] row_ok_cong [OF old [OF that]] by simp
  moreover have "db_positions (open_position st pid now mint wallet ex dec src d) =
      db_positions d @ [r] \<Longrightarrow> p_id r = pid \<Longrightarrow> p_amount_raw r = ex_out_amount_raw ex \<Longrightarrow>
      p_realized_pnl_usd r = 0 \<Longrightarrow> p_status r = POS_OPEN \<Longrightarrow>
      row_ok (open_position st pid now mint wallet ex dec src d) r" for r
    by (simp add: row_ok_def new)
  ultimately show ?thesis
    using assms unfolding projection_ok_def
    by (auto simp: open_position_def)
qed

lemma fold_max_upt: "fold max [0..<n] (0::nat) = n - 1"
  by (induction n) auto

lemma next_seq_upt:
  "map pe_seq (events_of pid d) = [0..<n] \<Longrightarrow> 0 < n \<Longrightarrow> next_seq pid d = n"
  by (simp add: next_seq_def fold_max_upt)

lemma reduce_position_ok:
  assumes "reduce_position pid ex now a pr re rs fully lad d = Inr d'" "projection_ok d"
    and "\<And>r. r \<in> set (db_positions d) \<Longrightarrow> p_id r = pid \<Longrightarrow> fully \<Longrightarrow> p_amount_raw r = a"
  shows "projection_ok d'"
proof -
  define e where "e = \<lparr>pe_position_id = pid, pe_seq = next_seq pid d,
      pe_type = (if fully then PEV_CLOSED else PEV_REDUCED), pe_amount_raw_delta = - a,
      pe_usd_delta = pr, pe_price = ex_actual_price ex, pe_realized_pnl_usd = re,
      pe_exit_reason = Some rs, pe_occurred_at = now\<rparr>"
  have pid: "pid \<in> p_id ` set (db_positions d)"
    and d': "db_position_events d' = db_position_events d @ [e]"
      "db_positions d' = update_where (\<lambda>r. p_id r = pid) (reduce_row ex now a pr re fully lad)
        (db_positions d)"
    using assms(1) by (auto simp: reduce_position_def e_def split: if_splits)
  have ev: "events_of i d' = events_of i d @ (if i = pid then [e] else [])" for i
    by (simp add: events_of_def d' e_def)
  have row: "row_ok d' (if p_id r = pid then reduce_row ex now a pr re fully lad r else r)"
    if r: "r \<in> set (db_positions d)" for r
  proof (cases "p_id r = pid")
    case True
    note ok = projection_rowD [OF assms(2) r, unfolded row_ok_def True]
    have n: "next_seq pid d = length (events_of pid d)"
      using ok by (intro next_seq_upt) simp_all
    have "sum_list (map pe_amount_raw_delta (events_of pid d)) = a" if fully
      using ok assms(3) [OF r True that] by simp
    then show ?thesis
      using ok by (simp add: row_ok_def ev reduce_row_fields True) (simp add: e_def n)
  next
    case False
    then have "events_of (p_id r) d' = events_of (p_id r) d" by (simp add: ev)
    from row_ok_cong [OF this] show ?thesis using projection_rowD [OF assms(2) r] False by simp
  qed
  have "map p_id (db_positions d') = map p_id (db_positions d)"
    unfolding d' by (rule map_update_where) simp
  then have ids: "p_id ` set (db_positions d') = p_id ` set (db_positions d)"
    by (metis set_map)
  have "row_ok d' r" if "r \<in> set (db_positions d')" for r
    using that row unfolding d'(2) set_update_where by blast
  moreover have "pe_position_id x \<in> p_id ` set (db_positions d)" if "x \<in> set (db_position_events d')" for x
    using that pid assms(2) unfolding d'(1) by (auto simp: projection_ok_def e_def)
  ultimately show ?thesis
    unfolding projection_ok_def ids \<open>map p_id (db_positions d') = map p_id (db_positions d)\<close>
    using assms(2) by (simp add: projection_ok_def)
qed

lemma persist_marks_events: "events_of i (persist_marks p d) = events_of i d"
  by (simp add: events_of_def persist_marks_def)

lemma persist_marks_ok:
  assumes "projection_ok d"
  shows "projection_ok (persist_marks p d)"
proof -
  have ids: "map p_id (db_positions (persist_marks p d)) = map p_id (db_positions d)"
    unfolding persist_marks_def by (simp add: map_update_where)
  then have "p_id ` set (db_positions (persist_marks p d)) = p_id ` set (db_positions d)"
    by (metis set_map)
  moreover have "row_ok (persist_marks p d) r" if new: "r \<in> set (db_positions (persist_marks p d))" for r
  proof -
    obtain r0 where r0: "r0 \<in> set (db_positions d)"
      and eqs: "p_id r = p_id r0" "p_amount_raw r = p_amount_raw r0" "p_status r = p_status r0"
      "p_realized_pnl_usd r = p_realized_pnl_usd r0"
      using new by (auto simp: persist_marks_def set_update_where split: if_splits)
    show ?thesis
      using projection_rowD [OF assms r0] unfolding row_ok_def persist_marks_events eqs .
  qed
  ultimately show ?thesis
    using assms ids by (simp add: projection_ok_def) (simp add: persist_marks_def)
qed

section \<open>Value\<close>

definition open_cost :: "string \<Rightarrow> database \<Rightarrow> usd" where
  "open_cost m d = sum_list (map p_cost_basis_usd (open_position_rows m d))"

definition realized_total :: "string \<Rightarrow> database \<Rightarrow> usd" where
  "realized_total m d =
     sum_list (map p_realized_pnl_usd (filter (\<lambda>r. p_mode r = m) (db_positions d)))"

definition books_value :: "string \<Rightarrow> 'x world \<Rightarrow> usd" where
  "books_value m w =
     h_cash (rd_state (w_ledger w)) + open_cost m (w_db w) - realized_total m (w_db w)"

text \<open>A position object that agrees with its row.\<close>

definition synced :: "string \<Rightarrow> database \<Rightarrow> position \<Rightarrow> bool" where
  "synced m d p \<longleftrightarrow> (\<exists>r \<in> set (db_positions d). p_id r = p_id p \<and> is_open_row m r \<and>
     p_amount_raw r = p_amount_raw p \<and> p_cost_basis_usd r = p_cost_basis_usd p)"

lemma same_books_value:
  "same_books (w_db w) (w_db w') \<Longrightarrow> h_cash (rd_state (w_ledger w')) = h_cash (rd_state (w_ledger w)) \<Longrightarrow>
   books_value m w' = books_value m w"
  by (simp add: books_value_def same_books_def open_cost_def realized_total_def
      open_position_rows_def)

lemma synced_cong: "same_books d d' \<Longrightarrow> synced m d' p = synced m d p"
  by (simp add: synced_def same_books_def)

lemma sum_update_where:
  fixes g :: "position \<Rightarrow> usd"
  assumes "distinct (map p_id xs)" "r \<in> set xs"
  shows "sum_list (map g (update_where (\<lambda>x. p_id x = p_id r) f xs)) =
    sum_list (map g xs) - g r + g (f r)"
  using assms
proof (induction xs)
  case (Cons x xs)
  show ?case
  proof (cases "x = r")
    case True
    then have "update_where (\<lambda>x. p_id x = p_id r) f xs = xs"
      using Cons.prems(1) by (force simp: update_where_def image_iff intro!: map_idI)
    then show ?thesis using True by (simp add: update_where_def)
  next
    case False
    then have "p_id x \<noteq> p_id r" using Cons.prems by (auto simp: image_iff)
    then show ?thesis using Cons False by (simp add: update_where_def)
  qed
qed simp

lemma open_cost_sum:
  "open_cost m d = sum_list (map (\<lambda>r. if is_open_row m r then p_cost_basis_usd r else 0) (db_positions d))"
  by (simp add: open_cost_def open_position_rows_def sum_list_map_filter')

lemma realized_total_sum:
  "realized_total m d = sum_list (map (\<lambda>r. if p_mode r = m then p_realized_pnl_usd r else 0) (db_positions d))"
  by (simp add: realized_total_def sum_list_map_filter')

lemma synced_row:
  assumes "synced m d p" "projection_ok d"
  obtains r where "r \<in> set (db_positions d)" "p_id r = p_id p" "is_open_row m r"
    "p_amount_raw r = p_amount_raw p" "p_cost_basis_usd r = p_cost_basis_usd p"
    "\<And>r'. r' \<in> set (db_positions d) \<Longrightarrow> p_id r' = p_id p \<Longrightarrow> r' = r"
  using assms unfolding synced_def projection_ok_def
  by (metis (no_types, lifting) distinct_map inj_on_eq_iff)

lemma realized_pnl_cost:
  assumes "realized_pnl p a x = (proceeds, pnl)" "0 < p_amount_raw p"
  shows "a = p_amount_raw p \<Longrightarrow> proceeds - pnl = p_cost_basis_usd p"
  using assms by (auto simp: realized_pnl_split)

text \<open>One reduction: the projection stays, the cost leaves the open rows, the result is realised.\<close>

lemma reduce_position_books:
  assumes "reduce_position (p_id p) ex now a pr re rs fully lad d = Inr d'"
    and "projection_ok d" "synced m d p"
    and full: "fully \<Longrightarrow> a = p_amount_raw p \<and> pr - re = p_cost_basis_usd p"
  shows "projection_ok d'" "open_cost m d' = open_cost m d - (pr - re)"
    "realized_total m d' = realized_total m d + re"
    "synced m d q \<Longrightarrow> p_id q \<noteq> p_id p \<Longrightarrow> synced m d' q"
proof -
  obtain r where r: "r \<in> set (db_positions d)" "p_id r = p_id p" "is_open_row m r"
    "p_amount_raw r = p_amount_raw p" "p_cost_basis_usd r = p_cost_basis_usd p"
    and uniq: "\<And>r'. r' \<in> set (db_positions d) \<Longrightarrow> p_id r' = p_id p \<Longrightarrow> r' = r"
    using synced_row [OF assms(3,2)] by blast
  show "projection_ok d'"
    by (rule reduce_position_ok [OF assms(1,2)]) (use uniq r full in auto)
  have d': "db_positions d' = update_where (\<lambda>x. p_id x = p_id r)
      (reduce_row ex now a pr re fully lad) (db_positions d)"
    using assms(1) by (auto simp: reduce_position_def r(2) split: if_splits)
  have dist: "distinct (map p_id (db_positions d))" using assms(2) by (simp add: projection_ok_def)
  have open': "is_open_row m (reduce_row ex now a pr re fully lad r) \<longleftrightarrow> \<not> fully"
    using r(3) by (auto simp: is_open_row_def reduce_row_fields)
  show "open_cost m d' = open_cost m d - (pr - re)"
    unfolding open_cost_sum d' sum_update_where [OF dist r(1)]
    using r full by (auto simp: open' reduce_row_fields)
  show "realized_total m d' = realized_total m d + re"
    unfolding realized_total_sum d' sum_update_where [OF dist r(1)]
    using r(3) by (simp add: reduce_row_fields is_open_row_def)
  show "synced m d' q" if "synced m d q" "p_id q \<noteq> p_id p"
    using that r(2) update_where_other [of _ "db_positions d" "\<lambda>x. p_id x = p_id r"]
    unfolding synced_def d' by (metis (mono_tags, lifting))
qed

section \<open>Sales\<close>

lemma exit_amount_cases:
  assumes "exit_amount p i = (a, fully)" "0 < a" "0 \<le> p_amount_raw p"
  shows "a \<le> p_amount_raw p" "fully \<longleftrightarrow> a = p_amount_raw p" "0 < p_amount_raw p"
  using assms by (auto simp: exit_amount_def Let_def split: if_splits)

lemma release_position_cash:
  "h_cash (rd_state (release_position mint wallet cost pnl proceeds fully s)) =
   h_cash (rd_state s) + proceeds"
  by (simp add: release_position_def script_release_position_def Let_def)

lemma settle_exit_books:
  assumes "settle_exit now p market i a fully ex w = (res, p', w')"
    and "projection_ok (w_db w)" "synced m (w_db w) p" "0 < p_amount_raw p"
    and "fully \<Longrightarrow> a = p_amount_raw p"
  shows "projection_ok (w_db w') \<and> books_value m w' = books_value m w \<and>
    (\<forall>q. synced m (w_db w) q \<longrightarrow> p_id q \<noteq> p_id p \<longrightarrow> synced m (w_db w') q)"
proof -
  obtain x pr pnl where x: "realized_pnl p a x = (pr, pnl)"
    and xd: "x = (if ex_actual_price ex = 0 then ms_price_usd market else ex_actual_price ex)"
    by (metis surj_pair)
  define d where "d = save_execution ex (w_db w)"
  have same: "same_books (w_db w) d" by (simp add: d_def)
  have ok: "projection_ok d" and sy: "synced m d p"
    using projection_ok_cong [OF same] synced_cong [OF same] assms(2,3) by auto
  show ?thesis
  proof (cases "reduce_position (p_id p) ex now a pr pnl (exit_reason_value (ei_reason i)) fully
      (ei_ladder_index i) d")
    case (Inl e)
    then show ?thesis
      using assms x by (auto simp: settle_exit_def xd d_def)
  next
    case (Inr d')
    have full: "fully \<Longrightarrow> a = p_amount_raw p \<and> pr - pnl = p_cost_basis_usd p"
      using assms(5) realized_pnl_cost [OF x assms(4)] by blast
    note books = reduce_position_books [OF Inr ok sy full]
    have w': "w_db w' = log_event (event_type_value (if fully then EV_POSITION_CLOSED
          else EV_POSITION_REDUCED)) (Some (p_trader_wallet p)) d'"
      "w_ledger w' = release_position (p_token_mint p) (p_trader_wallet p) (pr - pnl) pnl pr fully
        (w_ledger w)"
      using assms(1) x Inr by (auto simp: settle_exit_def xd [symmetric] d_def publish_on_def Let_def)
    have same': "same_books d' (w_db w')" by (simp add: w')
    have "books_value m w' = books_value m w"
    proof -
      have "open_cost m (w_db w) = open_cost m d" "realized_total m (w_db w) = realized_total m d"
        using same by (simp_all add: open_cost_sum realized_total_sum same_books_def)
      moreover have "open_cost m (w_db w') = open_cost m d'"
          "realized_total m (w_db w') = realized_total m d'"
        using same' by (simp_all add: open_cost_sum realized_total_sum same_books_def)
      ultimately show ?thesis
        using books(2,3) by (simp add: books_value_def w'(2) release_position_cash)
    qed
    moreover have "synced m (w_db w') q" if "synced m (w_db w) q" "p_id q \<noteq> p_id p" for q
      using books(4) that synced_cong [OF same] synced_cong [OF same'] by blast
    ultimately show ?thesis
      using books(1) projection_ok_cong [OF same'] by blast
  qed
qed

text \<open>What holds of a step of the service on one position.\<close>

definition books_kept :: "string \<Rightarrow> nat \<Rightarrow> 'x world \<Rightarrow> 'x world \<Rightarrow> bool" where
  "books_kept m pid w w' \<longleftrightarrow> projection_ok (w_db w') \<and> books_value m w' = books_value m w \<and>
     (\<forall>q. synced m (w_db w) q \<longrightarrow> p_id q \<noteq> pid \<longrightarrow> synced m (w_db w') q)"

lemma books_kept_same:
  assumes "same_books (w_db w) (w_db w')" "projection_ok (w_db w)"
    "h_cash (rd_state (w_ledger w')) = h_cash (rd_state (w_ledger w))"
  shows "books_kept m pid w w'"
  using assms by (simp add: books_kept_def projection_ok_cong same_books_value synced_cong)

lemma books_kept_trans:
  "books_kept m pid w w1 \<Longrightarrow> books_kept m pid w1 w2 \<Longrightarrow> books_kept m pid w w2"
  by (simp add: books_kept_def)

lemma execute_exit_books:
  assumes "execute_exit st run oid now qf p market i w = (res, p', w')"
    and "projection_ok (w_db w)" "synced m (w_db w) p" "0 \<le> p_amount_raw p"
  shows "books_kept m (p_id p) w w'"
proof -
  obtain a fully where a: "exit_amount p i = (a, fully)" by force
  show ?thesis
  proof (cases "a \<le> 0 \<or> (\<exists>e. qf a = Inl e)")
    case True
    then have "w' = w" using assms(1) a by (auto simp: execute_exit_def split: if_splits)
    then show ?thesis using assms(2) by (simp add: books_kept_same)
  next
    case False
    then obtain q where q: "qf a = Inr q" by (metis sum.exhaust)
    have pos: "0 < a" using False by simp
    obtain order d where sv: "save_order st (exit_order st oid now p market i a q) (w_db w) = (order, d)"
      by force
    obtain rx x where rn: "run order (w_exec w) = (rx, x)" by force
    define w1 where "w1 = w\<lparr>w_db := d, w_exec := x\<rparr>"
    have same: "same_books (w_db w) (w_db w1)"
      using same_books_log(4) [of "w_db w" st "exit_order st oid now p market i a q"]
      by (simp add: sv w1_def)
    then have k1: "books_kept m (p_id p) w w1"
      by (rule books_kept_same [OF _ assms(2)]) (simp add: w1_def)
    have k2: "books_kept m (p_id p) w1 w'"
    proof (cases "\<exists>ex. rx = Inr ex \<and> succeeded ex")
      case True
      then obtain ex where "rx = Inr ex" "succeeded ex" by blast
      then have st': "settle_exit now p market i a fully ex w1 = (res, p', w')"
        using assms(1) a q pos sv rn by (simp add: execute_exit_def Let_def w1_def)
      show ?thesis
        unfolding books_kept_def
        by (rule settle_exit_books [OF st'])
          (use projection_ok_cong [OF same] synced_cong [OF same] assms(2,3)
            exit_amount_cases [OF a pos assms(4)] in auto)
    next
      case False
      then have "same_books (w_db w1) (w_db w') \<and> w_ledger w' = w_ledger w1"
        using assms(1) a q pos sv rn by (auto simp: execute_exit_def Let_def w1_def split: sum.splits)
      then show ?thesis
        using projection_ok_cong [OF same] assms(2) by (intro books_kept_same) auto
    qed
    show ?thesis by (rule books_kept_trans [OF k1 k2])
  qed
qed

lemma persist_marks_cost: "open_cost m (persist_marks p d) = open_cost m d"
  unfolding open_cost_sum
  by (rule arg_cong [of _ _ sum_list]) (auto simp: persist_marks_def update_where_def is_open_row_def)

lemma persist_marks_realized: "realized_total m (persist_marks p d) = realized_total m d"
  unfolding realized_total_sum
  by (rule arg_cong [of _ _ sum_list]) (auto simp: persist_marks_def update_where_def)

lemma synced_persist_marks:
  assumes "synced m d q"
  shows "synced m (persist_marks p d) q"
proof -
  obtain r where r: "r \<in> set (db_positions d)" "p_id r = p_id q" "is_open_row m r"
    "p_amount_raw r = p_amount_raw q" "p_cost_basis_usd r = p_cost_basis_usd q"
    using assms by (auto simp: synced_def)
  define r' where "r' = (if p_id r = p_id p then r\<lparr>p_current_price := p_current_price p,
    p_peak_price := p_peak_price p, p_trailing_armed := p_trailing_armed p\<rparr> else r)"
  have "r' \<in> set (db_positions (persist_marks p d))"
    using r(1) by (auto simp: persist_marks_def set_update_where r'_def)
  moreover have "p_id r' = p_id q" "is_open_row m r'" "p_amount_raw r' = p_amount_raw q"
    "p_cost_basis_usd r' = p_cost_basis_usd q"
    using r by (simp_all add: r'_def is_open_row_def)
  ultimately show ?thesis unfolding synced_def by blast
qed

lemma persist_marks_kept:
  assumes "projection_ok (w_db w)" "w_db w' = persist_marks p (w_db w)" "w_ledger w' = w_ledger w"
  shows "books_kept m pid w w'" "synced m (w_db w) q \<Longrightarrow> synced m (w_db w') q"
  using assms persist_marks_ok synced_persist_marks
  by (auto simp: books_kept_def books_value_def persist_marks_cost persist_marks_realized)

lemma update_marks_keeps:
  "update_marks p market cfg = (changed, p1) \<Longrightarrow>
   p_id p1 = p_id p \<and> p_amount_raw p1 = p_amount_raw p \<and> p_cost_basis_usd p1 = p_cost_basis_usd p"
  by (auto simp: update_marks_def Let_def split: if_splits)

lemma exit_liquidity_frame:
  "exit_liquidity env p w = (r, w') \<Longrightarrow> w_db w' = w_db w \<and> w_ledger w' = w_ledger w"
  by (auto simp: exit_liquidity_def Let_def split: if_splits option.splits sum.splits)

lemma exit_decision_pos: "exit_decision st env p market liq w = Some i \<Longrightarrow> 0 < p_amount_raw p"
  by (auto simp: exit_decision_def evaluate_exits_def Let_def split: if_splits)

lemma evaluate_position_books:
  assumes "evaluate_position st run env p w = (res, p', w')"
    and "projection_ok (w_db w)" "synced m (w_db w) p"
  shows "books_kept m (p_id p) w w'"
proof (cases "\<exists>market. xe_market env p = Inr market \<and> 0 < ms_price_usd market")
  case False
  then have "w' = w" using assms(1)
    by (auto simp: evaluate_position_def not_less split: sum.splits if_splits)
  then show ?thesis using assms(2) by (simp add: books_kept_same)
next
  case True
  then obtain market where mk: "xe_market env p = Inr market" "0 < ms_price_usd market" by blast
  obtain changed p1 where um: "update_marks p market (risk st) = (changed, p1)" by force
  note p1 = update_marks_keeps [OF um]
  define w1 where "w1 = (if changed then w\<lparr>w_db := persist_marks p1 (w_db w)\<rparr> else w)"
  have k1: "books_kept m (p_id p) w w1" and sy: "synced m (w_db w1) p"
    using persist_marks_kept [of w w1 p1] assms(2,3) books_kept_same [of w w] 
    by (auto simp: w1_def)
  then have sy1: "synced m (w_db w1) p1" using p1 by (simp add: synced_def)
  obtain lq w2 where lq: "exit_liquidity env p1 w1 = (lq, w2)" by force
  have k2: "books_kept m (p_id p) w1 w2"
    using exit_liquidity_frame [OF lq] k1 by (intro books_kept_same) (auto simp: books_kept_def)
  have sy2: "synced m (w_db w2) p1" "projection_ok (w_db w2)"
    using exit_liquidity_frame [OF lq] sy1 k1 by (auto simp: books_kept_def)
  consider (stop) "w' = w1" | (quiet) "w' = w2"
    | (sell) i r p2 w3 where "execute_exit st run (xe_order_id env (p_id p)) (xe_now env)
        (xe_quote env (p_token_mint p)) p1 market i w2 = (r, p2, w3)"
        "w_db w' = w_db w3" "w_ledger w' = w_ledger w3" "0 < p_amount_raw p1"
    using assms(1) mk um lq unfolding evaluate_position_def Let_def w1_def [symmetric]
    by (auto simp: w1_def [symmetric] dest: exit_decision_pos
        split: if_splits sum.splits option.splits prod.splits)
  then show ?thesis
  proof cases
    case stop
    then show ?thesis using k1 by simp
  next
    case quiet
    then show ?thesis using books_kept_trans [OF k1 k2] by simp
  next
    case sell
    have "books_kept m (p_id p1) w2 w3"
      by (rule execute_exit_books [OF sell(1) sy2(2,1)]) (use sell(4) in simp)
    then have "books_kept m (p_id p) w w3"
      using books_kept_trans [OF books_kept_trans [OF k1 k2]] p1 by simp
    then show ?thesis using sell(2,3) by (simp add: books_kept_def books_value_def)
  qed
qed

lemma evaluate_all_books:
  assumes "evaluate_all st run env ps w = (ps', w')"
    and "projection_ok (w_db w)" "\<And>p. p \<in> set ps \<Longrightarrow> synced m (w_db w) p"
    and "distinct (map p_id ps)"
  shows "projection_ok (w_db w') \<and> books_value m w' = books_value m w"
  using assms
proof (induction ps arbitrary: w ps' w')
  case (Cons p ps)
  obtain res p1 w1 where e: "evaluate_position st run env p w = (res, p1, w1)" by (metis surj_pair)
  obtain ps1 w2 where r: "evaluate_all st run env ps w1 = (ps1, w2)" by force
  have k: "books_kept m (p_id p) w w1"
    using Cons.prems by (intro evaluate_position_books [OF e]) auto
  then have "synced m (w_db w1) q" if "q \<in> set ps" for q
  proof -
    have "synced m (w_db w) q" using that Cons.prems(3) by simp
    moreover have "p_id q \<noteq> p_id p" using that Cons.prems(4) by (metis distinct.simps(2) image_eqI
      list.map(2) list.set_map)
    ultimately have "synced m (w_db w) q" "p_id q \<noteq> p_id p" by auto
    then show ?thesis using k by (simp add: books_kept_def)
  qed
  with Cons.IH [OF r] Cons.prems(4) k
  have "projection_ok (w_db w2) \<and> books_value m w2 = books_value m w1"
    by (simp add: books_kept_def)
  then show ?case using Cons.prems(1) e r k by (simp add: books_kept_def)
qed simp

lemma mark_cash: "h_cash (rd_state (snd (mark u b s))) = h_cash (rd_state s)"
  by (simp add: mark_def script_mark_def Let_def split: option.split)

lemma open_rows_synced: "p \<in> set (open_position_rows m d) \<Longrightarrow> synced m d p"
  by (auto simp: synced_def open_position_rows_def)

lemma tick_books:
  assumes "projection_ok (w_db w)" and m: "m = mode_value (mode_setting st)"
  shows "projection_ok (w_db (snd (tick st run harvest env n w)))"
    and "(n + 1) mod HARVEST_EVERY \<noteq> 0 \<Longrightarrow>
      books_value m (snd (tick st run harvest env n w)) = books_value m w"
proof -
  obtain ps w1 where e: "evaluate_all st run env (open_position_rows m (w_db w)) w = (ps, w1)"
    by force
  have "distinct (map p_id (open_position_rows m (w_db w)))"
    using assms(1) by (simp add: open_position_rows_def projection_ok_def distinct_map_filter)
  then have "projection_ok (w_db w1) \<and> books_value m w1 = books_value m w"
    using evaluate_all_books [OF e assms(1)] open_rows_synced by blast
  then show "projection_ok (w_db (snd (tick st run harvest env n w)))"
    "(n + 1) mod HARVEST_EVERY \<noteq> 0 \<Longrightarrow>
      books_value m (snd (tick st run harvest env n w)) = books_value m w"
    by (simp_all add: tick_def e [unfolded m] Let_def m books_value_def mark_cash)
qed

text \<open>
  C10. A tick of the position service conserves value.  Whatever the prices, the rules and the
  fills are, the free cash plus the cost of what is still held minus the realised result is the
  same after the tick as before, provided the position rows project their events, which they
  still do afterwards; only a harvest, every sixtieth tick, takes capital out of the books.
\<close>

theorem tick_conserves_value:
  assumes "projection_ok (w_db w)" "(n + 1) mod HARVEST_EVERY \<noteq> 0"
  shows "projection_ok (w_db (snd (tick st run harvest env n w))) \<and>
    books_value (mode_value (mode_setting st)) (snd (tick st run harvest env n w)) =
      books_value (mode_value (mode_setting st)) w"
  using tick_books [OF assms(1) refl] assms(2) by blast

section \<open>Entries\<close>

definition reserved_value :: "string \<Rightarrow> ledger_store \<Rightarrow> usd" where
  "reserved_value rid l = (case rd_reservations l rid of None \<Rightarrow> 0
     | Some r \<Rightarrow> if rh_state r = ''held'' then rh_usd r else 0)"

definition reservation_held :: "string \<Rightarrow> ledger_store \<Rightarrow> bool" where
  "reservation_held rid l \<longleftrightarrow> (\<exists>r. rd_reservations l rid = Some r \<and> rh_state r = ''held'')"

lemma commit_held:
  assumes "reservation_held rid l"
  shows "h_cash (rd_state (snd (ledger_commit rid v l))) = h_cash (rd_state l) + reserved_value rid l - v"
    "\<not> reservation_held rid (snd (ledger_commit rid v l))"
    "reserved_value rid (snd (ledger_commit rid v l)) = 0"
  using assms by (auto simp: reservation_held_def reserved_value_def ledger_commit_def
      script_commit_def Let_def)

lemma release_held:
  assumes "reservation_held rid l"
  shows "h_cash (rd_state (snd (ledger_release rid l))) = h_cash (rd_state l) + reserved_value rid l"
    "\<not> reservation_held rid (snd (ledger_release rid l))"
    "reserved_value rid (snd (ledger_release rid l)) = 0"
  using assms by (auto simp: reservation_held_def reserved_value_def ledger_release_def
      script_release_def Let_def)

lemma open_position_value:
  fixes st pid now mint wallet ex dec src d
  defines "d' \<equiv> open_position st pid now mint wallet ex dec src d"
  shows "open_cost (mode_value (mode_setting st)) d' =
      open_cost (mode_value (mode_setting st)) d + ex_value_usd ex"
    "realized_total (mode_value (mode_setting st)) d' =
      realized_total (mode_value (mode_setting st)) d"
  by (simp_all add: d'_def open_cost_sum realized_total_sum open_position_def is_open_row_def)

lemma same_books_totals:
  "same_books d d' \<Longrightarrow> open_cost m d' = open_cost m d \<and> realized_total m d' = realized_total m d"
  by (simp add: same_books_def open_cost_sum realized_total_sum)

lemma settle_entry_books:
  fixes st order res_id trade src ex w pid now
  defines "w' \<equiv> settle_entry st pid now order res_id trade src ex w"
    and "m \<equiv> mode_value (mode_setting st)"
  assumes "projection_ok (w_db w)" "pid \<notin> p_id ` set (db_positions (w_db w))"
    and "reservation_held res_id (w_ledger w)"
  shows "projection_ok (w_db w')"
    "books_value m w' + reserved_value res_id (w_ledger w') =
      books_value m w + reserved_value res_id (w_ledger w)"
proof -
  let ?d = "save_execution ex (w_db w)"
  have same: "same_books (w_db w) ?d" by simp
  have ok: "projection_ok ?d" "pid \<notin> p_id ` set (db_positions ?d)"
    using assms(3,4) projection_ok_cong [OF same] same by (simp_all add: same_books_def)
  note opened = open_position_ok [OF ok]
  note totals = same_books_totals [OF same] same_books_totals [OF same_books_log(1)]
    same_books_totals [OF same_books_log(2)]
  show "projection_ok (w_db w')"
    using opened ok(1) projection_ok_cong [OF same_books_log(1)] projection_ok_cong [OF same_books_log(2)]
    by (simp add: w'_def settle_entry_def Let_def)
  show "books_value m w' + reserved_value res_id (w_ledger w') =
      books_value m w + reserved_value res_id (w_ledger w)"
    using assms(5) by (simp add: w'_def m_def settle_entry_def Let_def books_value_def totals
        open_position_value commit_held release_held)
qed


section \<open>Reachable books\<close>

text \<open>What the two services do to the books, in any order; a new position has a fresh id.\<close>

inductive service_steps :: "settings \<Rightarrow> 'x executor \<Rightarrow> 'x world \<Rightarrow> 'x world \<Rightarrow> bool"
  for st run where
  steps_refl: "service_steps st run w w"
| steps_entry: "service_steps st run w w1 \<Longrightarrow> pid \<notin> p_id ` set (db_positions (w_db w1)) \<Longrightarrow>
    execute_entry st run pid now order trade src w1 = (res, w2) \<Longrightarrow> service_steps st run w w2"
| steps_tick: "service_steps st run w w1 \<Longrightarrow> tick st run harvest env n w1 = (n', w2) \<Longrightarrow>
    service_steps st run w w2"
| steps_mirror: "service_steps st run w w1 \<Longrightarrow>
    service_steps st run w (handle_source_exit st now trade w1)"
| steps_other: "service_steps st run w w1 \<Longrightarrow> same_books (w_db w1) (w_db w2) \<Longrightarrow>
    service_steps st run w w2"

lemma execute_entry_projection:
  assumes "execute_entry st run pid now order trade src w = (res, w')"
    and "projection_ok (w_db w)" "pid \<notin> p_id ` set (db_positions (w_db w))"
  shows "projection_ok (w_db w')"
proof (cases "o_reservation_id order")
  case None
  then show ?thesis using assms by (auto simp: execute_entry_def)
next
  case (Some rid)
  obtain order1 d where sv: "save_order st order (w_db w) = (order1, d)" by force
  have same: "same_books (w_db w) d" using same_books_log(4) [of "w_db w" st order] by (simp add: sv)
  have ok: "projection_ok d" "pid \<notin> p_id ` set (db_positions d)"
    using projection_ok_cong [OF same] same assms(2,3) by (simp_all add: same_books_def)
  have saved: "projection_ok (save_execution ex d)"
    "pid \<notin> p_id ` set (db_positions (save_execution ex d))" for ex
    using ok projection_ok_cong [OF same_books_log(3)] by (auto simp: save_execution_def)
  show ?thesis
    using assms(1) Some sv ok saved open_position_ok [OF saved] projection_ok_cong [OF same_books_log(1)]
      projection_ok_cong [OF same_books_log(2)]
    by (auto simp: execute_entry_def publish_on_def settle_entry_def Let_def
        split: prod.splits sum.splits if_splits)
qed

lemma handle_source_exit_db: "w_db (handle_source_exit st now trade w) = w_db w"
  by (simp add: handle_source_exit_def Let_def split: option.split)

lemma empty_projection: "projection_ok empty_database"
  by (simp add: projection_ok_def empty_database_def)


section \<open>When exits fire\<close>


section \<open>What never settles\<close>

text \<open>
  The key of an exit order depends on the position, the rule and the quantity only, and a key
  that was broadcast stays taken.  So an exit whose transaction failed on chain is refused as a
  duplicate for as long as the same rule asks for the same quantity.
\<close>

lemma exit_key_repeats:
  "o_idempotency_key (exit_order st oid now p market i a q) =
   o_idempotency_key (exit_order st' oid' now' p' market' i' a q')"
  if "p_id p = p_id p'" "ei_reason i = ei_reason i'"
  using that by (simp add: exit_order_def)

lemma broadcast_exit_never_retried:
  assumes "live_execute st env order s = (res, s')" "lx_broadcasts s' \<noteq> lx_broadcasts s"
    and "o_idempotency_key order' = o_idempotency_key order"
  shows "\<exists>ex. live_execute st env' order' s' = (Inr ex, s') \<and> ex_status ex = ORD_FAILED"
proof -
  let ?k = "o_idempotency_key order"
  obtain sig where sig: "lx_redis s' (idem_key ?k) = Some (sig, None)"
    using live_execute_effect [OF assms(1)] assms(2) by auto
  obtain won r where c: "claim_order ?k (le_claim_at env') (lx_redis s') = (won, r)" by force
  then have "\<not> won \<and> r = lx_redis s'" using claim_order_settled [OF sig] by blast
  then show ?thesis using c assms(3) by (simp add: live_execute_def Let_def)
qed

text \<open>
  An exception between the reservation and its settlement, a provider outage in the preparation
  of a live order for example, leaves the pending slot taken; only a commit or a release of
  this very reservation would free it, and the order is never executed again.
\<close>

lemma entry_exception_keeps_slot:
  assumes "execute_entry st run pid now order trade src w = (Inl e, w')"
  shows "h_pending (rd_state (w_ledger w')) = h_pending (rd_state (w_ledger w)) \<and>
    rd_reservations (w_ledger w') = rd_reservations (w_ledger w)"
  using assms by (auto simp: execute_entry_def split: option.splits prod.splits sum.splits)

section \<open>Concrete books\<close>

definition paper_run :: "unit executor" where
  "paper_run order x = (Inr (paper_execute default_settings (1/2) 0 None order), x)"

definition sample_fill :: execution where
  "sample_fill = (new_execution sample_order ''paper'')\<lparr>ex_status := ORD_CONFIRMED,
     ex_actual_price := 150, ex_out_amount_raw := 1000000, ex_value_usd := 150\<rparr>"

definition sample_world :: "'x \<Rightarrow> 'x world" where
  "sample_world x = \<lparr>w_db = open_position default_settings 7 0 ''MINT'' ''alice'' sample_fill 6 None
       empty_database,
     w_ledger = sample_ledger, w_bus = [], w_source_exit = Map.empty, w_exit_liq = Map.empty,
     w_exec = x\<rparr>"

definition log_run :: "approved_order list executor" where
  "log_run order orders = (Inr (fail_execution ''no_route'' (new_execution order ''paper'')), orders @ [order])"

definition crash_env :: exit_env where
  "crash_env = \<lparr>xe_now = 1000000, xe_market = (\<lambda>p. Inr (sample_market\<lparr>ms_price_usd := 75\<rparr>)),
     xe_quote = (\<lambda>mint a. Inr (Some sample_quote)), xe_order_id = (\<lambda>i. 8)\<rparr>"

lemma sample_world_ok: "projection_ok (w_db (sample_world x))"
  unfolding sample_world_def by (simp add: empty_projection)
    (rule open_position_ok [OF empty_projection], simp add: empty_database_def)

lemma tick_conserves_value_witness:
  "books_value ''paper'' (snd (tick default_settings paper_run id crash_env 0 (sample_world ()))) = 10150"
proof -
  have "books_value ''paper'' (sample_world ()) = 10150"
    by (simp add: sample_world_def books_value_def open_cost_def realized_total_def
        open_position_rows_def is_open_row_def open_position_def empty_database_def sample_fill_def
        new_execution_def sample_ledger_def bootstrap_def default_settings_def)
  then show ?thesis
    using tick_conserves_value [OF sample_world_ok, of 0 default_settings paper_run id crash_env]
    by (simp add: HARVEST_EVERY_def default_settings_def)
qed


definition reserved_world :: "unit world" where
  "reserved_world = \<lparr>w_db = empty_database,
     w_ledger = reserve_commit (reserve_request default_settings ''MINT'' ''alice'' 150 ''r'') sample_ledger,
     w_bus = [], w_source_exit = Map.empty, w_exit_liq = Map.empty, w_exec = ()\<rparr>"



end
