(* ===== verification/Hot_Path.thy ===== *)
theory Hot_Path
  imports Positions Decision_Properties Resilience
begin

text \<open>
  \<^verbatim>\<open>services/decision_service.py\<close>: the bounded queue of signatures that drops the oldest,
  the workers' handler from a signature to an executed entry, the watched set with its two
  guards against traffic, and the pollers.  An exception is a left value; the worker logs it and
  goes on.  Tasks run interleaved at their awaits; each definition is the work of one task
  between two of them, or of a whole handler when nothing else intervenes.
\<close>

section \<open>State\<close>

definition QUEUE_SIZE :: nat where "QUEUE_SIZE = 2048"

definition CONFIRM_WINDOW :: int where "CONFIRM_WINDOW = 180"

definition FIREHOSE_PER_MINUTE :: nat where "FIREHOSE_PER_MINUTE = 120"

definition FIREHOSE_GRACE_SECONDS :: rat where "FIREHOSE_GRACE_SECONDS = 60"

record 'x service =
  hs_queue :: "(string \<times> int) list"
  hs_dropped :: nat
  hs_processed :: nat
  hs_wallets :: "string set"
  hs_subscribed :: "string set"
  hs_followed :: "string set"  \<comment> \<open>the Redis set\<close>
  hs_seen :: "string \<rightharpoonup> nat"
  hs_window_started :: rat
  hs_traffic :: "int pydict"
  hs_budget :: budget_guard
  hs_kv :: kv
  hs_confirm :: "string \<rightharpoonup> (string \<times> datetime) list \<times> datetime"
  hs_world :: "'x world"

record 'x service_env =
  he_engine :: engine
  he_run :: "'x executor"
  he_now :: datetime
  he_loop_time :: rat
  he_transaction :: "string \<Rightarrow> py_error + transaction option"
  he_sol_usd :: usd
  he_set_order :: "string list \<Rightarrow> string list"  \<comment> \<open>the order a set is iterated in\<close>
  he_key_order :: "balance_key list \<Rightarrow> balance_key list"
  he_trade_id :: "string \<Rightarrow> nat"
  he_candidate_id :: "nat \<Rightarrow> nat"
  he_order_id :: "nat \<Rightarrow> nat"
  he_position_id :: "nat \<Rightarrow> nat"
  he_reservation_id :: "nat \<Rightarrow> string"
  he_interfere :: "ledger_store \<Rightarrow> ledger_store"

definition on_world :: "('x world \<Rightarrow> 'x world) \<Rightarrow> 'x service \<Rightarrow> 'x service" where
  "on_world f s = s\<lparr>hs_world := f (hs_world s)\<rparr>"

definition on_db :: "(database \<Rightarrow> database) \<Rightarrow> 'x service \<Rightarrow> 'x service" where
  "on_db f = on_world (\<lambda>w. w\<lparr>w_db := f (w_db w)\<rparr>)"

section \<open>The queue\<close>

definition on_signature :: "string \<times> int \<Rightarrow> 'x service \<Rightarrow> 'x service" where
  "on_signature sig s =
     (if length (hs_queue s) < QUEUE_SIZE then s\<lparr>hs_queue := hs_queue s @ [sig]\<rparr>
      else s\<lparr>hs_queue := tl (hs_queue s) @ [sig], hs_dropped := hs_dropped s + 1\<rparr>)"

section \<open>The watched set\<close>

definition restart_subscription :: "'x service \<Rightarrow> 'x service" where
  "restart_subscription s = s\<lparr>hs_subscribed := hs_wallets s\<rparr>"

definition refresh_wallets :: "'x service \<Rightarrow> 'x service" where
  "refresh_wallets s =
     (let wallets = set (watchlist_wallets (w_db (hs_world s)));
          s1 = s\<lparr>hs_followed := set (followed_wallets (w_db (hs_world s)))\<rparr>
      in if wallets \<noteq> hs_wallets s1 then restart_subscription (s1\<lparr>hs_wallets := wallets\<rparr>) else s1)"

definition suspend_wallet :: "datetime \<Rightarrow> string \<Rightarrow> string \<Rightarrow> 'x service \<Rightarrow> 'x service" where
  "suspend_wallet now wallet kind s =
     on_db (\<lambda>d. log_risk_event kind ''critical'' (set_trader_status wallet TS_SUSPENDED now d)) s"

definition drop_wallet :: "string \<Rightarrow> 'x service \<Rightarrow> 'x service" where
  "drop_wallet wallet s = restart_subscription (s\<lparr>hs_wallets := hs_wallets s - {wallet}\<rparr>)"

definition budget_poll ::
    "settings \<Rightarrow> datetime \<Rightarrow> int \<Rightarrow> rat \<Rightarrow> credit_counters \<Rightarrow> 'x service \<Rightarrow> 'x service" where
  "budget_poll st now day loop_time credits s =
     (case budget_check st day loop_time credits (hs_traffic s) (hs_budget s) of
        (None, g) \<Rightarrow> s\<lparr>hs_budget := g\<rparr>
      | (Some worst, g) \<Rightarrow>
          if worst = [] then s\<lparr>hs_budget := g\<rparr>
          else
            let s1 = suspend_wallet now worst ''CREDIT_BUDGET'' (s\<lparr>hs_budget := g\<rparr>)
            in drop_wallet worst
                 (s1\<lparr>hs_traffic := filter (\<lambda>(k, v). k \<noteq> worst) (hs_traffic s1)\<rparr>))"

definition record_traffic :: "string \<Rightarrow> 'x service \<Rightarrow> 'x service" where
  "record_traffic wallet s =
     s\<lparr>hs_traffic := AList.update wallet (dict_get wallet 0 (hs_traffic s) + 1) (hs_traffic s)\<rparr>"

definition check_firehose :: "datetime \<Rightarrow> rat \<Rightarrow> string \<Rightarrow> 'x service \<Rightarrow> bool \<times> 'x service" where
  "check_firehose now loop_time wallet s =
     (let s1 = (if FIREHOSE_GRACE_SECONDS < loop_time - hs_window_started s
                  then s\<lparr>hs_window_started := loop_time, hs_seen := Map.empty\<rparr> else s);
          n = num (hs_seen s1 wallet) 0 + 1;
          s2 = s1\<lparr>hs_seen := (hs_seen s1)(wallet \<mapsto> n)\<rparr>
      in if n < FIREHOSE_PER_MINUTE then (False, s2)
         else (True, drop_wallet wallet (suspend_wallet now wallet ''FIREHOSE_ADDRESS'' s2)))"

section \<open>Confirmations\<close>

text \<open>A sorted set of wallets by time; ZADD replaces a score, EXPIRE drops the whole set.\<close>

definition zset_of :: "datetime \<Rightarrow> string \<Rightarrow> 'x service \<Rightarrow> (string \<times> datetime) list" where
  "zset_of now mint s = (case live_entry now (hs_confirm s mint) of None \<Rightarrow> [] | Some z \<Rightarrow> z)"

definition record_confirmation :: "datetime \<Rightarrow> source_trade \<Rightarrow> 'x service \<Rightarrow> 'x service" where
  "record_confirmation now trade s =
     s\<lparr>hs_confirm := (hs_confirm s)(st_token_mint trade \<mapsto>
       (AList.update (st_wallet trade) now (zset_of now (st_token_mint trade) s),
        expires now CONFIRM_WINDOW))\<rparr>"

definition confirmations_for :: "datetime \<Rightarrow> source_trade \<Rightarrow> 'x service \<Rightarrow> string list" where
  "confirmations_for now trade s =
     filter (\<lambda>w. w \<noteq> st_wallet trade)
       (map fst (sort_key snd (filter (\<lambda>(w, t). now - CONFIRM_WINDOW * 1000000 \<le> t)
          (zset_of now (st_token_mint trade) s))))"

section \<open>From a trade to an entry\<close>

definition handle_entry ::
    "'x service_env \<Rightarrow> source_trade \<Rightarrow> trader_profile \<Rightarrow> nat \<Rightarrow> 'x service \<Rightarrow>
       (py_error + unit) \<times> 'x service" where
  "handle_entry env trade trader source_trade_id s =
     (let st = en_settings (he_engine env); tid = st_id trade; w = hs_world s;
          confirmations = confirmations_for (he_now env) trade s
      in case evaluate_entry (he_engine env) (he_candidate_id env tid) (he_order_id env tid)
                (he_reservation_id env tid) (he_interfere env) trade trader confirmations
                (w_ledger w) of
           (Inl e, l) \<Rightarrow> (Inl e, s\<lparr>hs_world := w\<lparr>w_ledger := l\<rparr>\<rparr>)
         | (Inr (dec, order), l) \<Rightarrow>
             let w1 = w\<lparr>w_ledger := l,
                        w_db := save_decision st dec trade (Some source_trade_id) (w_db w)\<rparr>
             in (case (if approved dec then order else None) of
                   None \<Rightarrow>
                     (Inr (), s\<lparr>hs_world := publish_on EV_TRADE_REJECTED (st_wallet trade) w1\<rparr>)
                 | Some o' \<Rightarrow>
                     (case execute_entry st (he_run env) (he_position_id env tid) (he_now env) o'
                             trade (Some source_trade_id)
                             (publish_on EV_TRADE_APPROVED (st_wallet trade) w1) of
                        (r, w2) \<Rightarrow> (map_sum id (\<lambda>_. ()) r, s\<lparr>hs_world := w2\<rparr>))))"

definition process_trade ::
    "'x service_env \<Rightarrow> source_trade \<Rightarrow> 'x service \<Rightarrow> (py_error + unit) \<times> 'x service" where
  "process_trade env trade s =
     (case check_firehose (he_now env) (he_loop_time env) (st_wallet trade)
             (record_traffic (st_wallet trade) s) of
        (True, s1) \<Rightarrow> (Inr (), s1)
      | (False, s1) \<Rightarrow>
          (case claim_signal (dedupe_key (en_sha256 (he_engine env)) trade) (he_now env) (hs_kv s1) of
             (False, r) \<Rightarrow> (Inr (), s1\<lparr>hs_kv := r\<rparr>)
           | (True, r) \<Rightarrow>
               (case save_source_trade (en_sha256 (he_engine env)) trade (w_db (hs_world s1)) of
                  (source_id, d) \<Rightarrow>
                    let s2 = on_world (\<lambda>w. publish_on EV_SOURCE_TRADE_DETECTED (st_wallet trade)
                               (w\<lparr>w_db := d\<rparr>)) (s1\<lparr>hs_kv := r\<rparr>)
                    in (case get_trader (st_wallet trade) d of
                          None \<Rightarrow> (Inr (), s2)
                        | Some row \<Rightarrow>
                            if st_action trade = ACT_BUY
                              then let s3 = record_confirmation (he_now env) trade s2
                                   in if \<not> is_followed (tr_status (trader_to_domain row))
                                        then (Inr (), s3)
                                      else handle_entry env trade (trader_to_domain row) source_id s3
                            else if st_action trade = ACT_SELL \<or> st_action trade = ACT_PARTIAL_SELL
                              then (Inr (), on_world (handle_source_exit (en_settings (he_engine env))
                                      (he_now env) trade) s2)
                            else (Inr (), s2)))))"

fun process_trades ::
    "'x service_env \<Rightarrow> source_trade list \<Rightarrow> 'x service \<Rightarrow> (py_error + unit) \<times> 'x service" where
  "process_trades env [] s = (Inr (), s)"
| "process_trades env (t # ts) s =
     (case process_trade env t s of
        (Inl e, s1) \<Rightarrow> (Inl e, s1)
      | (Inr _, s1) \<Rightarrow> process_trades env ts s1)"

definition parse_for_watched ::
    "'x service_env \<Rightarrow> transaction \<Rightarrow> string \<Rightarrow> 'x service \<Rightarrow> source_trade list" where
  "parse_for_watched env tx signature s =
     (let present = he_set_order env (remdups (filter (\<lambda>k. k \<in> hs_wallets s) (tx_account_keys tx)))
      in filter (\<lambda>t. st_action t \<noteq> ACT_UNKNOWN)
           (List.map_filter (\<lambda>wallet. parse_transaction (he_key_order env) (he_trade_id env wallet)
              (he_now env) tx wallet (Some signature) (he_sol_usd env) None) present))"

definition handle_signature ::
    "'x service_env \<Rightarrow> string \<Rightarrow> 'x service \<Rightarrow> (py_error + unit) \<times> 'x service" where
  "handle_signature env signature s =
     (case claim_signal (''sig:'' @ signature) (he_now env) (hs_kv s) of
        (False, r) \<Rightarrow> (Inr (), s\<lparr>hs_kv := r\<rparr>)
      | (True, r) \<Rightarrow>
          let s1 = s\<lparr>hs_kv := r\<rparr>
          in (case he_transaction env signature of
                Inl e \<Rightarrow> (Inl e, s1)
              | Inr None \<Rightarrow> (Inr (), s1)
              | Inr (Some tx) \<Rightarrow>
                  if tx_err tx then (Inr (), s1)
                  else process_trades env (parse_for_watched env tx signature s1) s1))"

text \<open>One turn of a worker: the result of the handler is only logged.\<close>

definition worker_turn :: "'x service_env \<Rightarrow> 'x service \<Rightarrow> 'x service" where
  "worker_turn env s =
     (case hs_queue s of
        [] \<Rightarrow> s
      | (signature, slot) # rest \<Rightarrow>
          let s1 = snd (handle_signature env signature (s\<lparr>hs_queue := rest\<rparr>))
          in s1\<lparr>hs_processed := hs_processed s1 + 1\<rparr>)"

section \<open>The queue keeps the newest\<close>

lemma drop_tl_snoc: "length q = n \<Longrightarrow> 0 < n \<Longrightarrow> tl q @ [x] = drop (Suc n - n) (q @ [x])"
  by (cases q) auto

text \<open>
  The queue is the newest part of what arrived.  However many signatures arrive in a row,
  the queue holds the last 2048 of the old content followed by the arrivals, in their order: the
  newest is never refused, only the oldest are lost, and each lost one is counted.
\<close>

theorem queue_keeps_newest:
  assumes "length (hs_queue s) \<le> QUEUE_SIZE"
    and lost: "lost = length (hs_queue s) + length sigs - QUEUE_SIZE"
  shows "hs_queue (fold on_signature sigs s) = drop lost (hs_queue s @ sigs) \<and>
    length (hs_queue (fold on_signature sigs s)) \<le> QUEUE_SIZE \<and>
    hs_dropped (fold on_signature sigs s) = hs_dropped s + lost \<and>
    hs_world (fold on_signature sigs s) = hs_world s"
  using assms(1) unfolding lost
proof (induction sigs arbitrary: s)
  case (Cons sig sigs)
  let ?s = "on_signature sig s"
  show ?case
  proof (cases "length (hs_queue s) < QUEUE_SIZE")
    case True
    then have s': "hs_queue ?s = hs_queue s @ [sig]" "hs_dropped ?s = hs_dropped s"
      "hs_world ?s = hs_world s" by (simp_all add: on_signature_def)
    with Cons.IH [of ?s] True show ?thesis by simp
  next
    case False
    then have full: "length (hs_queue s) = QUEUE_SIZE" using Cons.prems by simp
    have ne: "hs_queue s \<noteq> []" using full by (auto simp: QUEUE_SIZE_def)
    then obtain x q where q: "hs_queue s = x # q" by (cases "hs_queue s") auto
    have s': "hs_queue ?s = q @ [sig]" "hs_dropped ?s = hs_dropped s + 1"
      "hs_world ?s = hs_world s" using full q by (simp_all add: on_signature_def)
    have n: "QUEUE_SIZE = Suc (length q)" using full q by simp
    show ?thesis using Cons.IH [of ?s] by (simp add: s' q n)
  qed
qed simp

definition idle_service :: "'x world \<Rightarrow> 'x service" where
  "idle_service w = \<lparr>hs_queue = [], hs_dropped = 0, hs_processed = 0, hs_wallets = {''alice''},
     hs_subscribed = {''alice''}, hs_followed = {}, hs_seen = Map.empty, hs_window_started = 0,
     hs_traffic = [], hs_budget = \<lparr>bg_warn_pct = 80, bg_hard_pct = 120, bg_started = 0,
       bg_baseline = None, bg_warned = False\<rparr>,
     hs_kv = Map.empty, hs_confirm = Map.empty, hs_world = w\<rparr>"

lemma queue_keeps_newest_witness:
  "hs_dropped (fold on_signature (replicate 2050 (''sig'', 1)) (idle_service (undefined :: unit world))) = 2"
proof -
  have "length (hs_queue (idle_service (undefined :: unit world))) \<le> QUEUE_SIZE"
    "2 = length (hs_queue (idle_service (undefined :: unit world))) + length (replicate 2050 (''sig'', 1 :: int)) - QUEUE_SIZE"
    by (simp_all add: idle_service_def QUEUE_SIZE_def)
  from queue_keeps_newest [OF this]
  have "hs_dropped (fold on_signature (replicate 2050 (''sig'', 1)) (idle_service (undefined :: unit world))) =
      hs_dropped (idle_service (undefined :: unit world)) + 2" by blast
  also have "\<dots> = 2" by (simp add: idle_service_def)
  finally show ?thesis .
qed

section \<open>What reaches the executor\<close>

lemma check_firehose_frame:
  "check_firehose now t wallet s = (off, s') \<Longrightarrow>
   hs_kv s' = hs_kv s \<and> hs_queue s' = hs_queue s \<and> hs_confirm s' = hs_confirm s \<and>
   w_exec (hs_world s') = w_exec (hs_world s) \<and> w_ledger (hs_world s') = w_ledger (hs_world s) \<and>
   db_orders (w_db (hs_world s')) = db_orders (w_db (hs_world s)) \<and>
   (\<not> off \<longrightarrow> hs_world s' = hs_world s)"
  by (auto simp: check_firehose_def Let_def drop_wallet_def restart_subscription_def suspend_wallet_def
      on_db_def on_world_def log_risk_event_def set_trader_status_def split: if_splits)

lemma record_traffic_frame [simp]:
  "hs_kv (record_traffic wallet s) = hs_kv s" "hs_world (record_traffic wallet s) = hs_world s"
  "hs_confirm (record_traffic wallet s) = hs_confirm s"
  by (simp_all add: record_traffic_def)

lemma handle_entry_exec:
  assumes "handle_entry env trade trader sid s = (r, s')"
  shows "hs_kv s' = hs_kv s \<and>
    (w_exec (hs_world s') \<noteq> w_exec (hs_world s) \<longrightarrow>
      (\<exists>dec order l. evaluate_entry (he_engine env) (he_candidate_id env (st_id trade))
          (he_order_id env (st_id trade)) (he_reservation_id env (st_id trade)) (he_interfere env)
          trade trader (confirmations_for (he_now env) trade s) (w_ledger (hs_world s)) =
            (Inr (dec, Some order), l) \<and> approved dec))"
  using assms unfolding handle_entry_def
  by (auto simp: Let_def publish_on_def split: prod.splits sum.splits option.splits if_splits)

definition trade_key :: "'x service_env \<Rightarrow> source_trade \<Rightarrow> string" where
  "trade_key env trade = dedupe_key (en_sha256 (he_engine env)) trade"

definition executed_now :: "'x service \<Rightarrow> 'x service \<Rightarrow> bool" where
  "executed_now s s' \<longleftrightarrow> w_exec (hs_world s') \<noteq> w_exec (hs_world s)"

lemma process_trade_cases:
  assumes "process_trade env trade s = (r, s')"
  obtains (cut) "hs_kv s' = hs_kv s" "\<not> executed_now s s'"
  | (stale) "claim_signal (trade_key env trade) (he_now env) (hs_kv s) = (False, hs_kv s')"
      "\<not> executed_now s s'"
  | (quiet) "claim_signal (trade_key env trade) (he_now env) (hs_kv s) = (True, hs_kv s')"
      "\<not> executed_now s s'"
  | (entry) s1 row sid where
      "claim_signal (trade_key env trade) (he_now env) (hs_kv s) = (True, hs_kv s')"
      "st_action trade = ACT_BUY" "is_followed (tw_status row)"
      "get_trader (st_wallet trade) (w_db (hs_world s1)) = Some row"
      "w_exec (hs_world s1) = w_exec (hs_world s)" "w_ledger (hs_world s1) = w_ledger (hs_world s)"
      "handle_entry env trade (trader_to_domain row) sid s1 = (r, s')"
proof -
  obtain off s1 where f: "check_firehose (he_now env) (he_loop_time env) (st_wallet trade)
      (record_traffic (st_wallet trade) s) = (off, s1)" by force
  note fr = check_firehose_frame [OF f]
  obtain won kv1 where c: "claim_signal (trade_key env trade) (he_now env) (hs_kv s1) = (won, kv1)"
    by force
  obtain sid d where sv: "save_source_trade (en_sha256 (he_engine env)) trade (w_db (hs_world s1)) =
      (sid, d)" by force
  define s2 where "s2 = on_world (\<lambda>w. publish_on EV_SOURCE_TRADE_DETECTED (st_wallet trade)
      (w\<lparr>w_db := d\<rparr>)) (s1\<lparr>hs_kv := kv1\<rparr>)"
  have s2: "hs_kv s2 = kv1" "w_exec (hs_world s2) = w_exec (hs_world s)"
    "w_ledger (hs_world s2) = w_ledger (hs_world s)" "w_db (hs_world s2) = d"
    using fr by (simp_all add: s2_def on_world_def publish_on_def)
  define s3 where "s3 = record_confirmation (he_now env) trade s2"
  have s3: "hs_kv s3 = kv1" "hs_world s3 = hs_world s2" by (simp_all add: s3_def record_confirmation_def s2)
  note run = assms [unfolded process_trade_def f prod.case c [unfolded trade_key_def] sv
      s2_def [symmetric] Let_def s3_def [symmetric]]
  consider "off" | "\<not> off" "\<not> won" | "\<not> off" "won" by blast
  then show thesis
  proof cases
    case 1
    then have "s' = s1" using run by simp
    then show thesis using cut fr by (simp add: executed_now_def)
  next
    case 2
    then have "s' = s1\<lparr>hs_kv := kv1\<rparr>" using run by simp
    then show thesis using stale c 2 fr by (simp add: executed_now_def)
  next
    case 3
    show thesis
    proof (cases "get_trader (st_wallet trade) d")
      case None
      then have "s' = s2" using run 3 by simp
      then show thesis using quiet c 3 s2 fr by (simp add: executed_now_def)
    next
      case (Some row)
      show thesis
      proof (cases "st_action trade = ACT_BUY \<and> is_followed (tw_status row)")
        case True
        then have h: "handle_entry env trade (trader_to_domain row) sid s3 = (r, s')"
          using run 3 Some by (simp add: trader_to_domain_def)
        have "hs_kv s' = kv1" using handle_entry_exec [OF h] s3 by simp
        then show thesis using entry [OF _ _ _ _ _ _ h] c 3 True Some s2 s3 fr by simp
      next
        case False
        then have "s' = s2 \<or> s' = s3 \<or>
            s' = on_world (handle_source_exit (en_settings (he_engine env)) (he_now env) trade) s2"
          using run 3 Some by (auto simp: trader_to_domain_def split: if_splits)
        moreover have "w_exec (hs_world (on_world (handle_source_exit st now trade) s2)) =
            w_exec (hs_world s2)" for st now
          by (simp add: on_world_def handle_source_exit_def Let_def split: option.split)
        ultimately show thesis
          using quiet c 3 s2 s3 fr by (auto simp: executed_now_def on_world_def)
      qed
    qed
  qed
qed

text \<open>Deliveries of trades, each with whether it reached the executor.\<close>

fun deliver ::
    "('x service_env \<times> source_trade) list \<Rightarrow> 'x service \<Rightarrow> bool list \<times> 'x service" where
  "deliver [] s = ([], s)"
| "deliver ((env, t) # ds) s =
     (let s1 = snd (process_trade env t s)
      in case deliver ds s1 of (flags, s2) \<Rightarrow> (executed_now s s1 # flags, s2))"

definition executions_of ::
    "string \<Rightarrow> ('x service_env \<times> source_trade) list \<Rightarrow> bool list \<Rightarrow> nat" where
  "executions_of k ds flags =
     length (filter (\<lambda>((env, t), hit). trade_key env t = k \<and> hit) (zip ds flags))"

definition signal_taken :: "string \<Rightarrow> datetime \<Rightarrow> 'x service \<Rightarrow> bool" where
  "signal_taken k now s \<longleftrightarrow> kv_get now (dedupe_redis_key k) (hs_kv s) \<noteq> None"

lemma process_trade_taken:
  assumes "process_trade env t s = (r, s')"
  shows "executed_now s s' \<Longrightarrow>
      claim_signal (trade_key env t) (he_now env) (hs_kv s) = (True, hs_kv s')"
    and "signal_taken k now s \<Longrightarrow> signal_taken k (he_now env) s \<Longrightarrow> signal_taken k now s'"
    and "signal_taken k (he_now env) s \<Longrightarrow> trade_key env t = k \<Longrightarrow> \<not> executed_now s s'"
proof -
  have keep: "signal_taken k now s'" if c: "claim_signal (trade_key env t) (he_now env) (hs_kv s) = (won, hs_kv s')"
    and tk: "signal_taken k now s" "signal_taken k (he_now env) s" for won
  proof (cases "trade_key env t = k")
    case True
    then have "\<not> won" using signals.claim_won [OF c] tk by (simp add: signal_taken_def)
    then have "hs_kv s' = hs_kv s" using signals.claim_lost c by auto
    then show ?thesis using tk by (simp add: signal_taken_def)
  next
    case False
    then show ?thesis using signals.claim_other [OF c, of k now] tk by (simp add: signal_taken_def)
  qed
  have lost: "\<not> executed_now s s'"
    if "signal_taken k (he_now env) s" "trade_key env t = k"
      "claim_signal (trade_key env t) (he_now env) (hs_kv s) = (True, hs_kv s')"
    using signals.claim_won [OF that(3)] that(1,2) by (simp add: signal_taken_def)
  show "claim_signal (trade_key env t) (he_now env) (hs_kv s) = (True, hs_kv s')" if "executed_now s s'"
    using process_trade_cases [OF assms] that by metis
  show "signal_taken k now s'" if "signal_taken k now s" "signal_taken k (he_now env) s"
    using process_trade_cases [OF assms] keep that by (metis signal_taken_def)
  show "\<not> executed_now s s'" if "signal_taken k (he_now env) s" "trade_key env t = k"
    using process_trade_cases [OF assms] lost that by metis
qed

lemma deliver_taken:
  assumes "deliver ds s = (flags, s')" "\<And>env t. (env, t) \<in> set ds \<Longrightarrow> signal_taken k (he_now env) s"
  shows "executions_of k ds flags = 0"
  using assms
proof (induction ds arbitrary: s flags s')
  case (Cons d ds)
  obtain env t where d: "d = (env, t)" by force
  obtain r s1 where p: "process_trade env t s = (r, s1)" by force
  obtain fl s2 where rest: "deliver ds s1 = (fl, s2)" by force
  have tk: "signal_taken k (he_now env) s" using Cons.prems(2) [of env t] by (simp add: d)
  have "signal_taken k (he_now e) s1" if "(e, u) \<in> set ds" for e u
    by (rule process_trade_taken(2) [OF p _ tk]) (use Cons.prems(2) that in auto)
  then have "executions_of k ds fl = 0" by (rule Cons.IH [OF rest])
  moreover have "flags = executed_now s s1 # fl" using Cons.prems(1) p rest by (simp add: d Let_def)
  ultimately show ?case
    using process_trade_taken(3) [OF p tk] by (auto simp: executions_of_def d)
qed (simp add: executions_of_def)

text \<open>
  C7. A source trade is copied at most once, end to end: of all deliveries of it within the
  hour of the first, from any number of streams and mixed with any other trades, at most one
  reaches the executor.
\<close>

theorem trade_executed_once:
  assumes "deliver ds s = (flags, s')" "sorted (map (he_now \<circ> fst) ds)"
    and "\<forall>(env, t) \<in> set ds. t0 \<le> he_now env \<and> he_now env < t0 + SIGNAL_TTL * 1000000"
  shows "executions_of k ds flags \<le> 1"
  using assms
proof (induction ds arbitrary: s flags s')
  case (Cons d ds)
  obtain env t where d: "d = (env, t)" by force
  obtain r s1 where p: "process_trade env t s = (r, s1)" by force
  obtain fl s2 where rest: "deliver ds s1 = (fl, s2)" by force
  have flags: "flags = executed_now s s1 # fl" using Cons.prems(1) p rest by (simp add: d Let_def)
  show ?case
  proof (cases "trade_key env t = k \<and> executed_now s s1")
    case True
    then have c: "claim_signal k (he_now env) (hs_kv s) = (True, hs_kv s1)"
      using process_trade_taken(1) [OF p] by blast
    have "signal_taken k (he_now e) s1" if "(e, u) \<in> set ds" for e u
      unfolding signal_taken_def
    proof (rule signals.claim_takes [OF c])
      show "he_now env \<le> he_now e" using Cons.prems(2) that by (force simp: d)
      have "t0 \<le> he_now env" "he_now e < t0 + SIGNAL_TTL * 1000000"
        using Cons.prems(3) that by (auto simp: d)
      then show "he_now e < he_now env + SIGNAL_TTL * 1000000" by simp
    qed
    from deliver_taken [OF rest this] show ?thesis by (simp add: executions_of_def d flags)
  next
    case False
    moreover have "executions_of k ds fl \<le> 1" using Cons.prems by (intro Cons.IH [OF rest]) auto
    ultimately show ?thesis by (auto simp: executions_of_def d flags)
  qed
qed (simp add: executions_of_def)


section \<open>A trade delivered twice\<close>

definition count_run :: "nat executor" where
  "count_run order n = (Inr (fail_execution ''no_route'' (new_execution order ''paper'')), n + 1)"

definition alice_row :: trader_row where
  "alice_row = (new_trader_row 1 0 ''alice'')\<lparr>tw_status := TS_ACTIVE, tw_composite := Some 80,
     tw_confidence := Some 75, tw_copyability := Some 70, tw_latency_tolerance := Some 10000,
     tw_trade_count := Some 60\<rparr>"

definition watching :: "nat service" where
  "watching = idle_service \<lparr>w_db = empty_database\<lparr>db_traders := [alice_row]\<rparr>,
     w_ledger = sample_ledger, w_bus = [], w_source_exit = Map.empty, w_exit_liq = Map.empty,
     w_exec = 0\<rparr>"

definition sample_service_env :: "nat service_env" where
  "sample_service_env = \<lparr>he_engine = sample_engine, he_run = count_run, he_now = 2500000,
     he_loop_time = 1, he_transaction = (\<lambda>sig. Inr None), he_sol_usd = 150, he_set_order = id,
     he_key_order = id, he_trade_id = (\<lambda>w. 1), he_candidate_id = id, he_order_id = id,
     he_position_id = id, he_reservation_id = (\<lambda>i. ''r''), he_interfere = id\<rparr>"

lemma sample_deliveries:
  "fst (deliver [(sample_service_env, sample_trade), (sample_service_env, sample_trade)] watching) =
     [True, False]"
  by code_simp

lemma trade_executed_once_witness:
  "executions_of (trade_key sample_service_env sample_trade)
     [(sample_service_env, sample_trade), (sample_service_env, sample_trade)] [True, False] = 1"
proof -
  obtain s' where e: "deliver [(sample_service_env, sample_trade), (sample_service_env, sample_trade)]
      watching = ([True, False], s')"
    using sample_deliveries by (metis prod.collapse)
  have "executions_of (trade_key sample_service_env sample_trade)
      [(sample_service_env, sample_trade), (sample_service_env, sample_trade)] [True, False] \<le> 1"
    by (rule trade_executed_once [OF e, where ?t0.0 = 0])
      (simp_all add: sample_service_env_def SIGNAL_TTL_def)
  then show ?thesis by (simp add: executions_of_def)
qed


end
