(* ===== verification/History.thy ===== *)
theory History
  imports Decision_Engine Parser
begin

text \<open>
  \<^verbatim>\<open>backtest/provider.py\<close> and \<^verbatim>\<open>build_histories\<close> of \<^verbatim>\<open>backtest/loader.py\<close>: the
  backtest's view of the world.  Price histories, the lookup by binary search, the impact model
  and the data provider that replays a history against a simulated clock.  The power of two
  Decimals, irrational in general, is the field \<open>im_power\<close> of the impact model; the miss counter
  of the provider is telemetry and omitted.
\<close>

section \<open>The pages of a wallet\<close>

type_synonym history_source = "string \<Rightarrow> string option \<Rightarrow> py_error + enhanced_row list"

text \<open>At most \<open>pages\<close> pages, each before the last signature of the one in front of it.\<close>

fun history_rows ::
    "history_source \<Rightarrow> string \<Rightarrow> nat \<Rightarrow> string option \<Rightarrow> py_error + enhanced_row list" where
  "history_rows src wallet 0 before = Inr []"
| "history_rows src wallet (Suc pages) before =
     (case src wallet before of
        Inl e \<Rightarrow> Inl e
      | Inr page \<Rightarrow>
          if page = [] then Inr []
          else case history_rows src wallet pages (Some (he_signature (last page))) of
                 Inl e \<Rightarrow> Inl e
               | Inr rows \<Rightarrow> Inr (page @ rows))"

definition parse_rows :: "datetime \<Rightarrow> string \<Rightarrow> enhanced_row list \<Rightarrow> source_trade list" where
  "parse_rows now wallet rows =
     List.map_filter (\<lambda>(i, r). parse_helius_enhanced i now r wallet) (List.enumerate 0 rows)"

section \<open>Token histories\<close>

record price_point =
  pp_at :: datetime
  pp_price_usd :: usd
  pp_liquidity_usd :: usd

record token_history =
  th_mint :: string
  th_points :: "price_point list"
  th_decimals :: nat
  th_created_at :: "datetime option"
  th_risk_score :: int

text \<open>The constructor sorts the points; \<open>sort_key\<close> is stable as Python's sort is.\<close>

definition token_history_init :: "token_history \<Rightarrow> token_history" where
  "token_history_init h = h\<lparr>th_points := sort_key pp_at (th_points h)\<rparr>"

text \<open>\<^verbatim>\<open>bisect.bisect_right\<close>: the first index whose element is beyond \<open>x\<close>.\<close>

function bisect_loop :: "int list \<Rightarrow> int \<Rightarrow> nat \<Rightarrow> nat \<Rightarrow> nat" where
  "bisect_loop xs x lo hi =
     (if lo < hi
        then let mid = (lo + hi) div 2
             in if x < xs ! mid then bisect_loop xs x lo mid else bisect_loop xs x (mid + 1) hi
      else lo)"
  by pat_completeness auto
termination by (relation "measure (\<lambda>(xs, x, lo, hi). hi - lo)") auto

declare bisect_loop.simps [simp del]

definition bisect_right :: "int list \<Rightarrow> int \<Rightarrow> nat" where
  "bisect_right xs x = bisect_loop xs x 0 (length xs)"

definition history_at :: "token_history \<Rightarrow> datetime \<Rightarrow> price_point option" where
  "history_at h when =
     (if th_points h = [] then None
      else let idx = bisect_right (map pp_at (th_points h)) when
           in if 1 \<le> idx then Some (th_points h ! (idx - 1)) else None)"

section \<open>Impact\<close>

record impact_model =
  im_k :: rat
  im_exponent :: rat
  im_floor_pct :: pct
  im_cap_pct :: pct
  im_power :: "rat \<Rightarrow> rat \<Rightarrow> rat"

definition default_impact :: "(rat \<Rightarrow> rat \<Rightarrow> rat) \<Rightarrow> impact_model" where
  "default_impact pow = \<lparr>im_k = 12/10, im_exponent = 135/100, im_floor_pct = 5/100,
     im_cap_pct = 99, im_power = pow\<rparr>"

definition price_impact_pct :: "impact_model \<Rightarrow> usd \<Rightarrow> usd \<Rightarrow> pct" where
  "price_impact_pct m size_usd liquidity_usd =
     (if liquidity_usd \<le> 0 then im_cap_pct m
      else let ratio = size_usd / liquidity_usd
           in if ratio \<le> 0 then im_floor_pct m
              else max (im_floor_pct m)
                     (min (im_k m * im_power m ratio (im_exponent m) * 100) (im_cap_pct m)))"

section \<open>The provider\<close>

record historical =
  hp_histories :: "token_history pydict"
  hp_sol_price :: usd
  hp_max_staleness :: int          \<comment> \<open>microseconds\<close>
  hp_impact :: impact_model
  hp_now :: datetime

definition historical_provider ::
    "token_history pydict \<Rightarrow> usd \<Rightarrow> impact_model \<Rightarrow> datetime \<Rightarrow> historical" where
  "historical_provider hs sol_price impact now = \<lparr>hp_histories = hs, hp_sol_price = sol_price,
     hp_max_staleness = 900 * 1000000, hp_impact = impact, hp_now = now\<rparr>"

definition set_clock :: "datetime \<Rightarrow> historical \<Rightarrow> historical" where
  "set_clock when hp = hp\<lparr>hp_now := when\<rparr>"

definition unknown_market :: "string \<Rightarrow> nat \<Rightarrow> market_state" where
  "unknown_market mint decimals = (default_market mint)\<lparr>ms_stale := True, ms_decimals := decimals\<rparr>"

definition historical_market :: "historical \<Rightarrow> string \<Rightarrow> nat \<Rightarrow> market_state" where
  "historical_market hp mint decimals =
     (case map_of (hp_histories hp) mint of
        None \<Rightarrow> unknown_market mint decimals
      | Some h \<Rightarrow>
          (case history_at h (hp_now hp) of
             None \<Rightarrow> unknown_market mint (th_decimals h)
           | Some point \<Rightarrow>
               \<lparr>ms_mint = mint,
                ms_price = (if hp_sol_price hp \<noteq> 0 then pp_price_usd point / hp_sol_price hp else 0),
                ms_price_usd = pp_price_usd point, ms_liquidity_usd = pp_liquidity_usd point,
                ms_market_cap_usd = 0,
                ms_token_age_seconds = map_option
                  (\<lambda>created. max 0 (elapsed_seconds created (hp_now hp))) (th_created_at h),
                ms_decimals = th_decimals h, ms_fetched_at = pp_at point,
                ms_stale = (hp_max_staleness hp < hp_now hp - pp_at point)\<rparr>))"

definition historical_risk :: "historical \<Rightarrow> string \<Rightarrow> token_risk" where
  "historical_risk hp mint =
     (case map_of (hp_histories hp) mint of
        None \<Rightarrow> (default_token_risk mint)\<lparr>rk_score := 100, rk_unknown := True\<rparr>
      | Some h \<Rightarrow> (default_token_risk mint)\<lparr>rk_score := th_risk_score h, rk_unknown := False\<rparr>)"

text \<open>The route Jupiter would have returned, from the impact model.\<close>

definition historical_quote :: "historical \<Rightarrow> string \<Rightarrow> string \<Rightarrow> int \<Rightarrow> quote option" where
  "historical_quote hp input_mint output_mint amount_raw =
     (let buying = (map_of (hp_histories hp) output_mint \<noteq> None);
          state = historical_market hp (if buying then output_mint else input_mint) 9;
          price = ms_price_usd state; decimals = ms_decimals state; sol = hp_sol_price hp
      in if ms_stale state \<or> price \<le> 0 then None
         else
           let in_usd = (if buying then raw_to_ui amount_raw 9 * sol
                         else raw_to_ui amount_raw decimals * price);
               impact = price_impact_pct (hp_impact hp) in_usd (ms_liquidity_usd state);
               out_raw =
                 (if buying
                    then let effective = price * (1 + impact / 100)
                         in trunc_int ((if 0 < effective then in_usd / effective else 0) * 10 ^ decimals)
                  else let out_usd = raw_to_ui amount_raw decimals * (price * (1 - impact / 100))
                       in if sol \<noteq> 0 then trunc_int (out_usd / sol * 10 ^ 9) else 0)
           in if out_raw \<le> 0 then None
              else Some \<lparr>q_input_mint = input_mint, q_output_mint = output_mint,
                         q_in_amount_raw = amount_raw, q_out_amount_raw = out_raw,
                         q_price_impact_pct = impact, q_slippage_bps = 0,
                         q_route_label = ''historical''\<rparr>)"

definition historical_insider_flags :: "string \<Rightarrow> string \<Rightarrow> usd \<Rightarrow> int option \<Rightarrow> string list" where
  "historical_insider_flags wallet mint val age =
     (case age of None \<Rightarrow> [] | Some a \<Rightarrow> if a < 120 then [''bought_within_2min_of_launch''] else [])"

definition historical_data :: "historical \<Rightarrow> data_provider" where
  "historical_data hp = \<lparr>dp_market_state = historical_market hp, dp_token_risk = historical_risk hp,
     dp_sol_price_usd = hp_sol_price hp, dp_quote = historical_quote hp,
     dp_insider_flags = historical_insider_flags, dp_now = (\<lambda>_. hp_now hp)\<rparr>"

section \<open>Histories from observed trades\<close>

definition LIQUIDITY_MULTIPLE :: rat where "LIQUIDITY_MULTIPLE = 40"

definition MIN_ASSUMED_LIQUIDITY :: usd where "MIN_ASSUMED_LIQUIDITY = 5000"

text \<open>The keys of a \<^verbatim>\<open>defaultdict\<close> in the order of their first appearance.\<close>

definition first_seen :: "'a list \<Rightarrow> 'a list" where
  "first_seen xs = rev (remdups (rev xs))"

definition assumed_liquidity :: "source_trade list \<Rightarrow> usd" where
  "assumed_liquidity sold =
     (let sizes = filter (\<lambda>x. 0 < x) (map st_source_value_usd sold);
          typical = (if sizes \<noteq> [] then sum_list sizes / of_nat (length sizes) else 0)
      in max (typical * LIQUIDITY_MULTIPLE) MIN_ASSUMED_LIQUIDITY)"

definition history_of :: "usd \<Rightarrow> string \<Rightarrow> source_trade list \<Rightarrow> token_history" where
  "history_of sol_price mint trades =
     (let sold = sort_key st_source_confirmed_at trades
      in token_history_init
           \<lparr>th_mint = mint,
            th_points = map (\<lambda>t. \<lparr>pp_at = st_source_confirmed_at t,
              pp_price_usd = st_source_price t * sol_price,
              pp_liquidity_usd = assumed_liquidity sold\<rparr>) sold,
            th_decimals = st_token_decimals (hd sold),
            th_created_at = Some (st_source_confirmed_at (hd sold)), th_risk_score = 15\<rparr>)"

definition build_histories :: "usd \<Rightarrow> source_trade list \<Rightarrow> token_history pydict" where
  "build_histories sol_price trades =
     (let priced = filter (\<lambda>t. 0 < st_source_price t) trades
      in map (\<lambda>mint. (mint, history_of sol_price mint
                (filter (\<lambda>t. st_token_mint t = mint) priced)))
           (first_seen (map st_token_mint priced)))"

section \<open>The lookup is the last observation\<close>

lemma bisect_loop_bounds:
  assumes "sorted xs" "lo \<le> hi" "hi \<le> length xs"
    and "\<forall>i < lo. xs ! i \<le> x" "\<forall>i < length xs. hi \<le> i \<longrightarrow> x < xs ! i"
  shows "bisect_loop xs x lo hi \<le> length xs \<and>
    (\<forall>i < bisect_loop xs x lo hi. xs ! i \<le> x) \<and>
    (\<forall>i < length xs. bisect_loop xs x lo hi \<le> i \<longrightarrow> x < xs ! i)"
  using assms
proof (induction xs x lo hi rule: bisect_loop.induct)
  case (1 xs x lo hi)
  note step = bisect_loop.simps [of xs x lo hi]
  show ?case
  proof (cases "lo < hi")
    case True
    define mid where "mid = (lo + hi) div 2"
    have mid: "lo \<le> mid" "mid < hi" using True by (auto simp: mid_def)
    show ?thesis
    proof (cases "x < xs ! mid")
      case below: True
      have e: "bisect_loop xs x lo hi = bisect_loop xs x lo mid"
        using True below by (simp only: step Let_def mid_def if_True)
      have "\<forall>i < length xs. mid \<le> i \<longrightarrow> x < xs ! i"
        using below "1.prems"(1) by (meson less_le_trans sorted_nth_mono)
      then show ?thesis
        unfolding e using "1.prems" mid by (intro "1.IH"(1) [OF True mid_def below]) auto
    next
      case False
      have e: "bisect_loop xs x lo hi = bisect_loop xs x (mid + 1) hi"
        using True False by (simp only: step Let_def mid_def if_True if_False)
      have "xs ! i \<le> x" if "i < mid + 1" for i
      proof -
        have "xs ! i \<le> xs ! mid"
          using that "1.prems"(1,3) mid by (intro sorted_nth_mono) auto
        then show ?thesis using False by simp
      qed
      then show ?thesis
        unfolding e using "1.prems" mid by (intro "1.IH"(2) [OF True mid_def False]) auto
    qed
  next
    case False
    then have "bisect_loop xs x lo hi = lo" using step by simp
    then show ?thesis using False "1.prems" by simp
  qed
qed

lemma filter_prefix:
  assumes "n \<le> length xs" "\<forall>i < n. P (xs ! i)" "\<forall>i < length xs. n \<le> i \<longrightarrow> \<not> P (xs ! i)"
  shows "filter P xs = take n xs"
proof -
  have "filter P (take n xs) = take n xs"
    using assms(1,2) by (intro filter_True) (auto simp: in_set_conv_nth)
  moreover have "filter P (drop n xs) = []"
    using assms(3) by (intro filter_False) (auto simp: in_set_conv_nth)
  ultimately show ?thesis
    by (metis append_Nil2 append_take_drop_id filter_append)
qed

definition history_ok :: "token_history \<Rightarrow> bool" where
  "history_ok h \<longleftrightarrow> sorted (map pp_at (th_points h))"

lemma token_history_init_ok [simp]: "history_ok (token_history_init h)"
  by (simp add: history_ok_def token_history_init_def)

lemma history_at_last:
  assumes "history_ok h"
  shows "history_at h t =
    (let seen = filter (\<lambda>p. pp_at p \<le> t) (th_points h)
     in if seen = [] then None else Some (last seen))"
proof -
  let ?ts = "map pp_at (th_points h)" and ?n = "bisect_right (map pp_at (th_points h)) t"
  have n: "?n \<le> length ?ts" "\<forall>i < ?n. ?ts ! i \<le> t"
    "\<forall>i < length ?ts. ?n \<le> i \<longrightarrow> t < ?ts ! i"
    using bisect_loop_bounds [of ?ts 0 "length ?ts" t] assms
    by (auto simp: bisect_right_def history_ok_def)
  have "filter (\<lambda>p. pp_at p \<le> t) (th_points h) = take ?n (th_points h)"
    using n by (intro filter_prefix) (auto simp: not_le)
  then show ?thesis
    using n(1) by (cases ?n) (auto simp: history_at_def Let_def last_conv_nth Suc_le_eq)
qed

section \<open>No lookahead\<close>

text \<open>Two histories that were the same until a moment, whatever came later.\<close>

definition same_until :: "datetime \<Rightarrow> token_history \<Rightarrow> token_history \<Rightarrow> bool" where
  "same_until t h h' \<longleftrightarrow> th_mint h = th_mint h' \<and> th_decimals h = th_decimals h' \<and>
     th_created_at h = th_created_at h' \<and> th_risk_score h = th_risk_score h' \<and>
     filter (\<lambda>p. pp_at p \<le> t) (th_points h) = filter (\<lambda>p. pp_at p \<le> t) (th_points h')"

definition same_past :: "datetime \<Rightarrow> token_history pydict \<Rightarrow> token_history pydict \<Rightarrow> bool" where
  "same_past t hs hs' \<longleftrightarrow>
     list_all2 (\<lambda>(m, h) (m', h'). m = m' \<and> same_until t h h' \<and> history_ok h \<and> history_ok h') hs hs'"

lemma same_until_mono:
  assumes "same_until t h h'" "s \<le> t"
  shows "same_until s h h'"
proof -
  have "filter (\<lambda>p. pp_at p \<le> s) xs = filter (\<lambda>p. pp_at p \<le> s) (filter (\<lambda>p. pp_at p \<le> t) xs)" for xs
    using assms(2) by (auto simp: intro!: filter_cong)
  then show ?thesis using assms(1) unfolding same_until_def by metis
qed

lemma same_past_mono: "same_past t hs hs' \<Longrightarrow> s \<le> t \<Longrightarrow> same_past s hs hs'"
  unfolding same_past_def by (erule list_all2_mono) (auto dest: same_until_mono)

lemma same_past_lookup:
  assumes "same_past t hs hs'"
  shows "rel_option (\<lambda>h h'. same_until t h h' \<and> history_ok h \<and> history_ok h')
    (map_of hs mint) (map_of hs' mint)"
  using assms unfolding same_past_def
  by (induction rule: list_all2_induct) auto

lemma same_until_at:
  assumes "same_until t h h'" "history_ok h" "history_ok h'"
  shows "history_at h t = history_at h' t"
  using assms by (simp add: history_at_last same_until_def)

text \<open>
  What the provider answers at a moment depends on nothing later: market state, risk, quote and
  insider flags are those of any other history with the same past.
\<close>

theorem provider_sees_no_future:
  assumes "same_past now hs hs'"
  shows "historical_data (historical_provider hs sol impact now) =
    historical_data (historical_provider hs' sol impact now)"
proof -
  let ?p = "historical_provider hs sol impact now" and ?p' = "historical_provider hs' sol impact now"
  have lookup: "rel_option (\<lambda>h h'. same_until now h h' \<and> history_ok h \<and> history_ok h')
      (map_of hs m) (map_of hs' m)" for m
    by (rule same_past_lookup [OF assms])
  have market: "historical_market ?p = historical_market ?p'"
  proof (intro ext)
    fix m d
    show "historical_market ?p m d = historical_market ?p' m d"
      using lookup [of m]
    proof (cases rule: option.rel_cases)
      case (Some h h')
      then have "history_at h now = history_at h' now" "th_decimals h = th_decimals h'"
        "th_created_at h = th_created_at h'"
        by (auto simp: same_until_at) (auto simp: same_until_def)
      then show ?thesis
        using Some(1,2)
        by (simp add: historical_market_def historical_provider_def split: option.split)
    qed (simp add: historical_market_def historical_provider_def)
  qed
  have risk: "historical_risk ?p = historical_risk ?p'"
  proof (intro ext)
    fix m
    show "historical_risk ?p m = historical_risk ?p' m"
      using lookup [of m]
      by (cases rule: option.rel_cases)
        (auto simp: historical_risk_def historical_provider_def same_until_def)
  qed
  have known: "map_of (hp_histories ?p) m \<noteq> None \<longleftrightarrow> map_of (hp_histories ?p') m \<noteq> None" for m
    using lookup [of m] by (cases rule: option.rel_cases) (auto simp: historical_provider_def)
  have fields: "hp_sol_price ?p = hp_sol_price ?p'" "hp_impact ?p = hp_impact ?p'"
    by (simp_all add: historical_provider_def)
  have quote: "historical_quote ?p = historical_quote ?p'"
    by (intro ext) (simp only: historical_quote_def market known fields)
  show ?thesis
    by (simp add: historical_data_def market risk quote) (simp add: historical_provider_def)
qed

end
