(* ===== verification/Backtest.thy ===== *)
theory Backtest
  imports History Positions
begin

text \<open>
  \<^verbatim>\<open>backtest/engine.py\<close>: the replay of source trades through the decision engine, the
  risk ledger and the exit rules of the live system.  The state is the engine object with its
  ledger; what stays fixed during a run is the record \<open>bt_env\<close>.  The random draws of the seeded
  generator are the stream \<open>bx_draw\<close>; fresh identifiers count up from \<open>bt_fresh\<close>.  An exception
  of a step ends the run after its \<^verbatim>\<open>finally\<close> block and is \<open>Some\<close> error.
\<close>

section \<open>Data\<close>

record backtest_config =
  bc_starting_capital_usd :: usd
  bc_detection_latency_ms :: int
  bc_analysis_latency_ms :: int
  bc_sizing_mode :: sizing_mode
  bc_sol_price :: usd
  bc_fail_rate :: rat
  bc_copyable_notional_usd :: usd

definition default_backtest_config :: backtest_config where
  "default_backtest_config = \<lparr>bc_starting_capital_usd = 10000, bc_detection_latency_ms = 2500,
     bc_analysis_latency_ms = 400, bc_sizing_mode = CONFIDENCE_WEIGHTED, bc_sol_price = 150,
     bc_fail_rate = 4/100, bc_copyable_notional_usd = 100\<rparr>"

record closed_trade =
  ct_mint :: string
  ct_trader :: string
  ct_opened_at :: datetime
  ct_closed_at :: datetime
  ct_entry_price :: usd
  ct_exit_price :: usd
  ct_size_usd :: usd
  ct_realized_pnl_usd :: usd
  ct_fees_usd :: usd
  ct_exit_reason :: exit_reason

record backtest_result =
  br_signals :: nat
  br_approved :: nat
  br_rejected :: nat
  br_fills :: int
  br_failed_fills :: int
  br_source_pnl_usd :: usd
  br_copyable_pnl_usd :: usd
  br_realized_pnl_usd :: usd
  br_fees_usd :: usd
  br_starting_equity :: usd
  br_ending_equity :: usd
  br_peak_equity :: usd
  br_max_drawdown_pct :: pct
  br_trades :: "closed_trade list"
  br_rejection_reasons :: "(reason \<times> nat) list"
  br_exit_reasons :: "(exit_reason \<times> nat) list"
  br_equity_curve :: "(datetime \<times> usd) list"
  br_source_round_trips :: nat
  br_source_trip_returns_pct :: "pct list"
  br_copyable_trip_returns_pct :: "pct list"

record source_lot =
  lo_price :: rat
  lo_amount :: int
  lo_decimals :: nat
  lo_at :: datetime

record bt_env =
  bx_config :: backtest_config
  bx_settings :: settings                  \<comment> \<open>what the decision engine reads\<close>
  bx_risk :: risk_config                   \<comment> \<open>what the exits read\<close>
  bx_histories :: "token_history pydict"
  bx_traders :: "string \<rightharpoonup> trader_profile"
  bx_impact :: impact_model
  bx_sha256 :: "string \<Rightarrow> string"
  bx_reservation_id :: "nat \<Rightarrow> string"
  bx_draw :: "nat \<Rightarrow> rat"
  bx_kill :: "string option"               \<comment> \<open>the kill key, which every mode shares\<close>

record backtest =
  bt_ledger :: ledger_store
  bt_executor :: backtest_executor
  bt_positions :: "position list"          \<comment> \<open>the dict of positions, keyed by their id\<close>
  bt_result :: backtest_result
  bt_lots :: "string \<times> string \<Rightarrow> source_lot list"
  bt_clock :: "datetime option"
  bt_draws :: nat
  bt_fresh :: nat

definition empty_result :: "usd \<Rightarrow> backtest_result" where
  "empty_result capital = \<lparr>br_signals = 0, br_approved = 0, br_rejected = 0, br_fills = 0,
     br_failed_fills = 0, br_source_pnl_usd = 0, br_copyable_pnl_usd = 0, br_realized_pnl_usd = 0,
     br_fees_usd = 0, br_starting_equity = capital, br_ending_equity = 0, br_peak_equity = capital,
     br_max_drawdown_pct = 0, br_trades = [], br_rejection_reasons = [], br_exit_reasons = [],
     br_equity_curve = [], br_source_round_trips = 0, br_source_trip_returns_pct = [],
     br_copyable_trip_returns_pct = []\<rparr>"

definition new_ledger :: "string option \<Rightarrow> ledger_store" where
  "new_ledger kill = \<lparr>rd_exists = False,
     rd_state = \<lparr>h_equity = 0, h_cash = 0, h_deployed = 0, h_unrealized = 0, h_realized_today = 0,
       h_hwm = 0, h_open_positions = 0, h_pending = 0, h_harvested_total = 0, h_sol_balance = 0\<rparr>,
     rd_token = Map.empty, rd_trader = Map.empty, rd_reservations = Map.empty,
     rd_system = None, rd_kill = kill\<rparr>"

definition backtest_init :: "bt_env \<Rightarrow> backtest" where
  "backtest_init env = \<lparr>bt_ledger = new_ledger (bx_kill env),
     bt_executor = (default_backtest_executor (bc_sol_price (bx_config env)))
       \<lparr>be_fail_rate := bc_fail_rate (bx_config env)\<rparr>,
     bt_positions = [], bt_result = empty_result (bc_starting_capital_usd (bx_config env)),
     bt_lots = (\<lambda>_. []), bt_clock = None, bt_draws = 0, bt_fresh = 0\<rparr>"

definition on_result :: "(backtest_result \<Rightarrow> backtest_result) \<Rightarrow> backtest \<Rightarrow> backtest" where
  "on_result f s = s\<lparr>bt_result := f (bt_result s)\<rparr>"

text \<open>\<^verbatim>\<open>counts[k] = counts.get(k, 0) + 1\<close>.\<close>

definition count_one :: "'k \<Rightarrow> ('k \<times> nat) list \<Rightarrow> ('k \<times> nat) list" where
  "count_one k d = AList.update k (num (map_of d k) 0 + 1) d"

section \<open>The clock and the provider\<close>

definition advance_clock :: "datetime \<Rightarrow> backtest \<Rightarrow> backtest" where
  "advance_clock when s =
     (case bt_clock s of
        None \<Rightarrow> s\<lparr>bt_clock := Some when\<rparr>
      | Some now \<Rightarrow> if now < when then s\<lparr>bt_clock := Some when\<rparr> else s)"

definition clock_of :: "backtest \<Rightarrow> datetime" where
  "clock_of s = num (bt_clock s) 0"

definition provider_at :: "bt_env \<Rightarrow> datetime \<Rightarrow> historical" where
  "provider_at env now =
     historical_provider (bx_histories env) (bc_sol_price (bx_config env)) (bx_impact env) now"

definition bt_market :: "bt_env \<Rightarrow> backtest \<Rightarrow> position \<Rightarrow> market_state" where
  "bt_market env s p =
     historical_market (provider_at env (clock_of s)) (p_token_mint p) (p_decimals p)"

definition ms_delta :: "int \<Rightarrow> int" where
  "ms_delta ms = ms * 1000"

section \<open>What the source made, and what a follower could have made\<close>

definition accrue_copyable ::
    "bt_env \<Rightarrow> string \<Rightarrow> datetime \<Rightarrow> datetime \<Rightarrow> backtest_executor \<Rightarrow> backtest_result \<Rightarrow>
       backtest_result" where
  "accrue_copyable env mint opened_at closed_at be r =
     (case map_of (bx_histories env) mint of
        None \<Rightarrow> r
      | Some h \<Rightarrow>
          let lag = ms_delta (bc_detection_latency_ms (bx_config env)
                              + bc_analysis_latency_ms (bx_config env))
          in case (history_at h (opened_at + lag), history_at h (closed_at + lag)) of
               (Some entry, Some exit) \<Rightarrow>
                 let notional = bc_copyable_notional_usd (bx_config env);
                     impact_in = price_impact_pct (bx_impact env) notional (pp_liquidity_usd entry);
                     impact_out = price_impact_pct (bx_impact env) notional (pp_liquidity_usd exit);
                     fill_in = pp_price_usd entry * (1 + impact_in / 100);
                     fill_out = pp_price_usd exit * (1 - impact_out / 100);
                     pnl = notional / fill_in * fill_out - notional - backtest_fee_usd be * 2
                 in if pp_price_usd entry \<le> 0 \<or> fill_in \<le> 0 then r
                    else r\<lparr>br_copyable_pnl_usd := br_copyable_pnl_usd r + pnl,
                           br_copyable_trip_returns_pct :=
                             br_copyable_trip_returns_pct r @ [pnl / notional * 100]\<rparr>
             | _ \<Rightarrow> r)"

text \<open>One lot of the source that a sale uses up, in whole or in part.\<close>

definition close_lot ::
    "bt_env \<Rightarrow> backtest_executor \<Rightarrow> source_trade \<Rightarrow> source_lot \<Rightarrow> int \<Rightarrow> backtest_result \<Rightarrow>
       backtest_result" where
  "close_lot env be trade lot used r =
     (let gain = raw_to_ui used (lo_decimals lot) * (st_source_price trade - lo_price lot)
                   * bc_sol_price (bx_config env);
          r1 = r\<lparr>br_source_pnl_usd := br_source_pnl_usd r + gain,
                 br_source_round_trips := br_source_round_trips r + 1,
                 br_source_trip_returns_pct := br_source_trip_returns_pct r @
                   (if 0 < lo_price lot
                      then [(st_source_price trade - lo_price lot) / lo_price lot * 100] else [])\<rparr>
      in accrue_copyable env (st_token_mint trade) (lo_at lot) (st_source_confirmed_at trade) be r1)"

text \<open>
  The FIFO loop.  A lot that is not used up absorbed all that remained, so that the loop ends
  there.
\<close>

fun match_lots ::
    "bt_env \<Rightarrow> backtest_executor \<Rightarrow> source_trade \<Rightarrow> int \<Rightarrow> source_lot list \<Rightarrow> backtest_result \<Rightarrow>
       source_lot list \<times> backtest_result" where
  "match_lots env be trade remaining [] r = ([], r)"
| "match_lots env be trade remaining (lot # lots) r =
     (if remaining \<le> 0 then (lot # lots, r)
      else let used = min remaining (lo_amount lot);
               r1 = close_lot env be trade lot used r;
               left = lo_amount lot - used
           in if left \<le> 0 then match_lots env be trade (remaining - used) lots r1
              else (lot\<lparr>lo_amount := left\<rparr> # lots, r1))"

definition track_source_pnl :: "bt_env \<Rightarrow> source_trade \<Rightarrow> backtest \<Rightarrow> backtest" where
  "track_source_pnl env trade s =
     (let key = (st_wallet trade, st_token_mint trade); lots = bt_lots s key
      in if st_action trade = ACT_BUY
           then s\<lparr>bt_lots := (bt_lots s)(key := lots @
                  [\<lparr>lo_price = st_source_price trade, lo_amount = st_token_amount_raw trade,
                    lo_decimals = st_token_decimals trade, lo_at = st_source_confirmed_at trade\<rparr>])\<rparr>
         else if st_action trade = ACT_SELL \<or> st_action trade = ACT_PARTIAL_SELL
           then (case match_lots env (bt_executor s) trade (st_token_amount_raw trade) lots
                        (bt_result s) of
                   (lots', r) \<Rightarrow> s\<lparr>bt_lots := (bt_lots s)(key := lots'), bt_result := r\<rparr>)
         else s)"

section \<open>Leaving a position\<close>

definition put_position :: "position \<Rightarrow> backtest \<Rightarrow> backtest" where
  "put_position p s =
     s\<lparr>bt_positions := map (\<lambda>q. if p_id q = p_id p then p else q) (bt_positions s)\<rparr>"

definition pop_position :: "nat \<Rightarrow> backtest \<Rightarrow> backtest" where
  "pop_position pid s = s\<lparr>bt_positions := filter (\<lambda>q. p_id q \<noteq> pid) (bt_positions s)\<rparr>"

definition get_position :: "nat \<Rightarrow> backtest \<Rightarrow> position option" where
  "get_position pid s = find (\<lambda>q. p_id q = pid) (bt_positions s)"

text \<open>A draw is consumed when the executor reaches \<^verbatim>\<open>_failed\<close>, that is when there is a route.\<close>

definition run_executor :: "bt_env \<Rightarrow> approved_order \<Rightarrow> backtest \<Rightarrow> execution \<times> backtest" where
  "run_executor env order s =
     (case backtest_execute (bx_draw env (bt_draws s)) order (bt_executor s) of
        (ex, be) \<Rightarrow>
          (ex, s\<lparr>bt_executor := be,
                 bt_draws := bt_draws s + (case c_quote (o_candidate order) of None \<Rightarrow> 0
                   | Some q \<Rightarrow> if q_out_amount_raw q = 0 then 0 else 1)\<rparr>))"

definition bt_exit_order ::
    "bt_env \<Rightarrow> nat \<Rightarrow> datetime \<Rightarrow> position \<Rightarrow> market_state \<Rightarrow> exit_reason \<Rightarrow> int \<Rightarrow> quote option \<Rightarrow>
       approved_order" where
  "bt_exit_order env oid when p market reason amount_raw q =
     \<lparr>o_id = oid,
      o_idempotency_key = ''bt:'' @ uuid_text (p_id p) @ '':'' @ exit_reason_value reason @ '':''
        @ int_text amount_raw,
      o_candidate = \<lparr>c_id = oid,
        c_source_trade = \<lparr>st_id = oid, st_wallet = p_trader_wallet p,
          st_signature = ''bt-exit-'' @ take 8 (uuid_text (p_id p)), st_slot = 0, st_action = ACT_SELL,
          st_token_mint = p_token_mint p, st_quote_mint = SOL_MINT,
          st_token_amount_raw = amount_raw, st_quote_amount_raw = 0,
          st_token_decimals = p_decimals p, st_quote_decimals = 9,
          st_source_price = ms_price_usd market, st_source_value_usd = 0,
          st_source_confirmed_at = when, st_detected_at = when, st_sold_fraction = None\<rparr>,
        c_trader = (case bx_traders env (p_trader_wallet p) of
            None \<Rightarrow> default_trader (p_trader_wallet p) | Some t \<Rightarrow> t),
        c_market = market, c_token_risk = None, c_quote = q, c_confirmations = [],
        c_created_at = when\<rparr>,
      o_action = ACT_SELL, o_input_mint = p_token_mint p, o_output_mint = SOL_MINT,
      o_in_amount_raw = amount_raw,
      o_size_usd = raw_to_ui amount_raw (p_decimals p) * ms_price_usd market,
      o_slippage_bps = execution_slippage_bps (copyability (bx_settings env)),
      o_position_id = Some (p_id p), o_exit_reason = Some reason, o_reservation_id = None,
      o_latency = no_latency\<lparr>lat_source_confirmed_at := Some when,
        lat_detected_at := Some when, lat_decision_completed_at := Some when\<rparr>\<rparr>"

text \<open>The books after a simulated sale.\<close>

definition book_exit ::
    "position \<Rightarrow> datetime \<Rightarrow> exit_reason \<Rightarrow> nat option \<Rightarrow> int \<Rightarrow> bool \<Rightarrow> usd \<Rightarrow> backtest \<Rightarrow> backtest" where
  "book_exit p when reason ladder_index amount_raw fully exit_price s =
     (let (proceeds, gross) = realized_pnl p amount_raw exit_price;
          fee = backtest_fee_usd (bt_executor s);
          pnl = gross - fee;
          cost = proceeds - pnl - fee;
          gone = (fully \<or> p_amount_raw p - amount_raw \<le> 0);
          p1 = p\<lparr>p_amount_raw := p_amount_raw p - amount_raw,
                 p_realized_pnl_usd := p_realized_pnl_usd p + pnl,
                 p_fees_usd := p_fees_usd p + fee,
                 p_tp_levels_hit := p_tp_levels_hit p @
                   (case ladder_index of None \<Rightarrow> [] | Some i \<Rightarrow> [i]),
                 p_cost_basis_usd := p_cost_basis_usd p - cost\<rparr>;
          s1 = s\<lparr>bt_ledger := release_position (p_token_mint p) (p_trader_wallet p) cost pnl
                   proceeds fully (bt_ledger s)\<rparr>;
          s2 = (if gone then pop_position (p_id p) s1 else put_position p1 s1)
      in on_result (\<lambda>r. r\<lparr>br_realized_pnl_usd := br_realized_pnl_usd r + pnl,
             br_fees_usd := br_fees_usd r + fee,
             br_exit_reasons := count_one reason (br_exit_reasons r),
             br_trades := br_trades r @
               [\<lparr>ct_mint = p_token_mint p, ct_trader = p_trader_wallet p,
                 ct_opened_at = p_opened_at p, ct_closed_at = when,
                 ct_entry_price = p_entry_price p, ct_exit_price = exit_price,
                 ct_size_usd = proceeds - pnl, ct_realized_pnl_usd = pnl, ct_fees_usd = fee,
                 ct_exit_reason = reason\<rparr>]\<rparr>) s2)"

definition close_position ::
    "bt_env \<Rightarrow> position \<Rightarrow> datetime \<Rightarrow> exit_reason \<Rightarrow> rat \<Rightarrow> nat option \<Rightarrow> backtest \<Rightarrow> backtest" where
  "close_position env p when reason fraction ladder_index s =
     (let part = trunc_int (of_int (p_amount_raw p) * fraction);
          fully = (999/1000 \<le> fraction \<or> p_amount_raw p \<le> part);
          amount_raw = (if fully then p_amount_raw p else part);
          market = bt_market env s p
      in if part \<le> 0 \<or> ms_price_usd market \<le> 0 then s
         else
           let q = historical_quote (provider_at env (clock_of s)) (p_token_mint p) SOL_MINT amount_raw;
               order = bt_exit_order env (bt_fresh s) when p market reason amount_raw q
           in case run_executor env order (s\<lparr>bt_fresh := bt_fresh s + 1\<rparr>) of
                (ex, s1) \<Rightarrow>
                  if \<not> succeeded ex then s1
                  else book_exit p when reason ladder_index amount_raw fully
                         (if ex_actual_price ex = 0 then ms_price_usd market else ex_actual_price ex) s1)"

text \<open>
  The loops run over a copy of the dict's values.  The objects are shared, and a step changes
  only the position it is about, so that looking each one up by its id reads the current value.
\<close>

definition with_open :: "(position \<Rightarrow> backtest \<Rightarrow> backtest) \<Rightarrow> nat \<Rightarrow> backtest \<Rightarrow> backtest" where
  "with_open f pid s =
     (case get_position pid s of
        None \<Rightarrow> s
      | Some p \<Rightarrow> if p_status p = POS_OPEN then f p s else s)"

definition each_open :: "(position \<Rightarrow> backtest \<Rightarrow> backtest) \<Rightarrow> backtest \<Rightarrow> backtest" where
  "each_open f s = fold (with_open f) (map p_id (bt_positions s)) s"

definition mirror_position ::
    "bt_env \<Rightarrow> source_trade \<Rightarrow> datetime \<Rightarrow> position \<Rightarrow> backtest \<Rightarrow> backtest" where
  "mirror_position env trade when p s =
     (if p_token_mint p = st_token_mint trade \<and> p_trader_wallet p = st_wallet trade
        then close_position env p when EXIT_MIRROR
               (if st_action trade = ACT_SELL then 1 else 1/2) None s
      else s)"

definition mirror_exit :: "bt_env \<Rightarrow> source_trade \<Rightarrow> datetime \<Rightarrow> backtest \<Rightarrow> backtest" where
  "mirror_exit env trade when s = each_open (mirror_position env trade when) s"

definition tick_position :: "bt_env \<Rightarrow> datetime \<Rightarrow> position \<Rightarrow> backtest \<Rightarrow> backtest" where
  "tick_position env when p s =
     (let market = bt_market env s p
      in if ms_price_usd market \<le> 0 \<or> ms_stale market then s
         else
           let p1 = snd (update_marks p market (bx_risk env)); s1 = put_position p1 s
           in case evaluate_exits p1 market (bx_traders env (p_trader_wallet p)) False 1 None
                     (bx_risk env) when of
                None \<Rightarrow> s1
              | Some i \<Rightarrow>
                  close_position env p1 when (ei_reason i) (ei_fraction i) (ei_ladder_index i) s1)"

definition tick_exits :: "bt_env \<Rightarrow> datetime \<Rightarrow> backtest \<Rightarrow> backtest" where
  "tick_exits env when s = each_open (tick_position env when) s"

definition liquidate_all :: "bt_env \<Rightarrow> datetime \<Rightarrow> backtest \<Rightarrow> backtest" where
  "liquidate_all env when s =
     each_open (\<lambda>p. close_position env p when EXIT_MANUAL 1 None) s"

section \<open>Signals\<close>

definition bt_engine :: "bt_env \<Rightarrow> datetime \<Rightarrow> engine" where
  "bt_engine env now = \<lparr>en_settings = bx_settings env, en_data = historical_data (provider_at env now),
     en_sizing = bc_sizing_mode (bx_config env), en_sha256 = bx_sha256 env\<rparr>"

definition open_bt_position ::
    "source_trade \<Rightarrow> datetime \<Rightarrow> nat \<Rightarrow> approved_order \<Rightarrow> execution \<Rightarrow> usd \<Rightarrow> position" where
  "open_bt_position trade detected pid order ex fee =
     \<lparr>p_id = pid, p_token_mint = st_token_mint trade, p_trader_wallet = st_wallet trade,
      p_status = POS_OPEN, p_decimals = ms_decimals (c_market (o_candidate order)),
      p_amount_raw = ex_out_amount_raw ex, p_cost_basis_usd = ex_value_usd ex,
      p_realized_pnl_usd = 0, p_fees_usd = fee, p_entry_price = ex_actual_price ex,
      p_current_price = ex_actual_price ex, p_peak_price = ex_actual_price ex,
      p_trailing_armed = False, p_tp_levels_hit = [], p_opened_at = detected,
      p_closed_at = None, p_source_trade_id = Some (st_id trade), p_mode = ''backtest''\<rparr>"

text \<open>What follows an approved decision.  The reservation id is the one of the order.\<close>

definition enter_position ::
    "bt_env \<Rightarrow> source_trade \<Rightarrow> datetime \<Rightarrow> nat \<Rightarrow> approved_order \<Rightarrow> string \<Rightarrow> backtest \<Rightarrow> backtest" where
  "enter_position env trade detected pid order rid s =
     (let order1 = order\<lparr>o_latency := no_latency
            \<lparr>lat_source_confirmed_at := Some (st_source_confirmed_at trade),
             lat_detected_at := Some detected,
             lat_decision_completed_at :=
               Some (detected + ms_delta (bc_analysis_latency_ms (bx_config env)))\<rparr>\<rparr>
      in case run_executor env order1 s of
           (ex, s1) \<Rightarrow>
             if \<not> succeeded ex \<or> ex_out_amount_raw ex \<le> 0
               then s1\<lparr>bt_ledger := snd (ledger_release rid (bt_ledger s1))\<rparr>
             else
               let fee = backtest_fee_usd (bt_executor s1)
               in on_result (\<lambda>r. r\<lparr>br_fees_usd := br_fees_usd r + fee\<rparr>)
                    (s1\<lparr>bt_ledger := snd (ledger_commit rid (ex_value_usd ex) (bt_ledger s1)),
                        bt_positions := bt_positions s1 @
                          [open_bt_position trade detected pid order1 ex fee]\<rparr>))"

definition reject_signal :: "decision_result \<Rightarrow> backtest_result \<Rightarrow> backtest_result" where
  "reject_signal d r = r\<lparr>br_rejected := br_rejected r + 1,
     br_rejection_reasons := fold count_one (d_reasons d) (br_rejection_reasons r)\<rparr>"

definition on_signal ::
    "bt_env \<Rightarrow> source_trade \<Rightarrow> trader_profile \<Rightarrow> backtest \<Rightarrow> py_error option \<times> backtest" where
  "on_signal env trade trader s =
     (let s1 = on_result (\<lambda>r. r\<lparr>br_signals := br_signals r + 1\<rparr>) s;
          detected = st_source_confirmed_at trade + ms_delta (bc_detection_latency_ms (bx_config env));
          s2 = advance_clock detected s1;
          n = bt_fresh s2
      in case evaluate_entry (bt_engine env (clock_of s2)) n (n + 1) (bx_reservation_id env (n + 2))
                (\<lambda>l. l) (trade\<lparr>st_detected_at := detected\<rparr>) trader [] (bt_ledger s2) of
           (r, l) \<Rightarrow>
             let s3 = s2\<lparr>bt_ledger := l, bt_fresh := n + 4\<rparr>
             in (case r of
                   Inl e \<Rightarrow> (Some e, s3)
                 | Inr (d, o') \<Rightarrow>
                     (case o' of
                        None \<Rightarrow> (None, on_result (reject_signal d) s3)
                      | Some order \<Rightarrow>
                          if \<not> approved d then (None, on_result (reject_signal d) s3)
                          else let s4 = on_result (\<lambda>r. r\<lparr>br_approved := br_approved r + 1\<rparr>) s3
                               in case o_reservation_id order of
                                    None \<Rightarrow> (Some AssertionError, s4)
                                  | Some rid \<Rightarrow>
                                      (None, enter_position env trade detected (n + 3) order rid s4))))"

definition on_source_trade ::
    "bt_env \<Rightarrow> source_trade \<Rightarrow> datetime \<Rightarrow> backtest \<Rightarrow> py_error option \<times> backtest" where
  "on_source_trade env trade when s =
     (let s1 = track_source_pnl env trade s
      in case bx_traders env (st_wallet trade) of
           Some trader \<Rightarrow>
             if st_action trade = ACT_BUY then on_signal env trade trader s1
             else if st_action trade = ACT_SELL \<or> st_action trade = ACT_PARTIAL_SELL
               then (None, mirror_exit env trade when s1)
             else (None, s1)
         | None \<Rightarrow>
             if st_action trade = ACT_SELL \<or> st_action trade = ACT_PARTIAL_SELL
               then (None, mirror_exit env trade when s1)
             else (None, s1))"

section \<open>Marking\<close>

definition mark_positions :: "bt_env \<Rightarrow> backtest \<Rightarrow> usd \<times> position list" where
  "mark_positions env s =
     foldr (\<lambda>p (total, ps).
        let price = ms_price_usd (bt_market env s p); p1 = p\<lparr>p_current_price := price\<rparr>
        in if p_status p = POS_OPEN \<and> 0 < price then (unrealized_pnl_usd p1 + total, p1 # ps)
           else (total, p # ps)) (bt_positions s) (0, [])"

definition record_equity :: "datetime \<Rightarrow> usd \<Rightarrow> backtest_result \<Rightarrow> backtest_result" where
  "record_equity when equity r =
     (let peak = max (br_peak_equity r) equity;
          dd = (if 0 < peak then max (br_max_drawdown_pct r) ((peak - equity) / peak * 100)
                else br_max_drawdown_pct r)
      in r\<lparr>br_peak_equity := peak, br_max_drawdown_pct := dd,
           br_equity_curve := (if length (br_equity_curve r) < 5000
             then br_equity_curve r @ [(when, quantize 2 equity)] else br_equity_curve r)\<rparr>)"

definition mark_to_market :: "bt_env \<Rightarrow> datetime \<Rightarrow> backtest \<Rightarrow> backtest" where
  "mark_to_market env when s =
     (case mark_positions env s of
        (unrealized, ps) \<Rightarrow>
          (case mark unrealized None (bt_ledger s) of
             ((equity, _), l) \<Rightarrow>
               on_result (record_equity when equity) (s\<lparr>bt_positions := ps, bt_ledger := l\<rparr>)))"

section \<open>The run\<close>

datatype timeline_event = Price string | Trade source_trade

type_synonym timeline = "(datetime \<times> timeline_event) list"

text \<open>Time order; at one instant the prices come first.\<close>

definition event_key :: "datetime \<times> timeline_event \<Rightarrow> int" where
  "event_key e = 2 * fst e + (case snd e of Price _ \<Rightarrow> 0 | Trade _ \<Rightarrow> 1)"

definition build_timeline :: "bt_env \<Rightarrow> source_trade list \<Rightarrow> timeline" where
  "build_timeline env trades =
     (let start = st_source_confirmed_at (hd trades);
          stop = st_source_confirmed_at (last trades) + max_hold_seconds (bx_risk env) * 1000000;
          prices = concat (map (\<lambda>(mint, h). map (\<lambda>pt. (pp_at pt, Price (th_mint h)))
                     (filter (\<lambda>pt. start \<le> pp_at pt \<and> pp_at pt \<le> stop) (th_points h)))
                   (bx_histories env))
      in sort_key event_key (map (\<lambda>t. (st_source_confirmed_at t, Trade t)) trades @ prices))"

definition timeline_step ::
    "bt_env \<Rightarrow> datetime \<times> timeline_event \<Rightarrow> backtest \<Rightarrow> py_error option \<times> backtest" where
  "timeline_step env e s =
     (let s1 = advance_clock (fst e) s
      in case (case snd e of
                 Trade t \<Rightarrow> on_source_trade env t (clock_of s1) s1
               | Price _ \<Rightarrow> (None, s1)) of
           (Some err, s2) \<Rightarrow> (Some err, s2)
         | (None, s2) \<Rightarrow>
             let s3 = tick_exits env (clock_of s2) s2
             in (None, mark_to_market env (clock_of s3) s3))"

fun replay :: "bt_env \<Rightarrow> timeline \<Rightarrow> backtest \<Rightarrow> py_error option \<times> backtest" where
  "replay env [] s = (None, s)"
| "replay env (e # es) s =
     (case timeline_step env e s of
        (Some err, s1) \<Rightarrow> (Some err, s1)
      | (None, s1) \<Rightarrow> replay env es s1)"

definition finish_run :: "backtest \<Rightarrow> backtest" where
  "finish_run s = on_result (\<lambda>r. r\<lparr>br_ending_equity := total_equity_usd (snapshot (bt_ledger s)),
     br_fills := be_fills (bt_executor s), br_failed_fills := be_failures (bt_executor s)\<rparr>) s"

definition start_run :: "bt_env \<Rightarrow> backtest \<Rightarrow> backtest" where
  "start_run env s = s\<lparr>bt_ledger := (bootstrap (bc_starting_capital_usd (bx_config env)) True
     (bt_ledger s))\<lparr>rd_system := Some ''running''\<rparr>\<rparr>"

definition run_backtest :: "bt_env \<Rightarrow> source_trade list \<Rightarrow> py_error option \<times> backtest" where
  "run_backtest env trades0 =
     (let trades = sort_key st_source_confirmed_at trades0; s0 = backtest_init env
      in if trades = [] then (None, s0)
         else
           let timeline = build_timeline env trades
           in case replay env timeline (start_run env s0) of
                (Some err, s) \<Rightarrow> (Some err, finish_run s)
              | (None, s) \<Rightarrow>
                  let s1 = advance_clock (fst (last timeline)) s;
                      s2 = liquidate_all env (clock_of s1) s1
                  in (None, finish_run (mark_to_market env (clock_of s2) s2)))"

end
