(* ===== verification/Backtest_Books.thy ===== *)
theory Backtest_Books
  imports Backtest Position_Books Decision_Properties
begin

text \<open>
  The books of a backtest: what its ledger, its positions and its list of closed trades have to
  do with each other at every moment of a run, and that no position closes before it opened.
\<close>

section \<open>The invariant\<close>

definition bt_cost :: "backtest \<Rightarrow> usd" where
  "bt_cost s = sum_list (map p_cost_basis_usd (bt_positions s))"

definition bt_cash :: "backtest \<Rightarrow> usd" where
  "bt_cash s = h_cash (rd_state (bt_ledger s))"

definition bt_shape :: "backtest \<Rightarrow> bool" where
  "bt_shape s \<longleftrightarrow> distinct (map p_id (bt_positions s)) \<and>
     (bt_clock s = None \<longrightarrow> bt_positions s = []) \<and>
     (\<forall>p \<in> set (bt_positions s). p_id p < bt_fresh s \<and> p_status p = POS_OPEN \<and>
        0 < p_amount_raw p \<and> p_opened_at p \<le> clock_of s)"

definition trades_gross :: "closed_trade list \<Rightarrow> usd" where
  "trades_gross ts = sum_list (map (\<lambda>t. ct_realized_pnl_usd t + ct_fees_usd t) ts)"

definition trades_net :: "closed_trade list \<Rightarrow> usd" where
  "trades_net ts = sum_list (map ct_realized_pnl_usd ts)"

definition bt_books :: "usd \<Rightarrow> backtest \<Rightarrow> bool" where
  "bt_books capital s \<longleftrightarrow>
     bt_cash s + bt_cost s = capital + trades_gross (br_trades (bt_result s)) \<and>
     h_realized_today (rd_state (bt_ledger s)) = trades_net (br_trades (bt_result s)) \<and>
     br_realized_pnl_usd (bt_result s) = trades_net (br_trades (bt_result s)) \<and>
     (\<forall>t \<in> set (br_trades (bt_result s)). ct_opened_at t \<le> ct_closed_at t)"

definition nothing_held :: "ledger_store \<Rightarrow> bool" where
  "nothing_held l \<longleftrightarrow> (\<forall>rid. \<not> reservation_held rid l)"

definition bt_inv :: "usd \<Rightarrow> backtest \<Rightarrow> bool" where
  "bt_inv capital s \<longleftrightarrow> bt_shape s \<and> bt_books capital s \<and> nothing_held (bt_ledger s)"

lemmas bt_inv_defs = bt_inv_def bt_shape_def bt_books_def bt_cost_def bt_cash_def

section \<open>Frames\<close>

lemma run_executor_frame:
  assumes "run_executor env order s = (ex, s')"
  shows "bt_ledger s' = bt_ledger s" "bt_positions s' = bt_positions s"
    "bt_result s' = bt_result s" "bt_clock s' = bt_clock s" "bt_fresh s' = bt_fresh s"
  using assms by (auto simp: run_executor_def split: prod.splits)

lemma bt_inv_cong:
  assumes "bt_ledger s' = bt_ledger s" "bt_positions s' = bt_positions s"
    "bt_result s' = bt_result s" "bt_clock s' = bt_clock s" "bt_fresh s \<le> bt_fresh s'"
  shows "bt_inv c s \<Longrightarrow> bt_inv c s'"
  using assms by (auto simp: bt_inv_defs clock_of_def intro: less_le_trans)

lemma get_position_Some:
  "get_position pid s = Some p \<Longrightarrow> p \<in> set (bt_positions s) \<and> p_id p = pid"
  by (auto simp: get_position_def find_Some_iff)

lemma get_position_mem:
  assumes "distinct (map p_id (bt_positions s))" "p \<in> set (bt_positions s)"
  shows "get_position (p_id p) s = Some p"
proof -
  have "find (\<lambda>q. p_id q = p_id p) xs = Some p"
    if "distinct (map p_id xs)" "p \<in> set xs" for xs
    using that by (induction xs) (auto simp: image_iff)
  then show ?thesis using assms by (simp add: get_position_def)
qed

text \<open>A position in a list with distinct ids, and the list without it or with a new one for it.\<close>

lemma distinct_split:
  assumes "distinct (map p_id ps)" "p \<in> set ps"
  shows "\<exists>xs ys. ps = xs @ p # ys \<and> filter (\<lambda>q. p_id q \<noteq> p_id p) ps = xs @ ys \<and>
    (\<forall>p'. map (\<lambda>q. if p_id q = p_id p then p' else q) ps = xs @ p' # ys)"
proof -
  obtain xs ys where ps: "ps = xs @ p # ys" using assms(2) by (meson split_list)
  then have ids: "\<forall>q \<in> set xs. p_id q \<noteq> p_id p" "\<forall>q \<in> set ys. p_id q \<noteq> p_id p"
    using assms(1) by (auto simp: image_iff)
  have "filter (\<lambda>q. p_id q \<noteq> p_id p) xs = xs" "filter (\<lambda>q. p_id q \<noteq> p_id p) ys = ys"
    using ids by simp_all
  moreover have "map (\<lambda>q. if p_id q = p_id p then p' else q) xs = xs"
    "map (\<lambda>q. if p_id q = p_id p then p' else q) ys = ys" for p'
    using ids by (simp_all add: map_idI)
  ultimately show ?thesis using ps by (intro exI [of _ xs] exI [of _ ys]) simp
qed

lemma put_position_inv:
  assumes "bt_inv c s" "p \<in> set (bt_positions s)" "p_id p' = p_id p" "p_status p' = p_status p"
    "p_amount_raw p' = p_amount_raw p" "p_cost_basis_usd p' = p_cost_basis_usd p"
    "p_opened_at p' = p_opened_at p"
  shows "bt_inv c (put_position p' s)" "p' \<in> set (bt_positions (put_position p' s))"
proof -
  have "distinct (map p_id (bt_positions s))" using assms(1) by (simp add: bt_inv_defs)
  then obtain xs ys where "bt_positions s = xs @ p # ys"
    "map (\<lambda>q. if p_id q = p_id p then p' else q) (bt_positions s) = xs @ p' # ys"
    using distinct_split [OF _ assms(2)] by blast
  then show "bt_inv c (put_position p' s)" "p' \<in> set (bt_positions (put_position p' s))"
    using assms by (auto simp: bt_inv_defs put_position_def clock_of_def)
qed

section \<open>Closing\<close>

lemma release_position_held:
  "reservation_held rid (release_position m w cost pnl pr full l) \<longleftrightarrow> reservation_held rid l"
  by (simp add: reservation_held_def release_position_def script_release_position_def Let_def)

lemma release_position_realized:
  "h_realized_today (rd_state (release_position m w cost pnl pr full l)) =
   h_realized_today (rd_state l) + pnl"
  by (simp add: release_position_def script_release_position_def Let_def)

lemma trades_snoc [simp]:
  "trades_gross (ts @ [t]) = trades_gross ts + ct_realized_pnl_usd t + ct_fees_usd t"
  "trades_net (ts @ [t]) = trades_net ts + ct_realized_pnl_usd t"
  by (simp_all add: trades_gross_def trades_net_def)

lemma book_exit_fields:
  assumes "realized_pnl p a x = (proceeds, gross)" "fee = backtest_fee_usd (bt_executor s)"
    and s': "s' = book_exit p when' reason ladder a fully x s"
  obtains p1 ct where
    "bt_ledger s' = release_position (p_token_mint p) (p_trader_wallet p) (proceeds - gross)
       (gross - fee) proceeds fully (bt_ledger s)"
    "bt_positions s' = (if fully \<or> p_amount_raw p - a \<le> 0
       then filter (\<lambda>q. p_id q \<noteq> p_id p) (bt_positions s)
       else map (\<lambda>q. if p_id q = p_id p then p1 else q) (bt_positions s))"
    "p_id p1 = p_id p" "p_status p1 = p_status p" "p_amount_raw p1 = p_amount_raw p - a"
    "p_cost_basis_usd p1 = p_cost_basis_usd p - (proceeds - gross)" "p_opened_at p1 = p_opened_at p"
    "br_trades (bt_result s') = br_trades (bt_result s) @ [ct]"
    "ct_realized_pnl_usd ct = gross - fee" "ct_fees_usd ct = fee"
    "ct_opened_at ct = p_opened_at p" "ct_closed_at ct = when'"
    "br_realized_pnl_usd (bt_result s') = br_realized_pnl_usd (bt_result s) + (gross - fee)"
    "bt_clock s' = bt_clock s" "bt_fresh s' = bt_fresh s"
proof -
  have cost: "proceeds - (gross - fee) - fee = proceeds - gross" by simp
  show thesis
    by (rule that [of "p\<lparr>p_amount_raw := p_amount_raw p - a,
          p_realized_pnl_usd := p_realized_pnl_usd p + (gross - fee), p_fees_usd := p_fees_usd p + fee,
          p_tp_levels_hit := p_tp_levels_hit p @ (case ladder of None \<Rightarrow> [] | Some i \<Rightarrow> [i]),
          p_cost_basis_usd := p_cost_basis_usd p - (proceeds - gross)\<rparr>"
        "last (br_trades (bt_result s'))"])
      (simp_all add: s' book_exit_def assms(1) assms(2) [symmetric] Let_def on_result_def cost
        pop_position_def put_position_def)
qed

lemma book_exit_inv:
  assumes inv: "bt_inv c s" and mem: "p \<in> set (bt_positions s)" and now: "when' = clock_of s"
    and a: "fully \<longrightarrow> a = p_amount_raw p" "\<not> fully \<longrightarrow> a < p_amount_raw p"
  shows "bt_inv c (book_exit p when' reason ladder a fully x s)"
proof -
  define s' where "s' = book_exit p when' reason ladder a fully x s"
  have p: "0 < p_amount_raw p" "p_opened_at p \<le> clock_of s" and dist: "distinct (map p_id (bt_positions s))"
    using inv mem by (auto simp: bt_inv_defs)
  obtain proceeds gross where pnl: "realized_pnl p a x = (proceeds, gross)" by force
  have cost: "fully \<longrightarrow> proceeds - gross = p_cost_basis_usd p"
    using pnl p(1) a(1) by (auto simp: realized_pnl_split)
  obtain xs ys where split: "bt_positions s = xs @ p # ys"
    "filter (\<lambda>q. p_id q \<noteq> p_id p) (bt_positions s) = xs @ ys"
    "\<And>p'. map (\<lambda>q. if p_id q = p_id p then p' else q) (bt_positions s) = xs @ p' # ys"
    using distinct_split [OF dist mem] by blast
  obtain p1 ct where f:
    "bt_ledger s' = release_position (p_token_mint p) (p_trader_wallet p) (proceeds - gross)
       (gross - backtest_fee_usd (bt_executor s)) proceeds fully (bt_ledger s)"
    "bt_positions s' = (if fully \<or> p_amount_raw p - a \<le> 0 then xs @ ys else xs @ p1 # ys)"
    "p_id p1 = p_id p" "p_status p1 = p_status p" "p_amount_raw p1 = p_amount_raw p - a"
    "p_cost_basis_usd p1 = p_cost_basis_usd p - (proceeds - gross)" "p_opened_at p1 = p_opened_at p"
    "br_trades (bt_result s') = br_trades (bt_result s) @ [ct]"
    "ct_realized_pnl_usd ct = gross - backtest_fee_usd (bt_executor s)"
    "ct_fees_usd ct = backtest_fee_usd (bt_executor s)"
    "ct_opened_at ct = p_opened_at p" "ct_closed_at ct = when'"
    "br_realized_pnl_usd (bt_result s') =
       br_realized_pnl_usd (bt_result s) + (gross - backtest_fee_usd (bt_executor s))"
    "bt_clock s' = bt_clock s" "bt_fresh s' = bt_fresh s"
    by (rule book_exit_fields [OF pnl refl s'_def, unfolded split(2,3)]) blast
  have clock: "clock_of s' = clock_of s" by (simp add: clock_of_def f)
  have "bt_shape s'"
    using inv a unfolding bt_inv_def bt_shape_def clock by (auto simp: f split(1))
  moreover have "bt_books c s'"
    using inv a cost p now unfolding bt_inv_def bt_books_def bt_cash_def bt_cost_def
    by (auto simp: f split(1) release_position_realized release_position_cash)
  moreover have "nothing_held (bt_ledger s')"
    using inv by (simp add: bt_inv_def nothing_held_def f(1) release_position_held)
  ultimately show ?thesis by (simp add: bt_inv_def s'_def)
qed

definition kept :: "usd \<Rightarrow> backtest \<Rightarrow> backtest \<Rightarrow> bool" where
  "kept c s s' \<longleftrightarrow> bt_inv c s' \<and> bt_clock s' = bt_clock s"

lemma kept_refl: "bt_inv c s \<Longrightarrow> kept c s s"
  by (simp add: kept_def)

lemma kept_trans: "kept c s s1 \<Longrightarrow> kept c s1 s2 \<Longrightarrow> kept c s s2"
  by (simp add: kept_def)

lemma kept_clock: "kept c s s' \<Longrightarrow> clock_of s' = clock_of s"
  by (simp add: kept_def clock_of_def)

lemma book_exit_clock: "bt_clock (book_exit p when' reason ladder a fully x s) = bt_clock s"
  by (simp add: book_exit_def Let_def on_result_def pop_position_def put_position_def
      split: prod.split)

lemma close_position_kept:
  assumes inv: "bt_inv c s" and mem: "p \<in> set (bt_positions s)" and now: "when' = clock_of s"
  shows "kept c s (close_position env p when' reason fraction ladder s)"
proof -
  define part where "part = trunc_int (of_int (p_amount_raw p) * fraction)"
  define fully where "fully = (999/1000 \<le> fraction \<or> p_amount_raw p \<le> part)"
  define a where "a = (if fully then p_amount_raw p else part)"
  define order where "order = bt_exit_order env (bt_fresh s) when' p (bt_market env s p) reason a
    (historical_quote (provider_at env (clock_of s)) (p_token_mint p) SOL_MINT a)"
  obtain ex s1 where run: "run_executor env order (s\<lparr>bt_fresh := bt_fresh s + 1\<rparr>) = (ex, s1)" by force
  note frame = run_executor_frame [OF run, simplified]
  have s1: "bt_inv c s1" by (rule bt_inv_cong [OF _ _ _ _ _ inv]) (simp_all add: frame)
  have "kept c s (book_exit p when' reason ladder a fully x s1)" for x
    using book_exit_inv [OF s1, of p when' fully a reason ladder x] mem now
    by (auto simp: kept_def frame book_exit_clock clock_of_def a_def fully_def)
  moreover have "kept c s s1" using s1 by (simp add: kept_def frame)
  moreover have "close_position env p when' reason fraction ladder s =
    (if part \<le> 0 \<or> ms_price_usd (bt_market env s p) \<le> 0 then s
     else if \<not> succeeded ex then s1
     else book_exit p when' reason ladder a fully (if ex_actual_price ex = 0
        then ms_price_usd (bt_market env s p) else ex_actual_price ex) s1)"
    unfolding close_position_def Let_def part_def [symmetric] fully_def [symmetric] a_def [symmetric]
      order_def [symmetric] run by simp
  ultimately show ?thesis using kept_refl [OF inv] by simp
qed

text \<open>A loop over the open positions keeps what each of its steps keeps.\<close>

lemma each_open_kept:
  assumes step: "\<And>p s1. kept c s s1 \<Longrightarrow> p \<in> set (bt_positions s1) \<Longrightarrow> kept c s1 (f p s1)"
    and "bt_inv c s"
  shows "kept c s (each_open f s)"
proof -
  have one: "kept c s (with_open f pid s1)" if "kept c s s1" for pid s1
    using that step [OF that] kept_trans [OF that]
    by (auto simp: with_open_def dest: get_position_Some split: option.split)
  have "kept c s (fold (with_open f) pids s1)" if "kept c s s1" for pids s1
    using that by (induction pids arbitrary: s1) (simp_all add: one)
  then show ?thesis using kept_refl [OF assms(2)] by (simp add: each_open_def)
qed

lemma mirror_exit_kept:
  assumes "bt_inv c s" "when' = clock_of s"
  shows "kept c s (mirror_exit env trade when' s)"
  unfolding mirror_exit_def
proof (rule each_open_kept [OF _ assms(1)])
  fix p s1 assume "kept c s s1" "p \<in> set (bt_positions s1)"
  then show "kept c s1 (mirror_position env trade when' p s1)"
    using close_position_kept [of c s1 p when'] kept_clock [of c s s1] assms(2)
    by (auto simp: mirror_position_def kept_refl kept_def)
qed

lemma liquidate_all_kept:
  assumes "bt_inv c s" "when' = clock_of s"
  shows "kept c s (liquidate_all env when' s)"
  unfolding liquidate_all_def
proof (rule each_open_kept [OF _ assms(1)])
  fix p s1 assume "kept c s s1" "p \<in> set (bt_positions s1)"
  then show "kept c s1 (close_position env p when' EXIT_MANUAL 1 None s1)"
    using close_position_kept [of c s1 p when'] kept_clock [of c s s1] assms(2)
    by (simp add: kept_def)
qed

lemma put_position_clock [simp]: "bt_clock (put_position p s) = bt_clock s"
  by (simp add: put_position_def)

lemma tick_position_kept:
  assumes inv: "bt_inv c s" and mem: "p \<in> set (bt_positions s)" and now: "when' = clock_of s"
  shows "kept c s (tick_position env when' p s)"
proof -
  define p1 where "p1 = snd (update_marks p (bt_market env s p) (bx_risk env))"
  define s1 where "s1 = put_position p1 s"
  have p1: "p_id p1 = p_id p" "p_status p1 = p_status p" "p_amount_raw p1 = p_amount_raw p"
    "p_cost_basis_usd p1 = p_cost_basis_usd p" "p_opened_at p1 = p_opened_at p"
    by (simp_all add: p1_def update_marks_snd)
  have s1: "kept c s s1" "p1 \<in> set (bt_positions s1)" "when' = clock_of s1"
    using put_position_inv [OF inv mem p1] now by (simp_all add: s1_def kept_def clock_of_def)
  then have "kept c s (close_position env p1 when' r x l s1)" for r x l
    using close_position_kept [of c s1 p1] by (auto simp: kept_def)
  then show ?thesis
    using s1 kept_refl [OF inv]
    by (simp add: tick_position_def Let_def p1_def [symmetric] s1_def [symmetric] split: option.split)
qed

lemma tick_exits_kept:
  assumes "bt_inv c s" "when' = clock_of s"
  shows "kept c s (tick_exits env when' s)"
  unfolding tick_exits_def
proof (rule each_open_kept [OF _ assms(1)])
  fix p s1 assume "kept c s s1" "p \<in> set (bt_positions s1)"
  then show "kept c s1 (tick_position env when' p s1)"
    using tick_position_kept [of c s1 p when'] kept_clock [of c s s1] assms(2)
    by (simp add: kept_def)
qed

section \<open>Marking\<close>

lemma mark_positions_snd:
  "snd (mark_positions env s) = map (\<lambda>p. if p_status p = POS_OPEN \<and> 0 < ms_price_usd (bt_market env s p)
     then p\<lparr>p_current_price := ms_price_usd (bt_market env s p)\<rparr> else p) (bt_positions s)"
proof -
  have "snd (foldr (\<lambda>p (total, ps).
      let price = ms_price_usd (bt_market env s p); p1 = p\<lparr>p_current_price := price\<rparr>
      in if p_status p = POS_OPEN \<and> 0 < price then (unrealized_pnl_usd p1 + total, p1 # ps)
         else (total, p # ps)) xs (0, [])) =
    map (\<lambda>p. if p_status p = POS_OPEN \<and> 0 < ms_price_usd (bt_market env s p)
      then p\<lparr>p_current_price := ms_price_usd (bt_market env s p)\<rparr> else p) xs" for xs
    by (induction xs) (auto simp: Let_def split: prod.splits)
  then show ?thesis by (simp add: mark_positions_def)
qed

lemma mark_frame:
  "h_cash (rd_state (snd (mark u b l))) = h_cash (rd_state l)"
  "h_realized_today (rd_state (snd (mark u b l))) = h_realized_today (rd_state l)"
  "reservation_held rid (snd (mark u b l)) = reservation_held rid l"
  by (simp_all add: mark_def script_mark_def Let_def reservation_held_def split: option.split)

lemma record_equity_frame [simp]:
  "br_trades (record_equity t e r) = br_trades r"
  "br_realized_pnl_usd (record_equity t e r) = br_realized_pnl_usd r"
  by (simp_all add: record_equity_def Let_def)

lemma mark_to_market_fields:
  "\<exists>u. bt_ledger (mark_to_market env t s) = snd (mark u None (bt_ledger s))"
  "bt_positions (mark_to_market env t s) = snd (mark_positions env s)"
  "br_trades (bt_result (mark_to_market env t s)) = br_trades (bt_result s)"
  "br_realized_pnl_usd (bt_result (mark_to_market env t s)) = br_realized_pnl_usd (bt_result s)"
  "bt_clock (mark_to_market env t s) = bt_clock s" "bt_fresh (mark_to_market env t s) = bt_fresh s"
  by (auto simp: mark_to_market_def on_result_def split: prod.split) (metis snd_conv)

lemma mark_to_market_kept:
  assumes "bt_inv c s"
  shows "kept c s (mark_to_market env t s)"
proof -
  obtain u where l: "bt_ledger (mark_to_market env t s) = snd (mark u None (bt_ledger s))"
    using mark_to_market_fields(1) by blast
  have maps: "map p_id (bt_positions (mark_to_market env t s)) = map p_id (bt_positions s)"
    "map p_cost_basis_usd (bt_positions (mark_to_market env t s)) =
      map p_cost_basis_usd (bt_positions s)"
    by (simp_all add: mark_to_market_fields mark_positions_snd)
  have "bt_shape (mark_to_market env t s)"
    using assms unfolding bt_inv_def bt_shape_def maps
    by (auto simp: mark_to_market_fields mark_positions_snd clock_of_def)
  moreover have "bt_books c (mark_to_market env t s)"
    using assms unfolding bt_inv_def bt_books_def bt_cost_def bt_cash_def maps
    by (simp add: l mark_to_market_fields mark_frame)
  moreover have "nothing_held (bt_ledger (mark_to_market env t s))"
    using assms by (simp add: bt_inv_def nothing_held_def l mark_frame)
  ultimately show ?thesis by (simp add: kept_def bt_inv_def mark_to_market_fields)
qed

section \<open>Entering\<close>

lemma settle_frame:
  "h_realized_today (rd_state (snd (ledger_commit rid v l))) = h_realized_today (rd_state l)"
  "h_realized_today (rd_state (snd (ledger_release rid l))) = h_realized_today (rd_state l)"
  "r \<noteq> rid \<Longrightarrow> reservation_held r (snd (ledger_commit rid v l)) = reservation_held r l"
  "r \<noteq> rid \<Longrightarrow> reservation_held r (snd (ledger_release rid l)) = reservation_held r l"
  by (auto simp: ledger_commit_def script_commit_def ledger_release_def script_release_def Let_def
      reservation_held_def split: option.split)

lemma enter_position_inv:
  assumes "bt_shape s" "bt_books (c - reserved_value rid (bt_ledger s)) s"
    and held: "reservation_held rid (bt_ledger s)"
      "\<And>r. r \<noteq> rid \<Longrightarrow> \<not> reservation_held r (bt_ledger s)"
    and new: "pid < bt_fresh s" "pid \<notin> p_id ` set (bt_positions s)" "bt_clock s \<noteq> None"
      "detected \<le> clock_of s"
  shows "kept c s (enter_position env trade detected pid order rid s)"
proof -
  define order1 where "order1 = order\<lparr>o_latency := no_latency
    \<lparr>lat_source_confirmed_at := Some (st_source_confirmed_at trade),
     lat_detected_at := Some detected,
     lat_decision_completed_at := Some (detected + ms_delta (bc_analysis_latency_ms (bx_config env)))\<rparr>\<rparr>"
  obtain ex s1 where run: "run_executor env order1 s = (ex, s1)" by force
  note frame = run_executor_frame [OF run]
  have free: "nothing_held (snd (ledger_commit rid v (bt_ledger s)))"
    "nothing_held (snd (ledger_release rid (bt_ledger s)))" for v
    using held(2) commit_held(2) [OF held(1)] release_held(2) [OF held(1)]
    unfolding nothing_held_def by (metis settle_frame(3,4))+
  show ?thesis
  proof (cases "succeeded ex \<and> 0 < ex_out_amount_raw ex")
    case True
    define p where "p = open_bt_position trade detected pid order1 ex (backtest_fee_usd (bt_executor s1))"
    have p: "p_id p = pid" "p_status p = POS_OPEN" "p_amount_raw p = ex_out_amount_raw ex"
      "p_cost_basis_usd p = ex_value_usd ex" "p_opened_at p = detected"
      by (simp_all add: p_def open_bt_position_def)
    have e: "enter_position env trade detected pid order rid s =
      on_result (\<lambda>r. r\<lparr>br_fees_usd := br_fees_usd r + backtest_fee_usd (bt_executor s1)\<rparr>)
        (s1\<lparr>bt_ledger := snd (ledger_commit rid (ex_value_usd ex) (bt_ledger s)),
            bt_positions := bt_positions s @ [p]\<rparr>)"
      using True run by (simp add: enter_position_def Let_def order1_def [symmetric] p_def frame)
    show ?thesis
      using assms True free
      by (auto simp: e kept_def bt_inv_defs on_result_def clock_of_def frame p settle_frame
          commit_held(1) [OF held(1)])
  next
    case False
    then have e: "enter_position env trade detected pid order rid s =
      s1\<lparr>bt_ledger := snd (ledger_release rid (bt_ledger s))\<rparr>"
      using run by (auto simp: enter_position_def Let_def order1_def [symmetric] frame not_le)
    show ?thesis
      using assms free
      by (auto simp: e kept_def bt_inv_defs on_result_def clock_of_def frame settle_frame
          release_held(1) [OF held(1)])
  qed
qed

section \<open>The run\<close>

lemma advance_clock_facts:
  assumes "bt_inv c s"
  shows "bt_inv c (advance_clock t s)" "bt_clock (advance_clock t s) \<noteq> None"
    "t \<le> clock_of (advance_clock t s)"
    "bt_ledger (advance_clock t s) = bt_ledger s" "bt_fresh (advance_clock t s) = bt_fresh s"
proof -
  have "bt_clock s = None \<or> clock_of s \<le> clock_of (advance_clock t s)"
    by (auto simp: advance_clock_def clock_of_def num_def split: option.split)
  moreover have "bt_positions (advance_clock t s) = bt_positions s"
    "bt_ledger (advance_clock t s) = bt_ledger s" "bt_fresh (advance_clock t s) = bt_fresh s"
    "bt_result (advance_clock t s) = bt_result s" "bt_clock (advance_clock t s) \<noteq> None"
    "t \<le> clock_of (advance_clock t s)"
    by (auto simp: advance_clock_def clock_of_def num_def split: option.split)
  ultimately show "bt_inv c (advance_clock t s)" "bt_clock (advance_clock t s) \<noteq> None"
    "t \<le> clock_of (advance_clock t s)"
    "bt_ledger (advance_clock t s) = bt_ledger s" "bt_fresh (advance_clock t s) = bt_fresh s"
    using assms by (auto simp: bt_inv_defs)
qed

lemma accrue_copyable_frame [simp]:
  "br_trades (accrue_copyable env m a b be r) = br_trades r"
  "br_realized_pnl_usd (accrue_copyable env m a b be r) = br_realized_pnl_usd r"
  by (simp_all add: accrue_copyable_def Let_def split: option.split)

lemma close_lot_frame [simp]:
  "br_trades (close_lot env be trade lot used r) = br_trades r"
  "br_realized_pnl_usd (close_lot env be trade lot used r) = br_realized_pnl_usd r"
  by (simp_all add: close_lot_def Let_def)

lemma match_lots_frame:
  "br_trades (snd (match_lots env be trade n lots r)) = br_trades r \<and>
   br_realized_pnl_usd (snd (match_lots env be trade n lots r)) = br_realized_pnl_usd r"
  by (induction lots arbitrary: n r) (simp_all add: Let_def)

lemma track_source_pnl_kept:
  assumes "bt_inv c s"
  shows "kept c s (track_source_pnl env trade s)" "bt_ledger (track_source_pnl env trade s) = bt_ledger s"
  using assms
  using match_lots_frame [of env "bt_executor s" trade]
  by (auto simp: track_source_pnl_def Let_def kept_def bt_inv_defs clock_of_def case_prod_beta)

lemma on_result_inv:
  "bt_inv c s \<Longrightarrow> br_trades (f (bt_result s)) = br_trades (bt_result s) \<Longrightarrow>
   br_realized_pnl_usd (f (bt_result s)) = br_realized_pnl_usd (bt_result s) \<Longrightarrow>
   bt_inv c (on_result f s)"
  by (auto simp: on_result_def bt_inv_defs clock_of_def)

lemma evaluate_entry_granted:
  assumes "evaluate_entry en cid oid rid (\<lambda>l. l) trade trader confs l = (Inr (d, Some order), l')"
  obtains st m w u where "l' = reserve_commit (reserve_request st m w u rid) l"
    "o_reservation_id order = Some rid"
proof -
  obtain pe where "reserve_entry (en_settings en) (en_sha256 en) (dp_now (en_data en) 3) oid rid pe l =
      ((d, Some order), l')"
    using evaluate_entry_approved [OF assms] by metis
  then show thesis
    using that ledger_reserve_granted by (metis reserve_entry_granted reservation.select_convs(2))
qed

lemma reserve_commit_facts:
  fixes st m w u rid l
  defines "l' \<equiv> reserve_commit (reserve_request st m w u rid) l"
  shows "h_cash (rd_state l') = h_cash (rd_state l) - u" "reserved_value rid l' = u"
    "h_realized_today (rd_state l') = h_realized_today (rd_state l)"
    "reservation_held rid l'" "r \<noteq> rid \<Longrightarrow> reservation_held r l' = reservation_held r l"
  by (simp_all add: l'_def reserve_commit_def reserve_request_def Let_def reserved_value_def
      reservation_held_def)

lemma approved_order_decision:
  assumes "evaluate_entry en cid oid rid (\<lambda>l. l) trade trader confs l = (Inr (d, Some order), l')"
  shows "approved d"
proof -
  obtain pe where "reserve_entry (en_settings en) (en_sha256 en) (dp_now (en_data en) 3) oid rid pe l =
      ((d, Some order), l')"
    using evaluate_entry_approved [OF assms] by metis
  then show ?thesis by (auto simp: approved_def dest!: reserve_entry_granted)
qed

lemma on_signal_inv:
  assumes "bt_inv c s" "on_signal env trade trader s = (err, s')"
  shows "bt_inv c s'"
proof -
  define detected where
    "detected = st_source_confirmed_at trade + ms_delta (bc_detection_latency_ms (bx_config env))"
  define s2 where "s2 = advance_clock detected (on_result (\<lambda>r. r\<lparr>br_signals := br_signals r + 1\<rparr>) s)"
  have s1: "bt_inv c (on_result (\<lambda>r. r\<lparr>br_signals := br_signals r + 1\<rparr>) s)"
    using assms(1) by (rule on_result_inv) simp_all
  note s2 = advance_clock_facts [OF s1, of detected, folded s2_def]
  define n where "n = bt_fresh s2"
  obtain r l where ev: "evaluate_entry (bt_engine env (clock_of s2)) n (n + 1)
      (bx_reservation_id env (n + 2)) (\<lambda>l. l) (trade\<lparr>st_detected_at := detected\<rparr>) trader []
      (bt_ledger s2) = (r, l)" by force
  define s3 where "s3 = s2\<lparr>bt_ledger := l, bt_fresh := n + 4\<rparr>"
  have signal: "on_signal env trade trader s = (case r of
      Inl e \<Rightarrow> (Some e, s3)
    | Inr (d, None) \<Rightarrow> (None, on_result (reject_signal d) s3)
    | Inr (d, Some order) \<Rightarrow>
        if \<not> approved d then (None, on_result (reject_signal d) s3)
        else case o_reservation_id order of
            None \<Rightarrow> (Some AssertionError, on_result (\<lambda>r. r\<lparr>br_approved := br_approved r + 1\<rparr>) s3)
          | Some rid \<Rightarrow> (None, enter_position env trade detected (n + 3) order rid
              (on_result (\<lambda>r. r\<lparr>br_approved := br_approved r + 1\<rparr>) s3)))"
    unfolding on_signal_def Let_def detected_def [symmetric] s2_def [symmetric] n_def [symmetric]
      ev prod.case s3_def [symmetric]
    by (simp split: sum.split option.split prod.split)
  show ?thesis
  proof (cases "\<exists>d order. r = Inr (d, Some order)")
    case False
    then have "bt_inv c s3"
      using evaluate_entry_other [OF ev] bt_inv_cong [OF _ _ _ _ _ s2(1), of s3]
      by (auto simp: s3_def n_def)
    then show ?thesis
      using False signal assms(2) on_result_inv [of c s3]
      by (auto simp: reject_signal_def split: sum.splits option.splits)
  next
    case True
    then obtain d order where r: "r = Inr (d, Some order)" by blast
    obtain st m w u where l: "l = reserve_commit (reserve_request st m w u (bx_reservation_id env (n + 2)))
        (bt_ledger s2)" and rid: "o_reservation_id order = Some (bx_reservation_id env (n + 2))"
      using evaluate_entry_granted [OF ev [unfolded r]] by metis
    have ap: "approved d" using approved_order_decision [OF ev [unfolded r]] .
    let ?s = "on_result (\<lambda>r. r\<lparr>br_approved := br_approved r + 1\<rparr>) s3"
    have "kept c ?s (enter_position env trade detected (n + 3) order (bx_reservation_id env (n + 2)) ?s)"
      using s2 by (intro enter_position_inv)
        (fastforce simp: s3_def on_result_def bt_inv_defs clock_of_def n_def l reserve_commit_facts
          nothing_held_def)+
    then show ?thesis using signal assms(2) r rid ap by (simp add: kept_def)
  qed
qed

lemma on_source_trade_inv:
  assumes "bt_inv c s" "when' = clock_of s" "on_source_trade env trade when' s = (err, s')"
  shows "bt_inv c s'"
proof -
  have s1: "bt_inv c (track_source_pnl env trade s)" "clock_of (track_source_pnl env trade s) = when'"
    using track_source_pnl_kept(1) [OF assms(1), of env trade] kept_clock assms(2)
    by (auto simp: kept_def clock_of_def)
  have "bt_inv c (mirror_exit env trade when' (track_source_pnl env trade s))"
    using mirror_exit_kept [OF s1(1) s1(2) [symmetric]] by (simp add: kept_def)
  then show ?thesis
    using assms(3) s1(1) on_signal_inv [OF s1(1)]
    by (auto simp: on_source_trade_def Let_def split: option.splits if_splits)
qed

lemma timeline_step_inv:
  assumes "bt_inv c s" "timeline_step env e s = (err, s')"
  shows "bt_inv c s'"
proof -
  define s1 where "s1 = advance_clock (fst e) s"
  have s1: "bt_inv c s1" using advance_clock_facts(1) [OF assms(1)] by (simp add: s1_def)
  obtain er s2 where ev: "(case snd e of Trade t \<Rightarrow> on_source_trade env t (clock_of s1) s1
      | Price m \<Rightarrow> (None, s1)) = (er, s2)" by force
  have s2: "bt_inv c s2"
    using ev s1 on_source_trade_inv [OF s1 refl] by (auto split: timeline_event.splits)
  have "bt_inv c (mark_to_market env t (tick_exits env (clock_of s2) s2))" for t
    using tick_exits_kept [OF s2 refl] mark_to_market_kept by (metis kept_def)
  then show ?thesis
    using assms(2) ev s2
    by (auto simp: timeline_step_def Let_def s1_def [symmetric] split: option.splits)
qed

lemma replay_inv: "replay env es s = (err, s') \<Longrightarrow> bt_inv c s \<Longrightarrow> bt_inv c s'"
  by (induction env es s rule: replay.induct)
    (auto split: prod.splits option.splits dest: timeline_step_inv)

lemma start_run_inv: "bt_inv (bc_starting_capital_usd (bx_config env)) (start_run env (backtest_init env))"
  by (simp add: start_run_def backtest_init_def bt_inv_defs bootstrap_def empty_result_def
      new_ledger_def nothing_held_def reservation_held_def trades_gross_def trades_net_def)

lemma finish_run_inv: "bt_inv c s \<Longrightarrow> bt_inv c (finish_run s)"
  unfolding finish_run_def by (rule on_result_inv) simp_all

lemma run_backtest_inv:
  assumes "run_backtest env trades = (err, s)" "trades \<noteq> []"
  shows "bt_inv (bc_starting_capital_usd (bx_config env)) s"
proof -
  define ts where "ts = sort_key st_source_confirmed_at trades"
  have "ts \<noteq> []" using assms(2) by (metis ts_def length_0_conv length_sort)
  obtain er s1 where r: "replay env (build_timeline env ts) (start_run env (backtest_init env)) = (er, s1)"
    by force
  define c where "c = bc_starting_capital_usd (bx_config env)"
  have s1: "bt_inv c s1" using replay_inv [OF r] start_run_inv by (simp add: c_def)
  define s2 where "s2 = advance_clock (fst (last (build_timeline env ts))) s1"
  have "bt_inv c s2" using advance_clock_facts(1) [OF s1] by (simp add: s2_def)
  then have "bt_inv c (mark_to_market env t (liquidate_all env (clock_of s2) s2))" for t
    using liquidate_all_kept mark_to_market_kept by (metis kept_def)
  then show ?thesis
    using assms(1) r s1 \<open>ts \<noteq> []\<close>
    by (auto simp: run_backtest_def Let_def ts_def [symmetric] s2_def [symmetric]
        c_def [symmetric] finish_run_inv split: option.splits)
qed

text \<open>
  C15. At the end of every backtest, also one that an exception ended, the books balance and say what
  the result reports.  Cash and the cost of the open positions are the starting capital and the
  results of the closed trades before their fees: the fees of entries and exits are counted in
  the result but never taken from the cash.  The ledger's loss of the day is the result of the
  whole run, which no midnight resets, and no trade closes before it opened.
\<close>

theorem backtest_books_balance:
  assumes "run_backtest env trades = (err, s)" "trades \<noteq> []"
  shows "h_cash (rd_state (bt_ledger s)) + bt_cost s =
      bc_starting_capital_usd (bx_config env) + trades_gross (br_trades (bt_result s)) \<and>
    h_realized_today (rd_state (bt_ledger s)) = br_realized_pnl_usd (bt_result s) \<and>
    br_realized_pnl_usd (bt_result s) = trades_net (br_trades (bt_result s)) \<and>
    (\<forall>t \<in> set (br_trades (bt_result s)). ct_opened_at t \<le> ct_closed_at t)"
  using run_backtest_inv [OF assms] by (simp add: bt_inv_def bt_books_def bt_cash_def)

text \<open>A run with a purchase, a mirrored sale and two price points.\<close>

definition sample_history :: token_history where
  "sample_history = \<lparr>th_mint = ''MINT'',
     th_points = [\<lparr>pp_at = - 100000000000, pp_price_usd = 150, pp_liquidity_usd = 100000\<rparr>,
       \<lparr>pp_at = 0, pp_price_usd = 150, pp_liquidity_usd = 100000\<rparr>,
       \<lparr>pp_at = 60000000, pp_price_usd = 200, pp_liquidity_usd = 100000\<rparr>],
     th_decimals = 6, th_created_at = Some (- 100000000000), th_risk_score = 15\<rparr>"

definition sample_bt_env :: bt_env where
  "sample_bt_env = \<lparr>bx_config = default_backtest_config, bx_settings = default_settings,
     bx_risk = default_risk, bx_histories = [(''MINT'', sample_history)],
     bx_traders = [''alice'' \<mapsto> sample_trader], bx_impact = default_impact (\<lambda>x y. x),
     bx_sha256 = id, bx_reservation_id = nat_text, bx_draw = (\<lambda>n. 1/2), bx_kill = None\<rparr>"

definition sample_source_sale :: source_trade where
  "sample_source_sale = sample_trade\<lparr>st_action := ACT_SELL, st_source_confirmed_at := 60000000,
     st_source_price := 4/3\<rparr>"

lemma backtest_books_balance_witness:
  "case run_backtest sample_bt_env [sample_trade, sample_source_sale] of (err, s) \<Rightarrow>
     h_cash (rd_state (bt_ledger s)) + bt_cost s = 10000 + trades_gross (br_trades (bt_result s))"
proof -
  obtain err s where r: "run_backtest sample_bt_env [sample_trade, sample_source_sale] = (err, s)" by force
  have "bc_starting_capital_usd (bx_config sample_bt_env) = 10000"
    by (simp add: sample_bt_env_def default_backtest_config_def)
  with backtest_books_balance [OF r] show ?thesis by (simp add: r)
qed

section \<open>What a run does not do\<close>

text \<open>
  A position whose token has not traded for longer than the staleness limit cannot be closed:
  the provider has no quote for it.  This holds for the liquidation at the end, too, so that the
  losers nobody trades any more never reach the list of closed trades.
\<close>

lemma stale_position_stays:
  assumes "ms_stale (bt_market env s p)" "map_of (bx_histories env) SOL_MINT = None"
  shows "bt_ledger (close_position env p t reason fraction ladder s) = bt_ledger s"
    "bt_positions (close_position env p t reason fraction ladder s) = bt_positions s"
    "bt_result (close_position env p t reason fraction ladder s) = bt_result s"
proof -
  have "historical_quote (provider_at env (clock_of s)) (p_token_mint p) SOL_MINT a = None" for a
    using assms
    by (auto simp: historical_quote_def historical_market_def bt_market_def provider_at_def
        historical_provider_def unknown_market_def Let_def split: option.splits)
  then have "backtest_execute u (bt_exit_order env n t p m reason a (historical_quote
      (provider_at env (clock_of s)) (p_token_mint p) SOL_MINT a)) be =
    (fail_execution ''no_route'' (new_execution (bt_exit_order env n t p m reason a None) ''backtest''),
     be\<lparr>be_failures := be_failures be + 1\<rparr>)" for u n m a be
    by (simp add: backtest_execute_def bt_exit_order_def)
  then show "bt_ledger (close_position env p t reason fraction ladder s) = bt_ledger s"
    "bt_positions (close_position env p t reason fraction ladder s) = bt_positions s"
    "bt_result (close_position env p t reason fraction ladder s) = bt_result s"
    by (simp_all add: close_position_def run_executor_def Let_def fail_execution_def succeeded_def)
qed

end
