(* ===== verification/Backtest_Lookahead.thy ===== *)
theory Backtest_Lookahead
  imports Backtest_Books
begin

text \<open>
  A backtest does not see the future: replayed against two worlds that agree up to a moment, it
  is in the same state at that moment.  Only the copyable counterfactual may differ, which by
  its definition looks one latency ahead and feeds into nothing but the report; \<open>hidden\<close>
  is the state without it.
\<close>

definition hide :: "backtest_result \<Rightarrow> backtest_result" where
  "hide r = r\<lparr>br_copyable_pnl_usd := 0, br_copyable_trip_returns_pct := []\<rparr>"

definition hidden :: "backtest \<Rightarrow> backtest" where
  "hidden s = on_result hide s"

definition in_world :: "token_history pydict \<Rightarrow> bt_env \<Rightarrow> bt_env" where
  "in_world hs env = env\<lparr>bx_histories := hs\<rparr>"

lemma hidden_simps [simp]:
  "bt_ledger (hidden s) = bt_ledger s" "bt_positions (hidden s) = bt_positions s"
  "bt_executor (hidden s) = bt_executor s" "bt_lots (hidden s) = bt_lots s"
  "bt_clock (hidden s) = bt_clock s" "bt_draws (hidden s) = bt_draws s"
  "bt_fresh (hidden s) = bt_fresh s" "bt_result (hidden s) = hide (bt_result s)"
  "clock_of (hidden s) = clock_of s"
  by (simp_all add: hidden_def on_result_def clock_of_def)

lemma in_world_simps [simp]:
  "bx_config (in_world hs env) = bx_config env" "bx_settings (in_world hs env) = bx_settings env"
  "bx_risk (in_world hs env) = bx_risk env" "bx_traders (in_world hs env) = bx_traders env"
  "bx_impact (in_world hs env) = bx_impact env" "bx_sha256 (in_world hs env) = bx_sha256 env"
  "bx_reservation_id (in_world hs env) = bx_reservation_id env"
  "bx_draw (in_world hs env) = bx_draw env" "bx_kill (in_world hs env) = bx_kill env"
  "bx_histories (in_world hs env) = hs"
  by (simp_all add: in_world_def)

section \<open>The report does not feed back\<close>

lemma hidden_on_result:
  "(\<And>r. hide (f r) = f (hide r)) \<Longrightarrow> hidden (on_result f s) = on_result f (hidden s)"
  by (simp add: hidden_def on_result_def)

lemma hidden_update:
  "hidden (s\<lparr>bt_ledger := l\<rparr>) = (hidden s)\<lparr>bt_ledger := l\<rparr>"
  "hidden (s\<lparr>bt_positions := ps\<rparr>) = (hidden s)\<lparr>bt_positions := ps\<rparr>"
  "hidden (s\<lparr>bt_fresh := n\<rparr>) = (hidden s)\<lparr>bt_fresh := n\<rparr>"
  "hidden (s\<lparr>bt_clock := c\<rparr>) = (hidden s)\<lparr>bt_clock := c\<rparr>"
  "hidden (s\<lparr>bt_lots := ls\<rparr>) = (hidden s)\<lparr>bt_lots := ls\<rparr>"
  "hidden (s\<lparr>bt_executor := be\<rparr>) = (hidden s)\<lparr>bt_executor := be\<rparr>"
  "hidden (s\<lparr>bt_draws := d\<rparr>) = (hidden s)\<lparr>bt_draws := d\<rparr>"
  by (simp_all add: hidden_def on_result_def)

lemma run_executor_hidden:
  "run_executor env order (hidden s) = map_prod id hidden (run_executor env order s)"
  by (simp add: run_executor_def hidden_update split: prod.split)

lemma book_exit_hidden:
  "book_exit p t reason ladder a fully x (hidden s) = hidden (book_exit p t reason ladder a fully x s)"
  by (simp add: book_exit_def Let_def hidden_on_result hidden_update hide_def pop_position_def
      put_position_def split: prod.split)

lemma bt_market_hidden [simp]: "bt_market env (hidden s) p = bt_market env s p"
  by (simp add: bt_market_def)

lemma close_position_hidden:
  "close_position env p t reason x ladder (hidden s) = hidden (close_position env p t reason x ladder s)"
  using run_executor_hidden [of env _ "s\<lparr>bt_fresh := bt_fresh s + 1\<rparr>"]
  by (simp add: close_position_def Let_def hidden_update book_exit_hidden split: prod.split)

lemma each_open_hidden:
  assumes "\<And>p s. f p (hidden s) = hidden (f p s)"
  shows "each_open f (hidden s) = hidden (each_open f s)"
proof -
  have "fold (with_open f) pids (hidden s) = hidden (fold (with_open f) pids s)" for pids
    by (induction pids arbitrary: s)
      (simp_all add: with_open_def get_position_def assms split: option.split)
  then show ?thesis by (simp add: each_open_def)
qed

lemma tick_position_hidden:
  "tick_position env t p (hidden s) = hidden (tick_position env t p s)"
  by (simp add: tick_position_def Let_def put_position_def hidden_update [symmetric]
      close_position_hidden split: option.split)

lemma loops_hidden:
  "mirror_exit env trade t (hidden s) = hidden (mirror_exit env trade t s)"
  "tick_exits env t (hidden s) = hidden (tick_exits env t s)"
  unfolding mirror_exit_def tick_exits_def
  by (rule each_open_hidden;
      simp add: mirror_position_def close_position_hidden tick_position_hidden)+

lemma mark_to_market_hidden: "mark_to_market env t (hidden s) = hidden (mark_to_market env t s)"
  by (simp add: mark_to_market_def mark_positions_def hidden_on_result hidden_update
      record_equity_def hide_def Let_def split: prod.split)

lemma advance_clock_hidden: "advance_clock t (hidden s) = hidden (advance_clock t s)"
  by (simp add: advance_clock_def hidden_update split: option.split)

lemma enter_position_hidden:
  "enter_position env trade d pid order rid (hidden s) = hidden (enter_position env trade d pid order rid s)"
proof -
  define order1 where "order1 = order\<lparr>o_latency := no_latency
    \<lparr>lat_source_confirmed_at := Some (st_source_confirmed_at trade), lat_detected_at := Some d,
     lat_decision_completed_at := Some (d + ms_delta (bc_analysis_latency_ms (bx_config env)))\<rparr>\<rparr>"
  obtain ex s1 where run: "run_executor env order1 s = (ex, s1)" by force
  then have "run_executor env order1 (hidden s) = (ex, hidden s1)" by (simp add: run_executor_hidden)
  then show ?thesis
    using run by (simp add: enter_position_def order1_def [symmetric] Let_def hidden_on_result
        hidden_update hide_def)
qed

lemma on_signal_hidden:
  "on_signal env trade trader (hidden s) = map_prod id hidden (on_signal env trade trader s)"
proof -
  have step: "on_result (\<lambda>r. r\<lparr>br_signals := br_signals r + 1\<rparr>) (hidden s) =
      hidden (on_result (\<lambda>r. r\<lparr>br_signals := br_signals r + 1\<rparr>) s)" for s
    by (rule hidden_on_result [symmetric]) (simp add: hide_def)
  have reject: "on_result (reject_signal d) (hidden s) = hidden (on_result (reject_signal d) s)" for d s
    by (rule hidden_on_result [symmetric]) (simp add: hide_def reject_signal_def)
  have approve: "on_result (\<lambda>r. r\<lparr>br_approved := br_approved r + 1\<rparr>) (hidden s) =
      hidden (on_result (\<lambda>r. r\<lparr>br_approved := br_approved r + 1\<rparr>) s)" for s
    by (rule hidden_on_result [symmetric]) (simp add: hide_def)
  show ?thesis
    unfolding on_signal_def Let_def step advance_clock_hidden
    by (simp add: hidden_update [symmetric] reject approve [simplified]
        enter_position_hidden
        split: prod.split sum.split option.split)
qed

section \<open>Two worlds with the same past\<close>

definition clock_within :: "datetime \<Rightarrow> backtest \<Rightarrow> bool" where
  "clock_within t s \<longleftrightarrow> (case bt_clock s of None \<Rightarrow> False | Some c \<Rightarrow> c \<le> t)"

lemma provider_same:
  assumes "same_past t (bx_histories env) hs" "now \<le> t"
  shows "historical_data (provider_at (in_world hs env) now) = historical_data (provider_at env now)"
  using provider_sees_no_future [OF same_past_mono [OF assms]] by (simp add: provider_at_def)

lemma provider_same_parts:
  assumes "same_past t (bx_histories env) hs" "clock_within t s"
  shows "historical_quote (provider_at (in_world hs env) (clock_of s)) =
      historical_quote (provider_at env (clock_of s))"
    "bt_market (in_world hs env) s p = bt_market env s p"
    "bt_engine (in_world hs env) (clock_of s) = bt_engine env (clock_of s)"
proof -
  have "clock_of s \<le> t" using assms(2) by (auto simp: clock_within_def clock_of_def num_def split: option.splits)
  note same = provider_same [OF assms(1) this]
  show "bt_engine (in_world hs env) (clock_of s) = bt_engine env (clock_of s)"
    by (simp add: bt_engine_def same)
  show "historical_quote (provider_at (in_world hs env) (clock_of s)) =
      historical_quote (provider_at env (clock_of s))"
    using same by (simp add: historical_data_def)
  show "bt_market (in_world hs env) s p = bt_market env s p"
    using same by (simp add: historical_data_def bt_market_def)
qed

lemma run_executor_world: "run_executor (in_world hs env) order s = run_executor env order s"
  by (simp add: run_executor_def)

lemma bt_exit_order_world: "bt_exit_order (in_world hs env) = bt_exit_order env"
  by (intro ext) (simp add: bt_exit_order_def)

lemma close_position_world:
  assumes "same_past t (bx_histories env) hs" "clock_within t s"
  shows "close_position (in_world hs env) p now reason x ladder s = close_position env p now reason x ladder s"
  unfolding close_position_def provider_same_parts [OF assms] run_executor_world bt_exit_order_world ..

lemma run_executor_clock: "run_executor env order s = (ex, s') \<Longrightarrow> bt_clock s' = bt_clock s"
  by (auto simp: run_executor_def split: prod.splits)

lemma close_position_clock [simp]: "bt_clock (close_position env p now reason x ladder s) = bt_clock s"
  by (auto simp: close_position_def Let_def book_exit_def on_result_def pop_position_def
      put_position_def split: prod.splits dest!: run_executor_clock)

lemma tick_position_clock [simp]: "bt_clock (tick_position env now p s) = bt_clock s"
  by (simp add: tick_position_def Let_def put_position_def split: option.split)

lemma each_open_world:
  assumes "\<And>p s. clock_within t s \<Longrightarrow> f' p s = f p s" "\<And>p s. bt_clock (f p s) = bt_clock s"
    and "clock_within t s"
  shows "each_open f' s = each_open f s \<and> bt_clock (each_open f s) = bt_clock s"
proof -
  have "fold (with_open f') pids s = fold (with_open f) pids s \<and>
      bt_clock (fold (with_open f) pids s) = bt_clock s" for pids
    using assms(3)
  proof (induction pids arbitrary: s)
    case (Cons pid pids)
    have "with_open f' pid s = with_open f pid s" "bt_clock (with_open f pid s) = bt_clock s"
      using assms(1) [OF Cons.prems] assms(2) by (simp_all add: with_open_def split: option.split)
    then show ?case
      using Cons.IH [of "with_open f pid s"] Cons.prems by (simp add: clock_within_def)
  qed simp
  then show ?thesis by (simp add: each_open_def)
qed

lemma tick_exits_world:
  assumes "same_past t (bx_histories env) hs" "clock_within t s"
  shows "tick_exits (in_world hs env) now s = tick_exits env now s \<and>
    bt_clock (tick_exits env now s) = bt_clock s"
  unfolding tick_exits_def
proof (rule each_open_world [OF _ _ assms(2)])
  fix p s1 assume c: "clock_within t s1"
  have "clock_within t (put_position q s1)" for q
    using c by (simp add: clock_within_def put_position_def)
  then show "tick_position (in_world hs env) now p s1 = tick_position env now p s1"
    using close_position_world [OF assms(1)]
    by (simp add: tick_position_def provider_same_parts [OF assms(1) c] Let_def split: option.split)
qed simp

lemma mirror_exit_world:
  assumes "same_past t (bx_histories env) hs" "clock_within t s"
  shows "mirror_exit (in_world hs env) trade now s = mirror_exit env trade now s \<and>
    bt_clock (mirror_exit env trade now s) = bt_clock s"
  unfolding mirror_exit_def
  by (rule each_open_world [OF _ _ assms(2)])
    (simp_all add: mirror_position_def close_position_world [OF assms(1)])

lemma mark_to_market_world:
  assumes "same_past t (bx_histories env) hs" "clock_within t s"
  shows "mark_to_market (in_world hs env) now s = mark_to_market env now s"
  by (simp add: mark_to_market_def mark_positions_def provider_same_parts [OF assms])

lemma enter_position_world:
  "enter_position (in_world hs env) trade d pid order rid s = enter_position env trade d pid order rid s"
  by (simp add: enter_position_def run_executor_world)

lemma enter_position_clock [simp]:
  "bt_clock (enter_position env trade d pid order rid s) = bt_clock s"
  by (auto simp: enter_position_def Let_def on_result_def split: prod.splits dest!: run_executor_clock)

text \<open>When the system notices a trade of the source.\<close>

definition detected_at :: "bt_env \<Rightarrow> source_trade \<Rightarrow> datetime" where
  "detected_at env trade =
     st_source_confirmed_at trade + ms_delta (bc_detection_latency_ms (bx_config env))"

lemma advance_clock_within:
  "a \<le> t \<Longrightarrow> clock_within t s \<or> bt_clock s = None \<Longrightarrow> clock_within t (advance_clock a s)"
  by (auto simp: advance_clock_def clock_within_def split: option.splits)

lemma on_signal_world:
  assumes "same_past t (bx_histories env) hs" "clock_within t s" "detected_at env trade \<le> t"
  shows "on_signal (in_world hs env) trade trader s = on_signal env trade trader s \<and>
    clock_within t (snd (on_signal env trade trader s))"
proof -
  define s1 where "s1 = advance_clock (detected_at env trade)
    (on_result (\<lambda>r. r\<lparr>br_signals := br_signals r + 1\<rparr>) s)"
  have s1: "clock_within t s1"
    unfolding s1_def using assms(2,3) by (intro advance_clock_within) (simp_all add: clock_within_def on_result_def)
  have "on_signal (in_world hs env) trade trader s = on_signal env trade trader s"
    unfolding on_signal_def Let_def in_world_simps enter_position_world
    unfolding detected_at_def [symmetric] s1_def [symmetric] provider_same_parts(3) [OF assms(1) s1] ..
  moreover have "bt_clock (snd (on_signal env trade trader s)) = bt_clock s1"
    unfolding on_signal_def Let_def
    unfolding detected_at_def [symmetric] s1_def [symmetric]
    by (simp add: on_result_def split: prod.split sum.split option.split)
  ultimately show ?thesis using s1 by (simp add: clock_within_def)
qed

section \<open>The replay\<close>

lemma match_lots_world:
  "fst (match_lots env' be trade n lots r') = fst (match_lots env be trade n lots r)"
  by (induction lots arbitrary: n r r') (simp_all add: Let_def)

lemma close_lot_world:
  assumes "hide r' = hide r"
  shows "hide (close_lot (in_world hs env) be trade lot used r') = hide (close_lot env be trade lot used r)"
proof -
  have accrue: "hide (accrue_copyable e m a b be x) = hide x" for e m a b x
    by (simp add: accrue_copyable_def hide_def Let_def split: option.split)
  show ?thesis
    using assms by (cases r; cases r') (simp add: close_lot_def Let_def accrue, simp add: hide_def)
qed

lemma match_lots_hide:
  "hide r' = hide r \<Longrightarrow>
   hide (snd (match_lots (in_world hs env) be trade n lots r')) = hide (snd (match_lots env be trade n lots r))"
  by (induction lots arbitrary: n r r') (simp_all add: Let_def close_lot_world)

lemma track_source_pnl_world:
  assumes "hidden s' = hidden s"
  shows "hidden (track_source_pnl (in_world hs env) trade s') = hidden (track_source_pnl env trade s)"
proof -
  have e: "bt_ledger s' = bt_ledger s" "bt_positions s' = bt_positions s" "bt_executor s' = bt_executor s"
    "bt_lots s' = bt_lots s" "bt_clock s' = bt_clock s" "bt_draws s' = bt_draws s"
    "bt_fresh s' = bt_fresh s" "hide (bt_result s') = hide (bt_result s)"
    using arg_cong [OF assms, of bt_ledger] arg_cong [OF assms, of bt_positions]
      arg_cong [OF assms, of bt_executor] arg_cong [OF assms, of bt_lots]
      arg_cong [OF assms, of bt_clock] arg_cong [OF assms, of bt_draws]
      arg_cong [OF assms, of bt_fresh] arg_cong [OF assms, of bt_result] by simp_all
  show ?thesis
    using e match_lots_hide [OF e(8)] match_lots_world [of "in_world hs env" _ _ _ _ "bt_result s'" env _ ]
    by (cases s; cases s')
      (auto simp: track_source_pnl_def hidden_def on_result_def Let_def case_prod_beta)
qed

lemma on_source_trade_world:
  assumes past: "same_past t (bx_histories env) hs" and clock: "clock_within t s"
    and "detected_at env trade \<le> t" and hid: "hidden s' = hidden s"
  shows "map_prod id hidden (on_source_trade (in_world hs env) trade now s') =
      map_prod id hidden (on_source_trade env trade now s)"
    "clock_within t (snd (on_source_trade env trade now s))"
proof -
  define u where "u = track_source_pnl env trade s"
  define u' where "u' = track_source_pnl (in_world hs env) trade s'"
  have hu: "hidden u' = hidden u" unfolding u_def u'_def by (rule track_source_pnl_world [OF hid])
  have "bt_clock u = bt_clock s"
    by (simp add: u_def track_source_pnl_def Let_def split: prod.split)
  then have cu: "clock_within t u" using clock by (simp add: clock_within_def)
  have ch: "clock_within t (hidden u)" using cu by (simp add: clock_within_def)
  have mirror: "hidden (mirror_exit (in_world hs env) trade now u') = hidden (mirror_exit env trade now u)"
    using mirror_exit_world [OF past ch] by (metis hu loops_hidden(1))
  have signal: "map_prod id hidden (on_signal (in_world hs env) trade trader u') =
      map_prod id hidden (on_signal env trade trader u)" for trader
    using on_signal_world [OF past ch assms(3)] by (metis hu on_signal_hidden)
  show "map_prod id hidden (on_source_trade (in_world hs env) trade now s') =
      map_prod id hidden (on_source_trade env trade now s)"
    by (simp add: on_source_trade_def Let_def u_def [symmetric] u'_def [symmetric] mirror signal hu
        split: option.split)
  have "clock_within t (mirror_exit env trade now u)"
    using mirror_exit_world [OF past cu] cu by (simp add: clock_within_def)
  then show "clock_within t (snd (on_source_trade env trade now s))"
    using on_signal_world [OF past cu assms(3)] cu
    by (simp add: on_source_trade_def Let_def u_def [symmetric] split: option.split)
qed

definition event_within :: "bt_env \<Rightarrow> datetime \<Rightarrow> datetime \<times> timeline_event \<Rightarrow> bool" where
  "event_within env t e \<longleftrightarrow> fst e \<le> t \<and>
     (case snd e of Price _ \<Rightarrow> True | Trade tr \<Rightarrow> detected_at env tr \<le> t)"

lemma timeline_step_world:
  assumes past: "same_past t (bx_histories env) hs" and e: "event_within env t e"
    and clock: "clock_within t s \<or> bt_clock s = None" and hid: "hidden s' = hidden s"
  shows "map_prod id hidden (timeline_step (in_world hs env) e s') =
      map_prod id hidden (timeline_step env e s)"
    "clock_within t (snd (timeline_step env e s))"
proof -
  define u where "u = advance_clock (fst e) s"
  define u' where "u' = advance_clock (fst e) s'"
  have hu: "hidden u' = hidden u" unfolding u_def u'_def by (metis hid advance_clock_hidden)
  have now: "clock_of u' = clock_of u" by (metis hu hidden_simps(9))
  have cu: "clock_within t u"
    unfolding u_def using e clock by (intro advance_clock_within) (simp_all add: event_within_def)
  obtain err v where ev: "(case snd e of Trade tr \<Rightarrow> on_source_trade env tr (clock_of u) u
      | Price m \<Rightarrow> (None, u)) = (err, v)" by force
  obtain err' v' where ev': "(case snd e of Trade tr \<Rightarrow> on_source_trade (in_world hs env) tr (clock_of u) u'
      | Price m \<Rightarrow> (None, u')) = (err', v')" by force
  have same: "err' = err" "hidden v' = hidden v" and cv: "clock_within t v"
    using on_source_trade_world [OF past cu _ hu] e ev ev' hu cu
    by (auto simp: event_within_def split: timeline_event.splits dest: arg_cong [of _ _ fst]) 
      (metis (no_types, lifting) fst_map_prod id_apply prod.sel snd_map_prod)+
  have cvh: "clock_within t (hidden v)" using cv by (simp add: clock_within_def)
  have nowv: "clock_of v' = clock_of v" by (metis same(2) hidden_simps(9))
  define w where "w = tick_exits env (clock_of v) v"
  define w' where "w' = tick_exits (in_world hs env) (clock_of v) v'"
  have hw: "hidden w' = hidden w"
    using tick_exits_world [OF past cvh] unfolding w_def w'_def by (metis same(2) loops_hidden(2))
  have cw: "clock_within t w" "clock_within t (hidden w)"
    using tick_exits_world [OF past cv] cv by (simp_all add: w_def clock_within_def)
  have noww: "clock_of w' = clock_of w" by (metis hw hidden_simps(9))
  have marked: "hidden (mark_to_market (in_world hs env) x w') = hidden (mark_to_market env x w)" for x
    using mark_to_market_world [OF past cw(2)] by (metis hw mark_to_market_hidden)
  show "map_prod id hidden (timeline_step (in_world hs env) e s') =
      map_prod id hidden (timeline_step env e s)"
    unfolding timeline_step_def Let_def u_def [symmetric] u'_def [symmetric] now ev ev'
    by (simp add: same nowv noww w_def [symmetric] w'_def [symmetric] marked split: option.split)
  have "bt_clock (mark_to_market env x w) = bt_clock w" for x
    by (simp add: mark_to_market_def on_result_def split: prod.split)
  then have "clock_within t (mark_to_market env x w)" for x
    using cw(1) by (simp add: clock_within_def)
  then show "clock_within t (snd (timeline_step env e s))"
    unfolding timeline_step_def Let_def u_def [symmetric] ev
    using cv by (simp add: w_def [symmetric] split: option.split)
qed

lemma replay_world:
  assumes "same_past t (bx_histories env) hs" "\<forall>e \<in> set es. event_within env t e"
    and "clock_within t s \<or> bt_clock s = None" "hidden s' = hidden s"
  shows "map_prod id hidden (replay (in_world hs env) es s') = map_prod id hidden (replay env es s)"
  using assms(2-)
proof (induction es arbitrary: s s')
  case (Cons e es)
  have e: "event_within env t e" using Cons.prems(1) by simp
  note step = timeline_step_world [OF assms(1) e Cons.prems(2,3)]
  obtain err u where u: "timeline_step env e s = (err, u)" by force
  obtain err' u' where u': "timeline_step (in_world hs env) e s' = (err', u')" by force
  have "err' = err" "hidden u' = hidden u" "clock_within t u" using step by (simp_all add: u u')
  then show ?case using Cons.IH [of u u'] Cons.prems(1) by (simp add: u u' split: option.split)
qed simp

text \<open>
  C16. The backtest does not look ahead.  Replay the same events, all noticed by a moment, in two
  worlds whose prices agree until that moment: ledger, positions, executor, clock, random draws
  and the whole result except the copyable counterfactual are the same, and so is the exception
  that ended the replay, if one did.
\<close>

theorem backtest_no_lookahead:
  assumes "same_past t (bx_histories env) hs" "\<forall>e \<in> set es. event_within env t e"
    and "replay env es (start_run env (backtest_init env)) = (err, s)"
    and "replay (in_world hs env) es
      (start_run (in_world hs env) (backtest_init (in_world hs env))) = (err', s')"
  shows "err' = err \<and> hidden s' = hidden s"
proof -
  have "bt_clock (start_run env (backtest_init env)) = None"
    "start_run (in_world hs env) (backtest_init (in_world hs env)) = start_run env (backtest_init env)"
    by (simp_all add: start_run_def backtest_init_def)
  then show ?thesis
    using replay_world [OF assms(1,2) disjI2 refl, of "start_run env (backtest_init env)"] assms(3,4)
    by simp
qed

text \<open>The sample token, which crashes instead after fifty seconds.\<close>

definition crashed_history :: token_history where
  "crashed_history = sample_history\<lparr>th_points := butlast (th_points sample_history) @
     [\<lparr>pp_at = 55000000, pp_price_usd = 1, pp_liquidity_usd = 10\<rparr>]\<rparr>"

lemma backtest_no_lookahead_witness:
  "let es = [(0, Price ''MINT''), (0, Trade sample_trade)];
       env' = in_world [(''MINT'', crashed_history)] sample_bt_env
   in hidden (snd (replay env' es (start_run env' (backtest_init env')))) =
      hidden (snd (replay sample_bt_env es (start_run sample_bt_env (backtest_init sample_bt_env))))"
proof -
  let ?es = "[(0, Price ''MINT''), (0, Trade sample_trade)]"
    and ?hs = "[(''MINT'', crashed_history)]"
  have past: "same_past 50000000 (bx_histories sample_bt_env) ?hs"
    by (simp add: same_past_def same_until_def history_ok_def sample_bt_env_def crashed_history_def
        sample_history_def)
  have within: "\<forall>e \<in> set ?es. event_within sample_bt_env 50000000 e"
    by (simp add: event_within_def detected_at_def ms_delta_def sample_bt_env_def sample_trade_def
        default_backtest_config_def)
  show ?thesis
    using backtest_no_lookahead [OF past within prod.collapse [symmetric] prod.collapse [symmetric]]
    by (simp only: Let_def)
qed

end
