(* ===== verification/Backtest_Report.thy ===== *)
theory Backtest_Report
  imports Backtest Scoring
begin

text \<open>
  \<^verbatim>\<open>BacktestResult\<close> of \<^verbatim>\<open>backtest/engine.py\<close>: the metrics of a finished run and the
  verdict on it; the FIFO matching of the source's lots and the drawdown of the equity curve
  against reference definitions.  The medians that the code takes through binary floats are exact
  here.
\<close>

section \<open>Metrics\<close>

definition ct_return_pct :: "closed_trade \<Rightarrow> pct" where
  "ct_return_pct t = (if ct_size_usd t \<noteq> 0 then ct_realized_pnl_usd t / ct_size_usd t * 100 else 0)"

definition ct_hold_seconds :: "closed_trade \<Rightarrow> int" where
  "ct_hold_seconds t = elapsed_seconds (ct_opened_at t) (ct_closed_at t)"

definition total_return_pct :: "backtest_result \<Rightarrow> pct" where
  "total_return_pct r =
     (if br_starting_equity r \<le> 0 then 0
      else (br_ending_equity r - br_starting_equity r) / br_starting_equity r * 100)"

definition win_rate_pct :: "backtest_result \<Rightarrow> pct" where
  "win_rate_pct r =
     (if br_trades r = [] then 0
      else of_nat (length (filter (\<lambda>t. 0 < ct_realized_pnl_usd t) (br_trades r)))
             / of_nat (length (br_trades r)) * 100)"

definition approval_rate_pct :: "backtest_result \<Rightarrow> pct" where
  "approval_rate_pct r =
     (if br_signals r \<noteq> 0 then of_nat (br_approved r) / of_nat (br_signals r) * 100 else 0)"

definition gains_of :: "backtest_result \<Rightarrow> usd" where
  "gains_of r = sum_list (filter (\<lambda>x. 0 < x) (map ct_realized_pnl_usd (br_trades r)))"

definition losses_of :: "backtest_result \<Rightarrow> usd" where
  "losses_of r = - sum_list (filter (\<lambda>x. x < 0) (map ct_realized_pnl_usd (br_trades r)))"

definition profit_factor :: "backtest_result \<Rightarrow> rat" where
  "profit_factor r =
     (if 0 < losses_of r then gains_of r / losses_of r
      else if gains_of r \<noteq> 0 then gains_of r else 0)"

definition expectancy_usd :: "backtest_result \<Rightarrow> usd" where
  "expectancy_usd r =
     (if br_trades r = [] then 0 else br_realized_pnl_usd r / of_nat (length (br_trades r)))"

definition edge_retention_pct :: "backtest_result \<Rightarrow> pct option" where
  "edge_retention_pct r =
     (case (median (br_source_trip_returns_pct r), median (br_copyable_trip_returns_pct r)) of
        (Some src, Some copy) \<Rightarrow> if src \<le> 0 then None else Some (copy / src * 100)
      | _ \<Rightarrow> None)"

definition sortino :: "backtest_result \<Rightarrow> rat" where
  "sortino r =
     (let rets = map ct_return_pct (br_trades r);
          downside = filter (\<lambda>x. x < 0) rets;
          dev = (if pstdev downside = 0 then 1 else pstdev downside)
      in if length rets < 3 then 0
         else if downside = [] then 99
         else quantize 3 (mean rets / dev))"

definition median_hold :: "backtest_result \<Rightarrow> int" where
  "median_hold r =
     (case median (map (\<lambda>t. of_int (ct_hold_seconds t)) (br_trades r)) of
        None \<Rightarrow> 0 | Some m \<Rightarrow> trunc_int m)"

section \<open>The verdict\<close>

datatype backtest_verdict =
    NOT_RUN_EMPTY_ROSTER
  | NOT_RUN_SAME_REASON nat reason
  | INSUFFICIENT_SAMPLE
  | NEGATIVE
  | RISKY
  | THIN
  | PROFITABLE_UNVERIFIED
  | MARGINAL pct
  | VIABLE pct

definition judge :: "backtest_result \<Rightarrow> backtest_verdict" where
  "judge r =
     (if length (br_trades r) < 20 then INSUFFICIENT_SAMPLE
      else if br_realized_pnl_usd r \<le> 0 then NEGATIVE
      else if 35 < br_max_drawdown_pct r then RISKY
      else if profit_factor r < 12/10 then THIN
      else case edge_retention_pct r of
             None \<Rightarrow> PROFITABLE_UNVERIFIED
           | Some retention \<Rightarrow>
               if retention < 20 then MARGINAL (quantize 1 retention)
               else VIABLE (quantize 1 retention))"

definition backtest_verdict_of :: "backtest_result \<Rightarrow> backtest_verdict" where
  "backtest_verdict_of r =
     (if br_trades r = [] \<and> br_signals r \<noteq> 0
        then (case max_key snd (br_rejection_reasons r) of
                Some (reason, n) \<Rightarrow>
                  if reason = R_TRADER_NOT_FOLLOWED \<and> n = br_rejected r then NOT_RUN_EMPTY_ROSTER
                  else if n = br_rejected r then NOT_RUN_SAME_REASON (br_rejected r) reason
                  else judge r
              | None \<Rightarrow> judge r)
      else judge r)"

record backtest_summary =
  bs_signals :: nat
  bs_approved :: nat
  bs_rejected :: nat
  bs_approval_rate_pct :: pct
  bs_fills :: int
  bs_failed_fills :: int
  bs_closed_trades :: nat
  bs_starting_equity :: usd
  bs_ending_equity :: usd
  bs_total_return_pct :: pct
  bs_source_pnl :: usd
  bs_copyable_pnl :: usd
  bs_realized_pnl :: usd
  bs_source_round_trips :: nat
  bs_source_return :: "pct option"
  bs_copyable_return :: "pct option"
  bs_edge_retention :: "pct option"
  bs_fees :: usd
  bs_win_rate :: pct
  bs_profit_factor :: rat
  bs_expectancy :: usd
  bs_sortino :: rat
  bs_max_drawdown :: pct
  bs_median_hold :: int
  bs_rejection_reasons :: "(reason \<times> nat) list"
  bs_exit_reasons :: "(exit_reason \<times> nat) list"
  bs_verdict :: backtest_verdict

definition summary :: "backtest_result \<Rightarrow> backtest_summary" where
  "summary r = \<lparr>bs_signals = br_signals r, bs_approved = br_approved r, bs_rejected = br_rejected r,
     bs_approval_rate_pct = quantize 2 (approval_rate_pct r), bs_fills = br_fills r,
     bs_failed_fills = br_failed_fills r, bs_closed_trades = length (br_trades r),
     bs_starting_equity = br_starting_equity r, bs_ending_equity = quantize 2 (br_ending_equity r),
     bs_total_return_pct = quantize 2 (total_return_pct r),
     bs_source_pnl = quantize 2 (br_source_pnl_usd r),
     bs_copyable_pnl = quantize 2 (br_copyable_pnl_usd r),
     bs_realized_pnl = quantize 2 (br_realized_pnl_usd r),
     bs_source_round_trips = br_source_round_trips r,
     bs_source_return = map_option (quantize 2) (median (br_source_trip_returns_pct r)),
     bs_copyable_return = map_option (quantize 2) (median (br_copyable_trip_returns_pct r)),
     bs_edge_retention = map_option (quantize 2) (edge_retention_pct r),
     bs_fees = quantize 2 (br_fees_usd r), bs_win_rate = quantize 2 (win_rate_pct r),
     bs_profit_factor = quantize 3 (profit_factor r), bs_expectancy = quantize 2 (expectancy_usd r),
     bs_sortino = sortino r, bs_max_drawdown = quantize 2 (br_max_drawdown_pct r),
     bs_median_hold = median_hold r,
     bs_rejection_reasons = sort_key (\<lambda>kv. - int (snd kv)) (br_rejection_reasons r),
     bs_exit_reasons = br_exit_reasons r, bs_verdict = backtest_verdict_of r\<rparr>"

section \<open>What a good verdict is worth\<close>

lemma gains_minus_losses: "gains_of r - losses_of r = sum_list (map ct_realized_pnl_usd (br_trades r))"
proof -
  have "sum_list (filter (\<lambda>x. 0 < x) xs) + sum_list (filter (\<lambda>x. x < 0) xs) = sum_list xs"
    for xs :: "rat list"
    by (induction xs) auto
  then show ?thesis by (simp add: gains_of_def losses_of_def)
qed

lemma losses_nonneg: "0 \<le> losses_of r"
proof -
  have "sum_list (filter (\<lambda>x. x < 0) xs) \<le> 0" for xs :: "rat list"
    by (induction xs) auto
  then show ?thesis by (simp add: losses_of_def)
qed

text \<open>
  A run is called viable exactly on at least 20 closed trades that made money after costs, with a
  drawdown of at most 35 per cent, gains of at least 1.2 times the losses, and at least a fifth
  of the source's median return kept, where the source's median trip made money.  When there was
  no losing trade, the profit factor is the gain in dollars, and the same bound asks for 1.20
  dollars.
\<close>

theorem viable_iff:
  assumes "br_realized_pnl_usd r = sum_list (map ct_realized_pnl_usd (br_trades r))"
  shows "(\<exists>x. backtest_verdict_of r = VIABLE x) \<longleftrightarrow>
    20 \<le> length (br_trades r) \<and> losses_of r < gains_of r \<and> br_max_drawdown_pct r \<le> 35 \<and>
    (if losses_of r = 0 then 12/10 \<le> gains_of r else 12/10 * losses_of r \<le> gains_of r) \<and>
    (\<exists>src copy. median (br_source_trip_returns_pct r) = Some src \<and>
       median (br_copyable_trip_returns_pct r) = Some copy \<and> 0 < src \<and> src / 5 \<le> copy)"
proof -
  have pnl: "br_realized_pnl_usd r \<le> 0 \<longleftrightarrow> gains_of r \<le> losses_of r"
    using assms gains_minus_losses [of r] by linarith
  have pf: "profit_factor r < 12/10 \<longleftrightarrow>
      \<not> (if losses_of r = 0 then 12/10 \<le> gains_of r else 12/10 * losses_of r \<le> gains_of r)"
    using losses_nonneg [of r] by (auto simp: profit_factor_def field_simps)
  have edge: "(case edge_retention_pct r of None \<Rightarrow> False | Some x \<Rightarrow> 20 \<le> x) \<longleftrightarrow>
      (\<exists>src copy. median (br_source_trip_returns_pct r) = Some src \<and>
         median (br_copyable_trip_returns_pct r) = Some copy \<and> 0 < src \<and> src / 5 \<le> copy)"
  proof -
    have "20 \<le> copy / src * 100 \<longleftrightarrow> src / 5 \<le> copy" if "0 < src" for copy src :: rat
      using that by (simp add: field_simps)
    then show ?thesis by (auto simp: edge_retention_pct_def split: option.split)
  qed
  have "(\<exists>x. backtest_verdict_of r = VIABLE x) \<longleftrightarrow> (\<exists>x. judge r = VIABLE x)"
    by (auto simp: backtest_verdict_of_def judge_def split: option.split prod.split if_splits)
  also have "\<dots> \<longleftrightarrow> 20 \<le> length (br_trades r) \<and> 0 < br_realized_pnl_usd r \<and>
      br_max_drawdown_pct r \<le> 35 \<and> 12/10 \<le> profit_factor r \<and>
      (case edge_retention_pct r of None \<Rightarrow> False | Some x \<Rightarrow> 20 \<le> x)"
    by (auto simp: judge_def not_less not_le split: option.split if_splits)
  finally show ?thesis using pnl pf edge by (auto simp: not_less not_le)
qed

text \<open>The verdict on a run without a losing trade depends on the currency.\<close>

lemma loss_free_run_is_thin:
  assumes "20 \<le> length (br_trades r)" "losses_of r = 0" "0 < br_realized_pnl_usd r"
    and "br_max_drawdown_pct r \<le> 35" "gains_of r < 12/10"
  shows "backtest_verdict_of r = THIN"
  using assms by (auto simp: backtest_verdict_of_def judge_def profit_factor_def)

text \<open>A run of twenty equal gains, of which a third of the source's edge was kept.\<close>

definition sample_closed :: closed_trade where
  "sample_closed = \<lparr>ct_mint = ''MINT'', ct_trader = ''alice'', ct_opened_at = 0,
     ct_closed_at = 60000000, ct_entry_price = 1, ct_exit_price = 11/10, ct_size_usd = 100,
     ct_realized_pnl_usd = 10, ct_fees_usd = 0, ct_exit_reason = EXIT_MIRROR\<rparr>"

definition sample_result :: backtest_result where
  "sample_result = (empty_result 10000)\<lparr>br_signals := 20, br_approved := 20,
     br_realized_pnl_usd := 200, br_trades := replicate 20 sample_closed,
     br_source_trip_returns_pct := [30, 30, 30], br_copyable_trip_returns_pct := [10, 10, 10]\<rparr>"

lemma viable_iff_witness: "\<exists>x. backtest_verdict_of sample_result = VIABLE x"
proof (rule viable_iff [THEN iffD2])
  show "br_realized_pnl_usd sample_result = sum_list (map ct_realized_pnl_usd (br_trades sample_result))"
    by (simp add: sample_result_def sample_closed_def sum_list_replicate)
  have m: "losses_of sample_result = 0" "gains_of sample_result = 200"
    "br_max_drawdown_pct sample_result = 0" "length (br_trades sample_result) = 20"
    "median (br_source_trip_returns_pct sample_result) = Some 30"
    "median (br_copyable_trip_returns_pct sample_result) = Some 10"
    by code_simp+
  show "20 \<le> length (br_trades sample_result) \<and> losses_of sample_result < gains_of sample_result \<and>
    br_max_drawdown_pct sample_result \<le> 35 \<and>
    (if losses_of sample_result = 0 then 12/10 \<le> gains_of sample_result
     else 12/10 * losses_of sample_result \<le> gains_of sample_result) \<and>
    (\<exists>src copy. median (br_source_trip_returns_pct sample_result) = Some src \<and>
       median (br_copyable_trip_returns_pct sample_result) = Some copy \<and> 0 < src \<and> src / 5 \<le> copy)"
    by (simp add: m)
qed

section \<open>The source's lots\<close>

definition lots_amount :: "source_lot list \<Rightarrow> int" where
  "lots_amount lots = sum_list (map lo_amount lots)"

definition lots_units :: "source_lot list \<Rightarrow> rat" where
  "lots_units lots = sum_list (map (\<lambda>l. raw_to_ui (lo_amount l) (lo_decimals l)) lots)"

definition lots_cost :: "source_lot list \<Rightarrow> rat" where
  "lots_cost lots = sum_list (map (\<lambda>l. raw_to_ui (lo_amount l) (lo_decimals l) * lo_price l) lots)"

lemma lots_simps [simp]:
  "lots_amount [] = 0" "lots_amount (l # ls) = lo_amount l + lots_amount ls"
  "lots_units [] = 0" "lots_units (l # ls) = raw_to_ui (lo_amount l) (lo_decimals l) + lots_units ls"
  "lots_cost [] = 0"
  "lots_cost (l # ls) = raw_to_ui (lo_amount l) (lo_decimals l) * lo_price l + lots_cost ls"
  by (simp_all add: lots_amount_def lots_units_def lots_cost_def)

lemma close_lot_pnl:
  "br_source_pnl_usd (close_lot env be trade lot used r) = br_source_pnl_usd r +
     raw_to_ui used (lo_decimals lot) * (st_source_price trade - lo_price lot) * bc_sol_price (bx_config env)"
  by (simp add: close_lot_def accrue_copyable_def Let_def split: option.split)

lemma lots_amount_nonneg: "\<forall>l \<in> set lots. 0 < lo_amount l \<Longrightarrow> 0 \<le> lots_amount lots"
  by (induction lots) auto

text \<open>
  A sale of the source uses up its oldest lots first: as much as was sold or there was, from the
  front, and all remaining lots are positive.  What the source is credited with is exactly the
  proceeds of the units that left minus what they had cost.
\<close>

theorem fifo_matching:
  assumes "match_lots env be trade n lots r = (lots', r')" "\<forall>l \<in> set lots. 0 < lo_amount l" "0 \<le> n"
  shows "lots_amount lots' = lots_amount lots - min n (lots_amount lots) \<and>
    (\<forall>l \<in> set lots'. 0 < lo_amount l) \<and>
    br_source_pnl_usd r' = br_source_pnl_usd r +
      ((lots_units lots - lots_units lots') * st_source_price trade - (lots_cost lots - lots_cost lots'))
        * bc_sol_price (bx_config env) \<and>
    (\<exists>k. lots' = drop k lots \<or>
       (\<exists>a. k < length lots \<and> a < lo_amount (lots ! k) \<and>
          lots' = (lots ! k)\<lparr>lo_amount := a\<rparr> # drop (Suc k) lots))"
  using assms
proof (induction lots arbitrary: n r)
  case (Cons lot lots)
  have pos: "0 < lo_amount lot" "\<forall>l \<in> set lots. 0 < lo_amount l" "0 \<le> lots_amount lots"
    using Cons.prems(2) lots_amount_nonneg by auto
  show ?case
  proof (cases "n \<le> 0")
    case True
    then have "lots' = lot # lots" "r' = r" "n = 0" using Cons.prems by simp_all
    then show ?thesis using pos by (auto intro: exI [of _ 0])
  next
    case more: False
    define used where "used = min n (lo_amount lot)"
    define r1 where "r1 = close_lot env be trade lot used r"
    show ?thesis
    proof (cases "n < lo_amount lot")
      case True
      then have "lots' = lot\<lparr>lo_amount := lo_amount lot - n\<rparr> # lots" "r' = r1" "used = n"
        using Cons.prems(1) more by (simp_all add: Let_def used_def r1_def min_def)
      moreover have "\<exists>k. lot\<lparr>lo_amount := lo_amount lot - n\<rparr> # lots = drop k (lot # lots) \<or>
          (\<exists>a. k < length (lot # lots) \<and> a < lo_amount ((lot # lots) ! k) \<and>
            lot\<lparr>lo_amount := lo_amount lot - n\<rparr> # lots =
              ((lot # lots) ! k)\<lparr>lo_amount := a\<rparr> # drop (Suc k) (lot # lots))"
        using more by (intro exI [of _ 0] disjI2 exI [of _ "lo_amount lot - n"]) simp
      ultimately show ?thesis
        using True more pos by (simp add: r1_def close_lot_pnl raw_to_ui_diff algebra_simps)
    next
      case False
      then have used: "used = lo_amount lot" by (simp add: used_def)
      then have rest: "match_lots env be trade (n - used) lots r1 = (lots', r')" "used = lo_amount lot"
        using Cons.prems(1) more by (simp_all add: Let_def used_def [symmetric] r1_def)
      note ih = Cons.IH [OF rest(1) pos(2)]
      have ih': "lots_amount lots' = lots_amount lots - min (n - used) (lots_amount lots)"
        "\<forall>l \<in> set lots'. 0 < lo_amount l"
        "br_source_pnl_usd r' = br_source_pnl_usd r1 +
          ((lots_units lots - lots_units lots') * st_source_price trade - (lots_cost lots - lots_cost lots'))
            * bc_sol_price (bx_config env)"
        "\<exists>k. lots' = drop k lots \<or> (\<exists>a. k < length lots \<and> a < lo_amount (lots ! k) \<and>
          lots' = (lots ! k)\<lparr>lo_amount := a\<rparr> # drop (Suc k) lots)"
        using ih False rest(2) by auto
      have "\<exists>k. lots' = drop k (lot # lots) \<or> (\<exists>a. k < length (lot # lots) \<and>
          a < lo_amount ((lot # lots) ! k) \<and>
          lots' = ((lot # lots) ! k)\<lparr>lo_amount := a\<rparr> # drop (Suc k) (lot # lots))"
        using ih'(4) by (metis Suc_less_eq drop_Suc_Cons length_Cons nth_Cons_Suc)
      then show ?thesis
        using ih'(1-3) rest(2) False
        by (auto simp: r1_def close_lot_pnl algebra_simps)
    qed
  qed
qed (auto intro: exI [of _ 0])

lemma fifo_matching_witness:
  "let lot = (\<lambda>n. \<lparr>lo_price = 1, lo_amount = n, lo_decimals = 6, lo_at = 0\<rparr>)
   in \<exists>env lots' r'. match_lots env (default_backtest_executor 150) sample_trade 8 [lot 5, lot 7]
        (empty_result 10000) = (lots', r') \<and> lots_amount lots' = 4"
proof -
  define env where "env = \<lparr>bx_config = default_backtest_config, bx_settings = default_settings,
    bx_risk = default_risk, bx_histories = [], bx_traders = Map.empty,
    bx_impact = default_impact (\<lambda>x y. x), bx_sha256 = id, bx_reservation_id = nat_text,
    bx_draw = (\<lambda>n. 1/2), bx_kill = None\<rparr>"
  define lot where "lot = (\<lambda>n. \<lparr>lo_price = 1, lo_amount = n, lo_decimals = 6, lo_at = 0\<rparr>)"
  obtain lots' r' where m: "match_lots env (default_backtest_executor 150) sample_trade 8 [lot 5, lot 7]
      (empty_result 10000) = (lots', r')" by force
  have "\<forall>l \<in> set [lot 5, lot 7]. 0 < lo_amount l" by (simp add: lot_def)
  from fifo_matching [OF m this] have "lots_amount lots' = 4" by (simp add: lot_def)
  then show ?thesis using m unfolding Let_def lot_def by blast
qed

section \<open>The drawdown\<close>

text \<open>The equity curve recorded step by step, and the largest fall from a running peak.\<close>

fun record_all :: "(datetime \<times> usd) list \<Rightarrow> backtest_result \<Rightarrow> backtest_result" where
  "record_all [] r = r"
| "record_all ((t, e) # es) r = record_all es (record_equity t e r)"

definition peak_after :: "usd \<Rightarrow> (datetime \<times> usd) list \<Rightarrow> usd" where
  "peak_after start es = Max (insert start (snd ` set es))"

definition fall_pct :: "usd \<Rightarrow> (datetime \<times> usd) list \<Rightarrow> nat \<Rightarrow> pct" where
  "fall_pct start es i =
     (peak_after start (take (Suc i) es) - snd (es ! i)) / peak_after start (take (Suc i) es) * 100"

lemma peak_after_Nil [simp]: "peak_after p [] = p"
  by (simp add: peak_after_def)

lemma peak_after_Cons [simp]: "peak_after p ((t, e) # es) = peak_after (max p e) es"
  by (cases "es = []") (simp_all add: peak_after_def max.assoc)

lemma fall_pct_Cons:
  "fall_pct p ((t, e) # es) 0 = (max p e - e) / max p e * 100"
  "fall_pct p ((t, e) # es) (Suc i) = fall_pct (max p e) es i"
  by (simp_all add: fall_pct_def)

text \<open>
  The drawdown reported after a run is the largest relative fall of a marked equity below the
  highest equity up to it, the starting capital included; and the reported peak is the highest
  equity of all.
\<close>

theorem drawdown_is_largest_fall:
  assumes "0 < br_peak_equity r" "r' = record_all es r"
  shows "br_peak_equity r' = peak_after (br_peak_equity r) es \<and>
    (\<forall>i < length es. fall_pct (br_peak_equity r) es i \<le> br_max_drawdown_pct r') \<and>
    br_max_drawdown_pct r \<le> br_max_drawdown_pct r' \<and>
    (br_max_drawdown_pct r' = br_max_drawdown_pct r \<or>
     (\<exists>i < length es. br_max_drawdown_pct r' = fall_pct (br_peak_equity r) es i))"
  using assms
proof (induction es arbitrary: r)
  case (Cons x es)
  obtain t e where x: "x = (t, e)" by force
  let ?r = "record_equity t e r" and ?p = "max (br_peak_equity r) e"
  have peak: "br_peak_equity ?r = ?p" "0 < ?p"
    and dd: "br_max_drawdown_pct ?r = max (br_max_drawdown_pct r) ((?p - e) / ?p * 100)"
    using Cons.prems(1) by (auto simp: record_equity_def Let_def less_max_iff_disj)
  have ih: "br_peak_equity r' = peak_after ?p es"
    "\<forall>i < length es. fall_pct ?p es i \<le> br_max_drawdown_pct r'"
    "br_max_drawdown_pct ?r \<le> br_max_drawdown_pct r'"
    "br_max_drawdown_pct r' = br_max_drawdown_pct ?r \<or>
     (\<exists>i < length es. br_max_drawdown_pct r' = fall_pct ?p es i)"
    using Cons.IH [of ?r] Cons.prems(2) peak by (simp_all add: x)
  have "fall_pct (br_peak_equity r) (x # es) i \<le> br_max_drawdown_pct r'" if "i < length (x # es)" for i
    using that ih(2,3) dd by (cases i) (auto simp: x fall_pct_Cons)
  moreover have "br_max_drawdown_pct r' = br_max_drawdown_pct r \<or>
      (\<exists>i < length (x # es). br_max_drawdown_pct r' = fall_pct (br_peak_equity r) (x # es) i)"
    using ih(4) dd
    by (auto simp: x fall_pct_Cons max_def split: if_splits intro: exI [of _ 0])
  ultimately show ?case using ih(1,3) dd by (simp add: x)
qed simp

lemma drawdown_is_largest_fall_witness:
  "br_peak_equity (record_all [(0, 100), (60, 50)] (empty_result 80)) = 100 \<and>
   50 \<le> br_max_drawdown_pct (record_all [(0, 100), (60, 50)] (empty_result 80))"
proof -
  let ?es = "[(0, 100), (60, 50)] :: (datetime \<times> usd) list"
  have "0 < br_peak_equity (empty_result 80)" by (simp add: empty_result_def)
  note d = drawdown_is_largest_fall [OF this refl, of ?es]
  have "fall_pct (br_peak_equity (empty_result 80)) ?es 1 \<le>
      br_max_drawdown_pct (record_all ?es (empty_result 80))"
    using d [THEN conjunct2, THEN conjunct1, rule_format, of 1] by simp
  moreover have "fall_pct (br_peak_equity (empty_result 80)) ?es 1 = 50"
    "peak_after (br_peak_equity (empty_result 80)) ?es = 100"
    by (simp_all add: empty_result_def fall_pct_def)
  ultimately show ?thesis using d [THEN conjunct1] by simp
qed

end
