(* ===== verification/Control_Routes.thy ===== *)
theory Control_Routes
  imports Live_Execution Position_Books
begin

text \<open>
  The control routes of \<^verbatim>\<open>services/api/routes/system.py\<close> and the job they queue,
  \<^verbatim>\<open>services/tasks/emergency.py\<close>: start, stop, pause, resume, the kill switch and the
  liquidation of every open position.  A route returns its status code; the names of the jobs it
  queues are part of its answer.  The routes require a token (theory Sessions).
\<close>

section \<open>The routes\<close>

definition audited :: "string \<Rightarrow> 'x world \<Rightarrow> 'x world" where
  "audited act w = w\<lparr>w_db := repo_log_audit ''api'' act (w_db w)\<rparr>"

definition route_start :: "'x world \<Rightarrow> nat \<times> 'x world" where
  "route_start w =
     (case control_start (w_ledger w) of
        Inl e \<Rightarrow> (409, w)
      | Inr (s, l) \<Rightarrow> (200, audited ''system_start'' (w\<lparr>w_ledger := l\<rparr>)))"

definition route_stop :: "'x world \<Rightarrow> nat \<times> 'x world" where
  "route_stop w = (200, audited ''system_stop'' (w\<lparr>w_ledger := snd (control_stop (w_ledger w))\<rparr>))"

definition route_pause :: "bool \<Rightarrow> 'x world \<Rightarrow> nat \<times> 'x world" where
  "route_pause hard w =
     (200, audited ''system_pause''
        (w\<lparr>w_ledger := control_set (if hard then SYS_HARD_PAUSED else SYS_SOFT_PAUSED) (w_ledger w)\<rparr>))"

definition route_resume :: "'x world \<Rightarrow> nat \<times> 'x world" where
  "route_resume w =
     (if control_get (w_ledger w) = SYS_KILLED then (409, w)
      else (200, audited ''system_resume'' (w\<lparr>w_ledger := control_set SYS_RUNNING (w_ledger w)\<rparr>)))"

definition route_emergency_stop :: "bool \<Rightarrow> 'x world \<Rightarrow> nat \<times> string list \<times> 'x world" where
  "route_emergency_stop exit_positions w =
     (let w1 = w\<lparr>w_ledger := control_kill (w_ledger w)\<rparr>;
          w2 = w1\<lparr>w_db := log_risk_event ''EMERGENCY_STOP'' ''critical'' (w_db w1)\<rparr>
      in (200, if exit_positions then [''emergency_exit_all''] else [], audited ''emergency_stop'' w2))"

definition route_clear_kill :: "string \<Rightarrow> 'x world \<Rightarrow> nat \<times> 'x world" where
  "route_clear_kill confirm w =
     (if confirm \<noteq> ''I understand the risk'' then (400, w)
      else (200, audited ''clear_kill_switch'' (w\<lparr>w_ledger := control_clear_kill (w_ledger w)\<rparr>)))"

section \<open>Closing one position\<close>

definition EMERGENCY_SLIPPAGE_BPS :: int where "EMERGENCY_SLIPPAGE_BPS = 1500"

definition emergency_key :: "nat \<Rightarrow> int \<Rightarrow> string" where
  "emergency_key pid amount_raw = ''emergency:'' @ uuid_text pid @ '':'' @ int_text amount_raw"

definition emergency_source :: "datetime \<Rightarrow> position \<Rightarrow> market_state \<Rightarrow> source_trade" where
  "emergency_source now p market =
     (synthetic_source now p market)\<lparr>st_signature := ''emergency-'' @ take 12 (id_hex16 (p_id p))\<rparr>"

definition emergency_order ::
    "nat \<Rightarrow> datetime \<Rightarrow> position \<Rightarrow> market_state \<Rightarrow> approved_order" where
  "emergency_order oid now p market =
     \<lparr>o_id = oid, o_idempotency_key = emergency_key (p_id p) (p_amount_raw p),
      o_candidate = \<lparr>c_id = oid, c_source_trade = emergency_source now p market,
        c_trader = synthetic_trader p, c_market = market, c_token_risk = None, c_quote = None,
        c_confirmations = [], c_created_at = now\<rparr>,
      o_action = ACT_SELL, o_input_mint = p_token_mint p, o_output_mint = SOL_MINT,
      o_in_amount_raw = p_amount_raw p,
      o_size_usd = raw_to_ui (p_amount_raw p) (p_decimals p) * ms_price_usd market,
      o_slippage_bps = EMERGENCY_SLIPPAGE_BPS, o_position_id = Some (p_id p),
      o_exit_reason = Some EXIT_EMERGENCY, o_reservation_id = None, o_latency = no_latency\<rparr>"

definition settle_force ::
    "datetime \<Rightarrow> position \<Rightarrow> market_state \<Rightarrow> execution \<Rightarrow> 'x world \<Rightarrow> (py_error + bool) \<times> 'x world" where
  "settle_force now p market ex w =
     (let exit_price = (if ex_actual_price ex = 0 then ms_price_usd market else ex_actual_price ex);
          (proceeds, pnl) = realized_pnl p (p_amount_raw p) exit_price
      in case reduce_position (p_id p) ex now (p_amount_raw p) proceeds pnl
                (exit_reason_value EXIT_EMERGENCY) True None (save_execution ex (w_db w)) of
           Inl e \<Rightarrow> (Inl e, w)
         | Inr d \<Rightarrow>
             (Inr True, publish_on EV_POSITION_CLOSED (p_trader_wallet p)
                (w\<lparr>w_db := d,
                   w_ledger := release_position (p_token_mint p) (p_trader_wallet p)
                     (proceeds - pnl) pnl proceeds True (w_ledger w)\<rparr>)))"

definition force_close ::
    "settings \<Rightarrow> 'x executor \<Rightarrow> exit_env \<Rightarrow> position \<Rightarrow> 'x world \<Rightarrow> (py_error + bool) \<times> 'x world" where
  "force_close st run env p w =
     (case xe_market env p of
        Inl e \<Rightarrow> (Inl e, w)
      | Inr market \<Rightarrow>
          if p_amount_raw p \<le> 0 then (Inr True, w)
          else case save_order st (emergency_order (xe_order_id env (p_id p)) (xe_now env) p market)
                      (w_db w) of
            (order, d) \<Rightarrow>
              (case run order (w_exec w) of
                 (Inl e, x) \<Rightarrow> (Inl e, w\<lparr>w_db := d, w_exec := x\<rparr>)
               | (Inr ex, x) \<Rightarrow>
                   let w1 = w\<lparr>w_db := d, w_exec := x\<rparr>
                   in if \<not> succeeded ex then (Inr False, w1\<lparr>w_db := save_execution ex d\<rparr>)
                      else settle_force (xe_now env) p market ex w1))"

section \<open>Closing them all\<close>

text \<open>Closed and failed positions; an exception counts as a failure and the loop goes on.\<close>

fun force_close_all ::
    "settings \<Rightarrow> 'x executor \<Rightarrow> exit_env \<Rightarrow> position list \<Rightarrow> 'x world \<Rightarrow>
       position list \<times> position list \<times> 'x world" where
  "force_close_all st run env [] w = ([], [], w)"
| "force_close_all st run env (p # ps) w =
     (case force_close st run env p w of
        (res, w1) \<Rightarrow>
          case force_close_all st run env ps w1 of
            (done_ps, failed, w2) \<Rightarrow>
              if res = Inr True then (p # done_ps, failed, w2) else (done_ps, p # failed, w2))"

definition emergency_exit_all ::
    "settings \<Rightarrow> 'x executor \<Rightarrow> exit_env \<Rightarrow> 'x world \<Rightarrow> (nat \<times> nat \<times> nat list) \<times> 'x world" where
  "emergency_exit_all st run env w =
     (let positions = open_position_rows (mode_value (mode_setting st)) (w_db w)
      in if positions = [] then ((0, 0, []), w)
         else case force_close_all st run env positions w of
           (done_ps, failed, w1) \<Rightarrow>
             let d1 = log_risk_event ''EMERGENCY_EXIT'' ''critical'' (w_db w1);
                 d2 = (if failed = [] then d1 else add_alert ''critical'' ''risk'' d1)
             in ((length done_ps, length failed, map p_id failed), w1\<lparr>w_db := d2\<rparr>))"

section \<open>The books of an emergency exit\<close>

lemma save_order_same: "save_order st order d = (order', d') \<Longrightarrow> same_books d d'"
  using same_books_log(4) [of d st order] by simp

text \<open>A position either leaves the books closed, or its row is what it was.\<close>

definition row_of :: "nat \<Rightarrow> database \<Rightarrow> position list" where
  "row_of i d = filter (\<lambda>r. p_id r = i) (db_positions d)"

lemma same_books_rows: "same_books d d' \<Longrightarrow> row_of i d' = row_of i d"
  by (simp add: same_books_def row_of_def)

lemma filter_update_where:
  "(\<And>r. Q (f r) = Q r) \<Longrightarrow> filter Q (update_where c f xs) = update_where c f (filter Q xs)"
  by (induction xs) (auto simp: update_where_def)

lemma reduce_position_rows:
  assumes "reduce_position pid ex now a pr re rs True lad d = Inr d'"
  shows "i \<noteq> pid \<Longrightarrow> row_of i d' = row_of i d"
    and "\<forall>r \<in> set (row_of pid d'). p_status r = POS_CLOSED \<and> p_amount_raw r = 0"
proof -
  have d': "db_positions d' = update_where (\<lambda>r. p_id r = pid)
      (reduce_row ex now a pr re True lad) (db_positions d)"
    using assms by (auto simp: reduce_position_def split: if_splits)
  have "row_of i d' = update_where (\<lambda>r. p_id r = pid) (reduce_row ex now a pr re True lad) (row_of i d)"
    for i unfolding row_of_def d' by (rule filter_update_where) simp
  then show "i \<noteq> pid \<Longrightarrow> row_of i d' = row_of i d"
    and "\<forall>r \<in> set (row_of pid d'). p_status r = POS_CLOSED \<and> p_amount_raw r = 0"
    by (auto simp: update_where_def row_of_def reduce_row_def Let_def split: option.splits intro!: map_idI)
qed

lemma settle_force_books:
  assumes "settle_force now p market ex w = (res, w')"
    and "projection_ok (w_db w)" "synced m (w_db w) p" "0 < p_amount_raw p"
  shows "books_kept m (p_id p) w w'"
    and "i \<noteq> p_id p \<or> res \<noteq> Inr True \<Longrightarrow> row_of i (w_db w') = row_of i (w_db w)"
    and "res = Inr True \<Longrightarrow> \<forall>r \<in> set (row_of (p_id p) (w_db w')). p_status r = POS_CLOSED \<and> p_amount_raw r = 0"
proof -
  obtain pr pnl where x: "realized_pnl p (p_amount_raw p)
      (if ex_actual_price ex = 0 then ms_price_usd market else ex_actual_price ex) = (pr, pnl)"
    by (metis surj_pair)
  define d where "d = save_execution ex (w_db w)"
  have same: "same_books (w_db w) d" by (simp add: d_def)
  have ok: "projection_ok d" and sy: "synced m d p"
    using projection_ok_cong [OF same] synced_cong [OF same] assms(2,3) by auto
  have full: "pr - pnl = p_cost_basis_usd p" using realized_pnl_cost [OF x assms(4)] by simp
  let ?red = "reduce_position (p_id p) ex now (p_amount_raw p) pr pnl
      (exit_reason_value EXIT_EMERGENCY) True None d"
  consider (failed) "w' = w" "res \<noteq> Inr True" | (closed) d' where "?red = Inr d'" "res = Inr True"
      "w_db w' = d'"
      "w_ledger w' = release_position (p_token_mint p) (p_trader_wallet p) (pr - pnl) pnl pr True (w_ledger w)"
    using assms(1) x by (auto simp: settle_force_def d_def [symmetric] publish_on_def Let_def split: sum.splits)
  note cases = this
  show "books_kept m (p_id p) w w'"
  proof (cases rule: cases)
    case failed
    then show ?thesis using assms(2) by (simp add: books_kept_same)
  next
    case closed
    note books = reduce_position_books [OF closed(1) ok sy, of]
    have "open_cost m (w_db w) = open_cost m d" "realized_total m (w_db w) = realized_total m d"
      using same by (simp_all add: open_cost_sum realized_total_sum same_books_def)
    then show ?thesis
      using books full closed(3,4) synced_cong [OF same]
      by (auto simp: books_kept_def books_value_def release_position_cash)
  qed
  show "i \<noteq> p_id p \<or> res \<noteq> Inr True \<Longrightarrow> row_of i (w_db w') = row_of i (w_db w)"
    by (cases rule: cases) (use reduce_position_rows(1) same_books_rows [OF same] in auto)
  show "res = Inr True \<Longrightarrow> \<forall>r \<in> set (row_of (p_id p) (w_db w')). p_status r = POS_CLOSED \<and> p_amount_raw r = 0"
    by (cases rule: cases) (use reduce_position_rows(2) in auto)
qed

definition row_closed :: "nat \<Rightarrow> database \<Rightarrow> bool" where
  "row_closed i d \<longleftrightarrow> (\<forall>r \<in> set (row_of i d). p_status r = POS_CLOSED \<and> p_amount_raw r = 0)"

lemma force_close_books:
  assumes "force_close st run env p w = (res, w')"
    and "projection_ok (w_db w)" "synced m (w_db w) p"
  shows "books_kept m (p_id p) w w' \<and>
    (\<forall>i. i \<noteq> p_id p \<or> res \<noteq> Inr True \<longrightarrow> row_of i (w_db w') = row_of i (w_db w)) \<and>
    (res = Inr True \<longrightarrow> p_amount_raw p \<le> 0 \<or> row_closed (p_id p) (w_db w'))"
proof (cases "(\<exists>e. xe_market env p = Inl e) \<or> p_amount_raw p \<le> 0")
  case True
  then have "w' = w" "res = Inr True \<Longrightarrow> p_amount_raw p \<le> 0"
    using assms(1) by (auto simp: force_close_def split: sum.splits if_splits)
  then show ?thesis using assms(2) by (auto simp: books_kept_same)
next
  case False
  then obtain market where market: "xe_market env p = Inr market" by (metis sum.exhaust)
  have pos: "0 < p_amount_raw p" using False by simp
  obtain order d where sv: "save_order st (emergency_order (xe_order_id env (p_id p)) (xe_now env) p
      market) (w_db w) = (order, d)" by force
  obtain rx x where rn: "run order (w_exec w) = (rx, x)" by force
  define w1 where "w1 = w\<lparr>w_db := d, w_exec := x\<rparr>"
  have same: "same_books (w_db w) (w_db w1)" using save_order_same [OF sv] by (simp add: w1_def)
  have ok: "projection_ok (w_db w1)" "synced m (w_db w1) p"
    using projection_ok_cong [OF same] synced_cong [OF same] assms(2,3) by auto
  have k1: "books_kept m (p_id p) w w1"
    by (rule books_kept_same [OF same assms(2)]) (simp add: w1_def)
  show ?thesis
  proof (cases "\<exists>ex. rx = Inr ex \<and> succeeded ex")
    case True
    then obtain ex where ex: "rx = Inr ex" "succeeded ex" by blast
    have sf: "settle_force (xe_now env) p market ex w1 = (res, w')"
      using assms(1) market pos sv rn ex by (simp add: force_close_def Let_def w1_def)
    note books = settle_force_books [OF sf ok pos]
    have "books_kept m (p_id p) w w'" by (rule books_kept_trans [OF k1 books(1)])
    then show ?thesis
      using books(2,3) same_books_rows [OF same] by (auto simp: row_closed_def)
  next
    case False
    then have "same_books (w_db w1) (w_db w') \<and> w_ledger w' = w_ledger w1 \<and> res \<noteq> Inr True"
      using assms(1) market pos sv rn by (auto simp: force_close_def Let_def w1_def split: sum.splits)
    moreover from this have "books_kept m (p_id p) w1 w'"
      using ok(1) by (intro books_kept_same) auto
    ultimately show ?thesis
      using books_kept_trans [OF k1] same_books_rows [OF same] same_books_rows by metis
  qed
qed

lemma force_close_all_books:
  assumes "force_close_all st run env ps w = (closed_ps, failed_ps, w')"
    and "projection_ok (w_db w)" "\<And>p. p \<in> set ps \<Longrightarrow> synced m (w_db w) p" "distinct (map p_id ps)"
  shows "projection_ok (w_db w') \<and> books_value m w' = books_value m w \<and>
    length closed_ps + length failed_ps = length ps \<and> set closed_ps \<union> set failed_ps = set ps \<and>
    (\<forall>p \<in> set closed_ps. p_amount_raw p \<le> 0 \<or> row_closed (p_id p) (w_db w')) \<and>
    (\<forall>p \<in> set failed_ps. row_of (p_id p) (w_db w') = row_of (p_id p) (w_db w)) \<and>
    (\<forall>i. i \<notin> p_id ` set ps \<longrightarrow> row_of i (w_db w') = row_of i (w_db w))"
  using assms
proof (induction ps arbitrary: w closed_ps failed_ps w')
  case (Cons p ps)
  obtain res w1 where f: "force_close st run env p w = (res, w1)" by force
  obtain cs fs w2 where r: "force_close_all st run env ps w1 = (cs, fs, w2)" by (metis surj_pair)
  have sy: "synced m (w_db w) p" using Cons.prems(3) by simp
  note step = force_close_books [OF f Cons.prems(2) sy]
  have new: "p_id p \<notin> p_id ` set ps" and dist: "distinct (map p_id ps)" using Cons.prems(4) by auto
  have "synced m (w_db w1) q" if "q \<in> set ps" for q
  proof -
    have "p_id q \<noteq> p_id p" using that new by (metis imageI)
    then show ?thesis using step Cons.prems(3) that by (simp add: books_kept_def)
  qed
  note ih = Cons.IH [OF r _ this dist]
  have ok: "projection_ok (w_db w1)" using step by (simp add: books_kept_def)
  have same_p: "row_of (p_id p) (w_db w2) = row_of (p_id p) (w_db w1)" using ih [OF ok] new by blast
  have same_q: "row_of (p_id q) (w_db w1) = row_of (p_id q) (w_db w)" if "q \<in> set ps" for q
    using step new that by (metis imageI)
  have parts: "set cs \<union> set fs = set ps" using ih [OF ok] by blast
  have rest: "projection_ok (w_db w2) \<and> books_value m w2 = books_value m w \<and>
      (\<forall>q \<in> set cs. p_amount_raw q \<le> 0 \<or> row_closed (p_id q) (w_db w2)) \<and>
      (\<forall>q \<in> set fs. row_of (p_id q) (w_db w2) = row_of (p_id q) (w_db w)) \<and>
      (\<forall>i. i \<notin> insert (p_id p) (p_id ` set ps) \<longrightarrow> row_of i (w_db w2) = row_of i (w_db w))"
    using ih [OF ok] step same_q parts by (auto simp: books_kept_def)
  have len: "length cs + length fs = length ps" using ih [OF ok] by blast
  show ?case
  proof (cases "res = Inr True")
    case True
    then have eqs: "closed_ps = p # cs" "failed_ps = fs" "w' = w2"
      using Cons.prems(1) f r by (simp_all split: if_splits)
    show ?thesis using rest len parts step True same_p unfolding eqs row_closed_def by auto
  next
    case False
    then have eqs: "closed_ps = cs" "failed_ps = p # fs" "w' = w2"
      using Cons.prems(1) f r by (simp_all split: if_splits)
    show ?thesis using rest len parts step False same_p unfolding eqs by auto
  qed
qed simp


definition emergency_fill :: "unit executor" where
  "emergency_fill order x = (Inr ((new_execution order ''paper'')\<lparr>ex_status := ORD_CONFIRMED,
     ex_actual_price := 75, ex_value_usd := 75\<rparr>), x)"

lemma sample_world_open: "map p_id (open_position_rows ''paper'' (w_db (sample_world x))) = [7]"
  by (simp add: sample_world_def open_position_rows_def is_open_row_def open_position_def
      empty_database_def default_settings_def)


section \<open>Killed, and therefore stuck\<close>

definition live_runner :: "settings \<Rightarrow> (approved_order \<Rightarrow> live_env) \<Rightarrow> live_state executor" where
  "live_runner st env order s = live_execute st (env order) order s"

lemma unsigned_never_fills:
  assumes "live_execute st env order s = (r, s')" "\<And>tx n signed. le_sign env tx n \<noteq> Signed signed"
  shows "lx_broadcasts s' = lx_broadcasts s \<and> (\<forall>ex. r = Inr ex \<longrightarrow> \<not> succeeded ex)"
  using assms prepare_status [of st env order "new_execution order ''live''"]
  by (auto simp: live_execute_def Let_def succeeded_def fail_execution_def
      split: prod.splits bool.splits sum.splits option.splits sign_answer.splits)

lemma force_close_unsigned:
  assumes "force_close st (live_runner st env) xe p w = (res, w')" "0 < p_amount_raw p"
    and "\<And>order tx n signed. le_sign (env order) tx n \<noteq> Signed signed"
  shows "res \<noteq> Inr True \<and> lx_broadcasts (w_exec w') = lx_broadcasts (w_exec w)"
proof -
  have unsigned: "lx_broadcasts s' = lx_broadcasts s \<and> (\<forall>ex. r = Inr ex \<longrightarrow> \<not> succeeded ex)"
    if "live_execute st (env order) order s = (r, s')" for order s r s'
    using unsigned_never_fills [OF that assms(3)] .
  show ?thesis
  proof (cases "xe_market xe p")
    case (Inr market)
    obtain order d where sv: "save_order st (emergency_order (xe_order_id xe (p_id p)) (xe_now xe) p
        market) (w_db w) = (order, d)" by force
    obtain r x where rn: "live_execute st (env order) order (w_exec w) = (r, x)" by force
    show ?thesis using assms(1,2) Inr sv rn unsigned [OF rn]
      by (cases r) (auto simp: force_close_def live_runner_def Let_def)
  qed (use assms(1) in \<open>auto simp: force_close_def\<close>)
qed

lemma force_close_all_unsigned:
  assumes "force_close_all st (live_runner st env) xe ps w = (closed_ps, failed_ps, w')"
    and "\<And>order tx n signed. le_sign (env order) tx n \<noteq> Signed signed"
    and "\<forall>p \<in> set ps. 0 < p_amount_raw p"
  shows "closed_ps = [] \<and> lx_broadcasts (w_exec w') = lx_broadcasts (w_exec w)"
  using assms(1,3)
proof (induction ps arbitrary: w closed_ps failed_ps w')
  case (Cons p ps)
  obtain res w1 where f: "force_close st (live_runner st env) xe p w = (res, w1)" by force
  obtain cs fs w2 where r: "force_close_all st (live_runner st env) xe ps w1 = (cs, fs, w2)"
    by (metis surj_pair)
  show ?case
    using force_close_unsigned [OF f _ assms(2)] Cons.IH [OF r] Cons.prems f r
    by (auto split: if_splits)
qed simp

text \<open>
  The emergency stop kills first and then asks for the exits.  The signer reads the kill switch
  itself, so in live trading the job it queues closes nothing: every open position is reported
  as failed, nothing is broadcast, until an operator clears the kill switch.
\<close>

theorem killed_emergency_exit_closes_nothing:
  assumes "route_emergency_stop True w = (code, jobs, w1)"
    and "emergency_exit_all st (live_runner st env) xe w1 = ((n_closed, n_failed, errors), w2)"
    and "\<And>order tx n. le_sign (env order) tx n = local_sign decode key_sign now r tx n"
    and "kv_get now KILL_SWITCH_KEY r = rd_kill (w_ledger w1)"
    and "\<forall>p \<in> set (open_position_rows (mode_value (mode_setting st)) (w_db w1)). 0 < p_amount_raw p"
  shows "jobs = [''emergency_exit_all''] \<and> n_closed = 0 \<and>
    n_failed = length (open_position_rows (mode_value (mode_setting st)) (w_db w)) \<and>
    lx_broadcasts (w_exec w2) = lx_broadcasts (w_exec w)"
proof -
  have w1: "rd_kill (w_ledger w1) = Some ''1''" "db_positions (w_db w1) = db_positions (w_db w)"
    "w_exec w1 = w_exec w" "jobs = [''emergency_exit_all'']"
    using assms(1) by (auto simp: route_emergency_stop_def control_kill_def control_set_def
        audited_def repo_log_audit_def log_risk_event_def Let_def)
  have unsigned: "le_sign (env order) tx n \<noteq> Signed signed" for order tx n signed
    using assms(3,4) w1(1) by (simp add: local_sign_Signed may_trade_state_def truthy_def)
  define ps where "ps = open_position_rows (mode_value (mode_setting st)) (w_db w1)"
  obtain cs fs w3 where f: "force_close_all st (live_runner st env) xe ps w1 = (cs, fs, w3)"
    by (metis surj_pair)
  note none = force_close_all_unsigned [OF f unsigned]
  have len: "length cs + length fs = length ps"
    if "force_close_all st (live_runner st env) xe ps w = (cs, fs, w3)" for ps w cs fs w3
    using that by (induction ps arbitrary: w cs fs w3) (auto split: prod.splits if_splits)
  have "open_position_rows (mode_value (mode_setting st)) (w_db w) = ps"
    by (simp add: ps_def open_position_rows_def w1(2))
  then show ?thesis
    using assms(2,5) none len [OF f] f w1(3,4)
    by (auto simp: emergency_exit_all_def Let_def ps_def [symmetric] split: if_splits)
qed

definition killed_kv :: kv where
  "killed_kv = [KILL_SWITCH_KEY \<mapsto> (''1'', None)]"

definition live_settings :: settings where
  "live_settings = default_settings\<lparr>mode_setting := MODE_LIVE\<rparr>"

definition live_world :: "live_state world" where
  "live_world = (sample_world empty_live)\<lparr>w_db := open_position live_settings 7 0 ''MINT'' ''alice''
     sample_fill 6 None empty_database\<rparr>"

lemma killed_emergency_exit_closes_nothing_witness:
  "\<exists>errors w2. emergency_exit_all live_settings
      (live_runner live_settings (\<lambda>order. sample_env\<lparr>le_sign := local_sign (\<lambda>tx. None) id 0 killed_kv\<rparr>))
      crash_env (snd (snd (route_emergency_stop True live_world))) = ((0, 1, errors), w2) \<and>
    lx_broadcasts (w_exec w2) = []"
proof -
  define run where "run = live_runner live_settings
    (\<lambda>order. sample_env\<lparr>le_sign := local_sign (\<lambda>tx. None) id 0 killed_kv\<rparr>)"
  obtain code jobs w1 where stop: "route_emergency_stop True live_world = (code, jobs, w1)"
    by (metis surj_pair)
  obtain c f e w2 where out: "emergency_exit_all live_settings run crash_env w1 = ((c, f, e), w2)"
    by (metis surj_pair)
  have w1: "db_positions (w_db w1) = db_positions (w_db live_world)" "rd_kill (w_ledger w1) = Some ''1''"
    using stop by (auto simp: route_emergency_stop_def audited_def repo_log_audit_def
        log_risk_event_def Let_def control_kill_def control_set_def)
  define p where "p = hd (db_positions (w_db live_world))"
  have pos: "db_positions (w_db live_world) = [p]" "0 < p_amount_raw p" "p_mode p = ''live''"
      "p_status p = POS_OPEN"
    by (simp_all add: p_def live_world_def open_position_def empty_database_def sample_fill_def
        live_settings_def)
  have m: "mode_value (mode_setting live_settings) = ''live''" by (simp add: live_settings_def)
  have rows: "open_position_rows ''live'' (w_db live_world) = [p]"
      "open_position_rows ''live'' (w_db w1) = [p]"
    using pos by (simp_all add: open_position_rows_def is_open_row_def w1(1))
  have "c = 0 \<and> f = 1 \<and> lx_broadcasts (w_exec w2) = lx_broadcasts (w_exec live_world)"
    using killed_emergency_exit_closes_nothing [OF stop out [unfolded run_def], of "\<lambda>tx. None" id 0 killed_kv]
    unfolding m rows by (simp add: killed_kv_def kv_get_def w1(2) pos(2))
  moreover have "lx_broadcasts (w_exec live_world) = []"
    by (simp add: live_world_def sample_world_def empty_live_def)
  ultimately show ?thesis using out unfolding run_def stop by simp
qed

text \<open>
  Not even a cleared kill switch makes an emergency exit accept a worse price: the tolerance of
  the order goes into the quote, and the preparation still refuses an impact above the ceiling
  for entries.
\<close>

lemma emergency_exit_bound_by_entry_ceiling:
  assumes "le_quote env = Inr (Some q)" "max_expected_slippage_pct (copyability st) < q_price_impact_pct q"
  shows "\<exists>ex. prepare st env order e = Inr (ex, None) \<and> ex_failure_reason ex = Some ''slippage_regressed''"
  using assms by (simp add: prepare_def fail_execution_def)

end
