(* ===== verification/Retention.thy ===== *)
theory Retention
  imports Prelude
begin

text \<open>
  \<^verbatim>\<open>services/tasks/retention.py\<close>: which rows of which table are aged out.  A table
  is the list of its rows; a row is its time stamp and whether it carries a raw payload.
\<close>

record aged_row =
  ag_at :: datetime
  ag_raw :: bool

type_synonym tables = "string \<Rightarrow> aged_row list"

definition POLICY :: "(string \<times> int option) list" where
  "POLICY =
     [(''system_events'', Some 30), (''token_snapshots'', Some 60),
      (''portfolio_snapshots'', Some 365), (''alerts'', Some 90), (''risk_events'', Some 365),
      (''trader_scores'', Some 365), (''token_risk_scores'', Some 90),
      (''trade_decisions'', None), (''executions'', None), (''positions'', None),
      (''position_events'', None), (''profit_harvest_events'', None), (''audit_logs'', None)]"

definition MODELS :: "string list" where
  "MODELS = [''system_events'', ''token_snapshots'', ''portfolio_snapshots'', ''alerts'',
     ''risk_events'', ''trader_scores'', ''token_risk_scores'']"

definition STRIP_AFTER_DAYS :: int where "STRIP_AFTER_DAYS = 90"

definition days_before :: "datetime \<Rightarrow> int \<Rightarrow> datetime" where
  "days_before now days = now - days * 86400 * 1000000"

fun age_out ::
    "datetime \<Rightarrow> bool \<Rightarrow> (string \<times> int option) list \<Rightarrow> tables \<Rightarrow> (string \<times> nat) list \<times> tables" where
  "age_out now dry_run [] t = ([], t)"
| "age_out now dry_run ((table, days) # rest) t =
     (case days of
        None \<Rightarrow> age_out now dry_run rest t
      | Some n \<Rightarrow>
          if table \<notin> set MODELS then age_out now dry_run rest t
          else let cutoff = days_before now n;
                   count = length (filter (\<lambda>r. ag_at r < cutoff) (t table))
               in if count = 0 then age_out now dry_run rest t
                  else case age_out now dry_run rest
                         (if dry_run then t
                          else t(table := filter (\<lambda>r. \<not> ag_at r < cutoff) (t table))) of
                    (deleted, t') \<Rightarrow> ((table, count) # deleted, t'))"

definition strip_raw :: "datetime \<Rightarrow> string \<Rightarrow> tables \<Rightarrow> nat \<times> tables" where
  "strip_raw cutoff table t =
     (length (filter (\<lambda>r. ag_at r < cutoff \<and> ag_raw r) (t table)),
      t(table := map (\<lambda>r. if ag_at r < cutoff \<and> ag_raw r then r\<lparr>ag_raw := False\<rparr> else r) (t table)))"

definition apply_retention ::
    "datetime \<Rightarrow> bool \<Rightarrow> tables \<Rightarrow> ((string \<times> nat) list \<times> nat) \<times> tables" where
  "apply_retention now dry_run t =
     (case age_out now dry_run POLICY t of
        (deleted, t1) \<Rightarrow>
          if dry_run then ((deleted, 0), t1)
          else let cutoff = days_before now STRIP_AFTER_DAYS;
                   (n1, t2) = strip_raw cutoff ''executions'' t1;
                   (n2, t3) = strip_raw cutoff ''source_trades'' t2
               in ((deleted, n1 + n2), t3))"

definition retention_report :: "datetime \<Rightarrow> tables \<Rightarrow> ((string \<times> nat) list \<times> nat) \<times> tables" where
  "retention_report now t = apply_retention now True t"

section \<open>What is deleted\<close>

text \<open>The days a table is kept, if rows of it are ever deleted.\<close>

definition retention_days :: "string \<Rightarrow> int option" where
  "retention_days table =
     (case map_of POLICY table of None \<Rightarrow> None
      | Some d \<Rightarrow> if table \<in> set MODELS then d else None)"

definition kept_rows :: "datetime \<Rightarrow> string \<Rightarrow> aged_row list \<Rightarrow> aged_row list" where
  "kept_rows now table rows =
     (case retention_days table of None \<Rightarrow> rows
      | Some n \<Rightarrow> filter (\<lambda>r. \<not> ag_at r < days_before now n) rows)"

definition expired_rows :: "datetime \<Rightarrow> string \<Rightarrow> aged_row list \<Rightarrow> aged_row list" where
  "expired_rows now table rows =
     (case retention_days table of None \<Rightarrow> []
      | Some n \<Rightarrow> filter (\<lambda>r. ag_at r < days_before now n) rows)"

definition days_in :: "(string \<times> int option) list \<Rightarrow> string \<Rightarrow> int option" where
  "days_in ps table = (case map_of ps table of None \<Rightarrow> None
     | Some d \<Rightarrow> if table \<in> set MODELS then d else None)"

lemma filter_nothing: "length (filter P xs) = 0 \<Longrightarrow> filter (\<lambda>x. \<not> P x) xs = xs"
  by (auto simp: filter_empty_conv intro: filter_True)

lemma age_out_tables:
  assumes "distinct (map fst ps)" "age_out now dry_run ps t = (deleted, t')"
  shows "t' table = (if dry_run then t table else case days_in ps table of
      None \<Rightarrow> t table | Some n \<Rightarrow> filter (\<lambda>r. \<not> ag_at r < days_before now n) (t table))"
  using assms
proof (induction ps arbitrary: t deleted t')
  case (Cons p rest)
  obtain name days where p: "p = (name, days)" by (cases p)
  have notin: "map_of rest name = None" and dist: "distinct (map fst rest)"
    using Cons.prems(1) by (simp_all add: p map_of_eq_None_iff)
  show ?case
  proof (cases "days = None \<or> name \<notin> set MODELS")
    case True
    then have "age_out now dry_run rest t = (deleted, t')" using Cons.prems(2) by (auto simp: p split: option.splits)
    then have "t' table = (if dry_run then t table else case days_in rest table of
        None \<Rightarrow> t table | Some n \<Rightarrow> filter (\<lambda>r. \<not> ag_at r < days_before now n) (t table))"
      by (rule Cons.IH [OF dist])
    then show ?thesis using True notin by (auto simp: p days_in_def split: option.splits)
  next
    case False
    then obtain n where days: "days = Some n" and mem: "name \<in> set MODELS" by auto
    let ?old = "length (filter (\<lambda>r. ag_at r < days_before now n) (t name))"
    let ?t1 = "if dry_run \<or> ?old = 0 then t
      else t(name := filter (\<lambda>r. \<not> ag_at r < days_before now n) (t name))"
    obtain del1 where run: "age_out now dry_run rest ?t1 = (del1, t')"
      using Cons.prems(2) days mem by (auto simp: p Let_def split: if_splits prod.splits)
    have ih: "t' table = (if dry_run then ?t1 table else case days_in rest table of
        None \<Rightarrow> ?t1 table | Some n \<Rightarrow> filter (\<lambda>r. \<not> ag_at r < days_before now n) (?t1 table))"
      by (rule Cons.IH [OF dist run])
    show ?thesis
    proof (cases "table = name")
      case True
      then show ?thesis using ih days mem notin filter_nothing [of "\<lambda>r. ag_at r < days_before now n" "t name"]
        by (auto simp: p days_in_def)
    next
      case False
      then have "?t1 table = t table" "days_in ((name, days) # rest) table = days_in rest table"
        by (simp_all add: days_in_def)
      then show ?thesis using ih by (simp only: p)
    qed
  qed
qed (simp add: days_in_def)

lemma age_out_counts:
  assumes "distinct (map fst ps)" "age_out now dry_run ps t = (deleted, t')"
  shows "map_of deleted table = (case days_in ps table of None \<Rightarrow> None
      | Some n \<Rightarrow> let k = length (filter (\<lambda>r. ag_at r < days_before now n) (t table))
                 in if k = 0 then None else Some k)"
  using assms
proof (induction ps arbitrary: t deleted t')
  case (Cons p rest)
  obtain name days where p: "p = (name, days)" by (cases p)
  have notin: "map_of rest name = None" and dist: "distinct (map fst rest)"
    using Cons.prems(1) by (simp_all add: p map_of_eq_None_iff)
  show ?case
  proof (cases "days = None \<or> name \<notin> set MODELS")
    case True
    then have "age_out now dry_run rest t = (deleted, t')" using Cons.prems(2) by (auto simp: p split: option.splits)
    then have "map_of deleted table = (case days_in rest table of None \<Rightarrow> None
      | Some n \<Rightarrow> let k = length (filter (\<lambda>r. ag_at r < days_before now n) (t table))
                 in if k = 0 then None else Some k)"
      by (rule Cons.IH [OF dist])
    then show ?thesis using True notin by (auto simp: p days_in_def split: option.splits)
  next
    case False
    then obtain n where days: "days = Some n" and mem: "name \<in> set MODELS" by auto
    let ?old = "length (filter (\<lambda>r. ag_at r < days_before now n) (t name))"
    let ?t1 = "if dry_run \<or> ?old = 0 then t
      else t(name := filter (\<lambda>r. \<not> ag_at r < days_before now n) (t name))"
    obtain del1 where run: "age_out now dry_run rest ?t1 = (del1, t')"
        "deleted = (if ?old = 0 then del1 else (name, ?old) # del1)"
      using Cons.prems(2) days mem by (auto simp: p Let_def split: if_splits prod.splits)
    have ih: "map_of del1 table = (case days_in rest table of None \<Rightarrow> None
      | Some n \<Rightarrow> let k = length (filter (\<lambda>r. ag_at r < days_before now n) (?t1 table))
                 in if k = 0 then None else Some k)"
      by (rule Cons.IH [OF dist run(1)])
    show ?thesis
      using ih run(2) days mem notin
      by (cases "table = name") (auto simp: p days_in_def Let_def split: option.splits)
  qed
qed (simp add: days_in_def)

lemma policy_distinct: "distinct (map fst POLICY)"
  by (simp add: POLICY_def)

lemma strip_raw_times: "map ag_at (snd (strip_raw c table t) name) = map ag_at (t name)"
  by (simp add: strip_raw_def o_def)

lemma strip_raw_other: "name \<noteq> table \<Longrightarrow> snd (strip_raw c table t) name = t name"
  by (simp add: strip_raw_def)

text \<open>
  Retention deletes exactly the rows past their table's age and only from the tables with one:
  decisions, executions, positions, their events, harvests and the audit log keep every row, of
  which executions and source trades lose at most the payload.  A dry run reports the same
  counts and changes nothing.
\<close>

theorem retention_respects_policy:
  "fst (fst (apply_retention now True t)) = fst (fst (apply_retention now False t)) \<and>
   snd (apply_retention now True t) = t \<and>
   map_of (fst (fst (apply_retention now dry_run t))) table =
     (let k = length (expired_rows now table (t table)) in if k = 0 then None else Some k) \<and>
   map ag_at (snd (apply_retention now False t) table) = map ag_at (kept_rows now table (t table)) \<and>
   (if table = ''executions'' \<or> table = ''source_trades'' then True
    else snd (apply_retention now False t) table = kept_rows now table (t table))"
proof -
  obtain d1 t1 where dry: "age_out now True POLICY t = (d1, t1)" by force
  obtain d2 t2 where wet: "age_out now False POLICY t = (d2, t2)" by force
  have days: "days_in POLICY = retention_days" by (auto simp: days_in_def retention_days_def)
  have same: "d1 = d2"
  proof -
    have "age_out now True ps u = (a, u') \<Longrightarrow> age_out now False ps v = (b, v') \<Longrightarrow>
        distinct (map fst ps) \<Longrightarrow> \<forall>x \<in> fst ` set ps. u x = v x \<Longrightarrow> a = b" for ps u u' v v' a b
    proof (induction ps arbitrary: a b u u' v v')
      case (Cons p ps)
      obtain name dd where p: "p = (name, dd)" by (cases p)
      show ?case
        using Cons.prems Cons.IH p
        by (force simp: Let_def split: option.splits if_splits prod.splits)
    qed simp
    from this [OF dry wet policy_distinct] show ?thesis by simp
  qed
  have t1: "t1 = t" using age_out_tables [OF policy_distinct dry] by auto
  have t2: "t2 name = kept_rows now name (t name)" for name
    using age_out_tables [OF policy_distinct wet, of name] by (simp add: days kept_rows_def)
  have counts: "map_of (fst (fst (apply_retention now b t))) table =
      (let k = length (expired_rows now table (t table)) in if k = 0 then None else Some k)" for b
    using age_out_counts [OF policy_distinct dry, of table] age_out_counts [OF policy_distinct wet, of table]
    by (cases b) (simp_all add: apply_retention_def dry wet days expired_rows_def Let_def
        split: option.splits prod.splits)
  have fin: "snd (apply_retention now False t) =
      snd (strip_raw (days_before now STRIP_AFTER_DAYS) ''source_trades''
        (snd (strip_raw (days_before now STRIP_AFTER_DAYS) ''executions'' t2)))"
    by (simp add: apply_retention_def wet Let_def split: prod.splits)
  have f: "fst (fst (apply_retention now True t)) = fst (fst (apply_retention now False t))"
    by (simp add: apply_retention_def dry wet same Let_def split: prod.splits)
  have g: "snd (apply_retention now True t) = t"
    by (simp add: apply_retention_def dry t1)
  show ?thesis
    using f g counts [of dry_run] by (simp add: fin strip_raw_times strip_raw_other t2)
qed

end
