(* ===== verification/Experiments.thy ===== *)
theory Experiments
  imports Config
begin

text \<open>
  \<^verbatim>\<open>engine/experiments.py\<close>: arms that override entry thresholds, the deterministic
  assignment of a trader to an arm and the comparison of the results.  The digest of a text is the
  parameter \<open>sha256\<close>, a list of bytes; an override is a number, and pydantic refuses one
  that is not whole for an integer field.
\<close>

section \<open>Experiments\<close>

definition MUTABLE_FIELDS :: "string list" where
  "MUTABLE_FIELDS =
     [''price_move_normal_pct'', ''price_move_acceptable_pct'', ''price_move_reduced_pct'',
      ''price_move_caution_pct'', ''price_move_reduced_mult'', ''price_move_caution_mult'',
      ''max_total_copy_latency_ms'', ''max_detection_age_ms'',
      ''min_liquidity_usd'', ''max_position_pct_of_liquidity'',
      ''max_expected_slippage_pct'', ''slippage_safety_margin_pct'', ''execution_slippage_bps'',
      ''min_market_cap_usd'', ''max_market_cap_usd'',
      ''min_token_age_seconds'', ''new_token_age_seconds'', ''new_token_size_mult'',
      ''max_token_risk_score'', ''min_trader_score'', ''min_copyability_score'',
      ''min_trader_confidence'']"

definition PROTECTED_FIELDS :: "string list" where
  "PROTECTED_FIELDS = [''max_daily_loss_pct'', ''max_drawdown_pct'', ''stop_loss_pct'',
     ''max_position_pct'', ''max_portfolio_deployed_pct'']"

record arm =
  arm_name :: string
  arm_overrides :: "rat pydict"
  arm_weight :: int

record experiment_spec =
  xp_name :: string
  xp_arms :: "arm list"
  xp_enabled :: bool

datatype experiment_error =
    Too_few_arms | No_weight | Protected_field string | Unknown_field string

fun check_overrides :: "string list \<Rightarrow> experiment_error option" where
  "check_overrides [] = None"
| "check_overrides (k # ks) =
     (if k \<in> set PROTECTED_FIELDS then Some (Protected_field k)
      else if k \<notin> set MUTABLE_FIELDS then Some (Unknown_field k)
      else check_overrides ks)"

text \<open>\<^verbatim>\<open>__post_init__\<close>: an experiment that fails a check is never built.\<close>

definition make_experiment ::
    "string \<Rightarrow> arm list \<Rightarrow> bool \<Rightarrow> experiment_error + experiment_spec" where
  "make_experiment name arms enabled =
     (if length arms < 2 then Inl Too_few_arms
      else if sum_list (map arm_weight arms) \<le> 0 then Inl No_weight
      else case check_overrides (concat (map (\<lambda>a. map fst (arm_overrides a)) arms)) of
             Some e \<Rightarrow> Inl e
           | None \<Rightarrow> Inr \<lparr>xp_name = name, xp_arms = arms, xp_enabled = enabled\<rparr>)"

definition big_endian :: "int list \<Rightarrow> int" where
  "big_endian bytes = foldl (\<lambda>acc b. 256 * acc + b) 0 bytes"

fun pick_arm :: "int \<Rightarrow> int \<Rightarrow> arm list \<Rightarrow> arm option" where
  "pick_arm point cursor [] = None"
| "pick_arm point cursor (a # rest) =
     (if point < cursor + arm_weight a then Some a else pick_arm point (cursor + arm_weight a) rest)"

definition assign_point :: "int \<Rightarrow> experiment_spec \<Rightarrow> arm" where
  "assign_point point x = (case pick_arm point 0 (xp_arms x) of Some a \<Rightarrow> a | None \<Rightarrow> last (xp_arms x))"

definition assign :: "(string \<Rightarrow> int list) \<Rightarrow> string \<Rightarrow> experiment_spec \<Rightarrow> arm" where
  "assign sha256 unit_id x =
     (let digest = sha256 (xp_name x @ '':'' @ unit_id);
          total = sum_list (map arm_weight (xp_arms x))
      in assign_point (big_endian (take 8 digest) mod total) x)"

definition control_arm :: "experiment_spec \<Rightarrow> arm" where
  "control_arm x = hd (xp_arms x)"

section \<open>The registry\<close>

type_synonym registry = "(string \<times> experiment_spec) list"

definition make_registry :: "experiment_spec list \<Rightarrow> registry" where
  "make_registry xs = fold (\<lambda>x. AList.update (xp_name x) x) xs []"

definition register :: "experiment_spec \<Rightarrow> registry \<Rightarrow> registry" where
  "register x r = AList.update (xp_name x) x r"

definition active_experiments :: "registry \<Rightarrow> experiment_spec list" where
  "active_experiments r = filter xp_enabled (map snd r)"

text \<open>One keyword argument of \<^verbatim>\<open>CopyabilityConfig(**base)\<close>; an unknown one is ignored.\<close>

definition whole_number :: "rat \<Rightarrow> (int \<Rightarrow> 'a) \<Rightarrow> 'a option" where
  "whole_number v f = (if v = of_int \<lfloor>v\<rfloor> then Some (f \<lfloor>v\<rfloor>) else None)"

definition copy_setters ::
    "(string \<times> (rat \<Rightarrow> copyability_config \<Rightarrow> copyability_config option)) list" where
  "copy_setters = [
     (''price_move_normal_pct'', \<lambda>v c. Some (c\<lparr>price_move_normal_pct := v\<rparr>)),
     (''price_move_acceptable_pct'', \<lambda>v c. Some (c\<lparr>price_move_acceptable_pct := v\<rparr>)),
     (''price_move_reduced_pct'', \<lambda>v c. Some (c\<lparr>price_move_reduced_pct := v\<rparr>)),
     (''price_move_caution_pct'', \<lambda>v c. Some (c\<lparr>price_move_caution_pct := v\<rparr>)),
     (''price_move_reduced_mult'', \<lambda>v c. Some (c\<lparr>price_move_reduced_mult := v\<rparr>)),
     (''price_move_caution_mult'', \<lambda>v c. Some (c\<lparr>price_move_caution_mult := v\<rparr>)),
     (''max_total_copy_latency_ms'', \<lambda>v c. whole_number v (\<lambda>i. c\<lparr>max_total_copy_latency_ms := i\<rparr>)),
     (''max_detection_age_ms'', \<lambda>v c. whole_number v (\<lambda>i. c\<lparr>max_detection_age_ms := i\<rparr>)),
     (''min_liquidity_usd'', \<lambda>v c. Some (c\<lparr>min_liquidity_usd := v\<rparr>)),
     (''max_position_pct_of_liquidity'', \<lambda>v c. Some (c\<lparr>max_position_pct_of_liquidity := v\<rparr>)),
     (''max_expected_slippage_pct'', \<lambda>v c. Some (c\<lparr>max_expected_slippage_pct := v\<rparr>)),
     (''slippage_safety_margin_pct'', \<lambda>v c. Some (c\<lparr>slippage_safety_margin_pct := v\<rparr>)),
     (''execution_slippage_bps'', \<lambda>v c. whole_number v (\<lambda>i. c\<lparr>execution_slippage_bps := i\<rparr>)),
     (''min_market_cap_usd'', \<lambda>v c. Some (c\<lparr>min_market_cap_usd := v\<rparr>)),
     (''max_market_cap_usd'', \<lambda>v c. Some (c\<lparr>max_market_cap_usd := v\<rparr>)),
     (''min_token_age_seconds'', \<lambda>v c. whole_number v (\<lambda>i. c\<lparr>min_token_age_seconds := i\<rparr>)),
     (''new_token_age_seconds'', \<lambda>v c. whole_number v (\<lambda>i. c\<lparr>new_token_age_seconds := i\<rparr>)),
     (''new_token_size_mult'', \<lambda>v c. Some (c\<lparr>new_token_size_mult := v\<rparr>)),
     (''max_token_exposure_pct'', \<lambda>v c. Some (c\<lparr>max_token_exposure_pct := v\<rparr>)),
     (''max_trader_exposure_pct'', \<lambda>v c. Some (c\<lparr>max_trader_exposure_pct := v\<rparr>)),
     (''max_open_positions'', \<lambda>v c. whole_number v (\<lambda>i. c\<lparr>max_open_positions := i\<rparr>)),
     (''max_token_risk_score'', \<lambda>v c. whole_number v (\<lambda>i. c\<lparr>max_token_risk_score := i\<rparr>)),
     (''min_trader_score'', \<lambda>v c. Some (c\<lparr>min_trader_score := v\<rparr>)),
     (''min_copyability_score'', \<lambda>v c. Some (c\<lparr>min_copyability_score := v\<rparr>)),
     (''min_trader_confidence'', \<lambda>v c. Some (c\<lparr>min_trader_confidence := v\<rparr>))]"

definition copy_field_set ::
    "string \<Rightarrow> rat \<Rightarrow> copyability_config \<Rightarrow> copyability_config option" where
  "copy_field_set k v c = (case map_of copy_setters k of None \<Rightarrow> Some c | Some f \<Rightarrow> f v c)"

fun override_all :: "rat pydict \<Rightarrow> copyability_config \<Rightarrow> copyability_config option" where
  "override_all [] c = Some c"
| "override_all ((k, v) # kvs) c =
     (case copy_field_set k v c of None \<Rightarrow> None | Some c' \<Rightarrow> override_all kvs c')"

definition merged_overrides :: "arm list \<Rightarrow> rat pydict" where
  "merged_overrides arms = fold (\<lambda>a m. fold (\<lambda>(k, v). AList.update k v) (arm_overrides a) m) arms []"

text \<open>\<^const>\<open>None\<close> stands for the validation error of the settings class.\<close>

definition config_for ::
    "(string \<Rightarrow> int list) \<Rightarrow> settings \<Rightarrow> string \<Rightarrow> registry \<Rightarrow>
       (copyability_config \<times> (string \<times> string) list) option" where
  "config_for sha256 st unit_id r =
     (let chosen = map (\<lambda>x. (x, assign sha256 unit_id x)) (active_experiments r);
          assignments = map (\<lambda>(x, a). (xp_name x, arm_name a)) chosen;
          overrides = merged_overrides (map snd chosen)
      in if overrides = [] then Some (copyability st, assignments)
         else map_option (\<lambda>c. (c, assignments)) (override_all overrides (copyability st)))"

section \<open>Comparing arms\<close>

record arm_result =
  ar_arm :: string
  ar_trades :: int
  ar_wins :: int
  ar_pnl_usd :: usd

definition arm_win_rate_pct :: "arm_result \<Rightarrow> pct" where
  "arm_win_rate_pct r = (if ar_trades r \<noteq> 0 then of_int (ar_wins r) / of_int (ar_trades r) * 100 else 0)"

definition arm_expectancy_usd :: "arm_result \<Rightarrow> usd" where
  "arm_expectancy_usd r = (if ar_trades r \<noteq> 0 then ar_pnl_usd r / of_int (ar_trades r) else 0)"

datatype arm_verdict =
    No_data
  | Inconclusive "string list"
  | Single_arm
  | Too_close string usd
  | Leader string usd

text \<open>\<^verbatim>\<open>sorted(..., reverse=True)\<close> keeps equal elements in their order, as sorting by
  the negated key does.\<close>

definition compare_arms :: "arm_result list \<Rightarrow> int \<Rightarrow> arm_verdict" where
  "compare_arms results min_trades =
     (if results = [] then No_data
      else let underpowered = map ar_arm (filter (\<lambda>r. ar_trades r < min_trades) results);
               ranked = sort_key (\<lambda>r. - arm_expectancy_usd r) results
           in if underpowered \<noteq> [] then Inconclusive underpowered
              else case ranked of
                best # runner_up # rest \<Rightarrow>
                  (let lead = arm_expectancy_usd best - arm_expectancy_usd runner_up;
                       denominator = (if \<bar>arm_expectancy_usd runner_up\<bar> = 0 then 1
                                      else \<bar>arm_expectancy_usd runner_up\<bar>)
                   in if denominator * (1/5) < lead then Leader (ar_arm best) (quantize 2 lead)
                      else Too_close (ar_arm best) (quantize 2 lead))
              | _ \<Rightarrow> Single_arm)"

section \<open>What an experiment cannot change\<close>

lemma check_overrides_None:
  "check_overrides ks = None \<longleftrightarrow> set ks \<subseteq> set MUTABLE_FIELDS - set PROTECTED_FIELDS"
  by (induction ks) auto

lemma make_experiment_fields:
  assumes "make_experiment name arms enabled = Inr x" "a \<in> set (xp_arms x)"
  shows "fst ` set (arm_overrides a) \<subseteq> set MUTABLE_FIELDS"
  using assms by (force simp: make_experiment_def check_overrides_None split: if_splits option.splits)

definition limits_of :: "copyability_config \<Rightarrow> pct \<times> pct \<times> int" where
  "limits_of c = (max_token_exposure_pct c, max_trader_exposure_pct c, max_open_positions c)"

definition LIMIT_FIELDS :: "string list" where
  "LIMIT_FIELDS = [''max_token_exposure_pct'', ''max_trader_exposure_pct'', ''max_open_positions'']"

lemma limits_not_mutable: "k \<in> set MUTABLE_FIELDS \<Longrightarrow> k \<notin> set LIMIT_FIELDS"
proof -
  have "list_all (\<lambda>k. k \<notin> set LIMIT_FIELDS) MUTABLE_FIELDS"
    by (simp add: MUTABLE_FIELDS_def LIMIT_FIELDS_def)
  then show "k \<in> set MUTABLE_FIELDS \<Longrightarrow> k \<notin> set LIMIT_FIELDS" by (simp add: list_all_iff)
qed

lemma copy_setters_limits:
  "list_all (\<lambda>(k, f). k \<in> set LIMIT_FIELDS \<or>
     (\<forall>v c c'. f v c = Some c' \<longrightarrow> limits_of c' = limits_of c)) copy_setters"
  unfolding copy_setters_def list.pred_inject split
  by (intro conjI TrueI) (auto simp: LIMIT_FIELDS_def limits_of_def whole_number_def)

lemma copy_field_set_other:
  assumes "k \<notin> set LIMIT_FIELDS" "copy_field_set k v c = Some c'"
  shows "limits_of c' = limits_of c"
proof (cases "map_of copy_setters k")
  case (Some f)
  then have "(k, f) \<in> set copy_setters" by (rule map_of_SomeD)
  then have "\<forall>v c c'. f v c = Some c' \<longrightarrow> limits_of c' = limits_of c"
    using copy_setters_limits assms(1) unfolding list_all_iff by blast
  then show ?thesis using assms(2) Some by (simp add: copy_field_set_def)
qed (use assms(2) in \<open>simp add: copy_field_set_def\<close>)

lemma copy_field_set_limits:
  "k \<in> set MUTABLE_FIELDS \<Longrightarrow> copy_field_set k v c = Some c' \<Longrightarrow> limits_of c' = limits_of c"
  by (rule copy_field_set_other [OF limits_not_mutable])

lemma override_all_limits:
  "override_all kvs c = Some c' \<Longrightarrow> fst ` set kvs \<subseteq> set MUTABLE_FIELDS \<Longrightarrow> limits_of c' = limits_of c"
proof (induction kvs c arbitrary: c' rule: override_all.induct)
  case (2 k v kvs c)
  then show ?case using copy_field_set_limits [of k v c] by (auto split: option.splits)
qed simp

lemma update_keys_subset: "fst ` set (AList.update k v m) \<subseteq> insert k (fst ` set m)"
  by (simp add: dom_update)

lemma merged_overrides_keys:
  "fst ` set (merged_overrides arms) \<subseteq> (\<Union>a \<in> set arms. fst ` set (arm_overrides a))"
proof -
  have inner: "fst ` set (fold (\<lambda>(k, v). AList.update k v) kvs m) \<subseteq> fst ` set kvs \<union> fst ` set m"
    for kvs and m :: "rat pydict"
  proof (induction kvs arbitrary: m)
    case (Cons kv kvs)
    obtain k v where kv: "kv = (k, v)" by (cases kv)
    show ?case using Cons.IH [of "AList.update k v m"] update_keys_subset [of k v m]
      by (auto simp: kv)
  qed simp
  have "fst ` set (fold (\<lambda>a m. fold (\<lambda>(k, v). AList.update k v) (arm_overrides a) m) arms m) \<subseteq>
      (\<Union>a \<in> set arms. fst ` set (arm_overrides a)) \<union> fst ` set m" for m :: "rat pydict"
  proof (induction arms arbitrary: m)
    case (Cons a arms)
    let ?m = "fold (\<lambda>(k, v). AList.update k v) (arm_overrides a) m"
    have "fst ` set (fold (\<lambda>a m. fold (\<lambda>(k, v). AList.update k v) (arm_overrides a) m) (a # arms) m) \<subseteq>
        (\<Union>a \<in> set arms. fst ` set (arm_overrides a)) \<union> fst ` set ?m"
      using Cons.IH [of ?m] by simp
    then show ?case using inner [of "arm_overrides a" m] by auto
  qed simp
  from this [of "[]"] show ?thesis by (simp add: merged_overrides_def)
qed

lemma pick_arm_mem: "pick_arm point cursor arms = Some a \<Longrightarrow> a \<in> set arms"
  by (induction point cursor arms rule: pick_arm.induct) (auto split: if_splits)

lemma assign_mem: "xp_arms x \<noteq> [] \<Longrightarrow> assign sha256 u x \<in> set (xp_arms x)"
  by (auto simp: assign_def assign_point_def Let_def dest: pick_arm_mem split: option.split)

text \<open>
  Whatever experiments run, the concentration limits a trader is copied under are those of the
  settings: no accepted experiment touches them, and an experiment that names a protected or an
  unknown field is never built.
\<close>

theorem experiments_keep_limits:
  assumes "\<forall>x \<in> snd ` set r. \<exists>name arms enabled. make_experiment name arms enabled = Inr x"
    and "config_for sha256 st unit_id r = Some (c, assignments)"
  shows "limits_of c = limits_of (copyability st) \<and>
    (active_experiments r = [] \<longrightarrow> c = copyability st \<and> assignments = [])"
proof -
  have mem: "fst ` set (arm_overrides (assign sha256 unit_id x)) \<subseteq> set MUTABLE_FIELDS"
    if "x \<in> set (active_experiments r)" for x
  proof -
    have "x \<in> snd ` set r" using that by (auto simp: active_experiments_def)
    then obtain name arms enabled where x: "make_experiment name arms enabled = Inr x"
      using assms(1) by blast
    then have "xp_arms x \<noteq> []" by (auto simp: make_experiment_def split: if_splits option.splits)
    then show ?thesis using make_experiment_fields [OF x] assign_mem by blast
  qed
  define ov where "ov = merged_overrides (map (assign sha256 unit_id) (active_experiments r))"
  have keys: "fst ` set ov \<subseteq> set MUTABLE_FIELDS"
  proof -
    have "(\<Union>a \<in> set (map (assign sha256 unit_id) (active_experiments r)). fst ` set (arm_overrides a))
        \<subseteq> set MUTABLE_FIELDS" using mem by auto
    then show ?thesis
      using merged_overrides_keys [of "map (assign sha256 unit_id) (active_experiments r)"]
      unfolding ov_def by (rule subset_trans [rotated])
  qed
  have out: "if ov = [] then c = copyability st else override_all ov (copyability st) = Some c"
    using assms(2) by (auto simp: config_for_def Let_def o_def ov_def split: if_splits)
  then show ?thesis
    using override_all_limits [OF _ keys] assms(2)
    by (auto simp: config_for_def merged_overrides_def Let_def split: if_splits)
qed

definition sample_experiment :: experiment_spec where
  "sample_experiment = \<lparr>xp_name = ''slip'', xp_arms = [
     \<lparr>arm_name = ''control'', arm_overrides = [], arm_weight = 1\<rparr>,
     \<lparr>arm_name = ''tight'', arm_overrides = [(''min_liquidity_usd'', 50000)], arm_weight = 3\<rparr>],
     xp_enabled = True\<rparr>"

lemma sample_experiment_made:
  "make_experiment ''slip'' (xp_arms sample_experiment) True = Inr sample_experiment"
  by code_simp

lemma experiments_keep_limits_witness:
  "\<exists>c. config_for (\<lambda>s. [0, 0, 0, 0, 0, 0, 0, 2]) default_settings ''alice'' [(''slip'', sample_experiment)] =
       Some (c, [(''slip'', ''tight'')]) \<and>
     min_liquidity_usd c = 50000 \<and> limits_of c = limits_of default_copyability"
proof -
  obtain c where c: "config_for (\<lambda>s. [0, 0, 0, 0, 0, 0, 0, 2]) default_settings ''alice''
      [(''slip'', sample_experiment)] = Some (c, [(''slip'', ''tight'')])" "min_liquidity_usd c = 50000"
    by (simp add: config_for_def active_experiments_def sample_experiment_def assign_def
        assign_point_def big_endian_def merged_overrides_def copy_field_set_def copy_setters_def)
  have "\<forall>x \<in> snd ` set [(''slip'', sample_experiment)].
      \<exists>name arms enabled. make_experiment name arms enabled = Inr x"
    using sample_experiment_made by auto
  from experiments_keep_limits [OF this c(1)] c show ?thesis by (simp add: default_settings_def)
qed

section \<open>Assignment by weight\<close>

definition arm_start :: "arm list \<Rightarrow> nat \<Rightarrow> int" where
  "arm_start arms i = sum_list (map arm_weight (take i arms))"

lemma pick_arm_interval:
  "\<forall>a \<in> set arms. 0 \<le> arm_weight a \<Longrightarrow> i < length arms \<Longrightarrow> c + arm_start arms i \<le> p \<Longrightarrow>
   p < c + arm_start arms (Suc i) \<Longrightarrow> pick_arm p c arms = Some (arms ! i)"
proof (induction arms arbitrary: c i)
  case (Cons a arms)
  show ?case
  proof (cases i)
    case 0
    then show ?thesis using Cons.prems by (simp add: arm_start_def)
  next
    case (Suc j)
    have "0 \<le> arm_start arms j"
      unfolding arm_start_def by (rule sum_list_nonneg) (use Cons.prems(1) in \<open>auto dest: in_set_takeD\<close>)
    then have "\<not> p < c + arm_weight a" using Cons.prems(3) Suc by (simp add: arm_start_def)
    then show ?thesis
      using Cons.IH [of j "c + arm_weight a"] Cons.prems Suc by (simp add: arm_start_def add.assoc)
  qed
qed simp

lemma arm_interval_exists:
  "0 \<le> p \<Longrightarrow> p < arm_start arms n \<Longrightarrow> n \<le> length arms \<Longrightarrow>
     \<exists>i < n. arm_start arms i \<le> p \<and> p < arm_start arms (Suc i)"
proof (induction n)
  case (Suc n)
  then show ?case by (cases "p < arm_start arms n") (auto simp: less_Suc_eq)
qed (simp add: arm_start_def)

lemma arm_start_mono:
  assumes "\<forall>a \<in> set arms. 0 \<le> arm_weight a" "i \<le> j" "j \<le> length arms"
  shows "arm_start arms i \<le> arm_start arms j"
  using assms(2,3)
proof (induction j rule: dec_induct)
  case (step n)
  then have "arm_start arms (Suc n) = arm_start arms n + arm_weight (arms ! n)"
    by (simp add: arm_start_def take_Suc_conv_app_nth)
  moreover have "0 \<le> arm_weight (arms ! n)" using assms(1) step by simp
  ultimately show ?case using step by simp
qed simp

text \<open>
  With weights that are not negative the assignment respects them: each point below the total
  lies in the range of one arm, of length its weight, and goes to that arm; the fall-back to the
  last arm is never taken.
\<close>

theorem assignment_respects_weights:
  assumes "make_experiment name arms enabled = Inr x" "\<forall>a \<in> set arms. 0 \<le> arm_weight a"
  shows "\<exists>!i. i < length arms \<and>
    (let p = big_endian (take 8 (sha256 (name @ '':'' @ unit_id))) mod sum_list (map arm_weight arms)
     in arm_start arms i \<le> p \<and> p < arm_start arms (Suc i)) \<and> assign sha256 unit_id x = arms ! i"
proof -
  define p where "p = big_endian (take 8 (sha256 (name @ '':'' @ unit_id))) mod sum_list (map arm_weight arms)"
  have x: "x = \<lparr>xp_name = name, xp_arms = arms, xp_enabled = enabled\<rparr>"
    and pos: "0 < sum_list (map arm_weight arms)"
    using assms(1) by (auto simp: make_experiment_def split: if_splits option.splits)
  have p: "0 \<le> p" "p < arm_start arms (length arms)" using pos by (simp_all add: p_def arm_start_def)
  obtain i where i: "i < length arms" "arm_start arms i \<le> p" "p < arm_start arms (Suc i)"
    using arm_interval_exists [OF p] by auto
  have "assign sha256 unit_id x = assign_point p x"
    unfolding assign_def p_def Let_def by (simp add: x)
  then have "assign sha256 unit_id x = arms ! i"
    using pick_arm_interval [OF assms(2) i(1), of 0 p] i by (simp add: assign_point_def x)
  moreover have "j = i" if "j < length arms" "arm_start arms j \<le> p" "p < arm_start arms (Suc j)" for j
  proof (rule ccontr)
    assume "j \<noteq> i"
    then consider "Suc j \<le> i" | "Suc i \<le> j" by linarith
    then show False
      using arm_start_mono [OF assms(2), of "Suc j" i] arm_start_mono [OF assms(2), of "Suc i" j]
        that i by cases auto
  qed
  ultimately show ?thesis
    using i unfolding p_def [symmetric] Let_def by (intro ex1I [of _ i]) blast+
qed

lemma assignment_respects_weights_witness:
  "assign (\<lambda>s. [0, 0, 0, 0, 0, 0, 0, 2]) ''alice'' sample_experiment \<in> set (xp_arms sample_experiment)"
proof -
  have "\<forall>a \<in> set (xp_arms sample_experiment). 0 \<le> arm_weight a" by (simp add: sample_experiment_def)
  from assignment_respects_weights [OF sample_experiment_made this, of "\<lambda>s. [0, 0, 0, 0, 0, 0, 0, 2]" "''alice''"]
  obtain i where "i < length (xp_arms sample_experiment)"
    "assign (\<lambda>s. [0, 0, 0, 0, 0, 0, 0, 2]) ''alice'' sample_experiment = xp_arms sample_experiment ! i"
    by (elim ex1E conjE)
  then show ?thesis by simp
qed

section \<open>A leader needs a sample\<close>

lemma compare_arms_leader:
  assumes "compare_arms results min_trades = Leader a lead"
  shows "\<exists>b \<in> set results. ar_arm b = a \<and>
    (\<forall>r \<in> set results. min_trades \<le> ar_trades r \<and> arm_expectancy_usd r \<le> arm_expectancy_usd b)"
proof -
  define ranked where "ranked = sort_key (\<lambda>r. - arm_expectancy_usd r) results"
  obtain b ru rest where r: "ranked = b # ru # rest" "ar_arm b = a"
      "filter (\<lambda>r. ar_trades r < min_trades) results = []"
    using assms by (auto simp: compare_arms_def Let_def ranked_def [symmetric]
        split: if_splits list.splits)
  have "sorted (map (\<lambda>r. - arm_expectancy_usd r) ranked)" by (simp add: ranked_def)
  then have "\<forall>r \<in> set ranked. arm_expectancy_usd r \<le> arm_expectancy_usd b" by (auto simp: r(1))
  moreover have "set ranked = set results" by (simp add: ranked_def)
  moreover have "b \<in> set ranked" by (simp add: r(1))
  ultimately show ?thesis using r(2,3) by (auto simp: filter_empty_conv not_less intro!: bexI [of _ b])
qed

end
