(* ===== verification/Sessions.thy ===== *)
theory Sessions
  imports Config Py_Text
begin

text \<open>
  \<^verbatim>\<open>services/api/session.py\<close>, \<^verbatim>\<open>services/api/deps.py\<close> and the login routes of
  \<^verbatim>\<open>services/api/routes/system.py\<close>: who may call a guarded route.  The Redis keys are
  a map of session ids to their expiry and a map of client addresses to the count of failed
  logins with its expiry; a key is gone once the clock \<open>now\<close> reaches the expiry.  The
  random session id is an argument.
\<close>

section \<open>Requests and the store\<close>

record http_request =
  rq_forwarded_for :: string       \<comment> \<open>header x-forwarded-for, empty if absent\<close>
  rq_forwarded_proto :: string
  rq_scheme :: string
  rq_client :: "string option"     \<comment> \<open>the socket address\<close>
  rq_cookie :: "string option"     \<comment> \<open>the cookie asm_session\<close>
  rq_authorization :: string

record auth_store =
  au_sessions :: "string \<rightharpoonup> datetime"
  au_attempts :: "string \<rightharpoonup> int \<times> datetime option"

definition MAX_ATTEMPTS :: int where "MAX_ATTEMPTS = 8"
definition LOCKOUT_SECONDS :: int where "LOCKOUT_SECONDS = 900"
definition ATTEMPT_WINDOW :: int where "ATTEMPT_WINDOW = 900"

definition client_ip :: "http_request \<Rightarrow> string" where
  "client_ip rq =
     (let fwd = strip (hd (split_on CHR '','' (rq_forwarded_for rq)))
      in if fwd \<noteq> [] then fwd
         else case rq_client rq of None \<Rightarrow> ''unknown'' | Some host \<Rightarrow> host)"

section \<open>The login throttle\<close>

definition used_attempts :: "string \<Rightarrow> datetime \<Rightarrow> auth_store \<Rightarrow> int" where
  "used_attempts ip now s =
     (case au_attempts s ip of None \<Rightarrow> 0
      | Some (n, None) \<Rightarrow> n
      | Some (n, Some expiry) \<Rightarrow> if now < expiry then n else 0)"

definition attempts_remaining :: "http_request \<Rightarrow> datetime \<Rightarrow> auth_store \<Rightarrow> int" where
  "attempts_remaining rq now s = max 0 (MAX_ATTEMPTS - used_attempts (client_ip rq) now s)"

text \<open>\<^verbatim>\<open>INCR\<close> keeps the expiry of a live key and starts an absent one at 1 without any.\<close>

definition incr_attempts :: "string \<Rightarrow> datetime \<Rightarrow> auth_store \<Rightarrow> int \<times> auth_store" where
  "incr_attempts ip now s =
     (let keep = (case au_attempts s ip of None \<Rightarrow> None
          | Some (n, None) \<Rightarrow> None
          | Some (n, Some expiry) \<Rightarrow> if now < expiry then Some expiry else None);
          used = used_attempts ip now s + 1
      in (used, s\<lparr>au_attempts := (au_attempts s)(ip \<mapsto> (used, keep))\<rparr>))"

definition expire_attempts :: "string \<Rightarrow> datetime \<Rightarrow> int \<Rightarrow> auth_store \<Rightarrow> auth_store" where
  "expire_attempts ip now ttl s =
     (case au_attempts s ip of None \<Rightarrow> s
      | Some (n, _) \<Rightarrow> s\<lparr>au_attempts := (au_attempts s)(ip \<mapsto> (n, Some (now + ttl * 1000000)))\<rparr>)"

definition record_login_failure :: "http_request \<Rightarrow> datetime \<Rightarrow> auth_store \<Rightarrow> int \<times> auth_store" where
  "record_login_failure rq now s =
     (let ip = client_ip rq; (used, s1) = incr_attempts ip now s;
          s2 = (if used = 1 then expire_attempts ip now ATTEMPT_WINDOW s1 else s1);
          s3 = (if MAX_ATTEMPTS \<le> used then expire_attempts ip now LOCKOUT_SECONDS s2 else s2)
      in (max 0 (MAX_ATTEMPTS - used), s3))"

definition clear_failures :: "http_request \<Rightarrow> auth_store \<Rightarrow> auth_store" where
  "clear_failures rq s = s\<lparr>au_attempts := (au_attempts s)(client_ip rq := None)\<rparr>"

section \<open>Sessions\<close>

definition is_https :: "settings \<Rightarrow> http_request \<Rightarrow> bool" where
  "is_https st rq =
     (if session_cookie_secure st then True
      else let forwarded = strip (hd (split_on CHR '','' (rq_forwarded_proto rq)))
           in if forwarded \<noteq> [] then map ascii_lower forwarded = ''https''
              else rq_scheme rq = ''https'')"

record cookie =
  ck_value :: string
  ck_max_age :: int
  ck_httponly :: bool
  ck_samesite :: string
  ck_secure :: bool

definition session_live :: "string \<Rightarrow> datetime \<Rightarrow> auth_store \<Rightarrow> bool" where
  "session_live sid now s =
     (case au_sessions s sid of None \<Rightarrow> False | Some expiry \<Rightarrow> now < expiry)"

definition expire_session :: "settings \<Rightarrow> string \<Rightarrow> datetime \<Rightarrow> auth_store \<Rightarrow> auth_store" where
  "expire_session st sid now s =
     s\<lparr>au_sessions := (au_sessions s)(sid \<mapsto> now + session_ttl_seconds st * 1000000)\<rparr>"

definition create_session ::
    "settings \<Rightarrow> string \<Rightarrow> http_request \<Rightarrow> datetime \<Rightarrow> auth_store \<Rightarrow> cookie \<times> auth_store" where
  "create_session st sid rq now s =
     (\<lparr>ck_value = sid, ck_max_age = session_ttl_seconds st, ck_httponly = True,
       ck_samesite = ''lax'', ck_secure = is_https st rq\<rparr>, expire_session st sid now s)"

definition verify_session :: "settings \<Rightarrow> http_request \<Rightarrow> datetime \<Rightarrow> auth_store \<Rightarrow> bool \<times> auth_store" where
  "verify_session st rq now s =
     (case rq_cookie rq of None \<Rightarrow> (False, s)
      | Some sid \<Rightarrow>
          if sid = [] then (False, s)
          else if \<not> session_live sid now s then (False, s)
          else (True, expire_session st sid now s))"

definition destroy_session :: "http_request \<Rightarrow> auth_store \<Rightarrow> auth_store" where
  "destroy_session rq s =
     (case rq_cookie rq of None \<Rightarrow> s
      | Some sid \<Rightarrow>
          if sid = [] then s else s\<lparr>au_sessions := (au_sessions s)(sid := None)\<rparr>)"

definition destroy_all_sessions :: "auth_store \<Rightarrow> auth_store" where
  "destroy_all_sessions s = s\<lparr>au_sessions := Map.empty\<rparr>"

text \<open>\<^verbatim>\<open>TTL\<close> in whole seconds, rounded to the nearest as Redis reports it.\<close>

definition remaining_seconds :: "http_request \<Rightarrow> datetime \<Rightarrow> auth_store \<Rightarrow> int option" where
  "remaining_seconds rq now s =
     (case rq_cookie rq of None \<Rightarrow> None
      | Some sid \<Rightarrow>
          if sid = [] \<or> \<not> session_live sid now s then None
          else let ttl = (the (au_sessions s sid) - now + 500000) div 1000000
               in if 0 < ttl then Some ttl else None)"

section \<open>Authentication\<close>

definition PLACEHOLDER_TOKEN :: string where
  "PLACEHOLDER_TOKEN = ''dev-token-change-me''"

definition token_is_valid :: "settings \<Rightarrow> string \<Rightarrow> bool" where
  "token_is_valid st token =
     (if token = [] \<or> api_token st = [] then False
      else if api_token st = PLACEHOLDER_TOKEN then False
      else token = api_token st)"

definition BEARER :: string where "BEARER = ''Bearer ''"

text \<open>\<^const>\<open>None\<close> is the 401; a bearer header is judged alone, whatever the cookie says.\<close>

definition require_token ::
    "settings \<Rightarrow> http_request \<Rightarrow> datetime \<Rightarrow> auth_store \<Rightarrow> string option \<times> auth_store" where
  "require_token st rq now s =
     (if take (length BEARER) (rq_authorization rq) = BEARER
        then let token = strip (drop (length BEARER) (rq_authorization rq))
             in (if token_is_valid st token then Some token else None, s)
      else case verify_session st rq now s of
             (ok, s') \<Rightarrow> (if ok then Some ''session'' else None, s'))"

definition login ::
    "settings \<Rightarrow> string \<Rightarrow> string \<Rightarrow> http_request \<Rightarrow> datetime \<Rightarrow> auth_store \<Rightarrow>
       nat \<times> cookie option \<times> auth_store" where
  "login st sid password rq now s =
     (if attempts_remaining rq now s \<le> 0 then (429, None, s)
      else if \<not> token_is_valid st (strip password)
        then (case record_login_failure rq now s of (left, s') \<Rightarrow> (401, None, s'))
      else case create_session st sid rq now (clear_failures rq s) of
             (ck, s') \<Rightarrow> (200, Some ck, s'))"

definition logout :: "http_request \<Rightarrow> auth_store \<Rightarrow> nat \<times> auth_store" where
  "logout rq s = (200, destroy_session rq s)"

definition revoke_all ::
    "settings \<Rightarrow> http_request \<Rightarrow> datetime \<Rightarrow> auth_store \<Rightarrow> nat \<times> auth_store" where
  "revoke_all st rq now s =
     (case require_token st rq now s of
        (None, s') \<Rightarrow> (401, s') | (Some _, s') \<Rightarrow> (200, destroy_all_sessions s'))"

definition auth_check ::
    "settings \<Rightarrow> http_request \<Rightarrow> datetime \<Rightarrow> auth_store \<Rightarrow> nat \<times> int option \<times> auth_store" where
  "auth_check st rq now s =
     (case require_token st rq now s of
        (None, s') \<Rightarrow> (401, None, s')
      | (Some _, s') \<Rightarrow> (200, remaining_seconds rq now s', s'))"

section \<open>The throttle\<close>

text \<open>One client trying wrong passwords: the responses in order.\<close>

fun try_logins ::
    "settings \<Rightarrow> http_request \<Rightarrow> (datetime \<times> string \<times> string) list \<Rightarrow> auth_store \<Rightarrow> nat list \<times> auth_store" where
  "try_logins st rq [] s = ([], s)"
| "try_logins st rq ((now, sid, password) # rest) s =
     (case login st sid password rq now s of (code, ck, s1) \<Rightarrow>
        case try_logins st rq rest s1 of (codes, s2) \<Rightarrow> (code # codes, s2))"

lemma try_logins_codes [simp]:
  "fst (try_logins st rq ((now, sid, pw) # rest) s) =
     fst (login st sid pw rq now s) #
     fst (try_logins st rq rest (snd (snd (login st sid pw rq now s))))"
  by (simp split: prod.splits)

declare try_logins.simps(2) [simp del]

lemma login_wrong:
  assumes "\<not> token_is_valid st (strip password)"
  shows "login st sid password rq now s =
    (if used_attempts (client_ip rq) now s < MAX_ATTEMPTS
       then (401, None, snd (record_login_failure rq now s)) else (429, None, s))"
  using assms by (auto simp: login_def attempts_remaining_def split: prod.splits)

text \<open>Between the first failure and its expiry a live counter holds what was used.\<close>

definition counter_at :: "string \<Rightarrow> int \<Rightarrow> datetime \<Rightarrow> auth_store \<Rightarrow> bool" where
  "counter_at ip n until s \<longleftrightarrow> (\<exists>expiry. au_attempts s ip = Some (n, Some expiry) \<and> until \<le> expiry)"

lemma counter_used: "counter_at ip n until s \<Longrightarrow> now < until \<Longrightarrow> used_attempts ip now s = n"
  by (auto simp: counter_at_def used_attempts_def)

lemma record_login_failure_first:
  assumes "used_attempts (client_ip rq) now s = 0"
  shows "counter_at (client_ip rq) 1 (now + 900000000) (snd (record_login_failure rq now s))"
  using assms
  by (auto simp: record_login_failure_def incr_attempts_def expire_attempts_def counter_at_def
      MAX_ATTEMPTS_def ATTEMPT_WINDOW_def LOCKOUT_SECONDS_def Let_def)

lemma record_login_failure_next:
  assumes "counter_at (client_ip rq) n until s" "now < until" "1 \<le> n" "until \<le> now + 900000000"
  shows "counter_at (client_ip rq) (n + 1) until (snd (record_login_failure rq now s))"
  using assms
  by (auto simp: record_login_failure_def incr_attempts_def expire_attempts_def counter_at_def
      used_attempts_def MAX_ATTEMPTS_def ATTEMPT_WINDOW_def LOCKOUT_SECONDS_def Let_def)

lemma throttled_run:
  assumes "counter_at (client_ip rq) n until s" "1 \<le> n" "n \<le> 8"
    "\<forall>(t, sid, pw) \<in> set tries. until - 900000000 \<le> t \<and> t < until \<and> \<not> token_is_valid st (strip pw)"
  shows "fst (try_logins st rq tries s) =
    replicate (min (nat (8 - n)) (length tries)) 401 @
    replicate (length tries - nat (8 - n)) 429"
  using assms
proof (induction tries arbitrary: n s)
  case (Cons att tries)
  obtain t sid pw where att: "att = (t, sid, pw)" by (cases att)
  have t: "until - 900000000 \<le> t" "t < until" "\<not> token_is_valid st (strip pw)"
    using Cons.prems(4) att by auto
  have used: "used_attempts (client_ip rq) t s = n" using counter_used [OF Cons.prems(1) t(2)] .
  show ?case
  proof (cases "n < 8")
    case True
    let ?s = "snd (record_login_failure rq t s)"
    have step: "login st sid pw rq t s = (401, None, ?s)"
      using True t(3) used by (simp add: login_wrong MAX_ATTEMPTS_def)
    have "counter_at (client_ip rq) (n + 1) until ?s"
      using record_login_failure_next Cons.prems(1,2) t by simp
    then have ih: "fst (try_logins st rq tries ?s) =
        replicate (min (nat (8 - (n + 1))) (length tries)) 401 @
        replicate (length tries - nat (8 - (n + 1))) 429"
      using Cons.IH True Cons.prems(2,4) by auto
    have "nat (8 - n) = Suc (nat (8 - (n + 1)))" using True by simp
    then show ?thesis using ih by (simp add: att step)
  next
    case False
    then have n: "n = 8" using Cons.prems(3) by simp
    have "login st sid pw rq t s = (429, None, s)"
      using n t(3) used by (simp add: login_wrong MAX_ATTEMPTS_def)
    then show ?thesis using Cons.IH [OF Cons.prems(1-3)] Cons.prems(4) n
      by (simp add: att)
  qed
qed simp

text \<open>However many wrong passwords a client tries within fifteen minutes of its first
  failure, it is told so eight times.\<close>

lemma wrong_passwords_in_window:
  assumes "au_attempts s (client_ip rq) = None"
    and "\<forall>(t, sid, pw) \<in> set ((t0, sid0, pw0) # tries).
           t0 \<le> t \<and> t < t0 + 900 * 1000000 \<and> \<not> token_is_valid st (strip pw)"
  shows "fst (try_logins st rq ((t0, sid0, pw0) # tries) s) =
    replicate (min 8 (Suc (length tries))) 401 @ replicate (Suc (length tries) - 8) 429"
proof -
  let ?s = "snd (record_login_failure rq t0 s)"
  have used: "used_attempts (client_ip rq) t0 s = 0" using assms(1) by (simp add: used_attempts_def)
  have step: "login st sid0 pw0 rq t0 s = (401, None, ?s)"
    using assms(2) used by (simp add: login_wrong MAX_ATTEMPTS_def)
  have "fst (try_logins st rq tries ?s) =
      replicate (min (nat (8 - 1)) (length tries)) 401 @
      replicate (length tries - nat (8 - 1)) 429"
    using throttled_run [OF record_login_failure_first [OF used], of tries st] assms(2) by fastforce
  moreover have "min 8 (Suc n) = Suc (min 7 n)" "Suc n - 8 = n - 7" for n :: nat by auto
  ultimately show ?thesis by (simp add: step)
qed

lemma try_logins_append:
  "try_logins st rq (xs @ ys) s =
     (case try_logins st rq xs s of (codes, s1) \<Rightarrow>
        case try_logins st rq ys s1 of (codes', s2) \<Rightarrow> (codes @ codes', s2))"
  by (induction xs arbitrary: s) (auto simp: try_logins.simps(2) split: prod.splits)

lemma counted_run:
  assumes "counter_at (client_ip rq) n until s" "1 \<le> n" "n + int (length tries) \<le> 8"
    "\<forall>(t, sid, pw) \<in> set tries. until - 900000000 \<le> t \<and> t < until \<and> \<not> token_is_valid st (strip pw)"
  shows "\<exists>s'. try_logins st rq tries s = (replicate (length tries) 401, s') \<and>
    counter_at (client_ip rq) (n + int (length tries)) until s'"
  using assms
proof (induction tries arbitrary: n s)
  case (Cons att tries)
  obtain t sid pw where att: "att = (t, sid, pw)" by (cases att)
  have t: "until - 900000000 \<le> t" "t < until" "\<not> token_is_valid st (strip pw)"
    using Cons.prems(4) att by auto
  let ?s = "snd (record_login_failure rq t s)"
  have "used_attempts (client_ip rq) t s = n" using counter_used [OF Cons.prems(1) t(2)] .
  then have step: "login st sid pw rq t s = (401, None, ?s)"
    using Cons.prems(3) t(3) by (simp add: login_wrong MAX_ATTEMPTS_def)
  have "counter_at (client_ip rq) (n + 1) until ?s"
    using record_login_failure_next Cons.prems(1,2) t by simp
  from Cons.IH [OF this] Cons.prems(2-4) show ?case
    by (auto simp: att step try_logins.simps(2) algebra_simps)
qed simp

lemma eighth_failure_locks:
  assumes "counter_at (client_ip rq) 7 until s" "now < until"
  shows "counter_at (client_ip rq) 8 (now + 900000000) (snd (record_login_failure rq now s))"
  using assms
  by (auto simp: record_login_failure_def incr_attempts_def expire_attempts_def counter_at_def
      used_attempts_def MAX_ATTEMPTS_def LOCKOUT_SECONDS_def Let_def)

lemma locked_run:
  assumes "counter_at (client_ip rq) 8 until s" "\<forall>(t, sid, pw) \<in> set tries. t < until"
  shows "try_logins st rq tries s = (replicate (length tries) 429, s)"
  using assms(2)
  by (induction tries)
    (auto simp: try_logins.simps(2) login_def attempts_remaining_def MAX_ATTEMPTS_def
      counter_used [OF assms(1)])

text \<open>
  C28. Eight wrong passwords within fifteen minutes are each answered 401, and lock the client out:
  for fifteen minutes after the eighth every attempt is answered 429, the right password included.
\<close>

theorem wrong_passwords_locked_out:
  assumes "au_attempts s (client_ip rq) = None" and "length mid = 6"
    and "\<forall>(t, sid, pw) \<in> set ((t0, sid0, pw0) # mid @ [(t8, sid8, pw8)]).
           t0 \<le> t \<and> t < t0 + 900 * 1000000 \<and> \<not> token_is_valid st (strip pw)"
    and "\<forall>(t, sid, pw) \<in> set later. t < t8 + 900 * 1000000"
  shows "fst (try_logins st rq (((t0, sid0, pw0) # mid @ [(t8, sid8, pw8)]) @ later) s) =
    replicate 8 401 @ replicate (length later) 429"
proof -
  let ?s1 = "snd (record_login_failure rq t0 s)"
  have used: "used_attempts (client_ip rq) t0 s = 0" using assms(1) by (simp add: used_attempts_def)
  have first: "login st sid0 pw0 rq t0 s = (401, None, ?s1)"
    using assms(3) used by (simp add: login_wrong MAX_ATTEMPTS_def)
  obtain s7 where s7: "try_logins st rq mid ?s1 = (replicate 6 401, s7)"
      "counter_at (client_ip rq) 7 (t0 + 900000000) s7"
    using counted_run [OF record_login_failure_first [OF used], of mid st] assms(2,3) by fastforce
  let ?s8 = "snd (record_login_failure rq t8 s7)"
  have t8: "t8 < t0 + 900000000" "\<not> token_is_valid st (strip pw8)" using assms(3) by auto
  have eighth: "login st sid8 pw8 rq t8 s7 = (401, None, ?s8)"
    using counter_used [OF s7(2) t8(1)] t8(2) by (simp add: login_wrong MAX_ATTEMPTS_def)
  have "try_logins st rq later ?s8 = (replicate (length later) 429, ?s8)"
    using locked_run [OF eighth_failure_locks [OF s7(2) t8(1)], of later] assms(4) by simp
  then show ?thesis
    by (simp add: try_logins.simps(2) try_logins_append first s7(1) eighth eval_nat_numeral)
qed

definition sample_request :: http_request where
  "sample_request = \<lparr>rq_forwarded_for = [], rq_forwarded_proto = [], rq_scheme = ''http'',
     rq_client = Some ''10.0.0.9'', rq_cookie = Some ''sid'', rq_authorization = []\<rparr>"

definition empty_auth :: auth_store where
  "empty_auth = \<lparr>au_sessions = Map.empty, au_attempts = Map.empty\<rparr>"

lemma no_password_by_default: "\<not> token_is_valid default_settings x"
  by (simp add: token_is_valid_def default_settings_def PLACEHOLDER_TOKEN_def)

definition owned_settings :: settings where
  "owned_settings = default_settings\<lparr>api_token := ''right''\<rparr>"

lemma owned_tokens:
  "token_is_valid owned_settings (strip ''right'')" "\<not> token_is_valid owned_settings (strip ''guess'')"
  by code_simp+

lemma wrong_passwords_locked_out_witness:
  "token_is_valid owned_settings (strip ''right'') \<and>
   fst (try_logins owned_settings sample_request
      (((0, ''a'', ''guess'') # replicate 6 (1000000, ''a'', ''guess'') @ [(800000000, ''a'', ''guess'')]) @
        [(900000000, ''a'', ''right''), (1699999999, ''a'', ''right'')]) empty_auth) =
    replicate 8 401 @ replicate (length [(900000000, ''a'', ''right''), (1699999999 :: int, ''a'', ''right'')]) 429"
  by (intro conjI owned_tokens wrong_passwords_locked_out)
    (simp_all add: empty_auth_def owned_tokens del: try_logins_codes)

text \<open>
  The throttle counts per address, and the address is whatever the caller writes into
  \<^verbatim>\<open>x-forwarded-for\<close>: a guess under a new header is always checked.  Bearer tokens
  are not counted at all.
\<close>

lemma fresh_header_not_throttled:
  assumes "au_attempts s (client_ip rq) = None" "\<not> token_is_valid st (strip pw)"
  shows "fst (login st sid pw rq now s) = 401"
  using assms by (simp add: login_wrong used_attempts_def MAX_ATTEMPTS_def)

lemma bearer_guess_not_counted:
  assumes "take (length BEARER) (rq_authorization rq) = BEARER"
  shows "snd (require_token st rq now s) = s"
  using assms by (simp add: require_token_def Let_def)

section \<open>Who gets in\<close>

datatype auth_event =
    Ev_login string string http_request datetime   \<comment> \<open>the session id drawn, the password\<close>
  | Ev_guarded http_request datetime
  | Ev_logout http_request
  | Ev_revoke_all http_request datetime

definition auth_step :: "settings \<Rightarrow> auth_event \<Rightarrow> auth_store \<Rightarrow> bool \<times> auth_store" where
  "auth_step st e s = (case e of
       Ev_login sid pw rq now \<Rightarrow>
         (case login st sid pw rq now s of (code, ck, s') \<Rightarrow> (code = 200, s'))
     | Ev_guarded rq now \<Rightarrow>
         (case require_token st rq now s of (who, s') \<Rightarrow> (who \<noteq> None, s'))
     | Ev_logout rq \<Rightarrow> (case logout rq s of (code, s') \<Rightarrow> (code = 200, s'))
     | Ev_revoke_all rq now \<Rightarrow> (case revoke_all st rq now s of (code, s') \<Rightarrow> (code = 200, s')))"

fun run_auth :: "settings \<Rightarrow> auth_event list \<Rightarrow> auth_store \<Rightarrow> bool list \<times> auth_store" where
  "run_auth st [] s = ([], s)"
| "run_auth st (e # es) s =
     (case auth_step st e s of (ok, s1) \<Rightarrow>
        case run_auth st es s1 of (oks, s2) \<Rightarrow> (ok # oks, s2))"

definition issued_by :: "settings \<Rightarrow> auth_event \<Rightarrow> string set" where
  "issued_by st e = (case e of
       Ev_login sid pw rq now \<Rightarrow> if token_is_valid st (strip pw) then {sid} else {}
     | _ \<Rightarrow> {})"

definition bearer_token :: "http_request \<Rightarrow> string option" where
  "bearer_token rq =
     (if take (length BEARER) (rq_authorization rq) = BEARER
        then Some (strip (drop (length BEARER) (rq_authorization rq))) else None)"

lemma expire_attempts_sessions [simp]: "au_sessions (expire_attempts ip now ttl s) = au_sessions s"
  by (auto simp: expire_attempts_def split: option.splits)

lemma record_login_failure_sessions:
  "record_login_failure rq now s = (left, s') \<Longrightarrow> au_sessions s' = au_sessions s"
  by (auto simp: record_login_failure_def incr_attempts_def Let_def split: if_splits)

lemma verify_session_sessions:
  "verify_session st rq now s = (ok, s') \<Longrightarrow> dom (au_sessions s') = dom (au_sessions s)"
  by (auto simp: verify_session_def session_live_def expire_session_def
      split: option.splits if_splits)

lemma verify_session_ok:
  "verify_session st rq now s = (True, s') \<Longrightarrow> \<exists>sid. rq_cookie rq = Some sid \<and> sid \<in> dom (au_sessions s)"
  by (auto simp: verify_session_def session_live_def split: option.splits if_splits)

lemma require_token_sessions: "dom (au_sessions (snd (require_token st rq now s))) = dom (au_sessions s)"
  using verify_session_sessions [of st rq now s]
  by (auto simp: require_token_def Let_def split: prod.splits)

lemma login_sessions:
  "dom (au_sessions (snd (snd (login st sid pw rq now s)))) \<subseteq>
     dom (au_sessions s) \<union> (if token_is_valid st (strip pw) then {sid} else {})"
  by (auto simp: login_def create_session_def expire_session_def clear_failures_def
      split: prod.splits if_splits dest: record_login_failure_sessions)

lemma auth_step_sessions:
  assumes "auth_step st e s = (ok, s')"
  shows "dom (au_sessions s') \<subseteq> dom (au_sessions s) \<union> issued_by st e"
proof (cases e)
  case (Ev_login sid pw rq now)
  then show ?thesis using assms login_sessions [of st sid pw rq now s] by (auto simp: auth_step_def issued_by_def split: prod.splits)
next
  case (Ev_guarded rq now)
  then show ?thesis using assms require_token_sessions [of st rq now s] by (auto simp: auth_step_def split: prod.splits)
next
  case (Ev_logout rq)
  then show ?thesis using assms
    by (auto simp: auth_step_def logout_def destroy_session_def split: option.splits if_splits)
next
  case (Ev_revoke_all rq now)
  then show ?thesis using assms require_token_sessions [of st rq now s]
    by (auto simp: auth_step_def revoke_all_def destroy_all_sessions_def
        split: prod.splits option.splits)
qed

lemma token_is_valid_iff:
  "token_is_valid st token \<longleftrightarrow>
     token = api_token st \<and> token \<noteq> [] \<and> token \<noteq> PLACEHOLDER_TOKEN"
  by (auto simp: token_is_valid_def)

lemma issued_byD:
  "sid \<in> issued_by st e \<Longrightarrow>
     \<exists>pw rq now. e = Ev_login sid pw rq now \<and> token_is_valid st (strip pw)"
  by (auto simp: issued_by_def split: auth_event.splits if_splits)

text \<open>
  C29. A guarded route answers only a caller that sends the configured token or one that holds the
  cookie of a session issued to a login with that token; and with the shipped placeholder
  nobody gets in at all.
\<close>

theorem access_needs_token:
  assumes "(Ev_guarded rq now, True) \<in> set (zip evs (fst (run_auth st evs s)))"
    and "au_sessions s = Map.empty"
  shows "api_token st \<noteq> PLACEHOLDER_TOKEN \<and> api_token st \<noteq> [] \<and>
    (bearer_token rq = Some (api_token st) \<or>
     (\<exists>sid pw rq' now'. Ev_login sid pw rq' now' \<in> set evs \<and> strip pw = api_token st \<and>
        rq_cookie rq = Some sid))"
proof -
  have "token_is_valid st (the (bearer_token rq)) \<and> bearer_token rq \<noteq> None \<or>
      (\<exists>sid. rq_cookie rq = Some sid \<and>
         sid \<in> dom (au_sessions s) \<union> (\<Union>e \<in> set evs. issued_by st e))"
    if "(Ev_guarded rq now, True) \<in> set (zip evs (fst (run_auth st evs s)))" for s
    using that
  proof (induction evs arbitrary: s)
    case (Cons e es)
    obtain ok s1 where step: "auth_step st e s = (ok, s1)" by force
    show ?case
    proof (cases "Ev_guarded rq now = e \<and> ok")
      case True
      then show ?thesis using step verify_session_ok [of st rq now s]
        by (auto simp: auth_step_def require_token_def bearer_token_def Let_def
            split: prod.splits if_splits)
    next
      case False
      then have "(Ev_guarded rq now, True) \<in> set (zip es (fst (run_auth st es s1)))"
        using Cons.prems step by (auto split: prod.splits)
      note ih = Cons.IH [OF this]
      have "dom (au_sessions s1) \<union> (\<Union>e \<in> set es. issued_by st e) \<subseteq>
          dom (au_sessions s) \<union> (\<Union>e' \<in> set (e # es). issued_by st e')"
        using auth_step_sessions [OF step] by auto
      then show ?thesis using ih by (meson subsetD)
    qed
  qed simp
  from this [OF assms(1)] show ?thesis
  proof (elim disjE exE conjE)
    assume "token_is_valid st (the (bearer_token rq))" "bearer_token rq \<noteq> None"
    then show ?thesis by (auto simp: token_is_valid_iff)
  next
    fix sid assume sid: "rq_cookie rq = Some sid"
      "sid \<in> dom (au_sessions s) \<union> (\<Union>e \<in> set evs. issued_by st e)"
    then obtain e where "e \<in> set evs" "sid \<in> issued_by st e" using assms(2) by auto
    then show ?thesis using issued_byD [of sid st e] sid(1) by (auto simp: token_is_valid_iff)
  qed
qed

definition secured_settings :: settings where
  "secured_settings = default_settings\<lparr>api_token := ''correct horse''\<rparr>"

lemma access_needs_token_witness:
  "\<exists>sid pw rq' now'. Ev_login sid pw rq' now' \<in>
     set [Ev_login ''sid'' '' correct horse '' sample_request 0, Ev_guarded sample_request 1000000] \<and>
     strip pw = api_token secured_settings \<and> rq_cookie sample_request = Some sid"
proof -
  let ?evs = "[Ev_login ''sid'' '' correct horse '' sample_request 0, Ev_guarded sample_request 1000000]"
  have "fst (run_auth secured_settings ?evs empty_auth) = [True, True]"
    by code_simp
  then have "(Ev_guarded sample_request 1000000, True) \<in>
      set (zip ?evs (fst (run_auth secured_settings ?evs empty_auth)))" by simp
  from access_needs_token [OF this] show ?thesis
    by (simp add: empty_auth_def bearer_token_def sample_request_def BEARER_def)
qed

text \<open>An idle session ends after its time to live, a used one is extended.\<close>

lemma session_slides:
  assumes "verify_session st rq now s = (True, s')"
  shows "\<exists>sid. rq_cookie rq = Some sid \<and>
    (\<forall>later. session_live sid later s' \<longleftrightarrow> later < now + session_ttl_seconds st * 1000000)"
  using assms by (auto simp: verify_session_def session_live_def expire_session_def
      split: option.splits if_splits)

lemma revoked_sessions_end: "fst (verify_session st rq now (destroy_all_sessions s)) = False"
  by (auto simp: verify_session_def session_live_def destroy_all_sessions_def split: option.splits)

end
