(* ===== verification/Runtime_Config.thy ===== *)
theory Runtime_Config
  imports Config Py_Text
begin

text \<open>
  \<^verbatim>\<open>runtime_config.py\<close> and the routes of \<^verbatim>\<open>api/routes/config.py\<close>: the settings
  an operator may change while the services run.  Every service is a process with a settings
  object of its own; the table \<^verbatim>\<open>strategy_configs\<close> holds the saved values and Redis a
  copy of them.  A saved value is the text \<^verbatim>\<open>str(v)\<close> of a number \<open>v\<close>
  (\<open>Text_of\<close>, which the \<^verbatim>\<open>Decimal\<close> constructor reads back as \<open>v\<close>) or any
  other text that found its way into the store.
\<close>

section \<open>The fields\<close>

datatype config_section = SEC_root | SEC_risk | SEC_copyability
datatype config_kind = KIND_decimal | KIND_int

datatype config_attr =
    A_starting_capital_usd
  | A_gmgn_min_realized_usd
  | A_gmgn_min_balance_sol
  | A_gmgn_max_balance_sol
  | A_gmgn_max_trades_per_day
  | A_target_roster_size
  | A_base_position_pct
  | A_max_position_pct
  | A_min_position_usd
  | A_max_daily_loss_pct
  | A_max_drawdown_pct
  | A_max_portfolio_deployed_pct
  | A_stop_loss_pct
  | A_trailing_stop_pct
  | A_trailing_arm_pct
  | A_harvest_threshold_pct
  | A_harvest_take_pct
  | A_min_liquidity_usd
  | A_max_expected_slippage_pct
  | A_min_token_age_seconds
  | A_max_open_positions
  | A_min_trader_score
  | A_price_move_caution_pct

text \<open>\<^verbatim>\<open>getattr\<close> and \<^verbatim>\<open>setattr\<close> on \<^verbatim>\<open>_target(field)\<close>; four of the fields hold an \<^verbatim>\<open>int\<close>.\<close>

fun attr_get :: "config_attr \<Rightarrow> settings \<Rightarrow> rat" where
  "attr_get A_starting_capital_usd s = starting_capital_usd s"
| "attr_get A_gmgn_min_realized_usd s = gmgn_min_realized_usd s"
| "attr_get A_gmgn_min_balance_sol s = gmgn_min_balance_sol s"
| "attr_get A_gmgn_max_balance_sol s = gmgn_max_balance_sol s"
| "attr_get A_gmgn_max_trades_per_day s = of_int (gmgn_max_trades_per_day s)"
| "attr_get A_target_roster_size s = of_int (target_roster_size s)"
| "attr_get A_base_position_pct s = base_position_pct (risk s)"
| "attr_get A_max_position_pct s = max_position_pct (risk s)"
| "attr_get A_min_position_usd s = min_position_usd (risk s)"
| "attr_get A_max_daily_loss_pct s = max_daily_loss_pct (risk s)"
| "attr_get A_max_drawdown_pct s = max_drawdown_pct (risk s)"
| "attr_get A_max_portfolio_deployed_pct s = max_portfolio_deployed_pct (risk s)"
| "attr_get A_stop_loss_pct s = stop_loss_pct (risk s)"
| "attr_get A_trailing_stop_pct s = trailing_stop_pct (risk s)"
| "attr_get A_trailing_arm_pct s = trailing_arm_pct (risk s)"
| "attr_get A_harvest_threshold_pct s = harvest_threshold_pct (risk s)"
| "attr_get A_harvest_take_pct s = harvest_take_pct (risk s)"
| "attr_get A_min_liquidity_usd s = min_liquidity_usd (copyability s)"
| "attr_get A_max_expected_slippage_pct s = max_expected_slippage_pct (copyability s)"
| "attr_get A_min_token_age_seconds s = of_int (min_token_age_seconds (copyability s))"
| "attr_get A_max_open_positions s = of_int (max_open_positions (copyability s))"
| "attr_get A_min_trader_score s = min_trader_score (copyability s)"
| "attr_get A_price_move_caution_pct s = price_move_caution_pct (copyability s)"

fun attr_set :: "config_attr \<Rightarrow> rat \<Rightarrow> settings \<Rightarrow> settings" where
  "attr_set A_starting_capital_usd v s = s\<lparr>starting_capital_usd := v\<rparr>"
| "attr_set A_gmgn_min_realized_usd v s = s\<lparr>gmgn_min_realized_usd := v\<rparr>"
| "attr_set A_gmgn_min_balance_sol v s = s\<lparr>gmgn_min_balance_sol := v\<rparr>"
| "attr_set A_gmgn_max_balance_sol v s = s\<lparr>gmgn_max_balance_sol := v\<rparr>"
| "attr_set A_gmgn_max_trades_per_day v s = s\<lparr>gmgn_max_trades_per_day := \<lfloor>v\<rfloor>\<rparr>"
| "attr_set A_target_roster_size v s = s\<lparr>target_roster_size := \<lfloor>v\<rfloor>\<rparr>"
| "attr_set A_base_position_pct v s = s\<lparr>risk := (risk s)\<lparr>base_position_pct := v\<rparr>\<rparr>"
| "attr_set A_max_position_pct v s = s\<lparr>risk := (risk s)\<lparr>max_position_pct := v\<rparr>\<rparr>"
| "attr_set A_min_position_usd v s = s\<lparr>risk := (risk s)\<lparr>min_position_usd := v\<rparr>\<rparr>"
| "attr_set A_max_daily_loss_pct v s = s\<lparr>risk := (risk s)\<lparr>max_daily_loss_pct := v\<rparr>\<rparr>"
| "attr_set A_max_drawdown_pct v s = s\<lparr>risk := (risk s)\<lparr>max_drawdown_pct := v\<rparr>\<rparr>"
| "attr_set A_max_portfolio_deployed_pct v s = s\<lparr>risk := (risk s)\<lparr>max_portfolio_deployed_pct := v\<rparr>\<rparr>"
| "attr_set A_stop_loss_pct v s = s\<lparr>risk := (risk s)\<lparr>stop_loss_pct := v\<rparr>\<rparr>"
| "attr_set A_trailing_stop_pct v s = s\<lparr>risk := (risk s)\<lparr>trailing_stop_pct := v\<rparr>\<rparr>"
| "attr_set A_trailing_arm_pct v s = s\<lparr>risk := (risk s)\<lparr>trailing_arm_pct := v\<rparr>\<rparr>"
| "attr_set A_harvest_threshold_pct v s = s\<lparr>risk := (risk s)\<lparr>harvest_threshold_pct := v\<rparr>\<rparr>"
| "attr_set A_harvest_take_pct v s = s\<lparr>risk := (risk s)\<lparr>harvest_take_pct := v\<rparr>\<rparr>"
| "attr_set A_min_liquidity_usd v s = s\<lparr>copyability := (copyability s)\<lparr>min_liquidity_usd := v\<rparr>\<rparr>"
| "attr_set A_max_expected_slippage_pct v s = s\<lparr>copyability := (copyability s)\<lparr>max_expected_slippage_pct := v\<rparr>\<rparr>"
| "attr_set A_min_token_age_seconds v s = s\<lparr>copyability := (copyability s)\<lparr>min_token_age_seconds := \<lfloor>v\<rfloor>\<rparr>\<rparr>"
| "attr_set A_max_open_positions v s = s\<lparr>copyability := (copyability s)\<lparr>max_open_positions := \<lfloor>v\<rfloor>\<rparr>\<rparr>"
| "attr_set A_min_trader_score v s = s\<lparr>copyability := (copyability s)\<lparr>min_trader_score := v\<rparr>\<rparr>"
| "attr_set A_price_move_caution_pct v s = s\<lparr>copyability := (copyability s)\<lparr>price_move_caution_pct := v\<rparr>\<rparr>"

record config_field =
  fd_key :: string
  fd_section :: config_section
  fd_attr :: config_attr
  fd_kind :: config_kind
  fd_lo :: rat
  fd_hi :: rat
  fd_danger :: bool

definition mk_field ::
    "string \<Rightarrow> config_section \<Rightarrow> config_attr \<Rightarrow> config_kind \<Rightarrow> rat \<Rightarrow> rat \<Rightarrow> bool \<Rightarrow> config_field" where
  "mk_field k sec a kind lo hi danger = \<lparr>fd_key = k, fd_section = sec, fd_attr = a,
     fd_kind = kind, fd_lo = lo, fd_hi = hi, fd_danger = danger\<rparr>"

definition FIELDS :: "config_field list" where
  "FIELDS = [
     mk_field ''starting_capital_usd'' SEC_root A_starting_capital_usd KIND_decimal 10 10000000 False,
     mk_field ''gmgn_min_realized_usd'' SEC_root A_gmgn_min_realized_usd KIND_decimal 0 100000000 False,
     mk_field ''gmgn_min_balance_sol'' SEC_root A_gmgn_min_balance_sol KIND_decimal 0 100000 False,
     mk_field ''gmgn_max_balance_sol'' SEC_root A_gmgn_max_balance_sol KIND_decimal 0 1000000 False,
     mk_field ''gmgn_max_trades_per_day'' SEC_root A_gmgn_max_trades_per_day KIND_int 1 100000 True,
     mk_field ''target_roster_size'' SEC_root A_target_roster_size KIND_int 1 100 False,
     mk_field ''base_position_pct'' SEC_risk A_base_position_pct KIND_decimal (1/20) 50 False,
     mk_field ''max_position_pct'' SEC_risk A_max_position_pct KIND_decimal (1/10) 50 True,
     mk_field ''min_position_usd'' SEC_risk A_min_position_usd KIND_decimal 1 10000 False,
     mk_field ''max_daily_loss_pct'' SEC_risk A_max_daily_loss_pct KIND_decimal (1/2) 50 True,
     mk_field ''max_drawdown_pct'' SEC_risk A_max_drawdown_pct KIND_decimal 1 90 True,
     mk_field ''max_portfolio_deployed_pct'' SEC_risk A_max_portfolio_deployed_pct KIND_decimal 5 100 False,
     mk_field ''stop_loss_pct'' SEC_risk A_stop_loss_pct KIND_decimal (-95) (-1) True,
     mk_field ''trailing_stop_pct'' SEC_risk A_trailing_stop_pct KIND_decimal 1 90 False,
     mk_field ''trailing_arm_pct'' SEC_risk A_trailing_arm_pct KIND_decimal 1 500 False,
     mk_field ''harvest_threshold_pct'' SEC_risk A_harvest_threshold_pct KIND_decimal 1 500 False,
     mk_field ''harvest_take_pct'' SEC_risk A_harvest_take_pct KIND_decimal 1 100 False,
     mk_field ''min_liquidity_usd'' SEC_copyability A_min_liquidity_usd KIND_decimal 500 100000000 False,
     mk_field ''max_expected_slippage_pct'' SEC_copyability A_max_expected_slippage_pct KIND_decimal (1/10) 50 False,
     mk_field ''min_token_age_seconds'' SEC_copyability A_min_token_age_seconds KIND_int 0 2592000 False,
     mk_field ''max_open_positions'' SEC_copyability A_max_open_positions KIND_int 1 200 False,
     mk_field ''min_trader_score'' SEC_copyability A_min_trader_score KIND_decimal 0 100 False,
     mk_field ''price_move_caution_pct'' SEC_copyability A_price_move_caution_pct KIND_decimal (1/10) 100 False]"

definition field_by_key :: "string \<Rightarrow> config_field option" where
  "field_by_key k = find (\<lambda>f. fd_key f = k) FIELDS"

section \<open>Reading a value\<close>

datatype stored_text = Text_of rat | Raw_text string

datatype config_error =
    Not_a_number
  | Out_of_range
  | Unknown_setting
  | Invalid_operation     \<comment> \<open>a NaN in an ordering comparison\<close>
  | Attribute_error       \<comment> \<open>the stored JSON is not an object\<close>
  | Database_error

definition parse_raw :: "stored_text \<Rightarrow> decimal_value option" where
  "parse_raw raw = (case raw of Text_of v \<Rightarrow> Some (Dec_num v)
     | Raw_text t \<Rightarrow> decimal_of_text (strip (rstrip_chars ''%$'' (strip t))))"

definition coerce :: "config_field \<Rightarrow> stored_text \<Rightarrow> config_error + rat" where
  "coerce f raw =
     (case parse_raw raw of
        None \<Rightarrow> Inl Not_a_number
      | Some Dec_nan \<Rightarrow> Inl Invalid_operation
      | Some (Dec_inf neg) \<Rightarrow> Inl Out_of_range
      | Some (Dec_num v) \<Rightarrow>
          if \<not> (fd_lo f \<le> v \<and> v \<le> fd_hi f) then Inl Out_of_range
          else Inr (if fd_kind f = KIND_int then of_int (trunc_int v) else v))"

section \<open>Processes and the shared store\<close>

type_synonym stored_config = "stored_text pydict"

datatype cached_config = Cached stored_config | Other_json | Not_json

record config_store =
  cst_row :: "stored_config option"      \<comment> \<open>the row runtime/current of strategy_configs\<close>
  cst_cache :: "cached_config option"    \<comment> \<open>the Redis key\<close>
  cst_db_up :: bool
  cst_audit :: "(string \<times> string) list"

record config_process =
  cp_settings :: settings
  cp_last_refresh :: rat                 \<comment> \<open>seconds of the monotonic clock\<close>

definition REFRESH_SECONDS :: rat where
  "REFRESH_SECONDS = 5"

text \<open>\<^const>\<open>None\<close> is a stored document that is not an object: the callers fail on it.\<close>

definition stored_cache :: "config_store \<Rightarrow> stored_config option" where
  "stored_cache st = (case cst_cache st of
       None \<Rightarrow> Some [] | Some (Cached m) \<Rightarrow> Some m
     | Some Not_json \<Rightarrow> Some [] | Some Other_json \<Rightarrow> None)"

definition load_stored :: "config_store \<Rightarrow> stored_config option" where
  "load_stored st =
     (if \<not> cst_db_up st then stored_cache st
      else case cst_row st of None \<Rightarrow> stored_cache st
           | Some m \<Rightarrow> if m = [] then stored_cache st else Some m)"

definition save_stored ::
    "stored_config \<Rightarrow> string \<Rightarrow> config_store \<Rightarrow> config_error + config_store" where
  "save_stored values actor st =
     (if \<not> cst_db_up st then Inl Database_error
      else Inr (st\<lparr>cst_row := Some values, cst_cache := Some (Cached values),
                   cst_audit := cst_audit st @ [(actor, ''config_changed'')]\<rparr>))"

section \<open>Operations\<close>

fun validate_changes :: "stored_config \<Rightarrow> config_error + (config_field \<times> rat) list" where
  "validate_changes [] = Inr []"
| "validate_changes ((k, raw) # cs) =
     (case field_by_key k of
        None \<Rightarrow> Inl Unknown_setting
      | Some f \<Rightarrow> (case coerce f raw of
          Inl e \<Rightarrow> Inl e
        | Inr v \<Rightarrow> (case validate_changes cs of
            Inl e \<Rightarrow> Inl e | Inr vs \<Rightarrow> Inr ((f, v) # vs))))"

definition set_fields :: "(config_field \<times> rat) list \<Rightarrow> settings \<Rightarrow> settings" where
  "set_fields vs s = fold (\<lambda>(f, v). attr_set (fd_attr f) v) vs s"

definition merge_stored :: "(config_field \<times> rat) list \<Rightarrow> stored_config \<Rightarrow> stored_config" where
  "merge_stored vs m = fold (\<lambda>(f, v). AList.update (fd_key f) (Text_of v)) vs m"

definition apply_changes ::
    "stored_config \<Rightarrow> string \<Rightarrow> config_process \<Rightarrow> config_store \<Rightarrow>
       (config_error + (config_field \<times> rat) list) \<times> config_process \<times> config_store" where
  "apply_changes changes actor p st =
     (case validate_changes changes of
        Inl e \<Rightarrow> (Inl e, p, st)
      | Inr vs \<Rightarrow> (case load_stored st of
          None \<Rightarrow> (Inl Attribute_error, p, st)
        | Some stored \<Rightarrow> (case save_stored (merge_stored vs stored) actor st of
            Inl e \<Rightarrow> (Inl e, p, st)
          | Inr st' \<Rightarrow> (Inr vs, p\<lparr>cp_settings := set_fields vs (cp_settings p)\<rparr>, st'))))"

definition reset_fields :: "settings \<Rightarrow> settings \<Rightarrow> settings" where
  "reset_fields shipped s =
     fold (\<lambda>f s. if fd_section f = SEC_root then s
                 else attr_set (fd_attr f) (attr_get (fd_attr f) shipped) s) FIELDS s"

text \<open>
  \<open>shipped\<close> carries the sections a new \<^verbatim>\<open>RiskConfig()\<close> and
  \<^verbatim>\<open>CopyabilityConfig()\<close> come up with.  The cache is deleted before the row.
\<close>

definition reset_config ::
    "settings \<Rightarrow> string \<Rightarrow> config_process \<Rightarrow> config_store \<Rightarrow>
       config_error option \<times> config_process \<times> config_store" where
  "reset_config shipped actor p st =
     (let st1 = st\<lparr>cst_cache := None\<rparr>
      in if \<not> cst_db_up st1 then (Some Database_error, p, st1)
         else (None, p\<lparr>cp_settings := reset_fields shipped (cp_settings p)\<rparr>,
               st1\<lparr>cst_row := None,
                   cst_audit := cst_audit st1 @ [(actor, ''config_reset'')]\<rparr>))"

text \<open>The loop of \<^verbatim>\<open>refresh\<close>: an unknown key is skipped, a bad value ends it.\<close>

fun install_stored :: "stored_config \<Rightarrow> settings \<Rightarrow> settings" where
  "install_stored [] s = s"
| "install_stored ((k, raw) # rest) s =
     (case field_by_key k of
        None \<Rightarrow> install_stored rest s
      | Some f \<Rightarrow> (case coerce f raw of
          Inl _ \<Rightarrow> s
        | Inr v \<Rightarrow> install_stored rest (attr_set (fd_attr f) v s)))"

definition refresh :: "bool \<Rightarrow> rat \<Rightarrow> config_store \<Rightarrow> config_process \<Rightarrow> config_process" where
  "refresh force now st p =
     (if \<not> force \<and> now - cp_last_refresh p < REFRESH_SECONDS then p
      else let p1 = p\<lparr>cp_last_refresh := now\<rparr>
           in case (if force then load_stored st else stored_cache st) of
                None \<Rightarrow> p1
              | Some values \<Rightarrow> p1\<lparr>cp_settings := install_stored values (cp_settings p1)\<rparr>)"

text \<open>The routes: the status of the response, 500 for an exception that is not a ConfigError.\<close>

definition config_status :: "config_error \<Rightarrow> nat" where
  "config_status e =
     (if e = Not_a_number \<or> e = Out_of_range \<or> e = Unknown_setting then 400 else 500)"

definition update_config ::
    "stored_config \<Rightarrow> config_process \<Rightarrow> config_store \<Rightarrow> nat \<times> config_process \<times> config_store" where
  "update_config changes p st =
     (if changes = [] then (400, p, st)
      else case apply_changes changes ''api'' p st of
             (Inl e, p', st') \<Rightarrow> (config_status e, p', st')
           | (Inr _, p', st') \<Rightarrow> (200, p', st'))"

definition current_config :: "settings \<Rightarrow> (string \<times> rat \<times> rat \<times> rat) list" where
  "current_config s = map (\<lambda>f. (fd_key f, attr_get (fd_attr f) s, fd_lo f, fd_hi f)) FIELDS"

definition get_config ::
    "rat \<Rightarrow> config_store \<Rightarrow> config_process \<Rightarrow>
       (config_section \<times> (string \<times> rat \<times> rat \<times> rat) list) list \<times> config_process" where
  "get_config now st p =
     (let p' = refresh True now st p;
          of_section = (\<lambda>sec. map fst (filter (\<lambda>(x, f). fd_section f = sec)
                                 (zip (current_config (cp_settings p')) FIELDS)))
      in (filter (\<lambda>(sec, xs). xs \<noteq> [])
            (map (\<lambda>sec. (sec, of_section sec)) [SEC_root, SEC_risk, SEC_copyability]), p'))"

section \<open>Fields and attributes\<close>

lemma attr_get_other: "a \<noteq> b \<Longrightarrow> attr_get a (attr_set b v s) = attr_get a s"
  by (cases a; cases b) simp_all

definition int_attr :: "config_attr \<Rightarrow> bool" where
  "int_attr a \<longleftrightarrow> a \<in> {A_gmgn_max_trades_per_day, A_target_roster_size,
      A_min_token_age_seconds, A_max_open_positions}"

lemma attr_get_same: "attr_get a (attr_set a v s) = (if int_attr a then of_int \<lfloor>v\<rfloor> else v)"
  by (cases a) (simp_all add: int_attr_def)

lemma fields_int_attr: "f \<in> set FIELDS \<Longrightarrow> fd_kind f = KIND_int \<longleftrightarrow> int_attr (fd_attr f)"
  by (auto simp: FIELDS_def mk_field_def int_attr_def)

lemma fields_attr_inj: "distinct (map fd_attr FIELDS)"
  by (simp add: FIELDS_def mk_field_def)

lemma fields_key_inj: "distinct (map fd_key FIELDS)"
  by (simp add: FIELDS_def mk_field_def)

lemma field_by_key_mem: "field_by_key k = Some f \<Longrightarrow> f \<in> set FIELDS \<and> fd_key f = k"
  by (auto simp: field_by_key_def find_Some_iff)

lemma int_field_bounds:
  "list_all (\<lambda>f. fd_kind f = KIND_int \<longrightarrow> fd_lo f = of_int \<lfloor>fd_lo f\<rfloor> \<and>
     fd_hi f = of_int \<lfloor>fd_hi f\<rfloor> \<and> 0 \<le> \<lfloor>fd_lo f\<rfloor>) FIELDS"
  by (simp add: FIELDS_def mk_field_def)

lemma coerce_range:
  assumes "coerce f raw = Inr v" "f \<in> set FIELDS"
  shows "fd_lo f \<le> v \<and> v \<le> fd_hi f \<and> (fd_kind f = KIND_int \<longrightarrow> of_int \<lfloor>v\<rfloor> = v)"
proof -
  obtain x where x: "fd_lo f \<le> x" "x \<le> fd_hi f"
      "v = (if fd_kind f = KIND_int then of_int (trunc_int x) else x)"
    using assms(1) by (auto simp: coerce_def split: option.splits decimal_value.splits if_splits)
  show ?thesis
  proof (cases "fd_kind f = KIND_int")
    case True
    then obtain i j where ij: "fd_lo f = of_int i" "fd_hi f = of_int j" "0 \<le> i"
    proof -
      note b = bspec [OF int_field_bounds [unfolded list_all_iff] assms(2), rule_format, OF True]
      show thesis using that [OF conjunct1 [OF b] conjunct1 [OF conjunct2 [OF b]]
          conjunct2 [OF conjunct2 [OF b]]] .
    qed
    have "0 \<le> fd_lo f" using ij(1,3) by simp
    then have "0 \<le> x" using x(1) by (rule order_trans)
    then have "trunc_int x = \<lfloor>x\<rfloor>" "i \<le> \<lfloor>x\<rfloor>" "\<lfloor>x\<rfloor> \<le> j"
      using x ij by (simp_all add: trunc_int_def le_floor_iff floor_le_iff)
    then show ?thesis using x(3) True ij by simp
  qed (use x in simp)
qed

definition tunables_ok :: "settings \<Rightarrow> bool" where
  "tunables_ok s \<longleftrightarrow>
     list_all (\<lambda>f. fd_lo f \<le> attr_get (fd_attr f) s \<and> attr_get (fd_attr f) s \<le> fd_hi f) FIELDS"

section \<open>The bounds hold whatever is stored\<close>

lemma tunables_okD:
  "tunables_ok s \<Longrightarrow> f \<in> set FIELDS \<Longrightarrow>
     fd_lo f \<le> attr_get (fd_attr f) s \<and> attr_get (fd_attr f) s \<le> fd_hi f"
  by (simp add: tunables_ok_def list_all_iff)

lemma fields_attr_eqD:
  "f \<in> set FIELDS \<Longrightarrow> g \<in> set FIELDS \<Longrightarrow> fd_attr f = fd_attr g \<Longrightarrow> f = g"
  using fields_attr_inj by (simp add: distinct_map inj_on_def)

lemma attr_set_ok:
  assumes "tunables_ok s" "f \<in> set FIELDS"
    and "fd_lo f \<le> v" "v \<le> fd_hi f" "fd_kind f = KIND_int \<longrightarrow> of_int \<lfloor>v\<rfloor> = v"
  shows "tunables_ok (attr_set (fd_attr f) v s)"
  unfolding tunables_ok_def list_all_iff
proof
  fix g assume g: "g \<in> set FIELDS"
  show "fd_lo g \<le> attr_get (fd_attr g) (attr_set (fd_attr f) v s) \<and>
      attr_get (fd_attr g) (attr_set (fd_attr f) v s) \<le> fd_hi g"
  proof (cases "fd_attr g = fd_attr f")
    case True
    then have "g = f" using fields_attr_eqD [OF g assms(2)] by simp
    moreover have "attr_get (fd_attr f) (attr_set (fd_attr f) v s) = v"
      unfolding attr_get_same using assms(5) fields_int_attr [OF assms(2)] by metis
    ultimately show ?thesis using assms(3,4) by simp
  next
    case False
    then show ?thesis using tunables_okD [OF assms(1) g] by (simp add: attr_get_other)
  qed
qed

lemma coerced_ok:
  "tunables_ok s \<Longrightarrow> field_by_key k = Some f \<Longrightarrow> coerce f raw = Inr v \<Longrightarrow>
     tunables_ok (attr_set (fd_attr f) v s)"
  using coerce_range field_by_key_mem by (intro attr_set_ok) blast+

lemma install_stored_ok: "tunables_ok s \<Longrightarrow> tunables_ok (install_stored m s)"
  by (induction m s rule: install_stored.induct) (auto split: option.splits sum.splits intro: coerced_ok)

lemma refresh_ok: "tunables_ok (cp_settings p) \<Longrightarrow> tunables_ok (cp_settings (refresh force now st p))"
  by (auto simp: refresh_def Let_def install_stored_ok split: option.splits)

lemma validated:
  "validate_changes cs = Inr vs \<Longrightarrow> (f, v) \<in> set vs \<Longrightarrow>
     \<exists>k raw. (k, raw) \<in> set cs \<and> field_by_key k = Some f \<and> coerce f raw = Inr v"
proof (induction cs arbitrary: vs)
  case (Cons c cs)
  obtain k raw where c: "c = (k, raw)" by (cases c)
  from Cons.prems(1) obtain g w ws where *: "field_by_key k = Some g" "coerce g raw = Inr w"
      "validate_changes cs = Inr ws" "vs = (g, w) # ws"
    by (auto simp: c split: option.splits sum.splits)
  then consider "f = g" "v = w" | "(f, v) \<in> set ws" using Cons.prems(2) by auto
  then show ?case
  proof cases
    case 2
    from Cons.IH [OF *(3) this] show ?thesis by auto
  qed (use * c in auto)
qed simp

lemma set_fields_Cons [simp]: "set_fields ((f, v) # vs) s = set_fields vs (attr_set (fd_attr f) v s)"
  by (simp add: set_fields_def)

lemma set_fields_Nil [simp]: "set_fields [] s = s"
  by (simp add: set_fields_def)

lemma set_fields_ok:
  assumes "tunables_ok s"
    and "\<And>f v. (f, v) \<in> set vs \<Longrightarrow> \<exists>k raw. field_by_key k = Some f \<and> coerce f raw = Inr v"
  shows "tunables_ok (set_fields vs s)"
  using assms
proof (induction vs arbitrary: s)
  case (Cons x vs)
  obtain f v where x: "x = (f, v)" by (cases x)
  obtain k raw where "field_by_key k = Some f" "coerce f raw = Inr v"
    using Cons.prems(2) [of f v] x by auto
  then have "tunables_ok (attr_set (fd_attr f) v s)" using Cons.prems(1) by (rule coerced_ok [rotated])
  from Cons.IH [OF this Cons.prems(2)] show ?case by (simp add: x)
qed simp

lemma apply_changes_ok:
  assumes "apply_changes cs actor p st = (r, p', st')" "tunables_ok (cp_settings p)"
  shows "tunables_ok (cp_settings p')"
proof (cases "p' = p")
  case False
  then obtain vs where vs: "validate_changes cs = Inr vs"
      "p' = p\<lparr>cp_settings := set_fields vs (cp_settings p)\<rparr>"
    using assms(1) by (auto simp: apply_changes_def split: sum.splits option.splits)
  have "tunables_ok (set_fields vs (cp_settings p))"
    using assms(2) validated [OF vs(1)] by (intro set_fields_ok) blast+
  then show ?thesis using vs(2) by simp
qed (use assms(2) in simp)

lemma reset_fields_ok:
  assumes "tunables_ok s" "tunables_ok shipped"
  shows "tunables_ok (reset_fields shipped s)"
proof -
  have "tunables_ok (fold (\<lambda>f s. if fd_section f = SEC_root then s
      else attr_set (fd_attr f) (attr_get (fd_attr f) shipped) s) fs s)"
    if "set fs \<subseteq> set FIELDS" "tunables_ok s" for fs s
    using that
  proof (induction fs arbitrary: s)
    case (Cons f fs)
    have f: "f \<in> set FIELDS" using Cons.prems by simp
    have "fd_kind f = KIND_int \<longrightarrow> of_int \<lfloor>attr_get (fd_attr f) shipped\<rfloor> = attr_get (fd_attr f) shipped"
      using fields_int_attr [OF f] by (auto simp: int_attr_def)
    then have "tunables_ok (attr_set (fd_attr f) (attr_get (fd_attr f) shipped) s)"
      using attr_set_ok [OF Cons.prems(2) f] tunables_okD [OF assms(2) f] by simp
    then show ?case using Cons by simp
  qed simp
  from this [of FIELDS s] assms(1) show ?thesis by (simp add: reset_fields_def)
qed

text \<open>One process among others: whatever they do reaches it as a new content of the store.\<close>

datatype config_event =
    CE_update stored_config
  | CE_reset
  | CE_refresh bool rat
  | CE_store config_store

definition config_step ::
    "settings \<Rightarrow> config_event \<Rightarrow> config_process \<times> config_store \<Rightarrow> config_process \<times> config_store" where
  "config_step shipped e w = (case w of (p, st) \<Rightarrow> (case e of
       CE_update cs \<Rightarrow> snd (update_config cs p st)
     | CE_reset \<Rightarrow> snd (reset_config shipped ''api'' p st)
     | CE_refresh force now \<Rightarrow> (refresh force now st p, st)
     | CE_store st' \<Rightarrow> (p, st')))"

lemma config_step_ok:
  assumes "tunables_ok shipped" "tunables_ok (cp_settings (fst w))"
  shows "tunables_ok (cp_settings (fst (config_step shipped e w)))"
proof -
  obtain p st where w: "w = (p, st)" by force
  show ?thesis
  proof (cases e)
    case (CE_update cs)
    then show ?thesis using assms(2) apply_changes_ok [of cs "''api''" p st]
      by (auto simp: config_step_def w update_config_def split: prod.splits sum.splits)
  qed (use assms in \<open>auto simp: config_step_def w reset_config_def Let_def reset_fields_ok refresh_ok\<close>)
qed

text \<open>
  C26. Whatever an operator submits and whatever text is found in the database or in the cache, the
  tunables a process runs with stay within their bounds.
\<close>

theorem tunables_stay_in_bounds:
  assumes "tunables_ok shipped" "tunables_ok (cp_settings p)" "f \<in> set FIELDS"
  shows "fd_lo f \<le> attr_get (fd_attr f) (cp_settings (fst (fold (config_step shipped) evs (p, st)))) \<and>
    attr_get (fd_attr f) (cp_settings (fst (fold (config_step shipped) evs (p, st)))) \<le> fd_hi f"
proof -
  have "tunables_ok (cp_settings (fst w)) \<Longrightarrow>
      tunables_ok (cp_settings (fst (fold (config_step shipped) evs w)))" for w
    by (induction evs arbitrary: w) (simp_all add: config_step_ok assms(1))
  from this [of "(p, st)"] assms(2,3) show ?thesis by (simp add: tunables_okD)
qed

definition fresh_process :: config_process where
  "fresh_process = \<lparr>cp_settings = default_settings, cp_last_refresh = 0\<rparr>"

definition empty_config_store :: config_store where
  "empty_config_store = \<lparr>cst_row = None, cst_cache = None, cst_db_up = True, cst_audit = []\<rparr>"

lemma default_tunables_ok: "tunables_ok default_settings"
  by (simp add: tunables_ok_def FIELDS_def mk_field_def default_settings_def default_risk_def
      default_copyability_def)

lemma tunables_stay_in_bounds_witness:
  "\<exists>f \<in> set FIELDS. fd_key f = ''max_daily_loss_pct'' \<and>
     attr_get (fd_attr f) (cp_settings (fst (fold (config_step default_settings)
       [CE_update [(''max_daily_loss_pct'', Raw_text ''100%'')],
        CE_store (empty_config_store\<lparr>cst_row := Some [(''max_daily_loss_pct'', Raw_text ''99'')]\<rparr>),
        CE_refresh True 1] (fresh_process, empty_config_store)))) \<le> 50"
proof -
  define f where "f = mk_field ''max_daily_loss_pct'' SEC_risk A_max_daily_loss_pct KIND_decimal (1/2) 50 True"
  have f: "f \<in> set FIELDS" by (simp add: f_def FIELDS_def mk_field_def)
  have "tunables_ok (cp_settings fresh_process)" by (simp add: fresh_process_def default_tunables_ok)
  note bounds = tunables_stay_in_bounds [OF default_tunables_ok this f, of _ empty_config_store]
  show ?thesis
    by (rule bexI [OF _ f], intro conjI,
        simp add: f_def mk_field_def, rule conjunct2 [OF bounds, THEN order_trans])
       (simp add: f_def mk_field_def)
qed

section \<open>A saved change reaches the other processes\<close>

definition stored_valid :: "stored_config \<Rightarrow> bool" where
  "stored_valid m \<longleftrightarrow> distinct (map fst m) \<and>
     (\<forall>(k, raw) \<in> set m. field_by_key k = None \<or> (\<exists>v. coerce (the (field_by_key k)) raw = Inr v))"

lemma coerce_saved: "coerce f raw = Inr v \<Longrightarrow> f \<in> set FIELDS \<Longrightarrow> coerce f (Text_of v) = Inr v"
  using coerce_range [of f raw v] by (auto simp: coerce_def parse_raw_def trunc_int_def)

lemma coerced_get:
  "f \<in> set FIELDS \<Longrightarrow> coerce f raw = Inr v \<Longrightarrow> attr_get (fd_attr f) (attr_set (fd_attr f) v s) = v"
  using coerce_range [of f raw v] fields_int_attr [of f] by (auto simp: attr_get_same)

lemma install_stored_other:
  assumes "k \<notin> fst ` set m" "field_by_key k = Some f"
  shows "attr_get (fd_attr f) (install_stored m s) = attr_get (fd_attr f) s"
  using assms
proof (induction m s rule: install_stored.induct)
  case (2 k' raw rest s)
  have "attr_get (fd_attr f) (attr_set (fd_attr g) v s) = attr_get (fd_attr f) s"
    if "field_by_key k' = Some g" for g v
  proof -
    have "k \<noteq> k'" using 2(3) by auto
    then have "f \<noteq> g" using 2(4) that field_by_key_mem by blast
    then have "fd_attr f \<noteq> fd_attr g"
      using fields_attr_eqD field_by_key_mem 2(4) that by blast
    then show ?thesis by (rule attr_get_other)
  qed
  with 2 show ?case by (auto split: option.splits sum.splits)
qed simp

lemma install_stored_get:
  assumes "stored_valid m" "map_of m k = Some raw" "field_by_key k = Some f" "coerce f raw = Inr v"
  shows "attr_get (fd_attr f) (install_stored m s) = v"
  using assms
proof (induction m s rule: install_stored.induct)
  case (2 k' raw' rest s)
  have valid: "stored_valid rest" using 2(3) by (auto simp: stored_valid_def)
  show ?case
  proof (cases "k' = k")
    case True
    then have "k \<notin> fst ` set rest" "raw' = raw" using 2(3,4) by (auto simp: stored_valid_def)
    then show ?thesis
      using True 2(5,6) install_stored_other [of k rest f] coerced_get [of f raw v] field_by_key_mem
      by simp
  next
    case False
    then show ?thesis using 2 valid by (auto simp: stored_valid_def split: option.splits sum.splits)
  qed
qed simp

lemma merge_stored_Cons [simp]:
  "merge_stored ((f, v) # vs) m = merge_stored vs (AList.update (fd_key f) (Text_of v) m)"
  by (simp add: merge_stored_def)

lemma merge_stored_Nil [simp]: "merge_stored [] m = m"
  by (simp add: merge_stored_def)

lemma merge_stored_other:
  "k \<notin> (fd_key \<circ> fst) ` set vs \<Longrightarrow> map_of (merge_stored vs m) k = map_of m k"
  by (induction vs arbitrary: m) (auto simp: update_conv')

lemma merge_stored_get:
  "distinct (map (fd_key \<circ> fst) vs) \<Longrightarrow> (f, v) \<in> set vs \<Longrightarrow>
     map_of (merge_stored vs m) (fd_key f) = Some (Text_of v)"
  by (induction vs arbitrary: m) (auto simp: merge_stored_other update_conv')

lemma update_valid:
  assumes "stored_valid m" "field_by_key (fd_key f) = Some f" "coerce f (Text_of v) = Inr v"
  shows "stored_valid (AList.update (fd_key f) (Text_of v) m)"
proof -
  have "distinct (map fst (AList.update (fd_key f) (Text_of v) m))"
    using assms(1) by (simp add: stored_valid_def distinct_update)
  moreover have "x = (fd_key f, Text_of v) \<or> x \<in> set m" if "x \<in> set (AList.update k w m)"
    "k = fd_key f" "w = Text_of v" for x k w
    using that by (induction m) (auto split: if_splits)
  ultimately show ?thesis using assms unfolding stored_valid_def by fastforce
qed

lemma merge_stored_valid:
  "stored_valid m \<Longrightarrow> \<forall>(f, v) \<in> set vs. field_by_key (fd_key f) = Some f \<and> coerce f (Text_of v) = Inr v \<Longrightarrow>
     stored_valid (merge_stored vs m)"
  by (induction vs arbitrary: m) (auto simp: update_valid)

lemma validated_keys: "validate_changes cs = Inr vs \<Longrightarrow> map (fd_key \<circ> fst) vs = map fst cs"
  by (induction cs arbitrary: vs rule: validate_changes.induct)
     (auto split: option.splits sum.splits dest: field_by_key_mem)

text \<open>
  C27. An accepted change is in force in every other process at its next refresh, at startup and
  in the running loop alike, as long as the values saved before can be read.
\<close>

theorem saved_change_reaches_processes:
  assumes "apply_changes cs actor p st = (Inr vs, p', st')" "distinct (map fst cs)"
    and "load_stored st = Some m" "stored_valid m" "(f, v) \<in> set vs"
    and "force \<or> cp_last_refresh q + 5 \<le> now"
  shows "attr_get (fd_attr f) (cp_settings (refresh force now st' q)) = v"
proof -
  have vs: "validate_changes cs = Inr vs"
    and st': "cst_row st' = Some (merge_stored vs m)" "cst_cache st' = Some (Cached (merge_stored vs m))"
    using assms(1,3) by (auto simp: apply_changes_def save_stored_def split: sum.splits if_splits)
  have fields: "field_by_key (fd_key g) = Some g \<and> coerce g (Text_of w) = Inr w"
    if "(g, w) \<in> set vs" for g w
  proof -
    obtain k raw where "field_by_key k = Some g" "coerce g raw = Inr w"
      using validated [OF vs \<open>(g, w) \<in> set vs\<close>] by blast
    then show ?thesis using field_by_key_mem [of k g] coerce_saved by auto
  qed
  let ?m = "merge_stored vs m"
  have valid: "stored_valid ?m" using merge_stored_valid [OF assms(4)] fields by blast
  have get: "map_of ?m (fd_key f) = Some (Text_of v)"
    using merge_stored_get [OF _ assms(5)] validated_keys [OF vs] assms(2) by simp
  then have "?m \<noteq> []" by auto
  then have "refresh force now st' q =
      q\<lparr>cp_last_refresh := now, cp_settings := install_stored ?m (cp_settings q)\<rparr>"
    using assms(6) st' by (auto simp: refresh_def load_stored_def stored_cache_def
        REFRESH_SECONDS_def Let_def)
  then show ?thesis using install_stored_get [OF valid get] fields [OF assms(5)] by simp
qed

lemma saved_change_reaches_processes_witness:
  "\<exists>vs p' st' f v. apply_changes [(''stop_loss_pct'', Raw_text ''-30 %'')] ''api'' fresh_process
       empty_config_store = (Inr vs, p', st') \<and> (f, v) \<in> set vs \<and> v = -30 \<and>
     attr_get (fd_attr f) (cp_settings (refresh False 6 st' fresh_process)) = v"
proof -
  let ?cs = "[(''stop_loss_pct'', Raw_text ''-30 %'')]"
  define f where "f = mk_field ''stop_loss_pct'' SEC_risk A_stop_loss_pct KIND_decimal (-95) (-1) True"
  have vs: "validate_changes ?cs = Inr [(f, -30)]"
    unfolding f_def by code_simp
  define p' where "p' = fresh_process\<lparr>cp_settings := set_fields [(f, -30)] (cp_settings fresh_process)\<rparr>"
  define st' where "st' = empty_config_store\<lparr>cst_row := Some (merge_stored [(f, -30)] []),
      cst_cache := Some (Cached (merge_stored [(f, -30)] [])),
      cst_audit := [(''api'', ''config_changed'')]\<rparr>"
  have run: "apply_changes ?cs ''api'' fresh_process empty_config_store = (Inr [(f, -30)], p', st')"
    unfolding apply_changes_def vs by (simp add: empty_config_store_def load_stored_def stored_cache_def
        save_stored_def p'_def st'_def)
  have "attr_get (fd_attr f) (cp_settings (refresh False 6 st' fresh_process)) = -30"
    by (rule saved_change_reaches_processes [OF run, where m = "[]"])
       (simp_all add: empty_config_store_def load_stored_def stored_cache_def stored_valid_def
         fresh_process_def)
  with run show ?thesis by auto
qed

section \<open>What a reset and a bad value leave behind\<close>

lemma update_refused_changes_nothing:
  assumes "update_config cs p st = (code, p', st')" "code \<noteq> 200"
  shows "p' = p \<and> st' = st"
  using assms by (auto simp: update_config_def apply_changes_def split: if_splits sum.splits option.splits prod.splits)

text \<open>The sections \<open>risk\<close> and \<open>copyability\<close> go back to their defaults, the settings of the root do not.\<close>

lemma reset_keeps_root:
  assumes "f \<in> set FIELDS" "fd_section f = SEC_root"
  shows "attr_get (fd_attr f) (reset_fields shipped s) = attr_get (fd_attr f) s"
proof -
  have "attr_get (fd_attr f) (fold (\<lambda>f s. if fd_section f = SEC_root then s
      else attr_set (fd_attr f) (attr_get (fd_attr f) shipped) s) fs s) = attr_get (fd_attr f) s"
    if "set fs \<subseteq> set FIELDS" for fs
    using that
  proof (induction fs arbitrary: s)
    case (Cons g fs)
    have "fd_section g \<noteq> SEC_root \<Longrightarrow> fd_attr f \<noteq> fd_attr g"
      using fields_attr_eqD [OF assms(1), of g] Cons.prems assms(2) by auto
    then show ?case using Cons by (simp add: attr_get_other)
  qed simp
  from this [of FIELDS] show ?thesis by (simp add: reset_fields_def)
qed

text \<open>The loop of another process reads only the cache, which a reset has emptied.\<close>

lemma reset_not_propagated:
  assumes "reset_config shipped actor p st = (None, p', st')"
  shows "cp_settings (refresh force now st' q) = cp_settings q"
  using assms by (auto simp: reset_config_def refresh_def load_stored_def stored_cache_def Let_def
      split: if_splits)

text \<open>A stored value out of bounds hides every value after it.\<close>

lemma bad_value_hides_rest:
  "field_by_key k = Some f \<Longrightarrow> coerce f raw = Inl e \<Longrightarrow> install_stored ((k, raw) # rest) s = s"
  by simp

text \<open>A NaN is a number to the parser and an exception, not a refusal, to the comparison.\<close>

lemma nan_is_a_server_error:
  "fst (update_config [(''stop_loss_pct'', Raw_text ''nan'')] fresh_process empty_config_store) = 500"
  by code_simp

end
