(* ===== verification/Trader_Rows.thy ===== *)
theory Trader_Rows
  imports Store
begin

text \<open>
  How the row of a wallet changes under the writes of \<^verbatim>\<open>db/repo.py\<close>: the lemmas that the
  jobs on the trader table share, collected in \<open>trader_rows\<close>.
\<close>

named_theorems trader_rows "the row of a wallet after a write"

definition status_of :: "string \<Rightarrow> database \<Rightarrow> trader_status option" where
  "status_of w d = map_option tw_status (get_trader w d)"

lemma find_map: "find P (map f xs) = map_option f (find (\<lambda>x. P (f x)) xs)"
  by (induction xs) auto

lemma find_update_where:
  "(\<And>r. tw_wallet (f r) = tw_wallet r) \<Longrightarrow>
   find (\<lambda>r. tw_wallet r = w) (update_where c f rows) =
     map_option (\<lambda>r. if c r then f r else r) (find (\<lambda>r. tw_wallet r = w) rows)"
  unfolding update_where_def find_map by (rule arg_cong [where f = "map_option _"]) (rule find_cong; auto)

lemma find_append: "find P (xs @ ys) = (case find P xs of None \<Rightarrow> find P ys | Some x \<Rightarrow> Some x)"
  by (induction xs) auto

lemma get_trader_wallet: "get_trader w d = Some r \<Longrightarrow> tw_wallet r = w \<and> r \<in> set (db_traders d)"
  by (auto simp: get_trader_def find_Some_iff)

lemma get_trader_None: "get_trader w d = None \<longleftrightarrow> w \<notin> tw_wallet ` set (db_traders d)"
  by (auto simp: get_trader_def find_None_iff)

lemma find_distinct:
  "distinct (map f xs) \<Longrightarrow> x \<in> set xs \<Longrightarrow> find (\<lambda>y. f y = f x) xs = Some x"
  by (induction xs) (auto simp: image_iff)

lemma get_trader_distinct:
  "distinct (map tw_wallet (db_traders d)) \<Longrightarrow> r \<in> set (db_traders d) \<Longrightarrow> get_trader (tw_wallet r) d = Some r"
  unfolding get_trader_def by (rule find_distinct)

text \<open>The row that \<^const>\<open>upsert_trader\<close> leaves for the wallet.\<close>

definition upserted ::
    "nat \<Rightarrow> datetime \<Rightarrow> string \<Rightarrow> string \<Rightarrow> string option \<Rightarrow> trader_status option \<Rightarrow> rat pydict \<Rightarrow>
       trader_row option \<Rightarrow> trader_row" where
  "upserted tid now wallet src label status meta old =
     (let base = (case old of None \<Rightarrow> new_trader_row tid now wallet | Some r \<Rightarrow> r\<lparr>tw_updated_at := now\<rparr>)
      in base\<lparr>tw_source := src, tw_label := label,
           tw_status := (case status of None \<Rightarrow> TS_DISCOVERED | Some s \<Rightarrow> s),
           tw_first_seen_at := Some now, tw_meta := meta\<rparr>)"

lemma upserted_status [simp]:
  "tw_status (upserted tid now wallet src label status meta old) =
     (case status of None \<Rightarrow> TS_DISCOVERED | Some s \<Rightarrow> s)"
  by (simp add: upserted_def Let_def)

lemma get_trader_upsert [trader_rows]:
  "get_trader w (upsert_trader tid now wallet src label status meta d) =
     (if w = wallet then Some (upserted tid now wallet src label status meta (get_trader wallet d))
      else get_trader w d)"
proof (cases "get_trader wallet d")
  case None
  then show ?thesis
    by (auto simp: upsert_trader_def Let_def get_trader_def find_append upserted_def new_trader_row_def
        split: option.split)
next
  case (Some r)
  have u: "r\<lparr>tw_status := s, tw_first_seen_at := Some now, tw_meta := meta, tw_source := src,
      tw_label := label, tw_updated_at := now\<rparr> =
    r\<lparr>tw_updated_at := now, tw_source := src, tw_label := label, tw_status := s,
      tw_first_seen_at := Some now, tw_meta := meta\<rparr>" for r :: trader_row and s
    by (cases r) simp
  have "get_trader w (upsert_trader tid now wallet src label status meta d) =
      map_option (\<lambda>r. if tw_wallet r = wallet
        then upserted tid now wallet src label status meta (Some r) else r) (get_trader w d)"
    using Some
    by (simp add: upsert_trader_def Let_def get_trader_def find_update_where upserted_def u cong: if_cong)
  also have "\<dots> = (if w = wallet then Some (upserted tid now wallet src label status meta (Some r))
      else get_trader w d)"
    using Some by (cases "get_trader w d") (auto dest: get_trader_wallet)
  finally show ?thesis using Some by simp
qed

definition set_status_row :: "trader_status \<Rightarrow> datetime \<Rightarrow> trader_row \<Rightarrow> trader_row" where
  "set_status_row status now r = r\<lparr>tw_status := status,
     tw_promoted_at := (if status = TS_ACTIVE then Some now else tw_promoted_at r),
     tw_degraded_at := (if status = TS_DEGRADED \<or> status = TS_SUSPENDED then Some now
       else tw_degraded_at r)\<rparr>"

lemma set_status_row_simps [simp]:
  "tw_status (set_status_row s now r) = s" "tw_wallet (set_status_row s now r) = tw_wallet r"
  "tw_composite (set_status_row s now r) = tw_composite r"
  "tw_confidence (set_status_row s now r) = tw_confidence r" "tw_id (set_status_row s now r) = tw_id r"
  by (simp_all add: set_status_row_def)

lemma set_trader_status_rows:
  "db_traders (set_trader_status wallet s now d) =
     update_where (\<lambda>r. tw_wallet r = wallet) (set_status_row s now) (db_traders d)"
  by (simp add: set_trader_status_def set_status_row_def [abs_def])

lemma get_trader_set_status [trader_rows]:
  "get_trader w (set_trader_status wallet s now d) =
     (if w = wallet then map_option (set_status_row s now) (get_trader w d) else get_trader w d)"
  unfolding get_trader_def set_trader_status_rows
  by (subst find_update_where) (auto simp: option.map_ident_strong split: option.splits
      simp: find_Some_iff intro!: option.map_cong0 option.map_ident_strong)

lemma get_trader_logs [trader_rows]:
  "get_trader w (log_event t a d) = get_trader w d"
  "get_trader w (log_risk_event k v d) = get_trader w d"
  "get_trader w (repo_log_audit actor act d) = get_trader w d"
  by (simp_all add: get_trader_def log_event_def log_risk_event_def repo_log_audit_def)

lemma update_where_twice:
  "(\<And>r. c' (f r) = c' r) \<Longrightarrow> (\<And>r. f (f r) = f r) \<Longrightarrow>
   update_where c' f (update_where c f rows) = update_where (\<lambda>r. c r \<or> c' r) f rows"
  by (auto simp: update_where_def)

text \<open>The same status for each wallet of a list is one update.\<close>

lemma set_status_many:
  "db_traders (fold (\<lambda>w. set_trader_status w s now) ws d) =
     update_where (\<lambda>r. tw_wallet r \<in> set ws) (set_status_row s now) (db_traders d)"
proof (induction ws arbitrary: d)
  case (Cons w ws)
  have "set_status_row s now (set_status_row s now r) = set_status_row s now r" for r
    by (simp add: set_status_row_def)
  then show ?case
    by (simp add: Cons.IH set_trader_status_rows update_where_twice)
qed (simp add: update_where_def)

end
