(* ===== verification/Intelligence.thy ===== *)
theory Intelligence
  imports History Scoring Trader_Rows
begin

text \<open>
  \<^verbatim>\<open>services/tasks/intelligence.py\<close>: the jobs that score wallets from their history.  A
  backfill reads the pages of a wallet, pairs buys with sells, estimates what a follower would
  have got and saves the scores; the periodic re-scoring skips wallets without new trades; the
  decay check degrades traders that fell off their own baseline.  Helius is a
  \<^typ>\<open>history_source\<close>; the identifier of a new trader and the clock are in the environment.
\<close>

section \<open>Round trips\<close>

definition ASSUMED_COPY_LATENCY_S :: int where "ASSUMED_COPY_LATENCY_S = 3"

definition MAX_PAGES :: nat where "MAX_PAGES = 3"

definition cost_pct :: pct where "cost_pct = 25/10"

record open_lot =
  ol_at :: datetime
  ol_price :: rat
  ol_amount :: int
  ol_decimals :: nat

definition hold_s :: "source_trade \<Rightarrow> open_lot \<Rightarrow> int" where
  "hold_s t lot = max 1 (elapsed_seconds (ol_at lot) (st_source_confirmed_at t))"

definition copyable_return :: "pct \<Rightarrow> int \<Rightarrow> pct" where
  "copyable_return src_ret hold =
     (let lag_share = of_int (min ASSUMED_COPY_LATENCY_S hold) / of_int hold;
          entry_slip_pct = src_ret * lag_share
      in src_ret - entry_slip_pct - cost_pct)"

definition round_trip :: "source_trade \<Rightarrow> open_lot \<Rightarrow> int \<Rightarrow> trade_outcome" where
  "round_trip t lot used =
     (let src_ret = (st_source_price t - ol_price lot) / ol_price lot * 100
      in \<lparr>to_opened_at = ol_at lot, to_closed_at = Some (st_source_confirmed_at t),
          to_source_return_pct = src_ret,
          to_copyable_return_pct = Some (copyable_return src_ret (hold_s t lot)),
          to_realized_return_pct = None,
          to_size_usd = raw_to_ui used (ol_decimals lot) * ol_price lot,
          to_liquidity_usd = 0,
          to_detection_latency_ms = Some (ASSUMED_COPY_LATENCY_S * 1000)\<rparr>)"

text \<open>
  The \<^verbatim>\<open>while\<close> over the lots of the token.  A lot that is not used up has absorbed all
  that remained, which ends the loop.
\<close>

fun match_sell :: "source_trade \<Rightarrow> int \<Rightarrow> open_lot list \<Rightarrow> trade_outcome list \<times> open_lot list" where
  "match_sell t remaining [] = ([], [])"
| "match_sell t remaining (lot # lots) =
     (if remaining \<le> 0 then ([], lot # lots)
      else let used = min remaining (ol_amount lot);
               left = ol_amount lot - used
           in if left \<le> 0
                then (case match_sell t (remaining - used) lots of
                        (outs, rest) \<Rightarrow> (round_trip t lot used # outs, rest))
              else ([round_trip t lot used], lot\<lparr>ol_amount := left\<rparr> # lots))"

definition pair_step ::
    "source_trade \<Rightarrow> (string \<Rightarrow> open_lot list) \<times> trade_outcome list \<Rightarrow>
       (string \<Rightarrow> open_lot list) \<times> trade_outcome list" where
  "pair_step t s =
     (let (lots, outcomes) = s; m = st_token_mint t
      in if st_source_price t \<le> 0 then s
         else if st_action t = ACT_BUY
           then (lots(m := lots m @ [\<lparr>ol_at = st_source_confirmed_at t, ol_price = st_source_price t,
                   ol_amount = st_token_amount_raw t, ol_decimals = st_token_decimals t\<rparr>]), outcomes)
         else if st_action t = ACT_SELL \<or> st_action t = ACT_PARTIAL_SELL
           then (case match_sell t (st_token_amount_raw t) (lots m) of
                   (outs, rest) \<Rightarrow> (lots(m := rest), outcomes @ outs))
         else s)"

definition pair_round_trips :: "source_trade list \<Rightarrow> trade_outcome list" where
  "pair_round_trips trades = snd (fold pair_step trades (\<lambda>_. [], []))"

definition avg_size :: "trade_outcome list \<Rightarrow> usd" where
  "avg_size outcomes =
     (let sizes = filter (\<lambda>x. 0 < x) (map to_size_usd outcomes)
      in if sizes = [] then 0 else sum_list sizes / of_nat (length sizes))"

section \<open>Backfill\<close>

record intel_env =
  ie_history :: history_source
  ie_now :: datetime
  ie_new_id :: "string \<Rightarrow> nat"       \<comment> \<open>the key drawn for a wallet that has no row\<close>

record backfill_report =
  br_wallet :: string
  br_trades :: nat
  br_outcomes :: nat
  br_scores :: "trader_scores option"

definition wins_of :: "trade_outcome list \<Rightarrow> nat" where
  "wins_of outcomes = length (filter (\<lambda>o'. 0 < to_source_return_pct o') outcomes)"

definition stats_of :: "string \<Rightarrow> source_trade list \<Rightarrow> trade_outcome list \<Rightarrow> trader_stats" where
  "stats_of wallet trades outcomes =
     \<lparr>ts_wallet = wallet, ts_outcomes = outcomes,
      ts_first_trade_at = Some (st_source_confirmed_at (hd trades)),
      ts_last_trade_at = Some (st_source_confirmed_at (last trades))\<rparr>"

text \<open>The columns the job writes beside the scores.\<close>

definition profile_columns ::
    "trader_stats \<Rightarrow> nat \<Rightarrow> trader_row \<Rightarrow> trader_row" where
  "profile_columns stats trade_count r =
     (let outcomes = ts_outcomes stats
      in r\<lparr>tw_median_hold := median_hold_seconds stats,
           tw_latency_tolerance := latency_tolerance_ms stats,
           tw_win_rate := Some (of_nat (wins_of outcomes) / of_nat (length outcomes) * 100),
           tw_avg_trade_size := Some (avg_size outcomes),
           tw_trade_count := Some (int trade_count),
           tw_first_seen_at := ts_first_trade_at stats,
           tw_last_trade_at := ts_last_trade_at stats\<rparr>)"

definition update_status ::
    "string \<Rightarrow> trader_status \<Rightarrow> trader_scores \<Rightarrow> datetime \<Rightarrow> database \<Rightarrow> database" where
  "update_status wallet current scores now d =
     (let new_status = next_status current scores 0
      in if new_status \<noteq> current
           then log_event ''TRADER_SCORE_UPDATED'' (Some wallet)
                  (set_trader_status wallet new_status now d)
         else d)"

definition store_scores ::
    "intel_env \<Rightarrow> string \<Rightarrow> nat \<Rightarrow> trader_stats \<Rightarrow> trader_scores \<Rightarrow> database \<Rightarrow> database" where
  "store_scores env wallet trade_count stats scores d =
     (let now = ie_now env;
          d1 = (if get_trader wallet d = None
                  then upsert_trader (ie_new_id env wallet) now wallet ''seed'' None None [] d
                else d)
      in case get_trader wallet d1 of
           None \<Rightarrow> d1
         | Some row \<Rightarrow>
             let d2 = save_scores (tw_id row) scores now d1;
                 d3 = d2\<lparr>db_traders := update_where (\<lambda>r. tw_id r = tw_id row)
                          (profile_columns stats trade_count) (db_traders d2)\<rparr>
             in update_status wallet (tw_status row) scores now d3)"

definition backfill_wallet ::
    "intel_env \<Rightarrow> string \<Rightarrow> nat \<Rightarrow> database \<Rightarrow> (py_error + backfill_report) \<times> database" where
  "backfill_wallet env wallet pages d =
     (case history_rows (ie_history env) wallet pages None of
        Inl e \<Rightarrow> (Inl e, d)
      | Inr rows \<Rightarrow>
          let trades = sort_key st_source_confirmed_at (parse_rows (ie_now env) wallet rows);
              outcomes = pair_round_trips trades;
              stats = stats_of wallet trades outcomes;
              scores = compute_scores (ie_now env) stats;
              report = \<lparr>br_wallet = wallet, br_trades = length trades,
                        br_outcomes = length outcomes, br_scores = None\<rparr>
          in if outcomes = [] then (Inr report, d)
             else (Inr (report\<lparr>br_scores := Some scores\<rparr>),
                   store_scores env wallet (length trades) stats scores d))"

section \<open>Re-scoring\<close>

definition scores_of :: "nat \<Rightarrow> database \<Rightarrow> score_row list" where
  "scores_of tid d =
     sort_key (\<lambda>r. - sr_computed_at r) (filter (\<lambda>r. sr_trader_id r = tid) (db_scores d))"

definition latest_score_at :: "nat \<Rightarrow> database \<Rightarrow> datetime option" where
  "latest_score_at tid d = (case scores_of tid d of [] \<Rightarrow> None | r # _ \<Rightarrow> Some (sr_computed_at r))"

definition unchanged_since :: "datetime option \<Rightarrow> datetime option \<Rightarrow> bool" where
  "unchanged_since latest last_trade \<longleftrightarrow>
     (case (latest, last_trade) of (Some s, Some t) \<Rightarrow> t \<le> s | _ \<Rightarrow> False)"

record rescore_report =
  rr_rescored :: "backfill_report list"
  rr_skipped :: nat
  rr_failed :: nat

fun rescore_each ::
    "intel_env \<Rightarrow> nat \<Rightarrow> (string \<times> datetime option \<times> nat) list \<Rightarrow> rescore_report \<Rightarrow> database \<Rightarrow>
       rescore_report \<times> database" where
  "rescore_each env pages [] rep d = (rep, d)"
| "rescore_each env pages ((wallet, last_trade_at, tid) # rest) rep d =
     (if unchanged_since (latest_score_at tid d) last_trade_at
        then rescore_each env pages rest (rep\<lparr>rr_skipped := rr_skipped rep + 1\<rparr>) d
      else case backfill_wallet env wallet pages d of
             (Inr b, d') \<Rightarrow>
               rescore_each env pages rest (rep\<lparr>rr_rescored := rr_rescored rep @ [b]\<rparr>) d'
           | (Inl e, d') \<Rightarrow>
               rescore_each env pages rest (rep\<lparr>rr_failed := rr_failed rep + 1\<rparr>) d')"

definition watched_rows :: "database \<Rightarrow> trader_row list" where
  "watched_rows d =
     filter (\<lambda>r. tw_status r \<noteq> TS_BLACKLISTED \<and> tw_status r \<noteq> TS_SUSPENDED) (db_traders d)"

definition rescore_all :: "intel_env \<Rightarrow> nat \<Rightarrow> nat \<Rightarrow> database \<Rightarrow> rescore_report \<times> database" where
  "rescore_all env max_wallets pages d =
     rescore_each env pages
       (map (\<lambda>r. (tw_wallet r, tw_last_trade_at r, tw_id r)) (take max_wallets (watched_rows d)))
       \<lparr>rr_rescored = [], rr_skipped = 0, rr_failed = 0\<rparr> d"

definition estimated_credits :: "nat \<Rightarrow> rescore_report \<Rightarrow> nat" where
  "estimated_credits pages rep = length (rr_rescored rep) * pages * 100"

section \<open>Decay\<close>

definition decayed :: "trader_scores list \<Rightarrow> bool" where
  "decayed history \<longleftrightarrow>
     (4 \<le> length history \<and>
      (let newest = sc_composite (hd history);
           older = map sc_composite (drop 2 history);
           baseline = sum_list older / of_nat (length older)
       in 0 < baseline \<and> newest < baseline * (7/10)))"

definition decay_trader :: "datetime \<Rightarrow> trader_row \<Rightarrow> string list \<times> database \<Rightarrow> string list \<times> database" where
  "decay_trader now r s =
     (let (degraded, d) = s
      in if decayed (map sr_scores (take 10 (scores_of (tw_id r) d)))
           then (degraded @ [tw_wallet r],
                 log_risk_event ''STRATEGY_DECAY'' ''warning''
                   (set_trader_status (tw_wallet r) TS_DEGRADED now d))
         else s)"

definition detect_decay :: "datetime \<Rightarrow> database \<Rightarrow> string list \<times> database" where
  "detect_decay now d =
     fold (decay_trader now)
       (filter (\<lambda>r. tw_status r = TS_ACTIVE \<or> tw_status r = TS_PROBATION) (db_traders d)) ([], d)"

section \<open>What the estimate says\<close>

definition estimate_ok :: "trade_outcome \<Rightarrow> bool" where
  "estimate_ok o' \<longleftrightarrow>
     (case (to_closed_at o', to_copyable_return_pct o') of
        (Some shut, Some copy) \<Rightarrow>
          let src = to_source_return_pct o'
          in to_opened_at o' \<le> shut \<and>
             (0 \<le> src \<longrightarrow> - cost_pct \<le> copy \<and> copy \<le> src - cost_pct) \<and>
             (src \<le> 0 \<longrightarrow> src - cost_pct \<le> copy \<and> copy \<le> - cost_pct)
      | _ \<Rightarrow> False)"

lemma copyable_return_bounds:
  assumes "1 \<le> hold"
  shows "0 \<le> src \<Longrightarrow> - cost_pct \<le> copyable_return src hold \<and> copyable_return src hold \<le> src - cost_pct"
    and "src \<le> 0 \<Longrightarrow> src - cost_pct \<le> copyable_return src hold \<and> copyable_return src hold \<le> - cost_pct"
proof -
  define lag :: rat where "lag = of_int (min ASSUMED_COPY_LATENCY_S hold) / of_int hold"
  have "0 \<le> lag" "lag \<le> 1" using assms by (simp_all add: lag_def ASSUMED_COPY_LATENCY_S_def divide_le_eq)
  moreover have "copyable_return src hold = src * (1 - lag) - cost_pct"
    by (simp add: copyable_return_def lag_def [symmetric] algebra_simps)
  ultimately show "0 \<le> src \<Longrightarrow> - cost_pct \<le> copyable_return src hold \<and> copyable_return src hold \<le> src - cost_pct"
    "src \<le> 0 \<Longrightarrow> src - cost_pct \<le> copyable_return src hold \<and> copyable_return src hold \<le> - cost_pct"
    using mult_left_mono [of "1 - lag" 1 src] mult_nonneg_nonneg [of src "1 - lag"]
      mult_left_mono_neg [of "1 - lag" 1 src] mult_nonpos_nonneg [of src "1 - lag"] by auto
qed

lemma round_trip_ok: "ol_at lot \<le> st_source_confirmed_at t \<Longrightarrow> estimate_ok (round_trip t lot used)"
  using copyable_return_bounds [of "hold_s t lot"]
  by (simp add: estimate_ok_def round_trip_def Let_def hold_s_def)

lemma match_sell_ok:
  "match_sell t remaining lots = (outs, rest) \<Longrightarrow> \<forall>lot \<in> set lots. ol_at lot \<le> st_source_confirmed_at t \<Longrightarrow>
   (\<forall>o' \<in> set outs. estimate_ok o') \<and> (\<forall>lot \<in> set rest. ol_at lot \<le> st_source_confirmed_at t)"
  by (induction t remaining lots arbitrary: outs rest rule: match_sell.induct)
    (auto simp: Let_def round_trip_ok split: if_splits prod.splits)

definition lots_before :: "datetime \<Rightarrow> (string \<Rightarrow> open_lot list) \<Rightarrow> bool" where
  "lots_before now lots \<longleftrightarrow> (\<forall>m. \<forall>lot \<in> set (lots m). ol_at lot \<le> now)"

lemma pair_step_ok:
  assumes "pair_step t (lots, outs) = (lots', outs')" "lots_before (st_source_confirmed_at t) lots"
    "\<forall>o' \<in> set outs. estimate_ok o'"
  shows "lots_before (st_source_confirmed_at t) lots' \<and> (\<forall>o' \<in> set outs'. estimate_ok o')"
  using assms match_sell_ok [of t "st_token_amount_raw t" "lots (st_token_mint t)"]
  by (fastforce simp: pair_step_def Let_def lots_before_def split: if_splits prod.splits)

lemma pair_fold_ok:
  "sorted (map st_source_confirmed_at ts) \<Longrightarrow> \<forall>t \<in> set ts. lots_before (st_source_confirmed_at t) lots \<Longrightarrow>
   \<forall>o' \<in> set outs. estimate_ok o' \<Longrightarrow> \<forall>o' \<in> set (snd (fold pair_step ts (lots, outs))). estimate_ok o'"
proof (induction ts arbitrary: lots outs)
  case (Cons t ts)
  obtain lots' outs' where s: "pair_step t (lots, outs) = (lots', outs')" by fastforce
  have ok: "lots_before (st_source_confirmed_at t) lots'" "\<forall>o' \<in> set outs'. estimate_ok o'"
    using pair_step_ok [OF s] Cons.prems by auto
  then have "\<forall>u \<in> set ts. lots_before (st_source_confirmed_at u) lots'"
    using Cons.prems(1) by (force simp: lots_before_def)
  then show ?case using Cons.IH [of lots' outs'] Cons.prems(1) ok(2) s by simp
qed simp

text \<open>
  Every round trip that a backfill scores closes after it opened.  The copyable return of a winner
  lies between the cost of the swaps and its return less that cost; the one of a loser between its
  return less the cost and the cost alone, so that a quick loss is estimated as hardly any.
\<close>

theorem copyable_estimate_bounds:
  "list_all (\<lambda>o'. \<exists>shut copy. to_closed_at o' = Some shut \<and> to_copyable_return_pct o' = Some copy \<and>
      to_opened_at o' \<le> shut \<and>
      (let src = to_source_return_pct o'
       in if 0 \<le> src then - cost_pct \<le> copy \<and> copy \<le> src - cost_pct
          else src - cost_pct \<le> copy \<and> copy \<le> - cost_pct))
    (pair_round_trips (sort_key st_source_confirmed_at trades))"
proof -
  have "\<forall>o' \<in> set (pair_round_trips (sort_key st_source_confirmed_at trades)). estimate_ok o'"
    unfolding pair_round_trips_def by (rule pair_fold_ok) (simp_all add: lots_before_def)
  then show ?thesis
    by (fastforce simp: list_all_iff estimate_ok_def Let_def split: option.splits)
qed

text \<open>A loss of one half within three seconds is estimated at the cost of the swaps.\<close>

lemma quick_loss_flattered:
  assumes "1 \<le> hold" "hold \<le> 3"
  shows "copyable_return (-50) hold = - (25/10)"
  using assms by (simp add: copyable_return_def ASSUMED_COPY_LATENCY_S_def cost_pct_def)

end
