(* ===== verification/Score_Columns.thy ===== *)
theory Score_Columns
  imports Positions Py_Text Intelligence "HOL-Library.List_Lexorder" "HOL-Library.Char_ord"
begin

text \<open>
  \<^verbatim>\<open>db/types.py\<close>: how a Decimal is stored and what the queries on the score columns
  compare.  On SQLite, the default, a column of type \<^verbatim>\<open>Money\<close> is TEXT, compared and
  ordered character by character; on PostgreSQL it is NUMERIC.  A Decimal is an integer with a
  number of places.  Scores are written with two places, the initial zero without any.
\<close>

section \<open>Money\<close>

datatype dialect = SQLITE | POSTGRESQL

text \<open>The digits of \<open>n\<close> in exactly \<open>k\<close> places, and \<^verbatim>\<open>format(d, "f")\<close>.\<close>

fun padded :: "nat \<Rightarrow> nat \<Rightarrow> string" where
  "padded 0 n = []"
| "padded (Suc k) n = padded k (n div 10) @ [hex_digit (n mod 10)]"

definition fixed_text :: "nat \<Rightarrow> int \<Rightarrow> string" where
  "fixed_text places m =
     (let n = nat \<bar>m\<bar>;
          digits = (if places = 0 then nat_text n
                    else nat_text (n div 10 ^ places) @ ''.'' @ padded places (n mod 10 ^ places))
      in if m < 0 then CHR ''-'' # digits else digits)"

definition bind_money :: "dialect \<Rightarrow> nat \<Rightarrow> int \<Rightarrow> string + rat" where
  "bind_money dia places m =
     (case dia of POSTGRESQL \<Rightarrow> Inr (of_int m / 10 ^ places) | SQLITE \<Rightarrow> Inl (fixed_text places m))"

definition read_money :: "string + rat \<Rightarrow> decimal_value option" where
  "read_money c = (case c of Inr v \<Rightarrow> Some (Dec_num v) | Inl t \<Rightarrow> decimal_of_text t)"

section \<open>Queries on the scores\<close>

definition two_places :: "rat \<Rightarrow> string" where
  "two_places v = fixed_text 2 (trunc_int (v * 100))"

text \<open>A threshold is printed without trailing zeros; at most six places are tried.\<close>

definition plain_text :: "rat \<Rightarrow> string" where
  "plain_text x =
     (case find (\<lambda>s. of_int (trunc_int (x * 10 ^ s)) = x * 10 ^ s) [0 ..< 7] of
        Some s \<Rightarrow> fixed_text s (trunc_int (x * 10 ^ s)) | None \<Rightarrow> fixed_text 6 (trunc_int (x * 10 ^ 6)))"

definition column_text :: "database \<Rightarrow> trader_row \<Rightarrow> rat \<Rightarrow> string" where
  "column_text d r v = (if scores_of (tw_id r) d = [] then ''0'' else two_places v)"

definition score_at_least :: "dialect \<Rightarrow> database \<Rightarrow> trader_row \<Rightarrow> rat option \<Rightarrow> rat \<Rightarrow> bool" where
  "score_at_least dia d r v x \<longleftrightarrow>
     (case v of None \<Rightarrow> False
      | Some c \<Rightarrow> (case dia of POSTGRESQL \<Rightarrow> x \<le> c | SQLITE \<Rightarrow> plain_text x \<le> column_text d r c))"

definition composite_is_zero :: "dialect \<Rightarrow> database \<Rightarrow> trader_row \<Rightarrow> bool" where
  "composite_is_zero dia d r \<longleftrightarrow>
     (case tw_composite r of None \<Rightarrow> False
      | Some c \<Rightarrow> (case dia of POSTGRESQL \<Rightarrow> c = 0 | SQLITE \<Rightarrow> column_text d r c = ''0''))"

definition composite_positive :: "dialect \<Rightarrow> database \<Rightarrow> trader_row \<Rightarrow> bool" where
  "composite_positive dia d r \<longleftrightarrow>
     (case tw_composite r of None \<Rightarrow> False
      | Some c \<Rightarrow> (case dia of POSTGRESQL \<Rightarrow> 0 < c | SQLITE \<Rightarrow> ''0'' < column_text d r c))"

text \<open>\<^verbatim>\<open>ORDER BY composite_score DESC\<close>; ties stay in the order of the rows.\<close>

definition by_composite :: "dialect \<Rightarrow> database \<Rightarrow> trader_row list \<Rightarrow> trader_row list" where
  "by_composite dia d rows =
     (case dia of
        POSTGRESQL \<Rightarrow> sort_key (\<lambda>r. - or_zero (tw_composite r)) rows
      | SQLITE \<Rightarrow> rev (sort_key (\<lambda>r. column_text d r (or_zero (tw_composite r))) (rev rows)))"

section \<open>Money is stored exactly\<close>

lemma hex_digit_value: "n < 10 \<Longrightarrow> digit_of (hex_digit n) = Some n"
proof -
  assume "n < 10"
  then have "n \<in> set [0 ..< 10]" by simp
  moreover have "\<forall>n \<in> set [0 ..< 10]. digit_of (hex_digit n) = Some n"
    by (simp add: upt_rec hex_digit_def digit_of_def)
  ultimately show ?thesis by blast
qed

lemma digits_value_append:
  "digits_value acc (xs @ ys) = (case digits_value acc xs of None \<Rightarrow> None | Some a \<Rightarrow> digits_value a ys)"
  by (induction acc xs rule: digits_value.induct) (auto split: option.split)

lemma nat_text_value: "digits_value acc (nat_text n) = Some (acc * 10 ^ length (nat_text n) + n)"
proof (induction n arbitrary: acc rule: nat_text.induct)
  case (1 n)
  show ?case
  proof (cases "n < 10")
    case True
    then show ?thesis by (simp add: nat_text.simps [of n] hex_digit_value)
  next
    case False
    then have t: "nat_text n = nat_text (n div 10) @ [hex_digit (n mod 10)]"
      by (simp add: nat_text.simps [of n])
    have "10 * (n div 10) + n mod 10 = n" by simp
    then show ?thesis
      using "1.IH" [OF False] by (simp add: t digits_value_append hex_digit_value algebra_simps)
  qed
qed

lemma padded_length [simp]: "length (padded k n) = k"
  by (induction k n rule: padded.induct) simp_all

lemma padded_value: "n < 10 ^ k \<Longrightarrow> digits_value acc (padded k n) = Some (acc * 10 ^ k + n)"
proof (induction k n arbitrary: acc rule: padded.induct)
  case (2 k n)
  have "10 * (n div 10) + n mod 10 = n" by simp
  moreover have "n div 10 < 10 ^ k" using "2.prems" by (simp add: less_mult_imp_div_less mult.commute)
  ultimately show ?case
    using "2.IH" by (simp add: digits_value_append hex_digit_value algebra_simps)
qed simp

lemma digits_value_is_digit: "digits_value acc ds = Some v \<Longrightarrow> \<forall>c \<in> set ds. is_digit c"
  by (induction acc ds rule: digits_value.induct) (auto simp: is_digit_def split: option.splits)

lemma nat_text_digits: "\<forall>c \<in> set (nat_text n). is_digit c" and nat_text_not_Nil [simp]: "nat_text n \<noteq> []"
  using digits_value_is_digit [OF nat_text_value [of 0 n]] by (simp_all add: nat_text.simps [of n])

lemma padded_digits: "n < 10 ^ k \<Longrightarrow> \<forall>c \<in> set (padded k n). is_digit c"
  using digits_value_is_digit [OF padded_value [of n k 0]] by simp

lemma is_digit_facts:
  assumes "is_digit c"
  shows "\<not> is_space c" "c \<noteq> CHR ''_''" "c \<noteq> CHR ''-''" "c \<noteq> CHR ''+''" "ascii_lower c = c"
    "c \<noteq> CHR ''i''" "c \<noteq> CHR ''n''" "c \<noteq> CHR ''s''"
proof -
  have r: "48 \<le> (of_char c :: nat)" "(of_char c :: nat) \<le> 57"
    using assms by (simp_all add: is_digit_def digit_of_def Let_def split: if_splits)
  then show "ascii_lower c = c" by (simp add: ascii_lower_def)
  show "\<not> is_space c" "c \<noteq> CHR ''_''" "c \<noteq> CHR ''-''" "c \<noteq> CHR ''+''"
    "c \<noteq> CHR ''i''" "c \<noteq> CHR ''n''" "c \<noteq> CHR ''s''"
    using r by (auto simp: is_space_def)
qed

definition number_text :: "nat \<Rightarrow> nat \<Rightarrow> string" where
  "number_text places n =
     (if places = 0 then nat_text n
      else nat_text (n div 10 ^ places) @ ''.'' @ padded places (n mod 10 ^ places))"

lemma fixed_text_number: "fixed_text places m =
    (if m < 0 then CHR ''-'' # number_text places (nat \<bar>m\<bar>) else number_text places (nat \<bar>m\<bar>))"
  by (simp add: fixed_text_def number_text_def Let_def)

lemma number_text_chars: "\<forall>c \<in> set (number_text places n). is_digit c \<or> c = CHR ''.''"
  using nat_text_digits padded_digits [of "n mod 10 ^ places" places] by (auto simp: number_text_def)

lemma number_text_hd: "\<exists>c cs. number_text places n = c # cs \<and> is_digit c"
proof -
  obtain c cs where "nat_text (n div 10 ^ places) = c # cs" by (cases "nat_text (n div 10 ^ places)") auto
  then show ?thesis using nat_text_digits [of "n div 10 ^ places"] by (auto simp: number_text_def)
qed

lemma number_text_unsigned: "unsigned_decimal (number_text places n) = Some (of_nat n / 10 ^ places)"
proof (cases "places = 0")
  case True
  have cut: "takeWhile is_digit (nat_text n) = nat_text n" "dropWhile is_digit (nat_text n) = []"
    using nat_text_digits by simp_all
  show ?thesis
    using True nat_text_value [of 0 n]
    by (simp add: cut number_text_def unsigned_decimal_def exponent_of_def Let_def)
next
  case False
  define a where "a = nat_text (n div 10 ^ places)"
  define b where "b = padded places (n mod 10 ^ places)"
  have dot: "\<not> is_digit (CHR ''.'')" by (simp add: is_digit_def digit_of_def)
  have "n mod 10 ^ places < 10 ^ places" by simp
  then have b: "\<forall>c \<in> set b. is_digit c" unfolding b_def by (rule padded_digits)
  have a: "\<forall>c \<in> set a. is_digit c" "a \<noteq> []" using nat_text_digits by (simp_all add: a_def)
  have ab: "takeWhile is_digit (a @ CHR ''.'' # b) = a" "dropWhile is_digit (a @ CHR ''.'' # b) = CHR ''.'' # b"
    using a dot by (simp_all add: takeWhile_append2 dropWhile_append2)
  have cut: "takeWhile is_digit b = b" "dropWhile is_digit b = []" using b by simp_all
  have "digits_value 0 (a @ b) = Some (n div 10 ^ places * 10 ^ places + n mod 10 ^ places)"
    by (simp add: a_def b_def digits_value_append nat_text_value padded_value)
  then show ?thesis
    using False a(2)
    by (simp add: number_text_def a_def [symmetric] b_def [symmetric] unsigned_decimal_def exponent_of_def
        Let_def ab cut power_int_minus field_simps) (simp add: b_def)
qed

lemma number_text_decimal:
  "strip (number_text places n) = number_text places n"
  "strip (CHR ''-'' # number_text places n) = CHR ''-'' # number_text places n"
  "filter (\<lambda>c. c \<noteq> CHR ''_'') (number_text places n) = number_text places n"
  "filter (\<lambda>c. c \<noteq> CHR ''_'') (CHR ''-'' # number_text places n) = CHR ''-'' # number_text places n"
proof -
  have plain: "\<not> is_space (CHR ''.'')" "\<not> is_space (CHR ''-'')" by (simp_all add: is_space_def)
  have c: "\<forall>c \<in> set (number_text places n). \<not> is_space c \<and> c \<noteq> CHR ''_''"
  proof
    fix c assume "c \<in> set (number_text places n)"
    then have "is_digit c \<or> c = CHR ''.''" using number_text_chars by blast
    then show "\<not> is_space c \<and> c \<noteq> CHR ''_''"
      using plain(1) is_digit_facts(1,2) [of c] by (elim disjE) simp_all
  qed
  have "\<forall>c \<in> set (number_text places n). \<not> is_space c"
    "\<forall>c \<in> set (CHR ''-'' # number_text places n). \<not> is_space c"
    using c plain(2) by simp_all
  then show "strip (number_text places n) = number_text places n"
    "strip (CHR ''-'' # number_text places n) = CHR ''-'' # number_text places n"
    by (simp_all only: strip_no_space)
  show "filter (\<lambda>c. c \<noteq> CHR ''_'') (number_text places n) = number_text places n"
    "filter (\<lambda>c. c \<noteq> CHR ''_'') (CHR ''-'' # number_text places n) = CHR ''-'' # number_text places n"
    using c by simp_all
qed


end
