(* ===== verification/Discovery.thy ===== *)
theory Discovery
  imports Score_Columns Resilience
begin

text \<open>
  \<^verbatim>\<open>adapters/gmgn.py\<close> and \<^verbatim>\<open>services/tasks/discovery.py\<close>: candidate wallets from the
  GMGN feeds, the cheap screen, the daily hygiene of the watchlist, the rationed scoring and the
  roster.  What the provider answers is in the environment: the rows of a feed or of a batch of
  wallets, each reduced to the numbers the code reads (\<^const>\<open>None\<close> for one that is absent or no
  finite number).  The figures kept as metadata are numbers here; tags, names, dates and notes
  in it are omitted.
\<close>

section \<open>The GMGN adapter\<close>

definition MAX_WALLETS_PER_CALL :: nat where "MAX_WALLETS_PER_CALL = 100"

definition WEIGHTS :: "rat pydict" where
  "WEIGHTS =
     [(''/v1/user/smartmoney'', 1), (''/v1/user/kol'', 1), (''/v1/user/wallet_stats'', 3),
      (''/v1/user/wallet_profits'', 3), (''/v1/user/wallet_activity'', 3),
      (''/v1/token/security'', 1), (''/v1/token/info'', 1), (''/v1/market/token_top_traders'', 5)]"

text \<open>How long \<^verbatim>\<open>_pace\<close> sleeps before a call, and the time it notes for the next one.\<close>

definition pace_wait :: "int \<Rightarrow> rat pydict \<Rightarrow> string \<Rightarrow> rat \<Rightarrow> rat" where
  "pace_wait plan_weight noted path now =
     (let min_interval = dict_get path 3 WEIGHTS / of_int (max 1 plan_weight)
      in max 0 (min_interval - (now - dict_get path 0 noted)))"

definition pace :: "int \<Rightarrow> string \<Rightarrow> rat \<Rightarrow> rat \<Rightarrow> rat pydict \<Rightarrow> rat \<times> rat pydict" where
  "pace plan_weight path now later noted =
     (pace_wait plan_weight noted path now, AList.update path later noted)"

text \<open>\<^verbatim>\<open>_dec\<close>: a zero is among the values replaced by the default, as \<^verbatim>\<open>0 == False\<close>.\<close>

definition dec :: "rat option \<Rightarrow> rat \<Rightarrow> rat" where
  "dec v dflt = (case v of None \<Rightarrow> dflt | Some x \<Rightarrow> if x = 0 then dflt else x)"

record feed_row =
  fr_maker :: string                 \<comment> \<open>empty when no address field is filled\<close>
  fr_tags :: "string list"

record profit_row =
  pf_realized :: "rat option"
  pf_total :: "rat option"
  pf_cost :: "rat option"
  pf_winrate :: "rat option"
  pf_buy :: int
  pf_sell :: int

record feed_info =
  fi_tags :: "string list"
  fi_source :: string
  fi_trades_seen :: nat

record gmgn_env =
  gm_enabled :: bool
  gm_feed :: "string \<Rightarrow> py_error + feed_row list"
  gm_enabled_later :: bool            \<comment> \<open>the breaker may have opened since\<close>
  gm_profits :: "string list \<Rightarrow> py_error + (string \<times> profit_row) list"

definition SMARTMONEY :: string where "SMARTMONEY = ''/v1/user/smartmoney''"

definition KOL :: string where "KOL = ''/v1/user/kol''"

definition note_maker :: "string \<Rightarrow> feed_row \<Rightarrow> feed_info pydict \<Rightarrow> feed_info pydict" where
  "note_maker src row seen =
     (if fr_maker row = [] then seen
      else let seen1 = dict_setdefault (fr_maker row)
                 \<lparr>fi_tags = fr_tags row, fi_source = src, fi_trades_seen = 0\<rparr> seen;
               entry = the (map_of seen1 (fr_maker row))
           in AList.update (fr_maker row) (entry\<lparr>fi_trades_seen := fi_trades_seen entry + 1\<rparr>) seen1)"

definition read_feed :: "gmgn_env \<Rightarrow> string \<times> string \<Rightarrow> feed_info pydict \<Rightarrow> feed_info pydict" where
  "read_feed g feed seen =
     (case gm_feed g (fst feed) of
        Inl e \<Rightarrow> seen
      | Inr rows \<Rightarrow> fold (note_maker (snd feed)) rows seen)"

text \<open>The dict whose keys are returned and which \<^verbatim>\<open>discovery_meta\<close> gives out.\<close>

definition gmgn_discover :: "bool \<Rightarrow> gmgn_env \<Rightarrow> feed_info pydict" where
  "gmgn_discover include_kol g =
     (if \<not> gm_enabled g then []
      else fold (read_feed g)
        ((SMARTMONEY, ''smartmoney'') # (if include_kol then [(KOL, ''kol'')] else [])) [])"

fun profit_batches ::
    "gmgn_env \<Rightarrow> nat \<Rightarrow> string list \<Rightarrow> profit_row pydict \<Rightarrow> profit_row pydict" where
  "profit_batches g 0 wallets out = out"
| "profit_batches g (Suc n) wallets out =
     (let batch = take MAX_WALLETS_PER_CALL wallets;
          out' = (case gm_profits g batch of
                    Inl e \<Rightarrow> out
                  | Inr rows \<Rightarrow> fold (\<lambda>(w, r) d. if w = [] then d else AList.update w r d) rows out)
      in profit_batches g n (drop MAX_WALLETS_PER_CALL wallets) out')"

definition wallet_profits :: "gmgn_env \<Rightarrow> string list \<Rightarrow> profit_row pydict" where
  "wallet_profits g wallets =
     (if \<not> gm_enabled_later g \<or> wallets = [] then []
      else profit_batches g
        ((length wallets + MAX_WALLETS_PER_CALL - 1) div MAX_WALLETS_PER_CALL) wallets [])"

datatype screen_verdict =
    Screen_passed | Screen_tagged string | Screen_few_trades | Screen_too_fast
  | Screen_no_profit | Screen_below_floor | Screen_low_winrate

definition winrate_pct :: "profit_row \<Rightarrow> rat" where
  "winrate_pct p = (let w = dec (pf_winrate p) 0 in if w \<noteq> 0 \<and> w \<le> 1 then w * 100 else w)"

definition screen ::
    "settings \<Rightarrow> int \<Rightarrow> string list \<Rightarrow> profit_row \<Rightarrow> screen_verdict" where
  "screen st period_days tags p =
     (let realized = dec (pf_realized p) 0;
          total = dec (pf_total p) realized;
          trades = pf_buy p + pf_sell p;
          per_day = fl64 (of_int trades / of_int (max 1 period_days));
          winrate = winrate_pct p
      in case find (\<lambda>tag. tag \<in> set (gmgn_excluded_tags st)) tags of
           Some tag \<Rightarrow> Screen_tagged tag
         | None \<Rightarrow>
             if trades < gmgn_min_trades st then Screen_few_trades
             else if gmgn_max_trades_per_day st \<noteq> 0 \<and> of_int (gmgn_max_trades_per_day st) < per_day
               then Screen_too_fast
             else if total \<le> 0 \<and> realized \<le> 0 then Screen_no_profit
             else if realized < gmgn_min_realized_usd st then Screen_below_floor
             else if winrate \<noteq> 0 \<and> winrate < gmgn_min_winrate_pct st then Screen_low_winrate
             else Screen_passed)"

text \<open>The parts of \<^verbatim>\<open>to_profile\<close> that the caller stores: the source and the metadata.\<close>

definition profile_source :: "feed_info option \<Rightarrow> string" where
  "profile_source meta = ''gmgn:'' @ (case meta of None \<Rightarrow> ''smartmoney'' | Some m \<Rightarrow> fi_source m)"

definition profile_notes :: "profit_row \<Rightarrow> rat pydict" where
  "profile_notes p =
     [(''gmgn_realized_profit'', dec (pf_realized p) 0), (''gmgn_total_profit'', dec (pf_total p) 0),
      (''gmgn_total_cost'', dec (pf_cost p) 0)]"

section \<open>discover_wallets\<close>

record candidate_entry =
  cy_wallet :: string
  cy_profits :: profit_row

record discovery_env =
  de_gmgn :: gmgn_env
  de_balance :: "string \<Rightarrow> py_error + rat"
  de_accounts :: "string \<Rightarrow> py_error + account_info option"
  de_new_id :: "string \<Rightarrow> nat"
  de_now :: datetime

definition screen_candidates ::
    "settings \<Rightarrow> feed_info pydict \<Rightarrow> profit_row pydict \<Rightarrow> string list \<Rightarrow> candidate_entry list" where
  "screen_candidates st meta profits fresh =
     List.map_filter (\<lambda>w. case map_of profits w of
         None \<Rightarrow> None
       | Some p \<Rightarrow>
           if screen st 30 (case map_of meta w of None \<Rightarrow> [] | Some m \<Rightarrow> fi_tags m) p = Screen_passed
             then Some \<lparr>cy_wallet = w, cy_profits = p\<rparr> else None) fresh"

text \<open>The window for the balance; a balance that cannot be read rejects nobody.\<close>

definition in_balance_window :: "settings \<Rightarrow> py_error + rat \<Rightarrow> bool" where
  "in_balance_window st answer \<longleftrightarrow>
     (case answer of
        Inl e \<Rightarrow> True
      | Inr bal \<Rightarrow> \<not> (0 < gmgn_min_balance_sol st \<and> bal < gmgn_min_balance_sol st) \<and>
                   \<not> (0 < gmgn_max_balance_sol st \<and> gmgn_max_balance_sol st < bal))"

definition size_window ::
    "settings \<Rightarrow> (string \<Rightarrow> py_error + rat) \<Rightarrow> candidate_entry list \<Rightarrow> candidate_entry list" where
  "size_window st balance passed =
     (if passed \<noteq> [] \<and> (0 < gmgn_min_balance_sol st \<or> 0 < gmgn_max_balance_sol st)
        then filter (\<lambda>e. in_balance_window st (balance (cy_wallet e))) passed
      else passed)"

text \<open>\<^verbatim>\<open>xs[:n]\<close>, a negative bound counting from the end.\<close>

definition slice_to :: "int \<Rightarrow> 'a list \<Rightarrow> 'a list" where
  "slice_to n xs = take (nat (if n < 0 then int (length xs) + n else n)) xs"

definition verified ::
    "(string \<Rightarrow> py_error + account_info option) \<Rightarrow> candidate_entry list \<Rightarrow> candidate_entry list" where
  "verified accounts passed =
     (let verdicts = verify_many accounts (map cy_wallet passed)
      in filter (\<lambda>e. case map_of verdicts (cy_wallet e) of None \<Rightarrow> True | Some v \<Rightarrow> vd_ok v) passed)"

definition add_candidate ::
    "discovery_env \<Rightarrow> feed_info pydict \<Rightarrow> candidate_entry \<Rightarrow> database \<Rightarrow> database" where
  "add_candidate env meta e d =
     (let w = cy_wallet e; src = profile_source (map_of meta w)
      in upsert_trader (de_new_id env w) (de_now env) w src (Some src) (Some TS_DISCOVERED)
           (profile_notes (cy_profits e)) d)"

record discovery_report =
  dc_enabled :: bool
  dc_discovered :: nat
  dc_new :: nat
  dc_passed :: nat
  dc_added :: "string list"

definition discovery_survivors ::
    "settings \<Rightarrow> discovery_env \<Rightarrow> feed_info pydict \<Rightarrow> string list \<Rightarrow> candidate_entry list" where
  "discovery_survivors st env meta fresh =
     (let passed = screen_candidates st meta (wallet_profits (de_gmgn env) fresh) fresh;
          sized = size_window st (de_balance env) passed
      in verified (de_accounts env) (slice_to (target_roster_size st * 2) sized))"

definition fresh_wallets :: "database \<Rightarrow> feed_info pydict \<Rightarrow> string list" where
  "fresh_wallets d meta =
     filter (\<lambda>w. looks_like_launchpad_token w = None)
       (filter (\<lambda>w. w \<notin> tw_wallet ` set (db_traders d)) (map fst meta))"

definition discover_wallets ::
    "settings \<Rightarrow> discovery_env \<Rightarrow> bool option \<Rightarrow> database \<Rightarrow> discovery_report \<times> database" where
  "discover_wallets st env auto_add d =
     (let auto = (case auto_add of None \<Rightarrow> gmgn_auto_add st | Some b \<Rightarrow> b);
          none = \<lparr>dc_enabled = True, dc_discovered = 0, dc_new = 0, dc_passed = 0, dc_added = []\<rparr>
      in if \<not> gm_enabled (de_gmgn env) then (none\<lparr>dc_enabled := False\<rparr>, d)
         else let meta = gmgn_discover True (de_gmgn env);
                  seen = none\<lparr>dc_discovered := length meta\<rparr>;
                  fresh = fresh_wallets d meta
              in if fresh = [] then (seen, d)
                 else let passed = discovery_survivors st env meta fresh;
                          rep = seen\<lparr>dc_new := length fresh, dc_passed := length passed\<rparr>
                      in if auto \<and> passed \<noteq> []
                           then (rep\<lparr>dc_added := map cy_wallet passed\<rparr>,
                                 log_event ''TRADER_DISCOVERED'' (Some ''gmgn'')
                                   (fold (add_candidate env meta) passed d))
                         else (rep, d))"

section \<open>refresh_watchlist\<close>

definition retire_idle ::
    "datetime \<Rightarrow> datetime \<Rightarrow> string \<times> datetime option \<Rightarrow> string list \<times> database \<Rightarrow> string list \<times> database" where
  "retire_idle now cutoff w s =
     (let (retired, d) = s
      in case snd w of
           None \<Rightarrow> s
         | Some seen_at \<Rightarrow>
             if seen_at < cutoff
               then (retired @ [fst w],
                     log_event ''TRADER_DEGRADED'' (Some (fst w))
                       (set_trader_status (fst w) TS_SUSPENDED now d))
             else s)"

text \<open>A figure the provider did not send is stored as an empty text, which reads as no number.\<close>

definition set_figure :: "string \<Rightarrow> rat option \<Rightarrow> rat pydict \<Rightarrow> rat pydict" where
  "set_figure k v m = (case v of None \<Rightarrow> filter (\<lambda>(j, x). j \<noteq> k) m | Some x \<Rightarrow> AList.update k x m)"

definition refresh_metadata :: "string \<times> profit_row \<Rightarrow> nat \<times> database \<Rightarrow> nat \<times> database" where
  "refresh_metadata w s =
     (let (n, d) = s; p = snd w
      in if get_trader (fst w) d = None then s
         else (n + 1, d\<lparr>db_traders := update_where (\<lambda>r. tw_wallet r = fst w)
                (\<lambda>r. r\<lparr>tw_meta := set_figure ''gmgn_total_profit'' (pf_total p)
                   (set_figure ''gmgn_realized_profit'' (pf_realized p) (tw_meta r))\<rparr>)
                (db_traders d)\<rparr>))"

definition refresh_watchlist ::
    "discovery_env \<Rightarrow> int \<Rightarrow> database \<Rightarrow> (string list \<times> nat) \<times> database" where
  "refresh_watchlist env days_idle d =
     (let now = de_now env;
          cutoff = now - days_idle * 86400 * 10 ^ 6;
          wallets = map (\<lambda>r. (tw_wallet r, tw_last_trade_at r)) (watched_rows d);
          (retired, d1) = fold (retire_idle now cutoff) wallets ([], d);
          active = filter (\<lambda>w. w \<notin> set retired) (map fst wallets)
      in if gm_enabled (de_gmgn env) \<and> active \<noteq> []
           then let (refreshed, d2) = fold refresh_metadata
                      (wallet_profits (de_gmgn env) (take 300 active)) (0, d1)
                in ((retired, refreshed), d2)
         else ((retired, 0), d1))"

section \<open>score_candidates\<close>

definition candidate_rank :: "rat option \<Rightarrow> rat" where
  "candidate_rank v = (case v of None \<Rightarrow> 0 | Some p \<Rightarrow> - fl64 p)"

definition scoring_queue :: "dialect \<Rightarrow> database \<Rightarrow> string list" where
  "scoring_queue dia d =
     map fst (sort_key (\<lambda>e. candidate_rank (snd e))
       (map (\<lambda>r. (tw_wallet r, map_of (tw_meta r) ''gmgn_realized_profit''))
         (filter (\<lambda>r. tw_status r = TS_DISCOVERED \<and> composite_is_zero dia d r) (db_traders d))))"

definition scoring_budget :: "settings \<Rightarrow> int option \<Rightarrow> database \<Rightarrow> int" where
  "scoring_budget st budget d =
     (case budget of
        Some b \<Rightarrow> b
      | None \<Rightarrow> if target_roster_size st \<le> int (length (followed_wallets d))
                  then scoring_budget_steady st else scoring_budget_bootstrap st)"

fun backfill_each ::
    "intel_env \<Rightarrow> nat \<Rightarrow> string list \<Rightarrow> backfill_report list \<times> nat \<Rightarrow> database \<Rightarrow>
       (backfill_report list \<times> nat) \<times> database" where
  "backfill_each env pages [] rep d = (rep, d)"
| "backfill_each env pages (w # ws) (scored, failed) d =
     (case backfill_wallet env w pages d of
        (Inr b, d') \<Rightarrow> backfill_each env pages ws (scored @ [b], failed) d'
      | (Inl e, d') \<Rightarrow> backfill_each env pages ws (scored, failed + 1) d')"

definition score_candidates ::
    "dialect \<Rightarrow> settings \<Rightarrow> intel_env \<Rightarrow> int option \<Rightarrow> database \<Rightarrow> (backfill_report list \<times> nat) \<times> database" where
  "score_candidates dia st env budget d =
     backfill_each env MAX_PAGES (slice_to (scoring_budget st budget d) (scoring_queue dia d)) ([], 0) d"

section \<open>maintain_roster\<close>

definition clears_bar :: "dialect \<Rightarrow> settings \<Rightarrow> database \<Rightarrow> trader_row \<Rightarrow> bool" where
  "clears_bar dia st d r \<longleftrightarrow>
     score_at_least dia d r (tw_composite r) (min_trader_score (copyability st)) \<and>
     score_at_least dia d r (tw_confidence r) (min_trader_confidence (copyability st))"

definition roster_eligible :: "dialect \<Rightarrow> settings \<Rightarrow> database \<Rightarrow> trader_row list" where
  "roster_eligible dia st d = by_composite dia d (filter (clears_bar dia st d) (watched_rows d))"

definition promote_row :: "datetime \<Rightarrow> trader_row \<Rightarrow> string list \<times> database \<Rightarrow> string list \<times> database" where
  "promote_row now r s =
     (if is_followed (tw_status r) then s
      else (fst s @ [tw_wallet r], set_trader_status (tw_wallet r) TS_PROBATION now (snd s)))"

definition demote_row ::
    "datetime \<Rightarrow> string set \<Rightarrow> trader_row \<Rightarrow> string list \<times> database \<Rightarrow> string list \<times> database" where
  "demote_row now keep r s =
     (if tw_wallet r \<in> keep then s
      else (fst s @ [tw_wallet r], set_trader_status (tw_wallet r) TS_CANDIDATE now (snd s)))"

record roster_report =
  rp_size :: nat
  rp_promoted :: "string list"
  rp_demoted :: "string list"
  rp_eligible :: nat
  rp_short_by :: int

definition maintain_roster :: "dialect \<Rightarrow> settings \<Rightarrow> datetime \<Rightarrow> database \<Rightarrow> roster_report \<times> database" where
  "maintain_roster dia st now d =
     (let eligible = roster_eligible dia st d;
          top = slice_to (target_roster_size st) eligible;
          keep = tw_wallet ` set top;
          (promoted, d1) = fold (promote_row now) top ([], d);
          current = filter (\<lambda>r. is_followed (tw_status r)) (db_traders d1);
          (demoted, d2) = fold (demote_row now keep) current ([], d1);
          d3 = log_event ''TRADER_PROMOTED'' (Some ''roster'') d2
      in (\<lparr>rp_size = card keep, rp_promoted = promoted, rp_demoted = demoted,
           rp_eligible = length eligible,
           rp_short_by = max 0 (target_roster_size st - int (card keep))\<rparr>, d3))"

section \<open>The roster\<close>

lemma promote_rows:
  "fold (promote_row now) rows (ps, d) =
     (ps @ map tw_wallet (filter (\<lambda>r. \<not> is_followed (tw_status r)) rows),
      fold (\<lambda>w. set_trader_status w TS_PROBATION now)
        (map tw_wallet (filter (\<lambda>r. \<not> is_followed (tw_status r)) rows)) d)"
  by (induction rows arbitrary: ps d) (auto simp: promote_row_def)

lemma demote_rows:
  "fold (demote_row now keep) rows (ps, d) =
     (ps @ map tw_wallet (filter (\<lambda>r. tw_wallet r \<notin> keep) rows),
      fold (\<lambda>w. set_trader_status w TS_CANDIDATE now)
        (map tw_wallet (filter (\<lambda>r. tw_wallet r \<notin> keep) rows)) d)"
  by (induction rows arbitrary: ps d) (auto simp: demote_row_def)

lemma followed_wallets_set:
  "set (followed_wallets d) = {w. \<exists>r \<in> set (db_traders d). tw_wallet r = w \<and> is_followed (tw_status r)}"
  by (auto simp: followed_wallets_def is_followed_def)

definition roster_top :: "dialect \<Rightarrow> settings \<Rightarrow> database \<Rightarrow> trader_row list" where
  "roster_top dia st d = slice_to (target_roster_size st) (roster_eligible dia st d)"

lemma roster_top_eligible: "set (roster_top dia st d) \<subseteq> set (roster_eligible dia st d)"
  by (auto simp: roster_top_def slice_to_def dest: in_set_takeD)

lemma set_by_composite [simp]: "set (by_composite dia d rows) = set rows"
  by (cases dia) (simp_all add: by_composite_def)

lemma roster_eligible_iff:
  "r \<in> set (roster_eligible dia st d) \<longleftrightarrow> r \<in> set (watched_rows d) \<and> clears_bar dia st d r"
  by (auto simp: roster_eligible_def)

lemma watched_rows_iff:
  "r \<in> set (watched_rows d) \<longleftrightarrow>
     r \<in> set (db_traders d) \<and> tw_status r \<noteq> TS_BLACKLISTED \<and> tw_status r \<noteq> TS_SUSPENDED"
  by (auto simp: watched_rows_def)

text \<open>The table after a run: the top is promoted, whoever else is followed steps down.\<close>

definition roster_row :: "dialect \<Rightarrow> settings \<Rightarrow> datetime \<Rightarrow> database \<Rightarrow> trader_row \<Rightarrow> trader_row" where
  "roster_row dia st now d r =
     (let top = roster_top dia st d;
          r1 = (if \<exists>t \<in> set top. tw_wallet t = tw_wallet r \<and> \<not> is_followed (tw_status t)
                then set_status_row TS_PROBATION now r else r)
      in if tw_wallet r \<notin> tw_wallet ` set top \<and>
            (\<exists>u \<in> set (db_traders d). tw_wallet u = tw_wallet r \<and> is_followed (tw_status u))
         then set_status_row TS_CANDIDATE now r1 else r1)"

lemma maintain_roster_rows:
  "db_traders (snd (maintain_roster dia st now d)) = map (roster_row dia st now d) (db_traders d)"
proof -
  define top where "top = roster_top dia st d"
  define P where "P = map tw_wallet (filter (\<lambda>r. \<not> is_followed (tw_status r)) top)"
  define d1 where "d1 = fold (\<lambda>w. set_trader_status w TS_PROBATION now) P d"
  define D where "D = map tw_wallet (filter (\<lambda>r. tw_wallet r \<notin> tw_wallet ` set top)
    (filter (\<lambda>r. is_followed (tw_status r)) (db_traders d1)))"
  have d1: "db_traders d1 = update_where (\<lambda>r. tw_wallet r \<in> set P) (set_status_row TS_PROBATION now) (db_traders d)"
    by (simp add: d1_def set_status_many)
  have rows: "db_traders (snd (maintain_roster dia st now d)) =
      update_where (\<lambda>r. tw_wallet r \<in> set D) (set_status_row TS_CANDIDATE now) (db_traders d1)"
    unfolding maintain_roster_def Let_def roster_top_def [symmetric] top_def [symmetric]
      promote_rows demote_rows P_def [symmetric] append_Nil prod.case d1_def [symmetric] D_def [symmetric]
    by (simp add: log_event_def set_status_many)
  have P: "w \<in> set P \<longleftrightarrow> (\<exists>t \<in> set top. tw_wallet t = w \<and> \<not> is_followed (tw_status t))" for w
    by (auto simp: P_def)
  have D: "w \<in> set D \<longleftrightarrow> w \<notin> tw_wallet ` set top \<and>
      (\<exists>u \<in> set (db_traders d). tw_wallet u = w \<and> is_followed (tw_status u))" for w
  proof -
    have "w \<in> set D \<longleftrightarrow> w \<notin> tw_wallet ` set top \<and>
        (\<exists>u \<in> set (db_traders d1). tw_wallet u = w \<and> is_followed (tw_status u))"
      by (auto simp: D_def)
    moreover have "w \<notin> set P" if "w \<notin> tw_wallet ` set top" using that P by auto
    ultimately show ?thesis by (auto simp: d1 update_where_def)
  qed
  show ?thesis
    unfolding rows d1 update_where_def map_map
    by (rule map_cong [OF refl])
      (simp only: o_def roster_row_def Let_def top_def [symmetric] P D set_status_row_simps if_distrib [where f = tw_wallet] if_cancel)
qed

lemma roster_row_wallet [simp]: "tw_wallet (roster_row dia st now d r) = tw_wallet r"
  by (simp add: roster_row_def Let_def)

lemma roster_row_followed:
  assumes "r \<in> set (db_traders d)"
  shows "is_followed (tw_status (roster_row dia st now d r)) \<longleftrightarrow> tw_wallet r \<in> tw_wallet ` set (roster_top dia st d) \<and>
    (is_followed (tw_status r) \<or>
     (\<exists>t \<in> set (roster_top dia st d). tw_wallet t = tw_wallet r \<and> \<not> is_followed (tw_status t)))"
proof -
  have s: "is_followed TS_PROBATION" "\<not> is_followed TS_CANDIDATE" by (simp_all add: is_followed_def)
  show ?thesis
  proof (cases "tw_wallet r \<in> tw_wallet ` set (roster_top dia st d)")
    case True
    then show ?thesis by (auto simp: roster_row_def Let_def s)
  next
    case False
    then have "\<not> (\<exists>t \<in> set (roster_top dia st d). tw_wallet t = tw_wallet r \<and> \<not> is_followed (tw_status t))"
      by (metis image_eqI)
    then show ?thesis using False assms by (auto simp: roster_row_def Let_def s)
  qed
qed

lemma roster_followed:
  "set (followed_wallets (snd (maintain_roster dia st now d))) = tw_wallet ` set (roster_top dia st d)"
proof (intro equalityI subsetI)
  fix w assume "w \<in> set (followed_wallets (snd (maintain_roster dia st now d)))"
  then obtain r where "r \<in> set (db_traders d)" "tw_wallet r = w"
    "is_followed (tw_status (roster_row dia st now d r))"
    by (auto simp: followed_wallets_set maintain_roster_rows)
  then show "w \<in> tw_wallet ` set (roster_top dia st d)" by (simp add: roster_row_followed)
next
  fix w assume "w \<in> tw_wallet ` set (roster_top dia st d)"
  then obtain t where t: "t \<in> set (roster_top dia st d)" "w = tw_wallet t" by auto
  have mem: "t \<in> set (db_traders d)"
    using t(1) by (meson roster_top_eligible roster_eligible_iff watched_rows_iff subsetD)
  have "is_followed (tw_status (roster_row dia st now d t))"
    using t(1) by (auto simp: roster_row_followed [OF mem])
  then show "w \<in> set (followed_wallets (snd (maintain_roster dia st now d)))"
    using mem t(2) by (auto simp: followed_wallets_set maintain_roster_rows)
qed

lemma sort_key_take_drop:
  fixes f :: "'a \<Rightarrow> 'b :: linorder"
  assumes "x \<in> set (take n (sort_key f xs))" "y \<in> set (drop n (sort_key f xs))"
  shows "f x \<le> f y"
proof -
  have "sorted (map f (take n (sort_key f xs)) @ map f (drop n (sort_key f xs)))"
    by (simp flip: map_append)
  then show ?thesis using assms by (auto simp: sorted_append)
qed

text \<open>Not ranked after, by what the backend compares.\<close>

definition ranks_up_to :: "dialect \<Rightarrow> database \<Rightarrow> trader_row \<Rightarrow> trader_row \<Rightarrow> bool" where
  "ranks_up_to dia d q r \<longleftrightarrow>
     (case dia of POSTGRESQL \<Rightarrow> or_zero (tw_composite q) \<le> or_zero (tw_composite r)
      | SQLITE \<Rightarrow> column_text d q (or_zero (tw_composite q)) \<le> column_text d r (or_zero (tw_composite r)))"

lemma by_composite_take_drop:
  assumes "r \<in> set (take n (by_composite dia d rows))" "q \<in> set (drop n (by_composite dia d rows))"
  shows "ranks_up_to dia d q r"
proof (cases dia)
  case SQLITE
  define f where "f = (\<lambda>r. column_text d r (or_zero (tw_composite r)))"
  define k where "k = length rows - n"
  have "q \<in> set (take k (sort_key f (rev rows)))" "r \<in> set (drop k (sort_key f (rev rows)))"
    using assms by (simp_all add: SQLITE by_composite_def f_def k_def take_rev drop_rev)
  then show ?thesis using sort_key_take_drop [of q k f "rev rows" r] by (simp add: ranks_up_to_def SQLITE f_def)
next
  case POSTGRESQL
  then show ?thesis
    using assms sort_key_take_drop [of r n "\<lambda>r. - or_zero (tw_composite r)" rows q]
    by (simp add: by_composite_def ranks_up_to_def)
qed

text \<open>
  C22. After a run the followed wallets are the best eligible ones, at most as many as the roster has
  places: each of them is watched and clears both thresholds, and no eligible wallet that is left
  out ranks higher, as far as the database compares scores.
\<close>

theorem roster_is_the_best:
  assumes "0 \<le> target_roster_size st"
    and "maintain_roster dia st now d = (rep, d')"
  shows "set (followed_wallets d') = tw_wallet ` set (take (nat (target_roster_size st)) (roster_eligible dia st d)) \<and>
    card (set (followed_wallets d')) = rp_size rep \<and> rp_size rep \<le> nat (target_roster_size st) \<and>
    (\<forall>w \<in> set (followed_wallets d'). \<exists>r \<in> set (watched_rows d). tw_wallet r = w \<and> clears_bar dia st d r \<and>
       (\<forall>q \<in> set (roster_eligible dia st d). tw_wallet q \<notin> set (followed_wallets d') \<longrightarrow>
          ranks_up_to dia d q r))"
proof -
  define n where "n = nat (target_roster_size st)"
  have top: "roster_top dia st d = take n (roster_eligible dia st d)"
    using assms(1) by (simp add: roster_top_def slice_to_def n_def)
  have f: "set (followed_wallets d') = tw_wallet ` set (take n (roster_eligible dia st d))"
    using roster_followed [of dia st now d] assms(2) by (simp add: top)
  have size: "rp_size rep = card (tw_wallet ` set (take n (roster_eligible dia st d)))"
    using assms(2)
    by (simp add: maintain_roster_def Let_def promote_rows demote_rows roster_top_def [symmetric] top
        split: prod.splits) auto
  have "card (tw_wallet ` set (take n (roster_eligible dia st d))) \<le> n"
    using card_image_le [of "set (take n (roster_eligible dia st d))" tw_wallet]
      card_length [of "take n (roster_eligible dia st d)"] by simp
  moreover have "\<exists>r \<in> set (watched_rows d). tw_wallet r = w \<and> clears_bar dia st d r \<and>
       (\<forall>q \<in> set (roster_eligible dia st d). tw_wallet q \<notin> set (followed_wallets d') \<longrightarrow>
          ranks_up_to dia d q r)" if w: "w \<in> set (followed_wallets d')" for w
  proof -
    obtain r where r: "r \<in> set (take n (roster_eligible dia st d))" "tw_wallet r = w"
      using w f by auto
    have "ranks_up_to dia d q r"
      if q: "q \<in> set (roster_eligible dia st d)" "tw_wallet q \<notin> set (followed_wallets d')" for q
    proof -
      have "q \<notin> set (take n (roster_eligible dia st d))" using q(2) f by auto
      then have "q \<in> set (drop n (roster_eligible dia st d))"
        using q(1) by (metis UnE append_take_drop_id set_append)
      then show ?thesis
        using by_composite_take_drop r(1) unfolding roster_eligible_def by blast
    qed
    then show ?thesis
      using r in_set_takeD [OF r(1)] by (auto simp: roster_eligible_iff)
  qed
  ultimately show ?thesis using f size by (simp add: n_def)
qed

definition roster_sample :: database where
  "roster_sample = empty_database\<lparr>db_traders :=
     [(new_trader_row 1 0 ''a'')\<lparr>tw_status := TS_DEGRADED, tw_composite := Some 65, tw_confidence := Some 60\<rparr>,
      (new_trader_row 2 0 ''b'')\<lparr>tw_status := TS_PROBATION, tw_composite := Some 62, tw_confidence := Some 70\<rparr>,
      (new_trader_row 3 0 ''c'')\<lparr>tw_status := TS_BLACKLISTED, tw_composite := Some 90, tw_confidence := Some 90\<rparr>]\<rparr>"

definition roster_of_one :: settings where
  "roster_of_one = default_settings\<lparr>target_roster_size := 1\<rparr>"

lemma roster_sample_eligible:
  "map tw_wallet (roster_eligible POSTGRESQL roster_of_one roster_sample) = [''a'', ''b'']"
  by (simp add: roster_eligible_def roster_sample_def watched_rows_def new_trader_row_def clears_bar_def
      score_at_least_def by_composite_def roster_of_one_def default_settings_def default_copyability_def or_zero_def)

lemma roster_is_the_best_witness:
  "set (followed_wallets (snd (maintain_roster POSTGRESQL roster_of_one 5 roster_sample))) = {''a''}"
proof -
  obtain rep d' where run: "maintain_roster POSTGRESQL roster_of_one 5 roster_sample = (rep, d')" by fastforce
  have size: "target_roster_size roster_of_one = 1" by (simp add: roster_of_one_def)
  have "set (followed_wallets d') = tw_wallet ` set (take 1 (roster_eligible POSTGRESQL roster_of_one roster_sample))"
    using roster_is_the_best [OF _ run] by (simp add: size)
  also have "\<dots> = set (take 1 (map tw_wallet (roster_eligible POSTGRESQL roster_of_one roster_sample)))"
    by (simp add: take_map)
  finally have "set (followed_wallets d') =
      set (take 1 (map tw_wallet (roster_eligible POSTGRESQL roster_of_one roster_sample)))" .
  then show ?thesis by (simp only: run snd_conv roster_sample_eligible) simp
qed

text \<open>
  A degraded trader is followed again by the roster at a composite at which the score alone would
  keep it degraded.
\<close>

lemma degraded_readmitted:
  "status_of ''a'' roster_sample = Some TS_DEGRADED \<and>
   status_of ''a'' (snd (maintain_roster POSTGRESQL roster_of_one 5 roster_sample)) = Some TS_PROBATION \<and>
   next_status TS_DEGRADED (default_scores\<lparr>sc_composite := 65, sc_confidence := 60\<rparr>) 0 = TS_DEGRADED"
proof -
  have top: "map tw_wallet (roster_top POSTGRESQL roster_of_one roster_sample) = [''a'']"
    using arg_cong [OF roster_sample_eligible, of "take 1"]
    by (simp add: roster_top_def slice_to_def roster_of_one_def take_map)
  then obtain t where t: "roster_top POSTGRESQL roster_of_one roster_sample = [t]" "tw_wallet t = ''a''" by auto
  have "t \<in> set (db_traders roster_sample)"
    using t(1) roster_top_eligible [of POSTGRESQL roster_of_one roster_sample]
    by (auto simp: roster_eligible_iff watched_rows_iff)
  then have st: "tw_status t = TS_DEGRADED"
    using t(2) by (auto simp: roster_sample_def new_trader_row_def)
  show ?thesis
    using t st
    by (simp add: status_of_def get_trader_def maintain_roster_rows find_map roster_sample_def
        new_trader_row_def roster_row_def is_followed_def next_status_def)
qed

section \<open>Discovery adds unknown wallets only\<close>

lemma survivors_facts:
  assumes "e \<in> set (discovery_survivors st env meta fresh)"
  shows "cy_wallet e \<in> set fresh" "vd_ok (verify (de_accounts env) (cy_wallet e))"
    "screen st 30 (case map_of meta (cy_wallet e) of None \<Rightarrow> [] | Some m \<Rightarrow> fi_tags m) (cy_profits e) = Screen_passed"
    "in_balance_window st (de_balance env (cy_wallet e))"
proof -
  define passed where "passed = screen_candidates st meta (wallet_profits (de_gmgn env) fresh) fresh"
  define sized where "sized = slice_to (target_roster_size st * 2) (size_window st (de_balance env) passed)"
  have e: "e \<in> set (verified (de_accounts env) sized)"
    using assms by (simp add: discovery_survivors_def Let_def sized_def passed_def)
  then have s: "e \<in> set sized" by (auto simp: verified_def)
  then have w: "e \<in> set (size_window st (de_balance env) passed)"
    by (auto simp: sized_def slice_to_def dest: in_set_takeD)
  then have p: "e \<in> set passed" by (auto simp: size_window_def split: if_splits)
  show "cy_wallet e \<in> set fresh"
    "screen st 30 (case map_of meta (cy_wallet e) of None \<Rightarrow> [] | Some m \<Rightarrow> fi_tags m) (cy_profits e) = Screen_passed"
    using p by (auto simp: passed_def screen_candidates_def map_filter_def split: option.splits if_splits)
  show "vd_ok (verify (de_accounts env) (cy_wallet e))"
    using e s verify_many_get [of "cy_wallet e" "map cy_wallet sized" "de_accounts env"]
    by (auto simp: verified_def Let_def)
  show "in_balance_window st (de_balance env (cy_wallet e))"
    using w by (auto simp: size_window_def in_balance_window_def split: if_splits sum.splits)
qed

lemma survivors_few:
  "0 \<le> target_roster_size st \<Longrightarrow> length (discovery_survivors st env meta fresh) \<le> 2 * nat (target_roster_size st)"
  unfolding discovery_survivors_def Let_def verified_def
  by (rule order_trans [OF length_filter_le]) (simp add: slice_to_def nat_mult_distrib)

definition newly_found :: "trader_row \<Rightarrow> bool" where
  "newly_found r \<longleftrightarrow> tw_status r = TS_DISCOVERED \<and> tw_composite r = Some 0 \<and> tw_confidence r = Some 0 \<and>
     tw_copyability r = Some 0"

lemma upserted_new:
  "(\<forall>r. old = Some r \<longrightarrow> newly_found r) \<Longrightarrow>
   newly_found (upserted tid now wallet src label (Some TS_DISCOVERED) meta old)"
  by (cases old) (simp_all add: upserted_def newly_found_def new_trader_row_def)

lemma add_candidates:
  assumes "\<forall>r. get_trader w d = Some r \<longrightarrow> newly_found r \<or> w \<notin> cy_wallet ` set es"
  shows "(w \<notin> cy_wallet ` set es \<longrightarrow> get_trader w (fold (add_candidate env meta) es d) = get_trader w d) \<and>
    (w \<in> cy_wallet ` set es \<longrightarrow>
       (\<exists>r. get_trader w (fold (add_candidate env meta) es d) = Some r \<and> newly_found r))"
  using assms
proof (induction es arbitrary: d)
  case (Cons e es)
  define d1 where "d1 = add_candidate env meta e d"
  have other: "get_trader w d1 = get_trader w d" if "w \<noteq> cy_wallet e"
    using that by (simp add: d1_def add_candidate_def Let_def trader_rows)
  have own: "\<exists>r. get_trader w d1 = Some r \<and> newly_found r" if "w = cy_wallet e"
    using that Cons.prems by (auto simp: d1_def add_candidate_def Let_def trader_rows intro!: upserted_new)
  have ih: "(w \<notin> cy_wallet ` set es \<longrightarrow> get_trader w (fold (add_candidate env meta) es d1) = get_trader w d1) \<and>
    (w \<in> cy_wallet ` set es \<longrightarrow>
       (\<exists>r. get_trader w (fold (add_candidate env meta) es d1) = Some r \<and> newly_found r))"
  proof (rule Cons.IH, intro allI impI)
    fix r assume r: "get_trader w d1 = Some r"
    show "newly_found r \<or> w \<notin> cy_wallet ` set es"
    proof (cases "w = cy_wallet e")
      case True
      then show ?thesis using own r by (metis option.inject)
    next
      case False
      then show ?thesis using other r Cons.prems by (metis image_insert insertCI list.simps(15))
    qed
  qed
  show ?case
  proof (cases "w = cy_wallet e")
    case True
    then show ?thesis using ih own by (cases "w \<in> cy_wallet ` set es") (simp_all add: d1_def [symmetric])
  next
    case False
    then show ?thesis using ih other by (simp add: d1_def [symmetric])
  qed
qed simp

text \<open>
  Discovery leaves every known wallet as it is, a removed one included.  A wallet that it adds is
  one the feeds named and the database did not know, is no launchpad token, passed the screen and
  the verification on the chain, and starts as discovered with every score zero; and there are at
  most twice as many of them as the roster has places.
\<close>

theorem discovery_adds_unproven_wallets:
  assumes "0 \<le> target_roster_size st"
    and run: "discover_wallets st env auto_add d = (rep, d')"
  shows "(\<forall>w. w \<notin> set (dc_added rep) \<longrightarrow> get_trader w d' = get_trader w d) \<and>
    length (dc_added rep) \<le> 2 * nat (target_roster_size st) \<and>
    (\<forall>w \<in> set (dc_added rep). get_trader w d = None \<and> looks_like_launchpad_token w = None \<and>
       vd_ok (verify (de_accounts env) w) \<and> in_balance_window st (de_balance env w) \<and>
       (\<exists>m p. map_of (gmgn_discover True (de_gmgn env)) w = Some m \<and> screen st 30 (fi_tags m) p = Screen_passed) \<and>
       (\<exists>r. get_trader w d' = Some r \<and> tw_status r = TS_DISCOVERED \<and> tw_composite r = Some 0 \<and>
          tw_confidence r = Some 0 \<and> tw_copyability r = Some 0))"
proof -
  define meta where "meta = gmgn_discover True (de_gmgn env)"
  define fresh where "fresh = fresh_wallets d meta"
  define es where "es = discovery_survivors st env meta fresh"
  show ?thesis
  proof (cases "dc_added rep = []")
    case True
    then have "d' = d"
      using run unfolding discover_wallets_def Let_def meta_def [symmetric] fresh_def [symmetric] es_def [symmetric]
      by (auto split: if_splits)
    then show ?thesis using True by simp
  next
    case False
    then have added: "dc_added rep = map cy_wallet es"
      and d': "d' = log_event ''TRADER_DISCOVERED'' (Some ''gmgn'') (fold (add_candidate env meta) es d)"
      using run unfolding discover_wallets_def Let_def meta_def [symmetric] fresh_def [symmetric] es_def [symmetric]
      by (auto split: if_splits)
    have fresh: "get_trader w d = None \<and> looks_like_launchpad_token w = None \<and> map_of meta w \<noteq> None"
      if "w \<in> set fresh" for w
      using that by (auto simp: fresh_def fresh_wallets_def get_trader_None map_of_eq_None_iff)
    have unknown: "get_trader w d = None" if "w \<in> cy_wallet ` set es" for w
      using that survivors_facts(1) [of _ st env meta fresh] fresh by (auto simp: es_def)
    have rows: "(w \<notin> cy_wallet ` set es \<longrightarrow> get_trader w d' = get_trader w d) \<and>
        (w \<in> cy_wallet ` set es \<longrightarrow> (\<exists>r. get_trader w d' = Some r \<and> newly_found r))" for w
      using add_candidates [of w d es env meta] unknown [of w] by (auto simp: d' trader_rows)
    have each: "get_trader w d = None \<and> looks_like_launchpad_token w = None \<and>
       vd_ok (verify (de_accounts env) w) \<and> in_balance_window st (de_balance env w) \<and>
       (\<exists>m p. map_of meta w = Some m \<and> screen st 30 (fi_tags m) p = Screen_passed)"
      if w: "w \<in> cy_wallet ` set es" for w
    proof -
      obtain e where e: "e \<in> set (discovery_survivors st env meta fresh)" "cy_wallet e = w"
        using w by (auto simp: es_def)
      obtain m where "map_of meta w = Some m" using fresh survivors_facts(1) [OF e(1)] e(2) by auto
      then show ?thesis
        using survivors_facts [OF e(1)] fresh [of w] e(2) by auto
    qed
    have "length (dc_added rep) \<le> 2 * nat (target_roster_size st)"
      using survivors_few [OF assms(1)] by (simp add: added es_def)
    then show ?thesis
      using rows each by (simp add: added meta_def newly_found_def)
  qed
qed

definition sample_profits :: profit_row where
  "sample_profits = \<lparr>pf_realized = Some 5000, pf_total = Some 6000, pf_cost = Some 900,
     pf_winrate = Some (6/10), pf_buy = 30, pf_sell = 20\<rparr>"

definition sample_discovery :: discovery_env where
  "sample_discovery = \<lparr>de_gmgn = \<lparr>gm_enabled = True,
       gm_feed = (\<lambda>path. if path = SMARTMONEY then Inr [\<lparr>fr_maker = ''wallet'', fr_tags = []\<rparr>] else Inr []),
       gm_enabled_later = True, gm_profits = (\<lambda>ws. Inr [(''wallet'', sample_profits)])\<rparr>,
     de_balance = (\<lambda>w. Inr 5), de_accounts = (\<lambda>w. Inr None), de_new_id = (\<lambda>w. 1), de_now = 7\<rparr>"

definition unpaced_settings :: settings where
  "unpaced_settings = default_settings\<lparr>gmgn_max_trades_per_day := 0\<rparr>"

lemma sample_discovery_added:
  "dc_added (fst (discover_wallets unpaced_settings sample_discovery (Some True) empty_database)) = [''wallet'']"
proof -
  have meta: "gmgn_discover True (de_gmgn sample_discovery) =
      [(''wallet'', \<lparr>fi_tags = [], fi_source = ''smartmoney'', fi_trades_seen = 1\<rparr>)]"
    by (simp add: gmgn_discover_def sample_discovery_def read_feed_def note_maker_def SMARTMONEY_def
        KOL_def dict_setdefault_def)
  have fresh: "fresh_wallets empty_database [(''wallet'', i)] = [''wallet'']" for i
    by (simp add: fresh_wallets_def empty_database_def looks_like_launchpad_token_def LAUNCHPAD_SUFFIXES_def
        suffix_def)
  have profits: "wallet_profits (de_gmgn sample_discovery) [''wallet''] = [(''wallet'', sample_profits)]"
    by (simp add: wallet_profits_def sample_discovery_def MAX_WALLETS_PER_CALL_def)
  have ok: "screen unpaced_settings 30 [] sample_profits = Screen_passed"
    by (simp add: screen_def unpaced_settings_def sample_profits_def default_settings_def dec_def
        winrate_pct_def)
  have candidates: "screen_candidates unpaced_settings [(''wallet'', \<lparr>fi_tags = [], fi_source = s, fi_trades_seen = n\<rparr>)]
      [(''wallet'', sample_profits)] [''wallet''] = [\<lparr>cy_wallet = ''wallet'', cy_profits = sample_profits\<rparr>]" for s n
    by (simp add: screen_candidates_def map_filter_simps ok)
  have survivors: "discovery_survivors unpaced_settings sample_discovery
      [(''wallet'', \<lparr>fi_tags = [], fi_source = s, fi_trades_seen = n\<rparr>)] [''wallet''] =
      [\<lparr>cy_wallet = ''wallet'', cy_profits = sample_profits\<rparr>]" for s n
    by (simp add: discovery_survivors_def profits candidates)
      (simp add: size_window_def slice_to_def verified_def verify_many_def verify_def sample_discovery_def
        unpaced_settings_def default_settings_def looks_like_launchpad_token_def LAUNCHPAD_SUFFIXES_def suffix_def)
  have on: "gm_enabled (de_gmgn sample_discovery)" by (simp add: sample_discovery_def)
  show ?thesis by (simp add: discover_wallets_def on meta fresh survivors)
qed

lemma discovery_adds_unproven_wallets_witness:
  "\<exists>r. get_trader ''wallet'' (snd (discover_wallets unpaced_settings sample_discovery (Some True) empty_database)) =
      Some r \<and> tw_status r = TS_DISCOVERED \<and> tw_composite r = Some 0"
proof -
  obtain rep d where run: "discover_wallets unpaced_settings sample_discovery (Some True) empty_database = (rep, d)"
    by fastforce
  then have "dc_added rep = [''wallet'']" using sample_discovery_added by simp
  moreover have "0 \<le> target_roster_size unpaced_settings"
    by (simp add: unpaced_settings_def default_settings_def)
  ultimately show ?thesis using discovery_adds_unproven_wallets [OF _ run] run by auto
qed

end
