(* ===== verification/Seeding.thy ===== *)
theory Seeding
  imports Parser Trader_Rows Promotion
begin

text \<open>
  \<^verbatim>\<open>seeding.py\<close>: wallets from a pasted text or from the seed file, and their import.  Texts
  are 8-bit; the line boundaries are those of \<^verbatim>\<open>str.splitlines\<close> in that range.  A file is
  the text it holds, or \<^const>\<open>None\<close> when it does not exist.
\<close>

section \<open>Lines and words\<close>

definition is_line_break :: "char \<Rightarrow> bool" where
  "is_line_break c \<longleftrightarrow> c \<in> {CHR 0x0A, CHR 0x0B, CHR 0x0C, CHR 0x0D, CHR 0x1C, CHR 0x1D, CHR 0x1E, CHR 0x85}"

function splitlines :: "string \<Rightarrow> string list" where
  "splitlines s =
     (if s = [] then []
      else let line = takeWhile (\<lambda>c. \<not> is_line_break c) s;
               rest = dropWhile (\<lambda>c. \<not> is_line_break c) s
           in line # splitlines
                (if take 2 rest = [CHR 0x0D, CHR 0x0A] then drop 2 rest else drop 1 rest))"
  by pat_completeness auto
termination
proof (relation "measure length")
  fix s line rest :: string
  assume s: "s \<noteq> []" and rest: "rest = dropWhile (\<lambda>c. \<not> is_line_break c) s"
  have "length rest \<le> length s" by (simp add: rest length_dropWhile_le)
  then have "length (drop 2 rest) < length s" "length (drop 1 rest) < length s"
    using s by (cases rest; simp)+
  then show "((if take 2 rest = [CHR 0x0D, CHR 0x0A] then drop 2 rest else drop 1 rest), s) \<in> measure length"
    by simp
qed simp

declare splitlines.simps [simp del]

text \<open>\<^verbatim>\<open>str.split()\<close>: the maximal runs of characters that are no space.\<close>

function words :: "string \<Rightarrow> string list" where
  "words s =
     (let t = lstrip s
      in if t = [] then []
         else takeWhile (\<lambda>c. \<not> is_space c) t # words (dropWhile (\<lambda>c. \<not> is_space c) t))"
  by pat_completeness auto
termination
proof (relation "measure length")
  fix s :: string and t
  assume t: "t = lstrip s" "t \<noteq> []"
  have h: "\<not> is_space (hd t)" using t hd_dropWhile [of is_space s] by (auto simp: lstrip_def)
  have "length t \<le> length s" by (simp add: t lstrip_def length_dropWhile_le)
  moreover have "length (dropWhile (\<lambda>c. \<not> is_space c) t) < length t"
    using t(2) h by (cases t) (auto simp: le_imp_less_Suc length_dropWhile_le)
  ultimately show "(dropWhile (\<lambda>c. \<not> is_space c) t, s) \<in> measure length" by simp
qed simp

declare words.simps [simp del]

section \<open>Parsing\<close>

type_synonym seed_entry = "string \<times> string option \<times> string option"   \<comment> \<open>wallet, label, note\<close>

datatype seed_error = Seed_not_found | Seed_invalid nat string | Seed_all_invalid "(nat \<times> string) list"

definition valid_address :: "string \<Rightarrow> bool" where
  "valid_address w \<longleftrightarrow> 32 \<le> length w \<and> length w \<le> 44 \<and> list_all (\<lambda>c. c \<in> set B58) w"

definition is_comment :: "string \<Rightarrow> bool" where
  "is_comment line \<longleftrightarrow> line = [] \<or> hd line = CHR ''#''"

text \<open>\<^verbatim>\<open>parts[i] if len(parts) > i and parts[i] else None\<close>\<close>

definition part :: "nat \<Rightarrow> string list \<Rightarrow> string option" where
  "part i parts = (if i < length parts \<and> parts ! i \<noteq> [] then Some (parts ! i) else None)"

definition parts_of :: "string \<Rightarrow> string list" where
  "parts_of line = map strip (split_on CHR '','' line)"

definition entry_of :: "string list \<Rightarrow> seed_entry" where
  "entry_of parts = (hd parts, part 1 parts, part 2 parts)"

fun file_lines ::
    "nat \<Rightarrow> string list \<Rightarrow> seed_entry list \<Rightarrow> seed_error + seed_entry list" where
  "file_lines lineno [] out = Inr out"
| "file_lines lineno (raw # raws) out =
     (let line = strip raw; parts = parts_of line; wallet = hd parts
      in if is_comment line then file_lines (Suc lineno) raws out
         else if \<not> valid_address wallet then Inl (Seed_invalid lineno wallet)
         else if wallet \<in> fst ` set out then file_lines (Suc lineno) raws out
         else file_lines (Suc lineno) raws (out @ [entry_of parts]))"

definition parse_seed_file :: "string option \<Rightarrow> seed_error + seed_entry list" where
  "parse_seed_file content =
     (case content of None \<Rightarrow> Inl Seed_not_found | Some text \<Rightarrow> file_lines 1 (splitlines text) [])"

type_synonym paste = "seed_entry list \<times> (nat \<times> string) list"   \<comment> \<open>accepted, errors\<close>

definition paste_token :: "nat \<Rightarrow> string \<Rightarrow> paste \<Rightarrow> paste" where
  "paste_token lineno token s =
     (let (out, errors) = s
      in if valid_address token
           then (if token \<in> fst ` set out then s else (out @ [(token, None, None)], errors))
         else (out, errors @ [(lineno, token)]))"

text \<open>A line of several words without a comma is a paste of bare addresses.\<close>

definition paste_line :: "nat \<times> string \<Rightarrow> paste \<Rightarrow> paste" where
  "paste_line l s =
     (let (lineno, raw) = l; line = strip raw; parts = parts_of line; wallet = hd parts;
          (out, errors) = s
      in if is_comment line then s
         else if length parts = 1 \<and> 1 < length (words line)
           then fold (paste_token lineno) (words line) s
         else if \<not> valid_address wallet then (out, errors @ [(lineno, wallet)])
         else if wallet \<in> fst ` set out then s
         else (out @ [entry_of parts], errors))"

definition parse_seed_text :: "string \<Rightarrow> seed_error + seed_entry list" where
  "parse_seed_text text =
     (let (out, errors) = fold paste_line (List.enumerate 1 (splitlines text)) ([], [])
      in if errors \<noteq> [] \<and> out = [] then Inl (Seed_all_invalid (take 5 errors)) else Inr out)"

section \<open>Import\<close>

record import_env =
  im_accounts :: "string \<Rightarrow> py_error + account_info option"
  im_new_id :: "string \<Rightarrow> nat"
  im_now :: datetime

record import_report =
  ir_imported :: "string list"
  ir_present :: nat
  ir_total :: nat
  ir_rejected :: "(string \<times> address_kind) list"

definition seed_entry_in ::
    "import_env \<Rightarrow> string \<Rightarrow> seed_entry \<Rightarrow> string list \<times> nat \<times> database \<Rightarrow> string list \<times> nat \<times> database" where
  "seed_entry_in env source entry s =
     (let (wallet, label, note) = entry; (imported, present, d) = s;
          existing = get_trader wallet d;
          d' = upsert_trader (im_new_id env wallet) (im_now env) wallet
                 (case label of None \<Rightarrow> source | Some l \<Rightarrow> l) label
                 (if existing = None then Some TS_DISCOVERED else None) [] d
      in if existing = None then (imported @ [wallet], present, d')
         else (imported, present + 1, d'))"

text \<open>The second component is what is queued for backfill.\<close>

definition import_wallets ::
    "import_env \<Rightarrow> seed_entry list \<Rightarrow> string \<Rightarrow> bool \<Rightarrow> bool \<Rightarrow> database \<Rightarrow>
       import_report \<times> string list \<times> database" where
  "import_wallets env entries source backfill verify_on_chain d =
     (let verdicts = verify_many (im_accounts env) (map fst entries);
          verdict_of = (\<lambda>e. the (map_of verdicts (fst e)));
          bad = (if verify_on_chain then filter (\<lambda>e. \<not> vd_ok (verdict_of e)) entries else []);
          keep = (if verify_on_chain then filter (\<lambda>e. vd_ok (verdict_of e)) entries else entries);
          rejected = map (\<lambda>e. (fst e, vd_kind (verdict_of e))) bad
      in if keep = []
           then (\<lparr>ir_imported = [], ir_present = 0, ir_total = 0, ir_rejected = rejected\<rparr>, [], d)
         else case fold (seed_entry_in env source) keep ([], 0, d) of
                (imported, present, d1) \<Rightarrow>
                  (\<lparr>ir_imported = imported, ir_present = present, ir_total = length keep,
                    ir_rejected = rejected\<rparr>,
                   if backfill then imported else [], repo_log_audit source ''wallets_imported'' d1))"

definition import_seed_file ::
    "import_env \<Rightarrow> string option \<Rightarrow> bool \<Rightarrow> database \<Rightarrow>
       seed_error + (import_report \<times> string list \<times> database)" where
  "import_seed_file env content backfill d =
     (case parse_seed_file content of
        Inl e \<Rightarrow> Inl e
      | Inr entries \<Rightarrow>
          if entries = []
            then Inr (\<lparr>ir_imported = [], ir_present = 0, ir_total = 0, ir_rejected = []\<rparr>, [], d)
          else case fold (seed_entry_in env ''manual-seed'') entries ([], 0, d) of
                 (imported, present, d1) \<Rightarrow>
                   Inr (\<lparr>ir_imported = imported, ir_present = present, ir_total = length entries,
                         ir_rejected = []\<rparr>,
                        if backfill then imported else [], repo_log_audit ''cli'' ''seed_import'' d1))"

section \<open>What is accepted\<close>

definition entries_ok :: "seed_entry list \<Rightarrow> bool" where
  "entries_ok es \<longleftrightarrow> distinct (map fst es) \<and> (\<forall>e \<in> set es. valid_address (fst e))"

lemma entries_ok_snoc: "entries_ok es \<Longrightarrow> valid_address (fst e) \<Longrightarrow> fst e \<notin> fst ` set es \<Longrightarrow> entries_ok (es @ [e])"
  by (auto simp: entries_ok_def)

lemma fst_entry_of [simp]: "fst (entry_of parts) = hd parts"
  by (simp add: entry_of_def)

lemma file_lines_ok: "file_lines n raws out = Inr es \<Longrightarrow> entries_ok out \<Longrightarrow> entries_ok es"
  by (induction n raws out rule: file_lines.induct)
    (auto simp: Let_def entries_ok_snoc split: if_splits)

lemma paste_token_ok: "entries_ok (fst s) \<Longrightarrow> entries_ok (fst (paste_token n token s))"
  by (cases s) (auto simp: paste_token_def entries_ok_snoc)

lemma paste_tokens_ok: "entries_ok (fst s) \<Longrightarrow> entries_ok (fst (fold (paste_token n) ts s))"
  by (induction ts arbitrary: s) (simp_all add: paste_token_ok)

lemma paste_line_ok: "entries_ok (fst s) \<Longrightarrow> entries_ok (fst (paste_line l s))"
  using paste_tokens_ok [of s]
  by (cases s; cases l) (auto simp: paste_line_def Let_def entries_ok_snoc)

lemma paste_lines_ok: "entries_ok (fst s) \<Longrightarrow> entries_ok (fst (fold paste_line ls s))"
  by (induction ls arbitrary: s) (simp_all add: paste_line_ok)

lemma parse_seed_text_ok: "parse_seed_text pasted = Inr es \<Longrightarrow> entries_ok es"
  using paste_lines_ok [of "([], [])" "List.enumerate 1 (splitlines pasted)"]
  by (auto simp: parse_seed_text_def entries_ok_def split: prod.splits if_splits)

lemma parse_seed_file_ok: "parse_seed_file content = Inr es \<Longrightarrow> entries_ok es"
  by (auto simp: parse_seed_file_def entries_ok_def [of "[]"] split: option.splits
      dest: file_lines_ok)

section \<open>Round trip\<close>

definition plain_char :: "char \<Rightarrow> bool" where
  "plain_char c \<longleftrightarrow> \<not> is_space c \<and> \<not> is_line_break c \<and> c \<noteq> CHR '','' \<and> c \<noteq> CHR ''#''"

lemma B58_plain: "list_all plain_char B58"
  by (simp add: B58_def plain_char_def is_space_def is_line_break_def)

lemma valid_address_plain:
  assumes "valid_address w"
  shows "w \<noteq> []" and "\<And>c. c \<in> set w \<Longrightarrow> plain_char c"
  using assms B58_plain by (auto simp: valid_address_def list_all_iff)

lemma split_on_absent: "c \<notin> set w \<Longrightarrow> split_on c w = [w]"
  by (induction w) auto

lemma splitlines_line:
  assumes "\<forall>c \<in> set w. \<not> is_line_break c"
  shows "splitlines (w @ CHR 0x0A # rest) = w # splitlines rest"
proof -
  have nl: "is_line_break (CHR 0x0A)" by (simp add: is_line_break_def)
  have "takeWhile (\<lambda>c. \<not> is_line_break c) (w @ CHR 0x0A # rest) = w"
    "dropWhile (\<lambda>c. \<not> is_line_break c) (w @ CHR 0x0A # rest) = CHR 0x0A # rest"
    using assms nl by (simp_all add: takeWhile_append2 dropWhile_append2)
  then show ?thesis by (subst splitlines.simps) (simp add: Let_def)
qed

lemma splitlines_Nil [simp]: "splitlines [] = []"
  by (simp add: splitlines.simps)

lemma words_single:
  assumes "w \<noteq> []" "\<forall>c \<in> set w. \<not> is_space c"
  shows "words w = [w]"
proof -
  have w: "lstrip w = w" "takeWhile (\<lambda>c. \<not> is_space c) w = w"
    and d: "dropWhile (\<lambda>c. \<not> is_space c) w = []"
    using assms(2) by (simp_all add: lstrip_def dropWhile_none)
  have "words [] = []" by (simp add: words.simps lstrip_def)
  then show ?thesis using assms(1) by (subst words.simps) (simp only: w d Let_def if_False)
qed

definition unlines :: "string list \<Rightarrow> string" where
  "unlines ws = concat (map (\<lambda>w. w @ [CHR 0x0A]) ws)"

lemma splitlines_unlines: "\<forall>w \<in> set ws. valid_address w \<Longrightarrow> splitlines (unlines ws) = ws"
proof (induction ws)
  case (Cons w ws)
  have "\<forall>c \<in> set w. \<not> is_line_break c"
    using valid_address_plain(2) [of w] Cons.prems by (auto simp: plain_char_def)
  then show ?case using Cons splitlines_line [of w "unlines ws"] by (simp add: unlines_def)
qed (simp add: unlines_def)

lemma valid_line:
  assumes "valid_address w"
  shows "strip w = w" "parts_of w = [w]" "words w = [w]" "\<not> is_comment w"
proof -
  have p: "w \<noteq> []" "\<forall>c \<in> set w. plain_char c" using valid_address_plain [OF assms] by auto
  then show s: "strip w = w" by (auto simp: plain_char_def intro: strip_no_space)
  have "CHR '','' \<notin> set w" using p(2) by (auto simp: plain_char_def)
  then show "parts_of w = [w]" by (simp add: parts_of_def split_on_absent s)
  show "words w = [w]" using p by (intro words_single) (auto simp: plain_char_def)
  show "\<not> is_comment w" using p hd_in_set [OF p(1)] by (auto simp: is_comment_def plain_char_def)
qed

abbreviation bare :: "string \<Rightarrow> seed_entry" where "bare w \<equiv> (w, None, None)"

lemma entry_of_single: "entry_of [w] = bare w"
  by (simp add: entry_of_def part_def)

lemma file_lines_bare:
  "\<forall>w \<in> set ws. valid_address w \<Longrightarrow> distinct ws \<Longrightarrow> set ws \<inter> fst ` set out = {} \<Longrightarrow>
   file_lines n ws out = Inr (out @ map bare ws)"
  by (induction ws arbitrary: n out) (auto simp: Let_def valid_line entry_of_single)

lemma paste_lines_bare:
  "\<forall>w \<in> set ws. valid_address w \<Longrightarrow> distinct ws \<Longrightarrow> set ws \<inter> fst ` set out = {} \<Longrightarrow>
   fold paste_line (List.enumerate n ws) (out, errors) = (out @ map bare ws, errors)"
  by (induction ws arbitrary: n out)
    (auto simp: Let_def valid_line entry_of_single paste_line_def)

lemma parse_seed_text_bare:
  assumes "distinct ws" "\<forall>w \<in> set ws. valid_address w"
  shows "parse_seed_text (unlines ws) = Inr (map bare ws)"
  using paste_lines_bare [OF assms(2,1), of "[]" 1 "[]"]
  by (simp add: parse_seed_text_def splitlines_unlines [OF assms(2)])

text \<open>
  A list of distinct valid addresses, one per line, is read back as it was, from a pasted text and
  from a file; and whatever text or file is accepted, its entries are distinct valid addresses.
\<close>

theorem seed_round_trip:
  "(distinct ws \<and> list_all valid_address ws \<longrightarrow>
      parse_seed_text (unlines ws) = Inr (map (\<lambda>w. (w, None, None)) ws) \<and>
      parse_seed_file (Some (unlines ws)) = Inr (map (\<lambda>w. (w, None, None)) ws)) \<and>
   (parse_seed_text pasted = Inr es \<or> parse_seed_file content = Inr es \<longrightarrow>
      distinct (map fst es) \<and> list_all valid_address (map fst es))"
proof -
  have "parse_seed_text (unlines ws) = Inr (map bare ws)"
    "parse_seed_file (Some (unlines ws)) = Inr (map bare ws)"
    if "distinct ws" "list_all valid_address ws"
  proof -
    have v: "\<forall>w \<in> set ws. valid_address w" using that by (simp add: list_all_iff)
    show "parse_seed_text (unlines ws) = Inr (map bare ws)"
      by (rule parse_seed_text_bare [OF that(1) v])
    show "parse_seed_file (Some (unlines ws)) = Inr (map bare ws)"
      using file_lines_bare [OF v that(1), of "[]" 1]
      by (simp add: parse_seed_file_def splitlines_unlines [OF v])
  qed
  then show ?thesis
    using parse_seed_text_ok [of pasted es] parse_seed_file_ok [of content es]
    by (auto simp: entries_ok_def list_all_iff)
qed

definition sample_wallet :: string where
  "sample_wallet = ''9xQeWvG816bUx9EPjHmaT23yvVM2ZWbrrpZb9PusVFin''"

lemma seed_round_trip_witness:
  "parse_seed_text (unlines [sample_wallet]) = Inr [(sample_wallet, None, None)]"
proof -
  have "list_all valid_address [sample_wallet]"
    by (simp add: valid_address_def sample_wallet_def B58_def)
  then show ?thesis using seed_round_trip [of "[sample_wallet]" "[]" "[]" None] by simp
qed

section \<open>What an import does\<close>

lemma seed_entry_in_step:
  assumes "seed_entry_in env source e (imported, present, d) = (imported', present', d')"
  shows "imported' = imported @ (if get_trader (fst e) d = None then [fst e] else [])"
    and "w \<noteq> fst e \<Longrightarrow> get_trader w d' = get_trader w d"
    and "status_of (fst e) d' = Some TS_DISCOVERED"
  using assms
  by (cases e; auto simp: seed_entry_in_def Let_def trader_rows status_of_def split: if_splits)+

lemma seed_entry_in_fold:
  assumes "distinct (map fst es)"
    and "fold (seed_entry_in env source) es (imported, present, d) = (imported', present', d')"
  shows "imported' = imported @ filter (\<lambda>w. get_trader w d = None) (map fst es) \<and>
    (\<forall>w. w \<notin> fst ` set es \<longrightarrow> get_trader w d' = get_trader w d) \<and>
    (\<forall>w \<in> fst ` set es. status_of w d' = Some TS_DISCOVERED)"
  using assms
proof (induction es arbitrary: imported present d)
  case (Cons e es)
  obtain i1 p1 d1 where s: "seed_entry_in env source e (imported, present, d) = (i1, p1, d1)"
    by (metis prod_cases3)
  note step = seed_entry_in_step [OF s]
  have new: "fst e \<notin> fst ` set es" using Cons.prems(1) by auto
  have ih: "imported' = i1 @ filter (\<lambda>w. get_trader w d1 = None) (map fst es)"
    "\<And>w. w \<notin> fst ` set es \<Longrightarrow> get_trader w d' = get_trader w d1"
    "\<And>w. w \<in> fst ` set es \<Longrightarrow> status_of w d' = Some TS_DISCOVERED"
    using Cons.IH [of i1 p1 d1] Cons.prems by (auto simp: s)
  have "filter (\<lambda>w. get_trader w d1 = None) (map fst es) = filter (\<lambda>w. get_trader w d = None) (map fst es)"
    using new step(2) by (intro filter_cong) (metis image_eqI list.set_map)+
  moreover have "status_of (fst e) d' = Some TS_DISCOVERED"
    using ih(2) [OF new] step(3) by (simp add: status_of_def)
  moreover have "get_trader w d' = get_trader w d" if "w \<notin> fst ` set (e # es)" for w
    using that ih(2) [of w] step(2) [of w] by simp
  ultimately show ?case using ih step(1) by auto
qed simp

definition accepted_entries :: "import_env \<Rightarrow> bool \<Rightarrow> seed_entry list \<Rightarrow> seed_entry list" where
  "accepted_entries env verify_on_chain entries =
     filter (\<lambda>e. verify_on_chain \<longrightarrow> vd_ok (verify (im_accounts env) (fst e))) entries"

text \<open>
  An import of parsed entries leaves every wallet alone that is not among them or that the chain
  says is no wallet.  Each of the others is watched afterwards as a newly discovered one, whatever
  its status was: also one that had been removed.  Only wallets without a row are reported as
  imported and queued for a backfill.
\<close>

theorem import_watches_accepted:
  assumes entries: "parse_seed_text pasted = Inr entries"
    and run: "import_wallets env entries source backfill verify_on_chain d = (rep, queued, d')"
  shows "(\<forall>w. w \<notin> fst ` set (accepted_entries env verify_on_chain entries) \<longrightarrow>
            get_trader w d' = get_trader w d) \<and>
         (\<forall>w \<in> fst ` set (accepted_entries env verify_on_chain entries).
            status_of w d' = Some TS_DISCOVERED) \<and>
         ir_imported rep = filter (\<lambda>w. get_trader w d = None)
           (map fst (accepted_entries env verify_on_chain entries)) \<and>
         queued = (if backfill then ir_imported rep else [])"
proof -
  define keep where "keep = accepted_entries env verify_on_chain entries"
  have v: "the (map_of (verify_many (im_accounts env) (map fst entries)) (fst e)) =
      verify (im_accounts env) (fst e)" if "e \<in> set entries" for e
    using that by (simp add: verify_many_get)
  have keep: "(if verify_on_chain
      then filter (\<lambda>e. vd_ok (the (map_of (verify_many (im_accounts env) (map fst entries)) (fst e)))) entries
      else entries) = keep"
    unfolding keep_def accepted_entries_def by (simp add: v cong: filter_cong)
  have dist: "distinct (map fst keep)"
    using parse_seed_text_ok [OF entries]
    by (auto simp: keep_def accepted_entries_def entries_ok_def intro: distinct_map_filter)
  show ?thesis
  proof (cases "keep = []")
    case True
    then show ?thesis using run keep by (auto simp: import_wallets_def Let_def keep_def)
  next
    case False
    obtain imported present d1 where f: "fold (seed_entry_in env source) keep ([], 0, d) = (imported, present, d1)"
      by (metis prod_cases3)
    note facts = seed_entry_in_fold [OF dist f, simplified append_Nil]
    have "ir_imported rep = imported" "queued = (if backfill then imported else [])"
      "get_trader w d' = get_trader w d1" for w
      using run False f unfolding import_wallets_def Let_def keep by (auto simp: trader_rows)
    then show ?thesis using facts by (simp add: keep_def [symmetric] status_of_def)
  qed
qed

definition removed_database :: database where
  "removed_database = empty_database\<lparr>db_traders := [(new_trader_row 1 0 sample_wallet)\<lparr>tw_status := TS_BLACKLISTED\<rparr>]\<rparr>"

definition sample_import :: import_env where
  "sample_import = \<lparr>im_accounts = (\<lambda>_. Inr None), im_new_id = (\<lambda>_. 2), im_now = 5\<rparr>"

text \<open>A wallet that was removed is watched again once it is pasted again.\<close>

lemma import_watches_accepted_witness:
  "status_of sample_wallet removed_database = Some TS_BLACKLISTED \<and>
   (let (rep, queued, d) = import_wallets sample_import [(sample_wallet, None, None)] ''ui'' True True removed_database
    in status_of sample_wallet d = Some TS_DISCOVERED \<and> queued = [])"
proof -
  have p: "parse_seed_text (unlines [sample_wallet]) = Inr [(sample_wallet, None, None)]"
    using parse_seed_text_bare [of "[sample_wallet]"]
    by (simp add: valid_address_def sample_wallet_def B58_def)
  obtain rep queued d where r: "import_wallets sample_import [(sample_wallet, None, None)] ''ui'' True True
      removed_database = (rep, queued, d)" by (metis prod_cases3)
  have v: "vd_ok (verify (im_accounts sample_import) sample_wallet)"
    by (simp add: verify_def sample_import_def sample_wallet_def looks_like_launchpad_token_def
        LAUNCHPAD_SUFFIXES_def suffix_def)
  have b: "get_trader sample_wallet removed_database \<noteq> None" "status_of sample_wallet removed_database = Some TS_BLACKLISTED"
    by (simp_all add: status_of_def get_trader_def removed_database_def new_trader_row_def)
  show ?thesis
    using import_watches_accepted [OF p r] v b r by (simp add: accepted_entries_def)
qed

end
