(* ===== verification/Backtest_Loader.thy ===== *)
theory Backtest_Loader
  imports Backtest_Books
begin

text \<open>
  \<^verbatim>\<open>backtest/loader.py\<close> and \<^verbatim>\<open>services/tasks/backtests.py\<close>: the inputs of a backtest
  from the chain and the job that runs it.  What Helius answers is a function from the wallet and
  the page cursor; \<open>build_histories\<close> is in theory \<^verbatim>\<open>History\<close>.
\<close>

section \<open>Loading\<close>

fun load_trades ::
    "history_source \<Rightarrow> nat \<Rightarrow> datetime \<Rightarrow> string list \<Rightarrow> py_error + source_trade list" where
  "load_trades src pages now [] = Inr []"
| "load_trades src pages now (wallet # wallets) =
     (case history_rows src wallet pages None of
        Inl e \<Rightarrow> Inl e
      | Inr rows \<Rightarrow>
          case load_trades src pages now wallets of
            Inl e \<Rightarrow> Inl e
          | Inr ts \<Rightarrow> Inr (parse_rows now wallet rows @ ts))"

definition load_from_chain ::
    "history_source \<Rightarrow> string list \<Rightarrow> nat \<Rightarrow> usd \<Rightarrow> datetime \<Rightarrow>
       py_error + source_trade list \<times> token_history pydict" where
  "load_from_chain src wallets pages sol_price now =
     (case load_trades src pages now wallets of
        Inl e \<Rightarrow> Inl e
      | Inr ts \<Rightarrow> Inr (ts, build_histories sol_price ts))"

definition load_traders :: "database \<Rightarrow> string list \<Rightarrow> string \<rightharpoonup> trader_profile" where
  "load_traders d wallets =
     (\<lambda>w. if w \<in> set wallets then map_option trader_to_domain (get_trader w d) else None)"

section \<open>The job\<close>

text \<open>
  The parameters as they come out of the row: the numbers are parsed inside the \<^verbatim>\<open>try\<close>, so
  that a malformed one is an error here.
\<close>

record backtest_params =
  bp_wallets :: "string list"
  bp_sol_price :: "py_error + usd"
  bp_pages :: "py_error + nat"
  bp_config :: "py_error + backtest_config"

record backtest_job_row =
  bk_id :: nat
  bk_status :: string
  bk_params :: backtest_params
  bk_result :: "backtest_result option"
  bk_error :: "py_error option"

record job_env =
  je_source :: history_source
  je_settings :: settings
  je_impact :: impact_model
  je_sha256 :: "string \<Rightarrow> string"
  je_reservation_id :: "nat \<Rightarrow> string"
  je_draw :: "nat \<Rightarrow> rat"
  je_kill :: "string option"
  je_now :: datetime

definition job_bt_env ::
    "job_env \<Rightarrow> backtest_config \<Rightarrow> (string \<rightharpoonup> trader_profile) \<Rightarrow> token_history pydict \<Rightarrow> bt_env" where
  "job_bt_env je cfg traders hs = \<lparr>bx_config = cfg, bx_settings = je_settings je,
     bx_risk = risk (je_settings je), bx_histories = hs, bx_traders = traders,
     bx_impact = je_impact je, bx_sha256 = je_sha256 je,
     bx_reservation_id = je_reservation_id je, bx_draw = je_draw je, bx_kill = je_kill je\<rparr>"

text \<open>The body of the \<^verbatim>\<open>try\<close>.\<close>

definition backtest_body ::
    "job_env \<Rightarrow> database \<Rightarrow> backtest_params \<Rightarrow> py_error + backtest_result" where
  "backtest_body je d params =
     (let wallets = (if bp_wallets params = [] then watchlist_wallets d else bp_wallets params);
          traders = load_traders d wallets
      in if wallets = [] then Inl (ValueError ''no wallets to backtest; seed some first'')
         else case bp_sol_price params of Inl e \<Rightarrow> Inl e | Inr sol_price \<Rightarrow>
         (case bp_pages params of Inl e \<Rightarrow> Inl e | Inr pages \<Rightarrow>
         (case load_from_chain (je_source je) wallets pages sol_price (je_now je) of
            Inl e \<Rightarrow> Inl e
          | Inr (trades, histories) \<Rightarrow>
              if trades = [] then Inl (ValueError ''no on-chain history found'')
              else if \<forall>w \<in> set wallets. traders w = None
                then Inl (ValueError ''wallets have no scored profiles; run backfill first'')
              else case bp_config params of Inl e \<Rightarrow> Inl e | Inr cfg \<Rightarrow>
              (case run_backtest (job_bt_env je (cfg\<lparr>bc_sol_price := sol_price\<rparr>) traders histories)
                      trades of
                 (Some e, s) \<Rightarrow> Inl e
               | (None, s) \<Rightarrow> Inr (bt_result s)))))"

definition set_row :: "backtest_job_row \<Rightarrow> backtest_job_row list \<Rightarrow> backtest_job_row list" where
  "set_row r = update_where (\<lambda>q. bk_id q = bk_id r) (\<lambda>_. r)"

definition run_backtest_job ::
    "job_env \<Rightarrow> database \<Rightarrow> nat \<Rightarrow> backtest_job_row list \<Rightarrow> (py_error + backtest_result) \<times> backtest_job_row list" where
  "run_backtest_job je d bid rows =
     (case find (\<lambda>r. bk_id r = bid) rows of
        None \<Rightarrow> (Inl (KeyError ''not_found''), rows)
      | Some row \<Rightarrow>
          let running = row\<lparr>bk_status := ''running''\<rparr>
          in case backtest_body je d (bk_params row) of
               Inr result \<Rightarrow>
                 (Inr result,
                  set_row (running\<lparr>bk_status := ''complete'', bk_result := Some result\<rparr>)
                    (set_row running rows))
             | Inl e \<Rightarrow>
                 (Inl e, set_row (running\<lparr>bk_status := ''failed'', bk_error := Some e\<rparr>)
                    (set_row running rows)))"

text \<open>
  A job that was found always settles its row, as complete with a result or as failed with the
  error, whatever the chain, the parameters and the replay did; no row stays running, and no
  other row changes.
\<close>

theorem backtest_job_settles:
  assumes "run_backtest_job je d bid rows = (r, rows')" "bid \<in> bk_id ` set rows"
  shows "length rows' = length rows \<and>
    (\<forall>i < length rows. if bk_id (rows ! i) = bid
       then bk_id (rows' ! i) = bid \<and>
         (case r of Inr res \<Rightarrow> bk_status (rows' ! i) = ''complete'' \<and> bk_result (rows' ! i) = Some res
          | Inl e \<Rightarrow> bk_status (rows' ! i) = ''failed'' \<and> bk_error (rows' ! i) = Some e)
       else rows' ! i = rows ! i)"
proof -
  obtain row where row: "find (\<lambda>r. bk_id r = bid) rows = Some row" "bk_id row = bid"
  proof (cases "find (\<lambda>r. bk_id r = bid) rows")
    case None
    then show ?thesis using assms(2) by (auto simp: find_None_iff)
  next
    case (Some row)
    then show ?thesis using that by (auto simp: find_Some_iff)
  qed
  have twice: "set_row a (set_row b rows) ! i = (if bk_id (rows ! i) = bid then a else rows ! i)"
    if "bk_id a = bid" "bk_id b = bid" "i < length rows" for a b i
    using that by (simp add: set_row_def update_where_def)
  have len: "length (set_row a (set_row b rows)) = length rows" for a b
    by (simp add: set_row_def update_where_def)
  show ?thesis
  proof (cases "backtest_body je d (bk_params row)")
    case (Inl e)
    then have r: "r = Inl e" and rows': "rows' = set_row (row\<lparr>bk_status := ''failed'', bk_error := Some e\<rparr>)
        (set_row (row\<lparr>bk_status := ''running''\<rparr>) rows)"
      using assms(1) row(1) by (simp_all add: run_backtest_job_def Let_def)
    show ?thesis using row(2) by (simp add: r rows' len twice)
  next
    case (Inr x)
    then have r: "r = Inr x" and rows': "rows' = set_row (row\<lparr>bk_status := ''complete'',
        bk_result := Some x\<rparr>) (set_row (row\<lparr>bk_status := ''running''\<rparr>) rows)"
      using assms(1) row(1) by (simp_all add: run_backtest_job_def Let_def)
    show ?thesis using row(2) by (simp add: r rows' len twice)
  qed
qed

section \<open>The depth of a history from the chain\<close>

text \<open>
  The enhanced rows carry no value in dollars, so that the sizes from which the loader infers
  the depth are never positive and every token gets the assumed minimum.
\<close>

lemma parse_helius_enhanced_value:
  "parse_helius_enhanced i now row wallet = Some t \<Longrightarrow> st_source_value_usd t = 0"
  by (auto simp: parse_helius_enhanced_def Let_def split: if_splits option.splits)

lemma load_trades_value:
  "load_trades src pages now wallets = Inr ts \<Longrightarrow> t \<in> set ts \<Longrightarrow> st_source_value_usd t = 0"
proof (induction wallets arbitrary: ts)
  case (Cons w ws)
  then show ?case
    by (auto simp: parse_rows_def List.map_filter_def parse_helius_enhanced_value
        split: sum.splits)
qed simp

lemma assumed_liquidity_minimum:
  assumes "\<forall>t \<in> set ts. st_source_value_usd t \<le> 0"
  shows "assumed_liquidity ts = MIN_ASSUMED_LIQUIDITY"
proof -
  have "filter (\<lambda>x. 0 < x) (map st_source_value_usd ts) = []"
    using assms by (auto simp: filter_empty_conv)
  then show ?thesis by (simp add: assumed_liquidity_def MIN_ASSUMED_LIQUIDITY_def)
qed

lemma history_of_liquidity:
  assumes "\<forall>t \<in> set ts. st_source_value_usd t \<le> 0" "p \<in> set (th_points (history_of sol m ts))"
  shows "pp_liquidity_usd p = MIN_ASSUMED_LIQUIDITY"
proof -
  have "assumed_liquidity (sort_key st_source_confirmed_at ts) = MIN_ASSUMED_LIQUIDITY"
    using assms(1) by (intro assumed_liquidity_minimum) simp
  then show ?thesis
    using assms(2) by (auto simp: history_of_def token_history_init_def Let_def)
qed

lemma history_at_mem:
  assumes "history_at h t = Some p" "history_ok h"
  shows "p \<in> set (th_points h)"
proof -
  let ?seen = "filter (\<lambda>p. pp_at p \<le> t) (th_points h)"
  have "?seen \<noteq> []" "p = last ?seen"
    using assms by (auto simp: history_at_last Let_def split: if_splits)
  then have "p \<in> set ?seen" by (metis last_in_set)
  then show ?thesis by simp
qed

lemma build_histories_ok: "map_of (build_histories sol ts) m = Some h \<Longrightarrow> history_ok h"
  by (auto simp: build_histories_def history_of_def Let_def dest!: map_of_SomeD)

lemma build_histories_liquidity:
  assumes "\<forall>t \<in> set ts. st_source_value_usd t \<le> 0" "hp_histories hp = build_histories sol ts"
  shows "ms_liquidity_usd (historical_market hp m d) \<le> MIN_ASSUMED_LIQUIDITY"
proof (cases "map_of (build_histories sol ts) m")
  case None
  then show ?thesis
    by (simp add: historical_market_def assms(2) unknown_market_def default_market_def
        MIN_ASSUMED_LIQUIDITY_def)
next
  case (Some h)
  have "pp_liquidity_usd p = MIN_ASSUMED_LIQUIDITY" if "history_at h t = Some p" for t p
  proof -
    have p: "p \<in> set (th_points h)"
      using history_at_mem [OF that build_histories_ok [OF Some]] .
    obtain ts' where h: "h = history_of sol m ts'" and sub: "set ts' \<subseteq> set ts"
      using Some by (auto simp: build_histories_def Let_def dest!: map_of_SomeD)
    show ?thesis
      by (rule history_of_liquidity [OF _ p [unfolded h]]) (use assms(1) sub in blast)
  qed
  then show ?thesis
    using Some by (auto simp: historical_market_def assms(2) unknown_market_def default_market_def
        MIN_ASSUMED_LIQUIDITY_def split: option.split)
qed

text \<open>The state of a run that has approved nothing.\<close>

definition quiet :: "backtest \<Rightarrow> bool" where
  "quiet s \<longleftrightarrow> bt_positions s = [] \<and> br_approved (bt_result s) = 0 \<and> br_trades (bt_result s) = []"

definition shallow_world :: "bt_env \<Rightarrow> bool" where
  "shallow_world env \<longleftrightarrow> copy_cfg_ok (copyability (bx_settings env)) \<and>
     MIN_ASSUMED_LIQUIDITY < min_liquidity_usd (copyability (bx_settings env)) \<and>
     (\<exists>sol ts. bx_histories env = build_histories sol ts \<and> (\<forall>t \<in> set ts. st_source_value_usd t = 0))"

lemma shallow_never_approved:
  assumes "shallow_world env"
  shows "evaluate_entry (bt_engine env now) cid oid rid (\<lambda>l. l) trade trader confs l \<noteq>
    (Inr (d, Some order), l')"
proof
  assume ev: "evaluate_entry (bt_engine env now) cid oid rid (\<lambda>l. l) trade trader confs l =
    (Inr (d, Some order), l')"
  obtain pe where ok: "screened_ok (bx_settings env) (historical_data (provider_at env now))
      (bc_sizing_mode (bx_config env)) trade trader confs (snapshot l) pe"
    using evaluate_entry_approved [OF ev] by (auto simp: bt_engine_def)
  define c where "c = pe_candidate pe"
  have market: "c_market c = historical_market (provider_at env now) (st_token_mint trade) (st_token_decimals trade)"
    and buy: "st_action (c_source_trade c) = ACT_BUY"
    using ok by (simp_all add: screened_ok_def Let_def c_def historical_data_def)
  obtain u where gates: "run_entry_gates c u (copyability (bx_settings env)) (risk (bx_settings env)) =
      (pe_gates pe, True, pe_mult pe)"
    using ok by (auto simp: screened_ok_def Let_def c_def)
  have "copy_cfg_ok (copyability (bx_settings env))" using assms by (simp add: shallow_world_def)
  then have "admissible_buy c u (copyability (bx_settings env)) (risk (bx_settings env))"
    using run_entry_gates_iff_admissible_aux [OF _ buy] gates by (metis fst_conv snd_conv)
  then have "min_liquidity_usd (copyability (bx_settings env)) \<le> ms_liquidity_usd (c_market c)"
    by (simp add: admissible_buy_def Let_def)
  moreover obtain sol ts where "bx_histories env = build_histories sol ts"
    "\<forall>t \<in> set ts. st_source_value_usd t \<le> 0"
    using assms by (auto simp: shallow_world_def)
  moreover have "hp_histories (provider_at env now) = bx_histories env"
    by (simp add: provider_at_def historical_provider_def)
  ultimately have "min_liquidity_usd (copyability (bx_settings env)) \<le> MIN_ASSUMED_LIQUIDITY"
    unfolding market using build_histories_liquidity [of ts "provider_at env now" sol]
    by (metis order_trans)
  then show False using assms by (simp add: shallow_world_def)
qed

lemma each_open_none: "bt_positions s = [] \<Longrightarrow> each_open f s = s"
  by (simp add: each_open_def)

lemma on_signal_quiet:
  assumes "shallow_world env" "quiet s" "on_signal env trade trader s = (err, s')"
  shows "quiet s'"
proof -
  define s2 where "s2 = advance_clock (st_source_confirmed_at trade +
    ms_delta (bc_detection_latency_ms (bx_config env)))
    (on_result (\<lambda>r. r\<lparr>br_signals := br_signals r + 1\<rparr>) s)"
  have s2: "quiet s2"
    using assms(2) by (simp add: s2_def quiet_def advance_clock_def on_result_def split: option.split)
  obtain r l where ev: "evaluate_entry (bt_engine env (clock_of s2)) (bt_fresh s2) (bt_fresh s2 + 1)
      (bx_reservation_id env (bt_fresh s2 + 2)) (\<lambda>l. l)
      (trade\<lparr>st_detected_at := st_source_confirmed_at trade +
         ms_delta (bc_detection_latency_ms (bx_config env))\<rparr>) trader [] (bt_ledger s2) = (r, l)" by force
  have no: "r \<noteq> Inr (d, Some order)" for d order
    using shallow_never_approved [OF assms(1)] ev by metis
  have "on_signal env trade trader s = (case r of
      Inl e \<Rightarrow> (Some e, s2\<lparr>bt_ledger := l, bt_fresh := bt_fresh s2 + 4\<rparr>)
    | Inr (d, _) \<Rightarrow> (None, on_result (reject_signal d) (s2\<lparr>bt_ledger := l, bt_fresh := bt_fresh s2 + 4\<rparr>)))"
    unfolding on_signal_def Let_def s2_def [symmetric] ev using no
    by (auto split: sum.split option.split)
  then show ?thesis
    using assms(3) s2 by (auto simp: quiet_def on_result_def reject_signal_def split: sum.splits prod.splits)
qed

lemma timeline_step_quiet:
  assumes "shallow_world env" "quiet s" "timeline_step env e s = (err, s')"
  shows "quiet s'"
proof -
  define s1 where "s1 = advance_clock (fst e) s"
  have s1: "quiet s1" using assms(2) by (simp add: s1_def quiet_def advance_clock_def split: option.split)
  have frame: "br_approved (snd (match_lots env be tr n lots r)) = br_approved r" for be tr n lots r
    by (induction lots arbitrary: n r) (simp_all add: Let_def close_lot_def accrue_copyable_def split: option.split)
  have track: "quiet (track_source_pnl env tr s1)" for tr
    using s1 match_lots_frame [of env "bt_executor s1" tr] frame
    by (auto simp: quiet_def track_source_pnl_def Let_def case_prod_beta)
  have trade: "quiet s2" if "on_source_trade env tr now s1 = (er, s2)" for tr now er s2
    using that track [of tr] on_signal_quiet [OF assms(1) track]
    by (auto simp: on_source_trade_def Let_def mirror_exit_def quiet_def each_open_none
        split: option.splits if_splits)
  obtain er s2 where ev: "(case snd e of Trade t \<Rightarrow> on_source_trade env t (clock_of s1) s1
      | Price m \<Rightarrow> (None, s1)) = (er, s2)" by force
  then have s2: "quiet s2" using s1 trade by (auto split: timeline_event.splits)
  then have "tick_exits env now s2 = s2" for now
    by (simp add: tick_exits_def each_open_none quiet_def)
  moreover have "quiet (mark_to_market env now s2)" for now
    using s2 by (simp add: quiet_def mark_to_market_def mark_positions_def on_result_def
        record_equity_def Let_def split: prod.split)
  ultimately show ?thesis
    using assms(3) ev s2 by (auto simp: timeline_step_def Let_def s1_def [symmetric] split: option.splits)
qed

lemma replay_quiet: "replay env es s = (err, s') \<Longrightarrow> shallow_world env \<Longrightarrow> quiet s \<Longrightarrow> quiet s'"
  by (induction env es s rule: replay.induct)
    (auto split: prod.splits option.splits dest: timeline_step_quiet)

text \<open>
  A backtest of what was loaded from the chain approves nothing.  The loader can only assume its
  minimal depth of 5,000 dollars, for the rows carry no value, and the engine asks for more (25,000
  by default); hence no signal of any run passes the liquidity gate, and no position is opened.
\<close>

theorem chain_backtest_approves_nothing:
  assumes "load_from_chain src wallets pages sol now = Inr (trades, histories)"
    and "bx_histories env = histories" "copy_cfg_ok (copyability (bx_settings env))"
    and "MIN_ASSUMED_LIQUIDITY < min_liquidity_usd (copyability (bx_settings env))"
    and "run_backtest env trades = (err, s)"
  shows "br_approved (bt_result s) = 0 \<and> br_trades (bt_result s) = [] \<and> bt_positions s = []"
proof -
  have "\<forall>t \<in> set trades. st_source_value_usd t = 0" "histories = build_histories sol trades"
    using assms(1) load_trades_value by (auto simp: load_from_chain_def split: sum.splits)
  then have shallow: "shallow_world env"
    using assms(2-4) by (auto simp: shallow_world_def)
  have start: "quiet (start_run env (backtest_init env))" "quiet (backtest_init env)"
    by (simp_all add: quiet_def start_run_def backtest_init_def empty_result_def)
  have finish: "quiet x \<Longrightarrow> quiet (finish_run x)" for x
    by (simp add: quiet_def finish_run_def on_result_def)
  have settle: "quiet (mark_to_market env now1 (liquidate_all env now2 (advance_clock w x)))"
    if "quiet x" for x now1 now2 w
    using that by (simp add: quiet_def mark_to_market_def mark_positions_def on_result_def
        record_equity_def Let_def liquidate_all_def each_open_none advance_clock_def
        split: prod.split option.split)
  have "quiet s"
    using assms(5) replay_quiet [OF _ shallow start(1)] finish settle start(2)
    by (auto simp: run_backtest_def Let_def split: if_splits prod.splits option.splits)
  then show ?thesis by (simp add: quiet_def)
qed

text \<open>Two enhanced rows of one wallet, a purchase and a sale, and the job that replays them.\<close>

definition sample_rows :: "enhanced_row list" where
  "sample_rows = (let row = \<lparr>he_error = False, he_has_swap = True, he_signature = ''s1'',
       he_timestamp = 1000, he_slot = 1, he_native_in = 1000000000, he_native_out = 0,
       he_token_inputs = [],
       he_token_outputs = [\<lparr>tl_mint = ''MINT'', tl_token_amount = 1000000, tl_decimals = 6\<rparr>]\<rparr>
     in [row, row\<lparr>he_signature := ''s2'', he_timestamp := 1600\<rparr>])"

definition sample_source :: history_source where
  "sample_source wallet before = Inr (if before = None then sample_rows else [])"

lemma chain_backtest_approves_nothing_witness:
  "\<exists>trades histories. load_from_chain sample_source [''alice''] 10 150 0 = Inr (trades, histories) \<and>
     length trades = 2 \<and>
     br_approved (bt_result (snd (run_backtest (sample_bt_env\<lparr>bx_histories := histories\<rparr>) trades))) = 0"
proof -
  have n: "length (case load_from_chain sample_source [''alice''] 10 150 0 of
      Inr (ts, _) \<Rightarrow> ts | Inl _ \<Rightarrow> []) = 2" by code_simp
  then obtain ts hs where l: "load_from_chain sample_source [''alice''] 10 150 0 = Inr (ts, hs)"
    by (auto split: sum.splits)
  have cfg: "copyability (bx_settings (sample_bt_env\<lparr>bx_histories := hs\<rparr>)) = default_copyability"
    by (simp add: sample_bt_env_def default_settings_def)
  have "MIN_ASSUMED_LIQUIDITY < min_liquidity_usd default_copyability" by code_simp
  then have lim: "MIN_ASSUMED_LIQUIDITY <
      min_liquidity_usd (copyability (bx_settings (sample_bt_env\<lparr>bx_histories := hs\<rparr>)))"
    by (simp only: cfg)
  have "br_approved (bt_result (snd (run_backtest (sample_bt_env\<lparr>bx_histories := hs\<rparr>) ts))) = 0"
    using chain_backtest_approves_nothing [OF l _ _ lim prod.collapse [symmetric]] default_copy_cfg_ok cfg
    by simp
  moreover have "length ts = 2" using n by (simp add: l)
  ultimately show ?thesis using l by blast
qed

lemma backtest_job_settles_witness:
  "\<exists>je d rows r rows'. run_backtest_job je d 7 rows = (r, rows') \<and>
     map bk_status rows' = [''failed''] \<and> r = Inl (ValueError ''no wallets to backtest; seed some first'')"
proof -
  define je where "je = \<lparr>je_source = sample_source, je_settings = default_settings,
    je_impact = default_impact (\<lambda>x y. x), je_sha256 = id, je_reservation_id = nat_text,
    je_draw = (\<lambda>n. 1/2), je_kill = None, je_now = 0\<rparr>"
  define row where "row = \<lparr>bk_id = 7, bk_status = ''queued'', bk_params = \<lparr>bp_wallets = [],
    bp_sol_price = Inr 150, bp_pages = Inr 10, bp_config = Inr default_backtest_config\<rparr>,
    bk_result = None, bk_error = None\<rparr>"
  obtain r rows' where j: "run_backtest_job je empty_database 7 [row] = (r, rows')" by force
  have r: "r = Inl (ValueError ''no wallets to backtest; seed some first'')"
    using j by (auto simp: run_backtest_job_def row_def backtest_body_def watchlist_wallets_def
        empty_database_def Let_def)
  have "7 \<in> bk_id ` set [row]" by (simp add: row_def)
  from backtest_job_settles [OF j this] have st: "map bk_status rows' = [''failed'']"
    by (cases rows') (auto simp: row_def r)
  show ?thesis by (intro exI conjI) (rule j, rule st, rule r)
qed

text \<open>
  With trades that do carry a value the depth at a moment is the average over the whole history,
  what came later included: a provider over such histories looks ahead.
\<close>

lemma assumed_depth_looks_ahead:
  "let later = sample_trade\<lparr>st_source_confirmed_at := 3600000000, st_source_value_usd := 1500\<rparr>;
       depth = (\<lambda>ts. ms_liquidity_usd (historical_market
         (historical_provider (build_histories 150 ts) 150 (default_impact (\<lambda>x y. x)) 0) ''MINT'' 6))
   in depth [sample_trade] = 6000 \<and> depth [sample_trade, later] = 33000"
  by code_simp

end
