(* ===== verification/Setup_Routes.thy ===== *)
theory Setup_Routes
  imports Discovery Seeding Backtest_Loader
begin

text \<open>
  \<^verbatim>\<open>services/api/routes/setup.py\<close> and the creating routes of
  \<^verbatim>\<open>services/api/routes/backtests.py\<close>: the set-up screen, adding, removing and restoring
  wallets, the queue of long jobs with its cost gate, and the cache of balances.  The ARQ queue
  is the list of jobs enqueued, in order; replies are reduced to what they report as numbers
  and flags.
\<close>

section \<open>State\<close>

datatype queued_job =
    Backfill_wallet string "nat option"   \<comment> \<open>the pages, when they are passed\<close>
  | Run_backtest nat
  | Plain_job string

record cached_balance =
  cb_value :: rat
  cb_expires :: datetime

record setup_store =
  su_db :: database
  su_queue :: "queued_job list"
  su_backtests :: "backtest_job_row list"
  su_balances :: "string \<Rightarrow> cached_balance option"
  su_credits :: nat               \<comment> \<open>balance requests answered or attempted so far\<close>

definition enqueue :: "queued_job \<Rightarrow> setup_store \<Rightarrow> setup_store" where
  "enqueue job s = s\<lparr>su_queue := su_queue s @ [job]\<rparr>"

section \<open>The screen\<close>

definition count_seed_file :: "string option \<Rightarrow> nat" where
  "count_seed_file content =
     (case content of None \<Rightarrow> 0
      | Some text \<Rightarrow> length (filter (\<lambda>ln. strip ln \<noteq> [] \<and> hd (strip ln) \<noteq> CHR ''#'') (splitlines text)))"

record setup_step =
  ss_key :: string
  ss_done :: bool
  ss_action :: "string option"

definition setup_steps :: "dialect \<Rightarrow> settings \<Rightarrow> string option \<Rightarrow> setup_store \<Rightarrow> setup_step list" where
  "setup_steps dia st seed_file s =
     (let seed_lines = count_seed_file seed_file;
          traders = db_traders (su_db s);
          total = length traders;
          scored = length (filter (composite_positive dia (su_db s)) traders);
          latest = (if su_backtests s = [] then None else Some (last (su_backtests s)))
      in [\<lparr>ss_key = ''helius'', ss_done = (helius_api_key st \<noteq> []), ss_action = None\<rparr>,
          \<lparr>ss_key = ''seed'', ss_done = (0 < total),
           ss_action = (if seed_lines \<noteq> 0 \<or> total = 0 then Some ''seed'' else None)\<rparr>,
          \<lparr>ss_key = ''backfill'', ss_done = (0 < scored),
           ss_action = (if 0 < total then Some ''backfill'' else None)\<rparr>,
          \<lparr>ss_key = ''backtest'',
           ss_done = (case latest of None \<Rightarrow> False | Some b \<Rightarrow> bk_status b = ''complete''),
           ss_action = (if 0 < scored then Some ''backtest'' else None)\<rparr>])"

definition setup_ready :: "setup_step list \<Rightarrow> bool" where
  "setup_ready steps \<longleftrightarrow> list_all ss_done steps"

section \<open>Wallets\<close>

definition queue_backfills :: "string list \<Rightarrow> setup_store \<Rightarrow> setup_store" where
  "queue_backfills wallets s = fold (\<lambda>w. enqueue (Backfill_wallet w None)) wallets s"

definition run_seed :: "import_env \<Rightarrow> string option \<Rightarrow> setup_store \<Rightarrow> bool \<times> setup_store" where
  "run_seed env seed_file s =
     (case import_seed_file env seed_file True (su_db s) of
        Inl e \<Rightarrow> (False, s)
      | Inr (rep, queued, d) \<Rightarrow> (True, queue_backfills queued (s\<lparr>su_db := d\<rparr>)))"

definition add_wallets ::
    "import_env \<Rightarrow> string \<Rightarrow> bool \<Rightarrow> setup_store \<Rightarrow> bool \<times> import_report option \<times> setup_store" where
  "add_wallets env text backfill s =
     (case parse_seed_text text of
        Inl e \<Rightarrow> (False, None, s)
      | Inr entries \<Rightarrow>
          if entries = [] then (False, None, s)
          else case import_wallets env entries ''ui'' backfill True (su_db s) of
                 (rep, queued, d) \<Rightarrow>
                   (ir_imported rep \<noteq> [] \<or> ir_rejected rep = [], Some rep,
                    queue_backfills queued (s\<lparr>su_db := d\<rparr>)))"

definition set_status_route ::
    "string \<Rightarrow> trader_status \<Rightarrow> datetime \<Rightarrow> string \<Rightarrow> setup_store \<Rightarrow> bool \<times> setup_store" where
  "set_status_route act status now wallet s =
     (case get_trader wallet (su_db s) of
        None \<Rightarrow> (False, s)
      | Some row \<Rightarrow>
          (True, s\<lparr>su_db := repo_log_audit ''ui'' act (set_trader_status wallet status now (su_db s))\<rparr>))"

definition remove_wallet :: "datetime \<Rightarrow> string \<Rightarrow> setup_store \<Rightarrow> bool \<times> setup_store" where
  "remove_wallet now wallet s = set_status_route ''wallet_blacklisted'' TS_BLACKLISTED now wallet s"

definition restore_wallet :: "datetime \<Rightarrow> string \<Rightarrow> setup_store \<Rightarrow> bool \<times> setup_store" where
  "restore_wallet now wallet s = set_status_route ''wallet_restored'' TS_DISCOVERED now wallet s"

section \<open>Balances\<close>

definition BALANCE_TTL :: int where "BALANCE_TTL = 600"

definition cached_at :: "datetime \<Rightarrow> setup_store \<Rightarrow> string \<Rightarrow> rat option" where
  "cached_at now s wallet =
     (case su_balances s wallet of
        None \<Rightarrow> None | Some c \<Rightarrow> if now < cb_expires c then Some (cb_value c) else None)"

text \<open>The dict of the cached values, then one request for each missing wallet.\<close>

definition fetch_balance ::
    "datetime \<Rightarrow> (string \<Rightarrow> py_error + rat) \<Rightarrow> string \<Rightarrow> rat pydict \<times> setup_store \<Rightarrow> rat pydict \<times> setup_store" where
  "fetch_balance now rpc wallet acc =
     (let (out, s) = acc; s1 = s\<lparr>su_credits := su_credits s + 1\<rparr>
      in case rpc wallet of
           Inl e \<Rightarrow> (out, s1)
         | Inr bal \<Rightarrow>
             (AList.update wallet bal out,
              s1\<lparr>su_balances := (su_balances s1)(wallet \<mapsto>
                   \<lparr>cb_value = bal, cb_expires = now + BALANCE_TTL * 10 ^ 6\<rparr>)\<rparr>))"

definition balances ::
    "datetime \<Rightarrow> (string \<Rightarrow> py_error + rat) \<Rightarrow> string list \<Rightarrow> setup_store \<Rightarrow> rat pydict \<times> setup_store" where
  "balances now rpc wallets s =
     (if wallets = [] then ([], s)
      else let out = fold (\<lambda>w d. case cached_at now s w of None \<Rightarrow> d | Some v \<Rightarrow> AList.update w v d)
                       wallets [];
               missing = filter (\<lambda>w. cached_at now s w = None) wallets
           in fold (fetch_balance now rpc) missing (out, s))"

definition list_wallets ::
    "dialect \<Rightarrow> datetime \<Rightarrow> (string \<Rightarrow> py_error + rat) \<Rightarrow> bool \<Rightarrow> bool \<Rightarrow> setup_store \<Rightarrow>
       ((trader_row \<times> rat option) list \<times> nat) \<times> setup_store" where
  "list_wallets dia now rpc include_removed with_balances s =
     (let rows = by_composite dia (su_db s)
                   (rev (filter (\<lambda>r. include_removed \<or> tw_status r \<noteq> TS_BLACKLISTED) (db_traders (su_db s))));
          (bal, s') = (if with_balances then balances now rpc (map tw_wallet rows) s else ([], s))
      in ((map (\<lambda>r. (r, map_of bal (tw_wallet r))) rows,
           length (filter (\<lambda>r. is_followed (tw_status r)) rows)), s'))"

section \<open>Jobs\<close>

definition CREDITS_PER_WALLET :: nat where "CREDITS_PER_WALLET = 250"

definition MAX_UNCONFIRMED_WALLETS :: nat where "MAX_UNCONFIRMED_WALLETS = 40"

datatype backfill_reply =
    Nothing_to_score
  | Needs_confirmation nat nat      \<comment> \<open>wallets, estimated credits\<close>
  | Queued nat nat

definition backfill_wallets :: "dialect \<Rightarrow> bool \<Rightarrow> database \<Rightarrow> string list" where
  "backfill_wallets dia only_unscored d =
     (if only_unscored
        then map tw_wallet (filter (composite_is_zero dia d) (watched_rows d))
      else watchlist_wallets d)"

definition run_backfill ::
    "dialect \<Rightarrow> nat \<Rightarrow> bool \<Rightarrow> bool \<Rightarrow> setup_store \<Rightarrow> backfill_reply \<times> setup_store" where
  "run_backfill dia pages confirm only_unscored s =
     (let wallets = backfill_wallets dia only_unscored (su_db s);
          n = length wallets;
          estimate = n * CREDITS_PER_WALLET
      in if wallets = [] then (Nothing_to_score, s)
         else if MAX_UNCONFIRMED_WALLETS < n \<and> \<not> confirm then (Needs_confirmation n estimate, s)
         else (Queued n estimate,
               fold (\<lambda>w. enqueue (Backfill_wallet w (Some pages))) wallets s))"

definition MANUAL_JOBS :: "string list" where
  "MANUAL_JOBS = [''discover_wallets'', ''maintain_roster'', ''refresh_watchlist'',
     ''rebuild_wallet_graph'', ''attribute_performance'', ''snapshot_portfolio'',
     ''detect_decay'', ''daily_report'', ''apply_retention'', ''run_backtest'']"

definition new_backtest_row :: "nat \<Rightarrow> backtest_params \<Rightarrow> backtest_job_row" where
  "new_backtest_row bid params = \<lparr>bk_id = bid, bk_status = ''queued'', bk_params = params,
     bk_result = None, bk_error = None\<rparr>"

text \<open>What an empty dict of parameters reads as.\<close>

definition default_params :: backtest_params where
  "default_params = \<lparr>bp_wallets = [], bp_sol_price = Inr 150, bp_pages = Inr 10,
     bp_config = Inr default_backtest_config\<rparr>"

definition create_backtest :: "nat \<Rightarrow> backtest_params \<Rightarrow> setup_store \<Rightarrow> setup_store" where
  "create_backtest bid params s =
     enqueue (Run_backtest bid)
       (s\<lparr>su_backtests := su_backtests s @ [new_backtest_row bid params]\<rparr>)"

definition run_job :: "nat \<Rightarrow> string \<Rightarrow> setup_store \<Rightarrow> nat \<times> setup_store" where
  "run_job bid job s =
     (if job \<notin> set MANUAL_JOBS then (404, s)
      else if job = ''run_backtest'' then (200, create_backtest bid default_params s)
      else (200, enqueue (Plain_job job) s))"

section \<open>The status route\<close>

text \<open>\<^verbatim>\<open>PUT /traders/{wallet}/status\<close> of \<^verbatim>\<open>routes/traders.py\<close>.\<close>

definition trader_status_members :: "trader_status list" where
  "trader_status_members = [TS_DISCOVERED, TS_ANALYZING, TS_CANDIDATE, TS_PROBATION, TS_ACTIVE,
     TS_DEGRADED, TS_SUSPENDED, TS_BLACKLISTED]"

definition parse_trader_status :: "string \<Rightarrow> trader_status option" where
  "parse_trader_status v = find (\<lambda>s. trader_status_value s = v) trader_status_members"

definition set_status :: "datetime \<Rightarrow> string \<Rightarrow> string \<Rightarrow> database \<Rightarrow> nat \<times> database" where
  "set_status now wallet status d =
     (case parse_trader_status status of
        None \<Rightarrow> (400, d)
      | Some new \<Rightarrow>
          if get_trader wallet d = None then (404, d)
          else (200, repo_log_audit ''api'' ''set_trader_status'' (set_trader_status wallet new now d)))"

lemma parse_trader_status_value [simp]: "parse_trader_status (trader_status_value s) = Some s"
  by (cases s) (simp_all add: parse_trader_status_def trader_status_members_def)

section \<open>The cost gate\<close>

lemma enqueue_many:
  "fold (\<lambda>w. enqueue (f w)) ws s = s\<lparr>su_queue := su_queue s @ map f ws\<rparr>"
  by (induction ws arbitrary: s) (simp_all add: enqueue_def)

lemma backfill_wallets_watched:
  "w \<in> set (backfill_wallets dia only d) \<Longrightarrow>
   \<exists>r \<in> set (watched_rows d). tw_wallet r = w \<and> (only \<longrightarrow> composite_is_zero dia d r)"
  by (auto simp: backfill_wallets_def watchlist_wallets_def watched_rows_def split: if_splits)

text \<open>
  The scoring button writes nothing to the database and puts nothing but backfills in the queue,
  one for each watched wallet it was asked for, with the pages it was given; more than forty of
  them only when that was confirmed.  What it states as the cost does not depend on the pages.
\<close>

theorem backfill_needs_confirmation:
  "case run_backfill dia pages confirm only_unscored s of
     (reply, s') \<Rightarrow>
       let ws = backfill_wallets dia only_unscored (su_db s); n = length ws
       in su_db s' = su_db s \<and>
          su_queue s' = su_queue s @
            (if n \<le> MAX_UNCONFIRMED_WALLETS \<or> confirm
             then map (\<lambda>w. Backfill_wallet w (Some pages)) ws else []) \<and>
          list_all (\<lambda>w. \<exists>r \<in> set (watched_rows (su_db s)). tw_wallet r = w) ws \<and>
          reply = (if n = 0 then Nothing_to_score
            else if n \<le> MAX_UNCONFIRMED_WALLETS \<or> confirm then Queued n (n * CREDITS_PER_WALLET)
            else Needs_confirmation n (n * CREDITS_PER_WALLET))"
  using backfill_wallets_watched [of _ dia only_unscored "su_db s"]
  by (fastforce simp: run_backfill_def Let_def enqueue_many list_all_iff)

section \<open>The cache of balances\<close>

lemma balances_cached:
  "\<forall>w \<in> set ws. cached_at now s w \<noteq> None \<Longrightarrow> snd (balances now rpc ws s) = s"
  by (simp add: balances_def filter_empty_conv [THEN iffD2])

lemma fetched_balance_cached:
  assumes "rpc w = Inr bal" "now \<le> later" "later < now + BALANCE_TTL * 10 ^ 6"
  shows "cached_at later (snd (fetch_balance now rpc w (out, s))) w = Some bal"
  using assms by (simp add: fetch_balance_def cached_at_def)

end
