(* ===== verification/Graph.thy ===== *)
theory Graph
  imports Store "HOL-Library.List_Lexorder" "HOL-Library.Char_ord"
begin

text \<open>
  \<^verbatim>\<open>engine/graph.py\<close> and \<^verbatim>\<open>services/tasks/graph.py\<close>: which wallets trade
  together, the clusters of linked wallets found by union-find, and the allocation each member
  of a cluster is left with.  A dict is an association list in the order of insertion; of the
  evidence of a relationship its numbers are kept.  The search for a root is bounded by fuel, one
  more than the number of nodes, and is proved to need no more.
\<close>

section \<open>Relationships\<close>

record trade_event =
  te_wallet :: string
  te_mint :: string
  te_at :: datetime

record relationship =
  rl_a :: string
  rl_b :: string
  rl_relation :: string
  rl_strength :: rat
  rl_evidence :: "rat pydict"

definition CO_TRADE_WINDOW :: int where "CO_TRADE_WINDOW = 30 * 60 * 1000000"
definition TIGHT_WINDOW :: int where "TIGHT_WINDOW = 60"
definition MIN_SHARED_TOKENS :: nat where "MIN_SHARED_TOKENS = 3"

definition pair_key :: "string \<Rightarrow> string \<Rightarrow> string \<times> string" where
  "pair_key a b = (min a b, max a b)"

definition rel_key :: "relationship \<Rightarrow> string \<times> string" where
  "rel_key r = pair_key (rl_a r) (rl_b r)"

text \<open>\<^verbatim>\<open>defaultdict(list)\<close>: append to the value of a key, creating it at the end.\<close>

fun dict_append :: "'k \<Rightarrow> 'v \<Rightarrow> ('k \<times> 'v list) list \<Rightarrow> ('k \<times> 'v list) list" where
  "dict_append k v [] = [(k, [v])]"
| "dict_append k v ((j, vs) # rest) =
     (if j = k then (j, vs @ [v]) # rest else (j, vs) # dict_append k v rest)"

fun combinations2 :: "'a list \<Rightarrow> ('a \<times> 'a) list" where
  "combinations2 [] = []"
| "combinations2 (x # xs) = map (Pair x) xs @ combinations2 xs"

record co_trade_hit =
  ht_mint :: string
  ht_gap_seconds :: int

definition group_hits ::
    "string \<Rightarrow> trade_event list \<Rightarrow> ((string \<times> string) \<times> co_trade_hit list) list \<Rightarrow>
       ((string \<times> string) \<times> co_trade_hit list) list" where
  "group_hits mint events shared =
     fold (\<lambda>(a, b) s.
         if te_wallet a = te_wallet b then s
         else let gap = \<bar>te_at b - te_at a\<bar>
              in if gap \<le> CO_TRADE_WINDOW
                   then dict_append (pair_key (te_wallet a) (te_wallet b))
                     \<lparr>ht_mint = mint, ht_gap_seconds = gap div 1000000\<rparr> s
                 else s)
       (combinations2 (sort_key te_at events)) shared"

definition co_trading_of :: "(string \<times> string) \<times> co_trade_hit list \<Rightarrow> relationship option" where
  "co_trading_of x = (case x of ((wa, wb), hits) \<Rightarrow>
     let mints = remdups (map ht_mint hits);
         tight = filter (\<lambda>h. ht_gap_seconds h \<le> TIGHT_WINDOW) hits;
         breadth = min (of_nat (length mints) / 10) (1 :: rat);
         sync = min (of_nat (length tight) / of_nat (max (length hits) 1)) (1 :: rat);
         strength = (breadth * (6/10) + sync * (4/10)) * 100
     in if length mints < MIN_SHARED_TOKENS then None
        else Some \<lparr>rl_a = wa, rl_b = wb, rl_relation = ''co_trading'',
               rl_strength = quantize 2 strength,
               rl_evidence = [(''shared_tokens'', of_nat (length mints)),
                 (''events'', of_nat (length hits)), (''tight_events'', of_nat (length tight))]\<rparr>)"

definition detect_co_trading :: "trade_event list \<Rightarrow> relationship list" where
  "detect_co_trading events =
     (let by_mint = fold (\<lambda>e. dict_append (te_mint e) e) events [];
          shared = fold (\<lambda>(mint, es). group_hits mint es) by_mint []
      in List.map_filter co_trading_of shared)"

definition detect_funding_links :: "(string \<times> string \<times> usd) list \<Rightarrow> relationship list" where
  "detect_funding_links transfers =
     (let totals = fold (\<lambda>(src, dst, amount) s.
            if src = dst then s else dict_append (pair_key src dst) amount s) transfers []
      in map (\<lambda>((a, b), amounts).
           \<lparr>rl_a = a, rl_b = b, rl_relation = ''funding'',
             rl_strength = min (50 + of_nat (length amounts) * 10) 100,
             rl_evidence = [(''transfers'', of_nat (length amounts)), (''total_usd'', sum_list amounts)]\<rparr>)
           totals)"

definition merge_step :: "relationship \<Rightarrow> ((string \<times> string) \<times> relationship) list \<Rightarrow>
    ((string \<times> string) \<times> relationship) list" where
  "merge_step r best =
     (case map_of best (rel_key r) of
        None \<Rightarrow> AList.update (rel_key r) r best
      | Some cur \<Rightarrow>
          if rl_strength cur < rl_strength r
            then AList.update (rel_key r)
              (r\<lparr>rl_evidence := AList.update (''also_'' @ rl_relation cur) (rl_strength cur)
                 (rl_evidence r)\<rparr>) best
          else AList.update (rel_key r)
              (cur\<lparr>rl_evidence := AList.update (''also_'' @ rl_relation r) (rl_strength r)
                 (rl_evidence cur)\<rparr>) best)"

definition merge_relationships :: "relationship list \<Rightarrow> relationship list" where
  "merge_relationships rels = map snd (fold merge_step rels [])"

section \<open>Union-find\<close>

type_synonym forest = "(string \<times> string) list"

text \<open>The loop of \<^verbatim>\<open>find\<close> with path halving; \<^const>\<open>None\<close> when the fuel runs out or a
  parent is missing.\<close>

fun find_root :: "nat \<Rightarrow> string \<Rightarrow> forest \<Rightarrow> (string \<times> forest) option" where
  "find_root 0 x p = None"
| "find_root (Suc n) x p =
     (case map_of p x of None \<Rightarrow> None
      | Some px \<Rightarrow>
          if px = x then Some (x, p)
          else case map_of p px of None \<Rightarrow> None
               | Some g \<Rightarrow> find_root n g (AList.update x g p))"

definition uf_find :: "string \<Rightarrow> forest \<Rightarrow> (string \<times> forest) option" where
  "uf_find x p = (let p1 = dict_setdefault x x p in find_root (length p1 + 1) x p1)"

definition uf_union :: "string \<Rightarrow> string \<Rightarrow> forest \<Rightarrow> forest option" where
  "uf_union a b p =
     (case uf_find a p of None \<Rightarrow> None
      | Some (ra, p1) \<Rightarrow>
          (case uf_find b p1 of None \<Rightarrow> None
           | Some (rb, p2) \<Rightarrow> Some (if ra \<noteq> rb then AList.update ra rb p2 else p2)))"

fun link_all :: "rat \<Rightarrow> relationship list \<Rightarrow> forest \<Rightarrow> forest option" where
  "link_all threshold [] p = Some p"
| "link_all threshold (r # rs) p =
     (if threshold \<le> rl_strength r
        then case uf_union (rl_a r) (rl_b r) p of None \<Rightarrow> None | Some p1 \<Rightarrow> link_all threshold rs p1
      else link_all threshold rs p)"

fun collect :: "string list \<Rightarrow> forest \<Rightarrow> (string \<times> string list) list \<Rightarrow> (string \<times> string list) list option" where
  "collect [] p cs = Some cs"
| "collect (w # ws) p cs =
     (case uf_find w p of None \<Rightarrow> None
      | Some (r, p1) \<Rightarrow> collect ws p1 (dict_append r w cs))"

text \<open>The members of a cluster are a set; they are listed without repetition.\<close>

definition find_clusters :: "rat \<Rightarrow> relationship list \<Rightarrow> string list list option" where
  "find_clusters threshold rels =
     (case link_all threshold rels [] of None \<Rightarrow> None
      | Some p \<Rightarrow> map_option (\<lambda>cs. filter (\<lambda>c. 1 < length c) (map snd cs)) (collect (map fst p) p []))"

definition cluster_risk_multiplier :: "nat \<Rightarrow> rat" where
  "cluster_risk_multiplier n = (if n \<le> 1 then 1 else quantize 4 (1 / of_nat n))"

section \<open>Grouping\<close>

lemma dict_append_get:
  "map_of (dict_append k v xs) j =
     (if j = k then Some (case map_of xs k of None \<Rightarrow> [v] | Some vs \<Rightarrow> vs @ [v]) else map_of xs j)"
  by (induction k v xs rule: dict_append.induct) auto

lemma dict_append_keys: "set (map fst (dict_append k v xs)) = insert k (set (map fst xs))"
  by (induction k v xs rule: dict_append.induct) auto

lemma dict_append_distinct: "distinct (map fst xs) \<Longrightarrow> distinct (map fst (dict_append k v xs))"
proof (induction k v xs rule: dict_append.induct)
  case (2 k v j vs rest)
  then show ?case using dict_append_keys [of k v rest] by auto
qed simp

text \<open>Grouping by a function: the value of a key is what was grouped under it, in order.\<close>

definition group_fold :: "('a \<Rightarrow> 'k) \<Rightarrow> 'a list \<Rightarrow> ('k \<times> 'a list) list" where
  "group_fold f xs = fold (\<lambda>x. dict_append (f x) x) xs []"

lemma group_fold_gen:
  "distinct (map fst cs) \<Longrightarrow>
   distinct (map fst (fold (\<lambda>x. dict_append (f x) x) xs cs)) \<and>
   map_of (fold (\<lambda>x. dict_append (f x) x) xs cs) k =
     (case map_of cs k of
        None \<Rightarrow> if filter (\<lambda>x. f x = k) xs = [] then None else Some (filter (\<lambda>x. f x = k) xs)
      | Some vs \<Rightarrow> Some (vs @ filter (\<lambda>x. f x = k) xs))"
proof (induction xs arbitrary: cs)
  case (Cons x xs)
  note ih = Cons.IH [OF dict_append_distinct [OF Cons.prems]]
  show ?case
    using ih by (cases "f x = k"; cases "map_of cs k") (simp_all add: dict_append_get)
qed (simp split: option.split)

lemma group_fold_get:
  "map_of (group_fold f xs) k =
     (if filter (\<lambda>x. f x = k) xs = [] then None else Some (filter (\<lambda>x. f x = k) xs))"
  using group_fold_gen [of "[]" f xs k] by (simp add: group_fold_def)

lemma group_fold_values:
  "set (map snd (group_fold f xs)) = (\<lambda>y. filter (\<lambda>x. f x = f y) xs) ` set xs"
proof -
  have dist: "distinct (map fst (group_fold f xs))"
    using group_fold_gen [of "[]" f xs] by (simp add: group_fold_def)
  have mem: "(k, v) \<in> set (group_fold f xs) \<longleftrightarrow> v = filter (\<lambda>x. f x = k) xs \<and> k \<in> f ` set xs" for k v
    unfolding map_of_eq_Some_iff [OF dist, symmetric] group_fold_get
    by (auto simp: filter_empty_conv)
  show ?thesis
  proof (intro set_eqI iffI)
    fix v assume "v \<in> set (map snd (group_fold f xs))"
    then obtain k where "(k, v) \<in> set (group_fold f xs)" by fastforce
    then show "v \<in> (\<lambda>y. filter (\<lambda>x. f x = f y) xs) ` set xs" unfolding mem by blast
  next
    fix v assume "v \<in> (\<lambda>y. filter (\<lambda>x. f x = f y) xs) ` set xs"
    then obtain y where "v = filter (\<lambda>x. f x = f y) xs" "y \<in> set xs" by blast
    then have "(f y, v) \<in> set (group_fold f xs)" unfolding mem by blast
    then show "v \<in> set (map snd (group_fold f xs))" by (metis in_set_zipE zip_map_fst_snd)
  qed
qed

section \<open>Roots of a forest\<close>

inductive root_in :: "forest \<Rightarrow> nat \<Rightarrow> string \<Rightarrow> string \<Rightarrow> bool" for p where
  root_here: "map_of p x = Some x \<Longrightarrow> root_in p 0 x x"
| root_up: "map_of p x = Some y \<Longrightarrow> y \<noteq> x \<Longrightarrow> root_in p n y r \<Longrightarrow> root_in p (Suc n) x r"

inductive_cases root_in_0E: "root_in p 0 x r"
inductive_cases root_in_SucE: "root_in p (Suc n) x r"
inductive_cases root_inE: "root_in p n x r"

definition is_root :: "forest \<Rightarrow> string \<Rightarrow> string \<Rightarrow> bool" where
  "is_root p x r \<longleftrightarrow> (\<exists>n. root_in p n x r)"

lemma is_root_here: "map_of p x = Some x \<Longrightarrow> is_root p x x"
  unfolding is_root_def by (blast intro: root_here)

lemma is_root_up: "map_of p x = Some y \<Longrightarrow> y \<noteq> x \<Longrightarrow> is_root p y r \<Longrightarrow> is_root p x r"
  unfolding is_root_def by (blast intro: root_up)

definition forest_ok :: "forest \<Rightarrow> bool" where
  "forest_ok p \<longleftrightarrow> distinct (map fst p) \<and> (\<forall>x \<in> fst ` set p. \<exists>r. is_root p x r)"

lemma root_in_det: "root_in p n x r \<Longrightarrow> root_in p m x s \<Longrightarrow> n = m \<and> r = s"
proof (induction arbitrary: m s rule: root_in.induct)
  case (root_here x)
  from root_here.prems show ?case by (rule root_inE) (use root_here.hyps in auto)
next
  case (root_up x y n r)
  obtain k where k: "m = Suc k" "root_in p k y s"
    using root_up.prems root_up.hyps(1,2) by (auto elim: root_inE)
  then show ?case using root_up.IH [OF k(2)] by simp
qed

lemma is_root_det: "is_root p x r \<Longrightarrow> is_root p x s \<Longrightarrow> r = s"
  by (auto simp: is_root_def dest: root_in_det)

lemma root_in_node: "root_in p n x r \<Longrightarrow> x \<in> fst ` set p"
  by (erule root_inE) (force dest: map_of_SomeD)+

lemma is_root_node: "is_root p x r \<Longrightarrow> x \<in> fst ` set p"
  unfolding is_root_def by (elim exE) (rule root_in_node)

lemma forest_okD: "forest_ok p \<Longrightarrow> x \<in> fst ` set p \<Longrightarrow> \<exists>r n. root_in p n x r"
  unfolding forest_ok_def is_root_def by blast

lemma root_in_self: "root_in p n x r \<Longrightarrow> map_of p r = Some r"
  by (induction rule: root_in.induct)

lemma is_root_self: "is_root p x r \<Longrightarrow> is_root p r r"
  by (auto simp: is_root_def dest!: root_in_self intro: root_here)

lemma root_in_below: "root_in p n x r \<Longrightarrow> k \<le> n \<Longrightarrow> \<exists>y. root_in p k y r"
proof (induction rule: root_in.induct)
  case (root_up x y n r)
  then show ?case by (cases "k = Suc n") (auto intro: root_in.root_up)
qed (auto intro: root_here)

text \<open>The way up visits different nodes, so it is shorter than the number of nodes.\<close>

lemma root_in_bound:
  assumes "root_in p n x r"
  shows "n < length p"
proof -
  obtain y where y: "\<And>k. k \<le> n \<Longrightarrow> root_in p k (y k) r"
    using root_in_below [OF assms] by metis
  have "inj_on y {..n}"
    using y root_in_det by (metis atMost_iff inj_onI)
  moreover have "y ` {..n} \<subseteq> fst ` set p" using y root_in_node by blast
  ultimately have "card {..n} \<le> card (fst ` set p)" by (rule card_inj_on_le) simp
  also have "\<dots> \<le> length p" by (metis card_length length_map list.set_map)
  finally show ?thesis by simp
qed

section \<open>Finding a root changes no root\<close>

definition same_roots :: "forest \<Rightarrow> forest \<Rightarrow> bool" where
  "same_roots p p' \<longleftrightarrow> map fst p' = map fst p \<and> (\<forall>y z. is_root p' y z \<longleftrightarrow> is_root p y z)"

lemma same_roots_ok: "same_roots p p' \<Longrightarrow> forest_ok p \<Longrightarrow> forest_ok p'"
  unfolding same_roots_def forest_ok_def by (metis list.set_map)

lemma same_rootsI:
  assumes "forest_ok p" "map fst p' = map fst p" "\<And>y z. is_root p y z \<Longrightarrow> is_root p' y z"
  shows "same_roots p p'"
  unfolding same_roots_def
proof (intro conjI allI iffI)
  fix y z assume z: "is_root p' y z"
  then have "y \<in> set (map fst p')" by (auto simp: is_root_def dest: root_in_node)
  then have "y \<in> fst ` set p" by (simp only: assms(2) list.set_map)
  then obtain z' where "is_root p y z'" using assms(1) by (auto simp: forest_ok_def)
  then show "is_root p y z" using assms(3) is_root_det [OF z] by metis
qed (use assms in auto)

lemma update_node_keys: "x \<in> fst ` set p \<Longrightarrow> map fst (AList.update x g p) = map fst p"
  by (simp add: update_keys)

lemma halve_below:
  assumes "root_in p k y z" "root_in p n x r" "k < n"
  shows "root_in (AList.update x g p) k y z"
  using assms(1,3)
proof (induction rule: root_in.induct)
  case (root_here y)
  then have "y \<noteq> x" using root_in_det [OF assms(2)] root_in.root_here by blast
  then show ?case using root_here by (intro root_in.root_here) (simp add: update_conv')
next
  case (root_up y y' k z)
  then have "y \<noteq> x" using root_in_det [OF assms(2)] root_in.root_up by blast
  then show ?case using root_up by (intro root_in.root_up [of _ _ y']) (simp_all add: update_conv')
qed

lemma halve_roots:
  assumes x: "root_in p n x r" and g: "root_in p m g r" "m < n" and y: "root_in p k y z"
  shows "is_root (AList.update x g p) y z"
  using y
proof (induction rule: root_in.induct)
  case (root_here y)
  then have "y \<noteq> x" using root_in_det [OF x root_in.root_here] g(2) by blast
  then show ?case using root_here
    unfolding is_root_def by (intro exI [of _ 0] root_in.root_here) (simp add: update_conv')
next
  case (root_up y y' k z)
  show ?case
  proof (cases "y = x")
    case True
    have "g \<noteq> x" using root_in_det [OF x] g by blast
    moreover have "root_in (AList.update x g p) m g r" by (rule halve_below [OF g(1) x g(2)])
    moreover have "z = r" using root_in_det [OF x] root_in.root_up [OF root_up.hyps] True by blast
    ultimately show ?thesis unfolding is_root_def True
      by (metis root_in.root_up fun_upd_same update_conv')
  next
    case False
    then show ?thesis using root_up unfolding is_root_def
      by (metis root_in.root_up fun_upd_other update_conv')
  qed
qed

lemma find_root_ok:
  assumes "root_in p n x r" "n < fuel" "forest_ok p"
  shows "\<exists>p'. find_root fuel x p = Some (r, p') \<and> same_roots p p'"
  using assms
proof (induction n arbitrary: x p fuel rule: less_induct)
  case (less n)
  obtain f where fuel: "fuel = Suc f" using less.prems(2) by (cases fuel) auto
  show ?case
  proof (cases n)
    case 0
    then have "map_of p x = Some x" "r = x" using less.prems(1) by (auto elim: root_in_0E)
    then show ?thesis by (simp add: fuel same_roots_def)
  next
    case (Suc k)
    then obtain y where y: "map_of p x = Some y" "y \<noteq> x" "root_in p k y r"
      using less.prems(1) by (auto elim: root_in_SucE)
    obtain m g where g: "map_of p y = Some g" "root_in p m g r" "m \<le> k"
      using y(3) by (cases rule: root_in.cases) (auto intro: root_in.root_here)
    define p1 where "p1 = AList.update x g p"
    have x: "root_in p n x r" by (rule less.prems(1))
    have mn: "m < n" using g(3) Suc by simp
    have "map fst p1 = map fst p" unfolding p1_def by (rule update_node_keys [OF root_in_node [OF x]])
    then have same: "same_roots p p1"
      by (rule same_rootsI [OF less.prems(3)])
        (auto simp: p1_def is_root_def intro: halve_roots [OF x g(2) mn, unfolded is_root_def])
    have "root_in p1 m g r" unfolding p1_def by (rule halve_below [OF g(2) x mn])
    moreover have "m < f" using mn less.prems(2) fuel by simp
    ultimately obtain p' where "find_root f g p1 = Some (r, p')" "same_roots p1 p'"
      using less.IH [OF mn _ _ same_roots_ok [OF same less.prems(3)]] by blast
    then show ?thesis using y(1,2) g(1) same
      by (auto simp: fuel p1_def [symmetric] same_roots_def)
  qed
qed

section \<open>Adding a node and joining two roots\<close>

lemma add_node:
  assumes "forest_ok p" "x \<notin> fst ` set p"
  shows "forest_ok (p @ [(x, x)])"
    and "is_root (p @ [(x, x)]) y z \<longleftrightarrow> is_root p y z \<or> y = x \<and> z = x"
proof -
  let ?q = "p @ [(x, x)]"
  have get: "map_of ?q y = map_of p y" if "y \<noteq> x" for y
    using that by (simp add: map_add_def split: option.split)
  have new: "map_of ?q x = Some x"
    using assms(2) by (simp add: map_add_def map_of_eq_None_iff [THEN iffD2])
  have up: "root_in ?q n y z" if "root_in p n y z" for n y z
    using that
  proof (induction rule: root_in.induct)
    case (root_here y)
    then have "y \<noteq> x" using assms(2) by (force dest: map_of_SomeD)
    then show ?case using root_here get by (intro root_in.root_here) simp
  next
    case (root_up y y' n z)
    then have "y \<noteq> x" using assms(2) by (force dest: map_of_SomeD)
    then show ?case using root_up get by (intro root_in.root_up [of _ y y']) simp_all
  qed
  have newroot: "is_root ?q x x" unfolding is_root_def using root_in.root_here [OF new] by blast
  show "forest_ok ?q"
    unfolding forest_ok_def
  proof (intro conjI ballI)
    show "distinct (map fst ?q)" using assms by (simp add: forest_ok_def)
    fix y assume "y \<in> fst ` set ?q"
    then consider "y = x" | "y \<in> fst ` set p" by auto
    then show "\<exists>r. is_root ?q y r"
    proof cases
      case 2
      then show ?thesis using forest_okD [OF assms(1)] up is_root_def by metis
    qed (use newroot in blast)
  qed
  show "is_root ?q y z \<longleftrightarrow> is_root p y z \<or> y = x \<and> z = x"
  proof
    assume z: "is_root ?q y z"
    then have "y \<in> fst ` set ?q" by (rule is_root_node)
    then consider "y = x" | "y \<in> fst ` set p" by auto
    then show "is_root p y z \<or> y = x \<and> z = x"
    proof cases
      case 1
      then show ?thesis using is_root_det [OF z] newroot by auto
    next
      case 2
      then obtain z' where z': "is_root p y z'" using assms(1) by (auto simp: forest_ok_def)
      then have "is_root ?q y z'" using up by (auto simp: is_root_def)
      then show ?thesis using is_root_det [OF z] z' by auto
    qed
  next
    assume "is_root p y z \<or> y = x \<and> z = x"
    then show "is_root ?q y z" using up newroot by (auto simp: is_root_def)
  qed
qed

lemma uf_find_ok:
  assumes "forest_ok p"
  obtains r p' where "uf_find x p = Some (r, p')" "forest_ok p'"
    "is_root p' x r" "fst ` set p' = insert x (fst ` set p)"
    "\<And>y z. is_root p' y z \<longleftrightarrow> is_root p y z \<or> x \<notin> fst ` set p \<and> y = x \<and> z = x"
    "x \<in> fst ` set p \<Longrightarrow> same_roots p p'"
proof -
  define p1 where "p1 = dict_setdefault x x p"
  have p1: "p1 = (if x \<in> fst ` set p then p else p @ [(x, x)])"
    by (simp add: p1_def dict_setdefault_def map_of_eq_None_iff)
  have ok: "forest_ok p1" using assms add_node(1) by (simp add: p1)
  have keys: "fst ` set p1 = insert x (fst ` set p)" by (auto simp: p1)
  have roots: "is_root p1 y z \<longleftrightarrow> is_root p y z \<or> x \<notin> fst ` set p \<and> y = x \<and> z = x" for y z
    using add_node(2) [OF assms] by (simp add: p1)
  obtain r n where n: "root_in p1 n x r" using forest_okD [OF ok, of x] keys by auto
  have "n < length p1 + 1" using root_in_bound [OF n] by simp
  from find_root_ok [OF n this ok] obtain p' where
    p': "find_root (length p1 + 1) x p1 = Some (r, p')" "same_roots p1 p'" by blast
  show thesis
  proof (rule that)
    show "uf_find x p = Some (r, p')" using p'(1) by (simp add: uf_find_def p1_def Let_def)
    show "forest_ok p'" by (rule same_roots_ok [OF p'(2) ok])
    show "is_root p' x r" using n p'(2) by (auto simp: same_roots_def is_root_def)
    have "set (map fst p') = set (map fst p1)" using p'(2) by (simp only: same_roots_def)
    then show "fst ` set p' = insert x (fst ` set p)" using keys by simp
    show "\<And>y z. is_root p' y z \<longleftrightarrow> is_root p y z \<or> x \<notin> fst ` set p \<and> y = x \<and> z = x"
      using p'(2) roots by (simp add: same_roots_def)
    show "x \<in> fst ` set p \<Longrightarrow> same_roots p p'" using p'(2) by (simp add: p1)
  qed
qed

lemma join_roots:
  assumes "forest_ok p" "is_root p ra ra" "is_root p rb rb" "ra \<noteq> rb"
  shows "forest_ok (AList.update ra rb p)" "fst ` set (AList.update ra rb p) = fst ` set p"
    and "is_root (AList.update ra rb p) y z \<longleftrightarrow>
      (if is_root p y ra then z = rb else is_root p y z)"
proof -
  let ?q = "AList.update ra rb p"
  have na: "map_of p ra = Some ra" and nb: "map_of p rb = Some rb"
    using assms(2,3) by (auto simp: is_root_def dest: root_in_self)
  have node: "ra \<in> fst ` set p" using na by (force dest: map_of_SomeD)
  have keys: "map fst ?q = map fst p" by (rule update_node_keys [OF node])
  then have "set (map fst ?q) = set (map fst p)" by simp
  then show fk: "fst ` set ?q = fst ` set p" by simp
  have b: "root_in ?q 0 rb rb" using nb assms(4) by (intro root_in.root_here) (simp add: update_conv')
  have up: "is_root ?q y (if z = ra then rb else z)" if "root_in p n y z" for n y z
    using that
  proof (induction rule: root_in.induct)
    case (root_here y)
    show ?case
    proof (cases "y = ra")
      case True
      have "root_in ?q (Suc 0) ra rb"
        using b assms(4) by (intro root_in.root_up [of _ ra rb]) (simp_all add: update_conv')
      then show ?thesis using True by (auto simp: is_root_def)
    next
      case False
      then have "root_in ?q 0 y y" using root_here by (intro root_in.root_here) (simp add: update_conv')
      then show ?thesis using False by (auto simp: is_root_def)
    qed
  next
    case (root_up y y' n z)
    have "y \<noteq> ra" using root_up.hyps(1,2) na by auto
    then have "map_of ?q y = Some y'" using root_up.hyps(1) by (simp add: update_conv')
    then show ?case by (rule is_root_up [OF _ root_up.hyps(2) root_up.IH])
  qed
  show ok: "forest_ok ?q"
    unfolding forest_ok_def
  proof (intro conjI ballI)
    show "distinct (map fst ?q)" using assms(1) unfolding keys forest_ok_def by blast
    fix x assume "x \<in> fst ` set ?q"
    then obtain n r where "root_in p n x r"
      using forest_okD [OF assms(1)] unfolding fk by blast
    then show "\<exists>r. is_root ?q x r" using up by blast
  qed
  show "is_root ?q y z \<longleftrightarrow> (if is_root p y ra then z = rb else is_root p y z)"
  proof (cases "y \<in> fst ` set p")
    case True
    then obtain n r where r: "root_in p n y r" using forest_okD [OF assms(1)] by blast
    have "is_root ?q y z \<longleftrightarrow> z = (if r = ra then rb else r)"
      using up [OF r] is_root_det by metis
    moreover have "is_root p y z' \<longleftrightarrow> z' = r" for z' using r is_root_det is_root_def by metis
    ultimately show ?thesis by auto
  next
    case False
    then have "\<not> is_root p y z'" "\<not> is_root ?q y z'" for z'
      using fk is_root_node by metis+
    then show ?thesis by simp
  qed
qed

section \<open>Clusters are connected components\<close>

definition strong_edges :: "rat \<Rightarrow> relationship list \<Rightarrow> (string \<times> string) set" where
  "strong_edges threshold rels =
     {(rl_a r, rl_b r) | r. r \<in> set rels \<and> threshold \<le> rl_strength r}"

definition linked :: "(string \<times> string) set \<Rightarrow> (string \<times> string) set" where
  "linked E = (E \<union> E\<inverse>)\<^sup>*"

definition nodes :: "(string \<times> string) set \<Rightarrow> string set" where
  "nodes E = fst ` E \<union> snd ` E"

definition same_tree :: "forest \<Rightarrow> string \<Rightarrow> string \<Rightarrow> bool" where
  "same_tree p u v \<longleftrightarrow> (\<exists>r. is_root p u r \<and> is_root p v r)"

definition represents :: "forest \<Rightarrow> (string \<times> string) set \<Rightarrow> bool" where
  "represents p E \<longleftrightarrow> forest_ok p \<and> fst ` set p = nodes E \<and>
     (\<forall>u v. same_tree p u v \<longleftrightarrow> u \<in> nodes E \<and> (u, v) \<in> linked E)"

lemma linked_refl [simp]: "(u, u) \<in> linked E"
  by (simp add: linked_def)

lemma linked_sym: "(u, v) \<in> linked E \<Longrightarrow> (v, u) \<in> linked E"
  unfolding linked_def by (rule symD [OF sym_rtrancl [OF sym_Un_converse]])

lemma linked_trans: "(u, v) \<in> linked E \<Longrightarrow> (v, w) \<in> linked E \<Longrightarrow> (u, w) \<in> linked E"
  unfolding linked_def by (rule rtrancl_trans)

lemma linked_mono: "E \<subseteq> F \<Longrightarrow> linked E \<subseteq> linked F"
  unfolding linked_def by (intro rtrancl_mono) auto

lemma linked_edge: "(u, v) \<in> E \<Longrightarrow> (u, v) \<in> linked E"
  unfolding linked_def by blast

lemma same_tree_sym: "same_tree p u v \<Longrightarrow> same_tree p v u"
  by (auto simp: same_tree_def)

lemma same_tree_trans: "same_tree p u v \<Longrightarrow> same_tree p v w \<Longrightarrow> same_tree p u w"
  unfolding same_tree_def using is_root_det by metis

lemma same_tree_linked:
  assumes "\<And>u v. (u, v) \<in> E \<Longrightarrow> same_tree p u v" "\<And>u. u \<in> nodes E \<Longrightarrow> same_tree p u u"
    and "(u, v) \<in> linked E" "u \<in> nodes E"
  shows "same_tree p u v"
  using assms(3) unfolding linked_def
proof (induction rule: rtrancl_induct)
  case base
  then show ?case using assms(2,4) by blast
next
  case (step v w)
  then have "same_tree p v w" using assms(1) same_tree_sym by blast
  then show ?case using step.IH same_tree_trans by blast
qed

lemma represents_root:
  assumes "represents p E" "is_root p y z"
  shows "(y, z) \<in> linked E" "y \<in> nodes E"
proof -
  have "same_tree p y z" using assms(2) is_root_self by (auto simp: same_tree_def)
  then show "(y, z) \<in> linked E" "y \<in> nodes E" using assms(1) by (auto simp: represents_def)
qed

lemma union_represents:
  assumes "represents p E"
  shows "\<exists>p'. uf_union a b p = Some p' \<and> represents p' (insert (a, b) E)"
proof -
  let ?E = "insert (a, b) E"
  have ok: "forest_ok p" and keys: "fst ` set p = nodes E" using assms by (auto simp: represents_def)
  obtain ra p1 where a: "uf_find a p = Some (ra, p1)" "forest_ok p1" "is_root p1 a ra"
      "fst ` set p1 = insert a (fst ` set p)"
      "\<And>y z. is_root p1 y z \<longleftrightarrow> is_root p y z \<or> a \<notin> fst ` set p \<and> y = a \<and> z = a"
    by (rule uf_find_ok [OF ok, of a]) (rule that)
  obtain rb p2 where b: "uf_find b p1 = Some (rb, p2)" "forest_ok p2" "is_root p2 b rb"
      "fst ` set p2 = insert b (fst ` set p1)"
      "\<And>y z. is_root p2 y z \<longleftrightarrow> is_root p1 y z \<or> b \<notin> fst ` set p1 \<and> y = b \<and> z = b"
    by (rule uf_find_ok [OF a(2), of b]) (rule that)
  define p3 where "p3 = (if ra \<noteq> rb then AList.update ra rb p2 else p2)"
  have ara: "is_root p2 a ra" using a(3) b(5) by blast
  have selfs: "is_root p2 ra ra" "is_root p2 rb rb" using ara b(3) is_root_self by blast+
  have ok3: "forest_ok p3" and keys3: "fst ` set p3 = nodes ?E"
    using join_roots(1,2) [OF b(2) selfs] b(2,4) a(4) keys by (auto simp: p3_def nodes_def)
  have roots3: "is_root p3 y z \<longleftrightarrow> (if is_root p2 y ra then z = rb else is_root p2 y z)" for y z
    using join_roots(3) [OF b(2) selfs] is_root_det [of p2 y ra] by (auto simp: p3_def)
  have into: "(y, z) \<in> linked ?E" if "is_root p2 y z" for y z
    using that represents_root(1) [OF assms] linked_mono [of E ?E] a(5) b(5) by auto
  have into3: "(y, z) \<in> linked ?E" if "is_root p3 y z" for y z
  proof (cases "is_root p2 y ra")
    case True
    have "(y, ra) \<in> linked ?E" "(ra, a) \<in> linked ?E" "(a, b) \<in> linked ?E" "(b, rb) \<in> linked ?E"
      using into True ara b(3) linked_sym linked_edge by auto
    then have "(y, rb) \<in> linked ?E" using linked_trans by blast
    then show ?thesis using that True by (simp add: roots3)
  next
    case False
    then show ?thesis using that into by (simp add: roots3)
  qed
  have lift: "same_tree p3 u v" if "is_root p2 u r" "is_root p2 v r" for u v r
    using that is_root_det unfolding same_tree_def roots3 by metis
  have edges: "same_tree p3 u v" if "(u, v) \<in> ?E" for u v
  proof (cases "(u, v) = (a, b)")
    case True
    then show ?thesis using ara b(3) unfolding same_tree_def roots3 by (intro exI [of _ rb]) auto
  next
    case False
    then have e: "(u, v) \<in> E" using that by auto
    have "u \<in> nodes E" using e unfolding nodes_def by (metis UnI1 fst_conv imageI)
    moreover have "(u, v) \<in> linked E" by (rule linked_edge [OF e])
    ultimately have "same_tree p u v" using assms unfolding represents_def by blast
    then obtain r where "is_root p u r" "is_root p v r" unfolding same_tree_def by blast
    then have "is_root p2 u r" "is_root p2 v r" using a(5) b(5) by simp_all
    then show ?thesis by (rule lift)
  qed
  have nodes: "same_tree p3 u u" if "u \<in> nodes ?E" for u
    using forest_okD [OF ok3, of u] that keys3 by (auto simp: same_tree_def is_root_def)
  have "same_tree p3 u v \<longleftrightarrow> u \<in> nodes ?E \<and> (u, v) \<in> linked ?E" for u v
  proof
    assume "same_tree p3 u v"
    then show "u \<in> nodes ?E \<and> (u, v) \<in> linked ?E"
      using into3 linked_sym linked_trans is_root_node keys3 unfolding same_tree_def by metis
  next
    assume "u \<in> nodes ?E \<and> (u, v) \<in> linked ?E"
    then show "same_tree p3 u v" using same_tree_linked [OF edges nodes] by blast
  qed
  then have "represents p3 ?E" using ok3 keys3 by (simp add: represents_def)
  moreover have "uf_union a b p = Some p3" by (simp add: uf_union_def a(1) b(1) p3_def)
  ultimately show ?thesis by blast
qed

lemma link_all_represents:
  "represents p E \<Longrightarrow> \<exists>p'. link_all threshold rels p = Some p' \<and>
     represents p' (E \<union> strong_edges threshold rels)"
proof (induction rels arbitrary: p E)
  case Nil
  then show ?case by (simp add: strong_edges_def)
next
  case (Cons r rels)
  show ?case
  proof (cases "threshold \<le> rl_strength r")
    case True
    obtain p1 where p1: "uf_union (rl_a r) (rl_b r) p = Some p1" "represents p1 (insert (rl_a r, rl_b r) E)"
      using union_represents [OF Cons.prems] by blast
    have "insert (rl_a r, rl_b r) E \<union> strong_edges threshold rels = E \<union> strong_edges threshold (r # rels)"
      using True by (auto simp: strong_edges_def)
    then show ?thesis using Cons.IH [OF p1(2)] p1(1) True by simp
  next
    case False
    then have "strong_edges threshold (r # rels) = strong_edges threshold rels"
      by (auto simp: strong_edges_def)
    then show ?thesis using Cons False by simp
  qed
qed

definition root_of :: "forest \<Rightarrow> string \<Rightarrow> string" where
  "root_of p x = (THE r. is_root p x r)"

lemma root_of_eq: "is_root p x r \<Longrightarrow> root_of p x = r"
  unfolding root_of_def using is_root_det by blast

lemma collect_groups:
  assumes "forest_ok p" "set ws \<subseteq> fst ` set p"
  shows "collect ws p cs = Some (fold (\<lambda>w. dict_append (root_of p w) w) ws cs)"
  using assms
proof (induction ws arbitrary: p cs)
  case (Cons w ws)
  obtain r p1 where w: "uf_find w p = Some (r, p1)" "forest_ok p1" "is_root p1 w r"
      "w \<in> fst ` set p \<Longrightarrow> same_roots p p1"
    by (rule uf_find_ok [OF Cons.prems(1), of w]) (rule that)
  have same: "same_roots p p1" using w(4) Cons.prems(2) by simp
  then have roots: "root_of p1 = root_of p" by (auto simp: same_roots_def root_of_def)
  have "set (map fst p1) = set (map fst p)" using same by (simp only: same_roots_def)
  then have "set ws \<subseteq> fst ` set p1" using Cons.prems(2) by simp
  then show ?case
    using Cons.IH [OF w(2)] w(1) root_of_eq [OF w(3)] by (simp add: roots)
qed simp

lemma clusters_cover_components:
  "\<exists>cs. find_clusters threshold rels = Some cs \<and>
     set (map set cs) = {c. \<exists>w \<in> nodes (strong_edges threshold rels).
       c = {v. (w, v) \<in> linked (strong_edges threshold rels)} \<and> 1 < card c} \<and>
     (\<forall>c \<in> set cs. distinct c)"
proof -
  let ?E = "strong_edges threshold rels"
  have "represents [] {}"
    by (auto simp: represents_def forest_ok_def nodes_def same_tree_def dest: is_root_node)
  then obtain p where p: "link_all threshold rels [] = Some p" "represents p ?E"
    using link_all_represents [of "[]" "{}" threshold rels] by auto
  have ok: "forest_ok p" and keys: "fst ` set p = nodes ?E"
    and tree: "\<And>u v. same_tree p u v \<longleftrightarrow> u \<in> nodes ?E \<and> (u, v) \<in> linked ?E"
    using p(2) by (auto simp: represents_def)
  define ws where "ws = map fst p"
  define G where "G = group_fold (root_of p) ws"
  have ws: "set ws = nodes ?E" "distinct ws" using keys ok by (auto simp: ws_def forest_ok_def)
  have out: "find_clusters threshold rels = Some (filter (\<lambda>c. 1 < length c) (map snd G))"
    using collect_groups [OF ok, of ws "[]"]
    by (simp add: find_clusters_def p(1) ws_def G_def group_fold_def)
  have comp: "set (filter (\<lambda>x. root_of p x = root_of p w) ws) = {v. (w, v) \<in> linked ?E}"
    if "w \<in> set ws" for w
  proof -
    have "root_of p x = root_of p w \<longleftrightarrow> same_tree p w x" if xin: "x \<in> set ws" for x
    proof -
      have "\<exists>r. is_root p y r" if "y \<in> set ws" for y
        using forest_okD [OF ok, of y] that ws(1) keys by (simp add: is_root_def)
      then obtain r s where "is_root p x r" "is_root p w s" using xin \<open>w \<in> set ws\<close> by blast
      then show ?thesis using root_of_eq is_root_det unfolding same_tree_def by metis
    qed
    moreover have "same_tree p w x \<Longrightarrow> x \<in> set ws" for x
      using same_tree_def is_root_node keys ws(1) by metis
    ultimately show ?thesis using tree \<open>w \<in> set ws\<close> ws(1) by auto
  qed
  have vals: "set (map snd G) = (\<lambda>w. filter (\<lambda>x. root_of p x = root_of p w) ws) ` set ws"
    unfolding G_def by (rule group_fold_values)
  have card: "length c = card (set c)" "distinct c" if "c \<in> set (map snd G)" for c
    using that ws(2) unfolding vals by (auto simp: distinct_card [symmetric])
  have "set (map set (filter (\<lambda>c. 1 < length c) (map snd G))) =
      set ` {c \<in> set (map snd G). 1 < length c}"
    by (simp only: set_map set_filter)
  also have "\<dots> = {set c | c. c \<in> set (map snd G) \<and> 1 < card (set c)}"
    using card(1) by (auto simp del: set_map)
  also have "\<dots> = {c. \<exists>w \<in> nodes ?E. c = {v. (w, v) \<in> linked ?E} \<and> 1 < card c}"
  proof -
    have "\<exists>c \<in> set (map snd G). set c = {v. (w, v) \<in> linked ?E}" if "w \<in> nodes ?E" for w
      using comp [of w] that ws(1) unfolding vals by blast
    moreover have "\<exists>w \<in> nodes ?E. set c = {v. (w, v) \<in> linked ?E}" if "c \<in> set (map snd G)" for c
      using that comp ws(1) unfolding vals by auto
    ultimately show ?thesis by (auto simp del: set_map) metis+
  qed
  finally show ?thesis using out card(2) by auto
qed

text \<open>
  C25. The clusters are exactly the connected components, with at least two wallets, of the graph
  whose edges are the relationships at or above the threshold.  The search always ends: the fuel
  suffices and no parent is missing.
\<close>

theorem clusters_are_components:
  "\<exists>cs. find_clusters threshold rels = Some cs \<and> list_all distinct cs \<and>
     set (map set cs) = {c. \<exists>w \<in> nodes (strong_edges threshold rels).
       c = {v. (w, v) \<in> linked (strong_edges threshold rels)} \<and> 1 < card c}"
  using clusters_cover_components [of threshold rels] unfolding list_all_iff by blast

section \<open>Rebuilding the graph\<close>

definition LOOKBACK_DAYS :: int where "LOOKBACK_DAYS = 30"

record graph_store =
  gs_db :: database
  gs_relations :: "relationship list"   \<comment> \<open>the table trader_relationships\<close>

definition same_match :: "relationship \<Rightarrow> relationship \<Rightarrow> bool" where
  "same_match r x \<longleftrightarrow> rl_a x = rl_a r \<and> rl_b x = rl_b r \<and> rl_relation x = rl_relation r"

definition upsert_relation :: "relationship \<Rightarrow> relationship list \<Rightarrow> relationship list" where
  "upsert_relation r rows =
     (if find (same_match r) rows = None then rows @ [r]
      else map (\<lambda>x. if same_match r x
        then x\<lparr>rl_strength := rl_strength r, rl_evidence := rl_evidence r\<rparr> else x) rows)"

definition observed_buys :: "datetime \<Rightarrow> database \<Rightarrow> trade_event list" where
  "observed_buys since d =
     map (\<lambda>t. \<lparr>te_wallet = st_wallet t, te_mint = st_token_mint t, te_at = st_source_confirmed_at t\<rparr>)
       (filter (\<lambda>t. since \<le> st_source_confirmed_at t \<and> st_action t = ACT_BUY)
         (map sw_trade (db_source_trades d)))"

definition limit_cluster :: "string list \<Rightarrow> trader_row list \<Rightarrow> trader_row list" where
  "limit_cluster c rows =
     update_where (\<lambda>r. tw_wallet r \<in> set c)
       (\<lambda>r. r\<lparr>tw_size_multiplier := Some (cluster_risk_multiplier (length c)),
              tw_meta := AList.update ''cluster_size'' (of_nat (length c)) (tw_meta r)\<rparr>) rows"

definition window_start :: "datetime \<Rightarrow> int \<Rightarrow> datetime" where
  "window_start now days = now - days * 86400 * 1000000"

definition rebuild_wallet_graph ::
    "datetime \<Rightarrow> int \<Rightarrow> graph_store \<Rightarrow> (nat \<times> nat \<times> nat) \<times> graph_store" where
  "rebuild_wallet_graph now days g =
     (let events = observed_buys (window_start now days) (gs_db g)
      in if length events < 10 then ((length events, 0, 0), g)
         else let rels = merge_relationships (detect_co_trading events)
              in case find_clusters 60 rels of
                   None \<Rightarrow> ((length events, 0, 0), g)
                 | Some clusters \<Rightarrow>
                     ((length events, length rels, length clusters),
                      g\<lparr>gs_relations := fold upsert_relation rels (gs_relations g),
                        gs_db := (gs_db g)\<lparr>db_traders :=
                          fold limit_cluster clusters (db_traders (gs_db g))\<rparr>\<rparr>))"

lemma clusters_disjoint:
  assumes "find_clusters threshold rels = Some cs" "c \<in> set cs" "c' \<in> set cs" "w \<in> set c" "w \<in> set c'"
  shows "set c = set c' \<and> length c = length c'"
proof -
  let ?E = "strong_edges threshold rels"
  have comps: "set (map set cs) = {c. \<exists>w \<in> nodes ?E. c = {v. (w, v) \<in> linked ?E} \<and> 1 < card c}"
    and dist: "\<forall>c \<in> set cs. distinct c"
    using clusters_cover_components [of threshold rels] assms(1) by auto
  have eq: "set d = {v. (w, v) \<in> linked ?E}" if "d \<in> set cs" "w \<in> set d" for d
  proof -
    have "set d \<in> set (map set cs)" using that(1) by simp
    then obtain u where "set d = {v. (u, v) \<in> linked ?E}" using comps by blast
    then show ?thesis using that(2) linked_sym linked_trans by blast
  qed
  then have "set c = set c'" using assms(2-5) by blast
  then show ?thesis using dist assms(2,3) by (metis distinct_card)
qed

lemma limit_cluster_row:
  "r \<in> set (limit_cluster c rows) \<Longrightarrow> \<exists>r0 \<in> set rows. tw_wallet r0 = tw_wallet r \<and>
     r = (if tw_wallet r \<in> set c
       then r0\<lparr>tw_size_multiplier := Some (cluster_risk_multiplier (length c)),
              tw_meta := AList.update ''cluster_size'' (of_nat (length c)) (tw_meta r0)\<rparr> else r0)"
  by (auto simp: limit_cluster_def update_where_def)

lemma limit_clusters_row:
  assumes "\<And>c c'. c \<in> set cs \<Longrightarrow> c' \<in> set cs \<Longrightarrow> w \<in> set c \<Longrightarrow> w \<in> set c' \<Longrightarrow> length c = length c'"
    and "r \<in> set (fold limit_cluster cs rows)" "tw_wallet r = w"
  shows "(\<forall>c \<in> set cs. w \<in> set c \<longrightarrow> tw_size_multiplier r = Some (cluster_risk_multiplier (length c))) \<and>
    ((\<forall>c \<in> set cs. w \<notin> set c) \<longrightarrow> r \<in> set rows)"
  using assms
proof (induction cs arbitrary: r rule: rev_induct)
  case (snoc c cs)
  obtain r0 where r0: "r0 \<in> set (fold limit_cluster cs rows)" "tw_wallet r0 = w"
      "r = (if w \<in> set c then r0\<lparr>tw_size_multiplier := Some (cluster_risk_multiplier (length c)),
              tw_meta := AList.update ''cluster_size'' (of_nat (length c)) (tw_meta r0)\<rparr> else r0)"
    using limit_cluster_row [of r c "fold limit_cluster cs rows"] snoc.prems(2,3) by auto
  have ih: "(\<forall>c \<in> set cs. w \<in> set c \<longrightarrow> tw_size_multiplier r0 = Some (cluster_risk_multiplier (length c))) \<and>
      ((\<forall>c \<in> set cs. w \<notin> set c) \<longrightarrow> r0 \<in> set rows)"
    using snoc.IH [OF _ r0(1,2)] snoc.prems(1) by auto
  show ?case
  proof (cases "w \<in> set c")
    case True
    have "length c' = length c" if "c' \<in> set (cs @ [c])" "w \<in> set c'" for c'
      by (rule snoc.prems(1)) (use that True in simp_all)
    moreover have "tw_size_multiplier r = Some (cluster_risk_multiplier (length c))"
      using True r0(3) by simp
    ultimately have "\<forall>c' \<in> set (cs @ [c]). w \<in> set c' \<longrightarrow>
        tw_size_multiplier r = Some (cluster_risk_multiplier (length c'))" by metis
    moreover have "c \<in> set (cs @ [c])" by simp
    ultimately show ?thesis using True by blast
  next
    case False
    then show ?thesis using ih r0(3) by auto
  qed
qed simp

lemma cluster_budget: "1 \<le> n \<Longrightarrow> \<bar>of_nat n * cluster_risk_multiplier n - 1\<bar> \<le> of_nat n / 20000"
proof (cases "n \<le> 1")
  case False
  have "\<bar>quantize 4 (1 / of_nat n) - 1 / of_nat n\<bar> \<le> (1 :: rat) / 20000"
    using quantize_near [of 4 "1 / of_nat n"] by simp
  then have "of_nat n * \<bar>quantize 4 (1 / of_nat n) - 1 / of_nat n\<bar> \<le> of_nat n * ((1 :: rat) / 20000)"
    by (rule mult_left_mono) simp
  moreover have "of_nat n * quantize 4 (1 / of_nat n) - (1 :: rat) =
      of_nat n * (quantize 4 (1 / of_nat n) - 1 / of_nat n)"
    using False by (simp add: right_diff_distrib)
  ultimately show ?thesis using False by (simp add: cluster_risk_multiplier_def abs_mult)
qed (simp add: cluster_risk_multiplier_def)

text \<open>
  After a rebuild the members of a cluster together hold one wallet's allocation, up to the
  rounding of the share to four digits; every other trader is untouched, and that includes the
  members of a cluster that no longer exists, who keep their reduced share.
\<close>

theorem linked_wallets_share_one_budget:
  assumes "rebuild_wallet_graph now days g = ((n_events, n_rels, n_clusters), g')"
    and "10 \<le> n_events"
  shows "\<exists>cs. find_clusters 60 (merge_relationships (detect_co_trading
        (observed_buys (window_start now days) (gs_db g)))) = Some cs \<and> n_clusters = length cs \<and>
    (\<forall>c \<in> set cs. \<forall>r \<in> set (db_traders (gs_db g')). tw_wallet r \<in> set c \<longrightarrow>
       tw_size_multiplier r = Some (cluster_risk_multiplier (length c))) \<and>
    (\<forall>c \<in> set cs. \<bar>of_nat (length c) * cluster_risk_multiplier (length c) - 1\<bar> \<le> of_nat (length c) / 20000) \<and>
    (\<forall>r \<in> set (db_traders (gs_db g')). (\<forall>c \<in> set cs. tw_wallet r \<notin> set c) \<longrightarrow> r \<in> set (db_traders (gs_db g)))"
proof -
  define rels where "rels = merge_relationships (detect_co_trading
      (observed_buys (window_start now days) (gs_db g)))"
  obtain cs where cs: "find_clusters 60 rels = Some cs"
      "set (map set cs) = {c. \<exists>w \<in> nodes (strong_edges 60 rels).
         c = {v. (w, v) \<in> linked (strong_edges 60 rels)} \<and> 1 < card c}"
    using clusters_cover_components [of 60 rels] by auto
  have n: "n_clusters = length cs" and rows: "db_traders (gs_db g') = fold limit_cluster cs (db_traders (gs_db g))"
    using assms cs(1) by (auto simp: rebuild_wallet_graph_def rels_def [symmetric] Let_def split: if_splits)
  have len: "c \<in> set cs \<Longrightarrow> c' \<in> set cs \<Longrightarrow> w \<in> set c \<Longrightarrow> w \<in> set c' \<Longrightarrow> length c = length c'" for c c' w
    using clusters_disjoint [OF cs(1)] by blast
  have big: "1 \<le> length c" if "c \<in> set cs" for c
  proof -
    have "set c \<in> set (map set cs)" using that by simp
    then have "1 < card (set c)" unfolding cs(2) by blast
    then show ?thesis using card_length [of c] by simp
  qed
  show ?thesis
    unfolding rels_def [symmetric]
    using cs(1) n limit_clusters_row [OF len] big cluster_budget by (auto simp: rows)
qed

definition sample_buys :: "database" where
  "sample_buys = empty_database\<lparr>
     db_traders := [new_trader_row 1 0 ''a'', new_trader_row 2 0 ''b'', new_trader_row 3 0 ''c''],
     db_source_trades := map (\<lambda>(w, m, t). \<lparr>sw_id = 0, sw_dedupe_key = w @ m, sw_trade =
         sample_trade\<lparr>st_wallet := w, st_token_mint := m, st_source_confirmed_at := t\<rparr>\<rparr>)
       [(''a'', ''M1'', 1), (''b'', ''M1'', 2), (''a'', ''M2'', 3), (''b'', ''M2'', 4),
        (''a'', ''M3'', 5), (''b'', ''M3'', 6), (''a'', ''M4'', 7), (''b'', ''M4'', 8),
        (''a'', ''M5'', 9), (''b'', ''M5'', 10), (''c'', ''M5'', 11)]\<rparr>"

definition sample_graph :: graph_store where
  "sample_graph = \<lparr>gs_db = sample_buys, gs_relations = []\<rparr>"

lemma linked_wallets_share_one_budget_witness:
  "\<exists>cs. length cs = 1 \<and> (\<forall>c \<in> set cs. \<forall>r \<in> set (db_traders (gs_db (snd (rebuild_wallet_graph 100 1 sample_graph)))).
      tw_wallet r \<in> set c \<longrightarrow> tw_size_multiplier r = Some (cluster_risk_multiplier (length c)))"
proof -
  obtain e r c g' where run: "rebuild_wallet_graph 100 1 sample_graph = ((e, r, c), g')"
    by (metis surj_pair)
  have "fst (rebuild_wallet_graph 100 1 sample_graph) = (11, 1, 1)" by code_simp
  then have "e = 11" "c = 1" using run by simp_all
  from linked_wallets_share_one_budget [OF run] this show ?thesis by (auto simp: run)
qed

end
