(* ===== verification/Trader_Lifecycle.thy ===== *)
theory Trader_Lifecycle
  imports Setup_Routes Graph
begin

text \<open>
  The trader table under every scheduled job and every route that writes a status: who may reach
  which status.  A rule on the status of a wallet that the scoring, the demotions and the removal
  keep (the locale \<open>status_rule\<close>) is kept by any sequence of jobs; two instances of it give that
  no job makes a trader active and that a removed wallet stays removed.
\<close>

section \<open>Wallets with their statuses\<close>

definition statuses :: "database \<Rightarrow> (string \<times> trader_status) list" where
  "statuses d = map (\<lambda>r. (tw_wallet r, tw_status r)) (db_traders d)"

lemma statuses_wallets: "fst ` set (statuses d) = tw_wallet ` set (db_traders d)"
  by (simp add: statuses_def image_image)

definition with_status :: "string \<Rightarrow> trader_status \<Rightarrow> string \<times> trader_status \<Rightarrow> string \<times> trader_status" where
  "with_status w s v = (fst v, if fst v = w then s else snd v)"

named_theorems statuses_simps "the statuses after a write"

lemma statuses_set [statuses_simps]:
  "statuses (set_trader_status w s now d) = map (with_status w s) (statuses d)"
  by (simp add: statuses_def set_trader_status_rows update_where_def with_status_def)

lemma statuses_logs [statuses_simps]:
  "statuses (log_event t a d) = statuses d" "statuses (log_risk_event k v d) = statuses d"
  "statuses (repo_log_audit actor act d) = statuses d"
  by (simp_all add: statuses_def log_event_def log_risk_event_def repo_log_audit_def)

lemma statuses_save_scores [statuses_simps]: "statuses (save_scores tid sc now d) = statuses d"
  by (simp add: statuses_def save_scores_def update_where_def)

lemma statuses_update_where:
  "(\<And>r. tw_wallet (f r) = tw_wallet r \<and> tw_status (f r) = tw_status r) \<Longrightarrow>
   statuses (d\<lparr>db_traders := update_where c f (db_traders d)\<rparr>) = statuses d"
  by (simp add: statuses_def update_where_def)

lemma statuses_upsert [statuses_simps]:
  "statuses (upsert_trader tid now w src label st meta d) =
     (let s = (case st of None \<Rightarrow> TS_DISCOVERED | Some s \<Rightarrow> s)
      in if w \<in> fst ` set (statuses d) then map (with_status w s) (statuses d) else statuses d @ [(w, s)])"
proof -
  have "w \<in> fst ` set (statuses d) \<longleftrightarrow> get_trader w d \<noteq> None"
    by (simp add: get_trader_None statuses_wallets)
  then show ?thesis
    by (auto simp: statuses_def upsert_trader_def Let_def update_where_def with_status_def
        new_trader_row_def split: option.splits)
qed

lemma get_trader_status: "get_trader w d = Some r \<Longrightarrow> (w, tw_status r) \<in> set (statuses d)"
  using get_trader_wallet by (force simp: statuses_def)

lemma row_status: "r \<in> set (db_traders d) \<Longrightarrow> (tw_wallet r, tw_status r) \<in> set (statuses d)"
  by (auto simp: statuses_def)

section \<open>The scheduled jobs\<close>

inductive job_step :: "database \<Rightarrow> database \<Rightarrow> bool" where
  step_backfill: "job_step d (snd (backfill_wallet env w pages d))"
| step_rescore: "job_step d (snd (rescore_all env n pages d))"
| step_decay: "job_step d (snd (detect_decay now d))"
| step_discover: "job_step d (snd (discover_wallets st denv auto_add d))"
| step_refresh: "job_step d (snd (refresh_watchlist denv days d))"
| step_score: "job_step d (snd (score_candidates dia st env budget d))"
| step_roster: "job_step d (snd (maintain_roster dia st now d))"
| step_graph: "job_step (gs_db g) (gs_db (snd (rebuild_wallet_graph now days g)))"
| step_remove: "job_step (su_db s) (su_db (snd (remove_wallet now w s)))"

text \<open>What an operator does beside removing: importing, pasting and restoring wallets.\<close>

inductive operator_step :: "database \<Rightarrow> database \<Rightarrow> bool" where
  step_seed: "operator_step (su_db s) (su_db (snd (run_seed ienv content s)))"
| step_add: "operator_step (su_db s) (su_db (snd (snd (add_wallets ienv pasted backfill s))))"
| step_restore: "operator_step (su_db s) (su_db (snd (restore_wallet now w s)))"

section \<open>Rules that the jobs keep\<close>

definition obeys :: "(string \<Rightarrow> trader_status \<Rightarrow> bool) \<Rightarrow> string set \<Rightarrow> database \<Rightarrow> bool" where
  "obeys rule known d \<longleftrightarrow> known \<subseteq> fst ` set (statuses d) \<and> (\<forall>(w, s) \<in> set (statuses d). rule w s)"

lemma obeysD: "obeys rule known d \<Longrightarrow> (w, s) \<in> set (statuses d) \<Longrightarrow> rule w s"
  by (auto simp: obeys_def)

lemma obeys_cong: "statuses d' = statuses d \<Longrightarrow> obeys rule known d' = obeys rule known d"
  by (simp add: obeys_def)

lemma obeys_set: "obeys rule known d \<Longrightarrow> rule w s \<Longrightarrow> obeys rule known (set_trader_status w s now d)"
  by (force simp: obeys_def statuses_simps with_status_def)

lemma obeys_upsert:
  assumes "obeys rule known d" "rule w (case st of None \<Rightarrow> TS_DISCOVERED | Some s \<Rightarrow> s)"
  shows "obeys rule known (upsert_trader tid now w src label st meta d)"
proof -
  define s where "s = (case st of None \<Rightarrow> TS_DISCOVERED | Some s \<Rightarrow> s)"
  have "obeys rule known d' \<longleftrightarrow> known \<subseteq> fst ` set ss \<and> (\<forall>v \<in> set ss. rule (fst v) (snd v))"
    if "statuses d' = ss" for d' ss using that by (auto simp: obeys_def)
  note split = this
  show ?thesis
  proof (cases "w \<in> fst ` set (statuses d)")
    case True
    then have "statuses (upsert_trader tid now w src label st meta d) = map (with_status w s) (statuses d)"
      by (simp add: statuses_upsert Let_def s_def)
    moreover have "fst ` set (map (with_status w s) (statuses d)) = fst ` set (statuses d)"
      by (simp add: image_image with_status_def)
    ultimately show ?thesis
      using assms split [OF refl, of d] by (auto simp: split with_status_def s_def)
  next
    case False
    then have "statuses (upsert_trader tid now w src label st meta d) = statuses d @ [(w, s)]"
      by (simp add: statuses_upsert Let_def s_def)
    then show ?thesis using assms split [OF refl, of d] by (auto simp: split s_def)
  qed
qed

lemma obeys_logs:
  "obeys rule known (log_event t a d) = obeys rule known d"
  "obeys rule known (log_risk_event k v d) = obeys rule known d"
  "obeys rule known (repo_log_audit actor act d) = obeys rule known d"
  by (simp_all add: obeys_def statuses_simps)

locale status_rule =
  fixes rule :: "string \<Rightarrow> trader_status \<Rightarrow> bool" and known :: "string set"
  assumes scored: "rule w s \<Longrightarrow> rule w (next_status s sc 0)"
    and moved: "rule w s \<Longrightarrow> s \<noteq> TS_BLACKLISTED \<Longrightarrow> s \<noteq> TS_SUSPENDED \<Longrightarrow>
      s' \<in> {TS_PROBATION, TS_CANDIDATE, TS_DEGRADED, TS_SUSPENDED} \<Longrightarrow> rule w s'"
    and removed: "rule w TS_BLACKLISTED"
    and found: "w \<notin> known \<Longrightarrow> rule w TS_DISCOVERED"
begin

abbreviation ok :: "database \<Rightarrow> bool" where "ok \<equiv> obeys rule known"

lemma row_moved:
  "ok d \<Longrightarrow> r \<in> set (db_traders d) \<Longrightarrow> tw_status r \<noteq> TS_BLACKLISTED \<Longrightarrow> tw_status r \<noteq> TS_SUSPENDED \<Longrightarrow>
   s' \<in> {TS_PROBATION, TS_CANDIDATE, TS_DEGRADED, TS_SUSPENDED} \<Longrightarrow> rule (tw_wallet r) s'"
  using moved obeysD row_status by blast

lemma upsert_new: "ok d \<Longrightarrow> get_trader w d = None \<Longrightarrow> ok (upsert_trader tid now w src label None meta d)"
  by (rule obeys_upsert) (auto simp: obeys_def statuses_wallets get_trader_None intro: found)

lemma store_scores_ok:
  assumes "ok d" shows "ok (store_scores env w n stats sc d)"
proof -
  define d1 where "d1 = (if get_trader w d = None
    then upsert_trader (ie_new_id env w) (ie_now env) w ''seed'' None None [] d else d)"
  have d1: "ok d1" using assms upsert_new by (simp add: d1_def)
  show ?thesis
  proof (cases "get_trader w d1")
    case None
    then show ?thesis using d1 by (simp add: store_scores_def Let_def d1_def [symmetric])
  next
    case (Some row)
    define d2 where "d2 = save_scores (tw_id row) sc (ie_now env) d1"
    define d3 where "d3 = d2\<lparr>db_traders := update_where (\<lambda>r. tw_id r = tw_id row)
      (profile_columns stats n) (db_traders d2)\<rparr>"
    have "statuses d3 = statuses d1"
      unfolding d3_def d2_def
      by (subst statuses_update_where) (simp_all add: profile_columns_def Let_def statuses_simps)
    then have "ok d3" using d1 by (simp add: obeys_def)
    moreover have "rule w (next_status (tw_status row) sc 0)"
      using get_trader_status [OF Some] d1 obeysD scored by blast
    ultimately have "ok (update_status w (tw_status row) sc (ie_now env) d3)"
      by (simp add: update_status_def Let_def obeys_logs obeys_set)
    then show ?thesis
      using Some by (simp add: store_scores_def Let_def d1_def [symmetric] d2_def [symmetric] d3_def [symmetric])
  qed
qed

lemma backfill_wallet_ok: "ok d \<Longrightarrow> ok (snd (backfill_wallet env w pages d))"
  by (simp add: backfill_wallet_def Let_def store_scores_ok split: sum.split)

lemma rescore_each_ok: "ok d \<Longrightarrow> ok (snd (rescore_each env pages ws rep d))"
proof (induction env pages ws rep d rule: rescore_each.induct)
  case (2 env pages w lt tid rest rep d)
  then show ?case using backfill_wallet_ok [of d env w pages] by (auto split: sum.split prod.split)
qed simp

lemma backfill_each_ok: "ok d \<Longrightarrow> ok (snd (backfill_each env pages ws rep d))"
proof (induction env pages ws rep d rule: backfill_each.induct)
  case (2 env pages w ws sc failed d)
  then show ?case using backfill_wallet_ok [of d env w pages] by (auto split: sum.split prod.split)
qed simp

lemma decay_traders_ok:
  assumes "\<forall>r \<in> set rs. rule (tw_wallet r) TS_DEGRADED" "ok d"
  shows "ok (snd (fold (decay_trader now) rs (ws, d)))"
  using assms
proof (induction rs arbitrary: ws d)
  case (Cons r rs)
  then show ?case
    by (cases "decayed (map sr_scores (take 10 (scores_of (tw_id r) d)))")
      (simp_all add: decay_trader_def obeys_logs obeys_set)
qed simp

lemma add_candidates_ok:
  "ok d \<Longrightarrow> \<forall>e \<in> set es. cy_wallet e \<notin> known \<Longrightarrow> ok (fold (add_candidate env meta) es d)"
proof (induction es arbitrary: d)
  case (Cons e es)
  have "rule (cy_wallet e) TS_DISCOVERED" using Cons.prems(2) found by simp
  then have "ok (add_candidate env meta e d)"
    using Cons.prems(1) by (simp add: add_candidate_def Let_def obeys_upsert)
  then show ?case using Cons by simp
qed simp

lemma retire_ok:
  "ok d \<Longrightarrow> \<forall>w \<in> set ws. rule (fst w) TS_SUSPENDED \<Longrightarrow>
   ok (snd (fold (retire_idle now cutoff) ws (rs, d)))"
proof (induction ws arbitrary: rs d)
  case (Cons w ws)
  obtain rs' d' where s: "retire_idle now cutoff w (rs, d) = (rs', d')" by fastforce
  then have "ok d'"
    using Cons.prems by (auto simp: retire_idle_def obeys_logs obeys_set split: option.splits if_splits)
  then show ?case using Cons s by simp
qed simp

lemma refresh_metadata_ok: "ok d \<Longrightarrow> ok (snd (fold refresh_metadata ps (n, d)))"
proof (induction ps arbitrary: n d)
  case (Cons p ps)
  obtain n' d' where s: "refresh_metadata p (n, d) = (n', d')" by fastforce
  have "statuses d' = statuses d"
    using s by (auto simp: refresh_metadata_def Let_def statuses_update_where split: if_splits)
  then have "ok d'" using Cons.prems by (simp add: obeys_def)
  then show ?case using Cons.IH s by simp
qed simp

lemma limit_clusters_statuses:
  "map (\<lambda>r. (tw_wallet r, tw_status r)) (fold limit_cluster cs rows) = map (\<lambda>r. (tw_wallet r, tw_status r)) rows"
  by (induction cs arbitrary: rows) (simp_all add: limit_cluster_def update_where_def)

lemma discover_wallets_ok: "ok d \<Longrightarrow> ok (snd (discover_wallets st env auto_add d))"
proof -
  assume d: "ok d"
  define meta where "meta = gmgn_discover True (de_gmgn env)"
  define fresh where "fresh = fresh_wallets d meta"
  define es where "es = discovery_survivors st env meta fresh"
  have "cy_wallet e \<notin> known" if "e \<in> set es" for e
  proof -
    have "cy_wallet e \<in> set fresh" using that survivors_facts(1) by (simp add: es_def)
    then have "cy_wallet e \<notin> fst ` set (statuses d)" by (auto simp: fresh_def fresh_wallets_def statuses_wallets)
    then show ?thesis using d by (auto simp: obeys_def)
  qed
  then have "ok (fold (add_candidate env meta) es d)" using d by (simp add: add_candidates_ok)
  then show ?thesis
    using d unfolding discover_wallets_def Let_def meta_def [symmetric] fresh_def [symmetric] es_def [symmetric]
    by (simp add: obeys_logs)
qed

lemma refresh_watchlist_ok: "ok d \<Longrightarrow> ok (snd (refresh_watchlist env days d))"
proof -
  assume d: "ok d"
  define wallets where "wallets = map (\<lambda>r. (tw_wallet r, tw_last_trade_at r)) (watched_rows d)"
  define cutoff where "cutoff = de_now env - days * 86400 * 10 ^ 6"
  obtain retired d1 where s: "fold (retire_idle (de_now env) cutoff) wallets ([], d) = (retired, d1)"
    by fastforce
  have "\<forall>w \<in> set wallets. rule (fst w) TS_SUSPENDED"
    using row_moved [OF d] by (auto simp: wallets_def watched_rows_iff)
  then have d1: "ok d1" using retire_ok [OF d, of wallets "de_now env" cutoff "[]"] s by simp
  obtain n d2 where m: "fold refresh_metadata (wallet_profits (de_gmgn env)
      (take 300 (filter (\<lambda>w. w \<notin> set retired) (map fst wallets)))) (0, d1) = (n, d2)" by fastforce
  then have "ok d2" using refresh_metadata_ok [OF d1] by (metis snd_conv)
  then show ?thesis
    using d1 unfolding refresh_watchlist_def Let_def wallets_def [symmetric] cutoff_def [symmetric] s prod.case m
    by simp
qed

lemma maintain_roster_ok: "ok d \<Longrightarrow> ok (snd (maintain_roster dia st now d))"
proof -
  assume d: "ok d"
  have "rule (tw_wallet (roster_row dia st now d r)) (tw_status (roster_row dia st now d r))"
    if r: "r \<in> set (db_traders d)" for r
  proof -
    have own: "rule (tw_wallet r) (tw_status r)" using obeysD [OF d] row_status [OF r] by simp
    have p: "rule (tw_wallet r) TS_PROBATION" if t: "t \<in> set (roster_top dia st d)" "tw_wallet t = tw_wallet r" for t
    proof -
      have "t \<in> set (watched_rows d)" using t roster_top_eligible roster_eligible_iff by blast
      then show ?thesis using row_moved [OF d, of t TS_PROBATION] t(2) by (auto simp: watched_rows_iff)
    qed
    have c: "rule (tw_wallet r) TS_CANDIDATE"
      if u: "u \<in> set (db_traders d)" "tw_wallet u = tw_wallet r" "is_followed (tw_status u)" for u
      using row_moved [OF d u(1), of TS_CANDIDATE] u by (auto simp: is_followed_def)
    show ?thesis using own p c by (auto simp: roster_row_def Let_def)
  qed
  moreover have "fst ` set (statuses (snd (maintain_roster dia st now d))) = fst ` set (statuses d)"
    by (auto simp: statuses_def maintain_roster_rows image_image)
  ultimately show ?thesis using d by (auto simp: obeys_def statuses_def maintain_roster_rows)
qed

lemma remove_wallet_ok: "ok (su_db s) \<Longrightarrow> ok (su_db (snd (remove_wallet now w s)))"
  by (simp add: remove_wallet_def set_status_route_def obeys_logs obeys_set removed split: option.split)

lemma graph_statuses: "statuses (gs_db (snd (rebuild_wallet_graph now days g))) = statuses (gs_db g)"
  by (simp add: rebuild_wallet_graph_def Let_def statuses_def limit_clusters_statuses split: option.split)

lemma rebuild_graph_ok: "ok (gs_db g) \<Longrightarrow> ok (gs_db (snd (rebuild_wallet_graph now days g)))"
  by (simp add: obeys_cong [OF graph_statuses])

lemma detect_decay_ok: "ok d \<Longrightarrow> ok (snd (detect_decay now d))"
  unfolding detect_decay_def by (rule decay_traders_ok) (auto intro: row_moved)

theorem job_step_ok: "job_step d d' \<Longrightarrow> ok d \<Longrightarrow> ok d'"
  by (induction rule: job_step.induct)
    (simp_all add: rescore_all_def score_candidates_def backfill_wallet_ok rescore_each_ok backfill_each_ok discover_wallets_ok
      refresh_watchlist_ok maintain_roster_ok remove_wallet_ok rebuild_graph_ok detect_decay_ok)

lemma jobs_ok: "job_step\<^sup>*\<^sup>* d d' \<Longrightarrow> ok d \<Longrightarrow> ok d'"
  by (induction rule: rtranclp_induct) (auto intro: job_step_ok)

end

section \<open>Two instances\<close>

text \<open>No job awards the status active: with no live trades counted, the scoring never does.\<close>

lemma next_status_active: "next_status s sc 0 = TS_ACTIVE \<Longrightarrow> s = TS_ACTIVE"
  by (auto simp: next_status_def split: if_splits)

interpretation active: status_rule "\<lambda>w s. s \<noteq> TS_ACTIVE" "{}"
  by unfold_locales (auto dest: next_status_active)

interpretation removal: status_rule "\<lambda>v s. v = w \<longrightarrow> s = TS_BLACKLISTED" "{w}" for w
  by unfold_locales (auto simp: next_status_def)

definition removed_wallet :: "string \<Rightarrow> database \<Rightarrow> bool" where
  "removed_wallet w d \<longleftrightarrow> get_trader w d \<noteq> None \<and>
     (\<forall>r \<in> set (db_traders d). tw_wallet r = w \<longrightarrow> tw_status r = TS_BLACKLISTED)"

lemma removed_wallet_obeys:
  "removed_wallet w d \<longleftrightarrow> obeys (\<lambda>v s. v = w \<longrightarrow> s = TS_BLACKLISTED) {w} d"
  by (auto simp: removed_wallet_def obeys_def get_trader_None statuses_wallets) (auto simp: statuses_def)

lemma active_obeys: "obeys (\<lambda>w s. s \<noteq> TS_ACTIVE) {} d \<longleftrightarrow> (\<forall>r \<in> set (db_traders d). tw_status r \<noteq> TS_ACTIVE)"
  by (auto simp: obeys_def statuses_def)

text \<open>
  C20. Whatever sequence of backfills, re-scorings, decay checks, discoveries, hygiene runs, candidate
  scorings, roster runs and graph rebuilds runs, a wallet that an operator removed stays removed,
  and is neither followed nor watched.
\<close>

theorem removed_wallet_stays_removed:
  assumes "job_step\<^sup>*\<^sup>* d d'" "removed_wallet w d"
  shows "removed_wallet w d' \<and> w \<notin> set (followed_wallets d') \<and> w \<notin> set (watchlist_wallets d')"
proof -
  have "removed_wallet w d'"
    using removal.jobs_ok [OF assms(1)] assms(2) by (simp add: removed_wallet_obeys)
  then show ?thesis
    by (auto simp: removed_wallet_def followed_wallets_def watchlist_wallets_def)
qed

definition removed_sample :: setup_store where
  "removed_sample = \<lparr>su_db = removed_database, su_queue = [], su_backtests = [], su_balances = (\<lambda>w. None),
     su_credits = 0\<rparr>"

lemma removed_wallet_stays_removed_witness:
  "removed_wallet sample_wallet (snd (maintain_roster SQLITE default_settings 9
     (snd (detect_decay 8 removed_database))))"
proof -
  have "job_step\<^sup>*\<^sup>* removed_database (snd (maintain_roster SQLITE default_settings 9
     (snd (detect_decay 8 removed_database))))"
    by (meson converse_rtranclp_into_rtranclp job_step.step_decay job_step.step_roster rtranclp.rtrancl_refl)
  moreover have "removed_wallet sample_wallet removed_database"
    by (simp add: removed_wallet_def removed_database_def get_trader_def new_trader_row_def)
  ultimately show ?thesis using removed_wallet_stays_removed by blast
qed

lemma seed_status_active:
  "\<forall>r \<in> set (db_traders d). tw_status r \<noteq> TS_ACTIVE \<Longrightarrow>
   fold (seed_entry_in env source) es (imported, present, d) = (i', p', d') \<Longrightarrow>
   \<forall>r \<in> set (db_traders d'). tw_status r \<noteq> TS_ACTIVE"
proof (induction es arbitrary: imported present d)
  case (Cons e es)
  obtain i1 p1 d1 where s: "seed_entry_in env source e (imported, present, d) = (i1, p1, d1)"
    by (metis prod_cases3)
  have "obeys (\<lambda>w s. s \<noteq> TS_ACTIVE) {} d1"
    using s Cons.prems(1) unfolding active_obeys [symmetric]
    by (cases e) (auto simp: seed_entry_in_def Let_def intro!: obeys_upsert split: if_splits)
  then show ?case using Cons.IH [of d1 i1 p1] Cons.prems(2) s by (simp add: active_obeys)
qed simp

lemma import_wallets_active:
  assumes "\<forall>r \<in> set (db_traders d). tw_status r \<noteq> TS_ACTIVE"
    and run: "import_wallets env entries source backfill chk d = (rep, queued, d')"
  shows "\<forall>r \<in> set (db_traders d'). tw_status r \<noteq> TS_ACTIVE"
proof -
  define keep where "keep = (if chk
    then filter (\<lambda>e. vd_ok (the (map_of (verify_many (im_accounts env) (map fst entries)) (fst e)))) entries
    else entries)"
  obtain i p d1 where f: "fold (seed_entry_in env source) keep ([], 0, d) = (i, p, d1)"
    by (metis prod_cases3)
  have "d' = d \<or> d' = repo_log_audit source ''wallets_imported'' d1"
    using run unfolding import_wallets_def Let_def keep_def [symmetric] f by (simp split: if_splits)
  then show ?thesis using assms(1) seed_status_active [OF assms(1) f] by (auto simp: repo_log_audit_def)
qed

lemma import_seed_file_active:
  assumes "\<forall>r \<in> set (db_traders d). tw_status r \<noteq> TS_ACTIVE"
    and run: "import_seed_file env content backfill d = Inr (rep, queued, d')"
  shows "\<forall>r \<in> set (db_traders d'). tw_status r \<noteq> TS_ACTIVE"
proof -
  obtain es where es: "parse_seed_file content = Inr es"
    using run by (auto simp: import_seed_file_def split: sum.splits)
  obtain i p d1 where f: "fold (seed_entry_in env ''manual-seed'') es ([], 0, d) = (i, p, d1)"
    by (metis prod_cases3)
  have "d' = d \<or> d' = repo_log_audit ''cli'' ''seed_import'' d1"
    using run by (simp add: import_seed_file_def es f split: if_splits)
  then show ?thesis using assms(1) seed_status_active [OF assms(1) f] by (auto simp: repo_log_audit_def)
qed

lemma queue_backfills_db [simp]: "su_db (queue_backfills ws s) = su_db s"
  by (simp add: queue_backfills_def enqueue_many)

lemma operator_step_active:
  "operator_step d d' \<Longrightarrow> \<forall>r \<in> set (db_traders d). tw_status r \<noteq> TS_ACTIVE \<Longrightarrow>
   \<forall>r \<in> set (db_traders d'). tw_status r \<noteq> TS_ACTIVE"
proof (induction rule: operator_step.induct)
  case (step_seed s ienv content)
  show ?case
  proof (cases "import_seed_file ienv content True (su_db s)")
    case (Inr v)
    obtain rep queued d' where v: "v = (rep, queued, d')" by (metis prod_cases3)
    then show ?thesis
      using import_seed_file_active [OF step_seed Inr [unfolded v]] Inr by (simp add: run_seed_def)
  qed (use step_seed in \<open>simp add: run_seed_def\<close>)
next
  case (step_add s ienv pasted backfill)
  show ?case
  proof (cases "parse_seed_text pasted")
    case (Inr entries)
    obtain rep queued d' where v: "import_wallets ienv entries ''ui'' backfill True (su_db s) = (rep, queued, d')"
      by (metis prod_cases3)
    show ?thesis
      using import_wallets_active [OF step_add v] step_add Inr by (simp add: add_wallets_def v)
  qed (use step_add in \<open>simp add: add_wallets_def\<close>)
next
  case (step_restore s now w)
  then show ?case
    unfolding active_obeys [symmetric]
    by (simp add: restore_wallet_def set_status_route_def obeys_logs obeys_set split: option.split)
qed

text \<open>
  C21. No sequence of jobs, imports, removals and restorations makes a trader active: a trader earns
  probation at most, since the scoring always counts zero live trades.  Only the status route and
  the command line award it.
\<close>

theorem active_is_never_earned:
  assumes "(sup job_step operator_step)\<^sup>*\<^sup>* d d'"
    and "\<forall>r \<in> set (db_traders d). tw_status r \<noteq> TS_ACTIVE"
  shows "\<forall>r \<in> set (db_traders d'). tw_status r \<noteq> TS_ACTIVE"
  using assms
proof (induction rule: rtranclp_induct)
  case (step y z)
  then show ?case
    using active.job_step_ok [of y z] operator_step_active [of y z] by (auto simp: active_obeys)
qed

lemma active_is_never_earned_witness:
  "list_all (\<lambda>r. tw_status r \<noteq> TS_ACTIVE)
     (db_traders (snd (maintain_roster POSTGRESQL roster_of_one 5 roster_sample)))"
  unfolding list_all_iff
proof (rule active_is_never_earned)
  show "(sup job_step operator_step)\<^sup>*\<^sup>* roster_sample (snd (maintain_roster POSTGRESQL roster_of_one 5 roster_sample))"
    by (rule r_into_rtranclp) (simp add: job_step.step_roster)
qed (simp add: roster_sample_def new_trader_row_def)

end
