(* ===== verification/Roster_Text.thy ===== *)
theory Roster_Text
  imports Discovery
begin

text \<open>
  What the text comparison of \<^verbatim>\<open>db/types.py\<close> does to the thresholds and the ranking of
  \<^verbatim>\<open>maintain_roster\<close> on the default backend.  A score of two places is compared with the
  printed threshold character by character, so that nine ranks above sixty and a hundred below it.
\<close>

section \<open>A score against a threshold of two digits\<close>

text \<open>The printed value of a score between 0 and 100.\<close>

lemma two_places_text:
  assumes "0 \<le> c" "c \<le> 100"
  obtains k rest where "two_places c = nat_text k @ ''.'' @ rest" "k \<le> 100" "of_nat k \<le> c" "c < of_nat k + 1"
proof
  define n where "n = nat \<lfloor>c * 100\<rfloor>"
  have n: "int n = \<lfloor>c * 100\<rfloor>" using assms(1) by (simp add: n_def)
  then have up: "(of_nat n :: rat) \<le> c * 100" "c * 100 < of_nat n + 1"
    by (metis of_int_floor_le of_int_of_nat_eq, metis floor_correct of_int_of_nat_eq of_int_add of_int_1)
  show "two_places c = nat_text (n div 100) @ ''.'' @ padded 2 (n mod 100)"
    using assms(1) by (simp add: two_places_def fixed_text_def trunc_int_def Let_def n_def)
  have "(of_nat n :: rat) \<le> of_nat 10000" using up(1) assms(2) by simp
  then have "n \<le> 10000" by (simp only: of_nat_le_iff)
  then show "n div 100 \<le> 100" by simp
  have between: "100 * k \<le> n \<and> n + 1 \<le> 100 * (k + 1)" if "100 * k + m = n" "m < 100" for k m
    using that by simp
  have "100 * (n div 100) \<le> n" "n + 1 \<le> 100 * (n div 100 + 1)"
    using between [of "n div 100" "n mod 100"] by simp_all
  then have "(of_nat (100 * (n div 100)) :: rat) \<le> of_nat n" "(of_nat (n + 1) :: rat) \<le> of_nat (100 * (n div 100 + 1))"
    by (simp_all only: of_nat_le_iff)
  then show "of_nat (n div 100) \<le> c" "c < of_nat (n div 100) + 1"
    using up by simp_all
qed

lemma threshold_text:
  "plain_text 60 = ''60''" "plain_text 50 = ''50''"
  by (simp_all add: plain_text_def upt_rec trunc_int_def fixed_text_def nat_text.simps hex_digit_def)

lemma text_at_least_table:
  "list_all (\<lambda>k. (''60'' \<le> nat_text k @ ''.'') = (7 \<le> k \<and> k < 10 \<or> 60 \<le> k \<and> k < 100) \<and>
     (''50'' \<le> nat_text k @ ''.'') = (6 \<le> k \<and> k < 10 \<or> 50 \<le> k \<and> k < 100)) [0 ..< 101]"
  by (simp add: upt_rec nat_text.simps hex_digit_def)

lemma string_prefix_le:
  fixes a b :: "'a :: linorder list"
  assumes "length a \<le> length b"
  shows "a \<le> b @ rest \<longleftrightarrow> a \<le> b"
  using assms
proof (induction a arbitrary: b)
  case (Cons x xs)
  then show ?case by (cases b) simp_all
qed simp

lemma text_at_least:
  assumes "0 \<le> c" "c \<le> 100"
  shows "''60'' \<le> two_places c \<longleftrightarrow> 7 \<le> c \<and> c < 10 \<or> 60 \<le> c \<and> c < 100"
    and "''50'' \<le> two_places c \<longleftrightarrow> 6 \<le> c \<and> c < 10 \<or> 50 \<le> c \<and> c < 100"
proof -
  obtain k rest where t: "two_places c = (nat_text k @ ''.'') @ rest" "k \<le> 100" "of_nat k \<le> c" "c < of_nat k + 1"
    using two_places_text [OF assms] by auto
  have num: "(of_nat m \<le> c \<longleftrightarrow> m \<le> k) \<and> (c < of_nat m \<longleftrightarrow> k < m)" for m
  proof -
    have "of_nat m \<le> c \<longleftrightarrow> m \<le> k"
    proof
      assume "of_nat m \<le> c"
      then have "(of_nat m :: rat) < of_nat (k + 1)" using t(4) by simp
      then show "m \<le> k" by (simp only: of_nat_less_iff)
    next
      assume "m \<le> k"
      then have "(of_nat m :: rat) \<le> of_nat k" by simp
      then show "of_nat m \<le> c" using t(3) by simp
    qed
    then show ?thesis by linarith
  qed
  have len: "length ''60'' \<le> length (nat_text k @ ''.'')" "length ''50'' \<le> length (nat_text k @ ''.'')"
    by (cases "nat_text k"; simp)+
  have row: "(''60'' \<le> nat_text k @ ''.'') = (7 \<le> k \<and> k < 10 \<or> 60 \<le> k \<and> k < 100) \<and>
     (''50'' \<le> nat_text k @ ''.'') = (6 \<le> k \<and> k < 10 \<or> 50 \<le> k \<and> k < 100)"
    using text_at_least_table t(2) unfolding list_all_iff by auto
  show "''60'' \<le> two_places c \<longleftrightarrow> 7 \<le> c \<and> c < 10 \<or> 60 \<le> c \<and> c < 100"
    unfolding t(1) string_prefix_le [OF len(1)]
    using row num [of 7] num [of 10] num [of 60] num [of 100] by simp
  show "''50'' \<le> two_places c \<longleftrightarrow> 6 \<le> c \<and> c < 10 \<or> 50 \<le> c \<and> c < 100"
    unfolding t(1) string_prefix_le [OF len(2)]
    using row num [of 6] num [of 10] num [of 50] num [of 100] by simp
qed

section \<open>What clears the bar\<close>

definition scored_row :: "database \<Rightarrow> trader_row \<Rightarrow> bool" where
  "scored_row d r \<longleftrightarrow> scores_of (tw_id r) d \<noteq> []"

text \<open>
  C23. With the default thresholds, a scored trader clears the bar on PostgreSQL exactly when its
  composite is at least 60 and its confidence at least 50.  On SQLite, the default, it does
  exactly when each of the two begins with the right digits: a composite from 7 up to 10 clears
  sixty as well, a composite or a confidence of 100 does not.
\<close>

theorem text_scores_misrank:
  assumes "scored_row d r"
    and "tw_composite r = Some c" "0 \<le> c" "c \<le> 100"
    and "tw_confidence r = Some f" "0 \<le> f" "f \<le> 100"
  shows "(clears_bar POSTGRESQL default_settings d r \<longleftrightarrow> 60 \<le> c \<and> 50 \<le> f) \<and>
    (clears_bar SQLITE default_settings d r \<longleftrightarrow>
       (7 \<le> c \<and> c < 10 \<or> 60 \<le> c \<and> c < 100) \<and> (6 \<le> f \<and> f < 10 \<or> 50 \<le> f \<and> f < 100))"
  using assms
  by (simp add: clears_bar_def score_at_least_def default_settings_def default_copyability_def
      threshold_text column_text_def scored_row_def text_at_least)

definition weak_scores :: trader_scores where
  "weak_scores = default_scores\<lparr>sc_composite := 7, sc_confidence := 9\<rparr>"

definition strong_scores :: trader_scores where
  "strong_scores = default_scores\<lparr>sc_composite := 65, sc_confidence := 60\<rparr>"

definition full_scores :: trader_scores where
  "full_scores = default_scores\<lparr>sc_composite := 90, sc_confidence := 100\<rparr>"

definition scored_trader :: "nat \<Rightarrow> string \<Rightarrow> trader_scores \<Rightarrow> trader_row" where
  "scored_trader i w s = (new_trader_row i 0 w)\<lparr>tw_status := TS_CANDIDATE,
     tw_composite := Some (sc_composite s), tw_confidence := Some (sc_confidence s)\<rparr>"

definition scored_sample :: database where
  "scored_sample = empty_database\<lparr>
     db_traders := [scored_trader 1 ''strong'' strong_scores, scored_trader 2 ''full'' full_scores,
       scored_trader 3 ''weak'' weak_scores],
     db_scores := [\<lparr>sr_trader_id = 1, sr_scores = strong_scores, sr_computed_at = 4\<rparr>,
       \<lparr>sr_trader_id = 2, sr_scores = full_scores, sr_computed_at = 4\<rparr>,
       \<lparr>sr_trader_id = 3, sr_scores = weak_scores, sr_computed_at = 4\<rparr>]\<rparr>"

lemma text_scores_misrank_witness:
  "clears_bar SQLITE default_settings scored_sample (scored_trader 3 ''weak'' weak_scores) \<and>
   \<not> clears_bar POSTGRESQL default_settings scored_sample (scored_trader 3 ''weak'' weak_scores) \<and>
   \<not> clears_bar SQLITE default_settings scored_sample (scored_trader 2 ''full'' full_scores) \<and>
   clears_bar POSTGRESQL default_settings scored_sample (scored_trader 2 ''full'' full_scores)"
proof -
  have s: "scored_row scored_sample (scored_trader 3 ''weak'' weak_scores)"
    "scored_row scored_sample (scored_trader 2 ''full'' full_scores)"
    by (simp_all add: scored_row_def scores_of_def scored_sample_def scored_trader_def new_trader_row_def)
  show ?thesis
    using text_scores_misrank [OF s(1), of 7 9] text_scores_misrank [OF s(2), of 90 100]
    by (simp add: scored_trader_def weak_scores_def full_scores_def)
qed

text \<open>The roster of one that results: the weakest of the three is the one that is copied.\<close>

lemma weakest_is_followed:
  "set (followed_wallets (snd (maintain_roster SQLITE roster_of_one 5 scored_sample))) = {''weak''}"
proof -
  have cols: "column_text scored_sample (scored_trader 3 ''weak'' s) v = two_places v"
    "column_text scored_sample (scored_trader (Suc 0) ''strong'' s) v = two_places v" for s v
    by (simp_all add: column_text_def scores_of_def scored_sample_def scored_trader_def new_trader_row_def)
  have bars: "min_trader_score (copyability roster_of_one) = 60" "min_trader_confidence (copyability roster_of_one) = 50"
    by (simp_all add: roster_of_one_def default_settings_def default_copyability_def)
  have comp: "tw_composite (scored_trader i w s) = Some (sc_composite s)"
    "tw_confidence (scored_trader i w s) = Some (sc_confidence s)" for i w s
    by (simp_all add: scored_trader_def)
  have full: "column_text scored_sample (scored_trader 2 ''full'' s) v = two_places v" for s v
    by (simp add: column_text_def scores_of_def scored_sample_def scored_trader_def new_trader_row_def)
  have clear: "clears_bar SQLITE roster_of_one scored_sample (scored_trader 3 ''weak'' weak_scores)"
    "clears_bar SQLITE roster_of_one scored_sample (scored_trader (Suc 0) ''strong'' strong_scores)"
    "\<not> clears_bar SQLITE roster_of_one scored_sample (scored_trader 2 ''full'' full_scores)"
    by (simp_all add: clears_bar_def score_at_least_def bars threshold_text cols full comp text_at_least
        weak_scores_def strong_scores_def full_scores_def)
  have watched: "watched_rows scored_sample = [scored_trader 1 ''strong'' strong_scores,
      scored_trader 2 ''full'' full_scores, scored_trader 3 ''weak'' weak_scores]"
    by (simp add: watched_rows_def scored_sample_def scored_trader_def new_trader_row_def)
  have less: "two_places 65 < two_places 7"
    by (simp add: two_places_def fixed_text_def nat_text.simps hex_digit_def numeral_2_eq_2 trunc_int_def Let_def)
  have places: "target_roster_size roster_of_one = 1" by (simp add: roster_of_one_def)
  have marks: "sc_composite weak_scores = 7" "sc_composite strong_scores = 65"
    by (simp_all add: weak_scores_def strong_scores_def)
  have e: "roster_eligible SQLITE roster_of_one scored_sample =
      [scored_trader 3 ''weak'' weak_scores, scored_trader 1 ''strong'' strong_scores]"
    using less marks
    by (simp add: roster_eligible_def watched clear by_composite_def cols comp or_zero_def)
  have t: "roster_top SQLITE roster_of_one scored_sample = [scored_trader 3 ''weak'' weak_scores]"
    by (simp add: roster_top_def e slice_to_def places)
  show ?thesis
    by (simp add: roster_followed t) (simp add: scored_trader_def new_trader_row_def)
qed

end
