(* ===== verification/Helius_Client.thy ===== *)
theory Helius_Client
  imports Resilience
begin

text \<open>
  \<^verbatim>\<open>adapters/helius.py\<close>: the metering of credits, the two lanes of calls, JSON-RPC with
  its fallback, the polling for a confirmation, the priority fee and the enhanced endpoints.
  What a server answers is a parameter of each call: the outcomes of the attempts for the retry
  loop of \<^theory_text>\<open>Resilience\<close> and the body of the answer that ended it.  Monotonic clocks are
  rational seconds; the byte count of the streaming meter is a binary float.
\<close>

section \<open>Metering\<close>

definition CREDIT_COST :: "int pydict" where
  "CREDIT_COST = [(''walletHistory'', 100), (''parsedTransactions'', 100),
     (''getProgramAccounts'', 10), (''sendFast'', 0)]"

definition WS_CREDITS_PER_MB :: rat where "WS_CREDITS_PER_MB = 20"

definition ENHANCED_RPS :: int where "ENHANCED_RPS = 2"

text \<open>The hash of one day and when it expires; the store maps a day to its hash.\<close>

record credit_hash =
  ch_fields :: "int pydict"
  ch_expires :: "datetime option"

type_synonym credit_store = "int \<rightharpoonup> credit_hash"

datatype meter_command = Hincrby string int | Expire int

definition utc_day :: "datetime \<Rightarrow> int" where
  "utc_day now = now div (86400 * 10 ^ 6)"

definition hincrby :: "string \<Rightarrow> int \<Rightarrow> int pydict \<Rightarrow> int pydict" where
  "hincrby k n h = AList.update k (dict_get k 0 h + n) h"

definition apply_meter_command :: "datetime \<Rightarrow> meter_command \<Rightarrow> credit_store \<Rightarrow> credit_store" where
  "apply_meter_command now c s =
     (let day = utc_day now;
          h = (case s day of None \<Rightarrow> \<lparr>ch_fields = [], ch_expires = None\<rparr> | Some h \<Rightarrow> h)
      in case c of
           Hincrby k n \<Rightarrow> s(day \<mapsto> h\<lparr>ch_fields := hincrby k n (ch_fields h)\<rparr>)
         | Expire secs \<Rightarrow> (case s day of None \<Rightarrow> s
             | Some _ \<Rightarrow> s(day \<mapsto> h\<lparr>ch_expires := Some (now + secs * 10 ^ 6)\<rparr>)))"

definition call_cost :: "string \<Rightarrow> int option \<Rightarrow> int" where
  "call_cost call credits = (case credits of Some c \<Rightarrow> c | None \<Rightarrow> dict_get call 1 CREDIT_COST)"

definition meter_pipeline :: "string \<Rightarrow> int option \<Rightarrow> meter_command list" where
  "meter_pipeline call credits =
     [Hincrby call (call_cost call credits), Hincrby ''_total'' (call_cost call credits),
      Hincrby ''_calls'' 1, Expire (86400 * 40)]"

text \<open>
  \<^verbatim>\<open>_count\<close>.  The pipeline is no transaction: when the server is lost, the commands that
  reached it took effect and the error is swallowed.
\<close>

definition count_call ::
    "nat \<Rightarrow> datetime \<Rightarrow> string \<Rightarrow> int option \<Rightarrow> credit_store \<Rightarrow> credit_store" where
  "count_call reached now call credits s =
     fold (apply_meter_command now) (take reached (meter_pipeline call credits)) s"

text \<open>\<^verbatim>\<open>count_ws_bytes\<close>: the carry is spent whether or not the credits were noted.\<close>

definition ws_bytes_step :: "rat \<Rightarrow> nat \<Rightarrow> int \<times> rat" where
  "ws_bytes_step carry nbytes =
     (let total = fl64 (carry + of_nat nbytes);
          credits = trunc_int (fl64 (fl64 (total / 1048576) * WS_CREDITS_PER_MB))
      in if 1 \<le> credits
           then (credits, fl64 (total - fl64 (fl64 (of_int credits / WS_CREDITS_PER_MB) * 1048576)))
         else (0, total))"

definition count_ws_bytes ::
    "nat \<Rightarrow> datetime \<Rightarrow> nat \<Rightarrow> rat \<times> credit_store \<Rightarrow> rat \<times> credit_store" where
  "count_ws_bytes reached now nbytes m =
     (let (credits, carry) = ws_bytes_step (fst m) nbytes
      in if 1 \<le> credits then (carry, count_call reached now ''wsStream'' (Some credits) (snd m))
         else (carry, snd m))"

section \<open>The lanes\<close>

record lane =
  ln_interval :: rat
  ln_last :: rat

definition pace_lane_wait :: "rat \<Rightarrow> lane \<Rightarrow> rat" where
  "pace_lane_wait now l = max 0 (ln_interval l - (now - ln_last l))"

definition pace_lane :: "rat \<Rightarrow> lane \<Rightarrow> lane" where
  "pace_lane later l = l\<lparr>ln_last := later\<rparr>"

record helius_client =
  hc_breaker :: breaker
  hc_lane :: lane
  hc_enhanced :: lane
  hc_carry :: rat
  hc_credits :: credit_store

definition new_helius_client :: "settings \<Rightarrow> helius_client" where
  "new_helius_client st =
     \<lparr>hc_breaker = new_breaker 5 30,
      hc_lane = \<lparr>ln_interval = 1 / of_int (max 1 (helius_max_rps st)), ln_last = 0\<rparr>,
      hc_enhanced = \<lparr>ln_interval = 1 / of_int ENHANCED_RPS, ln_last = 0\<rparr>,
      hc_carry = 0, hc_credits = (\<lambda>day. None)\<rparr>"

section \<open>JSON-RPC\<close>

text \<open>The body of a response with a good status; a null or missing result is \<^const>\<open>None\<close>.\<close>

datatype 'a reply_body = Not_json | Error_reply | Result_reply "'a option"

record 'a endpoint =
  ep_replies :: "http_outcome list"
  ep_body :: "'a reply_body"
  ep_at :: rat
  ep_done :: rat

definition http_retries :: nat where "http_retries = 2"

definition http_post :: "'a endpoint \<Rightarrow> breaker \<Rightarrow> (py_error + 'a reply_body) \<times> breaker" where
  "http_post ep b =
     (case request http_retries False (ep_replies ep) (ep_at ep) (ep_done ep) b of
        (Inl e, made, b') \<Rightarrow> (Inl (ProviderError ''helius''), b')
      | (Inr code, made, b') \<Rightarrow>
          (case ep_body ep of
             Not_json \<Rightarrow> (Inl (ValueError ''JSONDecodeError''), b')
           | body \<Rightarrow> (Inr body, b')))"

record 'a rpc_env =
  rv_primary :: "'a endpoint"
  rv_fallback :: "'a endpoint"
  rv_clock :: datetime
  rv_reached :: nat
  rv_paced_at :: rat

definition rpc_answer :: "'a reply_body \<Rightarrow> py_error + 'a option" where
  "rpc_answer body =
     (case body of Result_reply r \<Rightarrow> Inr r | _ \<Rightarrow> Inl (ProviderError ''helius''))"

definition rpc_fallback :: "'a rpc_env \<Rightarrow> helius_client \<Rightarrow> (py_error + 'a option) \<times> helius_client" where
  "rpc_fallback env c =
     (case http_post (rv_fallback env) (hc_breaker c) of
        (Inl e, b) \<Rightarrow> (Inl e, c\<lparr>hc_breaker := b\<rparr>)
      | (Inr body, b) \<Rightarrow> (rpc_answer body, c\<lparr>hc_breaker := b\<rparr>))"

definition rpc :: "string \<Rightarrow> 'a rpc_env \<Rightarrow> helius_client \<Rightarrow> (py_error + 'a option) \<times> helius_client" where
  "rpc call env c =
     (let c1 = c\<lparr>hc_lane := pace_lane (rv_paced_at env) (hc_lane c),
            hc_credits := count_call (rv_reached env) (rv_clock env) call None (hc_credits c)\<rparr>
      in case http_post (rv_primary env) (hc_breaker c1) of
           (Inl (ProviderError p), b) \<Rightarrow> rpc_fallback env (c1\<lparr>hc_breaker := b\<rparr>)
         | (Inl e, b) \<Rightarrow> (Inl e, c1\<lparr>hc_breaker := b\<rparr>)
         | (Inr body, b) \<Rightarrow> (rpc_answer body, c1\<lparr>hc_breaker := b\<rparr>))"

fun rpc_all ::
    "(string \<times> 'a rpc_env) list \<Rightarrow> helius_client \<Rightarrow> (py_error + 'a option) list \<times> helius_client" where
  "rpc_all [] c = ([], c)"
| "rpc_all ((call, env) # calls) c =
     (let (r, c1) = rpc call env c; (rs, c2) = rpc_all calls c1 in (r # rs, c2))"

section \<open>Confirmation\<close>

record signature_status =
  sg_commitment :: string
  sg_err :: bool

definition status_settled :: "signature_status \<Rightarrow> bool" where
  "status_settled s \<longleftrightarrow> sg_commitment s \<in> {''confirmed'', ''finalized''} \<or> sg_err s"

text \<open>
  One entry per turn of the loop: the clock when the deadline is tested and what the call
  answers.  The second component says whether the loop has ended.
\<close>

fun confirm ::
    "rat \<Rightarrow> (rat \<times> (py_error + signature_status option)) list \<Rightarrow>
       (py_error + signature_status option) \<times> bool" where
  "confirm deadline [] = (Inr None, False)"
| "confirm deadline ((now, answer) # polls) =
     (if deadline \<le> now then (Inr None, True)
      else case answer of
             Inl e \<Rightarrow> (Inl e, True)
           | Inr (Some s) \<Rightarrow> if status_settled s then (Inr (Some s), True) else confirm deadline polls
           | Inr None \<Rightarrow> confirm deadline polls)"

section \<open>Priority fee\<close>

text \<open>What \<^verbatim>\<open>data.get("result", {}).get(...)\<close> finds: a null result is no dict.\<close>

datatype fee_reply = Fee_null_result | Fee_missing | Fee_number rat | Fee_text

definition priority_fee ::
    "settings \<Rightarrow> fee_reply endpoint \<Rightarrow> breaker \<Rightarrow> (py_error + int) \<times> breaker" where
  "priority_fee st ep b =
     (if helius_api_key st = [] then (Inr (priority_fee_lamports st), b)
      else let (posted, b') = http_post ep b;
               clamped = (\<lambda>est. max 1000 (min (if est = 0 then priority_fee_lamports st else est)
                 (max_priority_fee_lamports st)))
           in case posted of
                Inr (Result_reply (Some Fee_null_result)) \<Rightarrow> (Inl (RuntimeError ''AttributeError''), b')
              | Inr (Result_reply (Some (Fee_number x))) \<Rightarrow> (Inr (clamped (trunc_int x)), b')
              | Inr (Result_reply (Some Fee_text)) \<Rightarrow> (Inr (clamped (priority_fee_lamports st)), b')
              | Inr body \<Rightarrow> (Inr (clamped 0), b')
              | Inl e \<Rightarrow> (Inr (clamped (priority_fee_lamports st)), b'))"

section \<open>Enhanced endpoints\<close>

text \<open>\<^verbatim>\<open>wallet_history\<close> and \<^verbatim>\<open>parsed_transactions\<close>: a page that fails is an empty page.
  An object in place of the list is handed on and breaks the caller, which indexes it.\<close>

definition enhanced_call ::
    "string \<Rightarrow> settings \<Rightarrow> ('row list) rpc_env \<Rightarrow> helius_client \<Rightarrow> (py_error + 'row list) \<times> helius_client" where
  "enhanced_call call st env c =
     (if helius_api_key st = [] then (Inr [], c)
      else let c1 = c\<lparr>hc_enhanced := pace_lane (rv_paced_at env) (hc_enhanced c),
                 hc_credits := count_call (rv_reached env) (rv_clock env) call None (hc_credits c)\<rparr>;
               (posted, b) = http_post (rv_primary env) (hc_breaker c1);
               c2 = c1\<lparr>hc_breaker := b\<rparr>
           in case posted of
                Inl (ProviderError p) \<Rightarrow> (Inr [], c2)
              | Inl e \<Rightarrow> (Inl e, c2)
              | Inr (Result_reply (Some rows)) \<Rightarrow> (Inr rows, c2)
              | Inr (Result_reply None) \<Rightarrow> (Inr [], c2)
              | Inr body \<Rightarrow> (Inl (KeyError ''-1''), c2))"

definition wallet_history_page ::
    "settings \<Rightarrow> ('row list) rpc_env \<Rightarrow> helius_client \<Rightarrow> (py_error + 'row list) \<times> helius_client" where
  "wallet_history_page = enhanced_call ''walletHistory''"

text \<open>Signatures beyond the first hundred are not asked for.\<close>

definition parsed_transactions ::
    "settings \<Rightarrow> (string list \<Rightarrow> ('row list) rpc_env) \<Rightarrow> string list \<Rightarrow> helius_client \<Rightarrow>
       (py_error + 'row list) \<times> helius_client" where
  "parsed_transactions st envs signatures c =
     (if signatures = [] then (Inr [], c)
      else enhanced_call ''parsedTransactions'' st (envs (take 100 signatures)) c)"

section \<open>Single calls\<close>

definition get_balance_sol :: "int rpc_env \<Rightarrow> helius_client \<Rightarrow> (py_error + rat) \<times> helius_client" where
  "get_balance_sol env c =
     (case rpc ''getBalance'' env c of
        (Inl e, c') \<Rightarrow> (Inl e, c')
      | (Inr v, c') \<Rightarrow> (Inr (of_int (case v of None \<Rightarrow> 0 | Some n \<Rightarrow> n) / 10 ^ 9), c'))"

definition get_signatures_for_address ::
    "('row list) rpc_env \<Rightarrow> helius_client \<Rightarrow> (py_error + 'row list) \<times> helius_client" where
  "get_signatures_for_address env c =
     (case rpc ''getSignaturesForAddress'' env c of
        (Inl e, c') \<Rightarrow> (Inl e, c')
      | (Inr v, c') \<Rightarrow> (Inr (case v of None \<Rightarrow> [] | Some rows \<Rightarrow> rows), c'))"

definition send_transaction :: "string rpc_env \<Rightarrow> helius_client \<Rightarrow> (py_error + string option) \<times> helius_client" where
  "send_transaction = rpc ''sendTransaction''"

definition send_fast :: "string rpc_env \<Rightarrow> helius_client \<Rightarrow> (py_error + string) \<times> helius_client" where
  "send_fast env c =
     (let c1 = c\<lparr>hc_credits := count_call (rv_reached env) (rv_clock env) ''sendFast'' None (hc_credits c)\<rparr>;
          (posted, b) = http_post (rv_primary env) (hc_breaker c1)
      in (case posted of
            Inl e \<Rightarrow> Inl e
          | Inr (Result_reply (Some s)) \<Rightarrow> Inr s
          | Inr (Result_reply None) \<Rightarrow> Inl (KeyError ''result'')
          | Inr body \<Rightarrow> Inl (ProviderError ''helius''), c1\<lparr>hc_breaker := b\<rparr>))"

section \<open>The meter adds up\<close>

text \<open>In the hash of a day the total is the sum of what the single methods cost.\<close>

definition method_sum :: "int pydict \<Rightarrow> int" where
  "method_sum h = sum_list (map snd (filter (\<lambda>(k, n). k \<noteq> ''_total'' \<and> k \<noteq> ''_calls'') h))"

definition meter_ok :: "credit_store \<Rightarrow> bool" where
  "meter_ok s \<longleftrightarrow> (\<forall>day h. s day = Some h \<longrightarrow>
     distinct (map fst (ch_fields h)) \<and> dict_get ''_total'' 0 (ch_fields h) = method_sum (ch_fields h))"

lemma dict_get_hincrby [simp]:
  "dict_get k 0 (hincrby j n h) = (if k = j then dict_get j 0 h + n else dict_get k 0 h)"
  by (simp add: dict_get_def hincrby_def update_conv)

lemma distinct_hincrby: "distinct (map fst h) \<Longrightarrow> distinct (map fst (hincrby j n h))"
  by (simp add: hincrby_def distinct_update)

lemma sum_update:
  "distinct (map fst h) \<Longrightarrow> P j \<Longrightarrow>
   sum_list (map snd (filter (\<lambda>(k, n). P k) (AList.update j (dict_get j 0 h + m) h))) =
     sum_list (map snd (filter (\<lambda>(k, n). P k) h)) + (m :: int)"
  by (induction h) (auto simp: dict_get_def split: option.split)

lemma sum_update_other:
  "\<not> P j \<Longrightarrow> filter (\<lambda>(k, n). P k) (AList.update j v h) = filter (\<lambda>(k, n). P k) h"
  by (induction h) auto

lemma method_sum_hincrby:
  "distinct (map fst h) \<Longrightarrow> method_sum (hincrby j n h) =
     (if j = ''_total'' \<or> j = ''_calls'' then method_sum h else method_sum h + n)"
  unfolding method_sum_def hincrby_def
  using sum_update [of h "\<lambda>k. k \<noteq> ''_total'' \<and> k \<noteq> ''_calls''" j n]
    sum_update_other [of "\<lambda>k. k \<noteq> ''_total'' \<and> k \<noteq> ''_calls''" j "dict_get j 0 h + n" h]
  by simp

lemma credit_hash_eta: "h\<lparr>ch_fields := a, ch_expires := e\<rparr> = \<lparr>ch_fields = a, ch_expires = e\<rparr>"
  by (cases h) simp

lemma count_call_fields:
  assumes "4 \<le> reached"
  shows "count_call reached now call credits s = s(utc_day now \<mapsto>
     \<lparr>ch_fields = hincrby ''_calls'' 1 (hincrby ''_total'' (call_cost call credits)
        (hincrby call (call_cost call credits)
          (case s (utc_day now) of None \<Rightarrow> [] | Some h \<Rightarrow> ch_fields h))),
      ch_expires = Some (now + 86400 * 40 * 10 ^ 6)\<rparr>)"
proof -
  have "take reached (meter_pipeline call credits) = meter_pipeline call credits"
    using assms by (simp add: meter_pipeline_def)
  then show ?thesis
    by (simp add: count_call_def meter_pipeline_def apply_meter_command_def Let_def credit_hash_eta split: option.split)
qed

lemma count_call_lost: "count_call 0 now call credits s = s"
  by (simp add: count_call_def)

lemma count_call_meter_ok:
  assumes "meter_ok s" "reached = 0 \<or> 4 \<le> reached" "call \<noteq> ''_total''" "call \<noteq> ''_calls''"
  shows "meter_ok (count_call reached now call credits s)"
proof (cases "reached = 0")
  case False
  then have r: "4 \<le> reached" using assms(2) by simp
  define h where "h = (case s (utc_day now) of None \<Rightarrow> [] | Some h \<Rightarrow> ch_fields h)"
  have h: "distinct (map fst h)" "dict_get ''_total'' 0 h = method_sum h"
    using assms(1)
    by (cases "s (utc_day now)"; simp add: h_def meter_ok_def dict_get_def method_sum_def)+
  show ?thesis
    using assms(1,3,4) h
    unfolding count_call_fields [OF r] h_def [symmetric] meter_ok_def
    by (auto simp: method_sum_hincrby distinct_hincrby)
qed (use assms in \<open>simp add: count_call_lost\<close>)

section \<open>Failover\<close>

text \<open>The primary server fails and the fallback answers at once.\<close>

text \<open>No attempt of a call gets an answer below 500 other than 429.\<close>

definition unanswered :: "http_outcome list \<Rightarrow> bool" where
  "unanswered replies \<longleftrightarrow>
     list_all (\<lambda>r. case r of Transport_failure \<Rightarrow> True | Response code \<Rightarrow> code = 429 \<or> 500 \<le> code) (take 3 replies)"

definition answers :: "'a endpoint \<Rightarrow> 'a option \<Rightarrow> bool" where
  "answers ep r \<longleftrightarrow> ep_body ep = Result_reply r \<and>
     (case ep_replies ep of Response code # _ \<Rightarrow> code < 400 | _ \<Rightarrow> False)"

lemma request_loop_unanswered:
  assumes "list_all (\<lambda>r. case r of Transport_failure \<Rightarrow> True | Response code \<Rightarrow> code = 429 \<or> 500 \<le> code) (take n replies)"
  shows "\<exists>e k. request_loop n replies now made err b = (Inl e, k, record_failure now b)"
  using assms
proof (induction n arbitrary: replies made err)
  case (Suc n)
  then show ?case
    by (cases replies) (auto split: http_outcome.splits)
qed simp

lemma request_unanswered:
  assumes "unanswered replies" "br_opened_at b = 0"
  shows "\<exists>e k. request http_retries False replies now later b = (Inl e, k, record_failure later b)"
  using request_loop_unanswered [of 3 replies later 0 None b] assms
  by (simp add: request_def is_open_def http_retries_def unanswered_def numeral_3_eq_3 del: request_loop.simps)

lemma request_answered:
  assumes "replies = Response code # rest" "code < 400" "br_opened_at b = 0"
  shows "request http_retries False replies now later b = (Inr code, 1, record_success b)"
  using assms by (simp add: request_def is_open_def http_retries_def numeral_2_eq_2)

lemma closed_after_failure:
  "br_opened_at b = 0 \<Longrightarrow> \<not> br_half_open b \<Longrightarrow> br_failures b + 1 < br_threshold b \<Longrightarrow>
   br_opened_at (record_failure now b) = 0"
  by (simp add: record_failure_def Let_def)

lemma rpc_fails_over:
  assumes "unanswered (ep_replies (rv_primary env))" "answers (rv_fallback env) r"
    and "br_opened_at (hc_breaker c) = 0" "\<not> br_half_open (hc_breaker c)"
    and "br_failures (hc_breaker c) + 1 < br_threshold (hc_breaker c)"
  shows "fst (rpc call env c) = Inr r \<and>
    hc_breaker (snd (rpc call env c)) = record_success (hc_breaker c) \<and>
    hc_credits (snd (rpc call env c)) = count_call (rv_reached env) (rv_clock env) call None (hc_credits c)"
proof -
  define b where "b = record_failure (ep_done (rv_primary env)) (hc_breaker c)"
  have opened: "br_opened_at b = 0" using assms(3-5) by (simp add: b_def closed_after_failure)
  obtain e k where p: "request http_retries False (ep_replies (rv_primary env)) (ep_at (rv_primary env))
      (ep_done (rv_primary env)) (hc_breaker c) = (Inl e, k, b)"
    using request_unanswered [OF assms(1,3)] unfolding b_def by blast
  obtain code rest where f: "ep_replies (rv_fallback env) = Response code # rest" "code < 400"
    using assms(2) by (auto simp: answers_def split: list.splits http_outcome.splits)
  have "record_success b = record_success (hc_breaker c)"
    by (simp add: b_def record_success_def record_failure_def Let_def)
  then show ?thesis
    using request_answered [OF f opened] assms(2)
    by (simp add: rpc_def Let_def http_post_def p rpc_fallback_def rpc_answer_def answers_def)
qed


definition outage_call :: "int rpc_env" where
  "outage_call = \<lparr>rv_primary = \<lparr>ep_replies = [Response 503, Transport_failure], ep_body = Not_json, ep_at = 5, ep_done = 6\<rparr>,
     rv_fallback = \<lparr>ep_replies = [Response 200], ep_body = Result_reply (Some 7), ep_at = 6, ep_done = 6\<rparr>,
     rv_clock = 0, rv_reached = 4, rv_paced_at = 5\<rparr>"


text \<open>
  The breaker is shared all the same: calls that have no fallback open it, and then a healthy
  fallback is not asked either.
\<close>

lemma open_breaker_blocks_fallback:
  assumes "fst (is_open (ep_at (rv_primary env)) (hc_breaker c))"
    and "fst (is_open (ep_at (rv_fallback env)) (hc_breaker c))"
  shows "fst (rpc call env c) = Inl (ProviderError ''helius'')"
  using request_blocked [OF assms(1), of http_retries] request_blocked [OF assms(2), of http_retries]
  by (simp add: rpc_def Let_def http_post_def rpc_fallback_def)

definition failing_history :: "(nat list) rpc_env" where
  "failing_history = \<lparr>rv_primary = \<lparr>ep_replies = [], ep_body = Not_json, ep_at = 5, ep_done = 6\<rparr>,
     rv_fallback = \<lparr>ep_replies = [], ep_body = Not_json, ep_at = 6, ep_done = 6\<rparr>,
     rv_clock = 0, rv_reached = 4, rv_paced_at = 5\<rparr>"

lemma failing_history_step:
  assumes "helius_api_key st \<noteq> []" "br_opened_at (hc_breaker c) = 0"
  shows "hc_breaker (snd (wallet_history_page st failing_history c)) = record_failure 6 (hc_breaker c) \<and>
    fst (wallet_history_page st failing_history c) = Inr []"
proof -
  obtain e k where r: "request http_retries False [] 5 6 (hc_breaker c) = (Inl e, k, record_failure 6 (hc_breaker c))"
    using request_unanswered [of "[]" "hc_breaker c" 5 6] assms(2) by (auto simp: unanswered_def)
  show ?thesis
    using assms(1) by (simp add: wallet_history_page_def enhanced_call_def Let_def http_post_def failing_history_def r)
qed

definition keyed_settings :: settings where
  "keyed_settings = default_settings\<lparr>helius_api_key := ''key''\<rparr>"

lemma failing_histories:
  "n \<le> 5 \<Longrightarrow> hc_breaker (((\<lambda>c. snd (wallet_history_page keyed_settings failing_history c)) ^^ n)
     (new_helius_client default_settings)) =
   (new_breaker 5 30)\<lparr>br_failures := int n, br_opened_at := if n = 5 then 6 else 0\<rparr>"
proof (induction n)
  case (Suc n)
  then show ?case
    using failing_history_step [of keyed_settings "((\<lambda>c. snd (wallet_history_page keyed_settings failing_history c)) ^^ n)
      (new_helius_client default_settings)"]
    by (auto simp: keyed_settings_def record_failure_def new_breaker_def Let_def)
qed (simp add: new_helius_client_def new_breaker_def)

lemma history_failures_block_fallback:
  assumes "ep_at (rv_primary env) = 9" "ep_at (rv_fallback env) = 9"
  shows "fst (rpc ''getBalance'' env
      (((\<lambda>c. snd (wallet_history_page keyed_settings failing_history c)) ^^ 5)
        (new_helius_client default_settings))) = Inl (ProviderError ''helius'')"
  by (rule open_breaker_blocks_fallback)
    (simp_all add: failing_histories assms is_open_def new_breaker_def)

end
