(* ===== verification/Float_Bounds.thy ===== *)
theory Float_Bounds
  imports Prelude
begin

text \<open>
  Error bounds for binary floats with the rounding error as a constant of its own, so that linear
  arithmetic can carry them.
\<close>

definition float_eps :: rat where "float_eps = 1 / 2 ^ 53"

lemma float_eps_facts: "0 < float_eps" "1000000000000 * float_eps < 1"
  by (simp_all add: float_eps_def)

lemma fl64_within:
  assumes "- B \<le> x" "x \<le> B"
  shows "fl64 x - x \<le> B * float_eps" "x - fl64 x \<le> B * float_eps"
proof -
  have "\<bar>fl64 x - x\<bar> \<le> \<bar>x\<bar> / 2 ^ 53" by (rule fl64_near)
  also have "\<dots> \<le> B * float_eps"
    using assms by (simp add: float_eps_def abs_le_iff divide_right_mono)
  finally show "fl64 x - x \<le> B * float_eps" "x - fl64 x \<le> B * float_eps"
    unfolding abs_le_iff by linarith+
qed

lemma trunc_int_between:
  assumes "-1 < y"
  shows "0 \<le> trunc_int y" "y < of_int (trunc_int y) + 1" "of_int (trunc_int y) \<le> y \<or> trunc_int y = 0"
  using assms by (auto simp: trunc_int_def) linarith+

end
