(* ===== verification/Helius_Metering.thy ===== *)
theory Helius_Metering
  imports Helius_Client Float_Bounds
begin

text \<open>
  Bounds for \<^theory_text>\<open>Helius_Client\<close>: the meter of the streamed bytes, whose carry is a binary
  float, loses at most a byte; the polling for a confirmation ends; the priority fee stays between
  its limits; calls of one lane keep their distance.
\<close>

section \<open>Streamed bytes\<close>

fun ws_stream :: "nat list \<Rightarrow> rat \<Rightarrow> int \<times> rat" where
  "ws_stream [] carry = (0, carry)"
| "ws_stream (n # ns) carry =
     (let (c, w) = ws_bytes_step carry n; (cs, w') = ws_stream ns w in (c + cs, w'))"

text \<open>What a credit is worth, and the rounding error of one message.\<close>

definition bytes_per_credit :: rat where "bytes_per_credit = 524288 / 10"

definition step_error :: rat where "step_error = 1 / 2 ^ 25"

lemma step_error_eps: "step_error = 268435456 * float_eps"
  by (simp add: float_eps_def step_error_def)

lemma ws_bytes_step_bounds:
  assumes "n \<le> 2 ^ 20" "-1 \<le> w" "w \<le> 52429" and step: "ws_bytes_step w n = (c, w')"
  shows "0 \<le> c" "\<bar>of_int c * bytes_per_credit + w' - (w + of_nat n)\<bar> \<le> step_error"
    "w' \<le> 52429" "min 0 w - step_error \<le> w'"
proof -
  define T where "T = w + of_nat n"
  define t where "t = fl64 T"
  define fa where "fa = fl64 (t / 1048576)"
  define y where "y = fl64 (fa * WS_CREDITS_PER_MB)"
  define k where "k = trunc_int y"
  have n: "(of_nat n :: rat) \<le> 1048576" "0 \<le> (of_nat n :: rat)"
    using assms(1) of_nat_mono [of n "2 ^ 20"] by simp_all
  have T: "-1 \<le> T" "T \<le> 1101005" using assms(2,3) n by (simp_all add: T_def)
  note e = float_eps_facts step_error_eps
  have t: "t - T \<le> 1101005 * float_eps" "T - t \<le> 1101005 * float_eps"
    using fl64_within [of 1101005 T] T by (simp_all add: t_def)
  then have t2: "-2 \<le> t" "t \<le> 1101006" using T e(1,2) by linarith+
  have fa: "fa - t / 1048576 \<le> 2 * float_eps" "t / 1048576 - fa \<le> 2 * float_eps"
    using fl64_within [of 2 "t / 1048576"] t2 by (simp_all add: fa_def)
  then have fa2: "-2 \<le> fa" "fa \<le> 3" using t2 e(1,2) by linarith+
  have y: "y - fa * 20 \<le> 60 * float_eps" "fa * 20 - y \<le> 60 * float_eps"
    using fl64_within [of 60 "fa * 20"] fa2 by (simp_all add: y_def WS_CREDITS_PER_MB_def)
  have y20: "y - t * 20 / 1048576 \<le> 100 * float_eps" "t * 20 / 1048576 - y \<le> 100 * float_eps"
    using fa y e(1) by linarith+
  have t3: "-2 / 1048576 \<le> t / 1048576" using t2 by simp
  have "-1 < y" using y20 t2 e by linarith
  note k = trunc_int_between [OF this, folded k_def]
  have kup: "(of_int k :: rat) \<le> 22" using k(3)
  proof
    assume "of_int k \<le> y"
    then show ?thesis using y20 t2 e by linarith
  qed simp
  have eq: "(c, w') = (if 1 \<le> k then (k, fl64 (t - fl64 (fl64 (of_int k / WS_CREDITS_PER_MB) * 1048576))) else (0, t))"
    using step unfolding ws_bytes_step_def Let_def T_def [symmetric] t_def [symmetric] fa_def [symmetric]
      y_def [symmetric] k_def [symmetric] by simp
  have "0 \<le> c \<and> \<bar>of_int c * bytes_per_credit + w' - (w + of_nat n)\<bar> \<le> step_error \<and>
    w' \<le> 52429 \<and> min 0 w - step_error \<le> w'"
  proof (cases "1 \<le> k")
    case True
    define q where "q = fl64 (of_int k / 20)"
    define r where "r = fl64 (q * 1048576)"
    have c: "c = k" "w' = fl64 (t - r)"
      using eq True by (simp_all add: q_def r_def WS_CREDITS_PER_MB_def)
    have k1: "(1 :: rat) \<le> of_int k" using True by simp
    have q: "q - of_int k / 20 \<le> 2 * float_eps" "of_int k / 20 - q \<le> 2 * float_eps"
      using fl64_within [of 2 "of_int k / 20"] kup k1 by (simp_all add: q_def)
    have q2: "-2097152 \<le> q * 1048576" "q * 1048576 \<le> 2097152"
      using q kup k1 e by linarith+
    have r: "r - q * 1048576 \<le> 2097152 * float_eps" "q * 1048576 - r \<le> 2097152 * float_eps"
      using fl64_within [OF q2] by (simp_all add: r_def)
    have rk: "r - of_int k * bytes_per_credit \<le> 4194304 * float_eps"
      "of_int k * bytes_per_credit - r \<le> 4194304 * float_eps"
      using q r by (simp_all add: bytes_per_credit_def)
    have ky: "of_int k \<le> y" using k(3) True by auto
    have low: "- (10300000 * float_eps) \<le> t - r"
      using ky y20 rk by (simp add: bytes_per_credit_def)
    have room: "t - r \<le> 52428.9"
      using k(2) y20 rk e by (simp add: bytes_per_credit_def)
    have low1: "- 52429 \<le> t - r" using low e by linarith
    have w: "w' - (t - r) \<le> 52429 * float_eps" "(t - r) - w' \<le> 52429 * float_eps"
      using fl64_within [of 52429 "t - r"] room low1 by (simp_all add: c)
    have "0 \<le> c" using True c by simp
    moreover have "\<bar>of_int c * bytes_per_credit + w' - (w + of_nat n)\<bar> \<le> step_error"
      unfolding c(1) abs_le_iff e(3) T_def [symmetric] using t rk w e(1) by linarith
    moreover have "w' \<le> 52429" using room w e by linarith
    moreover have "min 0 w - step_error \<le> w'" using low w e by linarith
    ultimately show ?thesis by blast
  next
    case False
    then have c: "c = 0" "w' = t" using eq by simp_all
    have "k = 0" using False k(1) by simp
    then have "y < 1" using k(2) by simp
    then have "w' \<le> 52429" using y20 c e by linarith
    moreover have "0 \<le> c" using c by simp
    moreover have "\<bar>of_int c * bytes_per_credit + w' - (w + of_nat n)\<bar> \<le> step_error"
      unfolding c abs_le_iff e(3) T_def [symmetric] using t e(1) by simp
    moreover have "min 0 w - step_error \<le> w'" using t n e unfolding c T_def by linarith
    ultimately show ?thesis by blast
  qed
  then show "0 \<le> c" "\<bar>of_int c * bytes_per_credit + w' - (w + of_nat n)\<bar> \<le> step_error"
    "w' \<le> 52429" "min 0 w - step_error \<le> w'" by blast+
qed

text \<open>
  C37. The credits charged for the stream follow the bytes received: whatever the sizes of the
  messages (each at most the megabyte that the connection admits, and up to \<open>2 ^ 25\<close> of them), the
  credits charged and the carry make up the bytes to within one byte, and the carry is less than
  one credit is worth, so that nothing is rounded away per message.
\<close>

theorem ws_metering_exact_to_a_byte:
  assumes "list_all (\<lambda>n. n \<le> 2 ^ 20) sizes" "length sizes \<le> 2 ^ 25"
    and "ws_stream sizes 0 = (credits, carry)"
  shows "\<bar>of_int credits * bytes_per_credit + carry - of_nat (sum_list sizes)\<bar> \<le> 1 \<and>
    -1 \<le> carry \<and> carry \<le> 52429 \<and> 0 \<le> credits"
proof -
  have run: "\<bar>of_int c * bytes_per_credit + w' - (w + of_nat (sum_list ns))\<bar> \<le> of_nat (length ns) * step_error \<and>
      - (of_nat (used + length ns) * step_error) \<le> w' \<and> w' \<le> 52429 \<and> 0 \<le> c"
    if "list_all (\<lambda>n. n \<le> 2 ^ 20) ns" "used + length ns \<le> 2 ^ 25" "ws_stream ns w = (c, w')"
      "- (of_nat used * step_error) \<le> w" "w \<le> 52429" for ns w c w' used
    using that
  proof (induction ns arbitrary: w c used)
    case (Cons n ns)
    obtain c1 w1 where s: "ws_bytes_step w n = (c1, w1)" by fastforce
    obtain cs where r: "ws_stream ns w1 = (cs, w')" "c = c1 + cs"
      using Cons.prems(3) s by (auto split: prod.splits)
    have "(of_nat used :: rat) \<le> of_nat (2 ^ 25)" using Cons.prems(2) by (intro of_nat_mono) simp
    then have w: "-1 \<le> w" using Cons.prems(4) by (simp add: step_error_def)
    have n: "n \<le> 2 ^ 20" "list_all (\<lambda>n. n \<le> 2 ^ 20) ns" using Cons.prems(1) by simp_all
    note one = ws_bytes_step_bounds [OF n(1) w Cons.prems(5) s]
    have e: "0 \<le> step_error" "0 \<le> of_nat used * step_error" by (simp_all add: step_error_def)
    have "- (of_nat (Suc used) * step_error) \<le> w1"
    proof -
      have "of_nat (Suc used) * step_error = of_nat used * step_error + step_error" by (simp add: distrib_right)
      moreover have "min 0 w \<ge> - (of_nat used * step_error)" using Cons.prems(4) e(2) by (auto simp: min_def)
      ultimately show ?thesis using one(4) by linarith
    qed
    from Cons.IH [OF n(2) _ r(1) this one(3)] Cons.prems(2)
    have "\<bar>of_int cs * bytes_per_credit + w' - (w1 + of_nat (sum_list ns))\<bar> \<le> of_nat (length ns) * step_error \<and>
      - (of_nat (Suc used + length ns) * step_error) \<le> w' \<and> w' \<le> 52429 \<and> 0 \<le> cs" by simp
    then show ?case using one(1,2) by (simp add: r(2) algebra_simps abs_le_iff)
  qed simp
  have "(of_nat (length sizes) :: rat) \<le> of_nat (2 ^ 25)" using assms(2) by (rule of_nat_mono)
  then have "of_nat (length sizes) * step_error \<le> 1" by (simp add: step_error_def)
  then show ?thesis using run [of sizes 0 0 credits carry] assms by simp
qed

lemma ws_metering_exact_to_a_byte_witness:
  "\<exists>credits carry. ws_stream (replicate 100 (2 ^ 19)) 0 = (credits, carry) \<and> 998 \<le> credits \<and> credits \<le> 1001"
proof -
  obtain credits carry where s: "ws_stream (replicate 100 (2 ^ 19)) 0 = (credits, carry)" by fastforce
  have "list_all (\<lambda>n. n \<le> 2 ^ 20) (replicate 100 (2 ^ 19 :: nat))" by (simp add: list_all_iff)
  then have b: "\<bar>of_int credits * bytes_per_credit + carry - of_nat (sum_list (replicate 100 (2 ^ 19)))\<bar> \<le> 1"
    "-1 \<le> carry" "carry \<le> 52429"
    using ws_metering_exact_to_a_byte [OF _ _ s] by simp_all
  have "(998 :: rat) \<le> of_int credits" "of_int credits \<le> (1001 :: rat)"
    using b by (simp_all add: bytes_per_credit_def sum_list_replicate abs_le_iff)
  then show ?thesis using s by simp
qed

section \<open>Confirmation, fee and pacing\<close>

lemma successively_times:
  fixes t :: rat
  assumes "successively (\<lambda>a b. a + gap \<le> b) (t # ts)" "i < length (t # ts)"
  shows "t + of_nat i * gap \<le> (t # ts) ! i"
  using assms
proof (induction ts arbitrary: t i)
  case (Cons u ts)
  show ?case
  proof (cases i)
    case (Suc j)
    have "u + of_nat j * gap \<le> (u # ts) ! j" using Cons by (simp add: Suc)
    moreover have "t + gap \<le> u" using Cons.prems(1) by simp
    moreover have "of_nat (Suc j) * gap = of_nat j * gap + gap" by (simp add: distrib_right)
    ultimately show ?thesis by (simp add: Suc)
  qed simp
qed simp

lemma confirm_undecided:
  "snd (confirm deadline polls) = False \<Longrightarrow> i < length polls \<Longrightarrow> fst (polls ! i) < deadline"
proof (induction deadline polls arbitrary: i rule: confirm.induct)
  case (2 deadline now answer polls)
  then show ?case by (cases i) (auto split: if_splits sum.splits option.splits)
qed simp

lemma confirm_settled: "fst (confirm deadline polls) = Inr (Some s) \<Longrightarrow> status_settled s"
  by (induction deadline polls rule: confirm.induct) (auto split: if_splits sum.splits option.splits)

lemma confirm_timeout:
  "confirm deadline polls = (Inr None, True) \<Longrightarrow>
   \<exists>i < length polls. deadline \<le> fst (polls ! i) \<and>
     (\<forall>j < i. \<forall>s. snd (polls ! j) = Inr (Some s) \<longrightarrow> \<not> status_settled s)"
proof (induction deadline polls rule: confirm.induct)
  case (2 deadline now answer polls)
  show ?case
  proof (cases "deadline \<le> now")
    case False
    then obtain i where i: "i < length polls" "deadline \<le> fst (polls ! i)"
      "\<forall>j < i. \<forall>s. snd (polls ! j) = Inr (Some s) \<longrightarrow> \<not> status_settled s"
      using 2 by (auto split: sum.splits option.splits if_splits)
    have "\<forall>s. answer = Inr (Some s) \<longrightarrow> \<not> status_settled s"
      using 2(3) False by (auto split: if_splits)
    then show ?thesis using i by (intro exI [of _ "Suc i"]) (auto simp: less_Suc_eq_0_disj)
  qed (intro exI [of _ 0], simp)
qed simp

lemma confirm_answer:
  "fst (confirm deadline polls) \<noteq> Inr None \<Longrightarrow>
   \<exists>i < length polls. snd (polls ! i) = fst (confirm deadline polls) \<and> fst (polls ! i) < deadline"
proof (induction deadline polls rule: confirm.induct)
  case (2 deadline now answer polls)
  show ?case
  proof (cases "fst (confirm deadline ((now, answer) # polls)) = answer")
    case True
    then show ?thesis using 2(3) by (intro exI [of _ 0]) (auto split: if_splits)
  next
    case False
    then have step: "fst (confirm deadline ((now, answer) # polls)) = fst (confirm deadline polls)"
      using 2(3) by (auto split: if_splits sum.splits option.splits)
    obtain i where "i < length polls" "snd (polls ! i) = fst (confirm deadline polls)" "fst (polls ! i) < deadline"
      using 2 False step by (auto split: if_splits sum.splits option.splits)
    then show ?thesis unfolding step by (intro exI [of _ "Suc i"]) simp
  qed
qed simp

text \<open>
  The wait for a confirmation always ends: with the default 45 seconds and 0.4 seconds between
  polls at most 113 polls are made, and what it returns is a settled status, or none when every poll
  before the deadline was unsettled, or the exception of a poll.
\<close>

theorem confirm_ends:
  assumes "polls = (start, a) # rest" "successively (\<lambda>t u. t + 4 / 10 \<le> u) (map fst polls)"
    and "114 \<le> length polls"
  shows "snd (confirm (start + 45) polls) \<and>
    (case fst (confirm (start + 45) polls) of
       Inl e \<Rightarrow> \<exists>t. (t, Inl e) \<in> set (take 113 polls)
     | Inr None \<Rightarrow> \<exists>i < length polls. start + 45 \<le> fst (polls ! i) \<and>
         (\<forall>j < i. \<forall>s. snd (polls ! j) = Inr (Some s) \<longrightarrow> \<not> status_settled s)
     | Inr (Some s) \<Rightarrow> status_settled s \<and> (\<exists>t. (t, Inr (Some s)) \<in> set (take 113 polls)))"
proof -
  have times: "start + of_nat i * (4 / 10) \<le> fst (polls ! i)" if "i < length polls" for i
  proof -
    have "start + of_nat i * (4 / 10) \<le> map fst polls ! i"
      using successively_times [of "4 / 10" start "map fst rest" i] assms(1,2) that by (simp add: assms(1))
    then show ?thesis using that by simp
  qed
  have ended: "snd (confirm (start + 45) polls)"
  proof (rule ccontr)
    assume "\<not> snd (confirm (start + 45) polls)"
    then have "fst (polls ! 113) < start + 45" using confirm_undecided assms(3) by simp
    then show False using times [of 113] assms(3) by simp
  qed
  have early: "\<exists>t. (t, r) \<in> set (take 113 polls)"
    if "i < length polls" "snd (polls ! i) = r" "fst (polls ! i) < start + 45" for i r
  proof -
    have "of_nat i * (4 / 10) < (45 :: rat)" using times [OF that(1)] that(3) by linarith
    then have "(of_nat i :: rat) < of_nat 113" by simp
    then have "i < 113" by (simp only: of_nat_less_iff)
    then have "polls ! i \<in> set (take 113 polls)" using that(1) by (force simp: in_set_conv_nth)
    then show ?thesis using that(2) by (metis prod.collapse)
  qed
  show ?thesis
    using ended confirm_timeout [of "start + 45" polls] confirm_settled [of "start + 45" polls]
      confirm_answer [of "start + 45" polls] early
    by (cases "confirm (start + 45) polls") (auto split: sum.split option.split)
qed

definition pending_polls :: "(rat \<times> (py_error + signature_status option)) list" where
  "pending_polls = map (\<lambda>i. (of_nat i / 2, Inr None)) [0 ..< 120]"

lemma confirm_ends_witness: "snd (confirm 45 pending_polls)"
proof -
  have "pending_polls = (0, Inr None) # map (\<lambda>i. (of_nat i / 2, Inr None)) [1 ..< 120]"
    by (simp add: pending_polls_def upt_conv_Cons)
  moreover have "successively (\<lambda>t u. t + 4 / 10 \<le> u) (map fst pending_polls)"
    by (simp add: pending_polls_def successively_conv_nth)
  moreover have "114 \<le> length pending_polls" by (simp add: pending_polls_def)
  ultimately show ?thesis using confirm_ends [of pending_polls 0] by auto
qed

lemma priority_fee_bounded:
  "helius_api_key st \<noteq> [] \<Longrightarrow> priority_fee st ep b = (Inr fee, b') \<Longrightarrow>
   1000 \<le> fee \<and> fee \<le> max 1000 (max_priority_fee_lamports st)"
  by (auto simp: priority_fee_def Let_def split: prod.splits sum.splits reply_body.splits option.splits
      fee_reply.splits)

lemma paced_apart:
  "now + pace_lane_wait now l \<le> later \<Longrightarrow> ln_interval l \<le> ln_last (pace_lane later l) - ln_last l"
  by (simp add: pace_lane_wait_def pace_lane_def max_def split: if_splits)

end
