(* ===== verification/Wallet_Stream.thy ===== *)
theory Wallet_Stream
  imports Helius_Metering
begin

text \<open>
  \<^verbatim>\<open>WalletSubscription\<close> of \<^verbatim>\<open>adapters/helius.py\<close>: the connection that delivers the
  signatures of the watched wallets, with its reconnections.  What the network does is a sequence
  of events; \<open>stream_step\<close> is the reaction of \<^verbatim>\<open>run\<close> to one of them.
\<close>

section \<open>Frames\<close>

text \<open>A message with its length and what the code reads of it; none for text that is no JSON.\<close>

record notification =
  nt_method :: string
  nt_signature :: string              \<comment> \<open>empty when missing\<close>
  nt_err :: bool
  nt_slot :: int

record frame =
  fm_bytes :: nat
  fm_json :: "notification option"

text \<open>\<^verbatim>\<open>_handle\<close>: the signature that is handed on, or an exception.\<close>

definition handle_frame :: "frame \<Rightarrow> py_error + (string \<times> int) option" where
  "handle_frame f =
     (case fm_json f of
        None \<Rightarrow> Inl (ValueError ''JSONDecodeError'')
      | Some n \<Rightarrow>
          if nt_method n \<noteq> ''logsNotification'' then Inr None
          else if nt_signature n = [] \<or> nt_err n then Inr None
          else Inr (Some (nt_signature n, nt_slot n)))"

section \<open>The connection\<close>

datatype phase = Connecting | Streaming | Ended

datatype stream_event =
    Ev_open nat int       \<comment> \<open>connected; how many subscriptions could be sent, and the next id\<close>
  | Ev_refused            \<comment> \<open>the connection could not be made\<close>
  | Ev_frame frame
  | Ev_lost               \<comment> \<open>the connection broke\<close>
  | Ev_closed             \<comment> \<open>the server closed it in good order, which ends the iteration\<close>
  | Ev_stop               \<comment> \<open>\<^verbatim>\<open>stop()\<close>\<close>
  | Ev_cancel

record stream =
  sm_phase :: phase
  sm_stop :: bool
  sm_backoff :: rat
  sm_subs :: "(int \<times> string) list"
  sm_delivered :: "(string \<times> int) list"
  sm_sleeps :: "rat list"
  sm_meter :: "rat \<times> credit_store"

definition new_stream :: "rat \<times> credit_store \<Rightarrow> stream" where
  "new_stream m = \<lparr>sm_phase = Connecting, sm_stop = False, sm_backoff = 1, sm_subs = [],
     sm_delivered = [], sm_sleeps = [], sm_meter = m\<rparr>"

definition reconnect :: "stream \<Rightarrow> stream" where
  "reconnect s = s\<lparr>sm_phase := Connecting, sm_sleeps := sm_sleeps s @ [sm_backoff s],
     sm_backoff := min (sm_backoff s * 2) 30\<rparr>"

text \<open>\<^verbatim>\<open>_subscribe_all\<close>: the ids are noted before each request is sent.\<close>

definition subscriptions :: "string list \<Rightarrow> int \<Rightarrow> (int \<times> string) list" where
  "subscriptions wallets first = zip (map (\<lambda>i. first + int i) [0 ..< length wallets]) wallets"

definition subscribe_all :: "string list \<Rightarrow> nat \<Rightarrow> int \<Rightarrow> stream \<Rightarrow> stream" where
  "subscribe_all wallets sent first s =
     (let subs = subscriptions wallets first
      in if sent < length wallets then reconnect (s\<lparr>sm_subs := take (sent + 1) subs\<rparr>)
         else s\<lparr>sm_subs := subs, sm_backoff := 1, sm_phase := Streaming\<rparr>)"

definition stream_step ::
    "string list \<Rightarrow> nat \<Rightarrow> datetime \<Rightarrow> stream_event \<Rightarrow> stream \<Rightarrow> stream" where
  "stream_step wallets reached now ev s =
     (case sm_phase s of
        Ended \<Rightarrow> s
      | Connecting \<Rightarrow>
          (case ev of
             Ev_stop \<Rightarrow> s\<lparr>sm_stop := True\<rparr>
           | Ev_cancel \<Rightarrow> s\<lparr>sm_phase := Ended\<rparr>
           | Ev_open sent first \<Rightarrow>
               if sm_stop s then s\<lparr>sm_phase := Ended\<rparr> else subscribe_all wallets sent first s
           | Ev_refused \<Rightarrow> if sm_stop s then s\<lparr>sm_phase := Ended\<rparr> else reconnect s
           | _ \<Rightarrow> s)
      | Streaming \<Rightarrow>
          (case ev of
             Ev_stop \<Rightarrow> s\<lparr>sm_stop := True\<rparr>
           | Ev_cancel \<Rightarrow> s\<lparr>sm_phase := Ended\<rparr>
           | Ev_closed \<Rightarrow> s\<lparr>sm_phase := (if sm_stop s then Ended else Connecting)\<rparr>
           | Ev_lost \<Rightarrow> reconnect s
           | Ev_frame f \<Rightarrow>
               if sm_stop s then s\<lparr>sm_phase := Ended\<rparr>
               else let s1 = s\<lparr>sm_meter := count_ws_bytes reached now (fm_bytes f) (sm_meter s)\<rparr>
                    in (case handle_frame f of
                          Inl e \<Rightarrow> reconnect s1
                        | Inr None \<Rightarrow> s1
                        | Inr (Some sig) \<Rightarrow> s1\<lparr>sm_delivered := sm_delivered s1 @ [sig]\<rparr>)
           | _ \<Rightarrow> s))"

definition stream_run ::
    "string list \<Rightarrow> (nat \<times> datetime \<times> stream_event) list \<Rightarrow> stream \<Rightarrow> stream" where
  "stream_run wallets evs s = fold (\<lambda>(reached, now, ev). stream_step wallets reached now ev) evs s"

section \<open>What the connection keeps\<close>

definition stream_inv :: "string list \<Rightarrow> stream \<Rightarrow> bool" where
  "stream_inv wallets s \<longleftrightarrow>
     1 \<le> sm_backoff s \<and> sm_backoff s \<le> 30 \<and>
     list_all (\<lambda>t. 1 \<le> t \<and> t \<le> 30) (sm_sleeps s) \<and>
     (sm_phase s = Streaming \<longrightarrow> map snd (sm_subs s) = wallets \<and> distinct (map fst (sm_subs s)))"

lemma new_stream_inv: "stream_inv wallets (new_stream m)"
  by (simp add: stream_inv_def new_stream_def)

lemma subscriptions_facts:
  "map snd (subscriptions ws n) = ws" "distinct (map fst (subscriptions ws n))"
  by (simp_all add: subscriptions_def distinct_map inj_on_def)

lemma reconnect_inv: "stream_inv ws s \<Longrightarrow> stream_inv ws (reconnect s)"
  by (auto simp: stream_inv_def reconnect_def)

lemma stream_step_inv:
  assumes "stream_inv ws s"
  shows "stream_inv ws (stream_step ws reached now ev s)"
proof -
  have upd: "stream_inv ws (s\<lparr>sm_stop := True\<rparr>)" "stream_inv ws (s\<lparr>sm_phase := Ended\<rparr>)"
    "stream_inv ws (s\<lparr>sm_phase := Connecting\<rparr>)" "stream_inv ws (s\<lparr>sm_meter := m\<rparr>)"
    "stream_inv ws (s\<lparr>sm_meter := m, sm_delivered := d\<rparr>)" for m d
    using assms by (simp_all add: stream_inv_def)
  have subs: "stream_inv ws (subscribe_all ws sent first s)" for sent first
  proof (cases "sent < length ws")
    case True
    have "stream_inv ws (reconnect (s\<lparr>sm_subs := subs\<rparr>))" for subs
      using assms by (auto simp: stream_inv_def reconnect_def)
    then show ?thesis by (simp add: subscribe_all_def Let_def True)
  next
    case False
    then show ?thesis
      using assms by (simp add: subscribe_all_def Let_def stream_inv_def subscriptions_facts)
  qed
  show ?thesis
    unfolding stream_step_def Let_def
    using assms upd subs reconnect_inv [OF assms] reconnect_inv [OF upd(4)]
    by (simp split: phase.split stream_event.split sum.split option.split)
qed

lemma stream_run_inv: "stream_inv ws s \<Longrightarrow> stream_inv ws (stream_run ws evs s)"
  unfolding stream_run_def by (induction evs arbitrary: s) (auto simp: stream_step_inv)

text \<open>The signatures of a run that neither fails nor stops are those of its successful notifications.\<close>

definition good_signatures :: "frame list \<Rightarrow> (string \<times> int) list" where
  "good_signatures fs = List.map_filter (\<lambda>f. case handle_frame f of Inr (Some sig) \<Rightarrow> Some sig | _ \<Rightarrow> None) fs"

lemma handle_json: "fm_json f \<noteq> None \<Longrightarrow> \<exists>h. handle_frame f = Inr h"
  by (auto simp: handle_frame_def)

lemma streaming_delivers:
  assumes "sm_phase s = Streaming" "\<not> sm_stop s" "\<forall>f \<in> set fs. fm_json f \<noteq> None"
  shows "sm_delivered (stream_run ws (map (\<lambda>f. (reached, now, Ev_frame f)) fs) s) =
      sm_delivered s @ good_signatures fs \<and>
    sm_phase (stream_run ws (map (\<lambda>f. (reached, now, Ev_frame f)) fs) s) = Streaming"
  using assms
proof (induction fs arbitrary: s)
  case (Cons f fs)
  define s1 where "s1 = stream_step ws reached now (Ev_frame f) s"
  obtain h where h: "handle_frame f = Inr h"
    using Cons.prems(3) handle_json by auto
  have "sm_phase s1 = Streaming" "\<not> sm_stop s1"
    "sm_delivered s1 = sm_delivered s @ (case h of None \<Rightarrow> [] | Some sig \<Rightarrow> [sig])"
    using Cons.prems(1,2) by (simp_all add: s1_def stream_step_def Let_def h split: option.split)
  moreover have "stream_run ws (map (\<lambda>f. (reached, now, Ev_frame f)) (f # fs)) s =
      stream_run ws (map (\<lambda>f. (reached, now, Ev_frame f)) fs) s1"
    by (simp add: stream_run_def s1_def)
  ultimately show ?case
    using Cons.IH [of s1] Cons.prems(3) by (simp add: good_signatures_def map_filter_simps h split: option.split)
qed (simp add: stream_run_def good_signatures_def map_filter_simps)

text \<open>A server that closes in good order is reconnected to at once, however often it does so.\<close>

lemma clean_close_no_backoff:
  assumes "sm_phase s = Connecting" "\<not> sm_stop s" "length ws \<le> sent"
  shows "let s' = stream_step ws r now Ev_closed (stream_step ws r now (Ev_open sent first) s)
    in sm_phase s' = Connecting \<and> sm_sleeps s' = sm_sleeps s \<and> \<not> sm_stop s'"
  using assms by (simp add: stream_step_def subscribe_all_def Let_def)

text \<open>\<^verbatim>\<open>stop()\<close> takes effect with the next message only; without one the connection stays.\<close>

lemma stop_waits_for_message:
  assumes "sm_phase s = Streaming"
  shows "sm_phase (stream_step ws r now Ev_stop s) = Streaming"
    "sm_phase (stream_step ws r now (Ev_frame f) (stream_step ws r now Ev_stop s)) = Ended"
  using assms by (simp_all add: stream_step_def)

end
