(* ===== verification/Credit_Report.thy ===== *)
theory Credit_Report
  imports Helius_Client
begin

text \<open>
  The credit page of \<^verbatim>\<open>services/api/routes/research.py\<close>, which reads the hashes that
  \<^theory_text>\<open>Helius_Client\<close> writes.  The headroom, a rounded quotient for display, is omitted.
\<close>

record credit_row =
  cw_day :: int
  cw_total :: int
  cw_by_method :: "(string \<times> int) list"

definition credit_row_of :: "credit_store \<Rightarrow> int \<Rightarrow> credit_row option" where
  "credit_row_of s day =
     (case s day of
        None \<Rightarrow> None
      | Some h \<Rightarrow>
          if ch_fields h = [] then None
          else Some \<lparr>cw_day = day, cw_total = dict_get ''_total'' 0 (ch_fields h),
                 cw_by_method = filter (\<lambda>(k, n). k \<noteq> ''_total'' \<and> 0 < n) (ch_fields h)\<rparr>)"

record credit_report =
  cr_today :: int
  cr_days :: nat
  cr_projection :: int
  cr_within_budget :: bool
  cr_history :: "credit_row list"

definition credits_route :: "settings \<Rightarrow> datetime \<Rightarrow> nat \<Rightarrow> credit_store \<Rightarrow> credit_report" where
  "credits_route st now days s =
     (let today = utc_day now;
          rows = List.map_filter (\<lambda>i. credit_row_of s (today - int i)) [0 ..< days];
          used = (case rows of [] \<Rightarrow> 0 | r # _ \<Rightarrow> if cw_day r = today then cw_total r else 0)
      in \<lparr>cr_today = used, cr_days = length rows, cr_projection = used * 30,
          cr_within_budget = (used * 30 \<le> monthly_credit_budget st), cr_history = rows\<rparr>)"

lemma credits_today:
  "cr_today (credits_route st now (Suc days) s) =
     (case s (utc_day now) of None \<Rightarrow> 0 | Some h \<Rightarrow> dict_get ''_total'' 0 (ch_fields h))"
proof -
  have rows: "List.map_filter (\<lambda>i. credit_row_of s (utc_day now - int i)) [0 ..< Suc days] =
      (case credit_row_of s (utc_day now) of None \<Rightarrow> [] | Some r \<Rightarrow> [r]) @
      List.map_filter (\<lambda>i. credit_row_of s (utc_day now - int i)) [1 ..< Suc days]"
    by (simp add: upt_conv_Cons map_filter_simps del: upt_Suc split: option.split)
  have later: "r \<in> set (List.map_filter (\<lambda>i. credit_row_of s (utc_day now - int i)) [1 ..< Suc days]) \<Longrightarrow>
      cw_day r \<noteq> utc_day now" for r
    by (auto simp: map_filter_def credit_row_of_def split: option.splits if_splits)
  show ?thesis
  proof (cases "credit_row_of s (utc_day now)")
    case None
    then have "s (utc_day now) = None \<or> (\<exists>h. s (utc_day now) = Some h \<and> ch_fields h = [])"
      by (auto simp: credit_row_of_def split: option.splits if_splits)
    moreover have "cr_today (credits_route st now (Suc days) s) = 0"
      using later by (auto simp: credits_route_def Let_def rows None simp del: upt_Suc split: list.split)
    ultimately show ?thesis by (auto simp: dict_get_def)
  next
    case (Some r)
    then show ?thesis
      by (auto simp: credits_route_def Let_def rows simp del: upt_Suc)
        (auto simp: credit_row_of_def split: option.splits if_splits)
  qed
qed

text \<open>The list per method counts the calls among the credits: it adds up to more than the total.\<close>

lemma by_method_counts_calls:
  assumes "meter_ok s" "credit_row_of s day = Some r" "s day = Some h"
    and "\<forall>(k, n) \<in> set (ch_fields h). 0 \<le> n"
  shows "sum_list (map snd (cw_by_method r)) = cw_total r + dict_get ''_calls'' 0 (ch_fields h)"
proof -
  have d: "distinct (map fst (ch_fields h))" "dict_get ''_total'' 0 (ch_fields h) = method_sum (ch_fields h)"
    using assms(1,3) by (auto simp: meter_ok_def)
  have r: "cw_by_method r = filter (\<lambda>(k, n). k \<noteq> ''_total'' \<and> 0 < n) (ch_fields h)"
    "cw_total r = dict_get ''_total'' 0 (ch_fields h)"
    using assms(2,3) by (auto simp: credit_row_of_def split: if_splits)
  have "sum_list (map snd (filter (\<lambda>(k, n). k \<noteq> ''_total'' \<and> 0 < n) xs)) =
      method_sum xs + dict_get ''_calls'' 0 xs"
    if "distinct (map fst xs)" "\<forall>(k, n) \<in> set xs. 0 \<le> n" for xs :: "int pydict"
    using that
  proof (induction xs)
    case (Cons x xs)
    obtain k n where x: "x = (k, n)" by fastforce
    then have "k = ''_calls'' \<Longrightarrow> dict_get ''_calls'' 0 xs = 0"
      using Cons.prems(1) by (auto simp: dict_get_def map_of_eq_None_iff split: option.split)
        (metis (no_types, lifting) fst_conv image_eqI map_of_SomeD)
    then show ?case
      using Cons x by (auto simp: method_sum_def dict_get_def)
  qed (simp add: method_sum_def dict_get_def)
  then show ?thesis using d(1,2) assms(4) by (simp add: r d)
qed

end
