(* ===== verification/Jupiter_Client.thy ===== *)
theory Jupiter_Client
  imports Market
begin

text \<open>
  \<^verbatim>\<open>adapters/jupiter.py\<close>: reading a quote and the prices.  What the server answers is a
  parameter: an exception, or the object it sent with the fields the code reads.  The raw route
  plan is omitted, as is the body of the swap request.
\<close>

section \<open>Quotes\<close>

text \<open>A field that should hold an amount: missing or empty, a number as text, or other text.\<close>

datatype amount_field = Amount_missing | Amount int | Amount_garbage

record quote_body =
  qb_in :: amount_field
  qb_out :: amount_field
  qb_threshold :: amount_field
  qb_impact :: "rat option"            \<comment> \<open>a fraction; none when missing, null or empty\<close>
  qb_slippage :: amount_field
  qb_labels :: "string list"           \<comment> \<open>empty for a step without one\<close>

text \<open>\<^verbatim>\<open>int(data[...])\<close> and \<^verbatim>\<open>int(data.get(..., 0))\<close>\<close>

definition required_int :: "string \<Rightarrow> amount_field \<Rightarrow> py_error + int" where
  "required_int k f =
     (case f of Amount n \<Rightarrow> Inr n | Amount_missing \<Rightarrow> Inl (KeyError k) | Amount_garbage \<Rightarrow> Inl (ValueError k))"

definition defaulted_int :: "string \<Rightarrow> amount_field \<Rightarrow> py_error + int" where
  "defaulted_int k f =
     (case f of Amount n \<Rightarrow> Inr n | Amount_missing \<Rightarrow> Inr 0 | Amount_garbage \<Rightarrow> Inl (ValueError k))"

fun join_labels :: "string list \<Rightarrow> string" where
  "join_labels [] = []"
| "join_labels [x] = x"
| "join_labels (x # xs) = x @ '' -> '' @ join_labels xs"

definition read_quote :: "string \<Rightarrow> string \<Rightarrow> quote_body \<Rightarrow> py_error + quote" where
  "read_quote input_mint output_mint b =
     (case required_int ''inAmount'' (qb_in b) of Inl e \<Rightarrow> Inl e
      | Inr inp \<Rightarrow> case required_int ''outAmount'' (qb_out b) of Inl e \<Rightarrow> Inl e
      | Inr out \<Rightarrow> case defaulted_int ''otherAmountThreshold'' (qb_threshold b) of Inl e \<Rightarrow> Inl e
      | Inr threshold \<Rightarrow> case defaulted_int ''slippageBps'' (qb_slippage b) of Inl e \<Rightarrow> Inl e
      | Inr slippage \<Rightarrow>
          Inr \<lparr>q_input_mint = input_mint, q_output_mint = output_mint, q_in_amount_raw = inp,
            q_out_amount_raw = out,
            q_price_impact_pct = (case qb_impact b of None \<Rightarrow> 0 | Some x \<Rightarrow> x * 100),
            q_slippage_bps = slippage,
            q_route_label = join_labels (filter (\<lambda>x. x \<noteq> []) (qb_labels b))\<rparr>)"

text \<open>
  \<^verbatim>\<open>quote\<close>: a provider failure is no quote; so is an answer without an amount out, but an
  amount of zero, being a text, is one.
\<close>

definition jupiter_quote ::
    "(string \<Rightarrow> string \<Rightarrow> int \<Rightarrow> py_error + quote_body option) \<Rightarrow> string \<Rightarrow> string \<Rightarrow> int \<Rightarrow>
       py_error + quote option" where
  "jupiter_quote serve input_mint output_mint amount_raw =
     (if amount_raw \<le> 0 then Inr None
      else case serve input_mint output_mint amount_raw of
             Inl (ProviderError p) \<Rightarrow> Inr None
           | Inl e \<Rightarrow> Inl e
           | Inr None \<Rightarrow> Inr None
           | Inr (Some b) \<Rightarrow>
               if qb_out b = Amount_missing then Inr None
               else map_sum id Some (read_quote input_mint output_mint b))"

definition depth_probe ::
    "(string \<Rightarrow> string \<Rightarrow> int \<Rightarrow> py_error + quote_body option) \<Rightarrow> string \<Rightarrow> string \<Rightarrow> int \<Rightarrow> int \<Rightarrow>
       py_error + pct option" where
  "depth_probe serve input_mint output_mint amount_raw multiple =
     map_sum id (map_option q_price_impact_pct)
       (jupiter_quote serve input_mint output_mint (amount_raw * multiple))"

definition jupiter_exit_liquidity ::
    "(string \<Rightarrow> string \<Rightarrow> int \<Rightarrow> py_error + quote_body option) \<Rightarrow> string \<Rightarrow> int \<Rightarrow> py_error + quote option" where
  "jupiter_exit_liquidity serve mint amount_raw = jupiter_quote serve mint SOL_MINT amount_raw"

section \<open>Prices\<close>

text \<open>One row per mint: a price, none when it is missing; at most fifty mints are asked for.\<close>

definition jupiter_prices ::
    "(string list \<Rightarrow> py_error + (string \<times> rat option) list) \<Rightarrow> string list \<Rightarrow> py_error + usd pydict" where
  "jupiter_prices serve mints =
     (if mints = [] then Inr []
      else case serve (take 50 mints) of
             Inl (ProviderError p) \<Rightarrow> Inr []
           | Inl e \<Rightarrow> Inl e
           | Inr rows \<Rightarrow> Inr (fold (\<lambda>(m, v) d. case v of None \<Rightarrow> d | Some x \<Rightarrow> AList.update m x d) rows []))"

definition jupiter_sol_price ::
    "(string list \<Rightarrow> py_error + (string \<times> rat option) list) \<Rightarrow> py_error + usd" where
  "jupiter_sol_price serve = map_sum id (dict_get SOL_MINT 0) (jupiter_prices serve [SOL_MINT])"

section \<open>The adapter as the market service sees it\<close>

lemma quote_without_provider_error:
  "jupiter_quote serve a b n \<noteq> Inl (ProviderError p)"
  by (auto simp: jupiter_quote_def read_quote_def required_int_def defaulted_int_def
      split: sum.splits py_error.splits option.splits amount_field.splits if_splits)

lemma quote_asks_positive:
  "jupiter_quote serve a b n = Inr (Some q) \<Longrightarrow>
   0 < n \<and> q_input_mint q = a \<and> q_output_mint q = b \<and>
   (\<exists>body. serve a b n = Inr (Some body) \<and> qb_out body = Amount (q_out_amount_raw q))"
  by (auto simp: jupiter_quote_def read_quote_def required_int_def defaulted_int_def
      split: sum.splits py_error.splits option.splits amount_field.splits if_splits)

text \<open>The second fifty mints of a request get no price.\<close>

lemma prices_of_first_fifty:
  assumes "jupiter_prices serve mints = Inr d" "\<And>ms rows. serve ms = Inr rows \<Longrightarrow> fst ` set rows \<subseteq> set ms"
  shows "fst ` set d \<subseteq> set (take 50 mints)"
proof -
  define put where "put = (\<lambda>(m, v) d. case v of None \<Rightarrow> d | Some (x :: rat) \<Rightarrow> AList.update (m :: string) x d)"
  have keys: "fst ` set (fold put rows d0) \<subseteq> fst ` set rows \<union> fst ` set d0" for rows d0
  proof (induction rows arbitrary: d0)
    case (Cons r rows)
    obtain m v where r: "r = (m, v)" by fastforce
    have "fst ` set (put r d0) \<subseteq> insert m (fst ` set d0)"
      by (cases v) (auto simp: put_def r dom_update)
    then have "fst ` set (fold put rows (put r d0)) \<subseteq> fst ` set rows \<union> insert m (fst ` set d0)"
      using Cons.IH [of "put r d0"] by blast
    then show ?case by (simp add: r)
  qed simp
  show ?thesis
  proof (cases "mints = []")
    case False
    show ?thesis
    proof (cases "serve (take 50 mints)")
      case (Inl e)
      then show ?thesis using assms(1) False by (cases e) (simp_all add: jupiter_prices_def)
    next
      case (Inr rows)
      then have "d = fold put rows []" using assms(1) False by (simp add: jupiter_prices_def put_def)
      then show ?thesis using keys [of rows "[]"] assms(2) [OF Inr] by auto
    qed
  qed (use assms(1) in \<open>simp add: jupiter_prices_def\<close>)
qed

end
