(* ===== verification/Analytics.thy ===== *)
theory Analytics
  imports Store Float_Bounds
begin

text \<open>
  \<^verbatim>\<open>db/analytics.py\<close> and \<^verbatim>\<open>services/tasks/research.py\<close>: the aggregates over the decision
  and position tables that the reports show.  A decision is a row with the moment it was decided.
  Percentiles go through binary floats; sums of money are exact, where SQLite adds floats.
\<close>

section \<open>Reason codes\<close>

type_synonym dated_decision = "datetime \<times> decision_row"

definition in_window :: "datetime \<Rightarrow> string \<Rightarrow> dated_decision \<Rightarrow> bool" where
  "in_window since m v \<longleftrightarrow> since \<le> fst v \<and> dr_mode (snd v) = m"

text \<open>\<^verbatim>\<open>Counter\<close> with \<^verbatim>\<open>update\<close> and \<^verbatim>\<open>most_common\<close>, which sorts stably.\<close>

definition tally :: "string list \<Rightarrow> nat pydict \<Rightarrow> nat pydict" where
  "tally codes c = fold (\<lambda>k c. AList.update k (dict_get k 0 c + 1) c) codes c"

definition most_common :: "nat pydict \<Rightarrow> (string \<times> nat) list" where
  "most_common c = sort_key (\<lambda>v. - int (snd v)) c"

definition rejected_codes :: "datetime \<Rightarrow> string \<Rightarrow> dated_decision list \<Rightarrow> string list list" where
  "rejected_codes since m rows =
     map (\<lambda>v. map reason_value (d_reasons (dr_decision (snd v))))
       (filter (\<lambda>v. in_window since m v \<and> d_decision (dr_decision (snd v)) = DEC_REJECT) rows)"

definition rejection_counts ::
    "datetime \<Rightarrow> string \<Rightarrow> nat option \<Rightarrow> dated_decision list \<Rightarrow> (string \<times> nat) list" where
  "rejection_counts since m limit rows =
     (let items = most_common (fold tally (rejected_codes since m rows) [])
      in case limit of None \<Rightarrow> items | Some n \<Rightarrow> if n = 0 then items else take n items)"

section \<open>Percentiles\<close>

text \<open>\<^verbatim>\<open>_pct\<close> on whole milliseconds.\<close>

definition percentile_at :: "int list \<Rightarrow> rat \<Rightarrow> rat" where
  "percentile_at s q = fl64 (q * of_nat (length s - 1))"

definition percentile :: "int list \<Rightarrow> rat \<Rightarrow> int option" where
  "percentile samples q =
     (if samples = [] then None
      else let s = sort samples
           in if length s = 1 then Some (hd s)
              else let pos = percentile_at s q;
                       lo = nat (trunc_int pos);
                       hi = min (lo + 1) (length s - 1);
                       frac = fl64 (pos - of_nat lo)
                   in Some (round_half_even (fl64 (of_int (s ! lo) +
                        fl64 (of_int (s ! hi - s ! lo) * frac)))))"

definition q50 :: rat where "q50 = 1 / 2"

definition q95 :: rat where "q95 = fl64 (95 / 100)"

record latency_stats =
  ls_samples :: nat
  ls_observation :: "int option \<times> int option"
  ls_analysis :: "int option \<times> int option"
  ls_total :: "int option \<times> int option"

definition both_percentiles :: "int option list \<Rightarrow> int option \<times> int option" where
  "both_percentiles vs = (let xs = map the (filter (\<lambda>v. v \<noteq> None) vs) in (percentile xs q50, percentile xs q95))"

definition latency_percentiles :: "datetime \<Rightarrow> string \<Rightarrow> dated_decision list \<Rightarrow> latency_stats" where
  "latency_percentiles since m rows =
     (let ls = map (\<lambda>v. d_latency (dr_decision (snd v))) (filter (in_window since m) rows)
      in \<lparr>ls_samples = length ls, ls_observation = both_percentiles (map observation_ms ls),
          ls_analysis = both_percentiles (map analysis_ms ls),
          ls_total = both_percentiles (map total_copy_ms ls)\<rparr>)"

section \<open>Research\<close>

record gate_report =
  gr_signals :: nat
  gr_approved :: nat
  gr_rate_pct :: pct
  gr_rejections :: "(string \<times> nat) list"

definition gate_effectiveness :: "datetime \<Rightarrow> string \<Rightarrow> dated_decision list \<Rightarrow> gate_report" where
  "gate_effectiveness since m rows =
     (let total = length (filter (in_window since m) rows);
          copied = length (filter (\<lambda>v. in_window since m v \<and> d_decision (dr_decision (snd v)) = DEC_COPY) rows)
      in \<lparr>gr_signals = total, gr_approved = copied,
          gr_rate_pct = (if total = 0 then 0 else quantize 2 (of_nat copied / of_nat total * 100)),
          gr_rejections = rejection_counts since m None rows\<rparr>)"

datatype latency_advice = Insufficient_data | Detection_dominates | Analysis_dominates

text \<open>A median of 0 ms is taken for no data.\<close>

definition latency_profile :: "datetime \<Rightarrow> string \<Rightarrow> dated_decision list \<Rightarrow> latency_stats \<times> latency_advice" where
  "latency_profile since m rows =
     (let p = latency_percentiles since m rows;
          obs = fst (ls_observation p); ana = fst (ls_analysis p)
      in (p, case obs of
               None \<Rightarrow> Insufficient_data
             | Some v \<Rightarrow> if v = 0 then Insufficient_data
                 else if (case ana of None \<Rightarrow> 0 | Some a \<Rightarrow> a) * 2 < v then Detection_dominates
                 else Analysis_dominates))"

record contributor =
  cb_wallet :: string
  cb_closed :: nat
  cb_pnl :: usd
  cb_deployed :: usd
  cb_return_pct :: pct

definition closed_since :: "datetime \<Rightarrow> string \<Rightarrow> position \<Rightarrow> bool" where
  "closed_since since m p \<longleftrightarrow> p_mode p = m \<and> (case p_closed_at p of None \<Rightarrow> False | Some t \<Rightarrow> since \<le> t)"

text \<open>GROUP BY the wallet, each with its count and its sums.\<close>

definition wallets_of :: "position list \<Rightarrow> string list" where
  "wallets_of ps = remdups (map p_trader_wallet ps)"

definition contributor_of :: "position list \<Rightarrow> string \<Rightarrow> contributor" where
  "contributor_of ps w =
     (let own = filter (\<lambda>p. p_trader_wallet p = w) ps;
          pnl = sum_list (map p_realized_pnl_usd own);
          deployed = sum_list (map p_cost_basis_usd own)
      in \<lparr>cb_wallet = w, cb_closed = length own, cb_pnl = quantize 2 pnl, cb_deployed = quantize 2 deployed,
          cb_return_pct = (if deployed = 0 then 0 else quantize 2 (pnl / deployed * 100))\<rparr>)"

definition trader_contribution :: "datetime \<Rightarrow> string \<Rightarrow> position list \<Rightarrow> contributor list \<times> nat" where
  "trader_contribution since m rows =
     (let ps = filter (closed_since since m) rows;
          total = (\<lambda>w. sum_list (map p_realized_pnl_usd (filter (\<lambda>p. p_trader_wallet p = w) ps)));
          cs = map (contributor_of ps) (sort_key (\<lambda>w. - total w) (wallets_of ps))
      in (cs, length (filter (\<lambda>c. cb_pnl c < 0) cs)))"

section \<open>The counts are the frequencies\<close>

lemma tally_keys: "distinct (map fst c) \<Longrightarrow> distinct (map fst (tally codes c))"
  unfolding tally_def by (induction codes arbitrary: c) (simp_all add: distinct_update)

lemma tally_get:
  "dict_get k 0 (tally codes c) = dict_get k 0 c + count_list codes k"
  unfolding tally_def
  by (induction codes arbitrary: c) (auto simp: dict_get_def update_conv split: option.split)

lemma tally_present:
  "k \<in> fst ` set (tally codes c) \<longleftrightarrow> k \<in> fst ` set c \<or> k \<in> set codes"
  unfolding tally_def by (induction codes arbitrary: c) (auto simp: dom_update)

lemma tallies:
  "distinct (map fst c) \<Longrightarrow> distinct (map fst (fold tally css c)) \<and>
   dict_get k 0 (fold tally css c) = dict_get k 0 c + count_list (concat css) k \<and>
   (k \<in> fst ` set (fold tally css c) \<longleftrightarrow> k \<in> fst ` set c \<or> k \<in> set (concat css))"
  by (induction css arbitrary: c) (auto simp: tally_keys tally_get tally_present count_list_append)

text \<open>
  The table of rejection reasons is exact: a code is listed once, with the number of times it
  occurs among the rejected decisions of the window, exactly when it occurs, and the codes come in
  decreasing frequency.
\<close>

theorem rejection_counts_exact:
  "set (rejection_counts since m None rows) =
     {(k, n). n = count_list (concat (rejected_codes since m rows)) k \<and> 0 < n} \<and>
   distinct (map fst (rejection_counts since m None rows)) \<and>
   sorted_wrt (\<lambda>a b. snd b \<le> snd a) (rejection_counts since m None rows)"
proof -
  define codes where "codes = rejected_codes since m rows"
  define c where "c = fold tally codes []"
  have r: "rejection_counts since m None rows = sort_key (\<lambda>v. - int (snd v)) c"
    by (simp add: rejection_counts_def most_common_def c_def codes_def)
  have t: "distinct (map fst c)" "dict_get k 0 c = count_list (concat codes) k"
    "k \<in> fst ` set c \<longleftrightarrow> k \<in> set (concat codes)" for k
    using tallies [of "[]" codes k] by (simp_all add: c_def dict_get_def)
  have mem: "(k, n) \<in> set c \<longleftrightarrow> n = count_list (concat codes) k \<and> 0 < n" for k n
  proof -
    have "(k, n) \<in> set c \<longleftrightarrow> map_of c k = Some n" using t(1) by (simp add: map_of_eq_Some_iff)
    also have "\<dots> \<longleftrightarrow> k \<in> fst ` set c \<and> dict_get k 0 c = n"
      by (cases "map_of c k") (auto simp: dict_get_def map_of_eq_None_iff dest!: map_of_SomeD intro: rev_image_eqI)
    finally show ?thesis using t(2,3) [of k] count_list_0_iff [of "concat codes" k] by auto
  qed
  have "distinct (map fst (sort_key (\<lambda>v. - int (snd v)) c))"
    using t(1) by (metis distinct_map distinct_sort set_sort)
  moreover have "sorted_wrt (\<lambda>a b. snd b \<le> snd a) (sort_key (\<lambda>v. - int (snd v)) c)"
    using sorted_sort_key [of "\<lambda>v. - int (snd v)" c] by (simp add: sorted_wrt_map)
  ultimately show ?thesis using mem by (auto simp: r codes_def [symmetric])
qed

lemma contributions_count:
  "sum_list (map (\<lambda>w. length (filter (\<lambda>p. p_trader_wallet p = w) ps)) (wallets_of ps)) = length ps"
proof -
  have "(\<Sum>w \<in> set (wallets_of ps). length (filter (\<lambda>p. p_trader_wallet p = w) ps)) = length ps"
  proof -
    have "length (filter (\<lambda>p. p_trader_wallet p = w) ps) = count_list (map p_trader_wallet ps) w" for w
      by (induction ps) auto
    then show ?thesis using sum_count_set [of "map p_trader_wallet ps" "set (wallets_of ps)"] by (simp add: wallets_of_def)
  qed
  then show ?thesis by (simp add: wallets_of_def sum_list_distinct_conv_sum_set)
qed

text \<open>
  A position that was sold in part keeps only the cost of its last part when it is closed, and all
  of its profit: the capital it used is understated and its return overstated.
\<close>

lemma partial_exit_overstates_return:
  assumes "p_cost_basis_usd p = 100" "p_realized_pnl_usd p = 0"
    and "q = reduce_row ex t2 b 60 10 True None (reduce_row ex t1 a 75 25 False None p)"
  shows "p_cost_basis_usd q = 50 \<and> p_realized_pnl_usd q = 35 \<and> p_closed_at q = Some t2"
  using assms by (simp add: reduce_row_def)

section \<open>Percentiles lie between their neighbours\<close>

lemma round_between:
  assumes "of_int a - 1 / 4 \<le> x" "x \<le> of_int b + 1 / 4"
  shows "a \<le> round_half_even x" "round_half_even x \<le> b"
proof -
  have "of_int (round_half_even x) - x \<le> 1 / 2" "x - of_int (round_half_even x) \<le> 1 / 2"
    using round_half_even_near [of x] unfolding abs_le_iff by linarith+
  then have "of_int a < (of_int (round_half_even x + 1) :: rat)" "(of_int (round_half_even x) :: rat) < of_int (b + 1)"
    using assms by simp_all
  then show "a \<le> round_half_even x" "round_half_even x \<le> b" by (simp_all only: of_int_less_iff)
qed

lemma interpolation_between:
  assumes "\<bar>a\<bar> \<le> 2 ^ 31" "\<bar>b\<bar> \<le> 2 ^ 31" "a \<le> b" "0 \<le> f" "f \<le> 1"
  shows "a \<le> round_half_even (fl64 (of_int a + fl64 (of_int (b - a) * fl64 f))) \<and>
    round_half_even (fl64 (of_int a + fl64 (of_int (b - a) * fl64 f))) \<le> b"
proof -
  define d :: rat where "d = of_int (b - a)"
  define g where "g = fl64 f"
  define e where "e = fl64 (d * g)"
  define x where "x = fl64 (of_int a + e)"
  have d: "0 \<le> d" "d \<le> 4294967296"
    using assms(1-3) by (simp_all add: d_def abs_le_iff)
  have a: "- 2147483648 \<le> (of_int a :: rat)" "(of_int a :: rat) \<le> 2147483648"
    using assms(1) by (simp_all add: abs_le_iff)
  note eps = float_eps_facts
  have g: "0 \<le> g" "g \<le> 1 + float_eps"
    using fl64_within [of 1 f] fl64_nonneg [of f] assms(4,5) by (simp_all add: g_def)
  have "d * g \<le> d * (1 + float_eps)" using g d by (intro mult_left_mono) simp_all
  also have "\<dots> \<le> d + 4294967296 * float_eps"
    using d mult_right_mono [OF d(2), of float_eps] eps(1) by (simp add: algebra_simps)
  finally have dg: "d * g \<le> d + 4294967296 * float_eps" "0 \<le> d * g" using d g by simp_all
  have e: "0 \<le> e" "e \<le> d + 8600000000 * float_eps"
    using fl64_within [of 4294967297 "d * g"] fl64_nonneg [OF dg(2)] dg d eps unfolding e_def by linarith+
  have room: "- 8600000000 \<le> of_int a + e" "of_int a + e \<le> 8600000000"
    using a e d eps by linarith+
  have x: "x - (of_int a + e) \<le> 8600000000 * float_eps" "(of_int a + e) - x \<le> 8600000000 * float_eps"
    using fl64_within [OF room] by (simp_all add: x_def)
  have b: "of_int a + d = of_int b" by (simp add: d_def)
  have "of_int a - 1 / 4 \<le> x" "x \<le> of_int b + 1 / 4"
    using x e b eps by linarith+
  from round_between [OF this] show ?thesis by (simp add: x_def e_def d_def g_def)
qed

text \<open>
  A percentile is a value the sample could have: it lies between the two order statistics
  around its position, so between the smallest and the largest value, in spite of the float
  arithmetic; and a sample that is not empty has one.
\<close>

theorem percentile_between_neighbours:
  assumes "samples \<noteq> []" "list_all (\<lambda>v. \<bar>v\<bar> \<le> 2 ^ 31) samples" "length samples \<le> 2 ^ 31"
    and "0 \<le> q" "q \<le> 1"
  shows "\<exists>r lo. percentile samples q = Some r \<and> lo < length samples \<and>
    \<bar>of_nat lo - q * of_nat (length samples - 1)\<bar> \<le> 1 + 1 / 2 ^ 20 \<and>
    sort samples ! lo \<le> r \<and> r \<le> sort samples ! min (lo + 1) (length samples - 1)"
proof (cases "length samples = 1")
  case True
  then obtain v where "samples = [v]" by (auto simp: length_Suc_conv)
  then show ?thesis using assms(4,5) by (intro exI [of _ v] exI [of _ 0]) (simp add: percentile_def)
next
  case False
  define s where "s = sort samples"
  define n where "n = length samples"
  define pos where "pos = percentile_at s q"
  define lo where "lo = nat (trunc_int pos)"
  define hi where "hi = min (lo + 1) (n - 1)"
  have n: "2 \<le> n" "length s = n" using False assms(1)
    by (simp_all add: n_def s_def) (cases "samples"; cases "tl samples"; simp)
  have "(of_nat (n - 1) :: rat) \<le> of_nat (2 ^ 31)" using assms(3) by (intro of_nat_mono) (simp add: n_def)
  then have m: "(of_nat (n - 1) :: rat) \<le> 2147483648" by simp
  have qm: "0 \<le> q * of_nat (n - 1)" "q * of_nat (n - 1) \<le> of_nat (n - 1)"
    using assms(4,5) by (simp_all add: mult_left_le_one_le)
  have qm2: "- 2147483648 \<le> q * of_nat (n - 1)" "q * of_nat (n - 1) \<le> 2147483648"
    using qm m by linarith+
  have pos: "0 \<le> pos" "pos - q * of_nat (n - 1) \<le> 2147483648 * float_eps"
    "q * of_nat (n - 1) - pos \<le> 2147483648 * float_eps"
    using fl64_within [OF qm2] fl64_nonneg [OF qm(1)] by (simp_all add: pos_def percentile_at_def n)
  have fl: "of_nat lo \<le> pos" "pos < of_nat lo + 1"
    using pos(1) floor_correct [of pos] by (simp_all add: lo_def trunc_int_def)
  have "(of_nat (n - 1) :: rat) = of_nat n - 1" using n(1) by (simp add: of_nat_diff)
  then have "(of_nat lo :: rat) < of_nat n" using fl(1) pos(2) qm(2) float_eps_facts by linarith
  then have lo: "lo < n" by (simp only: of_nat_less_iff)
  then have hi: "hi < n" "lo \<le> hi" using n by (auto simp: hi_def)
  have sorted: "s ! lo \<le> s ! hi" using hi n by (simp add: s_def sorted_nth_mono)
  have small: "\<bar>s ! i\<bar> \<le> 2 ^ 31" if "i < n" for i
    using assms(2) nth_mem [of i s] that n by (simp add: list_all_iff s_def)
  have p: "percentile samples q = Some (round_half_even (fl64 (of_int (s ! lo) +
      fl64 (of_int (s ! hi - s ! lo) * fl64 (pos - of_nat lo)))))"
    using assms(1) n by (simp add: percentile_def s_def [symmetric] pos_def [symmetric] lo_def [symmetric] Let_def hi_def)
  have near: "\<bar>of_nat lo - q * of_nat (n - 1)\<bar> \<le> 1 + 1 / 2 ^ 20"
    using fl pos(2,3) float_eps_facts unfolding abs_le_iff by (simp add: float_eps_def)
  show ?thesis
    using interpolation_between [OF small [OF lo] small [OF hi(1)] sorted, of "pos - of_nat lo"] fl p lo near
    by (auto simp: s_def [symmetric] n_def [symmetric] hi_def)
qed

lemma percentile_between_neighbours_witness:
  "\<exists>r. percentile [30, 10, 20] q95 = Some r \<and> 10 \<le> r \<and> r \<le> 30"
proof -
  have q: "0 \<le> q95" "q95 \<le> 1"
    using fl64_near [of "95 / 100"] fl64_nonneg [of "95 / 100"] unfolding q95_def abs_le_iff by simp_all
  have s: "sort [30, 10, 20 :: int] = [10, 20, 30]" by simp
  obtain r lo where "percentile [30, 10, 20] q95 = Some r" "lo < Suc (Suc (Suc 0))"
    "[10, 20, 30] ! lo \<le> r" "r \<le> [20, 30 :: int] ! min lo (Suc 0)"
    using percentile_between_neighbours [of "[30, 10, 20]", OF _ _ _ q] unfolding s by auto
  then show ?thesis by (auto simp: less_Suc_eq)
qed

end
