(* ===== verification/Alerts.thy ===== *)
theory Alerts
  imports Store
begin

text \<open>
  \<^verbatim>\<open>alerts.py\<close>: an alert is written to the database first, then sent to every configured
  channel unless it is below the floor or a repetition.  What a channel answers is in the
  environment, as is whether the database and Redis can be reached.  Titles, bodies and details
  are omitted, except for the escaping of a text.
\<close>

section \<open>Levels, categories and channels\<close>

datatype alert_level = Level_info | Level_warning | Level_critical

fun level_value :: "alert_level \<Rightarrow> string" where
  "level_value Level_info = ''info''"
| "level_value Level_warning = ''warning''"
| "level_value Level_critical = ''critical''"

fun level_rank :: "alert_level \<Rightarrow> nat" where
  "level_rank Level_info = 0"
| "level_rank Level_warning = 1"
| "level_rank Level_critical = 2"

text \<open>\<^verbatim>\<open>Level(text)\<close>, which raises for any other text.\<close>

definition level_of_text :: "string \<Rightarrow> py_error + alert_level" where
  "level_of_text t =
     (case find (\<lambda>l. level_value l = t) [Level_info, Level_warning, Level_critical] of
        Some l \<Rightarrow> Inr l | None \<Rightarrow> Inl (ValueError t))"

datatype alert_category = Cat_trade | Cat_risk | Cat_system | Cat_treasury | Cat_trader | Cat_report

fun category_value :: "alert_category \<Rightarrow> string" where
  "category_value Cat_trade = ''trade''"
| "category_value Cat_risk = ''risk''"
| "category_value Cat_system = ''system''"
| "category_value Cat_treasury = ''treasury''"
| "category_value Cat_trader = ''trader''"
| "category_value Cat_report = ''report''"

datatype channel = Telegram string string | Discord string | Webhook string

text \<open>\<^verbatim>\<open>_channels_from_settings\<close>\<close>

definition channels_from_settings :: "settings \<Rightarrow> channel list" where
  "channels_from_settings st =
     (if telegram_bot_token st \<noteq> [] \<and> telegram_chat_id st \<noteq> []
        then [Telegram (telegram_bot_token st) (telegram_chat_id st)] else []) @
     (if discord_webhook_url st \<noteq> [] then [Discord (discord_webhook_url st)] else []) @
     (if alert_webhook_url st \<noteq> [] then [Webhook (alert_webhook_url st)] else [])"

datatype channel_reply = Replied int | Raised

text \<open>What the \<^verbatim>\<open>send\<close> of each channel returns for a status.\<close>

fun accepts :: "channel \<Rightarrow> int \<Rightarrow> bool" where
  "accepts (Telegram token chat) code \<longleftrightarrow> code = 200"
| "accepts (Discord url) code \<longleftrightarrow> code = 200 \<or> code = 204"
| "accepts (Webhook url) code \<longleftrightarrow> 200 \<le> code \<and> code < 300"

definition deliver_alert :: "(channel \<Rightarrow> channel_reply) \<Rightarrow> channel \<Rightarrow> bool" where
  "deliver_alert reply c = (case reply c of Raised \<Rightarrow> False | Replied code \<Rightarrow> accepts c code)"

section \<open>Markdown\<close>

definition replace_char :: "char \<Rightarrow> string \<Rightarrow> string" where
  "replace_char ch t = concat (map (\<lambda>c. if c = ch then [CHR 0x5C, ch] else [c]) t)"

definition MARKDOWN_CHARS :: string where "MARKDOWN_CHARS = ''_*[]`''"

definition escape_markdown :: "string \<Rightarrow> string" where
  "escape_markdown t = fold replace_char MARKDOWN_CHARS t"

section \<open>Alerter\<close>

record alerter =
  al_channels :: "channel list"
  al_min_level :: alert_level

definition new_alerter :: "settings \<Rightarrow> py_error + alerter" where
  "new_alerter st =
     (case level_of_text (alert_min_level st) of
        Inl e \<Rightarrow> Inl e
      | Inr l \<Rightarrow> Inr \<lparr>al_channels = channels_from_settings st, al_min_level = l\<rparr>)"

text \<open>The claims are Redis keys with their expiry; the attempts are what was handed to the channels.\<close>

record alert_store =
  as_db :: database
  as_claims :: "string \<rightharpoonup> datetime"
  as_attempts :: "(string option \<times> datetime) list"

record alert_env =
  ae_now :: datetime
  ae_db_up :: bool
  ae_redis_up :: bool
  ae_reply :: "channel \<Rightarrow> channel_reply"

record alert_call =
  ac_level :: alert_level
  ac_category :: alert_category
  ac_key :: "string option"
  ac_seconds :: int

definition persist_alert :: "alert_call \<Rightarrow> alert_store \<Rightarrow> alert_store" where
  "persist_alert a s = s\<lparr>as_db := (as_db s)\<lparr>db_alerts := db_alerts (as_db s) @
     [(level_value (ac_level a), category_value (ac_category a))]\<rparr>\<rparr>"

text \<open>\<^verbatim>\<open>SET key 1 NX EX ttl\<close>\<close>

definition claim_alert :: "datetime \<Rightarrow> string \<Rightarrow> int \<Rightarrow> alert_store \<Rightarrow> bool \<times> alert_store" where
  "claim_alert now k ttl s =
     (case as_claims s k of
        Some expiry \<Rightarrow> if now < expiry then (False, s)
          else (True, s\<lparr>as_claims := (as_claims s)(k \<mapsto> now + ttl * 10 ^ 6)\<rparr>)
      | None \<Rightarrow> (True, s\<lparr>as_claims := (as_claims s)(k \<mapsto> now + ttl * 10 ^ 6)\<rparr>))"

definition fan_out :: "alerter \<Rightarrow> alert_env \<Rightarrow> alert_call \<Rightarrow> alert_store \<Rightarrow> bool \<times> alert_store" where
  "fan_out al env a s =
     (list_ex (deliver_alert (ae_reply env)) (al_channels al),
      s\<lparr>as_attempts := as_attempts s @ [(ac_key a, ae_now env)]\<rparr>)"

definition send_alert ::
    "alerter \<Rightarrow> alert_env \<Rightarrow> alert_call \<Rightarrow> alert_store \<Rightarrow> (py_error + bool) \<times> alert_store" where
  "send_alert al env a s =
     (if \<not> ae_db_up env then (Inl (RuntimeError ''database''), s)
      else let s1 = persist_alert a s
           in if level_rank (ac_level a) < level_rank (al_min_level al) \<or> al_channels al = []
                then (Inr False, s1)
              else case ac_key a of
                     None \<Rightarrow> apfst Inr (fan_out al env a s1)
                   | Some k \<Rightarrow>
                       if k = [] then apfst Inr (fan_out al env a s1)
                       else if \<not> ae_redis_up env then (Inl (RuntimeError ''redis''), s1)
                       else case claim_alert (ae_now env) k (ac_seconds a) s1 of
                              (False, s2) \<Rightarrow> (Inr False, s2)
                            | (True, s2) \<Rightarrow> apfst Inr (fan_out al env a s2))"

definition send_alerts :: "alerter \<Rightarrow> (alert_env \<times> alert_call) list \<Rightarrow> alert_store \<Rightarrow> alert_store" where
  "send_alerts al calls s = fold (\<lambda>(env, a) s. snd (send_alert al env a s)) calls s"

section \<open>Escaping\<close>

text \<open>The five replacements are one pass, as none of them produces a character of another.\<close>

lemma replace_char_append [simp]: "replace_char ch (a @ b) = replace_char ch a @ replace_char ch b"
  by (simp add: replace_char_def)

lemma escape_markdown_single_pass:
  "escape_markdown t = concat (map (\<lambda>c. if c \<in> set MARKDOWN_CHARS then [CHR 0x5C, c] else [c]) t)"
proof (induction t)
  case (Cons c t)
  have app: "escape_markdown (a @ b) = escape_markdown a @ escape_markdown b" for a b
    by (simp add: escape_markdown_def MARKDOWN_CHARS_def)
  have one: "escape_markdown [c] = (if c \<in> set MARKDOWN_CHARS then [CHR 0x5C, c] else [c])"
    by (auto simp: escape_markdown_def MARKDOWN_CHARS_def replace_char_def)
  show ?case using app [of "[c]" t] one Cons by simp
qed (simp add: escape_markdown_def MARKDOWN_CHARS_def replace_char_def)

section \<open>What is sent\<close>

lemma persist_fields [simp]:
  "as_claims (persist_alert a s) = as_claims s" "as_attempts (persist_alert a s) = as_attempts s"
  "db_alerts (as_db (persist_alert a s)) =
     db_alerts (as_db s) @ [(level_value (ac_level a), category_value (ac_category a))]"
  by (simp_all add: persist_alert_def)

lemma fan_out_simps [simp]:
  "fst (fan_out al env a s) = list_ex (deliver_alert (ae_reply env)) (al_channels al)"
  "as_db (snd (fan_out al env a s)) = as_db s" "as_claims (snd (fan_out al env a s)) = as_claims s"
  "as_attempts (snd (fan_out al env a s)) = as_attempts s @ [(ac_key a, ae_now env)]"
  by (simp_all add: fan_out_def)

lemma claim_alert_simps [simp]:
  "as_db (snd (claim_alert now k ttl s)) = as_db s"
  "as_attempts (snd (claim_alert now k ttl s)) = as_attempts s"
  by (auto simp: claim_alert_def split: option.split)

text \<open>
  C39. An alert is on record before anything can go wrong with its delivery, and no channel can
  raise into the caller: once the database took the row, the only exception left is Redis failing
  the claim of a keyed alert.  The call returns true exactly when a channel accepted the alert, so
  never below the floor and never while the key is claimed.
\<close>

theorem alert_recorded_and_contained:
  assumes "send_alert al env a s = (r, s')"
  shows "if ae_db_up env
    then db_alerts (as_db s') = db_alerts (as_db s) @ [(level_value (ac_level a), category_value (ac_category a))] \<and>
      (\<forall>e. r = Inl e \<longrightarrow> \<not> ae_redis_up env \<and> (\<exists>k. ac_key a = Some k \<and> k \<noteq> [])) \<and>
      (r = Inr True \<longrightarrow> level_rank (al_min_level al) \<le> level_rank (ac_level a) \<and>
         (\<exists>c \<in> set (al_channels al). deliver_alert (ae_reply env) c) \<and>
         (\<forall>k expiry. ac_key a = Some k \<longrightarrow> k \<noteq> [] \<longrightarrow> as_claims s k = Some expiry \<longrightarrow> expiry \<le> ae_now env))
    else s' = s \<and> isl r"
proof -
  have claim: "fst (claim_alert now k ttl t) = False \<or>
      (\<forall>expiry. as_claims t k = Some expiry \<longrightarrow> expiry \<le> now)" for now k ttl t
    by (auto simp: claim_alert_def split: option.split)
  show ?thesis
  proof (cases "ae_db_up env \<and> (\<exists>k. ac_key a = Some k \<and> k \<noteq> []) \<and> ae_redis_up env \<and>
      \<not> (level_rank (ac_level a) < level_rank (al_min_level al) \<or> al_channels al = [])")
    case True
    then obtain k where k: "ac_key a = Some k" "k \<noteq> []" by blast
    obtain b s2 where cl: "claim_alert (ae_now env) k (ac_seconds a) (persist_alert a s) = (b, s2)" by fastforce
    have "as_db s2 = as_db (persist_alert a s)"
      using claim_alert_simps(1) [of "ae_now env" k "ac_seconds a" "persist_alert a s"] cl by simp
    then show ?thesis
      using assms True k cl claim [of "ae_now env" k "ac_seconds a" "persist_alert a s"]
      by (cases b) (auto simp: send_alert_def Let_def list_ex_iff fan_out_def)
  next
    case False
    then show ?thesis
      using assms
      by (auto simp: send_alert_def Let_def list_ex_iff fan_out_def split: option.splits if_splits prod.splits)
  qed
qed

definition quiet_store :: alert_store where
  "quiet_store = \<lparr>as_db = empty_database, as_claims = (\<lambda>k. None), as_attempts = []\<rparr>"

definition two_channels :: alerter where
  "two_channels = \<lparr>al_channels = [Telegram ''t'' ''c'', Discord ''u''], al_min_level = Level_warning\<rparr>"

definition kill_alert :: alert_call where
  "kill_alert = \<lparr>ac_level = Level_critical, ac_category = Cat_risk, ac_key = Some ''kill'', ac_seconds = 300\<rparr>"

text \<open>Telegram down, Discord up.\<close>

definition half_up :: alert_env where
  "half_up = \<lparr>ae_now = 0, ae_db_up = True, ae_redis_up = True,
     ae_reply = (\<lambda>c. case c of Telegram t i \<Rightarrow> Raised | _ \<Rightarrow> Replied 204)\<rparr>"

lemma alert_recorded_and_contained_witness:
  "fst (send_alert two_channels half_up kill_alert quiet_store) = Inr True \<and>
   db_alerts (as_db (snd (send_alert two_channels half_up kill_alert quiet_store))) = [(''critical'', ''risk'')]"
proof -
  obtain r s' where run: "send_alert two_channels half_up kill_alert quiet_store = (r, s')" by fastforce
  have "r = Inr True"
    using run by (simp add: send_alert_def two_channels_def half_up_def kill_alert_def quiet_store_def
        persist_alert_def claim_alert_def fan_out_def deliver_alert_def)
  then show ?thesis
    using alert_recorded_and_contained [OF run] run
    by (simp add: half_up_def kill_alert_def quiet_store_def empty_database_def)
qed

section \<open>Repetitions\<close>

text \<open>The claim of a key outlives its last attempt by the window.\<close>

definition claims_ok :: "string \<Rightarrow> int \<Rightarrow> alert_store \<Rightarrow> bool" where
  "claims_ok k ttl s \<longleftrightarrow>
     (let times = map snd (filter (\<lambda>v. fst v = Some k) (as_attempts s))
      in successively (\<lambda>t u. t + ttl * 10 ^ 6 \<le> u) times \<and>
         (times \<noteq> [] \<longrightarrow> as_claims s k = Some (last times + ttl * 10 ^ 6)))"

lemma send_alert_claims_ok:
  assumes "claims_ok k ttl s" "k \<noteq> []" "ac_key a = Some k \<longrightarrow> ac_seconds a = ttl"
  shows "claims_ok k ttl (snd (send_alert al env a s))"
proof -
  have base: "claims_ok k ttl (persist_alert a s)" using assms(1) by (simp add: claims_ok_def)
  show ?thesis
  proof (cases "ac_key a")
    case None
    then show ?thesis using assms(1) base by (simp add: send_alert_def Let_def fan_out_def claims_ok_def)
  next
    case (Some j)
    obtain b s2 where cl: "claim_alert (ae_now env) j (ac_seconds a) (persist_alert a s) = (b, s2)" by fastforce
    show ?thesis
    proof (cases "j = k")
      case True
      then have ttl: "ac_seconds a = ttl" using assms(3) Some by simp
      show ?thesis
      proof (cases b)
        case True
        have free: "\<forall>expiry. as_claims s k = Some expiry \<longrightarrow> expiry \<le> ae_now env"
          and s2: "as_claims s2 k = Some (ae_now env + ttl * 10 ^ 6)" "as_attempts s2 = as_attempts s"
          using cl True \<open>j = k\<close> ttl by (auto simp: claim_alert_def split: option.splits if_splits)
        have "claims_ok k ttl (s2\<lparr>as_attempts := as_attempts s2 @ [(Some k, ae_now env)]\<rparr>)"
          using assms(1) free s2 by (auto simp: claims_ok_def Let_def successively_append_iff)
        then show ?thesis
          using assms(1,2) base Some cl True \<open>j = k\<close> by (simp add: send_alert_def Let_def fan_out_def)
      next
        case False
        then have "s2 = persist_alert a s" using cl by (auto simp: claim_alert_def split: option.splits if_splits)
        then show ?thesis
          using assms(1,2) base Some cl False \<open>j = k\<close> by (simp add: send_alert_def Let_def)
      qed
    next
      case False
      then have other: "as_claims s2 k = as_claims s k" "as_attempts s2 = as_attempts s"
        using cl by (auto simp: claim_alert_def split: option.splits if_splits)
      have "claims_ok k ttl s2" "claims_ok k ttl (s2\<lparr>as_attempts := as_attempts s2 @ [(Some j, t)]\<rparr>)"
        "claims_ok k ttl ((persist_alert a s)\<lparr>as_attempts := as_attempts s @ [(Some j, t)]\<rparr>)" for t
        using assms(1) other False by (simp_all add: claims_ok_def)
      then show ?thesis
        using assms(1) base Some cl by (cases b; cases "j = []"; simp add: send_alert_def Let_def fan_out_def)
    qed
  qed
qed

text \<open>
  A keyed alert reaches the channels at most once per window, whatever else is sent: the times
  at which alerts of one key are handed to the channels are at least the window apart.
\<close>

theorem alerts_once_per_window:
  assumes "k \<noteq> []" "as_attempts s = []"
    and "\<forall>(env, a) \<in> set calls. ac_key a = Some k \<longrightarrow> ac_seconds a = ttl"
  shows "successively (\<lambda>t u. t + ttl * 10 ^ 6 \<le> u)
    (map snd (filter (\<lambda>v. fst v = Some k) (as_attempts (send_alerts al calls s))))"
proof -
  have "claims_ok k ttl (send_alerts al cs s)" if "claims_ok k ttl s" "set cs \<subseteq> set calls" for cs s
    using that
  proof (induction cs arbitrary: s)
    case (Cons v cs)
    then have "claims_ok k ttl (snd (send_alert al (fst v) (snd v) s))"
      using assms(1,3) by (intro send_alert_claims_ok) (auto simp: case_prod_unfold)
    then show ?case using Cons by (simp add: send_alerts_def case_prod_unfold)
  qed (simp add: send_alerts_def)
  moreover have "claims_ok k ttl s" using assms(2) by (simp add: claims_ok_def)
  ultimately have "claims_ok k ttl (send_alerts al calls s)" by blast
  then show ?thesis by (simp add: claims_ok_def Let_def)
qed

lemma alerts_once_per_window_witness:
  "successively (\<lambda>t u. t + 300 * 10 ^ 6 \<le> u)
    (map snd (filter (\<lambda>v. fst v = Some ''kill'') (as_attempts (send_alerts two_channels
      [(half_up, kill_alert), (half_up\<lparr>ae_now := 9\<rparr>, kill_alert), (half_up\<lparr>ae_now := 300000001\<rparr>, kill_alert)]
      quiet_store))))"
  by (rule alerts_once_per_window) (simp_all add: quiet_store_def kill_alert_def)

text \<open>The claim is taken before anything is delivered: when every channel fails, the alert is on record
  and still counts as sent, and its repetitions are suppressed for the window.\<close>

definition all_down :: "datetime \<Rightarrow> alert_env" where
  "all_down now = \<lparr>ae_now = now, ae_db_up = True, ae_redis_up = True, ae_reply = (\<lambda>c. Raised)\<rparr>"

lemma failed_alert_suppresses_repetition:
  assumes "al_channels al \<noteq> []" "level_rank (al_min_level al) \<le> level_rank (ac_level a)"
    and "ac_key a = Some k" "k \<noteq> []" "as_claims s k = None" "0 < ac_seconds a"
    and "t < t0 + ac_seconds a * 10 ^ 6"
  shows "fst (send_alert al (all_down t0) a s) = Inr False \<and>
    fst (send_alert al (half_up\<lparr>ae_now := t\<rparr>) a (snd (send_alert al (all_down t0) a s))) = Inr False"
  using assms
  by (simp add: send_alert_def Let_def all_down_def half_up_def claim_alert_def fan_out_def deliver_alert_def list_ex_iff)

end
