(* ===== verification/Redaction.thy ===== *)
theory Redaction
  imports Py_Text
begin

text \<open>
  \<^verbatim>\<open>ai.py\<close>: what the commentary layer lets out.  A payload is a JSON value with ASCII texts;
  what leaves is a value of a type of its own, in which a redacted value and a text cut to a prefix
  and an ellipsis have their constructors.  The call of the provider and the digest of a payload
  are parameters; the prompts are fixed texts and omitted.
\<close>

section \<open>Payloads\<close>

datatype json =
    J_null
  | J_bool bool
  | J_num rat
  | J_text string
  | J_list "json list"
  | J_dict "(string \<times> json) list"

datatype safe_json =
    S_null
  | S_bool bool
  | S_num rat
  | S_text string
  | S_redacted
  | S_cut string
  | S_list "safe_json list"
  | S_dict "(string \<times> safe_json) list"

definition FORBIDDEN_KEYS :: "string list" where
  "FORBIDDEN_KEYS = [''private_key'', ''secret'', ''keypair'', ''seed_phrase'', ''mnemonic'',
     ''api_key'', ''authorization'', ''token'', ''password'', ''signer'', ''solana_keypair'']"

text \<open>\<^verbatim>\<open>p in s\<close> for texts.\<close>

fun occurs_in :: "string \<Rightarrow> string \<Rightarrow> bool" where
  "occurs_in p [] \<longleftrightarrow> p = []"
| "occurs_in p (c # cs) \<longleftrightarrow> take (length p) (c # cs) = p \<or> occurs_in p cs"

definition forbidden_key :: "string \<Rightarrow> bool" where
  "forbidden_key key \<longleftrightarrow> list_ex (\<lambda>f. occurs_in f (map ascii_lower key)) FORBIDDEN_KEYS"

definition address_key :: "string \<Rightarrow> bool" where
  "address_key key \<longleftrightarrow>
     occurs_in ''wallet'' (map ascii_lower key) \<or> occurs_in ''mint'' (map ascii_lower key)"

definition is_letter :: "char \<Rightarrow> bool" where
  "is_letter c \<longleftrightarrow> (let n = of_char c :: nat in 65 \<le> n \<and> n \<le> 90 \<or> 97 \<le> n \<and> n \<le> 122)"

definition looks_like_address :: "string \<Rightarrow> bool" where
  "looks_like_address v \<longleftrightarrow> 32 \<le> length v \<and> length v \<le> 44 \<and>
     list_all (\<lambda>c. is_letter c \<or> is_digit c) v \<and> \<not> list_all is_digit v"

text \<open>The function inside \<^verbatim>\<open>redact\<close>, and \<^verbatim>\<open>redact\<close> on the items of a payload.\<close>

function clean :: "string \<Rightarrow> json \<Rightarrow> safe_json" where
  "clean key (J_dict kvs) =
     (if forbidden_key key then S_redacted else S_dict (map (\<lambda>(k, v). (k, clean k v)) kvs))"
| "clean key (J_list vs) =
     (if forbidden_key key then S_redacted else S_list (map (clean key) (take 100 vs)))"
| "clean key (J_text v) =
     (if forbidden_key key then S_redacted
      else if looks_like_address v \<or> address_key key then S_cut (take 6 v)
      else S_text (take 500 v))"
| "clean key J_null = (if forbidden_key key then S_redacted else S_null)"
| "clean key (J_bool b) = (if forbidden_key key then S_redacted else S_bool b)"
| "clean key (J_num x) = (if forbidden_key key then S_redacted else S_num x)"
  by pat_completeness auto

lemma size_item: "v \<in> set (take n vs) \<Longrightarrow> size v < Suc (size_list size vs)"
  using size_list_estimation' [of v vs "size v" size] by (auto dest: in_set_takeD)

lemma size_entry: "(k, v) \<in> set kvs \<Longrightarrow> size v < Suc (size_list (size_prod (\<lambda>_. 0) size) kvs)"
  by (induction kvs) auto

termination clean
  by (relation "measure (\<lambda>(key, v). size v)") (auto dest: size_item size_entry)

definition redact :: "(string \<times> json) list \<Rightarrow> (string \<times> safe_json) list" where
  "redact payload = map (\<lambda>(k, v). (k, clean k v)) payload"

section \<open>The analyst\<close>

datatype ai_error = Ai_unavailable | Ai_raised

text \<open>A status of 400 and more, or the content blocks with their types and texts.\<close>

datatype ai_reply = Ai_status int | Ai_content "(string \<times> string) list" | Ai_transport_error

record commentary =
  cm_text :: string
  cm_digest :: string
  cm_advisory_only :: bool

definition blocks_text :: "(string \<times> string) list \<Rightarrow> string" where
  "blocks_text blocks = strip (concat (map snd (filter (\<lambda>b. fst b = ''text'') blocks)))"

definition analyse ::
    "((string \<times> safe_json) list \<Rightarrow> string) \<Rightarrow> (string \<Rightarrow> (string \<times> safe_json) list \<Rightarrow> ai_reply) \<Rightarrow>
       string \<Rightarrow> string \<Rightarrow> (string \<times> json) list \<Rightarrow> ai_error + commentary" where
  "analyse digest post api_key question data =
     (if api_key = [] then Inl Ai_unavailable
      else let safe = redact data
           in case post question safe of
                Ai_transport_error \<Rightarrow> Inl Ai_raised
              | Ai_status code \<Rightarrow> Inl Ai_unavailable
              | Ai_content blocks \<Rightarrow>
                  let text' = blocks_text blocks
                  in Inr \<lparr>cm_text = (if text' = [] then ''(empty response)'' else text'),
                          cm_digest = digest safe, cm_advisory_only = True\<rparr>)"

section \<open>What is let out\<close>

text \<open>
  A safe value under a key: nothing but the mark under a forbidden key, cut texts of at most six
  characters, no other text that looks like an address or stands under an address key, bounded
  texts and lists.
\<close>

fun safe_under :: "string \<Rightarrow> safe_json \<Rightarrow> bool" where
  "safe_under key S_redacted \<longleftrightarrow> True"
| "safe_under key (S_text v) \<longleftrightarrow> \<not> forbidden_key key \<and> \<not> address_key key \<and> \<not> looks_like_address v \<and> length v \<le> 500"
| "safe_under key (S_cut v) \<longleftrightarrow> \<not> forbidden_key key \<and> length v \<le> 6"
| "safe_under key (S_list vs) \<longleftrightarrow> \<not> forbidden_key key \<and> length vs \<le> 100 \<and> list_all (safe_under key) vs"
| "safe_under key (S_dict kvs) \<longleftrightarrow> \<not> forbidden_key key \<and> list_all (\<lambda>(k, v). safe_under k v) kvs"
| "safe_under key v \<longleftrightarrow> \<not> forbidden_key key"

lemma cut_text_no_address: "\<not> looks_like_address v \<Longrightarrow> \<not> looks_like_address (take 500 v)"
  by (cases "length v \<le> 500") (auto simp: looks_like_address_def)

lemma clean_safe: "safe_under key (clean key v)"
proof (induction key v rule: clean.induct)
  case (1 key kvs)
  then show ?case by (auto simp: list_all_iff)
next
  case (2 key vs)
  then show ?case by (auto simp: list_all_iff)
qed (simp_all add: cut_text_no_address)

text \<open>Two values that a reader of the cleaned ones cannot tell apart.\<close>

inductive same_public :: "string \<Rightarrow> json \<Rightarrow> json \<Rightarrow> bool" where
  sp_refl: "same_public key v v"
| sp_forbidden: "forbidden_key key \<Longrightarrow> same_public key v w"
| sp_address: "looks_like_address v \<or> address_key key \<Longrightarrow> looks_like_address w \<or> address_key key \<Longrightarrow>
    take 6 v = take 6 w \<Longrightarrow> same_public key (J_text v) (J_text w)"
| sp_list: "list_all2 (same_public key) (take 100 vs) (take 100 ws) \<Longrightarrow>
    same_public key (J_list vs) (J_list ws)"
| sp_dict: "list_all2 (\<lambda>a b. fst a = fst b \<and> same_public (fst a) (snd a) (snd b)) kvs lvs \<Longrightarrow>
    same_public key (J_dict kvs) (J_dict lvs)"
  monos list_all2_mono

lemma map_eq_if_all2: "list_all2 (\<lambda>x y. f x = f y) xs ys \<Longrightarrow> map f xs = map f ys"
  by (induction rule: list_all2_induct) simp_all

lemma same_public_clean: "same_public key v w \<Longrightarrow> clean key v = clean key w"
proof (induction rule: same_public.induct)
  case (sp_forbidden key v w)
  then show ?case by (cases v; cases w; simp)
next
  case (sp_list key vs ws)
  then have "map (clean key) (take 100 vs) = map (clean key) (take 100 ws)"
    by (intro map_eq_if_all2) (auto elim: list_all2_mono)
  then show ?case by simp
next
  case (sp_dict kvs lvs key)
  have "list_all2 (\<lambda>x y. (\<lambda>(k, v). (k, clean k v)) x = (\<lambda>(k, v). (k, clean k v)) y) kvs lvs"
    using sp_dict by (elim list_all2_mono) (auto simp: case_prod_unfold)
  then have "map (\<lambda>(k, v). (k, clean k v)) kvs = map (\<lambda>(k, v). (k, clean k v)) lvs"
    by (rule map_eq_if_all2)
  then show ?case by simp
qed auto



text \<open>The keys of a payload are not looked at: an address that is a key leaves in full.\<close>

lemma addresses_leave_as_keys:
  "looks_like_address w \<Longrightarrow> \<not> forbidden_key ''by_trader'' \<Longrightarrow>
   redact [(''by_trader'', J_dict [(w, J_num x)])] =
     [(''by_trader'', S_dict [(w, if forbidden_key w then S_redacted else S_num x)])]"
  by (simp add: redact_def)

end
