(* ===== verification/Operations.thy ===== *)
theory Operations
  imports Analytics Alerts Redaction Trader_Lifecycle
begin

text \<open>
  \<^verbatim>\<open>services/tasks/ops.py\<close>: the snapshot of the equity curve, the attribution of profit to
  traders, the daily and the weekly report.  The daily metrics are the columns the attribution
  writes.  At the end: the attribution is not read by the scoring, so that the score of the live
  replication, which is meant to dominate, is never measured.
\<close>

section \<open>Snapshots\<close>

record equity_point =
  eq_mode :: string
  eq_portfolio :: portfolio_state
  eq_equity :: usd
  eq_drawdown :: pct
  eq_captured_at :: datetime

definition snapshot_portfolio :: "settings \<Rightarrow> datetime \<Rightarrow> ledger_store \<Rightarrow> equity_point list \<Rightarrow> equity_point list" where
  "snapshot_portfolio st now s points =
     (let snap = snapshot s
      in points @ [\<lparr>eq_mode = mode_value (mode_setting st), eq_portfolio = snap,
           eq_equity = total_equity_usd snap, eq_drawdown = drawdown_pct snap, eq_captured_at = now\<rparr>])"

definition reset_daily_counters :: "ledger_store \<Rightarrow> ledger_store" where
  "reset_daily_counters s = reset_daily s"

section \<open>Attribution\<close>

record daily_metric =
  dm_trader :: nat
  dm_day :: datetime
  dm_trades :: nat
  dm_copied_pnl :: usd

definition day_start :: "datetime \<Rightarrow> datetime" where
  "day_start now = now - now mod (86400 * 10 ^ 6)"

definition metric_for :: "datetime \<Rightarrow> position list \<Rightarrow> string \<Rightarrow> nat \<Rightarrow> daily_metric" where
  "metric_for day ps w tid =
     (let own = filter (\<lambda>p. p_trader_wallet p = w) ps
      in \<lparr>dm_trader = tid, dm_day = day, dm_trades = length own,
          dm_copied_pnl = sum_list (map p_realized_pnl_usd own)\<rparr>)"

definition attribute_trader ::
    "database \<Rightarrow> datetime \<Rightarrow> position list \<Rightarrow> string \<Rightarrow> nat \<times> daily_metric list \<Rightarrow> nat \<times> daily_metric list" where
  "attribute_trader d day ps w s =
     (case get_trader w d of
        None \<Rightarrow> s
      | Some r \<Rightarrow>
          let ours = (\<lambda>m. dm_trader m = tw_id r \<and> dm_day m = day); new = metric_for day ps w (tw_id r)
          in (fst s + 1,
              if list_ex ours (snd s)
                then update_where ours (\<lambda>m. m\<lparr>dm_trades := dm_trades new, dm_copied_pnl := dm_copied_pnl new\<rparr>) (snd s)
              else snd s @ [new]))"

definition attribute_performance ::
    "settings \<Rightarrow> datetime \<Rightarrow> database \<Rightarrow> daily_metric list \<Rightarrow> nat \<times> daily_metric list" where
  "attribute_performance st now d metrics =
     (let day = day_start now;
          ps = filter (closed_since day (mode_value (mode_setting st))) (db_positions d)
      in fold (attribute_trader d day ps) (wallets_of ps) (0, metrics))"

section \<open>Reports\<close>

record daily_summary =
  dy_decisions :: "(string \<times> nat) list"
  dy_top_rejections :: "(string \<times> nat) list"
  dy_closed :: nat
  dy_realized :: usd
  dy_equity :: usd
  dy_drawdown :: pct
  dy_open_positions :: int
  dy_harvested :: usd

definition daily_report ::
    "settings \<Rightarrow> datetime \<Rightarrow> dated_decision list \<Rightarrow> ledger_store \<Rightarrow> database \<Rightarrow> daily_summary \<times> database" where
  "daily_report st now rows ledger d =
     (let since = now - 86400 * 10 ^ 6; m = mode_value (mode_setting st);
          decided = map (\<lambda>v. decision_value (d_decision (dr_decision (snd v)))) (filter (in_window since m) rows);
          closed = filter (closed_since since m) (db_positions d);
          snap = snapshot ledger
      in (\<lparr>dy_decisions = tally decided [], dy_top_rejections = rejection_counts since m (Some 10) rows,
           dy_closed = length closed, dy_realized = sum_list (map p_realized_pnl_usd closed),
           dy_equity = total_equity_usd snap, dy_drawdown = drawdown_pct snap,
           dy_open_positions = pf_open_positions snap, dy_harvested = pf_harvested_total_usd snap\<rparr>,
          add_alert ''info'' ''report'' d))"

text \<open>\<^verbatim>\<open>weekly_review\<close>: whatever the commentary fails with, the statistics are reported.\<close>

definition weekly_review ::
    "alerter \<Rightarrow> alert_env \<Rightarrow> string \<Rightarrow> (ai_error + commentary) \<Rightarrow> alert_store \<Rightarrow>
       (py_error + commentary option) \<times> alert_store" where
  "weekly_review al env api_key answer s =
     (let note = (if api_key = [] then None else case answer of Inl e \<Rightarrow> None | Inr c \<Rightarrow> Some c);
          s1 = s\<lparr>as_db := add_alert ''info'' ''report'' (as_db s)\<rparr>
      in case send_alert al env \<lparr>ac_level = Level_info, ac_category = Cat_report, ac_key = None, ac_seconds = 300\<rparr> s1 of
           (Inl e, s2) \<Rightarrow> (Inl e, s2)
         | (Inr b, s2) \<Rightarrow> (Inr note, s2))"

text \<open>One review leaves two alert rows, and by default it is delivered to no channel.\<close>

lemma weekly_review_logs_twice:
  assumes "ae_db_up env"
  shows "db_alerts (as_db (snd (weekly_review al env key answer s))) =
    db_alerts (as_db s) @ [(''info'', ''report''), (''info'', ''report'')]"
  using assms
  by (simp add: weekly_review_def Let_def send_alert_def persist_alert_def add_alert_def fan_out_def split: prod.split)

lemma weekly_review_undelivered:
  assumes "ae_db_up env" "new_alerter default_settings = Inr al"
  shows "as_attempts (snd (weekly_review al env key answer s)) = as_attempts s"
proof -
  have "al_min_level al = Level_warning"
    using assms(2) by (auto simp: new_alerter_def level_of_text_def default_settings_def)
  then show ?thesis
    using assms(1) by (simp add: weekly_review_def Let_def send_alert_def persist_alert_def)
qed

section \<open>Attribution is exact\<close>

definition attributed :: "database \<Rightarrow> datetime \<Rightarrow> position list \<Rightarrow> string \<Rightarrow> daily_metric list \<Rightarrow> bool" where
  "attributed d day ps w ms \<longleftrightarrow>
     (case get_trader w d of None \<Rightarrow> True
      | Some r \<Rightarrow> metric_for day ps w (tw_id r) \<in> set ms \<and>
          (\<forall>m \<in> set ms. dm_trader m = tw_id r \<longrightarrow> dm_day m = day \<longrightarrow> m = metric_for day ps w (tw_id r)))"

lemma metric_for_fields [simp]:
  "dm_trader (metric_for day ps w tid) = tid" "dm_day (metric_for day ps w tid) = day"
  by (simp_all add: metric_for_def Let_def)

lemma metric_eqI:
  "dm_trader m = dm_trader n \<Longrightarrow> dm_day m = dm_day n \<Longrightarrow>
   m\<lparr>dm_trades := dm_trades n, dm_copied_pnl := dm_copied_pnl n\<rparr> = (n :: daily_metric)"
  by (cases m; cases n) simp

lemma attribute_trader_self: "attributed d day ps w (snd (attribute_trader d day ps w s))"
proof (cases "get_trader w d")
  case (Some r)
  define new where "new = metric_for day ps w (tw_id r)"
  have upd: "(if dm_trader m = tw_id r \<and> dm_day m = day
      then m\<lparr>dm_trades := dm_trades new, dm_copied_pnl := dm_copied_pnl new\<rparr> else m) =
    (if dm_trader m = tw_id r \<and> dm_day m = day then new else m)" for m
    using metric_eqI [of m new] by (simp add: new_def)
  show ?thesis
    by (auto simp: attributed_def attribute_trader_def Some Let_def new_def [symmetric] list_ex_iff
        update_where_def upd)
qed (simp add: attributed_def)

lemma attribute_trader_set:
  assumes "get_trader w d = Some q" "dm_trader m \<noteq> tw_id q"
  shows "m \<in> set (snd (attribute_trader d day ps w s)) \<longleftrightarrow> m \<in> set (snd s)"
proof -
  define f where "f = (\<lambda>n :: daily_metric. if dm_trader n = tw_id q \<and> dm_day n = day
    then n\<lparr>dm_trades := dm_trades (metric_for day ps w (tw_id q)),
      dm_copied_pnl := dm_copied_pnl (metric_for day ps w (tw_id q))\<rparr> else n)"
  have f: "m \<in> f ` set ms \<longleftrightarrow> m \<in> set ms" for ms
  proof
    assume "m \<in> f ` set ms"
    then obtain n where n: "n \<in> set ms" "m = f n" by blast
    then show "m \<in> set ms" using assms(2) by (cases "dm_trader n = tw_id q \<and> dm_day n = day") (simp_all add: f_def)
  next
    assume "m \<in> set ms"
    then show "m \<in> f ` set ms" using assms(2) by (intro rev_image_eqI [of m]) (simp_all add: f_def)
  qed
  have "m \<noteq> metric_for day ps w (tw_id q)" using assms(2) by auto
  then show ?thesis
    using f by (simp add: attribute_trader_def assms(1) Let_def update_where_def f_def [symmetric])
qed

lemma attribute_trader_other:
  assumes "attributed d day ps v (snd s)" "distinct (map tw_id (db_traders d))" "v \<noteq> w"
  shows "attributed d day ps v (snd (attribute_trader d day ps w s))"
proof (cases "get_trader v d")
  case (Some r)
  show ?thesis
  proof (cases "get_trader w d")
    case None
    then show ?thesis using assms(1) by (simp add: attribute_trader_def)
  next
    case w: (Some q)
    have "tw_wallet r = v" "tw_wallet q = w" "r \<in> set (db_traders d)" "q \<in> set (db_traders d)"
      using get_trader_wallet [OF Some] get_trader_wallet [OF w] by auto
    then have ids: "tw_id r \<noteq> tw_id q" using assms(2,3) by (metis distinct_map inj_on_def)
    have "m \<in> set (snd (attribute_trader d day ps w s)) \<longleftrightarrow> m \<in> set (snd s)" if "dm_trader m = tw_id r" for m
      using attribute_trader_set [OF w, of m] ids that by simp
    then show ?thesis using assms(1) by (auto simp: attributed_def Some)
  qed
qed (simp add: attributed_def)

lemma attribute_all:
  assumes "distinct (map tw_id (db_traders d))" "distinct ws"
  shows "\<forall>w \<in> set ws. attributed d day ps w (snd (fold (attribute_trader d day ps) ws s))"
  using assms(2)
proof (induction ws rule: rev_induct)
  case (snoc w ws)
  define t where "t = fold (attribute_trader d day ps) ws s"
  have "attributed d day ps v (snd (attribute_trader d day ps w t))" if "v \<in> set (ws @ [w])" for v
  proof (cases "v = w")
    case False
    then have "attributed d day ps v (snd t)" using snoc that by (simp add: t_def)
    then show ?thesis using attribute_trader_other [OF _ assms(1) False] by blast
  qed (simp add: attribute_trader_self)
  then show ?case by (simp add: t_def)
qed simp

lemma attribute_again:
  assumes "attributed d day ps w (snd s)"
  shows "snd (attribute_trader d day ps w s) = snd s"
proof (cases "get_trader w d")
  case (Some r)
  define new where "new = metric_for day ps w (tw_id r)"
  have new: "new \<in> set (snd s)" "\<And>m. m \<in> set (snd s) \<Longrightarrow> dm_trader m = tw_id r \<Longrightarrow> dm_day m = day \<Longrightarrow> m = new"
    using assms by (auto simp: attributed_def Some new_def)
  have "list_ex (\<lambda>m. dm_trader m = tw_id r \<and> dm_day m = day) (snd s)"
    using new(1) unfolding list_ex_iff by (intro bexI [of _ new]) (simp_all add: new_def)
  moreover have "update_where (\<lambda>m. dm_trader m = tw_id r \<and> dm_day m = day)
      (\<lambda>m. m\<lparr>dm_trades := dm_trades new, dm_copied_pnl := dm_copied_pnl new\<rparr>) (snd s) = snd s"
    unfolding update_where_def by (rule map_idI) (auto dest: new(2))
  ultimately show ?thesis by (simp add: attribute_trader_def Some Let_def new_def)
qed (simp add: attribute_trader_def)

lemma filter_single:
  assumes "distinct xs" "x \<in> set xs" "P x" "\<And>y. y \<in> set xs \<Longrightarrow> P y \<Longrightarrow> y = x"
  shows "filter P xs = [x]"
proof -
  have "filter P xs = filter (\<lambda>y. y = x) xs" using assms(3,4) by (intro filter_cong) auto
  also have "\<dots> = [x]" using assms(1,2) by (induction xs) (auto simp: filter_empty_conv)
  finally show ?thesis .
qed

text \<open>
  The attribution of a day is exact and may run as often as it likes: after a run each known
  trader with a position closed that day has that day's one metric, which counts its closed
  positions and adds up their realised profit, and a second run at the same state changes nothing.
\<close>

theorem attribution_exact:
  assumes "distinct (map tw_id (db_traders d))"
    and "attribute_performance st now d ms = (n, ms')"
  shows "(\<forall>w r. get_trader w d = Some r \<longrightarrow>
      w \<in> set (wallets_of (filter (closed_since (day_start now) (mode_value (mode_setting st))) (db_positions d))) \<longrightarrow>
      filter (\<lambda>m. dm_trader m = tw_id r \<and> dm_day m = day_start now) (remdups ms') =
        [metric_for (day_start now) (filter (closed_since (day_start now) (mode_value (mode_setting st))) (db_positions d))
           w (tw_id r)]) \<and>
    snd (attribute_performance st now d ms') = ms'"
proof -
  define day where "day = day_start now"
  define ps where "ps = filter (closed_since day (mode_value (mode_setting st))) (db_positions d)"
  have run: "ms' = snd (fold (attribute_trader d day ps) (wallets_of ps) (0, ms))"
    using assms(2) by (simp add: attribute_performance_def Let_def day_def ps_def)
  have all: "\<forall>w \<in> set (wallets_of ps). attributed d day ps w ms'"
    unfolding run using attribute_all [OF assms(1), of "wallets_of ps"] by (simp add: wallets_of_def)
  have again: "snd (fold (attribute_trader d day ps) ws (k, ms')) = ms'" if "set ws \<subseteq> set (wallets_of ps)" for ws k
    using that
  proof (induction ws arbitrary: k)
    case (Cons w ws)
    have "snd (attribute_trader d day ps w (k, ms')) = ms'"
      using all Cons.prems attribute_again [of d day ps w "(k, ms')"] by simp
    then obtain j where "attribute_trader d day ps w (k, ms') = (j, ms')" by (metis prod.collapse)
    then show ?case using Cons by simp
  qed simp
  have "filter (\<lambda>m. dm_trader m = tw_id r \<and> dm_day m = day) (remdups ms') = [metric_for day ps w (tw_id r)]"
    if "get_trader w d = Some r" "w \<in> set (wallets_of ps)" for w r
    using all that by (intro filter_single) (auto simp: attributed_def)
  moreover have "snd (attribute_performance st now d ms') = ms'"
    using again [of "wallets_of ps" 0] by (simp add: attribute_performance_def Let_def day_def [symmetric] ps_def [symmetric])
  ultimately show ?thesis by (simp add: day_def [symmetric] ps_def [symmetric])
qed

definition closed_sample :: database where
  "closed_sample = empty_database\<lparr>db_traders := [new_trader_row 4 0 ''w''],
     db_positions := [\<lparr>p_id = 1, p_token_mint = ''m'', p_trader_wallet = ''w'', p_status = POS_CLOSED,
       p_decimals = 6, p_amount_raw = 0, p_cost_basis_usd = 50, p_realized_pnl_usd = 35, p_fees_usd = 0,
       p_entry_price = 1, p_current_price = 2, p_peak_price = 2, p_trailing_armed = False,
       p_tp_levels_hit = [], p_opened_at = 1, p_closed_at = Some 5, p_source_trade_id = None,
       p_mode = mode_value MODE_PAPER\<rparr>]\<rparr>"

lemma attribution_exact_witness:
  "filter (\<lambda>m. dm_trader m = 4 \<and> dm_day m = 0)
      (remdups (snd (attribute_performance default_settings 9 closed_sample []))) =
    [\<lparr>dm_trader = 4, dm_day = 0, dm_trades = 1, dm_copied_pnl = 35\<rparr>]"
proof -
  obtain n ms' where run: "attribute_performance default_settings 9 closed_sample [] = (n, ms')" by fastforce
  have day: "day_start 9 = 0" by (simp add: day_start_def)
  have ps: "filter (closed_since 0 (mode_value (mode_setting default_settings))) (db_positions closed_sample) =
      db_positions closed_sample"
    by (simp add: closed_sample_def closed_since_def default_settings_def)
  have row: "get_trader ''w'' closed_sample = Some (new_trader_row 4 0 ''w'')" "tw_id (new_trader_row 4 0 ''w'') = 4"
    by (simp_all add: get_trader_def closed_sample_def new_trader_row_def)
  have "distinct (map tw_id (db_traders closed_sample))" by (simp add: closed_sample_def)
  from conjunct1 [OF attribution_exact [OF this run]] row
  have "filter (\<lambda>m. dm_trader m = 4 \<and> dm_day m = 0) (remdups ms') = [metric_for 0 (db_positions closed_sample) ''w'' 4]"
    unfolding day ps by (auto simp: wallets_of_def closed_sample_def)
  then show ?thesis unfolding run by (simp add: metric_for_def closed_sample_def)
qed

section \<open>The feedback never arrives\<close>

text \<open>No score and no trader row holds a measured live replication.\<close>

definition unmeasured :: "database \<Rightarrow> bool" where
  "unmeasured d \<longleftrightarrow> (\<forall>r \<in> set (db_traders d). tw_live_replication r = None) \<and>
     (\<forall>s \<in> set (db_scores d). sc_live_replication (sr_scores s) = None)"

named_theorems unmeasured_intros "writes that measure no live replication"

lemma unmeasured_rows:
  "unmeasured d \<Longrightarrow> (\<And>r. tw_live_replication (f r) = tw_live_replication r) \<Longrightarrow>
   unmeasured (d\<lparr>db_traders := update_where c f (db_traders d)\<rparr>)"
  by (auto simp: unmeasured_def update_where_def)

lemma unmeasured_set [unmeasured_intros]: "unmeasured d \<Longrightarrow> unmeasured (set_trader_status w s now d)"
  by (auto simp: unmeasured_def set_trader_status_def update_where_def)

lemma unmeasured_logs [simp]:
  "unmeasured (log_event t a d) = unmeasured d" "unmeasured (log_risk_event k v d) = unmeasured d"
  "unmeasured (repo_log_audit actor act d) = unmeasured d"
  by (simp_all add: unmeasured_def log_event_def log_risk_event_def repo_log_audit_def)

lemma unmeasured_upsert [unmeasured_intros]:
  "unmeasured d \<Longrightarrow> unmeasured (upsert_trader tid now w src label st meta d)"
  by (auto simp: unmeasured_def upsert_trader_def Let_def update_where_def new_trader_row_def split: option.splits)

definition unrealized :: "trade_outcome list \<Rightarrow> bool" where
  "unrealized outs \<longleftrightarrow> (\<forall>o' \<in> set outs. to_realized_return_pct o' = None)"

lemma match_sell_unrealized: "unrealized (fst (match_sell t n lots))"
  by (induction t n lots rule: match_sell.induct)
    (auto simp: unrealized_def round_trip_def Let_def split: if_splits prod.splits)

lemma pair_step_unrealized: "unrealized (snd s) \<Longrightarrow> unrealized (snd (pair_step t s))"
proof -
  assume s: "unrealized (snd s)"
  obtain lots outcomes where eq: "s = (lots, outcomes)" by fastforce
  obtain outs rest where m: "match_sell t (st_token_amount_raw t) (lots (st_token_mint t)) = (outs, rest)" by fastforce
  have "unrealized outs" using match_sell_unrealized [of t "st_token_amount_raw t" "lots (st_token_mint t)"] m by simp
  then have "unrealized (outcomes @ outs)" using s by (auto simp: eq unrealized_def)
  then show ?thesis using s by (simp add: pair_step_def eq Let_def m)
qed

lemma pair_round_trips_unrealized:
  "o' \<in> set (pair_round_trips trades) \<Longrightarrow> to_realized_return_pct o' = None"
proof -
  have "unrealized (snd (fold pair_step ts s))" if "unrealized (snd s)" for ts s
    using that by (induction ts arbitrary: s) (simp_all add: pair_step_unrealized)
  from this [of "(\<lambda>_. [], [])" trades] show "o' \<in> set (pair_round_trips trades) \<Longrightarrow> to_realized_return_pct o' = None"
    by (simp add: pair_round_trips_def unrealized_def)
qed

lemma backfill_scores_unmeasured:
  "sc_live_replication (compute_scores now (stats_of w trades (pair_round_trips ts))) = None"
proof -
  have none: "concat (map (\<lambda>o'. case to_realized_return_pct o' of None \<Rightarrow> [] | Some r \<Rightarrow> [r]) (pair_round_trips ts)) = []"
    using pair_round_trips_unrealized by auto
  have outs: "ts_outcomes (stats_of w trades (pair_round_trips ts)) = pair_round_trips ts" by (simp add: stats_of_def)
  have "live_replication_score (stats_of w trades (pair_round_trips ts)) = None"
    unfolding live_replication_score_def outs none by simp
  then show ?thesis by (simp add: compute_scores_def Let_def)
qed

lemma unmeasured_save [unmeasured_intros]:
  "unmeasured d \<Longrightarrow> sc_live_replication sc = None \<Longrightarrow> unmeasured (save_scores tid sc now d)"
  by (auto simp: unmeasured_def save_scores_def update_where_def)

lemma store_scores_unmeasured:
  assumes "unmeasured d" "sc_live_replication sc = None"
  shows "unmeasured (store_scores env w n stats sc d)"
proof -
  define d1 where "d1 = (if get_trader w d = None
    then upsert_trader (ie_new_id env w) (ie_now env) w ''seed'' None None [] d else d)"
  have d1: "unmeasured d1" using assms(1) by (simp add: d1_def unmeasured_intros)
  show ?thesis
  proof (cases "get_trader w d1")
    case None
    then show ?thesis using d1 by (simp add: store_scores_def Let_def d1_def [symmetric])
  next
    case (Some row)
    define d2 where "d2 = save_scores (tw_id row) sc (ie_now env) d1"
    have d2: "unmeasured d2" using d1 assms(2) by (simp add: d2_def unmeasured_intros)
    have "unmeasured (d2\<lparr>db_traders := update_where (\<lambda>r. tw_id r = tw_id row) (profile_columns stats n) (db_traders d2)\<rparr>)"
      by (rule unmeasured_rows [OF d2]) (simp add: profile_columns_def Let_def)
    then show ?thesis
      using Some by (simp add: store_scores_def Let_def d1_def [symmetric] d2_def [symmetric] update_status_def
          unmeasured_intros)
  qed
qed

lemma backfill_wallet_unmeasured: "unmeasured d \<Longrightarrow> unmeasured (snd (backfill_wallet env w pages d))"
  by (simp add: backfill_wallet_def Let_def store_scores_unmeasured backfill_scores_unmeasured split: sum.split)

lemma rescore_each_unmeasured: "unmeasured d \<Longrightarrow> unmeasured (snd (rescore_each env pages ws rep d))"
proof (induction env pages ws rep d rule: rescore_each.induct)
  case (2 env pages w lt tid rest rep d)
  then show ?case using backfill_wallet_unmeasured [of d env w pages] by (auto split: sum.split prod.split)
qed simp

lemma backfill_each_unmeasured: "unmeasured d \<Longrightarrow> unmeasured (snd (backfill_each env pages ws rep d))"
proof (induction env pages ws rep d rule: backfill_each.induct)
  case (2 env pages w ws sc failed d)
  then show ?case using backfill_wallet_unmeasured [of d env w pages] by (auto split: sum.split prod.split)
qed simp

lemma fold_unmeasured:
  "(\<And>x s. unmeasured (snd s) \<Longrightarrow> unmeasured (snd (f x s))) \<Longrightarrow> unmeasured (snd s) \<Longrightarrow> unmeasured (snd (fold f xs s))"
  by (induction xs arbitrary: s) auto

lemma folds_unmeasured:
  "unmeasured d \<Longrightarrow> unmeasured (snd (fold (decay_trader now) rs (ws, d)))"
  "unmeasured d \<Longrightarrow> unmeasured (snd (fold (retire_idle now cutoff) us (ws, d)))"
  "unmeasured d \<Longrightarrow> unmeasured (snd (fold refresh_metadata ps (n, d)))"
  "unmeasured d \<Longrightarrow> unmeasured (fold (add_candidate denv meta) es d)"
proof -
  show "unmeasured (snd (fold (decay_trader now) rs (ws, d)))" if "unmeasured d"
    using that by (intro fold_unmeasured) (auto simp: decay_trader_def intro: unmeasured_intros split: prod.splits)
  show "unmeasured (snd (fold (retire_idle now cutoff) us (ws, d)))" if "unmeasured d"
    using that by (intro fold_unmeasured)
      (auto simp: retire_idle_def intro: unmeasured_intros split: prod.splits option.splits)
  show "unmeasured (snd (fold refresh_metadata ps (n, d)))" if "unmeasured d"
    using that by (intro fold_unmeasured)
      (auto simp: refresh_metadata_def Let_def intro!: unmeasured_rows split: prod.splits)
  show "unmeasured (fold (add_candidate denv meta) es d)" if "unmeasured d"
    using that by (induction es arbitrary: d) (auto simp: add_candidate_def Let_def unmeasured_intros)
qed

lemma roster_unmeasured: "unmeasured d \<Longrightarrow> unmeasured (snd (maintain_roster dia st now d))"
proof -
  assume d: "unmeasured d"
  have "tw_live_replication (roster_row dia st now d r) = tw_live_replication r" for r
    by (simp add: roster_row_def Let_def set_status_row_def)
  moreover have "db_scores (snd (maintain_roster dia st now d)) = db_scores d"
  proof -
    have set: "db_scores (fold (\<lambda>w. set_trader_status w s now) ws e) = db_scores e" for s ws e
      by (induction ws arbitrary: e) (simp_all add: set_trader_status_def)
    show ?thesis by (simp add: maintain_roster_def Let_def promote_rows demote_rows log_event_def set split: prod.split)
  qed
  ultimately show ?thesis using d by (auto simp: unmeasured_def maintain_roster_rows)
qed

lemma graph_unmeasured: "unmeasured (gs_db g) \<Longrightarrow> unmeasured (gs_db (snd (rebuild_wallet_graph now days g)))"
proof -
  have "\<forall>r \<in> set (fold limit_cluster cs rows). tw_live_replication r = None"
    if "\<forall>r \<in> set rows. tw_live_replication r = None" for cs rows
    using that
  proof (induction cs arbitrary: rows)
    case (Cons c cs)
    have "\<forall>r \<in> set (limit_cluster c rows). tw_live_replication r = None"
      using Cons.prems by (auto simp: limit_cluster_def update_where_def)
    then show ?case using Cons.IH by simp
  qed simp
  then show "unmeasured (gs_db g) \<Longrightarrow> unmeasured (gs_db (snd (rebuild_wallet_graph now days g)))"
    by (auto simp: rebuild_wallet_graph_def Let_def unmeasured_def split: option.split)
qed

lemma discover_unmeasured: "unmeasured d \<Longrightarrow> unmeasured (snd (discover_wallets st env auto_add d))"
  unfolding discover_wallets_def Let_def by (simp add: folds_unmeasured)

lemma refresh_unmeasured: "unmeasured d \<Longrightarrow> unmeasured (snd (refresh_watchlist env days d))"
proof -
  assume d: "unmeasured d"
  define wallets where "wallets = map (\<lambda>r. (tw_wallet r, tw_last_trade_at r)) (watched_rows d)"
  define cutoff where "cutoff = de_now env - days * 86400 * 10 ^ 6"
  obtain retired d1 where s: "fold (retire_idle (de_now env) cutoff) wallets ([], d) = (retired, d1)"
    by fastforce
  then have d1: "unmeasured d1" using folds_unmeasured(2) [OF d] by (metis snd_conv)
  obtain n d2 where m: "fold refresh_metadata (wallet_profits (de_gmgn env)
      (take 300 (filter (\<lambda>w. w \<notin> set retired) (map fst wallets)))) (0, d1) = (n, d2)" by fastforce
  then have "unmeasured d2" using folds_unmeasured(3) [OF d1] by (metis snd_conv)
  then show ?thesis
    using d1 unfolding refresh_watchlist_def Let_def wallets_def [symmetric] cutoff_def [symmetric] s prod.case m
    by simp
qed

lemma remove_unmeasured: "unmeasured (su_db s) \<Longrightarrow> unmeasured (su_db (snd (remove_wallet now w s)))"
  by (simp add: remove_wallet_def set_status_route_def unmeasured_intros split: option.split)



end
