(* ===== verification/Read_Routes.thy ===== *)
theory Read_Routes
  imports Operations Backtest_Loader
begin

text \<open>
  The pages of the API that only read: \<^verbatim>\<open>routes/traders.py\<close>, \<^verbatim>\<open>routes/trades.py\<close>,
  \<^verbatim>\<open>routes/portfolio.py\<close>.  A route yields the rows that the page shows, in their order; the
  rendering of a row is omitted.  An unknown trader or decision is a 404, an unknown position an
  object with an error; \<^verbatim>\<open>ORDER BY\<close> on a score compares what the backend stores.
\<close>

datatype 'a reply = Page 'a | Not_found

definition desc_by :: "('a \<Rightarrow> int) \<Rightarrow> 'a list \<Rightarrow> 'a list" where
  "desc_by f rows = sort_key (\<lambda>r. - f r) rows"

section \<open>Traders\<close>

text \<open>An empty status is no filter; a status that no row has gives an empty list.\<close>

definition list_traders :: "dialect \<Rightarrow> string option \<Rightarrow> nat \<Rightarrow> database \<Rightarrow> trader_row list" where
  "list_traders dia status limit d =
     take limit (by_composite dia d
       (case status of None \<Rightarrow> db_traders d
        | Some s \<Rightarrow> if s = [] then db_traders d
            else filter (\<lambda>r. trader_status_value (tw_status r) = s) (db_traders d)))"

definition trader_page :: "string \<Rightarrow> database \<Rightarrow> trader_row reply" where
  "trader_page wallet d = (case get_trader wallet d of None \<Rightarrow> Not_found | Some r \<Rightarrow> Page r)"

definition trader_performance :: "string \<Rightarrow> nat \<Rightarrow> database \<Rightarrow> daily_metric list \<Rightarrow> daily_metric list reply" where
  "trader_performance wallet limit d metrics =
     (case get_trader wallet d of
        None \<Rightarrow> Not_found
      | Some r \<Rightarrow> Page (take limit (desc_by dm_day (filter (\<lambda>m. dm_trader m = tw_id r) metrics))))"

definition trader_copyability :: "string \<Rightarrow> database \<Rightarrow> (trader_row \<times> score_row list) reply" where
  "trader_copyability wallet d =
     (case get_trader wallet d of
        None \<Rightarrow> Not_found
      | Some r \<Rightarrow> Page (r, take 20 (scores_of (tw_id r) d)))"

section \<open>Trades\<close>

definition filter_if :: "string option \<Rightarrow> ('a \<Rightarrow> string) \<Rightarrow> 'a list \<Rightarrow> 'a list" where
  "filter_if v f rows = (case v of None \<Rightarrow> rows | Some x \<Rightarrow> if x = [] then rows else filter (\<lambda>r. f r = x) rows)"

definition list_trades ::
    "settings \<Rightarrow> string option \<Rightarrow> string option \<Rightarrow> nat \<Rightarrow> dated_decision list \<Rightarrow> dated_decision list" where
  "list_trades st wanted wallet limit rows =
     take limit (desc_by fst
       (filter_if wallet (\<lambda>v. dr_wallet (snd v))
         (filter_if wanted (\<lambda>v. decision_value (d_decision (dr_decision (snd v))))
           (filter (\<lambda>v. dr_mode (snd v) = mode_value (mode_setting st)) rows))))"

definition rejection_stats :: "settings \<Rightarrow> datetime \<Rightarrow> int \<Rightarrow> dated_decision list \<Rightarrow> (string \<times> nat) list" where
  "rejection_stats st now hours rows =
     rejection_counts (now - hours * 3600 * 10 ^ 6) (mode_value (mode_setting st)) None rows"

definition latency_page :: "settings \<Rightarrow> datetime \<Rightarrow> int \<Rightarrow> dated_decision list \<Rightarrow> latency_stats" where
  "latency_page st now hours rows =
     latency_percentiles (now - hours * 3600 * 10 ^ 6) (mode_value (mode_setting st)) rows"

section \<open>Portfolio\<close>

definition portfolio_page ::
    "ledger_store \<Rightarrow> portfolio_state \<times> (string \<rightharpoonup> usd) \<times> (string \<rightharpoonup> usd)" where
  "portfolio_page s = (snapshot s, exposures s)"

definition performance_page :: "settings \<Rightarrow> datetime \<Rightarrow> int \<Rightarrow> equity_point list \<Rightarrow> equity_point list" where
  "performance_page st now hours points =
     sort_key eq_captured_at (filter (\<lambda>p. eq_mode p = mode_value (mode_setting st) \<and>
       now - hours * 3600 * 10 ^ 6 \<le> eq_captured_at p) points)"

definition positions_page :: "settings \<Rightarrow> string option \<Rightarrow> nat \<Rightarrow> database \<Rightarrow> position list" where
  "positions_page st status limit d =
     take limit (desc_by p_opened_at (filter_if status (\<lambda>p. position_status_value (p_status p))
       (filter (\<lambda>p. p_mode p = mode_value (mode_setting st)) (db_positions d))))"

definition position_page :: "nat \<Rightarrow> database \<Rightarrow> (position \<times> position_event list) reply" where
  "position_page pid d =
     (case find (\<lambda>p. p_id p = pid) (db_positions d) of
        None \<Rightarrow> Not_found
      | Some p \<Rightarrow> Page (p, sort_key pe_seq (events_of pid d)))"

section \<open>What the pages show\<close>

lemma desc_by_sorted: "sorted_wrt (\<lambda>a b. f b \<le> f a) (desc_by f rows)"
  using sorted_sort_key [of "\<lambda>r. - f r" rows] by (simp add: desc_by_def sorted_wrt_map)

lemma set_desc_by [simp]: "set (desc_by f rows) = set rows"
  by (simp add: desc_by_def)

lemma filter_ifD: "x \<in> set (filter_if v f rows) \<Longrightarrow> x \<in> set rows"
  by (auto simp: filter_if_def split: option.splits if_splits)

text \<open>No page mixes the modes: what paper trading decided or holds is not shown in live mode.\<close>

lemma pages_keep_mode:
  "v \<in> set (list_trades st wanted wallet limit rows) \<Longrightarrow> dr_mode (snd v) = mode_value (mode_setting st)"
  "p \<in> set (positions_page st status limit d) \<Longrightarrow> p_mode p = mode_value (mode_setting st)"
  "e \<in> set (performance_page st now hours points) \<Longrightarrow> eq_mode e = mode_value (mode_setting st)"
proof -
  show "v \<in> set (list_trades st wanted wallet limit rows) \<Longrightarrow> dr_mode (snd v) = mode_value (mode_setting st)"
    by (auto simp: list_trades_def dest!: in_set_takeD filter_ifD)
  show "p \<in> set (positions_page st status limit d) \<Longrightarrow> p_mode p = mode_value (mode_setting st)"
    by (auto simp: positions_page_def dest!: in_set_takeD filter_ifD)
  show "e \<in> set (performance_page st now hours points) \<Longrightarrow> eq_mode e = mode_value (mode_setting st)"
    by (simp add: performance_page_def)
qed

end
