(* ===== verification/Worker_Schedule.thy ===== *)
theory Worker_Schedule
  imports Main
begin

text \<open>
  \<^verbatim>\<open>services/worker.py\<close>: the jobs the worker knows and when it starts them.  The library
  that runs the schedule starts an entry in every minute that its weekdays, hours and minutes
  admit; a week is counted in minutes from Monday midnight.
\<close>

datatype worker_job =
    Backfill_wallet | Rescore_all | Detect_decay | Snapshot_portfolio | Attribute_performance
  | Daily_report | Reset_daily_counters | Seed_from_file | Emergency_exit_all | Run_backtest
  | Rebuild_wallet_graph | Apply_retention | Retention_report | Research_summary
  | Gate_effectiveness | Latency_profile | Trader_contribution | Weekly_review
  | Discover_wallets | Refresh_watchlist | Score_candidates | Maintain_roster | Auto_advance

definition worker_functions :: "worker_job list" where
  "worker_functions =
     [Backfill_wallet, Rescore_all, Detect_decay, Snapshot_portfolio, Attribute_performance,
      Daily_report, Reset_daily_counters, Seed_from_file, Emergency_exit_all, Run_backtest,
      Rebuild_wallet_graph, Apply_retention, Retention_report, Research_summary,
      Gate_effectiveness, Latency_profile, Trader_contribution, Weekly_review,
      Discover_wallets, Refresh_watchlist, Score_candidates, Maintain_roster, Auto_advance]"

text \<open>No restriction is \<^const>\<open>None\<close>.\<close>

record cron_entry =
  cn_job :: worker_job
  cn_weekday :: "nat option"
  cn_hours :: "nat list option"
  cn_minutes :: "nat list"

definition cron :: "worker_job \<Rightarrow> nat option \<Rightarrow> nat list option \<Rightarrow> nat list \<Rightarrow> cron_entry" where
  "cron j wd hs ms = \<lparr>cn_job = j, cn_weekday = wd, cn_hours = hs, cn_minutes = ms\<rparr>"

definition cron_jobs :: "cron_entry list" where
  "cron_jobs =
     [cron Snapshot_portfolio None None [0, 5, 10, 15, 20, 25, 30, 35, 40, 45, 50, 55],
      cron Rescore_all None (Some [4]) [17],
      cron Detect_decay None (Some [3, 15]) [23],
      cron Attribute_performance None None [7, 37],
      cron Reset_daily_counters None (Some [0]) [0],
      cron Daily_report None (Some [7]) [0],
      cron Discover_wallets None (Some [1, 5, 9, 13, 17, 21]) [5],
      cron Score_candidates None (Some [6]) [20],
      cron Maintain_roster None (Some [6, 18]) [45],
      cron Refresh_watchlist None (Some [7]) [35],
      cron Rebuild_wallet_graph None (Some [4]) [11],
      cron Auto_advance None None [50],
      cron Apply_retention None (Some [5]) [30],
      cron Weekly_review (Some 0) (Some [8]) [0]]"

definition admits :: "cron_entry \<Rightarrow> nat \<Rightarrow> nat \<Rightarrow> nat \<Rightarrow> bool" where
  "admits e day hour minute \<longleftrightarrow>
     (case cn_weekday e of None \<Rightarrow> True | Some d \<Rightarrow> d = day) \<and>
     (case cn_hours e of None \<Rightarrow> True | Some hs \<Rightarrow> hour \<in> set hs) \<and> minute \<in> set (cn_minutes e)"

definition due :: "nat \<Rightarrow> worker_job list" where
  "due t = map cn_job (filter (\<lambda>e. admits e (t div 1440 mod 7) (t div 60 mod 24) (t mod 60)) cron_jobs)"

text \<open>The entries of a job, and how often it runs in a week.\<close>

definition runs_per_week :: "worker_job \<Rightarrow> nat" where
  "runs_per_week j =
     sum_list (map (\<lambda>e. (case cn_weekday e of None \<Rightarrow> 7 | Some d \<Rightarrow> 1) *
         (case cn_hours e of None \<Rightarrow> 24 | Some hs \<Rightarrow> length hs) * length (cn_minutes e))
       (filter (\<lambda>e. cn_job e = j) cron_jobs))"

lemma scheduled_jobs_registered: "cn_job ` set cron_jobs \<subseteq> set worker_functions"
  by (simp add: cron_jobs_def worker_functions_def cron_def)

text \<open>Jobs that act for an operator are never scheduled.\<close>

lemma operator_jobs_unscheduled:
  "\<not> list_ex (\<lambda>j. j \<in> {Emergency_exit_all, Seed_from_file, Run_backtest, Backfill_wallet}) (due t)"
  unfolding due_def list_ex_iff by (simp add: cron_jobs_def cron_def)

lemma costly_jobs_once_a_day:
  "runs_per_week Rescore_all = 7" "runs_per_week Score_candidates = 7" "runs_per_week Reset_daily_counters = 7"
  "runs_per_week Weekly_review = 1" "runs_per_week Attribute_performance = 336"
  by code_simp+

text \<open>
  The daily loss counters are reset in the first minute of each day, and in no other.
\<close>

lemma in_map_filter: "c \<in> set (map f (filter P xs)) \<longleftrightarrow> (\<exists>e \<in> set xs. f e = c \<and> P e)"
  by (induction xs) auto

lemma reset_at_midnight: "Reset_daily_counters \<in> set (due t) \<longleftrightarrow> t mod 1440 = 0"
proof -
  have "t mod 1440 = 60 * (t div 60 mod 24) + t mod 60" using mod_mult2_eq [of t 60 24] by simp
  then have t: "t mod 1440 = 0 \<longleftrightarrow> t div 60 mod 24 = 0 \<and> t mod 60 = 0" by (simp only: add_is_0 mult_is_0) simp
  have "Reset_daily_counters \<in> set (due t) \<longleftrightarrow>
      (\<exists>e \<in> set cron_jobs. cn_job e = Reset_daily_counters \<and> admits e (t div 1440 mod 7) (t div 60 mod 24) (t mod 60))"
    unfolding due_def by (rule in_map_filter)
  also have "\<dots> \<longleftrightarrow> admits (cron Reset_daily_counters None (Some [0]) [0]) (t div 1440 mod 7) (t div 60 mod 24) (t mod 60)"
    unfolding cron_jobs_def by (simp add: cron_def)
  finally show ?thesis unfolding t by (simp add: admits_def cron_def)
qed

end
