(* ===== verification/Spec2Isabelle.thy ===== *)
theory Spec2Isabelle
  imports Decision_Properties Ledger_Lifecycle Exits Token_Safety Dedupe Parser Scoring Treasury
    Resilience Market Promotion Live_Execution Position_Books Hot_Path Backtest_Lookahead
    Backtest_Report Control_Routes Retention Experiments Sessions Runtime_Config Trader_Lifecycle
    Roster_Text Wallet_Stream Credit_Report Jupiter_Client Read_Routes Worker_Schedule
begin

text \<open>
  Verification of the Alpha Smart Money copy-trading system (\<^verbatim>\<open>src/src/asm\<close>), a Python
  service that watches wallets on Solana, decides which of their trades to copy, executes the
  copies in paper, shadow or live mode and manages the positions that result.

  \<^bold>\<open>Parts and how they interact.\<close>  The detection stream delivers signatures of the watched wallets
  to the decision service, which claims each one once, parses the transaction, evaluates the gates
  on a snapshot of market, token and trader, sizes the order and reserves its capital in the risk
  ledger.  An approved order is executed; its reservation is committed or released, and a position
  is opened.  The position service marks every position, applies the exit rules and settles with
  the ledger; realised profit feeds the harvest and the treasury.  Scheduled jobs discover wallets,
  score them from their history and hold the roster that says who is followed.  Operators act
  through the API: mode changes, pauses and the kill switch, tuning, imports.

  \<^bold>\<open>Data and conventions\<close> (\<open>Prelude\<close>, \<open>Domain_Enums\<close>, \<open>Domain_Models\<close>, \<open>Config\<close>,
  \<open>Money\<close>, \<open>Py_Text\<close>, \<open>Float_Bounds\<close>; the sources are \<^verbatim>\<open>domain/\<close> and \<^verbatim>\<open>config.py\<close>).  A Decimal is the
  rational number it denotes: every operation of the code is exact or rounds through \<open>quantize\<close>,
  except that a quotient with no finite expansion is kept exact where Python rounds to fifty
  digits.  A float that a result depends on goes through \<open>fl64\<close>, which rounds to 53 bits.  A
  datetime counts microseconds, a UUID is a natural number, \<^verbatim>\<open>sha256\<close> is a parameter.  An
  exception is a left value of type \<open>py_error\<close>.  Message texts and audit payloads are omitted.

  \<^bold>\<open>Entry.\<close>  \<open>Gates\<close> holds \<^verbatim>\<open>engine/gates.py\<close>, one definition per gate, and \<open>Gate_Properties\<close> their
  composition against the plain statement of what is admissible.  \<open>Sizing\<close> and \<open>Decision_Engine\<close>
  hold \<^verbatim>\<open>engine/sizing.py\<close> and \<^verbatim>\<open>engine/decision.py\<close>; \<open>Decision_Properties\<close> shows that an approved
  order was admissible and holds a reservation, and that a refusal leaves the ledger as it was.
  \<open>Market\<close> and \<open>Token_Safety\<close> build the snapshots with their caches; \<open>Experiments\<close> the arms of a
  controlled test, which cannot touch a protected limit.

  \<^bold>\<open>Capital.\<close>  \<open>Ledger\<close> models the Lua scripts of \<^verbatim>\<open>state/scripts.py\<close> as atomic steps on the hash
  they work on, with \<^verbatim>\<open>state/ledger.py\<close> above them.  \<open>Ledger_Contract\<close> states the reservation contract
  as a locale and interprets it on the scripts; \<open>Ledger_Properties\<close> carries the limits over
  interleaved and concurrent requests, \<open>Ledger_Lifecycle\<close> the life of a reservation and the latch of
  the kill switch.  \<open>Treasury\<close> holds \<^verbatim>\<open>engine/harvest.py\<close> and \<^verbatim>\<open>engine/treasury.py\<close>.

  \<^bold>\<open>Execution and positions.\<close>  \<open>Execution_Base\<close> holds the paper and backtest executors and the
  sandwich protection; \<open>Signers\<close> the key holder and its daemon; \<open>Live_Execution\<close> the shadow and the
  live path with the idempotency key, where every broadcast is logged; \<open>Exits\<close> the exit rules;
  \<open>Store\<close> the repository (\<^verbatim>\<open>db/repo.py\<close>); \<open>Positions\<close> the position service and \<open>Position_Books\<close>
  its bookkeeping, which conserves value and projects the events; \<open>Hot_Path\<close> the decision service
  with its queue, its pollers and its workers, built on \<open>Dedupe\<close> and \<open>Parser\<close>.

  \<^bold>\<open>Providers.\<close>  \<open>Resilience\<close> is the circuit breaker, the retry loop and the credit guard;
  \<open>Helius_Client\<close> the RPC client with metering, pacing and failover, \<open>Helius_Metering\<close> its bounds,
  \<open>Wallet_Stream\<close> the subscription with its reconnections, \<open>Jupiter_Client\<close> quotes and prices,
  \<open>Alerts\<close> the delivery of alerts, \<open>Redaction\<close> what the commentary layer lets out.

  \<^bold>\<open>Traders.\<close>  \<open>Scoring\<close> is the score and the life cycle of a trader; \<open>Intelligence\<close> the jobs that
  compute it from history (\<open>History\<close>), \<open>Discovery\<close> the funnel from the GMGN feeds to the roster,
  \<open>Seeding\<close> and \<open>Setup_Routes\<close> the imports and the setup pages, \<open>Graph\<close> the clusters of wallets that
  share one budget.  \<open>Trader_Lifecycle\<close> runs all of them as a step relation: a locale for rules on
  the status that every job keeps has two interpretations, that nobody becomes active and that a
  removed wallet stays removed.  \<open>Score_Columns\<close> is how the database stores and compares a score,
  \<open>Roster_Text\<close> what that does to the roster on SQLite.

  \<^bold>\<open>Operation.\<close>  \<open>Promotion\<close> is the staged advance from backtest to live; \<open>Runtime_Config\<close> the tunables
  with their bounds and their propagation; \<open>Sessions\<close> the access to the API; \<open>Control_Routes\<close> the
  controls and the emergency exit; \<open>Retention\<close> the deletion of old rows; \<open>Analytics\<close>,
  \<open>Operations\<close>, \<open>Credit_Report\<close> and \<open>Read_Routes\<close> the reports and pages; \<open>Worker_Schedule\<close> when
  the jobs run.  \<open>Backtest\<close> replays history through the same engine; \<open>Backtest_Loader\<close> feeds it,
  \<open>Backtest_Books\<close> and \<open>Backtest_Lookahead\<close> show that its books balance and that it looks at nothing
  later than the moment it simulates, \<open>Backtest_Report\<close> its figures.

  \<^bold>\<open>What the properties show.\<close>  Safety of money: the limits of the ledger hold under every
  interleaving, each trade is executed and each order broadcast at most once, the outcome that is
  recorded is the one that happened, and value is conserved from entry to exit.  Control: the kill
  switch latches, live trading is never automatic, secrets and tunables stay within their bounds.
  Liveness: exits fire unless the kill switch is set, a saved change reaches every process, an
  outage of the primary RPC server costs no call.  Some state how the code departs from its
  documentation, such as the score that is never measured and the comparison of scores as texts.

  \<^bold>\<open>Bounds and fuel.\<close>  Loops are structural recursion on what they consume (a list of pages, polls,
  attempts or events).  Union-find in \<open>Graph\<close> runs on fuel, one more than the number of nodes; the
  theorem on clusters includes that it is enough.  The polling in \<open>Helius_Client\<close> takes the answers
  of the clock as a list; it is shown to end within 113 polls.

  \<^bold>\<open>Parameters.\<close>  What is not in the repository is an argument: the answers of Helius, Jupiter, GMGN,
  Telegram and the model provider, the Solana transaction library, the digests, random draws, clocks
  and the order of a Python set.  A query that adds money on SQLite adds floats; it is modelled as
  the exact sum.

  \<^bold>\<open>Not modelled.\<close>  The declarations of the tables and the migration (the columns in use are the
  records of \<open>Store\<close>), engine and session handling, the event bus, which forwards to Redis streams
  (publications are kept as a log), the command line, log processors and the wiring of the
  application, the rendering of pages, and the methods of the adapters that forward one field of an
  answer.  Concurrency is modelled at the granularity of awaits that matter to shared state: scripts
  and single commands of Redis are atomic, and a database session commits whole.
\<close>

end
